(* ===== verification/Prelude.thy ===== *)
theory Prelude
  imports Main "HOL-Library.AList" "HOL-Library.Code_Target_Numeral"
begin

text \<open>
  What every component of the model shares: the exceptions the Python code can raise, results
  that are either an exception or a value (\<open>pyexc + 'a\<close>) with the combinators that sequence
  them, the state-and-exception computations of the stateful services, and dictionaries as
  association lists in insertion order.

  \<^item> An exception class the code distinguishes by type is a constructor of \<open>pyexc\<close>; its
    argument is the fixed message the code raises it with, since callers read that message.
  \<^item> \<open>catchE\<close> is \<open>try/except\<close>: the handler decides on the exception value.
  \<^item> \<open>('s, 'a) eff\<close> is a computation that mutates a Python object (the runtime, the report,
    the state dictionary). A raised exception leaves the mutations made before it in place, so
    the final state is returned in both cases.
\<close>

section \<open>Collections of rewrite rules\<close>

named_theorems result_simps \<open>inversion of sequenced results\<close>
named_theorems eff_simps \<open>execution of stateful computations\<close>
named_theorems dict_simps \<open>lookup after update or deletion\<close>

section \<open>Exceptions\<close>

datatype pyexc =
    TypeError
  | ValueError string
  | KeyError
  | AttributeError
  | IndexError
  | AssertionError
  | OverflowError
  | ZeroDivisionError
  | InvalidOperation
  | DecimalOverflow
  | RuntimeErr string
  | ExecutionIntegrity string
  | StatePersistence string
  | OrderReconciliation string
  | ClientCallFailed string
  | EarnUnavailable string
  | AccountFactsFailed string
  | RiskAuthorityInvalid string
  | BalanceFetchFailed string
  | SessionBlocked string
  | SessionUncertain string
  | IntervalBlocked string
  | IntervalConflict string
  | IntervalUncertain string
  | ClientExc bool "int option"

text \<open>
  \<open>ClientExc transport code\<close> is whatever the Binance SDK or the network layer raises: whether
  its class is one of the timeout and connection classes, and the integer \<open>code\<close> attribute if
  there is one. \<open>BalanceFetchError\<close> (\<open>main.py\<close>) is a \<open>RuntimeError\<close>. \<open>StatePersistenceError\<close> and \<open>OrderReconciliationError\<close> are subclasses of
  \<open>ExecutionIntegrityError\<close> (\<open>runtime_support.py\<close>), \<open>AccountFactsUnavailable\<close>,
  \<open>EarnCheckpointUnavailable\<close>, \<open>LiveRiskAuthorityError\<close> and \<open>IntervalReceiptBlocked\<close> (with its
  subclass \<open>IntervalReceiptConflict\<close>) of \<open>ValueError\<close>.
\<close>

fun is_integrity_error :: "pyexc \<Rightarrow> bool" where
  "is_integrity_error (ExecutionIntegrity _) = True"
| "is_integrity_error (StatePersistence _) = True"
| "is_integrity_error (OrderReconciliation _) = True"
| "is_integrity_error _ = False"

fun is_value_error :: "pyexc \<Rightarrow> bool" where
  "is_value_error (ValueError _) = True"
| "is_value_error (EarnUnavailable _) = True"
| "is_value_error (AccountFactsFailed _) = True"
| "is_value_error (RiskAuthorityInvalid _) = True"
| "is_value_error (IntervalBlocked _) = True"
| "is_value_error (IntervalConflict _) = True"
| "is_value_error _ = False"

section \<open>Results\<close>

fun bindE :: "'e + 'a \<Rightarrow> ('a \<Rightarrow> 'e + 'b) \<Rightarrow> 'e + 'b" where
  "bindE (Inl e) f = Inl e"
| "bindE (Inr a) f = f a"

fun catchE :: "'e + 'a \<Rightarrow> ('e \<Rightarrow> 'f + 'a) \<Rightarrow> 'f + 'a" where
  "catchE (Inl e) h = h e"
| "catchE (Inr a) h = Inr a"

definition ensure :: "bool \<Rightarrow> 'e \<Rightarrow> 'e + unit" where
  "ensure b e = (if b then Inr () else Inl e)"

fun mapE :: "('a \<Rightarrow> 'e + 'b) \<Rightarrow> 'a list \<Rightarrow> 'e + 'b list" where
  "mapE f [] = Inr []"
| "mapE f (x # xs) = bindE (f x) (\<lambda>y. bindE (mapE f xs) (\<lambda>ys. Inr (y # ys)))"

fun foldE :: "('s \<Rightarrow> 'a \<Rightarrow> 'e + 's) \<Rightarrow> 's \<Rightarrow> 'a list \<Rightarrow> 'e + 's" where
  "foldE f s [] = Inr s"
| "foldE f s (x # xs) = bindE (f s x) (\<lambda>s'. foldE f s' xs)"

lemma bindE_cong [fundef_cong]:
  "m = m' \<Longrightarrow> (\<And>a. m' = Inr a \<Longrightarrow> f a = f' a) \<Longrightarrow> bindE m f = bindE m' f'"
  by (cases m') auto

lemma bindE_Inr_iff [result_simps]: "bindE m f = Inr b \<longleftrightarrow> (\<exists>a. m = Inr a \<and> f a = Inr b)"
  by (cases m) auto

lemma bindE_Inl_iff [result_simps]:
  "bindE m f = Inl e \<longleftrightarrow> m = Inl e \<or> (\<exists>a. m = Inr a \<and> f a = Inl e)"
  by (cases m) auto

lemma bindE_assoc: "bindE (bindE m f) g = bindE m (\<lambda>a. bindE (f a) g)"
  by (cases m) auto

lemma bindE_return [simp]: "bindE m Inr = m"
  by (cases m) auto

lemma catchE_Inr_iff [result_simps]:
  "catchE m h = Inr a \<longleftrightarrow> m = Inr a \<or> (\<exists>e. m = Inl e \<and> h e = Inr a)"
  by (cases m) auto

lemma catchE_Inl_iff [result_simps]: "catchE m h = Inl e \<longleftrightarrow> (\<exists>e'. m = Inl e' \<and> h e' = Inl e)"
  by (cases m) auto

lemma ensure_Inr_iff [result_simps]: "ensure b e = Inr u \<longleftrightarrow> b"
  by (simp add: ensure_def)

lemma ensure_Inl_iff [result_simps]: "ensure b e = Inl e' \<longleftrightarrow> \<not> b \<and> e' = e"
  by (auto simp: ensure_def)

lemma ensure_simps [simp]: "ensure True e = Inr ()" "ensure False e = Inl e"
  by (simp_all add: ensure_def)

lemma bindE_ensure: "bindE (ensure b e) f = (if b then f () else Inl e)"
  by (simp add: ensure_def)

lemma mapE_length: "mapE f xs = Inr ys \<Longrightarrow> length ys = length xs"
  by (induction xs arbitrary: ys) (auto simp: result_simps)

lemma mapE_Inr_all: "mapE f xs = Inr ys \<Longrightarrow> list_all2 (\<lambda>x y. f x = Inr y) xs ys"
  by (induction xs arbitrary: ys) (auto simp: result_simps)

lemma foldE_append: "foldE f s (xs @ ys) = bindE (foldE f s xs) (\<lambda>s'. foldE f s' ys)"
  by (induction xs arbitrary: s) (auto simp: bindE_assoc)

text \<open>A loop invariant of \<open>foldE\<close>: kept by every step that succeeds.\<close>

lemma foldE_invariant:
  assumes "foldE f s xs = Inr t" and "P s"
    and "\<And>s x s'. x \<in> set xs \<Longrightarrow> P s \<Longrightarrow> f s x = Inr s' \<Longrightarrow> P s'"
  shows "P t"
  using assms by (induction xs arbitrary: s) (auto simp: result_simps)

end
