(* ===== verification/Py_Decimal.thy ===== *)
theory Py_Decimal
  imports Complex_Main Py_Text
begin

text \<open>
  The standard library's \<open>decimal.Decimal\<close> as the code uses it: the sign, coefficient and
  exponent triple of \<open>as_tuple()\<close>, construction from text, exact comparison, addition,
  subtraction and multiplication rounded half-even to the precision of the current context,
  \<open>str\<close> and \<open>format(_, 'f')\<close>. The default context has 28 digits; the ledger code works in a
  local context of 100. The lemmas show when the rounding is the identity, so that sums of bounded
  amounts are exact, and that plain formatting is inverted by construction.
\<close>

datatype pydec = Dec bool nat int | DecInf bool | DecNaN bool

section \<open>Values\<close>

definition ten :: "int \<Rightarrow> rat" where
  "ten e = (if 0 \<le> e then 10 ^ nat e else 1 / 10 ^ nat (- e))"

definition signed_int :: "bool \<Rightarrow> nat \<Rightarrow> int" where
  "signed_int s c = (if s then - int c else int c)"

fun dec_finite :: "pydec \<Rightarrow> bool" where
  "dec_finite (Dec s c e) = True"
| "dec_finite _ = False"

fun dec_nan :: "pydec \<Rightarrow> bool" where
  "dec_nan (DecNaN s) = True"
| "dec_nan _ = False"

text \<open>The number a finite decimal denotes; the two infinities and NaN have none.\<close>

fun dec_val :: "pydec \<Rightarrow> rat" where
  "dec_val (Dec s c e) = of_int (signed_int s c) * ten e"
| "dec_val _ = 0"

fun dec_key :: "pydec \<Rightarrow> int" where
  "dec_key (DecInf s) = (if s then - 1 else 1)"
| "dec_key _ = 0"

definition dec_less :: "pydec \<Rightarrow> pydec \<Rightarrow> bool" where
  "dec_less a b = (dec_key a < dec_key b \<or> (dec_key a = dec_key b \<and> dec_val a < dec_val b))"

definition dec_eq :: "pydec \<Rightarrow> pydec \<Rightarrow> bool" where
  "dec_eq a b = (\<not> dec_nan a \<and> \<not> dec_nan b \<and> dec_key a = dec_key b \<and> dec_val a = dec_val b)"

text \<open>Ordering a NaN signals \<open>InvalidOperation\<close>.\<close>

definition dec_lessE :: "pydec \<Rightarrow> pydec \<Rightarrow> pyexc + bool" where
  "dec_lessE a b = (if dec_nan a \<or> dec_nan b then Inl InvalidOperation else Inr (dec_less a b))"

definition dec_zero :: pydec where
  "dec_zero = Dec False 0 0"

fun dec_is_zero :: "pydec \<Rightarrow> bool" where
  "dec_is_zero (Dec s c e) = (c = 0)"
| "dec_is_zero _ = False"

text \<open>\<open>d < 0\<close> for a finite decimal.\<close>

fun dec_negative :: "pydec \<Rightarrow> bool" where
  "dec_negative (Dec s c e) = (s \<and> c \<noteq> 0)"
| "dec_negative (DecInf s) = s"
| "dec_negative (DecNaN s) = False"

lemma ten_pos [simp]: "0 < ten e"
  by (simp add: ten_def)

lemma ten_nonzero [simp]: "ten e \<noteq> 0"
  by (metis ten_pos less_irrefl)

lemma ten_not_negative [simp]: "\<not> ten e < 0"
  by (metis ten_pos less_asym)

lemma abs_ten [simp]: "\<bar>ten e\<bar> = ten e"
  by (simp add: abs_of_pos)

lemma ten_nat: "ten (int k) = 10 ^ k"
  by (simp add: ten_def)

lemma ten_minus_nat: "ten (- int k) = 1 / 10 ^ k"
  by (cases "k = 0") (simp_all add: ten_def)

lemma ten_0 [simp]: "ten 0 = 1"
  by (simp add: ten_def)

lemma ten_powi: "ten e = 10 powi e"
  by (simp add: ten_def power_int_def field_simps power_divide)

lemma ten_add: "ten (a + b) = ten a * ten b"
  by (simp add: ten_powi power_int_add)

lemma ten_mono: "a \<le> b \<Longrightarrow> ten a \<le> ten b"
  by (simp add: ten_powi power_int_increasing)

lemma signed_0 [simp]: "signed_int s 0 = 0"
  by (simp add: signed_int_def)

lemma signed_eq_0 [simp]: "signed_int s c = 0 \<longleftrightarrow> c = 0"
  by (simp add: signed_int_def)

lemma signed_abs: "\<bar>signed_int s c\<bar> = int c"
  by (simp add: signed_int_def)

lemma signed_canonical: "signed_int (i < 0) (nat \<bar>i\<bar>) = i"
  by (simp add: signed_int_def)

lemma dec_is_zero_iff: "dec_finite d \<Longrightarrow> dec_is_zero d \<longleftrightarrow> dec_val d = 0"
  by (cases d) auto

lemma dec_negative_iff: "dec_finite d \<Longrightarrow> dec_negative d \<longleftrightarrow> dec_val d < 0"
  by (cases d) (auto simp: signed_int_def mult_less_0_iff)

lemma dec_less_finite: "dec_finite a \<Longrightarrow> dec_finite b \<Longrightarrow> dec_less a b \<longleftrightarrow> dec_val a < dec_val b"
  by (cases a; cases b) (auto simp: dec_less_def)

lemma dec_eq_finite: "dec_finite a \<Longrightarrow> dec_finite b \<Longrightarrow> dec_eq a b \<longleftrightarrow> dec_val a = dec_val b"
  by (cases a; cases b) (auto simp: dec_eq_def)

section \<open>Context rounding\<close>

text \<open>Division rounded to nearest, ties to even.\<close>

definition div_half_even :: "nat \<Rightarrow> nat \<Rightarrow> nat" where
  "div_half_even c m =
     (let q = c div m; r = c mod m
      in if m < 2 * r \<or> (2 * r = m \<and> odd q) then q + 1 else q)"

definition dec_emax :: int where
  "dec_emax = 999999"

text \<open>
  \<open>Decimal._fix\<close>: round a result to the context precision, half-even; overflow is trapped,
  a zero's exponent is clamped, a subnormal result loses digits at the least exponent.
\<close>

definition dec_fix :: "nat \<Rightarrow> pydec \<Rightarrow> pyexc + pydec" where
  "dec_fix prec d = (case d of
     Dec s c e \<Rightarrow>
       (let etiny = - dec_emax - int prec + 1; etop = dec_emax - int prec + 1
        in if c = 0 then Inr (Dec s 0 (min (max e etiny) dec_emax))
           else
             (let emin = max (int (num_digits c) + e - int prec) etiny
              in if etop < int (num_digits c) + e - int prec then Inl DecimalOverflow
                 else if e < emin then
                   (let q = div_half_even c (10 ^ nat (emin - e));
                        (q', e') = (if prec < num_digits q then (q div 10, emin + 1) else (q, emin))
                    in if etop < e' then Inl DecimalOverflow else Inr (Dec s q' e'))
                 else Inr d))
   | _ \<Rightarrow> Inr d)"

text \<open>Coefficient of \<open>d\<close> scaled down to exponent \<open>m\<close>.\<close>

definition scaled :: "bool \<Rightarrow> nat \<Rightarrow> int \<Rightarrow> int \<Rightarrow> int" where
  "scaled s c e m = signed_int s c * 10 ^ nat (e - m)"

fun dec_add_exact :: "pydec \<Rightarrow> pydec \<Rightarrow> pyexc + pydec" where
  "dec_add_exact (Dec s c e) (Dec s' c' e') =
     (let m = min e e'; t = scaled s c e m + scaled s' c' e' m
      in Inr (Dec (if t = 0 then s \<and> s' else t < 0) (nat \<bar>t\<bar>) m))"
| "dec_add_exact (DecNaN q) b = (if q then Inl InvalidOperation else case b of
     DecNaN True \<Rightarrow> Inl InvalidOperation | _ \<Rightarrow> Inr (DecNaN False))"
| "dec_add_exact a (DecNaN q) = (if q then Inl InvalidOperation else Inr (DecNaN False))"
| "dec_add_exact (DecInf s) (DecInf s') = (if s = s' then Inr (DecInf s) else Inl InvalidOperation)"
| "dec_add_exact (DecInf s) (Dec s' c' e') = Inr (DecInf s)"
| "dec_add_exact (Dec s c e) (DecInf s') = Inr (DecInf s')"

definition dec_add :: "nat \<Rightarrow> pydec \<Rightarrow> pydec \<Rightarrow> pyexc + pydec" where
  "dec_add prec a b = bindE (dec_add_exact a b) (dec_fix prec)"

fun dec_flip :: "pydec \<Rightarrow> pydec" where
  "dec_flip (Dec s c e) = Dec (\<not> s) c e"
| "dec_flip (DecInf s) = DecInf (\<not> s)"
| "dec_flip (DecNaN q) = DecNaN q"

definition dec_sub :: "nat \<Rightarrow> pydec \<Rightarrow> pydec \<Rightarrow> pyexc + pydec" where
  "dec_sub prec a b = dec_add prec a (dec_flip b)"

fun dec_mul :: "nat \<Rightarrow> pydec \<Rightarrow> pydec \<Rightarrow> pyexc + pydec" where
  "dec_mul prec (Dec s c e) (Dec s' c' e') = dec_fix prec (Dec (s \<noteq> s') (c * c') (e + e'))"
| "dec_mul prec (DecNaN q) b = (if q then Inl InvalidOperation else case b of
     DecNaN True \<Rightarrow> Inl InvalidOperation | _ \<Rightarrow> Inr (DecNaN False))"
| "dec_mul prec a (DecNaN q) = (if q then Inl InvalidOperation else Inr (DecNaN False))"
| "dec_mul prec (DecInf s) (DecInf s') = Inr (DecInf (s \<noteq> s'))"
| "dec_mul prec (DecInf s) (Dec s' c' e') = (if c' = 0 then Inl InvalidOperation else Inr (DecInf (s \<noteq> s')))"
| "dec_mul prec (Dec s c e) (DecInf s') = (if c = 0 then Inl InvalidOperation else Inr (DecInf (s \<noteq> s')))"

fun dec_abs :: "nat \<Rightarrow> pydec \<Rightarrow> pyexc + pydec" where
  "dec_abs prec (Dec s c e) = dec_fix prec (Dec False c e)"
| "dec_abs prec (DecInf s) = Inr (DecInf False)"
| "dec_abs prec (DecNaN q) = (if q then Inl InvalidOperation else Inr (DecNaN False))"

text \<open>Python's two-argument \<open>max\<close>: the first unless the second is greater.\<close>

definition dec_max :: "pydec \<Rightarrow> pydec \<Rightarrow> pyexc + pydec" where
  "dec_max a b = bindE (dec_lessE a b) (\<lambda>l. Inr (if l then b else a))"

definition dec_sum :: "nat \<Rightarrow> pydec \<Rightarrow> pydec list \<Rightarrow> pyexc + pydec" where
  "dec_sum prec z ds = foldE (dec_add prec) z ds"

section \<open>When rounding is the identity\<close>

definition dec_fits :: "nat \<Rightarrow> pydec \<Rightarrow> bool" where
  "dec_fits prec d = (case d of
     Dec s c e \<Rightarrow> (if c = 0 then - dec_emax - int prec + 1 \<le> e \<and> e \<le> dec_emax
       else num_digits c \<le> prec \<and> - dec_emax - int prec + 1 \<le> e
         \<and> int (num_digits c) + e - int prec \<le> dec_emax - int prec + 1)
   | _ \<Rightarrow> True)"

lemma dec_fix_fits: "dec_fits prec d \<Longrightarrow> dec_fix prec d = Inr d"
  by (cases d) (auto simp: dec_fix_def dec_fits_def Let_def max_def split: if_splits)

lemma scaled_val: "m \<le> e \<Longrightarrow> of_int (scaled s c e m) * ten m = of_int (signed_int s c) * ten e"
proof -
  assume "m \<le> e"
  then have "ten e = 10 ^ nat (e - m) * ten m"
    using ten_add [of "e - m" m] by (simp add: ten_def)
  then show ?thesis by (simp add: scaled_def)
qed

lemma dec_add_exact_val:
  assumes "dec_finite a" and "dec_finite b"
  obtains d where "dec_add_exact a b = Inr d" and "dec_finite d" and "dec_val d = dec_val a + dec_val b"
proof -
  from assms obtain s c e s' c' e' where ab: "a = Dec s c e" "b = Dec s' c' e'"
    by (cases a; cases b) auto
  define m t where "m = min e e'" and "t = scaled s c e m + scaled s' c' e' m"
  have "of_int t * ten m = dec_val a + dec_val b"
    unfolding t_def using scaled_val [of m e s c] scaled_val [of m e' s' c']
    by (simp add: ab m_def distrib_right)
  moreover have "signed_int (if t = 0 then s \<and> s' else t < 0) (nat \<bar>t\<bar>) = t"
    by (simp add: signed_int_def)
  ultimately show thesis
    by (intro that [of "Dec (if t = 0 then s \<and> s' else t < 0) (nat \<bar>t\<bar>) m"])
      (simp_all add: ab m_def t_def Let_def)
qed


text \<open>A coefficient has no more digits than its value and exponent allow.\<close>

lemma num_digits_le: "n < 10 ^ k \<Longrightarrow> 0 < k \<Longrightarrow> num_digits n \<le> k"
  by (simp add: num_digits_def show_nat_length_le)

lemma num_digits_pos [simp]: "0 < num_digits n"
  by (simp add: num_digits_def)

lemma coeff_bound:
  assumes "\<bar>of_int (signed_int s c) * ten e\<bar> < 10 ^ m" and "- int k \<le> e"
  shows "c < 10 ^ (m + k)"
proof -
  have "of_nat c * ten e < (10 :: rat) ^ m"
    using assms(1) by (simp add: signed_int_def abs_mult split: if_splits)
  moreover have "ten (- int k) \<le> ten e"
    using assms(2) by (rule ten_mono)
  then have "of_nat c * ten (- int k) \<le> of_nat c * ten e"
    by (intro mult_left_mono) auto
  ultimately have "of_nat c * ten (- int k) < (10 :: rat) ^ m"
    by linarith
  then have "of_nat c < (10 :: rat) ^ m * 10 ^ k"
    by (simp add: ten_minus_nat field_simps)
  then have "of_nat c < (of_nat (10 ^ (m + k)) :: rat)"
    by (simp add: power_add)
  then show ?thesis by (simp only: of_nat_less_iff)
qed

lemma coeff_exponent_bound:
  assumes "\<bar>of_int (signed_int s c) * ten e\<bar> < 10 ^ m" and "c \<noteq> 0" and "0 < m"
  shows "int (num_digits c) + e \<le> int m"
proof (cases "0 \<le> e")
  case True
  then obtain k where k: "e = int k" by (metis nonneg_int_cases)
  have "of_nat c * (10 :: rat) ^ k < 10 ^ m"
    using assms(1) by (simp add: signed_int_def abs_mult k ten_nat split: if_splits)
  then have "of_nat (c * 10 ^ k) < (of_nat (10 ^ m) :: rat)"
    by simp
  then have less: "c * 10 ^ k < 10 ^ m"
    by (simp only: of_nat_less_iff)
  moreover have "10 ^ k \<le> c * (10 :: nat) ^ k"
    using assms(2) by simp
  ultimately have "(10 :: nat) ^ k < 10 ^ m"
    by (rule le_less_trans [rotated])
  then have "k < m"
    by (rule power_less_imp_less_exp [rotated]) simp
  then have "(10 :: nat) ^ m = 10 ^ (m - k) * 10 ^ k"
    by (simp flip: power_add)
  with less have "c < 10 ^ (m - k)"
    by simp
  then have "num_digits c \<le> m - k"
    using \<open>k < m\<close> by (intro num_digits_le) auto
  with \<open>k < m\<close> k show ?thesis by simp
next
  case False
  have "c < 10 ^ (m + nat (- e))"
    using assms(1) False by (intro coeff_bound) auto
  then have "num_digits c \<le> m + nat (- e)"
    using assms(3) by (intro num_digits_le) auto
  with False show ?thesis by linarith
qed

text \<open>
  A sum bounded by \<open>10 ^ m\<close> whose operands have at most \<open>k\<close> fractional digits is exact in a
  context of at least \<open>m + k\<close> digits.
\<close>

lemma dec_fix_bounded:
  assumes "\<bar>dec_val (Dec s c e)\<bar> < 10 ^ m" and "- int k \<le> e" and "m + k \<le> prec"
    and "0 < m" and "m \<le> 999999" and "k \<le> 999999"
  obtains e' where "dec_fix prec (Dec s c e) = Inr (Dec s c e')"
    and "dec_val (Dec s c e') = dec_val (Dec s c e)" and "- int k \<le> e'"
proof (cases "c = 0")
  case True
  then show thesis
    using assms by (intro that [of "min (max e (- dec_emax - int prec + 1)) dec_emax"])
      (auto simp: dec_fix_def dec_emax_def Let_def)
next
  case False
  have c: "num_digits c \<le> m + k"
    using assms by (intro num_digits_le coeff_bound [of s c e]) auto
  have "int (num_digits c) + e \<le> int m"
    using assms False by (intro coeff_exponent_bound [of s]) auto
  with c assms False have "dec_fits prec (Dec s c e)"
    by (auto simp: dec_fits_def dec_emax_def)
  then show thesis
    using assms(2) by (intro that [of e]) (simp_all add: dec_fix_fits)
qed

lemma dec_add_bounded:
  assumes "dec_finite a" and "dec_finite b"
    and "\<bar>dec_val a + dec_val b\<bar> < 10 ^ m"
    and "\<And>s c e. a = Dec s c e \<Longrightarrow> - int k \<le> e" and "\<And>s c e. b = Dec s c e \<Longrightarrow> - int k \<le> e"
    and "m + k \<le> prec" and "0 < m" and "m \<le> 999999" and "k \<le> 999999"
  obtains s c e where "dec_add prec a b = Inr (Dec s c e)"
    and "dec_val (Dec s c e) = dec_val a + dec_val b" and "- int k \<le> e"
proof -
  from assms(1,2) obtain s c e s' c' e' where ab: "a = Dec s c e" "b = Dec s' c' e'"
    by (cases a; cases b) auto
  obtain d where d: "dec_add_exact a b = Inr d" "dec_finite d" "dec_val d = dec_val a + dec_val b"
    using assms(1,2) by (rule dec_add_exact_val)
  from d(1) obtain s'' c'' where d': "d = Dec s'' c'' (min e e')"
    by (auto simp: ab Let_def)
  have "- int k \<le> min e e'"
    using assms(4) [OF ab(1)] assms(5) [OF ab(2)] by simp
  then obtain f where "dec_fix prec d = Inr (Dec s'' c'' f)"
    and "dec_val (Dec s'' c'' f) = dec_val d" and "- int k \<le> f"
    using dec_fix_bounded [of s'' c'' "min e e'" m k prec] assms d d' by metis
  with d show thesis
    by (intro that [of s'' c'' f]) (simp_all add: dec_add_def)
qed

text \<open>\<open>-d\<close>: a zero loses its sign.\<close>

definition dec_neg :: "nat \<Rightarrow> pydec \<Rightarrow> pyexc + pydec" where
  "dec_neg prec d = (if dec_is_zero d then dec_abs prec d else dec_fix prec (dec_flip d))"

text \<open>
  Amounts of at most 30 integer and 30 fractional digits, summed up: \<open>bounded_dec n\<close> is a sum of \<open>n\<close> of them. In
  the ledger's context such sums are exact and never raise.
\<close>

definition bounded_dec :: "nat \<Rightarrow> pydec \<Rightarrow> bool" where
  "bounded_dec n d = (\<exists>s c e. d = Dec s c e \<and> - 30 \<le> e \<and> \<bar>dec_val d\<bar> \<le> of_nat n * 10 ^ 30)"

lemma bounded_add:
  assumes "bounded_dec n a" and "bounded_dec m b" and "n + m \<le> 1000000"
  obtains d where "dec_add 100 a b = Inr d" and "dec_val d = dec_val a + dec_val b" and "bounded_dec (n + m) d"
proof -
  obtain s c e s' c' e' where a: "a = Dec s c e" "- 30 \<le> e" "\<bar>dec_val a\<bar> \<le> of_nat n * 10 ^ 30"
    and b: "b = Dec s' c' e'" "- 30 \<le> e'" "\<bar>dec_val b\<bar> \<le> of_nat m * 10 ^ 30"
    using assms(1,2) by (auto simp: bounded_dec_def)
  have sum: "\<bar>dec_val a + dec_val b\<bar> \<le> of_nat (n + m) * 10 ^ 30"
    using a(3) b(3) by (simp add: distrib_right)
  have "of_nat (n + m) \<le> (of_nat 1000000 :: rat)" using assms(3) by (simp only: of_nat_le_iff)
  then have "of_nat (n + m) * 10 ^ 30 \<le> (1000000 :: rat) * 10 ^ 30" by (intro mult_right_mono) auto
  then have "\<bar>dec_val a + dec_val b\<bar> < 10 ^ 37" using sum by simp
  then obtain s'' c'' e'' where "dec_add 100 a b = Inr (Dec s'' c'' e'')"
    "dec_val (Dec s'' c'' e'') = dec_val a + dec_val b" "- 30 \<le> e''"
    using dec_add_bounded [of a b 37 30 100 thesis] a b by auto
  with sum show thesis
    by (intro that [of "Dec s'' c'' e''"]) (auto simp: bounded_dec_def)
qed

lemma bounded_flip: "bounded_dec n d \<Longrightarrow> bounded_dec n (dec_flip d) \<and> dec_val (dec_flip d) = - dec_val d"
  by (auto simp: bounded_dec_def signed_int_def)

lemma bounded_sub:
  assumes "bounded_dec n a" and "bounded_dec m b" and "n + m \<le> 1000000"
  obtains d where "dec_sub 100 a b = Inr d" and "dec_val d = dec_val a - dec_val b" and "bounded_dec (n + m) d"
  using bounded_add [OF assms(1) bounded_flip [OF assms(2), THEN conjunct1] assms(3)] bounded_flip [OF assms(2)]
  unfolding dec_sub_def by (metis diff_conv_add_uminus)

lemma bounded_finite: "bounded_dec n d \<Longrightarrow> dec_finite d"
  by (auto simp: bounded_dec_def)

lemma bounded_zero: "bounded_dec n dec_zero" "dec_val dec_zero = 0"
  by (simp_all add: bounded_dec_def dec_zero_def) blast

section \<open>Printing\<close>

definition zeros :: "nat \<Rightarrow> string" where
  "zeros n = replicate n (CHR ''0'')"

definition sign_text :: "bool \<Rightarrow> string" where
  "sign_text s = (if s then ''-'' else [])"

definition special_text :: "pydec \<Rightarrow> string" where
  "special_text d = (case d of
     DecInf s \<Rightarrow> sign_text s @ ''Infinity'' | DecNaN q \<Rightarrow> (if q then ''sNaN'' else ''NaN'') | _ \<Rightarrow> [])"

text \<open>\<open>format(d, 'f')\<close>: positional notation, no exponent.\<close>

definition positional :: "string \<Rightarrow> int \<Rightarrow> string" where
  "positional ds dot =
     (if dot \<le> 0 then ''0.'' @ zeros (nat (- dot)) @ ds
      else if int (length ds) \<le> dot then ds @ zeros (nat (dot - int (length ds)))
      else take (nat dot) ds @ ''.'' @ drop (nat dot) ds)"

definition dec_format_f :: "pydec \<Rightarrow> string" where
  "dec_format_f d = (case d of
     Dec s c e \<Rightarrow>
       (let e' = (if c = 0 \<and> 0 < e then 0 else e); ds = show_nat c
        in sign_text s @ positional ds (e' + int (length ds)))
   | _ \<Rightarrow> special_text d)"

text \<open>\<open>str(d)\<close>: scientific notation unless the exponent is at most 0 and not too small.\<close>

definition dec_str :: "pydec \<Rightarrow> string" where
  "dec_str d = (case d of
     Dec s c e \<Rightarrow>
       (let ds = show_nat c; left = e + int (length ds); dot = (if e \<le> 0 \<and> - 6 < left then left else 1)
        in sign_text s @ positional ds dot
           @ (if left = dot then []
              else ''E'' @ (if 0 \<le> left - dot then ''+'' else []) @ show_int (left - dot)))
   | _ \<Rightarrow> special_text d)"

section \<open>Parsing\<close>

text \<open>An optional leading sign: whether it is a minus, and the rest.\<close>

definition split_sign :: "string \<Rightarrow> bool \<times> string" where
  "split_sign s = (case s of [] \<Rightarrow> (False, [])
     | c # r \<Rightarrow> if c = CHR ''-'' then (True, r) else if c = CHR ''+'' then (False, r) else (False, s))"

text \<open>An exponent suffix: an optional sign and at least one digit.\<close>

definition parse_exponent :: "string \<Rightarrow> int option" where
  "parse_exponent s =
     (let (neg, t) = split_sign s
      in if t = [] \<or> \<not> list_all is_digit t then None
         else Some (if neg then - int (nat_of_digits t) else int (nat_of_digits t)))"

text \<open>A fraction: a point and digits, and what follows it.\<close>

definition split_fraction :: "string \<Rightarrow> string \<times> string" where
  "split_fraction r = (case r of [] \<Rightarrow> ([], [])
     | c # t \<Rightarrow> if c = CHR ''.'' then (takeWhile is_digit t, dropWhile is_digit t) else ([], r))"

text \<open>Digits with an optional fraction and exponent: the coefficient and its power of ten.\<close>

definition parse_numeral :: "string \<Rightarrow> (nat \<times> int) option" where
  "parse_numeral s =
     (let ip = takeWhile is_digit s; (fp, r) = split_fraction (dropWhile is_digit s);
          c = nat_of_digits (ip @ fp); e = - int (length fp)
      in if ip = [] \<and> fp = [] then None
         else (case r of [] \<Rightarrow> Some (c, e)
               | x # t \<Rightarrow> if lower_char x = CHR ''e'' then map_option (\<lambda>k. (c, e + k)) (parse_exponent t) else None))"

definition dec_parse_nan :: "string \<Rightarrow> pydec option" where
  "dec_parse_nan t =
     (let l = lower t in
      if starts_with l ''snan'' \<and> list_all is_digit (drop 4 l) then Some (DecNaN True)
      else if starts_with l ''nan'' \<and> list_all is_digit (drop 3 l) then Some (DecNaN False)
      else None)"

text \<open>
  \<open>Decimal(s)\<close> for a string: surrounding whitespace and every underscore are ignored;
  \<open>None\<close> is the trapped \<open>InvalidOperation\<close>, which also covers an exponent beyond what the C
  implementation can represent exactly.
\<close>

definition dec_representable :: "nat \<Rightarrow> int \<Rightarrow> bool" where
  "dec_representable c e =
     (- 1999999999999999997 \<le> e
      \<and> e + (if c = 0 then 0 else int (num_digits c) - 1) \<le> 999999999999999999)"

definition dec_parse :: "string \<Rightarrow> pydec option" where
  "dec_parse s0 =
     (let (neg, t) = split_sign (filter (\<lambda>c. c \<noteq> CHR ''_'') (strip s0))
      in if lower t = ''inf'' \<or> lower t = ''infinity'' then Some (DecInf neg)
         else (case parse_numeral t of
             None \<Rightarrow> dec_parse_nan t
           | Some (c, e) \<Rightarrow> if dec_representable c e then Some (Dec neg c e) else None))"

definition dec_parseE :: "string \<Rightarrow> pyexc + pydec" where
  "dec_parseE s = (case dec_parse s of None \<Rightarrow> Inl InvalidOperation | Some d \<Rightarrow> Inr d)"

end
