(* ===== verification/Py_Float.thy ===== *)
theory Py_Float
  imports Py_Decimal
begin

text \<open>
  Python's \<open>float\<close>: IEEE binary64. A finite value is the rational it denotes, and every operation
  is the exact rational result rounded to nearest, ties to even, by \<open>fl\<close>. Negative zero is
  identified with zero; the code never prints or divides by a signed zero. Rounding is monotone,
  keeps signs and fixes every representable number, which is what bounds on amounts and budgets
  need. \<open>float_repr\<close> prints the shortest decimal that reads back as the same value.
\<close>

datatype pyfloat = Fin rat | PosInf | NegInf | NaN

section \<open>Rounding to binary64\<close>

definition pow2 :: "int \<Rightarrow> rat" where
  "pow2 e = (if 0 \<le> e then 2 ^ nat e else 1 / 2 ^ nat (- e))"

definition round_half_even :: "rat \<Rightarrow> int" where
  "round_half_even x =
     (let f = \<lfloor>x\<rfloor>; r = x - of_int f
      in if r < 1 / 2 \<or> (r = 1 / 2 \<and> even f) then f else f + 1)"

text \<open>Number of binary digits of a positive integer.\<close>

function bits :: "int \<Rightarrow> int" where
  "bits n = (if n \<le> 0 then 0 else 1 + bits (n div 2))"
  by auto
termination by (relation "measure nat") auto

declare bits.simps [simp del]

text \<open>The exponent of the greatest power of two not above a positive rational.\<close>

definition floor_log2 :: "rat \<Rightarrow> int" where
  "floor_log2 x =
     (let (p, q) = quotient_of x; k = bits p - bits q in if pow2 k \<le> x then k else k - 1)"

text \<open>Exponent of the last mantissa bit at magnitude \<open>x\<close>; subnormals share the least one.\<close>

definition ulp_exp :: "rat \<Rightarrow> int" where
  "ulp_exp x = max (floor_log2 x - 52) (- 1074)"

definition fl_rat :: "rat \<Rightarrow> rat" where
  "fl_rat x = (if x = 0 then 0
     else of_int (round_half_even (x / pow2 (ulp_exp \<bar>x\<bar>))) * pow2 (ulp_exp \<bar>x\<bar>))"

definition fl :: "rat \<Rightarrow> pyfloat" where
  "fl x = (let y = fl_rat x in if pow2 1024 \<le> y then PosInf else if y \<le> - pow2 1024 then NegInf else Fin y)"

lemma pow2_pos [simp]: "0 < pow2 e"
  by (simp add: pow2_def)

lemma pow2_nonzero [simp]: "pow2 e \<noteq> 0"
  by (metis pow2_pos less_irrefl)

lemma pow2_nonneg [simp]: "0 \<le> pow2 e"
  by (rule less_imp_le) simp

lemma pow2_powi: "pow2 e = 2 powi e"
  by (simp add: pow2_def power_int_def field_simps power_divide)

lemma pow2_add: "pow2 (a + b) = pow2 a * pow2 b"
  by (simp add: pow2_powi power_int_add)

lemma pow2_mono: "a \<le> b \<Longrightarrow> pow2 a \<le> pow2 b"
  by (simp add: pow2_powi power_int_increasing)

lemma pow2_strict_mono: "a < b \<Longrightarrow> pow2 a < pow2 b"
  by (simp add: pow2_powi power_int_strict_increasing)

lemma pow2_less_iff: "pow2 a < pow2 b \<longleftrightarrow> a < b"
  by (meson linorder_not_less pow2_mono pow2_strict_mono)

lemma bits_bounds: "0 < n \<Longrightarrow> pow2 (bits n - 1) \<le> of_int n \<and> of_int n < pow2 (bits n)"
proof (induction n rule: bits.induct)
  case (1 n)
  show ?case
  proof (cases "n = 1")
    case True
    then show ?thesis by (simp add: bits.simps pow2_def)
  next
    case False
    with "1.prems" have "0 < n div 2" by simp
    with "1.IH" "1.prems" have IH: "pow2 (bits (n div 2) - 1) \<le> of_int (n div 2)"
      "of_int (n div 2) < pow2 (bits (n div 2))" by auto
    have b: "bits n = 1 + bits (n div 2)" using "1.prems" by (subst bits.simps) simp
    have d: "pow2 (1 + e) = 2 * pow2 e" for e by (simp add: pow2_add) (simp add: pow2_def)
    have "0 \<le> bits m" for m :: int
      by (induction m rule: bits.induct) (subst bits.simps, simp)
    then have "pow2 (bits (n div 2)) = of_int (2 ^ nat (bits (n div 2)))"
      by (simp add: pow2_def)
    with IH(2) have "n div 2 + 1 \<le> 2 ^ nat (bits (n div 2))"
      by (metis of_int_less_iff zless_imp_add1_zle)
    then have "n < 2 * 2 ^ nat (bits (n div 2))" by linarith
    then have "of_int n < (of_int (2 * 2 ^ nat (bits (n div 2))) :: rat)"
      by (simp only: of_int_less_iff)
    then have "of_int n < 2 * pow2 (bits (n div 2))"
      using \<open>pow2 (bits (n div 2)) = _\<close> by simp
    moreover have "2 * of_int (n div 2) \<le> (of_int n :: rat)"
      by (metis mult.commute div_mult_mod_eq of_int_le_iff of_int_mult of_int_numeral
          add_le_same_cancel1 le_add_same_cancel1 pos_mod_sign zero_less_numeral)
    ultimately show ?thesis
      using IH(1) d [of "bits (n div 2) - 1"] d [of "bits (n div 2)"] by (simp add: b)
  qed
qed

lemma floor_log2: "0 < x \<Longrightarrow> pow2 (floor_log2 x) \<le> x \<and> x < pow2 (floor_log2 x + 1)"
proof -
  assume x: "0 < x"
  obtain p q where pq: "quotient_of x = (p, q)" by (cases "quotient_of x")
  then have q: "0 < q" and xq: "x = of_int p / of_int q"
    by (simp_all add: quotient_of_denom_pos quotient_of_div)
  with x have p: "0 < p" by (simp add: zero_less_divide_iff)
  define k where "k = bits p - bits q"
  have lo: "pow2 (k - 1) \<le> x"
  proof -
    have "pow2 (k - 1) * of_int q \<le> pow2 (k - 1) * pow2 (bits q)"
      using bits_bounds [OF q] by (intro mult_left_mono) auto
    also have "\<dots> = pow2 (bits p - 1)" by (simp add: k_def flip: pow2_add)
    also have "\<dots> \<le> of_int p" using bits_bounds [OF p] by simp
    finally show ?thesis using q by (simp add: xq field_simps)
  qed
  have hi: "x < pow2 (k + 1)"
  proof -
    have "of_int p < pow2 (bits p)" using bits_bounds [OF p] by simp
    also have "\<dots> = pow2 (k + 1) * pow2 (bits q - 1)" by (simp add: k_def flip: pow2_add)
    also have "\<dots> \<le> pow2 (k + 1) * of_int q"
      using bits_bounds [OF q] by (intro mult_left_mono) auto
    finally show ?thesis using q by (simp add: xq field_simps)
  qed
  from lo hi show ?thesis
    by (auto simp: floor_log2_def pq k_def [symmetric])
qed

lemma floor_log2_eqI: "pow2 k \<le> x \<Longrightarrow> x < pow2 (k + 1) \<Longrightarrow> floor_log2 x = k"
proof -
  assume k: "pow2 k \<le> x" "x < pow2 (k + 1)"
  then have "0 < x" by (metis less_le_trans pow2_pos)
  with k show ?thesis
    using floor_log2 [of x] pow2_less_iff [of k "floor_log2 x + 1"] pow2_less_iff [of "floor_log2 x" "k + 1"]
    by linarith
qed

lemma floor_log2_mono: "0 < x \<Longrightarrow> x \<le> y \<Longrightarrow> floor_log2 x \<le> floor_log2 y"
  using floor_log2 [of x] floor_log2 [of y] pow2_less_iff [of "floor_log2 x" "floor_log2 y + 1"]
  by linarith

lemma round_half_even_int [simp]: "round_half_even (of_int i) = i"
  by (simp add: round_half_even_def)

lemma round_half_even_floor: "round_half_even x = \<lfloor>x\<rfloor> \<or> round_half_even x = \<lfloor>x\<rfloor> + 1 \<and> 1 / 2 \<le> x - of_int \<lfloor>x\<rfloor>"
  by (auto simp: round_half_even_def Let_def)

lemma round_half_even_mono: "x \<le> y \<Longrightarrow> round_half_even x \<le> round_half_even y"
proof (cases "\<lfloor>x\<rfloor> = \<lfloor>y\<rfloor>")
  case True
  assume "x \<le> y"
  then show ?thesis using True by (auto simp: round_half_even_def Let_def)
next
  case False
  assume "x \<le> y"
  with False have "\<lfloor>x\<rfloor> + 1 \<le> \<lfloor>y\<rfloor>" using floor_mono [of x y] by linarith
  then show ?thesis
    using round_half_even_floor [of x] round_half_even_floor [of y] by linarith
qed

lemma round_half_even_minus: "round_half_even (- x) = - round_half_even x"
proof (cases "x = of_int \<lfloor>x\<rfloor>")
  case True
  then show ?thesis by (metis of_int_minus round_half_even_int)
next
  case False
  then have "of_int \<lfloor>x\<rfloor> < x"
    by (metis of_int_floor_le le_less)
  then have f: "\<lfloor>- x\<rfloor> = - \<lfloor>x\<rfloor> - 1"
    by (subst floor_eq_iff) (simp, linarith)
  then show ?thesis by (auto simp: round_half_even_def Let_def)
qed

lemma round_half_even_error: "\<bar>of_int (round_half_even x) - x\<bar> \<le> 1 / 2"
proof -
  have "0 \<le> x - of_int \<lfloor>x\<rfloor>" "x - of_int \<lfloor>x\<rfloor> < 1" by linarith+
  then show ?thesis by (simp add: round_half_even_def Let_def abs_le_iff)
qed


text \<open>A binary64 grid point stays put; powers of two bound each binade.\<close>

lemma grid_pow2: "ulp_exp x \<le> k \<Longrightarrow> \<exists>i :: int. pow2 k / pow2 (ulp_exp x) = of_int i"
proof -
  assume "ulp_exp x \<le> k"
  then obtain n where n: "k = ulp_exp x + int n" by (metis zle_iff_zadd)
  have "pow2 k / pow2 (ulp_exp x) = pow2 (int n)" by (simp add: n pow2_add)
  also have "\<dots> = of_int (2 ^ n)" by (simp add: pow2_def)
  finally show ?thesis ..
qed

lemma fl_rat_minus: "fl_rat (- x) = - fl_rat x"
  by (simp add: fl_rat_def round_half_even_minus)

lemma fl_rat_0 [simp]: "fl_rat 0 = 0"
  by (simp add: fl_rat_def)

lemma fl_rat_nonneg: "0 \<le> x \<Longrightarrow> 0 \<le> fl_rat x"
proof -
  assume "0 \<le> x"
  then have "round_half_even (of_int 0) \<le> round_half_even (x / pow2 (ulp_exp \<bar>x\<bar>))"
    by (intro round_half_even_mono) simp
  then show ?thesis
    unfolding round_half_even_int by (simp add: fl_rat_def zero_le_mult_iff)
qed

lemma fl_rat_mono_pos:
  assumes "0 < x" and "x \<le> y"
  shows "fl_rat x \<le> fl_rat y"
proof (cases "ulp_exp x = ulp_exp y")
  case True
  have "round_half_even (x / pow2 (ulp_exp y)) \<le> round_half_even (y / pow2 (ulp_exp y))"
    using assms by (intro round_half_even_mono divide_right_mono) auto
  with True assms show ?thesis by (simp add: fl_rat_def)
next
  case False
  define k where "k = floor_log2 y"
  have "floor_log2 x \<le> k" using assms by (simp add: k_def floor_log2_mono)
  with False have less: "floor_log2 x < k" and ey: "ulp_exp y = k - 52" and ex: "ulp_exp x \<le> k"
    by (auto simp: ulp_exp_def k_def max_def split: if_splits)
  have xk: "x \<le> pow2 k"
  proof -
    have "x < pow2 (floor_log2 x + 1)" using floor_log2 assms(1) by simp
    also have "\<dots> \<le> pow2 k" using less by (intro pow2_mono) simp
    finally show ?thesis by simp
  qed
  have ky: "pow2 k \<le> y" using floor_log2 [of y] assms by (simp add: k_def)
  obtain i where i: "pow2 k / pow2 (ulp_exp x) = of_int i" using grid_pow2 [OF ex] by blast
  have "round_half_even (x / pow2 (ulp_exp x)) \<le> round_half_even (of_int i)"
    using xk by (intro round_half_even_mono) (simp add: divide_right_mono flip: i)
  then have "of_int (round_half_even (x / pow2 (ulp_exp x))) \<le> pow2 k / pow2 (ulp_exp x)"
    by (simp add: i)
  then have "fl_rat x \<le> pow2 k" using assms by (simp add: fl_rat_def pos_le_divide_eq)
  moreover obtain j where j: "pow2 k / pow2 (ulp_exp y) = of_int j"
    using grid_pow2 [of y k] ey by auto
  have "round_half_even (of_int j) \<le> round_half_even (y / pow2 (ulp_exp y))"
    using ky by (intro round_half_even_mono) (simp add: divide_right_mono flip: j)
  then have "pow2 k / pow2 (ulp_exp y) \<le> of_int (round_half_even (y / pow2 (ulp_exp y)))"
    by (simp add: j)
  then have "pow2 k \<le> fl_rat y" using assms by (simp add: fl_rat_def pos_divide_le_eq)
  ultimately show ?thesis by simp
qed

lemma fl_rat_mono: "x \<le> y \<Longrightarrow> fl_rat x \<le> fl_rat y"
proof -
  assume "x \<le> y"
  then consider "0 < x" | "x \<le> 0" "0 \<le> y" | "y < 0" by linarith
  then show ?thesis
  proof cases
    case 1
    then show ?thesis using \<open>x \<le> y\<close> by (rule fl_rat_mono_pos)
  next
    case 2
    then show ?thesis using fl_rat_nonneg [of "- x"] fl_rat_nonneg [of y] by (simp add: fl_rat_minus)
  next
    case 3
    then show ?thesis using \<open>x \<le> y\<close> fl_rat_mono_pos [of "- y" "- x"] by (simp add: fl_rat_minus)
  qed
qed

text \<open>The values on the binary64 grid.\<close>

definition representable :: "rat \<Rightarrow> bool" where
  "representable x = (fl_rat x = x \<and> \<bar>x\<bar> < pow2 1024)"

lemma representable_fl: "representable x \<Longrightarrow> fl x = Fin x"
  by (auto simp: representable_def fl_def Let_def)

lemma fl_rat_pow2: "- 1074 \<le> k \<Longrightarrow> fl_rat (pow2 k) = pow2 k"
proof -
  assume k: "- 1074 \<le> k"
  have "floor_log2 (pow2 k) = k"
    using floor_log2 [of "pow2 k"] pow2_less_iff [of k] pow2_less_iff [of _ k]
    by (metis linorder_not_less pow2_pos zle_add1_eq_le order_antisym_conv)
  then have "ulp_exp (pow2 k) \<le> k" using k by (simp add: ulp_exp_def)
  from grid_pow2 [OF this] obtain i where "pow2 k / pow2 (ulp_exp (pow2 k)) = of_int i" ..
  then show ?thesis
    by (simp add: fl_rat_def abs_of_pos) (simp add: field_simps)
qed

text \<open>Rounding lands on a grid point whose own rounding changes nothing.\<close>

lemma fl_rat_idem: "fl_rat (fl_rat x) = fl_rat x"
proof -
  have pos: "fl_rat (fl_rat x) = fl_rat x" if "0 < x" for x
  proof -
    define e where "e = ulp_exp x"
    define m where "m = round_half_even (x / pow2 e)"
    have f: "fl_rat x = of_int m * pow2 e" using that by (simp add: fl_rat_def e_def m_def)
    have "floor_log2 x \<le> e + 52" by (simp add: e_def ulp_exp_def)
    then have "x < pow2 (e + 53)"
      using floor_log2 [OF that] pow2_mono [of "floor_log2 x + 1" "e + 53"] by linarith
    then have le: "fl_rat x \<le> pow2 (e + 53)"
      using fl_rat_mono [of x "pow2 (e + 53)"] fl_rat_pow2 [of "e + 53"]
      by (simp add: e_def ulp_exp_def)
    have nonneg: "0 \<le> fl_rat x" using that by (simp add: fl_rat_nonneg)
    consider "fl_rat x = 0" | "fl_rat x = pow2 (e + 53)" | "0 < fl_rat x" "fl_rat x < pow2 (e + 53)"
      using le nonneg by linarith
    then show ?thesis
    proof cases
      case 2
      then show ?thesis using fl_rat_pow2 [of "e + 53"] by (simp add: e_def ulp_exp_def)
    next
      case 3
      then have "floor_log2 (fl_rat x) < e + 53"
        using floor_log2 [of "fl_rat x"] pow2_less_iff [of "floor_log2 (fl_rat x)" "e + 53"] by linarith
      then have "ulp_exp (fl_rat x) \<le> e" by (simp add: ulp_exp_def e_def)
      then obtain i where i: "pow2 e / pow2 (ulp_exp (fl_rat x)) = of_int i"
        using grid_pow2 by blast
      then have "of_int m * pow2 e / pow2 (ulp_exp (fl_rat x)) = of_int (m * i)"
        by (simp flip: times_divide_eq_right)
      then have "fl_rat x / pow2 (ulp_exp (fl_rat x)) = of_int (m * i)" by (simp only: f)
      then have "round_half_even (fl_rat x / pow2 (ulp_exp (fl_rat x))) = m * i"
        by (simp only: round_half_even_int)
      moreover have "of_int (m * i) * pow2 (ulp_exp (fl_rat x)) = fl_rat x"
        using i by (simp add: f field_simps)
      ultimately show ?thesis using 3 by (simp add: fl_rat_def [of "fl_rat x"])
    qed simp
  qed
  consider "0 < x" | "x = 0" | "0 < - x" by linarith
  then show ?thesis
    by cases (use pos [of x] pos [of "- x"] in \<open>simp_all add: fl_rat_minus\<close>)
qed

lemma fl_Fin_representable: "fl x = Fin y \<Longrightarrow> representable y"
  by (auto simp: fl_def Let_def representable_def fl_rat_idem split: if_splits)

lemma fl_Fin_iff: "fl x = Fin y \<longleftrightarrow> y = fl_rat x \<and> \<bar>fl_rat x\<bar> < pow2 1024"
  by (auto simp: fl_def Let_def)


lemma fl_rat_int_pos: "0 < i \<Longrightarrow> i \<le> 2 ^ 53 \<Longrightarrow> fl_rat (of_int i) = of_int i"
proof -
  assume i: "0 < i" "i \<le> 2 ^ 53"
  show ?thesis
  proof (cases "i = 2 ^ 53")
    case True
    have "pow2 53 = of_int i" by (simp add: True pow2_def)
    then show ?thesis using fl_rat_pow2 [of 53] by simp
  next
    case False
    with i have "i < 2 ^ 53" by simp
    then have "of_int i < (of_int (2 ^ 53) :: rat)" by (simp only: of_int_less_iff)
    then have "of_int i < pow2 53" by (simp add: pow2_def)
    then have "floor_log2 (of_int i) < 53"
      using floor_log2 [of "of_int i"] i pow2_less_iff [of "floor_log2 (of_int i)" 53] by simp
    then have "ulp_exp (of_int i) \<le> 0" by (simp add: ulp_exp_def)
    then obtain k where k: "ulp_exp (of_int i) = - int k" by (metis zle_iff_zadd uminus_add_conv_diff
          add.commute add_0 minus_equation_iff diff_0 eq_neg_iff_add_eq_0 neg_eq_iff_add_eq_0)
    then have "pow2 (ulp_exp (of_int i)) = 1 / 2 ^ k" by (cases "k = 0") (simp_all add: pow2_def)
    moreover have "round_half_even (of_int i * 2 ^ k) = i * 2 ^ k"
      using round_half_even_int [of "i * 2 ^ k"] by simp
    ultimately show ?thesis using i by (simp add: fl_rat_def)
  qed
qed

lemma fl_of_int: "\<bar>i\<bar> \<le> 2 ^ 53 \<Longrightarrow> fl (of_int i) = Fin (of_int i)"
proof -
  assume i: "\<bar>i\<bar> \<le> 2 ^ 53"
  have "fl_rat (of_int i) = of_int i"
    using fl_rat_int_pos [of i] fl_rat_int_pos [of "- i"] i
    by (cases i "0 :: int" rule: linorder_cases) (auto simp: fl_rat_minus)
  moreover have "\<bar>of_int i\<bar> < pow2 1024"
  proof -
    have "\<bar>of_int i\<bar> \<le> (of_int (2 ^ 53) :: rat)" using i by (simp only: of_int_le_iff flip: of_int_abs)
    also have "\<dots> < pow2 1024" using pow2_strict_mono [of 53 1024] by (simp add: pow2_def)
    finally show ?thesis .
  qed
  ultimately show ?thesis by (simp add: fl_Fin_iff)
qed

lemma fl_numeral [simp]: "numeral k \<le> (2 ^ 53 :: int) \<Longrightarrow> fl (numeral k) = Fin (numeral k)"
  using fl_of_int [of "numeral k"] by simp

lemma fl_minus_numeral [simp]: "numeral k \<le> (2 ^ 53 :: int) \<Longrightarrow> fl (- numeral k) = Fin (- numeral k)"
  using fl_of_int [of "- numeral k"] by simp

lemma fl_1 [simp]: "fl 1 = Fin 1"
  using fl_of_int [of 1] by simp

lemma fl_nonneg: "0 \<le> x \<Longrightarrow> fl x = Fin y \<Longrightarrow> 0 \<le> y"
  by (simp add: fl_Fin_iff fl_rat_nonneg)

lemma fl_0 [simp]: "fl 0 = Fin 0"
  by (simp add: fl_def pow2_def)

lemma fl_not_NaN [simp]: "fl x \<noteq> NaN"
  by (simp add: fl_def Let_def)

section \<open>Arithmetic and comparison\<close>

fun f_neg :: "pyfloat \<Rightarrow> pyfloat" where
  "f_neg (Fin x) = Fin (- x)"
| "f_neg PosInf = NegInf"
| "f_neg NegInf = PosInf"
| "f_neg NaN = NaN"

fun f_abs :: "pyfloat \<Rightarrow> pyfloat" where
  "f_abs (Fin x) = Fin \<bar>x\<bar>"
| "f_abs NaN = NaN"
| "f_abs _ = PosInf"

fun f_add :: "pyfloat \<Rightarrow> pyfloat \<Rightarrow> pyfloat" where
  "f_add (Fin x) (Fin y) = fl (x + y)"
| "f_add NaN _ = NaN"
| "f_add _ NaN = NaN"
| "f_add PosInf NegInf = NaN"
| "f_add NegInf PosInf = NaN"
| "f_add PosInf _ = PosInf"
| "f_add _ PosInf = PosInf"
| "f_add NegInf _ = NegInf"
| "f_add _ NegInf = NegInf"

definition f_sub :: "pyfloat \<Rightarrow> pyfloat \<Rightarrow> pyfloat" where
  "f_sub a b = f_add a (f_neg b)"

text \<open>An infinity of the given sign.\<close>

definition f_inf :: "rat \<Rightarrow> pyfloat" where
  "f_inf s = (if 0 < s then PosInf else if s < 0 then NegInf else NaN)"

fun f_sgn :: "pyfloat \<Rightarrow> rat" where
  "f_sgn (Fin x) = sgn x"
| "f_sgn PosInf = 1"
| "f_sgn NegInf = - 1"
| "f_sgn NaN = 0"

definition f_mul :: "pyfloat \<Rightarrow> pyfloat \<Rightarrow> pyfloat" where
  "f_mul a b = (case (a, b) of (Fin x, Fin y) \<Rightarrow> fl (x * y) | _ \<Rightarrow> f_inf (f_sgn a * f_sgn b))"

text \<open>Division by zero raises; a finite value over an infinity is zero.\<close>

definition f_div :: "pyfloat \<Rightarrow> pyfloat \<Rightarrow> pyexc + pyfloat" where
  "f_div a b = (case (a, b) of
     (_, Fin y) \<Rightarrow> (if y = 0 then Inl ZeroDivisionError
       else Inr (case a of Fin x \<Rightarrow> fl (x / y) | _ \<Rightarrow> f_inf (f_sgn a * sgn y)))
   | (Fin x, NaN) \<Rightarrow> Inr NaN
   | (Fin x, _) \<Rightarrow> Inr (Fin 0)
   | _ \<Rightarrow> Inr NaN)"

fun f_less :: "pyfloat \<Rightarrow> pyfloat \<Rightarrow> bool" where
  "f_less NaN _ = False"
| "f_less _ NaN = False"
| "f_less (Fin x) (Fin y) = (x < y)"
| "f_less PosInf _ = False"
| "f_less _ NegInf = False"
| "f_less _ _ = True"

definition f_eq :: "pyfloat \<Rightarrow> pyfloat \<Rightarrow> bool" where
  "f_eq a b = (a = b \<and> a \<noteq> NaN)"

definition f_le :: "pyfloat \<Rightarrow> pyfloat \<Rightarrow> bool" where
  "f_le a b = (f_less a b \<or> f_eq a b)"

fun f_finite :: "pyfloat \<Rightarrow> bool" where
  "f_finite (Fin x) = True"
| "f_finite _ = False"

text \<open>Python's two-argument \<open>max\<close> and \<open>min\<close> keep the first argument on ties and on NaN.\<close>

definition f_max :: "pyfloat \<Rightarrow> pyfloat \<Rightarrow> pyfloat" where
  "f_max a b = (if f_less a b then b else a)"

definition f_min :: "pyfloat \<Rightarrow> pyfloat \<Rightarrow> pyfloat" where
  "f_min a b = (if f_less b a then b else a)"

text \<open>\<open>sum\<close> of a list of floats, from the left (the start value \<open>0\<close> is exact).\<close>

definition f_sum :: "pyfloat list \<Rightarrow> pyfloat" where
  "f_sum xs = foldl f_add (Fin 0) xs"

text \<open>\<open>round(x, n)\<close>: correctly rounded to \<open>n\<close> decimals, ties of the exact binary value to even.\<close>

fun f_round :: "nat \<Rightarrow> pyfloat \<Rightarrow> pyfloat" where
  "f_round n (Fin x) = fl (of_int (round_half_even (x * 10 ^ n)) / 10 ^ n)"
| "f_round n a = a"

text \<open>\<open>int(x)\<close> truncates toward zero.\<close>

fun f_trunc :: "pyfloat \<Rightarrow> pyexc + int" where
  "f_trunc (Fin x) = Inr (if x < 0 then \<lceil>x\<rceil> else \<lfloor>x\<rfloor>)"
| "f_trunc NaN = Inl (ValueError ''cannot convert float NaN to integer'')"
| "f_trunc _ = Inl OverflowError"

lemma f_add_Fin: "f_add (Fin x) (Fin y) = Fin z \<longleftrightarrow> fl (x + y) = Fin z"
  by simp

lemma f_le_Fin [simp]: "f_le (Fin x) (Fin y) \<longleftrightarrow> x \<le> y"
  by (auto simp: f_le_def f_eq_def)

lemma f_le_trans: "f_le a b \<Longrightarrow> f_le b c \<Longrightarrow> f_le a c"
  by (cases a; cases b; cases c) (auto simp: f_le_def f_eq_def)

lemma f_le_refl: "a \<noteq> NaN \<Longrightarrow> f_le a a"
  by (simp add: f_le_def f_eq_def)

lemma f_less_not_le: "f_less a b \<Longrightarrow> \<not> f_le b a"
  by (cases a; cases b) (auto simp: f_le_def f_eq_def)

lemma fl_mono: "x \<le> y \<Longrightarrow> f_le (fl x) (fl y)"
  using fl_rat_mono [of x y] by (auto simp: fl_def Let_def f_le_def f_eq_def)

lemma f_min_le: "a \<noteq> NaN \<Longrightarrow> b \<noteq> NaN \<Longrightarrow> f_le (f_min a b) a \<and> f_le (f_min a b) b"
  by (cases a; cases b) (auto simp: f_min_def f_le_def f_eq_def)

lemma f_max_ge: "a \<noteq> NaN \<Longrightarrow> b \<noteq> NaN \<Longrightarrow> f_le a (f_max a b) \<and> f_le b (f_max a b)"
  by (cases a; cases b) (auto simp: f_max_def f_le_def f_eq_def)

section \<open>Conversions\<close>

definition float_of_int :: "int \<Rightarrow> pyexc + pyfloat" where
  "float_of_int i = (case fl (of_int i) of Fin x \<Rightarrow> Inr (Fin x) | _ \<Rightarrow> Inl OverflowError)"

fun float_of_dec :: "pydec \<Rightarrow> pyexc + pyfloat" where
  "float_of_dec (Dec s c e) = Inr (fl (dec_val (Dec s c e)))"
| "float_of_dec (DecInf s) = Inr (if s then NegInf else PosInf)"
| "float_of_dec (DecNaN q) = (if q then Inl (ValueError ''cannot convert signaling NaN to float'') else Inr NaN)"

text \<open>An underscore of a float literal stands between two digits.\<close>

fun underscores_ok :: "char \<Rightarrow> string \<Rightarrow> bool" where
  "underscores_ok p [] = (p \<noteq> CHR ''_'')"
| "underscores_ok p (c # cs) =
     ((c = CHR ''_'' \<longrightarrow> is_digit p) \<and> (p = CHR ''_'' \<longrightarrow> is_digit c) \<and> underscores_ok c cs)"

text \<open>\<open>float(s)\<close>.\<close>

definition float_parse :: "string \<Rightarrow> pyfloat option" where
  "float_parse s0 =
     (let s1 = strip_by is_c_space s0
      in if \<not> underscores_ok (CHR '' '') s1 then None
         else (let (neg, t) = split_sign (filter (\<lambda>c. c \<noteq> CHR ''_'') s1); l = lower t
               in if l = ''inf'' \<or> l = ''infinity'' then Some (if neg then NegInf else PosInf)
                  else if l = ''nan'' then Some NaN
                  else map_option (\<lambda>(c, e). fl (of_int (signed_int neg c) * ten e)) (parse_numeral t)))"

definition float_parseE :: "string \<Rightarrow> pyexc + pyfloat" where
  "float_parseE s = (case float_parse s of
     None \<Rightarrow> Inl (ValueError ''could not convert string to float'') | Some x \<Rightarrow> Inr x)"

text \<open>
  \<open>repr(x)\<close>: the shortest digits that read back as \<open>x\<close>, the closest when several do. With \<open>k\<close>
  digits the candidates are the two neighbours of \<open>x\<close> on the \<open>k\<close>-digit grid; 17 digits always
  suffice.
\<close>

function floor_log10 :: "rat \<Rightarrow> int \<Rightarrow> nat \<Rightarrow> int" where
  "floor_log10 x k 0 = k"
| "floor_log10 x k (Suc n) = (if x < ten k then floor_log10 x (k - 1) n
     else if ten (k + 1) \<le> x then floor_log10 x (k + 1) n else k)"
  by pat_completeness auto
termination by (relation "measure (\<lambda>(x, k, n). n)") auto

definition closest :: "rat \<Rightarrow> int \<Rightarrow> int" where
  "closest x e = round_half_even (x / ten e)"

fun shortest :: "rat \<Rightarrow> int \<Rightarrow> nat \<Rightarrow> int \<times> int" where
  "shortest x hi 0 = (closest x (hi - 16), hi - 16)"
| "shortest x hi (Suc n) =
     (let e = hi - (16 - int n); q = x / ten e; a = closest x e;
          b = (if a = \<lfloor>q\<rfloor> then \<lceil>q\<rceil> else \<lfloor>q\<rfloor>)
      in if fl_rat (of_int a * ten e) = x then (a, e)
         else if fl_rat (of_int b * ten e) = x then (b, e)
         else shortest x hi n)"


definition float_repr :: "pyfloat \<Rightarrow> string" where
  "float_repr a = (case a of
     NaN \<Rightarrow> ''nan'' | PosInf \<Rightarrow> ''inf'' | NegInf \<Rightarrow> ''-inf''
   | Fin x \<Rightarrow>
       (if x = 0 then ''0.0''
        else
          (let y = \<bar>x\<bar>; (p, q) = quotient_of y;
               k = floor_log10 y (int (num_digits (nat p)) - int (num_digits (nat q))) 3;
               (m, e) = shortest y k 17;
               ds = rev (dropWhile (\<lambda>c. c = CHR ''0'') (rev (show_nat (nat m))));
               dot = int (num_digits (nat m)) + e
           in sign_text (x < 0) @
              (if - 4 < dot \<and> dot \<le> 16 then
                 (let s = positional ds dot in if CHR ''.'' \<in> set s then s else s @ ''.0'')
               else positional ds 1 @ ''e'' @ (if dot - 1 < 0 then ''-'' else ''+'')
                    @ pad_left (CHR ''0'') 2 (show_nat (nat \<bar>dot - 1\<bar>))))))"

end
