(* ===== verification/Py_Value.thy ===== *)
theory Py_Value
  imports Py_Float
begin

text \<open>
  Dynamically typed Python values: what a JSON document, a Firestore snapshot or a broker
  response can hold, with the \<open>Decimal\<close> values the code computes. Dictionaries have string keys
  and keep their insertion order. Each operation is total: where Python raises, the result is the
  exception. Equality is Python's \<open>==\<close>, so numbers of different types compare by value and
  dictionaries regardless of order. The identity shortcut of container equality (a NaN object
  equal to itself) is not modelled: a NaN equals nothing.
\<close>

datatype pyval =
    PNone
  | PBool bool
  | PInt int
  | PFloat pyfloat
  | PDec pydec
  | PStr string
  | PList "pyval list"
  | PDict "(string \<times> pyval) list"

type_synonym pydict = "(string \<times> pyval) list"

section \<open>Type tests and truth\<close>

fun truthy :: "pyval \<Rightarrow> bool" where
  "truthy PNone = False"
| "truthy (PBool b) = b"
| "truthy (PInt i) = (i \<noteq> 0)"
| "truthy (PFloat x) = (x \<noteq> Fin 0)"
| "truthy (PDec d) = (\<not> dec_is_zero d)"
| "truthy (PStr s) = (s \<noteq> [])"
| "truthy (PList xs) = (xs \<noteq> [])"
| "truthy (PDict kvs) = (kvs \<noteq> [])"

fun is_str :: "pyval \<Rightarrow> bool" where
  "is_str (PStr s) = True"
| "is_str _ = False"

fun is_dict :: "pyval \<Rightarrow> bool" where
  "is_dict (PDict d) = True"
| "is_dict _ = False"

fun is_list :: "pyval \<Rightarrow> bool" where
  "is_list (PList xs) = True"
| "is_list _ = False"

fun is_bool :: "pyval \<Rightarrow> bool" where
  "is_bool (PBool b) = True"
| "is_bool _ = False"

text \<open>\<open>isinstance(v, int)\<close> holds of booleans too; \<open>type(v) is int\<close> does not.\<close>

fun is_int :: "pyval \<Rightarrow> bool" where
  "is_int (PInt i) = True"
| "is_int (PBool b) = True"
| "is_int _ = False"

fun is_plain_int :: "pyval \<Rightarrow> bool" where
  "is_plain_int (PInt i) = True"
| "is_plain_int _ = False"

text \<open>\<open>isinstance(v, (int, float))\<close>.\<close>

fun is_number :: "pyval \<Rightarrow> bool" where
  "is_number (PFloat x) = True"
| "is_number v = is_int v"

text \<open>A list or a dictionary has no hash, so a set membership test with it raises.\<close>

fun hashable :: "pyval \<Rightarrow> bool" where
  "hashable (PList xs) = False"
| "hashable (PDict d) = False"
| "hashable _ = True"

fun the_str :: "pyval \<Rightarrow> string" where
  "the_str (PStr s) = s"
| "the_str _ = []"

fun the_dict :: "pyval \<Rightarrow> pydict" where
  "the_dict (PDict d) = d"
| "the_dict _ = []"

fun the_list :: "pyval \<Rightarrow> pyval list" where
  "the_list (PList xs) = xs"
| "the_list _ = []"

section \<open>Dictionaries\<close>

definition dget :: "pydict \<Rightarrow> string \<Rightarrow> pyval" where
  "dget d k = (case map_of d k of Some v \<Rightarrow> v | None \<Rightarrow> PNone)"

definition dget_or :: "pydict \<Rightarrow> string \<Rightarrow> pyval \<Rightarrow> pyval" where
  "dget_or d k z = (case map_of d k of Some v \<Rightarrow> v | None \<Rightarrow> z)"

definition dhas :: "pydict \<Rightarrow> string \<Rightarrow> bool" where
  "dhas d k = (map_of d k \<noteq> None)"

definition dset :: "string \<Rightarrow> pyval \<Rightarrow> pydict \<Rightarrow> pydict" where
  "dset k v d = AList.update k v d"

definition dpop :: "string \<Rightarrow> pydict \<Rightarrow> pydict" where
  "dpop k d = AList.delete k d"

text \<open>\<open>d.update(e)\<close> and \<open>{**d, **e}\<close>.\<close>

definition dupdate :: "pydict \<Rightarrow> pydict \<Rightarrow> pydict" where
  "dupdate d e = foldl (\<lambda>acc (k, v). dset k v acc) d e"

definition dsetdefault :: "string \<Rightarrow> pyval \<Rightarrow> pydict \<Rightarrow> pydict" where
  "dsetdefault k v d = (if dhas d k then d else dset k v d)"

definition dsub :: "pydict \<Rightarrow> string \<Rightarrow> pyexc + pyval" where
  "dsub d k = (case map_of d k of Some v \<Rightarrow> Inr v | None \<Rightarrow> Inl KeyError)"

text \<open>\<open>set(d) == {...}\<close> for a dictionary.\<close>

definition keys_are :: "pydict \<Rightarrow> string list \<Rightarrow> bool" where
  "keys_are d ks = (list_all (\<lambda>k. k \<in> set ks) (map fst d) \<and> list_all (dhas d) ks)"

text \<open>\<open>v.get(k)\<close> and \<open>v[k]\<close> on any value.\<close>

definition vget :: "pyval \<Rightarrow> string \<Rightarrow> pyexc + pyval" where
  "vget v k = (case v of PDict d \<Rightarrow> Inr (dget d k) | _ \<Rightarrow> Inl AttributeError)"

definition vsub :: "pyval \<Rightarrow> string \<Rightarrow> pyexc + pyval" where
  "vsub v k = (case v of PDict d \<Rightarrow> dsub d k | _ \<Rightarrow> Inl TypeError)"

lemma dget_dset [simp, dict_simps]: "dget (dset k v d) k' = (if k' = k then v else dget d k')"
  by (simp add: dget_def dset_def update_conv')

lemma dget_or_dset [simp, dict_simps]: "dget_or (dset k v d) k' z = (if k' = k then v else dget_or d k' z)"
  by (simp add: dget_or_def dset_def update_conv')

lemma dhas_dset [simp, dict_simps]: "dhas (dset k v d) k' \<longleftrightarrow> k' = k \<or> dhas d k'"
  by (simp add: dhas_def dset_def update_conv')

lemma dsub_dset [simp, dict_simps]: "dsub (dset k v d) k' = (if k' = k then Inr v else dsub d k')"
  by (simp add: dsub_def dset_def update_conv')

lemma dget_dpop [simp, dict_simps]: "dget (dpop k d) k' = (if k' = k then PNone else dget d k')"
  by (simp add: dget_def dpop_def delete_conv')

lemma dhas_dpop [simp, dict_simps]: "dhas (dpop k d) k' \<longleftrightarrow> k' \<noteq> k \<and> dhas d k'"
  by (simp add: dhas_def dpop_def delete_conv')

lemma dset_dset [simp]: "dset k v (dset k w d) = dset k v d"
  unfolding dset_def by (induction d) auto

lemma dhas_dget: "\<not> dhas d k \<Longrightarrow> dget d k = PNone"
  by (simp add: dhas_def dget_def)

lemma dsub_dhas: "dhas d k \<Longrightarrow> dsub d k = Inr (dget d k)"
  by (auto simp: dhas_def dsub_def dget_def)

lemma dsub_Inr_iff [result_simps]: "dsub d k = Inr v \<longleftrightarrow> dhas d k \<and> v = dget d k"
  by (auto simp: dhas_def dsub_def dget_def split: option.splits)

lemma dsub_Inl_iff [result_simps]: "dsub d k = Inl e \<longleftrightarrow> \<not> dhas d k \<and> e = KeyError"
  by (auto simp: dhas_def dsub_def split: option.splits)

lemma dget_or_eq: "dget_or d k z = (if dhas d k then dget d k else z)"
  by (auto simp: dget_or_def dhas_def dget_def)

lemma dget_Nil [simp]: "dget [] k = PNone"
  by (simp add: dget_def)

lemma dhas_Nil [simp]: "\<not> dhas [] k"
  by (simp add: dhas_def)

lemma dget_Cons [simp]: "dget ((k', v) # d) k = (if k = k' then v else dget d k)"
  by (simp add: dget_def)

lemma dhas_Cons [simp]: "dhas ((k', v) # d) k \<longleftrightarrow> k = k' \<or> dhas d k"
  by (simp add: dhas_def)

lemma dhas_iff_key: "dhas d k \<longleftrightarrow> k \<in> fst ` set d"
  by (simp add: dhas_def map_of_eq_None_iff)

lemma keys_are_iff: "keys_are d ks \<longleftrightarrow> set (map fst d) = set ks"
  by (auto simp: keys_are_def list_all_iff dhas_iff_key)

lemma dget_or_Nil [simp]: "dget_or [] k z = z"
  by (simp add: dget_or_def)

lemma dget_or_Cons [simp]: "dget_or ((k', v) # d) k z = (if k = k' then v else dget_or d k z)"
  by (simp add: dget_or_def)

lemma vget_Inr_iff [result_simps]: "vget v k = Inr x \<longleftrightarrow> (\<exists>d. v = PDict d \<and> x = dget d k)"
  by (auto simp: vget_def split: pyval.splits)

lemma vget_PDict [simp]: "vget (PDict d) k = Inr (dget d k)"
  by (simp add: vget_def)

lemma vsub_PDict [simp]: "vsub (PDict d) k = dsub d k"
  by (simp add: vsub_def)

lemma vsub_Inr_iff [result_simps]: "vsub v k = Inr x \<longleftrightarrow> (\<exists>d. v = PDict d \<and> dhas d k \<and> x = dget d k)"
  by (auto simp: vsub_def result_simps split: pyval.splits)

section \<open>Equality\<close>

text \<open>Numbers of every type on one line: a finite value, or the sign of an infinity; NaN has none.\<close>

fun num_of :: "pyval \<Rightarrow> (int \<times> rat) option" where
  "num_of (PBool b) = Some (0, if b then 1 else 0)"
| "num_of (PInt i) = Some (0, of_int i)"
| "num_of (PFloat (Fin x)) = Some (0, x)"
| "num_of (PFloat PosInf) = Some (1, 0)"
| "num_of (PFloat NegInf) = Some (- 1, 0)"
| "num_of (PDec (Dec s c e)) = Some (0, dec_val (Dec s c e))"
| "num_of (PDec (DecInf s)) = Some (if s then - 1 else 1, 0)"
| "num_of _ = None"

definition num_eq :: "pyval \<Rightarrow> pyval \<Rightarrow> bool" where
  "num_eq v w = (num_of v \<noteq> None \<and> num_of v = num_of w)"

fun py_eq :: "pyval \<Rightarrow> pyval \<Rightarrow> bool"
  and py_eq_list :: "pyval list \<Rightarrow> pyval list \<Rightarrow> bool"
  and py_eq_dict :: "pydict \<Rightarrow> pydict \<Rightarrow> bool" where
  "py_eq PNone w = (w = PNone)"
| "py_eq (PStr s) w = (w = PStr s)"
| "py_eq (PList xs) w = (case w of PList ys \<Rightarrow> py_eq_list xs ys | _ \<Rightarrow> False)"
| "py_eq (PDict d) w = (case w of PDict e \<Rightarrow> length d = length e \<and> py_eq_dict d e | _ \<Rightarrow> False)"
| "py_eq (PBool b) w = num_eq (PBool b) w"
| "py_eq (PInt i) w = num_eq (PInt i) w"
| "py_eq (PFloat x) w = num_eq (PFloat x) w"
| "py_eq (PDec d) w = num_eq (PDec d) w"
| "py_eq_list [] ys = (ys = [])"
| "py_eq_list (x # xs) ys = (case ys of [] \<Rightarrow> False | y # ys' \<Rightarrow> py_eq x y \<and> py_eq_list xs ys')"
| "py_eq_dict [] e = True"
| "py_eq_dict ((k, v) # d) e =
     ((case map_of e k of Some y \<Rightarrow> py_eq v y | None \<Rightarrow> False) \<and> py_eq_dict d e)"

lemma num_eq_PStr [simp]: "\<not> num_eq v (PStr s)" "\<not> num_eq v PNone"
  by (auto simp: num_eq_def)

lemma py_eq_PStr [simp]: "py_eq v (PStr s) \<longleftrightarrow> v = PStr s"
  by (cases v) auto

lemma py_eq_PNone [simp]: "py_eq v PNone \<longleftrightarrow> v = PNone"
  by (cases v) auto

section \<open>Printing\<close>

definition hex_digit :: "nat \<Rightarrow> char" where
  "hex_digit d = (if d < 10 then chr (48 + d) else chr (87 + d))"

text \<open>\<open>repr\<close> of an ASCII string: single quotes unless only single quotes occur in it.\<close>

definition repr_char :: "char \<Rightarrow> char \<Rightarrow> string" where
  "repr_char q c =
     (if c = q \<or> ord c = 92 then [chr 92, c]
      else if ord c = 9 then [chr 92, CHR ''t''] else if ord c = 10 then [chr 92, CHR ''n'']
      else if ord c = 13 then [chr 92, CHR ''r'']
      else if is_printable c then [c]
      else [chr 92, CHR ''x'', hex_digit (ord c div 16), hex_digit (ord c mod 16)])"

definition repr_str :: "string \<Rightarrow> string" where
  "repr_str s =
     (let q = (if chr 39 \<in> set s \<and> chr 34 \<notin> set s then chr 34 else chr 39)
      in [q] @ concat (map (repr_char q) s) @ [q])"

fun py_repr :: "pyval \<Rightarrow> string"
  and repr_items :: "pyval list \<Rightarrow> string list"
  and repr_pairs :: "pydict \<Rightarrow> string list" where
  "py_repr PNone = ''None''"
| "py_repr (PBool b) = (if b then ''True'' else ''False'')"
| "py_repr (PInt i) = show_int i"
| "py_repr (PFloat x) = float_repr x"
| "py_repr (PDec d) = ''Decimal('' @ [chr 39] @ dec_str d @ [chr 39] @ '')''"
| "py_repr (PStr s) = repr_str s"
| "py_repr (PList xs) = ''['' @ join '', '' (repr_items xs) @ '']''"
| "py_repr (PDict d) = ''{'' @ join '', '' (repr_pairs d) @ ''}''"
| "repr_items [] = []"
| "repr_items (x # xs) = py_repr x # repr_items xs"
| "repr_pairs [] = []"
| "repr_pairs ((k, v) # d) = (repr_str k @ '': '' @ py_repr v) # repr_pairs d"

text \<open>\<open>str(v)\<close>.\<close>

fun py_str :: "pyval \<Rightarrow> string" where
  "py_str (PStr s) = s"
| "py_str (PDec d) = dec_str d"
| "py_str v = py_repr v"

text \<open>\<open>str(v or "")\<close>, the code's usual way to read a text field.\<close>

definition str_or_empty :: "pyval \<Rightarrow> string" where
  "str_or_empty v = (if truthy v then py_str v else [])"

definition str_or :: "pyval \<Rightarrow> string \<Rightarrow> string" where
  "str_or v z = (if truthy v then py_str v else z)"

lemma str_or_empty_simps [simp]:
  "str_or_empty (PStr s) = s" "str_or_empty PNone = []"
  by (simp_all add: str_or_empty_def)

section \<open>Conversions\<close>

text \<open>\<open>float(v)\<close>.\<close>

fun to_float :: "pyval \<Rightarrow> pyexc + pyfloat" where
  "to_float (PBool b) = Inr (Fin (if b then 1 else 0))"
| "to_float (PInt i) = float_of_int i"
| "to_float (PFloat x) = Inr x"
| "to_float (PDec d) = float_of_dec d"
| "to_float (PStr s) = float_parseE s"
| "to_float _ = Inl TypeError"

text \<open>\<open>Decimal(str(v))\<close>.\<close>

definition to_dec :: "pyval \<Rightarrow> pyexc + pydec" where
  "to_dec v = dec_parseE (py_str v)"

text \<open>\<open>int(s)\<close> for text: surrounding whitespace, a sign, underscores between digits.\<close>

definition int_parse :: "string \<Rightarrow> pyexc + int" where
  "int_parse s0 =
     (let s1 = strip s0; (neg, t) = split_sign s1; ds = filter (\<lambda>c. c \<noteq> CHR ''_'') t
      in if ds \<noteq> [] \<and> underscores_ok (CHR '' '') t \<and> list_all is_digit ds
         then Inr (if neg then - int (nat_of_digits ds) else int (nat_of_digits ds))
         else Inl (ValueError ''invalid literal for int''))"

text \<open>\<open>int(v)\<close>.\<close>

fun to_int :: "pyval \<Rightarrow> pyexc + int" where
  "to_int (PBool b) = Inr (if b then 1 else 0)"
| "to_int (PInt i) = Inr i"
| "to_int (PFloat x) = f_trunc x"
| "to_int (PDec (Dec s c e)) = Inr (if dec_val (Dec s c e) < 0 then \<lceil>dec_val (Dec s c e)\<rceil> else \<lfloor>dec_val (Dec s c e)\<rfloor>)"
| "to_int (PDec (DecInf s)) = Inl OverflowError"
| "to_int (PDec (DecNaN q)) = Inl (ValueError ''cannot convert NaN to integer'')"
| "to_int (PStr s) = int_parse s"
| "to_int _ = Inl TypeError"

end
