(* ===== verification/Py_Time.thy ===== *)
theory Py_Time
  imports Py_Value
begin

text \<open>
  The standard library's \<open>datetime\<close>: a local wall clock in microseconds since
  0001-01-01T00:00:00 and an optional UTC offset, also in microseconds (\<open>None\<close> is a naive value).
  \<open>from_iso\<close> is CPython 3.11's \<open>fromisoformat\<close>, with the forms its C code accepts; \<open>iso_text\<close>
  is \<open>isoformat\<close>. A naive value is converted as if the system clock ran in UTC, as it does where
  the program is deployed.
\<close>

datatype pydt = DT int "int option"

fun dt_local :: "pydt \<Rightarrow> int" where
  "dt_local (DT l z) = l"

fun dt_offset :: "pydt \<Rightarrow> int option" where
  "dt_offset (DT l z) = z"

fun dt_aware :: "pydt \<Rightarrow> bool" where
  "dt_aware (DT l z) = (z \<noteq> None)"

text \<open>The instant in UTC microseconds.\<close>

fun dt_utc :: "pydt \<Rightarrow> int" where
  "dt_utc (DT l z) = (case z of None \<Rightarrow> l | Some off \<Rightarrow> l - off)"

definition us_per_day :: int where "us_per_day = 86400000000"
definition us_per_hour :: int where "us_per_hour = 3600000000"
definition us_per_minute :: int where "us_per_minute = 60000000"
definition us_per_second :: int where "us_per_second = 1000000"

section \<open>Calendar\<close>

definition leap_year :: "int \<Rightarrow> bool" where
  "leap_year y = (y mod 4 = 0 \<and> (y mod 100 \<noteq> 0 \<or> y mod 400 = 0))"

definition days_in_month :: "int \<Rightarrow> int \<Rightarrow> int" where
  "days_in_month y m = (if m = 2 then (if leap_year y then 29 else 28)
     else if m \<in> {4, 6, 9, 11} then 30 else 31)"

text \<open>Days before January 1st of a year, and before the first of a month in it.\<close>

definition days_before_year :: "int \<Rightarrow> int" where
  "days_before_year y = (y - 1) * 365 + (y - 1) div 4 - (y - 1) div 100 + (y - 1) div 400"

definition days_before_month :: "int \<Rightarrow> int \<Rightarrow> int" where
  "days_before_month y m = sum_list (map (days_in_month y) [1..m - 1])"

text \<open>Day number from 0001-01-01, which is day 0.\<close>

definition day_number :: "int \<Rightarrow> int \<Rightarrow> int \<Rightarrow> int" where
  "day_number y m d = days_before_year y + days_before_month y m + d - 1"

lemma days_before_year_Suc: "days_before_year (y + 1) = days_before_year y + (if leap_year y then 366 else 365)"
proof -
  have s: "y div n = (y - 1) div n + (if y mod n = 0 then 1 else 0)" if n: "0 < n" for n :: int
  proof (cases "y mod n = 0")
    case True
    then have "y - 1 = n * (y div n - 1) + (n - 1)"
      using mult_div_mod_eq [of n y] by (simp add: right_diff_distrib)
    from int_div_pos_eq [OF this] n have "(y - 1) div n = y div n - 1" by simp
    with True show ?thesis by simp
  next
    case False
    then have pos: "0 < y mod n" using n by (simp add: order_neq_le_trans)
    have "y - 1 = n * (y div n) + (y mod n - 1)" by simp
    from int_div_pos_eq [OF this] pos n have "(y - 1) div n = y div n"
      using pos_mod_bound [OF n, of y] by simp
    with False show ?thesis by simp
  qed
  have l: "y mod 100 = 0" if "y mod 400 = 0" using that mod_mod_cancel [of 100 400 y] by simp
  have l': "y mod 4 = 0" if "y mod 100 = 0" using that mod_mod_cancel [of 4 100 y] by simp
  have gen: "365 + (if a then 1 else 0) - (if b then 1 else 0) + (if c then 1 else 0) =
      (if a \<and> (\<not> b \<or> c) then 366 else 365 :: int)" if "c \<longrightarrow> b" and "b \<longrightarrow> a" for a b c
    using that by (cases a; cases b; cases c) simp_all
  have "days_before_year (y + 1) = y * 365 + y div 4 - y div 100 + y div 400"
    by (simp add: days_before_year_def)
  also have "\<dots> = days_before_year y + (365 + (if y mod 4 = 0 then 1 else 0)
      - (if y mod 100 = 0 then 1 else 0) + (if y mod 400 = 0 then 1 else 0))"
    unfolding days_before_year_def
    by (simp only: s [of 4, OF zero_less_numeral] s [of 100, OF zero_less_numeral]
        s [of 400, OF zero_less_numeral]) (simp add: algebra_simps)
  also have "\<dots> = days_before_year y + (if leap_year y then 366 else 365)"
    unfolding leap_year_def by (subst gen) (use l l' in blast)+
  finally show ?thesis .
qed

function year_from :: "int \<Rightarrow> int \<Rightarrow> int" where
  "year_from y n = (if days_before_year (y + 1) \<le> n then year_from (y + 1) n else y)"
  by auto
termination
  by (relation "measure (\<lambda>(y, n). nat (n + 1 - days_before_year y))")
    (auto simp: days_before_year_Suc split: if_splits)

declare year_from.simps [simp del]

definition year_of_day :: "int \<Rightarrow> int" where
  "year_of_day n = year_from (n div 366 + 1) n"

fun month_from :: "int \<Rightarrow> nat \<Rightarrow> int \<Rightarrow> int \<Rightarrow> int \<times> int" where
  "month_from y 0 m r = (m, r + 1)"
| "month_from y (Suc k) m r =
     (if days_in_month y m \<le> r then month_from y k (m + 1) (r - days_in_month y m) else (m, r + 1))"

definition date_of_day :: "int \<Rightarrow> int \<times> int \<times> int" where
  "date_of_day n =
     (let y = year_of_day n; (m, d) = month_from y 11 1 (n - days_before_year y) in (y, m, d))"

definition max_day :: int where "max_day = 3652058"

definition dt_in_range :: "int \<Rightarrow> bool" where
  "dt_in_range l = (0 \<le> l \<and> l < (max_day + 1) * us_per_day)"

definition dt_day :: "pydt \<Rightarrow> int" where
  "dt_day t = dt_local t div us_per_day"

definition dt_date :: "pydt \<Rightarrow> int \<times> int \<times> int" where
  "dt_date t = date_of_day (dt_day t)"

definition valid_date :: "int \<Rightarrow> int \<Rightarrow> int \<Rightarrow> bool" where
  "valid_date y m d = (1 \<le> y \<and> y \<le> 9999 \<and> 1 \<le> m \<and> m \<le> 12 \<and> 1 \<le> d \<and> d \<le> days_in_month y m)"

section \<open>Printing\<close>

definition two :: "int \<Rightarrow> string" where
  "two i = pad_left (CHR ''0'') 2 (show_nat (nat i))"

definition pad_num :: "nat \<Rightarrow> int \<Rightarrow> string" where
  "pad_num w i = pad_left (CHR ''0'') w (show_nat (nat i))"

definition date_text :: "int \<times> int \<times> int \<Rightarrow> string" where
  "date_text ymd = (case ymd of (y, m, d) \<Rightarrow> pad_num 4 y @ ''-'' @ two m @ ''-'' @ two d)"

text \<open>\<open>strftime('%Y%m%d')\<close>.\<close>

definition compact_date :: "pydt \<Rightarrow> string" where
  "compact_date t = (case dt_date t of (y, m, d) \<Rightarrow> pad_num 4 y @ two m @ two d)"

definition clock_text :: "int \<Rightarrow> string" where
  "clock_text u = two (u div us_per_hour) @ '':'' @ two (u div us_per_minute mod 60) @ '':''
     @ two (u div us_per_second mod 60)
     @ (if u mod us_per_second = 0 then [] else ''.'' @ pad_num 6 (u mod us_per_second))"

definition offset_text :: "int \<Rightarrow> string" where
  "offset_text off =
     (let u = \<bar>off\<bar>
      in (if off < 0 then ''-'' else ''+'') @ two (u div us_per_hour) @ '':'' @ two (u div us_per_minute mod 60)
         @ (if u mod us_per_minute = 0 then []
            else '':'' @ two (u div us_per_second mod 60)
              @ (if u mod us_per_second = 0 then [] else ''.'' @ pad_num 6 (u mod us_per_second))))"

definition iso_text :: "pydt \<Rightarrow> string" where
  "iso_text t = date_text (dt_date t) @ ''T'' @ clock_text (dt_local t mod us_per_day)
     @ (case dt_offset t of None \<Rightarrow> [] | Some off \<Rightarrow> offset_text off)"

section \<open>Parsing\<close>

text \<open>Exactly \<open>n\<close> digits at the front.\<close>

definition digits :: "nat \<Rightarrow> string \<Rightarrow> (int \<times> string) option" where
  "digits n s = (if n \<le> length s \<and> list_all is_digit (take n s)
     then Some (int (nat_of_digits (take n s)), drop n s) else None)"

fun skip_digits_from :: "string \<Rightarrow> nat \<Rightarrow> nat" where
  "skip_digits_from [] i = i"
| "skip_digits_from (c # cs) i = (if is_digit c then skip_digits_from cs (i + 1) else i)"

text \<open>Where the date ends, for text of at least seven characters.\<close>

definition iso_separator :: "string \<Rightarrow> nat" where
  "iso_separator s =
     (let n = length s
      in if n = 7 then 7
         else if s ! 4 = CHR ''-'' then
           (if s ! 5 = CHR ''W'' then
              (if 8 < n \<and> s ! 8 = CHR ''-'' then
                 (if n = 9 then 0 else if 10 < n \<and> is_digit (s ! 10) then 8 else 10)
               else 8)
            else 10)
         else if s ! 4 = CHR ''W'' then
           (let i = skip_digits_from (drop 7 s) 7 in if i < 9 then i else if even i then 7 else 8)
         else 8)"

definition iso_week_day :: "int \<Rightarrow> int \<Rightarrow> int \<Rightarrow> int option" where
  "iso_week_day y w d =
     (let first = day_number y 1 1; wd = first mod 7;
          start = first - wd + (if 3 < wd then 7 else 0);
          long = (wd = 3 \<or> (wd = 2 \<and> leap_year y))
      in if 1 \<le> y \<and> y \<le> 9999 \<and> 1 \<le> d \<and> d \<le> 7 \<and> 1 \<le> w \<and> (w \<le> 52 \<or> (w = 53 \<and> long))
           \<and> 0 \<le> start + (w - 1) * 7 + d - 1 \<and> start + (w - 1) * 7 + d - 1 \<le> max_day
         then Some (start + (w - 1) * 7 + d - 1) else None)"

definition parse_iso_date :: "string \<Rightarrow> int option" where
  "parse_iso_date s = (case digits 4 s of None \<Rightarrow> None | Some (y, r) \<Rightarrow>
     (let sep = starts_with r ''-''; r1 = (if sep then drop 1 r else r)
      in if starts_with r1 ''W'' then
           (case digits 2 (drop 1 r1) of None \<Rightarrow> None | Some (w, r2) \<Rightarrow>
             if r2 = [] then iso_week_day y w 1
             else if starts_with r2 ''-'' \<noteq> sep then None
             else (case digits 1 (if sep then drop 1 r2 else r2) of
               Some (d, []) \<Rightarrow> iso_week_day y w d | _ \<Rightarrow> None))
         else (case digits 2 r1 of None \<Rightarrow> None | Some (m, r2) \<Rightarrow>
           if starts_with r2 ''-'' \<noteq> sep then None
           else (case digits 2 (if sep then drop 1 r2 else r2) of
             Some (d, []) \<Rightarrow> if valid_date y m d then Some (day_number y m d) else None
           | _ \<Rightarrow> None))))"

text \<open>
  Hours, minutes, seconds and microseconds with the flag whether text was left over. The scan of
  one component looks at the character after its two digits; a colon after the hour fixes the
  separator for the rest.
\<close>

definition parse_fraction :: "string \<Rightarrow> (int \<times> bool) option" where
  "parse_fraction s =
     (let n = min 6 (length s)
      in case digits n s of None \<Rightarrow> None
         | Some (u, r) \<Rightarrow> if n = 0 then None
             else Some (u * 10 ^ (6 - n), dropWhile is_digit r \<noteq> []))"

fun parse_clock :: "nat \<Rightarrow> bool \<Rightarrow> int list \<Rightarrow> string \<Rightarrow> (int list \<times> int \<times> bool) option" where
  "parse_clock 0 sep acc s = map_option (\<lambda>(u, more). (acc, u, more)) (parse_fraction s)"
| "parse_clock (Suc k) sep acc s = (case digits 2 s of None \<Rightarrow> None | Some (v, r) \<Rightarrow>
     (case r of [] \<Rightarrow> Some (acc @ [v], 0, False)
      | c # r' \<Rightarrow>
         (let sep' = (if k = 2 then c = CHR '':'' else sep)
          in if r' = [] then Some (acc @ [v], 0, True)
             else if sep' \<and> c = CHR '':'' then parse_clock k sep' (acc @ [v]) r'
             else if c = CHR ''.'' \<or> c = CHR '','' then
               map_option (\<lambda>(u, more). (acc @ [v], u, more)) (parse_fraction r')
             else if \<not> sep' then parse_clock k sep' (acc @ [v]) r
             else None)))"

definition clock_field :: "int list \<Rightarrow> nat \<Rightarrow> int" where
  "clock_field xs i = (if i < length xs then xs ! i else 0)"

definition is_zone_char :: "char \<Rightarrow> bool" where
  "is_zone_char c = (c = CHR ''+'' \<or> c = CHR ''-'' \<or> c = CHR ''Z'')"

definition parse_zone :: "string \<Rightarrow> int option option" where
  "parse_zone z = (case z of [] \<Rightarrow> Some None
     | c # r \<Rightarrow> if c = CHR ''Z'' then (if r = [] then Some (Some 0) else None)
         else (case parse_clock 3 True [] r of
           Some (xs, u, False) \<Rightarrow>
             (let a = clock_field xs 0 * us_per_hour + clock_field xs 1 * us_per_minute
                    + clock_field xs 2 * us_per_second + u
              in if a < us_per_day then Some (Some (if c = CHR ''-'' then - a else a)) else None)
         | _ \<Rightarrow> None))"

definition parse_iso_time :: "string \<Rightarrow> (int \<times> int option) option" where
  "parse_iso_time s =
     (let t = takeWhile (\<lambda>c. \<not> is_zone_char c) s; z = dropWhile (\<lambda>c. \<not> is_zone_char c) s
      in case (parse_clock 3 True [] t, parse_zone z) of
         (Some (xs, u, more), Some off) \<Rightarrow>
           (if (more \<and> z = []) \<or> 23 < clock_field xs 0 \<or> 59 < clock_field xs 1 \<or> 59 < clock_field xs 2 then None
            else Some (clock_field xs 0 * us_per_hour + clock_field xs 1 * us_per_minute
              + clock_field xs 2 * us_per_second + u, off))
       | _ \<Rightarrow> None)"

definition from_iso :: "string \<Rightarrow> pydt option" where
  "from_iso s =
     (if length s < 7 then None
      else (let k = iso_separator s
            in if k = 0 then None
               else (case parse_iso_date (take k s) of None \<Rightarrow> None
                 | Some day \<Rightarrow>
                   if length s \<le> k then Some (DT (day * us_per_day) None)
                   else map_option (\<lambda>(u, off). DT (day * us_per_day + u) off) (parse_iso_time (drop (k + 1) s)))))"

definition from_isoE :: "string \<Rightarrow> pyexc + pydt" where
  "from_isoE s = (case from_iso s of None \<Rightarrow> Inl (ValueError ''Invalid isoformat string'') | Some t \<Rightarrow> Inr t)"

text \<open>The code's \<open>datetime.fromisoformat(s.replace('Z', '+00:00'))\<close>.\<close>

definition parse_stamp :: "string \<Rightarrow> pyexc + pydt" where
  "parse_stamp s = from_isoE (replace_char (CHR ''Z'') ''+00:00'' s)"

section \<open>Arithmetic\<close>

definition to_utc :: "pydt \<Rightarrow> pyexc + pydt" where
  "to_utc t = (if dt_in_range (dt_utc t) then Inr (DT (dt_utc t) (Some 0)) else Inl OverflowError)"

text \<open>Comparison of datetimes: naive with naive, aware with aware by instant.\<close>

definition dt_lessE :: "pydt \<Rightarrow> pydt \<Rightarrow> pyexc + bool" where
  "dt_lessE a b = (if dt_aware a \<noteq> dt_aware b then Inl TypeError else Inr (dt_utc a < dt_utc b))"

definition dt_shift :: "pydt \<Rightarrow> int \<Rightarrow> pyexc + pydt" where
  "dt_shift t us = (if dt_in_range (dt_local t + us) then Inr (DT (dt_local t + us) (dt_offset t)) else Inl OverflowError)"

definition dt_diff :: "pydt \<Rightarrow> pydt \<Rightarrow> pyexc + int" where
  "dt_diff a b = (if dt_aware a \<noteq> dt_aware b then Inl TypeError else Inr (dt_utc a - dt_utc b))"

lemma parse_stamp_aware_utc:
  "to_utc t = Inr u \<Longrightarrow> dt_utc u = dt_utc t \<and> dt_offset u = Some 0 \<and> dt_aware u"
  by (auto simp: to_utc_def split: if_splits)

end
