(* ===== verification/Py_Digest.thy ===== *)
theory Py_Digest
  imports Py_Value "HOL-Library.Word" "HOL-Library.List_Lexorder" "HOL-Library.Char_ord"
begin

text \<open>
  \<open>hashlib.sha256(text).hexdigest()\<close> (FIPS 180-4 over 32-bit words) and
  \<open>json.dumps(v, sort_keys=True, separators=(",", ":"))\<close> with its ASCII escapes. A digest is
  always 64 lower-case hexadecimal digits, which is what the validators of identities ask for.
\<close>

unbundle bit_operations_syntax

section \<open>SHA-256\<close>

type_synonym w32 = "32 word"

text \<open>
  The round constants and the initial state are the first 32 fractional bits of the cube roots and
  square roots of the first primes; \<open>root_floor\<close> finds an integer root bit by bit.
\<close>

fun root_floor :: "nat \<Rightarrow> nat \<Rightarrow> nat \<Rightarrow> nat \<Rightarrow> nat" where
  "root_floor k n 0 acc = acc"
| "root_floor k n (Suc b) acc = root_floor k n b (if (acc + 2 ^ b) ^ k \<le> n then acc + 2 ^ b else acc)"

definition small_primes :: "nat list" where
  "small_primes = filter (\<lambda>p. list_all (\<lambda>d. p mod d \<noteq> 0) [2..<p]) [2..<312]"

definition sha_k :: "w32 list" where
  "sha_k = map (\<lambda>p. word_of_nat (root_floor 3 (p * 2 ^ 96) 36 0)) small_primes"

definition sha_init :: "w32 list" where
  "sha_init = map (\<lambda>p. word_of_nat (root_floor 2 (p * 2 ^ 64) 36 0)) [2, 3, 5, 7, 11, 13, 17, 19]"

definition rotr :: "nat \<Rightarrow> w32 \<Rightarrow> w32" where
  "rotr n x = word_rotr n x"

definition pad_bytes :: "nat list \<Rightarrow> nat list" where
  "pad_bytes bs =
     (let n = length bs; z = (119 - n mod 64) mod 64; l = 8 * n
      in bs @ [128] @ replicate z 0 @ map (\<lambda>i. l div 256 ^ (7 - i) mod 256) [0..<8])"

fun words_of :: "nat list \<Rightarrow> w32 list" where
  "words_of (a # b # c # d # r) = of_nat (((a * 256 + b) * 256 + c) * 256 + d) # words_of r"
| "words_of _ = []"

text \<open>The message schedule, kept as the last sixteen words, newest first.\<close>

definition next_word :: "w32 list \<Rightarrow> w32" where
  "next_word w =
     (let w2 = w ! 1; w7 = w ! 6; w15 = w ! 14; w16 = w ! 15;
          s0 = rotr 7 w15 XOR rotr 18 w15 XOR drop_bit 3 w15;
          s1 = rotr 17 w2 XOR rotr 19 w2 XOR drop_bit 10 w2
      in w16 + s0 + w7 + s1)"

fun schedule :: "nat \<Rightarrow> w32 list \<Rightarrow> w32 list" where
  "schedule 0 w = []"
| "schedule (Suc n) w = (let x = next_word w in x # schedule n (x # take 15 w))"

fun sha_round :: "w32 list \<Rightarrow> w32 \<times> w32 \<Rightarrow> w32 list" where
  "sha_round [a, b, c, d, e, f, g, h] (k, w) =
     (let s1 = rotr 6 e XOR rotr 11 e XOR rotr 25 e; ch = (e AND f) XOR ((NOT e) AND g);
          t1 = h + s1 + ch + k + w;
          s0 = rotr 2 a XOR rotr 13 a XOR rotr 22 a; maj = (a AND b) XOR (a AND c) XOR (b AND c)
      in [t1 + s0 + maj, a, b, c, d + t1, e, f, g])"
| "sha_round s kw = s"

definition sha_block :: "w32 list \<Rightarrow> w32 list \<Rightarrow> w32 list" where
  "sha_block st ws =
     map2 (+) st (foldl sha_round st (zip sha_k (ws @ schedule 48 (rev ws))))"

function sha_blocks :: "w32 list \<Rightarrow> w32 list \<Rightarrow> w32 list" where
  "sha_blocks st ws = (if ws = [] then st else sha_blocks (sha_block st (take 16 ws)) (drop 16 ws))"
  by pat_completeness auto
termination by (relation "measure (\<lambda>(st, ws). length ws)") auto

declare sha_blocks.simps [simp del]

definition word_hex :: "w32 \<Rightarrow> string" where
  "word_hex w = map (\<lambda>i. hex_digit (unat (drop_bit (28 - 4 * i) w) mod 16)) [0..<8]"

definition sha256 :: "string \<Rightarrow> string" where
  "sha256 s = concat (map word_hex (sha_blocks sha_init (words_of (pad_bytes (map ord s)))))"

lemma hex_digit_is_hex: "d < 16 \<Longrightarrow> is_hex_lower (hex_digit d)"
  by (auto simp: hex_digit_def is_hex_lower_def is_digit_def)

lemma word_hex_shape: "length (word_hex w) = 8 \<and> (\<forall>c \<in> set (word_hex w). is_hex_lower c)"
  by (auto simp: word_hex_def hex_digit_is_hex)

lemma length_sha_round: "length (sha_round s kw) = length s"
  by (induction s kw rule: sha_round.induct) (auto simp: Let_def)

lemma length_sha_rounds: "length (foldl sha_round s kws) = length s"
  by (induction kws arbitrary: s) (auto simp: length_sha_round)

lemma length_sha_block: "length (sha_block st ws) = length st"
  by (simp add: sha_block_def length_sha_rounds)

lemma length_sha_blocks: "length (sha_blocks st ws) = length st"
  by (induction st ws rule: sha_blocks.induct) (subst sha_blocks.simps, auto simp: length_sha_block)

text \<open>What \<open>_is_sha256\<close> tests, on text.\<close>

definition hex64 :: "string \<Rightarrow> bool" where
  "hex64 s = (length s = 64 \<and> list_all is_hex_lower s)"

lemma sha256_hex64 [simp]: "hex64 (sha256 s)"
proof -
  have "length (concat (map word_hex ws)) = 8 * length ws" for ws
    by (induction ws) (simp_all add: word_hex_shape)
  moreover have "length (sha_blocks sha_init ws) = 8" for ws
    by (simp add: length_sha_blocks sha_init_def)
  ultimately show ?thesis
    by (auto simp: hex64_def sha256_def list_all_iff word_hex_shape)
qed

lemma strip_hex64: "hex64 s \<Longrightarrow> strip s = s"
proof -
  assume h: "hex64 s"
  have ns: "\<not> is_space c" if "is_hex_lower c" for c
    using that by (auto simp: is_hex_lower_def is_digit_def is_space_def)
  have "s \<noteq> []" using h by (auto simp: hex64_def)
  then have "\<not> is_space (hd s)" "\<not> is_space (hd (rev s))"
    using h by (auto simp: hex64_def list_all_iff hd_rev intro!: ns)
  then show ?thesis
    by (simp add: strip_by_def dropWhile_fix)
qed

section \<open>JSON\<close>

definition json_char :: "char \<Rightarrow> string" where
  "json_char c =
     (if ord c = 34 \<or> ord c = 92 then [chr 92, c]
      else if ord c = 8 then [chr 92, CHR ''b''] else if ord c = 9 then [chr 92, CHR ''t'']
      else if ord c = 10 then [chr 92, CHR ''n''] else if ord c = 12 then [chr 92, CHR ''f'']
      else if ord c = 13 then [chr 92, CHR ''r'']
      else if ord c < 32 \<or> 126 < ord c then [chr 92] @ ''u00'' @ [hex_digit (ord c div 16), hex_digit (ord c mod 16)]
      else [c])"

definition json_str :: "string \<Rightarrow> string" where
  "json_str s = [chr 34] @ concat (map json_char s) @ [chr 34]"

definition json_float :: "pyfloat \<Rightarrow> string" where
  "json_float x = (case x of NaN \<Rightarrow> ''NaN'' | PosInf \<Rightarrow> ''Infinity'' | NegInf \<Rightarrow> ''-Infinity''
     | Fin _ \<Rightarrow> float_repr x)"

text \<open>\<open>default=str\<close> prints a \<open>Decimal\<close> as a JSON string; every dictionary is printed with sorted keys.\<close>

fun json_dumps :: "pyval \<Rightarrow> string"
  and json_items :: "pyval list \<Rightarrow> string list"
  and json_pairs :: "pydict \<Rightarrow> (string \<times> string) list" where
  "json_dumps PNone = ''null''"
| "json_dumps (PBool b) = (if b then ''true'' else ''false'')"
| "json_dumps (PInt i) = show_int i"
| "json_dumps (PFloat x) = json_float x"
| "json_dumps (PDec d) = json_str (dec_str d)"
| "json_dumps (PStr s) = json_str s"
| "json_dumps (PList xs) = ''['' @ join '','' (json_items xs) @ '']''"
| "json_dumps (PDict d) = ''{'' @ join '','' (map snd (sort_key fst (json_pairs d))) @ ''}''"
| "json_items [] = []"
| "json_items (x # xs) = json_dumps x # json_items xs"
| "json_pairs [] = []"
| "json_pairs ((k, v) # d) = (k, json_str k @ '':'' @ json_dumps v) # json_pairs d"

end
