(* ===== verification/Py_Effect.thy ===== *)
theory Py_Effect
  imports Prelude
begin

text \<open>
  Stateful computations: a function from a state to an exception or a value together with the
  state after it. A raised exception keeps the mutations made before it, as in Python. \<open>wp\<close> is the
  weakest precondition with one postcondition for a normal return and one for an exception; its
  equations turn a proof about a handler into one pass of the simplifier over its branches.
\<close>

type_synonym ('s, 'a) eff = "'s \<Rightarrow> (pyexc + 'a) \<times> 's"

definition ret :: "'a \<Rightarrow> ('s, 'a) eff" where
  "ret a = (\<lambda>s. (Inr a, s))"

definition throw :: "pyexc \<Rightarrow> ('s, 'a) eff" where
  "throw e = (\<lambda>s. (Inl e, s))"

definition bind :: "('s, 'a) eff \<Rightarrow> ('a \<Rightarrow> ('s, 'b) eff) \<Rightarrow> ('s, 'b) eff" where
  "bind m f = (\<lambda>s. case m s of (Inl e, t) \<Rightarrow> (Inl e, t) | (Inr a, t) \<Rightarrow> f a t)"

text \<open>\<open>try: m except e: h(e)\<close>.\<close>

definition handle :: "('s, 'a) eff \<Rightarrow> (pyexc \<Rightarrow> ('s, 'a) eff) \<Rightarrow> ('s, 'a) eff" where
  "handle m h = (\<lambda>s. case m s of (Inl e, t) \<Rightarrow> h e t | (Inr a, t) \<Rightarrow> (Inr a, t))"

text \<open>\<open>try: m except e: h(e) else: f(value)\<close>: \<open>f\<close> is outside the handler.\<close>

definition attempt :: "('s, 'a) eff \<Rightarrow> (pyexc \<Rightarrow> ('s, 'b) eff) \<Rightarrow> ('a \<Rightarrow> ('s, 'b) eff) \<Rightarrow> ('s, 'b) eff" where
  "attempt m h f = (\<lambda>s. case m s of (Inl e, t) \<Rightarrow> h e t | (Inr a, t) \<Rightarrow> f a t)"

definition liftE :: "pyexc + 'a \<Rightarrow> ('s, 'a) eff" where
  "liftE r = (\<lambda>s. (r, s))"

definition gets :: "('s \<Rightarrow> 'a) \<Rightarrow> ('s, 'a) eff" where
  "gets f = (\<lambda>s. (Inr (f s), s))"

definition update :: "('s \<Rightarrow> 's) \<Rightarrow> ('s, unit) eff" where
  "update f = (\<lambda>s. (Inr (), f s))"

definition whenM :: "bool \<Rightarrow> ('s, unit) eff \<Rightarrow> ('s, unit) eff" where
  "whenM b m = (if b then m else ret ())"

text \<open>\<open>if b: raise e\<close>.\<close>

definition raise_if :: "bool \<Rightarrow> pyexc \<Rightarrow> ('s, unit) eff" where
  "raise_if b e = (if b then throw e else ret ())"

fun map_eff :: "('a \<Rightarrow> ('s, 'b) eff) \<Rightarrow> 'a list \<Rightarrow> ('s, 'b list) eff" where
  "map_eff f [] = ret []"
| "map_eff f (x # xs) = bind (f x) (\<lambda>y. bind (map_eff f xs) (\<lambda>ys. ret (y # ys)))"

fun fold_eff :: "('b \<Rightarrow> 'a \<Rightarrow> ('s, 'b) eff) \<Rightarrow> 'b \<Rightarrow> 'a list \<Rightarrow> ('s, 'b) eff" where
  "fold_eff f b [] = ret b"
| "fold_eff f b (x # xs) = bind (f b x) (\<lambda>b'. fold_eff f b' xs)"

definition wp :: "('s, 'a) eff \<Rightarrow> ('a \<Rightarrow> 's \<Rightarrow> bool) \<Rightarrow> (pyexc \<Rightarrow> 's \<Rightarrow> bool) \<Rightarrow> 's \<Rightarrow> bool" where
  "wp m Q E s = (case m s of (Inl e, t) \<Rightarrow> E e t | (Inr a, t) \<Rightarrow> Q a t)"

lemma wp_ret [eff_simps]: "wp (ret a) Q E s = Q a s"
  by (simp add: wp_def ret_def)

lemma wp_throw [eff_simps]: "wp (throw e) Q E s = E e s"
  by (simp add: wp_def throw_def)

lemma wp_bind [eff_simps]: "wp (bind m f) Q E s = wp m (\<lambda>a. wp (f a) Q E) E s"
  by (simp add: wp_def bind_def split: prod.splits sum.splits)

lemma wp_handle [eff_simps]: "wp (handle m h) Q E s = wp m Q (\<lambda>e. wp (h e) Q E) s"
  by (simp add: wp_def handle_def split: prod.splits sum.splits)

lemma wp_attempt [eff_simps]:
  "wp (attempt m h f) Q E s = wp m (\<lambda>a. wp (f a) Q E) (\<lambda>e. wp (h e) Q E) s"
  by (simp add: wp_def attempt_def split: prod.splits sum.splits)

lemma wp_liftE [eff_simps]: "wp (liftE r) Q E s = (case r of Inl e \<Rightarrow> E e s | Inr a \<Rightarrow> Q a s)"
  by (simp add: wp_def liftE_def)

lemma wp_gets [eff_simps]: "wp (gets f) Q E s = Q (f s) s"
  by (simp add: wp_def gets_def)

lemma wp_update [eff_simps]: "wp (update f) Q E s = Q () (f s)"
  by (simp add: wp_def update_def)

lemma wp_whenM [eff_simps]: "wp (whenM b m) Q E s = (if b then wp m Q E s else Q () s)"
  by (simp add: whenM_def wp_ret)

lemma wp_raise_if [eff_simps]: "wp (raise_if b e) Q E s = (if b then E e s else Q () s)"
  by (simp add: raise_if_def wp_ret wp_throw)

lemma wp_if [eff_simps]: "wp (if b then m else n) Q E s = (if b then wp m Q E s else wp n Q E s)"
  by simp

lemma wp_mono:
  "wp m Q E s \<Longrightarrow> (\<And>a t. Q a t \<Longrightarrow> Q' a t) \<Longrightarrow> (\<And>e t. E e t \<Longrightarrow> E' e t) \<Longrightarrow> wp m Q' E' s"
  by (auto simp: wp_def split: prod.splits sum.splits)

lemma wp_conj: "wp m Q E s \<Longrightarrow> wp m Q' E' s \<Longrightarrow> wp m (\<lambda>a t. Q a t \<and> Q' a t) (\<lambda>e t. E e t \<and> E' e t) s"
  by (auto simp: wp_def split: prod.splits sum.splits)

lemma wp_result: "wp m Q E s \<Longrightarrow> m s = (r, t) \<Longrightarrow> (case r of Inl e \<Rightarrow> E e t | Inr a \<Rightarrow> Q a t)"
  by (auto simp: wp_def)

lemma wpI: "(\<And>r t. m s = (r, t) \<Longrightarrow> (case r of Inl e \<Rightarrow> E e t | Inr a \<Rightarrow> Q a t)) \<Longrightarrow> wp m Q E s"
  by (cases "m s") (auto simp: wp_def split: sum.splits)

text \<open>A relation between the state before and after that every computation in sight keeps.\<close>

definition keeps :: "('s \<Rightarrow> 's \<Rightarrow> bool) \<Rightarrow> ('s, 'a) eff \<Rightarrow> bool" where
  "keeps R m = (\<forall>s. R s (snd (m s)))"

lemma keepsD: "keeps R m \<Longrightarrow> m s = (r, t) \<Longrightarrow> R s t"
  by (metis keeps_def snd_conv)

lemma keeps_wp: "keeps R m \<Longrightarrow> wp m (\<lambda>_. R s) (\<lambda>_. R s) s"
  by (auto simp: wp_def keeps_def split: prod.splits sum.splits) (metis snd_conv)+

lemma keepsI:
  assumes "\<And>s. wp m (\<lambda>_. R s) (\<lambda>_. R s) s"
  shows "keeps R m"
  unfolding keeps_def
proof
  fix s
  show "R s (snd (m s))"
    using assms [of s] by (cases "m s"; cases "fst (m s)") (auto simp: wp_def)
qed

named_theorems keeps_intros \<open>relations kept by sequenced computations\<close>

lemma keeps_ret [keeps_intros]: "reflp R \<Longrightarrow> keeps R (ret a)"
  by (simp add: keeps_def ret_def reflpD)

lemma keeps_throw [keeps_intros]: "reflp R \<Longrightarrow> keeps R (throw e)"
  by (simp add: keeps_def throw_def reflpD)

lemma keeps_liftE [keeps_intros]: "reflp R \<Longrightarrow> keeps R (liftE r)"
  by (simp add: keeps_def liftE_def reflpD)

lemma keeps_gets [keeps_intros]: "reflp R \<Longrightarrow> keeps R (gets f)"
  by (simp add: keeps_def gets_def reflpD)

lemma keeps_update [keeps_intros]: "(\<And>s. R s (f s)) \<Longrightarrow> keeps R (update f)"
  by (simp add: keeps_def update_def)

lemma keeps_bind [keeps_intros]:
  "transp R \<Longrightarrow> keeps R m \<Longrightarrow> (\<And>a. keeps R (f a)) \<Longrightarrow> keeps R (bind m f)"
  unfolding keeps_def bind_def
  by (auto split: prod.splits sum.splits) (metis snd_conv transpD)+

lemma keeps_handle [keeps_intros]:
  "transp R \<Longrightarrow> keeps R m \<Longrightarrow> (\<And>e. keeps R (h e)) \<Longrightarrow> keeps R (handle m h)"
  unfolding keeps_def handle_def
  by (auto split: prod.splits sum.splits) (metis snd_conv transpD)+

lemma keeps_attempt [keeps_intros]:
  "transp R \<Longrightarrow> keeps R m \<Longrightarrow> (\<And>e. keeps R (h e)) \<Longrightarrow> (\<And>a. keeps R (f a)) \<Longrightarrow> keeps R (attempt m h f)"
  unfolding keeps_def attempt_def
  by (auto split: prod.splits sum.splits) (metis snd_conv transpD)+

lemma keeps_whenM [keeps_intros]: "reflp R \<Longrightarrow> keeps R m \<Longrightarrow> keeps R (whenM b m)"
  by (simp add: whenM_def keeps_ret)

lemma keeps_raise_if [keeps_intros]: "reflp R \<Longrightarrow> keeps R (raise_if b e)"
  by (simp add: raise_if_def keeps_ret keeps_throw)

lemma keeps_if [keeps_intros]: "(b \<Longrightarrow> keeps R m) \<Longrightarrow> (\<not> b \<Longrightarrow> keeps R n) \<Longrightarrow> keeps R (if b then m else n)"
  by simp

lemma keeps_map_eff [keeps_intros]:
  "reflp R \<Longrightarrow> transp R \<Longrightarrow> (\<And>x. keeps R (f x)) \<Longrightarrow> keeps R (map_eff f xs)"
  by (induction xs) (auto intro!: keeps_intros)

lemma keeps_fold_eff [keeps_intros]:
  "reflp R \<Longrightarrow> transp R \<Longrightarrow> (\<And>b x. keeps R (f b x)) \<Longrightarrow> keeps R (fold_eff f b xs)"
  by (induction xs arbitrary: b) (auto intro!: keeps_intros)

lemma keeps_case_option [keeps_intros]:
  "(x = None \<Longrightarrow> keeps R n) \<Longrightarrow> (\<And>a. x = Some a \<Longrightarrow> keeps R (f a)) \<Longrightarrow> keeps R (case x of None \<Rightarrow> n | Some a \<Rightarrow> f a)"
  by (cases x) auto

lemma keeps_case_sum [keeps_intros]:
  "(\<And>e. keeps R (g e)) \<Longrightarrow> (\<And>a. keeps R (f a)) \<Longrightarrow> keeps R (case x of Inl e \<Rightarrow> g e | Inr a \<Rightarrow> f a)"
  by (cases x) auto

lemma keeps_case_prod [keeps_intros]: "(\<And>a b. x = (a, b) \<Longrightarrow> keeps R (f a b)) \<Longrightarrow> keeps R (case x of (a, b) \<Rightarrow> f a b)"
  by (cases x) auto

lemma keeps_case_list [keeps_intros]:
  "keeps R n \<Longrightarrow> (\<And>a as. keeps R (f a as)) \<Longrightarrow> keeps R (case xs of [] \<Rightarrow> n | a # as \<Rightarrow> f a as)"
  by (cases xs) auto

lemma keeps_let [keeps_intros]: "(\<And>x. x = a \<Longrightarrow> keeps R (f x)) \<Longrightarrow> keeps R (let x = a in f x)"
  by simp

section \<open>Postconditions of a normal return\<close>

text \<open>\<open>returns m Q\<close>: whenever \<open>m\<close> returns, \<open>Q\<close> holds of the value and the state; it follows the last step.\<close>

definition returns :: "('s, 'a) eff \<Rightarrow> ('a \<Rightarrow> 's \<Rightarrow> bool) \<Rightarrow> bool" where
  "returns m Q = (\<forall>s. wp m Q (\<lambda>_ _. True) s)"

named_theorems returns_intros \<open>postconditions of sequenced computations\<close>

lemma returns_iff: "returns m Q \<longleftrightarrow> (\<forall>s a t. m s = (Inr a, t) \<longrightarrow> Q a t)"
  by (auto simp: returns_def wp_def split: prod.splits sum.splits)

lemma returnsD: "returns m Q \<Longrightarrow> m s = (Inr a, t) \<Longrightarrow> Q a t"
  by (simp add: returns_iff)

lemma wp_trivial: "wp m (\<lambda>_ _. True) (\<lambda>_ _. True) s"
  by (simp add: wp_def split: prod.splits sum.splits)

lemma returns_bind [returns_intros]: "(\<And>a. returns (f a) Q) \<Longrightarrow> returns (bind m f) Q"
  by (auto simp: returns_iff bind_def split: prod.splits sum.splits)

lemma returns_throw [returns_intros]: "returns (throw e) Q"
  by (simp add: returns_def wp_throw)

lemma returns_attempt [returns_intros]:
  "(\<And>e. returns (h e) Q) \<Longrightarrow> (\<And>a. returns (f a) Q) \<Longrightarrow> returns (attempt m h f) Q"
  by (auto simp: returns_iff attempt_def split: prod.splits sum.splits)

lemma returns_handle [returns_intros]: "returns m Q \<Longrightarrow> (\<And>e. returns (h e) Q) \<Longrightarrow> returns (handle m h) Q"
  by (auto simp: returns_def wp_handle intro: wp_mono)

lemma returns_if [returns_intros]: "(b \<Longrightarrow> returns m Q) \<Longrightarrow> (\<not> b \<Longrightarrow> returns n Q) \<Longrightarrow> returns (if b then m else n) Q"
  by simp

lemma returns_case_prod [returns_intros]:
  "(\<And>a b. x = (a, b) \<Longrightarrow> returns (f a b) Q) \<Longrightarrow> returns (case x of (a, b) \<Rightarrow> f a b) Q"
  by (cases x) auto

lemma returns_case_option [returns_intros]:
  "(x = None \<Longrightarrow> returns n Q) \<Longrightarrow> (\<And>a. x = Some a \<Longrightarrow> returns (f a) Q) \<Longrightarrow>
   returns (case x of None \<Rightarrow> n | Some a \<Rightarrow> f a) Q"
  by (cases x) auto

lemma returns_case_pyexc [returns_intros]:
  "(\<And>m. returns (f m) Q) \<Longrightarrow> returns n Q \<Longrightarrow> returns (case e of OrderReconciliation m \<Rightarrow> f m | _ \<Rightarrow> n) Q"
  by (cases e) auto

lemma returns_let [returns_intros]: "(\<And>x. x = a \<Longrightarrow> returns (f x) Q) \<Longrightarrow> returns (let x = a in f x) Q"
  by simp

section \<open>Inversion of returning computations\<close>

named_theorems returned \<open>when a computation returns\<close>

lemma returned_basic [returned]:
  "ret a s = (Inr b, t) \<longleftrightarrow> b = a \<and> t = s"
  "throw e s = (Inr b, t) \<longleftrightarrow> False"
  "liftE r s = (Inr b, t) \<longleftrightarrow> r = Inr b \<and> t = s"
  "gets f s = (Inr c, t) \<longleftrightarrow> c = f s \<and> t = s"
  "update g s = (Inr u, t) \<longleftrightarrow> t = g s"
  "raise_if x e s = (Inr u, t) \<longleftrightarrow> \<not> x \<and> t = s"
  by (auto simp: bind_def ret_def throw_def gets_def update_def raise_if_def liftE_def)

lemma returned_bind [returned]: "bind m f s = (Inr b, t) \<longleftrightarrow> (\<exists>a u. m s = (Inr a, u) \<and> f a u = (Inr b, t))"
  by (auto simp: bind_def split: prod.splits sum.splits)

lemma returned_when [returned]: "whenM x m s = (Inr u, t) \<longleftrightarrow> (if x then m s = (Inr u, t) else t = s)"
  by (auto simp: whenM_def ret_def)

text \<open>A handler that raises whatever it does.\<close>

definition raises :: "(pyexc \<Rightarrow> ('s, 'a) eff) \<Rightarrow> bool" where
  "raises h = (\<forall>e s. \<exists>e' t. h e s = (Inl e', t))"

lemma raises_simps [simp]: "raises (\<lambda>e. throw (f e))"
  by (auto simp: raises_def throw_def)

lemma raises_bind: "raises (\<lambda>e. bind m (\<lambda>_. throw e))"
proof -
  have "\<exists>e' t. bind m (\<lambda>_. throw e) s = (Inl e', t)" for e s
    by (auto simp: bind_def throw_def split: prod.splits sum.splits)
  then show ?thesis by (auto simp: raises_def)
qed

lemma raises_seq: "raises (\<lambda>e. bind m (\<lambda>_. h e))" if "raises h"
proof -
  have "\<exists>e' t. bind m (\<lambda>_. h e) s = (Inl e', t)" for e s
    using that by (auto simp: bind_def raises_def split: prod.splits sum.splits)
  then show ?thesis by (auto simp: raises_def)
qed

lemma returned_handle: "raises h \<Longrightarrow> handle m h s = (Inr a, t) \<longleftrightarrow> m s = (Inr a, t)"
  by (auto simp: raises_def handle_def split: prod.splits sum.splits) (metis Inl_Inr_False Pair_inject)+

lemma returned_attempt: "raises h \<Longrightarrow> attempt m h f s = (Inr b, t) \<longleftrightarrow> (\<exists>a u. m s = (Inr a, u) \<and> f a u = (Inr b, t))"
  by (auto simp: raises_def attempt_def split: prod.splits sum.splits) (metis Inl_Inr_False Pair_inject)+

end
