(* ===== verification/Runtime.thy ===== *)
theory Runtime
  imports Py_Time Py_Digest Py_Effect
begin

text \<open>
  The objects one cycle works on: \<open>ExecutionRuntime\<close> and the report of \<open>runtime_support.py\<close>, the
  state dictionaries by reference, and the calls that leave the program. Everything outside is an
  environment \<open>env\<close>: a function from the history of calls and their outcomes and the next call to
  its outcome, so a theorem for every \<open>env\<close> holds for every broker, store and network. The history
  itself is kept in \<open>trace\<close>, oldest call first.
\<close>

section \<open>State\<close>

text \<open>An entry of \<open>runtime.pending_funds\<close>: money moved but not yet accounted.\<close>

record fund =
  fd_confirmed :: bool
  fd_action :: string
  fd_symbol :: pyval
  fd_asset :: pyval

record side_effect =
  se_type :: string
  se_target :: string
  se_payload :: pyval
  se_executed :: bool

text \<open>\<open>runtime.state_writer\<close>: absent, an unbound function, or the \<open>save\<close> of the bound session.\<close>

datatype writer = NoWriter | PlainWriter | BoundWriter

record runtime =
  rt_dry_run :: bool
  rt_permitted :: bool
  rt_run_id :: string
  rt_now :: pydt
  rt_client :: bool
  rt_loader :: bool
  rt_writer :: writer
  rt_bound :: bool
  rt_receipts :: bool
  rt_owner_claim :: bool
  rt_owner_release :: bool
  rt_owner_id :: string
  rt_owner_held :: bool
  rt_trade_state :: "nat option"
  rt_pending :: "fund list"
  rt_cash :: "(string \<times> pyfloat) list"
  rt_fuel_symbol :: string
  rt_fuel_asset :: string
  rt_order_sequence :: int
  rt_notifier :: bool
  rt_log :: "side_effect list"

record report =
  rp_status :: pyval
  rp_executed :: int
  rp_suppressed :: int
  rp_observation :: pyval
  rp_state_intents :: "string list"
  rp_gating_summary :: pydict
  rp_gating_events :: "pydict list"
  rp_errors :: "pydict list"
  rp_notifications :: "pydict list"
  rp_summary :: pydict
  rp_fields :: pydict

text \<open>
  \<open>Client m kw\<close> is \<open>runtime.client.m(**kw)\<close>; the other calls are the injected state callbacks,
  the bound session, and the process facilities the code reads; \<open>FormatQty\<close> is the lot rounding of
  the platform kit, as are connecting a client, the BTC market snapshot and the daily indicators.
\<close>

datatype call =
    Client string pydict
  | LoadState
  | WriteState pydict
  | BoundSave pydict "pyval option"
  | BoundEnsureActive
  | BoundInvalidate
  | ClaimOwner string
  | ReleaseOwner string
  | NewOwnerId
  | ClockNow
  | OrderIdentity "string option"
  | RetryGuard
  | Pause
  | Notifier string
  | DigestEnabled
  | UnifiedEnabled
  | FormatQty string pyfloat
  | ConnectClient
  | BtcSnapshot pyfloat
  | DailyIndicators string

type_synonym event = "call \<times> (pyexc + pyval)"
type_synonym env = "event list \<Rightarrow> call \<Rightarrow> pyexc + pyval"

record world =
  rt :: runtime
  rp :: report
  heap :: "nat \<Rightarrow> pydict"
  fresh :: nat
  trace :: "event list"

type_synonym 'a run = "(world, 'a) eff"

definition invoke :: "env \<Rightarrow> call \<Rightarrow> pyval run" where
  "invoke env c = (\<lambda>w. (env (trace w) c, w\<lparr>trace := trace w @ [(c, env (trace w) c)]\<rparr>))"

definition upd_rt :: "(runtime \<Rightarrow> runtime) \<Rightarrow> unit run" where
  "upd_rt f = update (\<lambda>w. w\<lparr>rt := f (rt w)\<rparr>)"

definition upd_rp :: "(report \<Rightarrow> report) \<Rightarrow> unit run" where
  "upd_rp f = update (\<lambda>w. w\<lparr>rp := f (rp w)\<rparr>)"

text \<open>State dictionaries are shared by reference: the cycle and the runtime hold the same object.\<close>

definition read_ref :: "nat \<Rightarrow> pydict run" where
  "read_ref r = gets (\<lambda>w. heap w r)"

definition write_ref :: "nat \<Rightarrow> pydict \<Rightarrow> unit run" where
  "write_ref r d = update (\<lambda>w. w\<lparr>heap := (heap w)(r := d)\<rparr>)"

definition alloc :: "pydict \<Rightarrow> nat run" where
  "alloc d = (\<lambda>w. (Inr (fresh w), w\<lparr>heap := (heap w)(fresh w := d), fresh := Suc (fresh w)\<rparr>))"

lemma wp_invoke [eff_simps]:
  "wp (invoke env c) Q E w =
     (case env (trace w) c of
        Inl e \<Rightarrow> E e (w\<lparr>trace := trace w @ [(c, Inl e)]\<rparr>)
      | Inr v \<Rightarrow> Q v (w\<lparr>trace := trace w @ [(c, Inr v)]\<rparr>))"
  by (simp add: wp_def invoke_def split: sum.splits)

lemma wp_upd_rt [eff_simps]: "wp (upd_rt f) Q E w = Q () (w\<lparr>rt := f (rt w)\<rparr>)"
  by (simp add: upd_rt_def wp_update)

lemma wp_upd_rp [eff_simps]: "wp (upd_rp f) Q E w = Q () (w\<lparr>rp := f (rp w)\<rparr>)"
  by (simp add: upd_rp_def wp_update)

lemma wp_read_ref [eff_simps]: "wp (read_ref r) Q E w = Q (heap w r) w"
  by (simp add: read_ref_def wp_gets)

lemma wp_write_ref [eff_simps]: "wp (write_ref r d) Q E w = Q () (w\<lparr>heap := (heap w)(r := d)\<rparr>)"
  by (simp add: write_ref_def wp_update)

lemma wp_alloc [eff_simps]:
  "wp (alloc d) Q E w = Q (fresh w) (w\<lparr>heap := (heap w)(fresh w := d), fresh := Suc (fresh w)\<rparr>)"
  by (simp add: wp_def alloc_def)

lemma keeps_case_pyval [keeps_intros]:
  "keeps R n \<Longrightarrow> (\<And>b. keeps R (fb b)) \<Longrightarrow> (\<And>i. keeps R (fi i)) \<Longrightarrow> (\<And>x. keeps R (ff x)) \<Longrightarrow>
   (\<And>d. keeps R (fd d)) \<Longrightarrow> (\<And>s. keeps R (fs s)) \<Longrightarrow> (\<And>xs. keeps R (fxs xs)) \<Longrightarrow> (\<And>kvs. keeps R (fk kvs)) \<Longrightarrow>
   keeps R (case_pyval n fb fi ff fd fs fxs fk v)"
  by (cases v) auto

lemma returned_run [returned]:
  "invoke env c w = (Inr v, t) \<longleftrightarrow> env (trace w) c = Inr v \<and> t = w\<lparr>trace := trace w @ [(c, Inr v)]\<rparr>"
  "upd_rt f w = (Inr u, t) \<longleftrightarrow> t = w\<lparr>rt := f (rt w)\<rparr>"
  "upd_rp g w = (Inr u, t) \<longleftrightarrow> t = w\<lparr>rp := g (rp w)\<rparr>"
  "read_ref r w = (Inr d, t) \<longleftrightarrow> d = heap w r \<and> t = w"
  "write_ref r x w = (Inr u, t) \<longleftrightarrow> t = w\<lparr>heap := (heap w)(r := x)\<rparr>"
  "alloc x w = (Inr a, t) \<longleftrightarrow> a = fresh w \<and> t = w\<lparr>heap := (heap w)(fresh w := x), fresh := Suc (fresh w)\<rparr>"
  by (auto simp: invoke_def upd_rt_def upd_rp_def read_ref_def write_ref_def alloc_def update_def gets_def)

section \<open>Recording what happened\<close>

definition record_side_effect :: "string \<Rightarrow> string \<Rightarrow> pyval \<Rightarrow> bool \<Rightarrow> unit run" where
  "record_side_effect effect_type target payload executed =
     bind (upd_rt (\<lambda>r. r\<lparr>rt_log := rt_log r
             @ [\<lparr>se_type = effect_type, se_target = target, se_payload = payload, se_executed = executed\<rparr>]\<rparr>)) (\<lambda>_.
     upd_rp (\<lambda>p. if executed then p\<lparr>rp_executed := rp_executed p + 1\<rparr> else p\<lparr>rp_suppressed := rp_suppressed p + 1\<rparr>))"

definition append_report_error :: "string \<Rightarrow> string \<Rightarrow> unit run" where
  "append_report_error message stage =
     upd_rp (\<lambda>p. p\<lparr>rp_errors := rp_errors p @ [[(''stage'', PStr stage), (''message'', PStr message)]]\<rparr>)"

definition record_gating_event :: "string \<Rightarrow> string \<Rightarrow> pyval \<Rightarrow> pyval \<Rightarrow> unit run" where
  "record_gating_event gate category symbol detail =
     bind (gets (\<lambda>w. dget_or (rp_gating_summary (rp w)) gate (PInt 0))) (\<lambda>seen.
     bind (liftE (if truthy seen then to_int seen else Inr 0)) (\<lambda>n.
     upd_rp (\<lambda>p. p\<lparr>rp_gating_summary := dset gate (PInt (n + 1)) (rp_gating_summary p),
       rp_gating_events := rp_gating_events p
         @ [[(''gate'', PStr gate), (''category'', PStr category)]
            @ (if truthy symbol then [(''symbol'', PStr (py_str symbol))] else [])
            @ (if detail \<noteq> PNone then [(''detail'', detail)] else [])]\<rparr>)))"

text \<open>Updating a shared dictionary in place; a failed update leaves it as it was.\<close>

definition modify_ref :: "nat \<Rightarrow> (pydict \<Rightarrow> pyexc + pydict) \<Rightarrow> unit run" where
  "modify_ref a f = bind (read_ref a) (\<lambda>d. bind (liftE (f d)) (write_ref a))"

text \<open>\<open>report[k] = v\<close>, \<open>report[k].append(v)\<close> and \<open>report.setdefault('diagnostics', {})[k] = v\<close>.\<close>

definition set_report :: "string \<Rightarrow> pyval \<Rightarrow> unit run" where
  "set_report k v = upd_rp (\<lambda>p. p\<lparr>rp_fields := dset k v (rp_fields p)\<rparr>)"

definition append_report :: "string \<Rightarrow> pyval \<Rightarrow> unit run" where
  "append_report k v =
     bind (gets (\<lambda>w. dsub (rp_fields (rp w)) k)) (\<lambda>field.
     bind (liftE field) (\<lambda>items.
     case items of PList xs \<Rightarrow> set_report k (PList (xs @ [v])) | _ \<Rightarrow> throw AttributeError))"

definition diagnose :: "string \<Rightarrow> pyval \<Rightarrow> unit run" where
  "diagnose k v =
     bind (gets (\<lambda>w. dget_or (rp_fields (rp w)) ''diagnostics'' (PDict []))) (\<lambda>field.
     case field of PDict d \<Rightarrow> set_report ''diagnostics'' (PDict (dset k v d)) | _ \<Rightarrow> throw TypeError)"

lemma keeps_modify_ref [keeps_intros]:
  "reflp R \<Longrightarrow> (\<And>w d. R w (w\<lparr>heap := (heap w)(a := d)\<rparr>)) \<Longrightarrow> keeps R (modify_ref a f)"
  by (auto simp: keeps_def modify_ref_def bind_def read_ref_def write_ref_def gets_def liftE_def update_def reflpD
      split: sum.splits prod.splits)

lemma wp_modify_ref [eff_simps]:
  "wp (modify_ref a f) Q E w = (case f (heap w a) of Inl e \<Rightarrow> E e w | Inr d \<Rightarrow> Q () (w\<lparr>heap := (heap w)(a := d)\<rparr>))"
  by (simp add: modify_ref_def wp_bind wp_read_ref wp_liftE wp_write_ref split: sum.splits)

lemma returned_modify [returned]:
  "modify_ref a f w = (Inr u, t) \<longleftrightarrow> (\<exists>d. f (heap w a) = Inr d \<and> t = w\<lparr>heap := (heap w)(a := d)\<rparr>)"
  by (auto simp: modify_ref_def returned)

lemma keeps_set_report [keeps_intros]: "(\<And>w p. R w (w\<lparr>rp := p\<rparr>)) \<Longrightarrow> keeps R (set_report k v)"
  by (simp add: keeps_def set_report_def upd_rp_def update_def)

lemma keeps_append_report [keeps_intros]:
  "reflp R \<Longrightarrow> transp R \<Longrightarrow> (\<And>w p. R w (w\<lparr>rp := p\<rparr>)) \<Longrightarrow> keeps R (append_report k v)"
  unfolding append_report_def by (intro keeps_intros; simp)

lemma keeps_diagnose [keeps_intros]:
  "reflp R \<Longrightarrow> transp R \<Longrightarrow> (\<And>w p. R w (w\<lparr>rp := p\<rparr>)) \<Longrightarrow> keeps R (diagnose k v)"
  unfolding diagnose_def by (intro keeps_intros; simp)

definition safe_run_id :: "string \<Rightarrow> string" where
  "safe_run_id s = (let t = take 24 (map (\<lambda>c. if is_alnum c then c else CHR ''_'') s)
     in if t = [] then ''run'' else t)"

definition next_order_id :: "string \<Rightarrow> string \<Rightarrow> string run" where
  "next_order_id prefix symbol =
     bind (upd_rt (\<lambda>r. r\<lparr>rt_order_sequence := rt_order_sequence r + 1\<rparr>)) (\<lambda>_.
     gets (\<lambda>w. prefix @ ''_'' @ symbol @ ''_'' @ safe_run_id (rt_run_id (rt w)) @ ''_''
       @ pad_left (CHR ''0'') 3 (show_int (rt_order_sequence (rt w)))))"

section \<open>The execution receipt observation\<close>

text \<open>\<open>application/execution_receipt_adapter.py\<close>: six counters kept inside the report.\<close>

definition counter_fields :: "string list" where
  "counter_fields = [''submission_attempted_count'', ''broker_acknowledged_count'', ''partially_filled_count'',
     ''filled_count'', ''transport_uncertain_count'', ''failed_count'']"

definition failed_statuses :: "string list" where
  "failed_statuses = [''CANCELED'', ''EXPIRED'', ''REJECTED'']"

definition counter_value :: "pyval \<Rightarrow> int" where
  "counter_value v = (case v of PInt i \<Rightarrow> if 0 \<le> i then i else 0 | _ \<Rightarrow> 0)"

definition observation :: "pyval \<Rightarrow> pydict" where
  "observation raw =
     foldl (\<lambda>d f. dset f (PInt (counter_value (dget_or d f (PInt 0)))) d) (the_dict raw) counter_fields"

definition bump_counter :: "string \<Rightarrow> pyval \<Rightarrow> pyval" where
  "bump_counter f raw =
     (let d = observation raw in PDict (dset f (PInt (counter_value (dget d f) + 1)) d))"

definition bump :: "string \<Rightarrow> unit run" where
  "bump f = upd_rp (\<lambda>p. p\<lparr>rp_observation := bump_counter f (rp_observation p)\<rparr>)"

definition response_status :: "pyval \<Rightarrow> string" where
  "response_status response = (case response of PDict d \<Rightarrow> upper (strip (str_or_empty (dget d ''status''))) | _ \<Rightarrow> [])"

definition record_order_submission_attempt :: "unit run" where
  "record_order_submission_attempt = bump ''submission_attempted_count''"

definition record_order_response :: "pyval \<Rightarrow> unit run" where
  "record_order_response response =
     (let status = response_status response
      in if status = ''FILLED'' then bump ''filled_count''
         else if status = ''PARTIALLY_FILLED'' then bump ''partially_filled_count''
         else if status \<in> set failed_statuses then bump ''failed_count''
         else if status \<noteq> [] then bump ''broker_acknowledged_count''
         else upd_rp (\<lambda>p. p\<lparr>rp_observation := PDict (observation (rp_observation p))\<rparr>))"

definition record_order_transport_uncertainty :: "unit run" where
  "record_order_transport_uncertainty = bump ''transport_uncertain_count''"

definition record_order_failure :: "unit run" where
  "record_order_failure = bump ''failed_count''"

text \<open>
  \<open>attach_execution_receipt_from_report\<close>: the facts derived from the counters. How they become a
  receipt is the platform kit's \<open>resolve_execution_receipt_fact\<close> and
  \<open>attach_runtime_execution_receipt\<close>, the parameters \<open>resolve\<close> and \<open>attach\<close>.
\<close>

record receipt_facts =
  rf_dry_run :: bool
  rf_attempted :: bool
  rf_acknowledged :: bool
  rf_partially_filled :: bool
  rf_filled :: bool
  rf_reconcile :: bool
  rf_blocked :: bool
  rf_failed :: bool

definition count_of :: "report \<Rightarrow> string \<Rightarrow> int" where
  "count_of p f = counter_value (dget (observation (rp_observation p)) f)"

definition receipt_facts_of :: "report \<Rightarrow> receipt_facts" where
  "receipt_facts_of p =
     (let submissions = count_of p ''submission_attempted_count'';
          acknowledged = count_of p ''broker_acknowledged_count'';
          partial_fills = count_of p ''partially_filled_count'';
          fills = count_of p ''filled_count'';
          failures = count_of p ''failed_count'';
          transport_uncertain = count_of p ''transport_uncertain_count'';
          report_error = (lower (strip (str_or_empty (rp_status p))) = ''error'');
          required = (transport_uncertain \<noteq> 0
            \<or> (report_error \<and> (acknowledged \<noteq> 0 \<or> partial_fills \<noteq> 0 \<or> fills \<noteq> 0)))
      in \<lparr>rf_dry_run = truthy (dget (rp_fields p) ''dry_run''), rf_attempted = (submissions \<noteq> 0),
          rf_acknowledged = (acknowledged \<noteq> 0), rf_partially_filled = (partial_fills \<noteq> 0),
          rf_filled = (fills \<noteq> 0 \<and> fills = submissions \<and> acknowledged = 0 \<and> partial_fills = 0),
          rf_reconcile = required,
          rf_blocked = (submissions = 0 \<and> (truthy (dget (rp_fields p) ''execution_blocked_reason'')
            \<or> truthy (dget (rp_fields p) ''circuit_breaker_triggered''))),
          rf_failed = (failures \<noteq> 0 \<or> (report_error \<and> \<not> required))\<rparr>)"

definition attach_execution_receipt_from_report ::
    "(receipt_facts \<Rightarrow> pyval \<times> pyval) \<Rightarrow> (report \<Rightarrow> pyval \<times> pyval \<Rightarrow> pyexc + report) \<Rightarrow> bool run" where
  "attach_execution_receipt_from_report resolve attach =
     bind (upd_rp (\<lambda>p. p\<lparr>rp_observation := PDict (observation (rp_observation p))\<rparr>)) (\<lambda>_.
     bind (gets rp) (\<lambda>p.
     attempt (liftE (attach p (resolve (receipt_facts_of p))))
       (\<lambda>e. if is_value_error e then ret False else throw e)
       (\<lambda>p'. bind (upd_rp (\<lambda>_. p')) (\<lambda>_. ret True))))"

end
