(* ===== verification/Order_Identity.thy ===== *)
theory Order_Identity
  imports Runtime
begin

text \<open>
  The pure part of order submission (\<open>runtime_support.py\<close>): the identity of a logical order and the
  client order id derived from it, the request a response must answer, the fill a broker response
  attests, and the amounts and receipts of an Earn funding move. Fallible steps return the
  exception; \<open>tryE\<close> is a \<open>try\<close> whose handler returns a fixed result.
\<close>

definition tryE :: "pyexc + 'a \<Rightarrow> (pyexc \<Rightarrow> bool) \<Rightarrow> pyexc + 'b \<Rightarrow> ('a \<Rightarrow> pyexc + 'b) \<Rightarrow> pyexc + 'b" where
  "tryE r p z f = (case r of Inl e \<Rightarrow> if p e then z else Inl e | Inr a \<Rightarrow> f a)"

lemma tryE_Inr_iff [result_simps]:
  "tryE r p z f = Inr b \<longleftrightarrow> (\<exists>e. r = Inl e \<and> p e \<and> z = Inr b) \<or> (\<exists>a. r = Inr a \<and> f a = Inr b)"
  by (auto simp: tryE_def split: sum.splits)

text \<open>The values a \<open>for\<close> loop takes from a value.\<close>

definition iterate :: "pyval \<Rightarrow> pyexc + pyval list" where
  "iterate v = (case v of PList xs \<Rightarrow> Inr xs | PStr s \<Rightarrow> Inr (map (\<lambda>c. PStr [c]) s)
     | PDict d \<Rightarrow> Inr (map (\<lambda>p. PStr (fst p)) d) | _ \<Rightarrow> Inl TypeError)"

definition is_lookup_error :: "pyexc \<Rightarrow> bool" where
  "is_lookup_error e = (e = KeyError \<or> e = InvalidOperation \<or> e = TypeError)"

section \<open>Shapes of text\<close>

definition is_sha256 :: "pyval \<Rightarrow> bool" where
  "is_sha256 v = (case v of PStr s \<Rightarrow> hex64 (strip s) | _ \<Rightarrow> False)"

text \<open>\<open>re.fullmatch(r"[A-Z0-9]{lo,hi}", s)\<close>.\<close>

definition upper_alnum :: "nat \<Rightarrow> nat \<Rightarrow> string \<Rightarrow> bool" where
  "upper_alnum lo hi s = (lo \<le> length s \<and> length s \<le> hi \<and> list_all (\<lambda>c. is_upper_letter c \<or> is_digit c) s)"

definition is_symbol :: "string \<Rightarrow> bool" where
  "is_symbol s = upper_alnum 3 30 s"

section \<open>Order identity\<close>

definition client_order_id_from_digest :: "string \<Rightarrow> pyexc + string" where
  "client_order_id_from_digest identity =
     (if \<not> is_sha256 (PStr identity) then Inl (StatePersistence ''submission_state_invalid'')
      else Inr (''QSL_'' @ take 28 identity))"

definition logical_order :: "string \<Rightarrow> string \<Rightarrow> pydict \<Rightarrow> pyval" where
  "logical_order run_id method payload =
     (let supplied = strip (str_or_empty (dget payload ''newClientOrderId''))
      in if supplied \<noteq> [] then PDict [(''supplied_client_order_id'', PStr supplied)]
         else PDict [(''run_id'', PStr run_id), (''method_name'', PStr method), (''payload'', PDict payload)])"

definition ensure_order_logical_identity :: "string \<Rightarrow> string \<Rightarrow> pydict \<Rightarrow> pyexc + pydict \<times> string" where
  "ensure_order_logical_identity run_id method payload =
     (let identity = sha256 (json_dumps (logical_order run_id method payload))
      in bindE (client_order_id_from_digest identity) (\<lambda>cid.
         Inr (dset ''newClientOrderId'' (PStr cid) payload, identity)))"

record association =
  as_symbol :: string
  as_side :: string
  as_client_order_id :: string
  as_quantity_field :: string
  as_quantity :: pydec

definition order_side :: "string \<Rightarrow> string option" where
  "order_side method = (if method = ''order_market_buy'' then Some ''BUY''
     else if method = ''order_market_sell'' then Some ''SELL'' else None)"

definition dec_positive :: "pydec \<Rightarrow> bool" where
  "dec_positive d = (dec_finite d \<and> dec_less dec_zero d)"

definition build_order_request_association :: "string \<Rightarrow> pydict \<Rightarrow> pyexc + association" where
  "build_order_request_association method payload =
     (let symbol = upper (strip (str_or_empty (dget payload ''symbol'')));
          bad = Inl (StatePersistence ''submission_state_invalid'');
          client_order_id = strip (str_or_empty (dget payload ''newClientOrderId''));
          fields = filter (dhas payload) [''quantity'', ''quoteOrderQty'']
      in if \<not> is_symbol symbol then bad
         else (case order_side method of None \<Rightarrow> bad
         | Some side \<Rightarrow>
             if client_order_id = [] then bad
             else (case fields of
               [field] \<Rightarrow>
                 tryE (to_dec (dget payload field)) (\<lambda>e. e = InvalidOperation \<or> is_value_error e) bad (\<lambda>quantity.
                   if \<not> dec_positive quantity then bad
                   else Inr \<lparr>as_symbol = symbol, as_side = side, as_client_order_id = client_order_id,
                     as_quantity_field = field, as_quantity = quantity\<rparr>)
             | _ \<Rightarrow> bad)))"

text \<open>Whether a broker response answers exactly the request.\<close>

definition reconciled_order_matches_request :: "pyval \<Rightarrow> association \<Rightarrow> bool" where
  "reconciled_order_matches_request response a = (case response of
     PDict d \<Rightarrow>
       (if \<not> py_eq (dget d ''type'') (PStr ''MARKET'') then False
        else if strip (str_or_empty (dget d ''clientOrderId'')) \<noteq> as_client_order_id a then False
        else if upper (strip (str_or_empty (dget d ''symbol''))) \<noteq> as_symbol a then False
        else if upper (strip (str_or_empty (dget d ''side''))) \<noteq> as_side a then False
        else (let field = (if as_quantity_field a = ''quantity'' then ''origQty'' else ''origQuoteOrderQty'')
              in case bindE (dsub d field) to_dec of
                   Inl e \<Rightarrow> False
                 | Inr q \<Rightarrow> dec_finite q \<and> dec_eq q (as_quantity a)))
   | _ \<Rightarrow> False)"

section \<open>What a fill attests\<close>

definition commission_record :: "pydict \<Rightarrow> pyval" where
  "commission_record fill = PDict [
     (''price'', PStr (py_str (dget_or fill ''price'' (PStr [])))),
     (''qty'', PStr (py_str (dget_or fill ''qty'' (PStr [])))),
     (''commission'', PStr (py_str (dget_or fill ''commission'' (PStr [])))),
     (''commission_asset'', PStr (py_str (dget_or fill ''commissionAsset'' (PStr []))))]"

definition known_fill_record :: "pydict \<Rightarrow> pyval" where
  "known_fill_record response =
     (let commissions = (case dget response ''fills'' of
            PList fills \<Rightarrow> map (commission_record \<circ> the_dict) (filter is_dict fills) | _ \<Rightarrow> [])
      in PDict [
        (''client_order_id'', PStr (py_str (dget_or response ''clientOrderId'' (PStr [])))),
        (''side'', PStr (py_str (dget_or response ''side'' (PStr [])))),
        (''executed_qty'', PStr (py_str (dget_or response ''executedQty'' (PStr [])))),
        (''cummulative_quote_qty'', PStr (py_str (dget_or response ''cummulativeQuoteQty'' (PStr [])))),
        (''commissions'', PList commissions)])"

definition dec_1e8 :: pydec where "dec_1e8 = Dec False 1 (- 8)"
definition dec_1e4 :: pydec where "dec_1e4 = Dec False 1 (- 4)"

text \<open>\<open>abs(a - b) <= tolerance\<close>.\<close>

definition dec_within :: "pydec \<Rightarrow> pydec \<Rightarrow> pydec \<Rightarrow> pyexc + bool" where
  "dec_within a b tol = bindE (dec_sub 28 a b) (\<lambda>d. bindE (dec_abs 28 d) (\<lambda>d.
     bindE (dec_lessE tol d) (\<lambda>above. Inr (\<not> above))))"

definition fill_tolerance :: "pydec \<Rightarrow> pyexc + pydec" where
  "fill_tolerance x = bindE (dec_mul 28 x dec_1e8) (dec_max dec_1e8)"

text \<open>One fill line: \<open>None\<close> ends the check with False.\<close>

definition fill_line :: "string list \<Rightarrow> pydec \<times> pydec \<Rightarrow> pyval \<Rightarrow> pyexc + (pydec \<times> pydec) option" where
  "fill_line allowed acc fill = (case fill of
     PDict f \<Rightarrow>
       tryE (bindE (bindE (dsub f ''price'') to_dec) (\<lambda>price.
             bindE (bindE (dsub f ''qty'') to_dec) (\<lambda>qty.
             bindE (bindE (dsub f ''commission'') to_dec) (\<lambda>commission. Inr (price, qty, commission)))))
         is_lookup_error (Inr None)
         (\<lambda>(price, qty, commission).
           let asset = upper (str_or_empty (dget f ''commission_asset''))
           in if \<not> dec_positive price \<or> \<not> dec_positive qty \<or> \<not> dec_finite commission
                \<or> dec_negative commission \<or> asset \<notin> set allowed then Inr None
              else bindE (dec_add 28 (fst acc) qty) (\<lambda>total_qty.
                   bindE (dec_mul 28 price qty) (\<lambda>quote.
                   bindE (dec_add 28 (snd acc) quote) (\<lambda>total_quote.
                   Inr (Some (total_qty, total_quote))))))
   | _ \<Rightarrow> Inr None)"

fun fill_totals :: "string list \<Rightarrow> pydec \<times> pydec \<Rightarrow> pyval list \<Rightarrow> pyexc + (pydec \<times> pydec) option" where
  "fill_totals allowed acc [] = Inr (Some acc)"
| "fill_totals allowed acc (fill # fills) = bindE (fill_line allowed acc fill) (\<lambda>r.
     case r of None \<Rightarrow> Inr None | Some acc' \<Rightarrow> fill_totals allowed acc' fills)"

definition known_fill_is_complete :: "pyval \<Rightarrow> string list \<Rightarrow> pyexc + bool" where
  "known_fill_is_complete known_fill allowed = (case known_fill of
     PDict k \<Rightarrow>
       tryE (bindE (bindE (dsub k ''executed_qty'') to_dec) (\<lambda>executed.
             bindE (bindE (dsub k ''cummulative_quote_qty'') to_dec) (\<lambda>quote. Inr (executed, quote))))
         is_lookup_error (Inr False)
         (\<lambda>(executed, quote).
           if \<not> dec_positive executed \<or> \<not> dec_positive quote then Inr False
           else (case dget k ''commissions'' of
             PList fills \<Rightarrow>
               if fills = [] then Inr False
               else bindE (fill_totals allowed (dec_zero, dec_zero) fills) (\<lambda>totals.
                 case totals of None \<Rightarrow> Inr False
                 | Some (fill_qty, fill_quote) \<Rightarrow>
                     bindE (fill_tolerance executed) (\<lambda>tq.
                     bindE (dec_within fill_qty executed tq) (\<lambda>ok.
                     if \<not> ok then Inr False
                     else bindE (fill_tolerance quote) (dec_within fill_quote quote))))
           | _ \<Rightarrow> Inr False))
   | _ \<Rightarrow> Inr False)"

text \<open>Fuel orders: the observed balances must equal the previous ones moved by the fill.\<close>

definition fee_line :: "string \<Rightarrow> pydec \<times> pydec \<Rightarrow> pyval \<Rightarrow> pyexc + (pydec \<times> pydec) option" where
  "fee_line fuel_asset acc fill =
     tryE (bindE (vsub fill ''commission'') to_dec) is_lookup_error (Inr None) (\<lambda>commission.
     bindE (vget fill ''commission_asset'') (\<lambda>raw.
       let asset = upper (str_or_empty raw)
       in if asset = fuel_asset then bindE (dec_add 28 (fst acc) commission) (\<lambda>f. Inr (Some (f, snd acc)))
          else if asset = ''USDT'' then bindE (dec_add 28 (snd acc) commission) (\<lambda>u. Inr (Some (fst acc, u)))
          else Inr None))"

fun fee_totals :: "string \<Rightarrow> pydec \<times> pydec \<Rightarrow> pyval list \<Rightarrow> pyexc + (pydec \<times> pydec) option" where
  "fee_totals fuel_asset acc [] = Inr (Some acc)"
| "fee_totals fuel_asset acc (fill # fills) = bindE (fee_line fuel_asset acc fill) (\<lambda>r.
     case r of None \<Rightarrow> Inr None | Some acc' \<Rightarrow> fee_totals fuel_asset acc' fills)"

definition fuel_fill_matches_observed_balances :: "pyval \<Rightarrow> pyval \<Rightarrow> pydict \<Rightarrow> string \<Rightarrow> pyexc + bool" where
  "fuel_fill_matches_observed_balances known_fill previous observed fuel_asset = (case previous of
     PDict p \<Rightarrow>
       tryE (bindE (bindE (vsub known_fill ''executed_qty'') to_dec) (\<lambda>executed.
             bindE (bindE (vsub known_fill ''cummulative_quote_qty'') to_dec) (\<lambda>quote.
             bindE (bindE (dsub p fuel_asset) to_dec) (\<lambda>previous_fuel.
             bindE (bindE (dsub p ''USDT'') to_dec) (\<lambda>previous_usdt.
             bindE (bindE (dsub observed fuel_asset) to_dec) (\<lambda>observed_fuel.
             bindE (bindE (dsub observed ''USDT'') to_dec) (\<lambda>observed_usdt.
             Inr (executed, quote, previous_fuel, previous_usdt, observed_fuel, observed_usdt))))))))
         is_lookup_error (Inr False)
         (\<lambda>(executed, quote, previous_fuel, previous_usdt, observed_fuel, observed_usdt).
           bindE (iterate (dget_or (the_dict known_fill) ''commissions'' (PList []))) (\<lambda>fills.
           bindE (fee_totals fuel_asset (dec_zero, dec_zero) fills) (\<lambda>totals.
           case totals of None \<Rightarrow> Inr False
           | Some (fuel_fee, usdt_fee) \<Rightarrow>
               bindE (bindE (dec_add 28 previous_fuel executed) (\<lambda>x. dec_sub 28 x fuel_fee)) (\<lambda>expected_fuel.
               bindE (bindE (dec_sub 28 previous_usdt quote) (\<lambda>x. dec_sub 28 x usdt_fee)) (\<lambda>expected_usdt.
               bindE (dec_within observed_fuel expected_fuel dec_1e8) (\<lambda>ok.
               if \<not> ok then Inr False else dec_within observed_usdt expected_usdt dec_1e4))))))
   | _ \<Rightarrow> Inr False)"

section \<open>Funding amounts and receipts\<close>

definition funding_amount :: "pyval \<Rightarrow> pyexc + pydec" where
  "funding_amount v = bindE (to_dec v) (\<lambda>d.
     if \<not> dec_finite d \<or> dec_negative d then Inl (ValueError ''funding_amount_invalid'') else Inr d)"

definition receipt_keys :: "string list" where
  "receipt_keys = [''id'', ''asset'', ''product_id'', ''amount'', ''spot_before'']"

definition valid_funding_receipt :: "pyval \<Rightarrow> bool" where
  "valid_funding_receipt receipt = (case receipt of
     PDict d \<Rightarrow> keys_are d receipt_keys
       \<and> (case dget d ''id'' of PInt i \<Rightarrow> 0 < i | _ \<Rightarrow> False)
       \<and> (case dget d ''asset'' of PStr s \<Rightarrow> upper_alnum 1 20 s | _ \<Rightarrow> False)
       \<and> (case dget d ''product_id'' of PStr s \<Rightarrow> s \<noteq> [] | _ \<Rightarrow> False)
       \<and> (case funding_amount (dget d ''amount'') of Inr a \<Rightarrow> dec_positive a | Inl e \<Rightarrow> False)
       \<and> (case funding_amount (dget d ''spot_before'') of Inr a \<Rightarrow> True | Inl e \<Rightarrow> False)
   | _ \<Rightarrow> False)"

definition earn_success_id :: "string \<Rightarrow> string option" where
  "earn_success_id method = (if method = ''redeem_simple_earn_flexible_product'' then Some ''redeemId''
     else if method = ''subscribe_simple_earn_flexible_product'' then Some ''purchaseId'' else None)"

definition earn_method_by_effect :: "string \<Rightarrow> string option" where
  "earn_method_by_effect effect_type =
     (if effect_type = ''earn_redeem'' then Some ''redeem_simple_earn_flexible_product''
      else if effect_type = ''earn_subscribe'' then Some ''subscribe_simple_earn_flexible_product'' else None)"

definition is_confirmed_earn_success :: "string \<Rightarrow> pyval \<Rightarrow> bool" where
  "is_confirmed_earn_success method response = (case (earn_success_id method, response) of
     (Some field, PDict d) \<Rightarrow> dget d ''success'' = PBool True
       \<and> (case dget d field of PInt i \<Rightarrow> 0 < i | _ \<Rightarrow> False)
   | _ \<Rightarrow> False)"

section \<open>The durable submission record\<close>

definition submission_key :: string where
  "submission_key = ''order_submission''"

definition reserved_record :: pydict where
  "reserved_record = [(''state'', PStr ''RESERVED'')]"

definition terminal_record :: pydict where
  "terminal_record = [(''state'', PStr ''TERMINAL'')]"

definition unknown_order_record :: "string \<Rightarrow> string \<Rightarrow> pydict" where
  "unknown_order_record identity symbol =
     [(''state'', PStr ''SUBMISSION_UNKNOWN''), (''identity_sha256'', PStr identity), (''symbol'', PStr symbol)]"

definition unknown_earn_record :: "string \<Rightarrow> string \<Rightarrow> pydict" where
  "unknown_earn_record identity method =
     [(''state'', PStr ''SUBMISSION_UNKNOWN''), (''identity_sha256'', PStr identity), (''method_name'', PStr method)]"

text \<open>The shape checks of \<open>_load_order_submission_state\<close>; an unhashable status raises \<open>TypeError\<close>.\<close>

definition symbol_field_ok :: "pydict \<Rightarrow> bool" where
  "symbol_field_ok r = is_symbol (str_or_empty (dget r ''symbol''))"

definition check_submission_record :: "pydict \<Rightarrow> pyexc + unit" where
  "check_submission_record r =
     (let status = dget r ''state''; bad = StatePersistence ''submission_state_invalid''
      in if \<not> hashable status then Inl TypeError
         else if status = PStr ''RESERVED'' \<or> status = PStr ''TERMINAL'' then ensure (keys_are r [''state'']) bad
         else if status = PStr ''FILLED_ACCOUNTING_PENDING'' then
           ensure (keys_are r [''state'', ''identity_sha256'', ''symbol'', ''known_fill'']
             \<and> is_sha256 (dget r ''identity_sha256'') \<and> symbol_field_ok r
             \<and> is_dict (dget r ''known_fill'')) bad
         else if status = PStr ''SUBMISSION_UNKNOWN'' then
           ensure (is_sha256 (dget r ''identity_sha256'')
             \<and> (if keys_are r [''state'', ''identity_sha256'', ''symbol''] then symbol_field_ok r
                else if keys_are r [''state'', ''identity_sha256'', ''method_name'']
                  \<or> keys_are r [''state'', ''identity_sha256'', ''method_name'', ''funding_receipt''] then
                  earn_success_id (str_or_empty (dget r ''method_name'')) \<noteq> None
                  \<and> (dhas r ''funding_receipt'' \<longrightarrow> valid_funding_receipt (dget r ''funding_receipt''))
                else False)) bad
         else Inl bad)"

section \<open>Lemmas\<close>

lemma client_order_id_sha256 [simp]: "client_order_id_from_digest (sha256 s) = Inr (''QSL_'' @ take 28 (sha256 s))"
  by (simp add: client_order_id_from_digest_def is_sha256_def strip_hex64)

lemma is_sha256_digest [simp]: "is_sha256 (PStr (sha256 s))"
  by (simp add: is_sha256_def strip_hex64)

lemma ensure_identity_total:
  "ensure_order_logical_identity run_id method payload =
     Inr (dset ''newClientOrderId'' (PStr (''QSL_'' @ take 28 (sha256 (json_dumps (logical_order run_id method payload))))) payload,
          sha256 (json_dumps (logical_order run_id method payload)))"
  by (simp add: ensure_order_logical_identity_def Let_def)

end
