(* ===== verification/Order_Submission.thy ===== *)
theory Order_Submission
  imports Order_Identity
begin

text \<open>
  The order submission state machine of \<open>runtime_support.py\<close>: who owns the durable state, the
  record RESERVED, SUBMISSION_UNKNOWN, FILLED_ACCOUNTING_PENDING, TERMINAL that is written before
  and after every broker mutation, and \<open>runtime_call_client\<close>, the one function through which
  orders and Earn moves reach the broker. The lemmas establish the write-ahead discipline over
  every environment: an order request leaves the program only after its SUBMISSION_UNKNOWN record
  was saved, at most once per call, and never in a dry run.
\<close>

text \<open>A call whose outcome the code ignores, exceptions included.\<close>

definition quiet :: "env \<Rightarrow> call \<Rightarrow> unit run" where
  "quiet env c = attempt (invoke env c) (\<lambda>_. ret ()) (\<lambda>_. ret ())"

section \<open>Ownership of the durable state\<close>

definition acquire_runtime_state_owner :: "env \<Rightarrow> bool run" where
  "acquire_runtime_state_owner env =
     bind (gets rt) (\<lambda>r.
     if rt_dry_run r \<or> \<not> rt_permitted r then ret True
     else if rt_owner_held r then throw (StatePersistence ''state_owner_already_held'')
     else if \<not> rt_owner_claim r \<or> \<not> rt_owner_release r then throw (StatePersistence ''state_owner_unavailable'')
     else
       bind (invoke env NewOwnerId) (\<lambda>v.
       bind (upd_rt (\<lambda>r. r\<lparr>rt_owner_id := the_str v\<rparr>)) (\<lambda>_.
       attempt (invoke env (ClaimOwner (the_str v)))
         (\<lambda>e. throw (StatePersistence ''state_owner_claim_uncertain''))
         (\<lambda>held.
           if held = PBool True then
             bind (upd_rt (\<lambda>r. r\<lparr>rt_owner_held := True, rt_trade_state := None, rt_pending := [], rt_cash := []\<rparr>))
               (\<lambda>_. ret True)
           else bind (upd_rt (\<lambda>r. r\<lparr>rt_owner_held := False\<rparr>)) (\<lambda>_. ret False)))))"

definition require_runtime_state_owner :: "env \<Rightarrow> unit run" where
  "require_runtime_state_owner env =
     bind (gets rt) (\<lambda>r.
     if \<not> rt_owner_held r \<or> rt_owner_id r = [] then throw (StatePersistence ''state_owner_required'')
     else if rt_bound r then
       attempt (invoke env BoundEnsureActive)
         (\<lambda>e. bind (upd_rt (\<lambda>r. r\<lparr>rt_owner_held := False\<rparr>)) (\<lambda>_. throw (StatePersistence ''state_session_inactive'')))
         (\<lambda>_. ret ())
     else ret ())"

text \<open>
  \<open>_persist_runtime_state\<close>: any failure invalidates a bound session and drops the owner. The
  session's \<open>invalidate\<close> only sets a flag under a lock, so it does not raise.
\<close>

definition write_runtime_state :: "env \<Rightarrow> pydict \<Rightarrow> pyval option \<Rightarrow> pyval run" where
  "write_runtime_state env d interval =
     bind (gets rt) (\<lambda>r.
     if rt_bound r then
       (if rt_writer r \<noteq> BoundWriter then throw (StatePersistence ''state_session_writer_mismatch'')
        else invoke env (BoundSave d interval))
     else if interval \<noteq> None then throw (StatePersistence ''state_session_receipt_unavailable'')
     else if rt_writer r = NoWriter then throw (StatePersistence ''state_persistence_unavailable'')
     else invoke env (WriteState d))"

definition persist_runtime_state :: "env \<Rightarrow> pydict \<Rightarrow> pyval option \<Rightarrow> unit run" where
  "persist_runtime_state env d interval =
     handle
       (bind (write_runtime_state env d interval) (\<lambda>persisted.
        raise_if (persisted \<noteq> PBool True) (StatePersistence ''state_persistence_failed'')))
       (\<lambda>e. bind (gets rt) (\<lambda>r.
          bind (whenM (rt_bound r)
            (bind (upd_rt (\<lambda>r. r\<lparr>rt_owner_held := False\<rparr>)) (\<lambda>_. quiet env BoundInvalidate))) (\<lambda>_.
          throw (StatePersistence ''state_persistence_failed''))))"

definition submission_state_of :: "pydict \<Rightarrow> pyexc + pyval" where
  "submission_state_of d = vget (dget_or d submission_key (PDict [])) ''state''"

definition release_runtime_state_owner :: "env \<Rightarrow> bool run" where
  "release_runtime_state_owner env =
     bind (require_runtime_state_owner env) (\<lambda>_.
     bind (gets (\<lambda>w. case rt_trade_state (rt w) of None \<Rightarrow> [] | Some a \<Rightarrow> heap w a)) (\<lambda>d.
     bind (gets rt) (\<lambda>r.
     bind (if rt_pending r \<noteq> [] then ret True
           else bind (liftE (submission_state_of d)) (\<lambda>status.
             if \<not> hashable status then throw TypeError
             else ret (status = PStr ''SUBMISSION_UNKNOWN'' \<or> status = PStr ''FILLED_ACCOUNTING_PENDING''))) (\<lambda>blocked.
     if blocked then ret False
     else
       attempt (if rt_owner_release r then invoke env (ReleaseOwner (rt_owner_id r)) else throw TypeError)
         (\<lambda>e. bind (upd_rt (\<lambda>r. r\<lparr>rt_owner_held := False\<rparr>)) (\<lambda>_. throw (StatePersistence ''state_owner_release_uncertain'')))
         (\<lambda>released. bind (upd_rt (\<lambda>r. r\<lparr>rt_owner_held := False\<rparr>)) (\<lambda>_.
            if released \<noteq> PBool True then throw (StatePersistence ''state_owner_release_failed'') else ret True))))))"

section \<open>The submission record\<close>

definition load_order_submission_state :: "env \<Rightarrow> (nat \<times> pydict) run" where
  "load_order_submission_state env =
     bind (gets rt) (\<lambda>r.
     bind (case rt_trade_state r of
         Some a \<Rightarrow> ret a
       | None \<Rightarrow>
           if \<not> rt_loader r then throw (StatePersistence ''state_persistence_unavailable'')
           else attempt (invoke env LoadState)
             (\<lambda>e. throw (StatePersistence ''state_persistence_failed''))
             (\<lambda>v. case v of PDict d \<Rightarrow> alloc d | _ \<Rightarrow> throw (StatePersistence ''submission_state_invalid''))) (\<lambda>a.
     bind (read_ref a) (\<lambda>d.
     case dget_or d submission_key (PDict reserved_record) of
       PDict record \<Rightarrow>
         bind (liftE (check_submission_record record)) (\<lambda>_.
         bind (upd_rt (\<lambda>r. r\<lparr>rt_trade_state := Some a\<rparr>)) (\<lambda>_.
         ret (a, record)))
     | _ \<Rightarrow> throw (StatePersistence ''submission_state_invalid''))))"

definition persist_order_submission_state :: "env \<Rightarrow> nat \<Rightarrow> pydict \<Rightarrow> unit run" where
  "persist_order_submission_state env a record =
     bind (require_runtime_state_owner env) (\<lambda>_.
     bind (read_ref a) (\<lambda>d.
     bind (persist_runtime_state env (dset submission_key (PDict record) d) None) (\<lambda>_.
     bind (write_ref a (dset submission_key (PDict record) d)) (\<lambda>_.
     upd_rt (\<lambda>r. r\<lparr>rt_trade_state := Some a\<rparr>)))))"

section \<open>Answers of the broker\<close>

definition binance_error_code :: "pyexc \<Rightarrow> int option" where
  "binance_error_code e = (case e of ClientExc transport code \<Rightarrow> code | _ \<Rightarrow> None)"

definition is_order_transport_uncertainty :: "pyexc \<Rightarrow> bool" where
  "is_order_transport_uncertainty e =
     ((case e of ClientExc transport code \<Rightarrow> transport | _ \<Rightarrow> False)
      \<or> binance_error_code e \<in> {Some (- 1001), Some (- 1006), Some (- 1007)})"

definition reconcile_uncertain_order :: "env \<Rightarrow> pyval \<Rightarrow> string \<Rightarrow> pyval run" where
  "reconcile_uncertain_order env symbol identity =
     (if \<not> truthy symbol \<or> identity = [] then throw (OrderReconciliation ''order_reconciliation_uncertain'')
      else
        attempt
          (bind (liftE (client_order_id_from_digest identity)) (\<lambda>cid.
           invoke env (Client ''get_order'' [(''symbol'', symbol), (''origClientOrderId'', PStr cid)])))
          (\<lambda>e. throw (OrderReconciliation ''order_reconciliation_uncertain''))
          (\<lambda>response. if is_dict response then ret response
             else throw (OrderReconciliation ''order_reconciliation_uncertain'')))"

definition require_filled_order_response :: "pyval \<Rightarrow> pyval run" where
  "require_filled_order_response response =
     (if \<not> is_dict response then throw (OrderReconciliation ''order_reconciliation_uncertain'')
      else if response_status response = ''FILLED'' then ret response
      else if response_status response \<in> set failed_statuses then throw (ClientCallFailed ''order_submission_failed'')
      else throw (OrderReconciliation ''order_reconciliation_uncertain''))"

definition confirm_last :: "fund list \<Rightarrow> fund list" where
  "confirm_last fs = (if fs = [] then [] else butlast fs @ [(last fs)\<lparr>fd_confirmed := True\<rparr>])"

text \<open>A failed status is final only when the broker says nothing was executed.\<close>

definition attests_no_fill :: "pyval \<Rightarrow> bool" where
  "attests_no_fill response = (case bindE (vsub response ''executedQty'') to_dec of
     Inr q \<Rightarrow> dec_finite q \<and> dec_is_zero q | Inl e \<Rightarrow> False)"

definition pending_record :: "pydict \<Rightarrow> pydict \<Rightarrow> pydict" where
  "pending_record previous response =
     [(''state'', PStr ''FILLED_ACCOUNTING_PENDING''),
      (''identity_sha256'', PStr (str_or_empty (dget previous ''identity_sha256''))),
      (''symbol'', PStr (upper (str_or_empty
         (if truthy (dget previous ''symbol'') then dget previous ''symbol'' else dget response ''symbol'')))),
      (''known_fill'', known_fill_record response)]"

definition complete_order_response :: "env \<Rightarrow> nat \<Rightarrow> pyval \<Rightarrow> bool \<Rightarrow> pyval run" where
  "complete_order_response env a response fill_accounting_required =
     bind (record_order_response response) (\<lambda>_.
     let status = response_status response; failed = (status \<in> set failed_statuses) in
     bind (raise_if (failed \<and> \<not> attests_no_fill response) (OrderReconciliation ''order_reconciliation_uncertain'')) (\<lambda>_.
     bind (whenM (status = ''FILLED'' \<or> failed)
       (bind (read_ref a) (\<lambda>d.
        bind (if status = ''FILLED'' \<and> fill_accounting_required then
                (case dget_or d submission_key (PDict []) of
                   PDict previous \<Rightarrow> ret (pending_record previous (the_dict response))
                 | _ \<Rightarrow> throw AttributeError)
              else ret terminal_record) (\<lambda>record.
        bind (persist_order_submission_state env a record) (\<lambda>_.
        upd_rt (\<lambda>r. r\<lparr>rt_pending := if rt_pending r = [] then []
          else if status = ''FILLED'' then confirm_last (rt_pending r) else butlast (rt_pending r)\<rparr>)))))) (\<lambda>_.
     require_filled_order_response response)))"


section \<open>Earn settlement\<close>

definition history_row_matches :: "bool \<Rightarrow> pydict \<Rightarrow> pydict \<Rightarrow> pydec \<Rightarrow> pyexc + bool" where
  "history_row_matches redeem receipt row amount =
     (let id_key = (if redeem then ''redeemId'' else ''purchaseId'')
      in if \<not> is_plain_int (dget row id_key) \<or> \<not> py_eq (dget row id_key) (dget receipt ''id'')
           \<or> \<not> py_eq (dget row ''asset'') (dget receipt ''asset'')
           \<or> \<not> py_eq (dget row (if redeem then ''projectId'' else ''productId'')) (dget receipt ''product_id'')
           \<or> dget row ''status'' \<noteq> PStr (if redeem then ''PAID'' else ''SUCCESS'')
           \<or> dget row (if redeem then ''destAccount'' else ''sourceAccount'') \<noteq> PStr ''SPOT'' then Inr False
         else bindE (funding_amount (dget row ''amount'')) (\<lambda>a. Inr (dec_eq a amount)))"

definition expected_spot :: "bool \<Rightarrow> pydict \<Rightarrow> pydec \<Rightarrow> pyexc + pydec" where
  "expected_spot redeem receipt amount =
     bindE (funding_amount (dget receipt ''spot_before'')) (\<lambda>before.
     bindE (if redeem then Inr amount else dec_neg 28 amount) (\<lambda>delta. dec_add 28 before delta))"

definition confirm_funding_settlement :: "env \<Rightarrow> string \<Rightarrow> pyval \<Rightarrow> unit run" where
  "confirm_funding_settlement env method receipt =
     handle
       (bind (raise_if (\<not> valid_funding_receipt receipt) (ValueError ''funding_receipt_invalid'')) (\<lambda>_.
        let r = the_dict receipt; redeem = (method = ''redeem_simple_earn_flexible_product'');
            id_key = (if redeem then ''redeemId'' else ''purchaseId'');
            path = (if redeem then ''redemptionRecord'' else ''subscriptionRecord'') in
        bind (invoke env (Client ''_request_margin_api''
          [(''method'', PStr ''get''), (''path'', PStr (''simple-earn/flexible/history/'' @ path)), (''signed'', PBool True),
           (''data'', PDict [(id_key, dget r ''id''), (''productId'', dget r ''product_id''), (''asset'', dget r ''asset''),
              (''current'', PInt 1), (''size'', PInt 100)])])) (\<lambda>response.
        bind (case response of
            PDict d \<Rightarrow> (case (dget d ''total'', dget d ''rows'') of
                (PInt n, PList [row]) \<Rightarrow> if n = 1 then ret row else throw (ValueError ''funding_history_incomplete'')
              | _ \<Rightarrow> throw (ValueError ''funding_history_incomplete''))
          | _ \<Rightarrow> throw (ValueError ''funding_history_incomplete'')) (\<lambda>row.
        bind (liftE (funding_amount (dget r ''amount''))) (\<lambda>amount.
        bind (case row of PDict d \<Rightarrow> liftE (history_row_matches redeem r d amount) | _ \<Rightarrow> ret False) (\<lambda>matches.
        bind (raise_if (\<not> matches) (ValueError ''funding_history_mismatch'')) (\<lambda>_.
        bind (invoke env (Client ''get_asset_balance'' [(''asset'', dget r ''asset'')])) (\<lambda>spot.
        bind (liftE (bindE (vsub spot ''free'') funding_amount)) (\<lambda>free.
        bind (liftE (expected_spot redeem r amount)) (\<lambda>expected.
        raise_if (\<not> dec_eq free expected) (ValueError ''funding_cash_mismatch'')))))))))))
       (\<lambda>e. throw (OrderReconciliation ''funding_settlement_unverified''))"

section \<open>Calling the broker\<close>

definition suppressed_call :: "string \<Rightarrow> pydict \<Rightarrow> string \<Rightarrow> pyval run" where
  "suppressed_call method payload effect_type =
     bind (record_side_effect effect_type method (PDict payload) False) (\<lambda>_.
     ret (PDict [(''status'', PStr ''suppressed''), (''method'', PStr method), (''payload'', PDict payload)]))"

text \<open>
  An earlier submission is still unknown: only a read may resolve it, and only for the identical
  order; an Earn move is left to its own reconciliation.
\<close>

definition resume_unknown_order :: "env \<Rightarrow> string \<Rightarrow> pydict \<Rightarrow> bool \<Rightarrow> nat \<Rightarrow> pydict \<Rightarrow> pyval run" where
  "resume_unknown_order env method payload is_earn a record =
     (if dhas record ''method_name'' \<or> is_earn then
        bind (invoke env RetryGuard) (\<lambda>_. throw (OrderReconciliation ''order_reconciliation_uncertain''))
      else
        bind (gets rt) (\<lambda>r.
        bind (liftE (ensure_order_logical_identity (rt_run_id r) method payload)) (\<lambda>(current_payload, identity).
        bind (raise_if (\<not> py_eq (PStr identity) (dget record ''identity_sha256''))
          (OrderReconciliation ''order_reconciliation_intent_mismatch'')) (\<lambda>_.
        bind (liftE (build_order_request_association method current_payload)) (\<lambda>assoc.
        bind (reconcile_uncertain_order env (dget record ''symbol'') (the_str (dget record ''identity_sha256''))) (\<lambda>response.
        bind (raise_if (\<not> reconciled_order_matches_request response assoc)
          (OrderReconciliation ''order_reconciliation_intent_mismatch'')) (\<lambda>_.
        bind (upd_rt (\<lambda>r. if rt_pending r = [] then r\<lparr>rt_pending := [\<lparr>fd_confirmed = False,
            fd_action = lower (as_side assoc), fd_symbol = PStr (as_symbol assoc), fd_asset = PNone\<rparr>]\<rparr> else r)) (\<lambda>_.
        bind (complete_order_response env a response True) (\<lambda>result.
        bind (quiet env (OrderIdentity (Some (as_client_order_id assoc)))) (\<lambda>_.
        ret result))))))))))"

text \<open>Checks of an Earn move before it is recorded: the payload with its account, amount and spot balance.\<close>

definition earn_preflight :: "env \<Rightarrow> string \<Rightarrow> pydict \<Rightarrow> pyval \<Rightarrow> (pydict \<times> pydec \<times> pydec) run" where
  "earn_preflight env effect_type payload asset =
     handle
       (bind (raise_if (\<not> (case asset of PStr s \<Rightarrow> upper_alnum 1 20 s | _ \<Rightarrow> False)) (ValueError ''funding_asset_missing'')) (\<lambda>_.
        bind (liftE (funding_amount (dget payload ''amount''))) (\<lambda>amount.
        bind (raise_if (\<not> dec_positive amount \<or> \<not> is_str (dget payload ''productId'') \<or> \<not> truthy (dget payload ''productId''))
          (ValueError ''funding_request_invalid'')) (\<lambda>_.
        let account_key = (if effect_type = ''earn_redeem'' then ''destAccount'' else ''sourceAccount'') in
        bind (raise_if (\<not> py_eq (dget_or payload account_key (PStr ''SPOT'')) (PStr ''SPOT'')) (ValueError ''funding_account_invalid'')) (\<lambda>_.
        bind (invoke env (Client ''get_asset_balance'' [(''asset'', asset)])) (\<lambda>balance.
        bind (liftE (bindE (vsub balance ''free'') funding_amount)) (\<lambda>spot_before.
        bind (raise_if (effect_type = ''earn_subscribe'' \<and> dec_less spot_before amount) (ValueError ''funding_spot_insufficient'')) (\<lambda>_.
        ret (dset account_key (PStr ''SPOT'') payload, amount, spot_before)))))))))
       (\<lambda>e. throw (ExecutionIntegrity ''funding_preflight_failed''))"

definition new_fund :: "runtime \<Rightarrow> string \<Rightarrow> pydict \<Rightarrow> bool \<Rightarrow> pyval \<Rightarrow> fund" where
  "new_fund r method payload is_earn accounting_asset =
     \<lparr>fd_confirmed = False, fd_action = (if method = ''order_market_buy'' then ''buy'' else ''sell''),
      fd_symbol = dget payload ''symbol'',
      fd_asset = (if is_earn then accounting_asset
        else if dget payload ''symbol'' = PStr (rt_fuel_symbol r) then PStr (rt_fuel_asset r) else PNone)\<rparr>"

text \<open>The durable record, the pending fund and the attempt counter that precede a mutation.\<close>

definition announce_submission :: "env \<Rightarrow> string \<Rightarrow> pydict \<Rightarrow> bool \<Rightarrow> pyval \<Rightarrow> nat \<Rightarrow> pydict \<Rightarrow> unit run" where
  "announce_submission env method payload is_earn accounting_asset a unknown_record =
     bind (persist_order_submission_state env a unknown_record) (\<lambda>_.
     bind (upd_rt (\<lambda>r. r\<lparr>rt_pending := rt_pending r @ [new_fund r method payload is_earn accounting_asset]\<rparr>)) (\<lambda>_.
     record_order_submission_attempt))"

definition failure_payload :: "pydict \<Rightarrow> nat \<Rightarrow> pyval" where
  "failure_payload payload retries = PDict [(''payload'', PDict payload),
     (''reason'', PStr ''order_reconciliation_uncertain''), (''retries'', PInt (int retries))]"

definition deny_uncertain_earn :: "env \<Rightarrow> string \<Rightarrow> pydict \<Rightarrow> string \<Rightarrow> pyval run" where
  "deny_uncertain_earn env method payload effect_type =
     bind (record_side_effect (effect_type @ ''_failed'') method (failure_payload payload 0) False) (\<lambda>_.
     bind (invoke env RetryGuard) (\<lambda>_.
     throw (OrderReconciliation ''order_reconciliation_uncertain'')))"

definition submit_earn ::
    "env \<Rightarrow> string \<Rightarrow> pydict \<Rightarrow> string \<Rightarrow> pyval \<Rightarrow> nat \<Rightarrow> pydict \<Rightarrow> pydec \<Rightarrow> pydec \<Rightarrow> pyval run" where
  "submit_earn env method payload effect_type asset a unknown_record amount spot_before =
     bind (quiet env Pause) (\<lambda>_.
     attempt (invoke env (Client method payload))
       (\<lambda>e. bind (whenM (is_order_transport_uncertainty e) record_order_transport_uncertainty) (\<lambda>_.
          deny_uncertain_earn env method payload effect_type))
       (\<lambda>response.
         if \<not> is_confirmed_earn_success method response then deny_uncertain_earn env method payload effect_type
         else
           bind (record_side_effect effect_type method (PDict payload) True) (\<lambda>_.
           let receipt = PDict [(''id'', dget (the_dict response) (the (earn_success_id method))), (''asset'', asset),
                 (''product_id'', dget payload ''productId''), (''amount'', PStr (dec_str amount)),
                 (''spot_before'', PStr (dec_str spot_before))] in
           bind (persist_order_submission_state env a (dset ''funding_receipt'' receipt unknown_record)) (\<lambda>_.
           bind (confirm_funding_settlement env method receipt) (\<lambda>_.
           bind (persist_order_submission_state env a terminal_record) (\<lambda>_.
           bind (upd_rt (\<lambda>r. r\<lparr>rt_pending := confirm_last (rt_pending r)\<rparr>)) (\<lambda>_.
           ret response)))))))"


text \<open>An order response is accepted only when it answers the request just made.\<close>

definition accept_order_response :: "env \<Rightarrow> nat \<Rightarrow> association \<Rightarrow> pyval \<Rightarrow> string \<Rightarrow> string option \<Rightarrow> pyval run" where
  "accept_order_response env a assoc response mismatch client_id =
     bind (raise_if (\<not> reconciled_order_matches_request response assoc) (OrderReconciliation mismatch)) (\<lambda>_.
     bind (complete_order_response env a response True) (\<lambda>result.
     bind (quiet env (OrderIdentity client_id)) (\<lambda>_.
     ret result)))"

text \<open>The order request failed: one read decides, and its failure is recorded before it is raised.\<close>

definition recover_order ::
    "env \<Rightarrow> string \<Rightarrow> pydict \<Rightarrow> string \<Rightarrow> nat \<Rightarrow> association \<Rightarrow> string \<Rightarrow> nat \<Rightarrow> pyexc \<Rightarrow> pyval run" where
  "recover_order env method payload effect_type a assoc identity n e =
     bind (whenM (is_order_transport_uncertainty e) record_order_transport_uncertainty) (\<lambda>_.
     attempt (reconcile_uncertain_order env (PStr (as_symbol assoc)) identity)
       (\<lambda>e'. case e' of
          OrderReconciliation m \<Rightarrow>
            bind (record_side_effect (effect_type @ ''_failed'') method (failure_payload payload n) False) (\<lambda>_.
            bind record_order_failure (\<lambda>_. throw e'))
        | _ \<Rightarrow> throw e')
       (\<lambda>response. accept_order_response env a assoc response ''order_reconciliation_intent_mismatch''
          (Some (as_client_order_id assoc))))"

text \<open>
  The attempt loop. \<open>order\<close> holds the submission being made when the call is an order; every branch
  of an order attempt returns or raises, so only other calls are retried.
\<close>

fun client_attempts ::
    "env \<Rightarrow> string \<Rightarrow> pydict \<Rightarrow> string \<Rightarrow> (nat \<times> association \<times> string) option \<Rightarrow> nat \<Rightarrow> nat \<Rightarrow> nat \<Rightarrow> pyval run" where
  "client_attempts env method payload effect_type order max_retries n 0 =
     bind (record_side_effect (effect_type @ ''_failed'') method
       (PDict [(''payload'', PDict payload), (''retries'', PInt (int max_retries))]) False) (\<lambda>_.
     bind (whenM (order \<noteq> None) record_order_failure) (\<lambda>_.
     throw (ClientCallFailed (if order \<noteq> None then ''order_submission_failed'' else ''client_call_failed''))))"
| "client_attempts env method payload effect_type order max_retries n (Suc left) =
     attempt (invoke env (Client method payload))
       (\<lambda>e. case order of
          Some (a, assoc, identity) \<Rightarrow> recover_order env method payload effect_type a assoc identity n e
        | None \<Rightarrow> bind (whenM (n < max_retries) (quiet env Pause)) (\<lambda>_.
            client_attempts env method payload effect_type order max_retries (n + 1) left))
       (\<lambda>response.
          bind (record_side_effect effect_type method (PDict payload) True) (\<lambda>_.
          case order of
            Some (a, assoc, identity) \<Rightarrow>
              accept_order_response env a assoc response ''order_reconciliation_uncertain''
                (case dget payload ''newClientOrderId'' of PStr s \<Rightarrow> Some s | _ \<Rightarrow> None)
          | None \<Rightarrow> ret response))"

text \<open>A new order: association, durable record, then the request.\<close>

definition submit_order :: "env \<Rightarrow> string \<Rightarrow> pydict \<Rightarrow> string \<Rightarrow> nat \<Rightarrow> nat \<Rightarrow> pyval run" where
  "submit_order env method payload effect_type max_retries a =
     bind (gets rt) (\<lambda>r.
     bind (liftE (ensure_order_logical_identity (rt_run_id r) method payload)) (\<lambda>(client_payload, identity).
     bind (liftE (build_order_request_association method client_payload)) (\<lambda>assoc.
     bind (announce_submission env method client_payload False PNone a
       (unknown_order_record identity (as_symbol assoc))) (\<lambda>_.
     bind (quiet env Pause) (\<lambda>_.
     client_attempts env method client_payload effect_type (Some (a, assoc, identity)) max_retries 0 (max_retries + 1))))))"

definition submit_earn_move :: "env \<Rightarrow> string \<Rightarrow> pydict \<Rightarrow> string \<Rightarrow> pyval \<Rightarrow> nat \<Rightarrow> pyval run" where
  "submit_earn_move env method payload effect_type accounting_asset a =
     bind (earn_preflight env effect_type payload accounting_asset) (\<lambda>(client_payload, amount, spot_before).
     bind (gets rt) (\<lambda>r.
     bind (liftE (ensure_order_logical_identity (rt_run_id r) method payload)) (\<lambda>(unused, identity).
     let unknown_record = unknown_earn_record identity method in
     bind (announce_submission env method client_payload True accounting_asset a unknown_record) (\<lambda>_.
     submit_earn env method client_payload effect_type accounting_asset a unknown_record amount spot_before))))"

definition submit_mutation :: "env \<Rightarrow> string \<Rightarrow> pydict \<Rightarrow> string \<Rightarrow> nat \<Rightarrow> pyval \<Rightarrow> bool \<Rightarrow> pyval run" where
  "submit_mutation env method payload effect_type max_retries accounting_asset is_earn =
     bind (load_order_submission_state env) (\<lambda>(a, record).
     let status = dget record ''state'' in
     if status = PStr ''SUBMISSION_UNKNOWN'' then resume_unknown_order env method payload is_earn a record
     else if status = PStr ''FILLED_ACCOUNTING_PENDING'' then
       throw (OrderReconciliation ''filled_order_accounting_unverifiable'')
     else
       bind (whenM (status = PStr ''TERMINAL'') (persist_order_submission_state env a reserved_record)) (\<lambda>_.
       if is_earn then submit_earn_move env method payload effect_type accounting_asset a
       else submit_order env method payload effect_type max_retries a))"

definition is_order_effect :: "string \<Rightarrow> bool" where
  "is_order_effect effect_type = starts_with effect_type ''order_''"

definition runtime_call_client :: "env \<Rightarrow> string \<Rightarrow> pydict \<Rightarrow> string \<Rightarrow> nat \<Rightarrow> pyval \<Rightarrow> pyval run" where
  "runtime_call_client env method payload effect_type max_retries accounting_asset =
     bind (whenM (is_order_effect effect_type) (quiet env (OrderIdentity None))) (\<lambda>_.
     bind (gets rt) (\<lambda>r.
     if rt_dry_run r \<or> \<not> rt_permitted r then suppressed_call method payload effect_type
     else
       bind (require_runtime_state_owner env) (\<lambda>_.
       bind (raise_if (\<not> rt_client r) (RuntimeErr ''runtime.client is not configured'')) (\<lambda>_.
       let is_order = is_order_effect effect_type; is_earn = (earn_method_by_effect effect_type = Some method) in
       if (starts_with effect_type ''earn_'' \<or> earn_success_id method \<noteq> None) \<and> \<not> is_earn then
         throw (StatePersistence ''submission_state_invalid'')
       else if is_order \<or> is_earn then
         submit_mutation env method payload effect_type max_retries accounting_asset is_earn
       else
         bind (quiet env Pause) (\<lambda>_.
         client_attempts env method payload effect_type None max_retries 0 (max_retries + 1))))))"


section \<open>Write-ahead discipline\<close>

definition order_request :: "call \<Rightarrow> bool" where
  "order_request c = (case c of Client m kw \<Rightarrow> order_side m \<noteq> None | _ \<Rightarrow> False)"

text \<open>The submission record made durable by a successful save.\<close>

definition saved_record :: "event \<Rightarrow> pyval option" where
  "saved_record e = (case e of
     (WriteState d, Inr (PBool True)) \<Rightarrow> Some (dget d submission_key)
   | (BoundSave d i, Inr (PBool True)) \<Rightarrow> Some (dget d submission_key)
   | _ \<Rightarrow> None)"

definition note_saved :: "pyval option \<Rightarrow> event \<Rightarrow> pyval option" where
  "note_saved s e = (case saved_record e of Some v \<Rightarrow> Some v | None \<Rightarrow> s)"

definition durable_record :: "event list \<Rightarrow> pyval option" where
  "durable_record tr = foldl note_saved None tr"

text \<open>A request is covered by the record last made durable: same identity, same symbol.\<close>

definition covers :: "pyval option \<Rightarrow> pydict \<Rightarrow> bool" where
  "covers s kw = (case s of
     Some (PDict record) \<Rightarrow> (case (dget record ''identity_sha256'', dget record ''symbol'') of
       (PStr identity, PStr symbol) \<Rightarrow>
         record = unknown_order_record identity symbol
         \<and> dget kw ''newClientOrderId'' = PStr (''QSL_'' @ take 28 identity)
         \<and> symbol = upper (strip (str_or_empty (dget kw ''symbol'')))
     | _ \<Rightarrow> False)
   | _ \<Rightarrow> False)"

fun announced_from :: "pyval option \<Rightarrow> event list \<Rightarrow> bool" where
  "announced_from s [] = True"
| "announced_from s (e # es) =
     ((order_request (fst e) \<longrightarrow> (case fst e of Client m kw \<Rightarrow> covers s kw | _ \<Rightarrow> False))
      \<and> announced_from (note_saved s e) es)"

definition announced :: "event list \<Rightarrow> bool" where
  "announced tr = announced_from None tr"

definition order_requests :: "event list \<Rightarrow> nat" where
  "order_requests tr = length (filter (\<lambda>e. order_request (fst e)) tr)"

lemma announced_from_append:
  "announced_from s (xs @ ys) \<longleftrightarrow> announced_from s xs \<and> announced_from (foldl note_saved s xs) ys"
  by (induction xs arbitrary: s) auto

lemma announced_append: "announced (xs @ ys) \<longleftrightarrow> announced xs \<and> announced_from (durable_record xs) ys"
  by (simp add: announced_def durable_record_def announced_from_append)

lemma order_requests_append [simp]: "order_requests (xs @ ys) = order_requests xs + order_requests ys"
  by (simp add: order_requests_def)

text \<open>Extending the history by calls that are not order requests.\<close>

definition no_request :: "event list \<Rightarrow> bool" where
  "no_request evs = list_all (\<lambda>e. \<not> order_request (fst e)) evs"

lemma no_request_announced: "no_request evs \<Longrightarrow> announced_from s evs"
  by (induction evs arbitrary: s) (auto simp: no_request_def)

lemma no_request_count: "no_request evs \<Longrightarrow> order_requests evs = 0"
  by (auto simp: no_request_def order_requests_def list_all_iff)

definition silent :: "world \<Rightarrow> world \<Rightarrow> bool" where
  "silent w w' = (\<exists>evs. trace w' = trace w @ evs \<and> no_request evs)"

lemma silent_refl [keeps_intros]: "reflp silent"
  by (auto simp: reflp_def silent_def no_request_def)

lemma silent_trans [keeps_intros]: "transp silent"
  by (auto simp: transp_def silent_def no_request_def)

lemma silent_invoke [keeps_intros]: "\<not> order_request c \<Longrightarrow> keeps silent (invoke env c)"
  by (auto simp: keeps_def silent_def invoke_def no_request_def)

lemma silent_same: "trace w' = trace w \<Longrightarrow> silent w w'"
  by (simp add: silent_def no_request_def)

lemma silent_upd [keeps_intros]:
  "keeps silent (upd_rt f)" "keeps silent (upd_rp g)" "keeps silent (write_ref a d)" "keeps silent (alloc d)"
  "keeps silent (read_ref a)"
  by (auto simp: keeps_def upd_rt_def upd_rp_def update_def write_ref_def alloc_def read_ref_def gets_def
      intro!: silent_same)

lemma not_order_request [simp]:
  "\<not> order_request (WriteState d)" "\<not> order_request (BoundSave d i)" "\<not> order_request LoadState"
  "\<not> order_request BoundEnsureActive" "\<not> order_request BoundInvalidate" "\<not> order_request (ClaimOwner s)"
  "\<not> order_request (ReleaseOwner s)" "\<not> order_request NewOwnerId" "\<not> order_request (OrderIdentity cid)"
  "\<not> order_request RetryGuard" "\<not> order_request Pause" "\<not> order_request ClockNow"
  "\<not> order_request (Notifier t)" "\<not> order_request DigestEnabled" "\<not> order_request UnifiedEnabled"
  "\<not> order_request ConnectClient" "\<not> order_request (BtcSnapshot p)" "\<not> order_request (DailyIndicators s)"
  "order_request (Client m kw) \<longleftrightarrow> order_side m \<noteq> None"
  by (simp_all add: order_request_def)

lemma silent_quiet [keeps_intros]: "\<not> order_request c \<Longrightarrow> keeps silent (quiet env c)"
  unfolding quiet_def by (intro keeps_intros)

lemma quiet_rt: "wp (quiet env c) (\<lambda>_ u. rt u = rt w) (\<lambda>_ _. False) w"
  by (cases "env (trace w) c") (simp_all add: quiet_def eff_simps)

lemma silent_records [keeps_intros]:
  "keeps silent (record_side_effect t m p b)" "keeps silent (record_order_response v)"
  "keeps silent record_order_submission_attempt" "keeps silent record_order_transport_uncertainty"
  "keeps silent record_order_failure"
  unfolding record_side_effect_def record_order_response_def record_order_submission_attempt_def
    record_order_transport_uncertainty_def record_order_failure_def bump_def
  by (intro keeps_intros)+

lemma silent_require [keeps_intros]: "keeps silent (require_runtime_state_owner env)"
  unfolding require_runtime_state_owner_def by (intro keeps_intros) simp

lemma silent_persist_runtime [keeps_intros]: "keeps silent (persist_runtime_state env d i)"
  unfolding persist_runtime_state_def write_runtime_state_def by (intro keeps_intros; simp)

lemma silent_persist [keeps_intros]: "keeps silent (persist_order_submission_state env a r)"
  unfolding persist_order_submission_state_def by (intro keeps_intros)

lemma silent_load [keeps_intros]: "keeps silent (load_order_submission_state env)"
  unfolding load_order_submission_state_def by (intro keeps_intros; simp)


lemma silent_complete [keeps_intros]: "keeps silent (complete_order_response env a r b)"
  unfolding complete_order_response_def require_filled_order_response_def by (intro keeps_intros; simp)

lemma order_side_other [simp]:
  "order_side ''get_order'' = None" "order_side ''_request_margin_api'' = None" "order_side ''get_asset_balance'' = None"
  by (simp_all add: order_side_def)

lemma silent_reconcile [keeps_intros]: "keeps silent (reconcile_uncertain_order env s i)"
  unfolding reconcile_uncertain_order_def by (intro keeps_intros; simp)

lemma silent_accept [keeps_intros]: "keeps silent (accept_order_response env a assoc r m c)"
  unfolding accept_order_response_def by (intro keeps_intros; simp)

lemma silent_recover [keeps_intros]: "keeps silent (recover_order env m p t a assoc i n e)"
  unfolding recover_order_def by (intro keeps_intros) (auto intro!: keeps_intros split: pyexc.split)

lemma silent_resume [keeps_intros]: "keeps silent (resume_unknown_order env m p b a r)"
  unfolding resume_unknown_order_def by (intro keeps_intros; simp)

lemma silent_confirm [keeps_intros]: "keeps silent (confirm_funding_settlement env m r)"
  unfolding confirm_funding_settlement_def by (intro keeps_intros; simp)

lemma silent_preflight [keeps_intros]: "keeps silent (earn_preflight env t p v)"
  unfolding earn_preflight_def by (intro keeps_intros; simp)

lemma silent_announce [keeps_intros]: "keeps silent (announce_submission env m p b v a r)"
  unfolding announce_submission_def by (intro keeps_intros)

lemma silent_suppressed [keeps_intros]: "keeps silent (suppressed_call m p t)"
  unfolding suppressed_call_def by (intro keeps_intros)

lemma silent_deny_earn [keeps_intros]: "keeps silent (deny_uncertain_earn env m p t)"
  unfolding deny_uncertain_earn_def by (intro keeps_intros; simp)

lemma silent_submit_earn: "order_side m = None \<Longrightarrow> keeps silent (submit_earn env m p t v a r x y)"
  unfolding submit_earn_def by (intro keeps_intros; simp)

lemma silent_submit_earn_move: "order_side m = None \<Longrightarrow> keeps silent (submit_earn_move env m p t v a)"
  unfolding submit_earn_move_def by (intro keeps_intros silent_submit_earn)

lemma durable_snoc [simp]: "durable_record (tr @ [e]) = note_saved (durable_record tr) e"
  by (simp add: durable_record_def)

lemma note_saved_simps [simp]:
  "note_saved s (WriteState d, Inr (PBool True)) = Some (dget d submission_key)"
  "note_saved s (BoundSave d i, Inr (PBool True)) = Some (dget d submission_key)"
  "note_saved s (Pause, r) = s" "note_saved s (OrderIdentity c, r) = s" "note_saved s (RetryGuard, r) = s"
  "note_saved s (BoundEnsureActive, r) = s" "note_saved s (Client m kw, r) = s"
  by (simp_all add: note_saved_def saved_record_def)

lemma persist_runtime_durable:
  "wp (persist_runtime_state env d i) (\<lambda>_ w'. durable_record (trace w') = Some (dget d submission_key)) (\<lambda>_ _. True) w"
  by (simp add: persist_runtime_state_def write_runtime_state_def eff_simps quiet_def split: sum.splits)

lemma persist_durable:
  "wp (persist_order_submission_state env a record) (\<lambda>_ w'. durable_record (trace w') = Some (PDict record)) (\<lambda>_ _. True) w"
proof -
  have r: "wp (require_runtime_state_owner env) (\<lambda>_ _. True) (\<lambda>_ _. True) w"
    by (simp add: wp_def split: prod.splits sum.splits)
  show ?thesis
    unfolding persist_order_submission_state_def eff_simps
    by (rule wp_mono [OF r], rule wp_mono [OF persist_runtime_durable]) (simp_all add: submission_key_def)
qed

text \<open>After the announcement succeeds the durable record is the announced one.\<close>

lemma announce_durable:
  "wp (announce_submission env method payload is_earn asset a record)
     (\<lambda>_ w'. durable_record (trace w') = Some (PDict record) \<and> silent w w') (\<lambda>_. silent w) w"
proof -
  have "wp (announce_submission env method payload is_earn asset a record)
     (\<lambda>_ w'. durable_record (trace w') = Some (PDict record)) (\<lambda>_ _. True) w"
    unfolding announce_submission_def eff_simps
    by (rule wp_mono [OF persist_durable])
      (simp_all add: record_order_submission_attempt_def bump_def eff_simps)
  from wp_conj [OF this keeps_wp [OF silent_announce]]
  show ?thesis by (rule wp_mono) auto
qed

text \<open>At most one covered request follows, and nothing else is requested.\<close>

definition one_covered :: "world \<Rightarrow> world \<Rightarrow> bool" where
  "one_covered w w' = (\<exists>evs. trace w' = trace w @ evs \<and> order_requests evs \<le> 1 \<and> announced_from (durable_record (trace w)) evs)"

lemma silent_one_covered: "silent w w' \<Longrightarrow> one_covered w w'"
  by (auto simp: silent_def one_covered_def no_request_count no_request_announced)

lemma one_covered_then_silent:
  assumes "one_covered w u" and "silent u v"
  shows "one_covered w v"
proof -
  obtain evs evs' where "trace u = trace w @ evs" "trace v = trace u @ evs'" "order_requests evs \<le> 1"
    "announced_from (durable_record (trace w)) evs" "no_request evs'"
    using assms by (auto simp: one_covered_def silent_def)
  then show ?thesis
    by (auto simp: one_covered_def announced_from_append no_request_count no_request_announced intro!: exI [of _ "evs @ evs'"])
qed

lemma silent_then_one_covered:
  assumes "silent w u" and "one_covered u v"
  shows "one_covered w v"
proof -
  obtain evs evs' where "trace u = trace w @ evs" "trace v = trace u @ evs'" "order_requests evs' \<le> 1"
    "announced_from (durable_record (trace u)) evs'" "no_request evs"
    using assms by (auto simp: one_covered_def silent_def)
  then show ?thesis
    by (auto simp: one_covered_def announced_from_append no_request_count no_request_announced durable_record_def
        intro!: exI [of _ "evs @ evs'"])
qed

lemma keeps_one_covered: "keeps silent m \<Longrightarrow> keeps one_covered m"
  by (simp add: keeps_def silent_one_covered)

lemma one_covered_bind:
  "keeps silent m \<Longrightarrow> (\<And>x. keeps one_covered (f x)) \<Longrightarrow> keeps one_covered (bind m f)"
  unfolding keeps_def bind_def
  by (auto split: prod.splits sum.splits)
    (metis silent_one_covered silent_then_one_covered snd_conv)+

lemma silent_wp_covered:
  "one_covered w u \<Longrightarrow> keeps silent m \<Longrightarrow> wp m (\<lambda>_. one_covered w) (\<lambda>_. one_covered w) u"
  by (rule wp_mono [where Q = "\<lambda>_. silent u" and E = "\<lambda>_. silent u"])
    (auto intro: one_covered_then_silent keeps_wp)

lemma covered_after_silent:
  "silent w u \<Longrightarrow> wp m (\<lambda>_. one_covered u) (\<lambda>_. one_covered u) u \<Longrightarrow> wp m (\<lambda>_. one_covered w) (\<lambda>_. one_covered w) u"
  by (rule wp_mono [where Q = "\<lambda>_. one_covered u" and E = "\<lambda>_. one_covered u"])
    (auto intro: silent_then_one_covered)

lemma client_attempt_covered:
  assumes "covers (durable_record (trace w)) payload" and "order_side method \<noteq> None"
  shows "wp (client_attempts env method payload effect_type (Some (a, assoc, identity)) retries n (Suc left))
     (\<lambda>_. one_covered w) (\<lambda>_. one_covered w) w"
proof -
  have sent: "one_covered w (w\<lparr>trace := trace w @ [(Client method payload, r)]\<rparr>)" for r
    using assms by (auto simp: one_covered_def order_requests_def)
  have accept: "keeps silent (bind (record_side_effect effect_type method (PDict payload) True)
       (\<lambda>_. accept_order_response env a assoc v m c))" for v m c
    by (intro keeps_intros)
  show ?thesis
    unfolding client_attempts.simps wp_attempt wp_invoke option.case prod.case
    by (cases "env (trace w) (Client method payload)")
      (simp_all only: sum.case silent_wp_covered [OF sent silent_recover] silent_wp_covered [OF sent accept])
qed

lemma association_symbol:
  "build_order_request_association method payload = Inr assoc \<Longrightarrow>
     as_symbol assoc = upper (strip (str_or_empty (dget payload ''symbol''))) \<and> order_side method \<noteq> None"
  by (auto simp: build_order_request_association_def Let_def tryE_def split: if_splits option.splits list.splits sum.splits)

lemma submit_order_covered: "keeps one_covered (submit_order env method payload effect_type retries a)"
proof (rule keepsI)
  fix w :: world
  obtain payload' identity where i: "ensure_order_logical_identity (rt_run_id (rt w)) method payload = Inr (payload', identity)"
    and cid: "dget payload' ''newClientOrderId'' = PStr (''QSL_'' @ take 28 identity)"
    using ensure_identity_total by fastforce
  show "wp (submit_order env method payload effect_type retries a) (\<lambda>_. one_covered w) (\<lambda>_. one_covered w) w"
  proof (cases "build_order_request_association method payload'")
    case (Inl e)
    then show ?thesis
      by (simp add: submit_order_def eff_simps i silent_one_covered silent_same)
  next
    case (Inr assoc)
    from association_symbol [OF Inr] have sym: "as_symbol assoc = upper (strip (str_or_empty (dget payload' ''symbol'')))"
      and side: "order_side method \<noteq> None" by auto
    have cov: "covers (Some (PDict (unknown_order_record identity (as_symbol assoc)))) payload'"
      by (simp add: covers_def unknown_order_record_def cid sym)
    let ?M = "client_attempts env method payload' effect_type (Some (a, assoc, identity)) retries 0 (Suc retries)"
    have attempts: "wp (quiet env Pause) (\<lambda>_. wp ?M (\<lambda>_. one_covered w) (\<lambda>_. one_covered w)) (\<lambda>_. one_covered w) u"
      if d: "durable_record (trace u) = Some (PDict (unknown_order_record identity (as_symbol assoc)))" and s: "silent w u" for u
    proof -
      let ?v = "\<lambda>r. u\<lparr>trace := trace u @ [(Pause, r)]\<rparr>"
      have "wp ?M (\<lambda>_. one_covered (?v r)) (\<lambda>_. one_covered (?v r)) (?v r)" for r
        using d cov side by (intro client_attempt_covered) auto
      moreover have "silent w (?v r)" for r
        using s by (auto simp: silent_def no_request_def)
      ultimately have "wp ?M (\<lambda>_. one_covered w) (\<lambda>_. one_covered w) (?v r)" for r
        by (metis covered_after_silent)
      then show ?thesis
        by (cases "env (trace u) Pause") (simp_all only: quiet_def wp_attempt wp_invoke wp_ret sum.case)
    qed
    show ?thesis
      unfolding submit_order_def wp_bind wp_gets wp_liftE i Inr sum.case prod.case Suc_eq_plus1 [symmetric]
      by (rule wp_mono [OF announce_durable]) (simp_all only: attempts silent_one_covered)
  qed
qed

lemma earn_not_order: "earn_method_by_effect effect_type = Some method \<Longrightarrow> order_side method = None"
  by (auto simp: earn_method_by_effect_def order_side_def split: if_splits)

lemma submit_mutation_covered:
  "is_earn = (earn_method_by_effect effect_type = Some method) \<Longrightarrow>
     keeps one_covered (submit_mutation env method payload effect_type retries asset is_earn)"
  unfolding submit_mutation_def Let_def
  by (intro one_covered_bind silent_load keeps_case_prod keeps_if keeps_one_covered [OF silent_resume]
      keeps_one_covered [OF keeps_throw] silent_refl keeps_whenM silent_persist submit_order_covered
      keeps_one_covered [OF silent_submit_earn_move])
    (simp add: earn_not_order)

lemma runtime_call_client_covered:
  assumes "is_order_effect effect_type"
  shows "keeps one_covered (runtime_call_client env method payload effect_type retries asset)"
proof -
  have t: "keeps one_covered (throw e)" for e
    by (intro keeps_one_covered keeps_intros)
  show ?thesis
    unfolding runtime_call_client_def Let_def
    using assms
    by (intro one_covered_bind keeps_if keeps_one_covered [OF silent_suppressed] t submit_mutation_covered refl keeps_intros) auto
qed

section \<open>What a successful step leaves behind\<close>

text \<open>Relations on success: the object graph apart from the state written.\<close>

definition same_objects :: "world \<Rightarrow> world \<Rightarrow> bool" where
  "same_objects w w' = (heap w' = heap w \<and> rt_trade_state (rt w') = rt_trade_state (rt w)
     \<and> rt_pending (rt w') = rt_pending (rt w) \<and> rt_dry_run (rt w') = rt_dry_run (rt w)
     \<and> rt_run_id (rt w') = rt_run_id (rt w))"

lemma same_objects_rel [keeps_intros]: "reflp same_objects" "transp same_objects"
  by (auto simp: reflp_def transp_def same_objects_def)

lemma same_objects_invoke [keeps_intros]: "keeps same_objects (invoke env c)"
  by (simp add: keeps_def invoke_def same_objects_def)

lemma same_objects_rt [keeps_intros]:
  "(\<And>r. rt_trade_state (f r) = rt_trade_state r \<and> rt_pending (f r) = rt_pending r \<and> rt_dry_run (f r) = rt_dry_run r
     \<and> rt_run_id (f r) = rt_run_id r) \<Longrightarrow>
   keeps same_objects (upd_rt f)"
  by (simp add: keeps_def upd_rt_def update_def same_objects_def)

lemma same_objects_require [keeps_intros]: "keeps same_objects (require_runtime_state_owner env)"
  unfolding require_runtime_state_owner_def by (intro keeps_intros; simp)

lemma same_objects_quiet [keeps_intros]: "keeps same_objects (quiet env c)"
  unfolding quiet_def by (intro keeps_intros)

lemma same_objects_persist [keeps_intros]: "keeps same_objects (persist_runtime_state env d i)"
  unfolding persist_runtime_state_def write_runtime_state_def by (intro keeps_intros; simp)

definition record_written :: "nat \<Rightarrow> pydict \<Rightarrow> world \<Rightarrow> world \<Rightarrow> bool" where
  "record_written a record w w' =
     (durable_record (trace w') = Some (PDict record)
      \<and> heap w' = (heap w)(a := dset submission_key (PDict record) (heap w a))
      \<and> rt_trade_state (rt w') = Some a \<and> rt_pending (rt w') = rt_pending (rt w))"

lemma persist_record_written:
  "wp (persist_order_submission_state env a record) (\<lambda>_. record_written a record w) (\<lambda>_ _. True) w"
proof -
  have "wp (persist_runtime_state env d None)
      (\<lambda>_ v. same_objects u v \<and> durable_record (trace v) = Some (dget d submission_key)) (\<lambda>_ _. True) u" for d u
    using wp_conj [OF keeps_wp [OF same_objects_persist] persist_runtime_durable] by (rule wp_mono) auto
  note p = this
  show ?thesis
    unfolding persist_order_submission_state_def eff_simps
    by (rule wp_mono [OF keeps_wp [OF same_objects_require]], rule wp_mono [OF p])
      (auto simp: record_written_def same_objects_def)
qed

text \<open>A completed order: the response is FILLED and its accounting is recorded as pending.\<close>

definition fill_recorded :: "pyval \<Rightarrow> world \<Rightarrow> bool" where
  "fill_recorded v w = (response_status v = ''FILLED''
     \<and> (\<exists>a record. rt_trade_state (rt w) = Some a \<and> dget (heap w a) submission_key = PDict record
         \<and> dget record ''state'' = PStr ''FILLED_ACCOUNTING_PENDING''
         \<and> dget record ''known_fill'' = known_fill_record (the_dict v)
         \<and> durable_record (trace w) = Some (PDict record)))"

lemma record_order_response_runs: "wp (record_order_response r) (\<lambda>_ w'. True) (\<lambda>_ _. False) w"
  by (simp add: record_order_response_def bump_def Let_def eff_simps)

lemma complete_fill_recorded:
  "wp (complete_order_response env a response True) fill_recorded (\<lambda>_ _. True) w"
proof -
  have "wp (complete_order_response env a response True) (\<lambda>v u. v = response \<and> fill_recorded v u) (\<lambda>_ _. True) w"
    unfolding complete_order_response_def Let_def eff_simps
  proof (rule wp_mono [OF record_order_response_runs], goal_cases)
    case (1 x u)
    show ?case
      by (cases "dget_or (heap u a) submission_key (PDict [])")
        (auto simp: eff_simps require_filled_order_response_def failed_statuses_def
          fill_recorded_def record_written_def pending_record_def upper_def intro!: wp_mono [OF persist_record_written])
  qed simp
  then show ?thesis by (rule wp_mono) auto
qed

lemma fill_recorded_quiet: "fill_recorded v w \<Longrightarrow> wp (quiet env (OrderIdentity c)) (\<lambda>_. fill_recorded v) (\<lambda>_ _. True) w"
  by (cases "env (trace w) (OrderIdentity c)") (auto simp: quiet_def eff_simps fill_recorded_def)

lemma accept_fill_recorded: "wp (accept_order_response env a assoc response m c) fill_recorded (\<lambda>_ _. True) w"
  unfolding accept_order_response_def eff_simps
  by (auto intro!: wp_mono [OF complete_fill_recorded] wp_mono [OF fill_recorded_quiet])

lemma accept_returns [returns_intros]: "returns (accept_order_response env a assoc response m c) fill_recorded"
  by (simp add: returns_def accept_fill_recorded)

lemma recover_returns [returns_intros]:
  "returns (recover_order env method payload effect_type a assoc identity n e) fill_recorded"
  unfolding recover_order_def by (intro returns_intros)

lemma attempts_returns [returns_intros]:
  "returns (client_attempts env method payload effect_type (Some order) retries n left) fill_recorded"
  by (cases left) (simp_all only: client_attempts.simps option.case, (intro returns_intros)+)

lemma submit_order_returns [returns_intros]:
  "returns (submit_order env method payload effect_type retries a) fill_recorded"
  unfolding submit_order_def by (intro returns_intros)

lemma complete_then_notify: "returns (bind (complete_order_response env a response True)
    (\<lambda>result. bind (quiet env (OrderIdentity c)) (\<lambda>_. ret result))) fill_recorded"
  unfolding returns_def eff_simps
  by (auto intro!: wp_mono [OF complete_fill_recorded] wp_mono [OF fill_recorded_quiet])

lemma resume_returns [returns_intros]:
  "returns (resume_unknown_order env method payload is_earn a record) fill_recorded"
  unfolding resume_unknown_order_def by (intro returns_intros complete_then_notify)

section \<open>Properties\<close>

text \<open>
  C1: write-ahead. Whatever the broker, the store and the network answer, a call of an order
  effect adds at most one order request to the history, and every order request is preceded by a
  successful save of a SUBMISSION_UNKNOWN record with the same identity (from which its client
  order id is derived) and the same symbol, with no other submission record saved in between.
\<close>

theorem order_requests_announced:
  assumes "is_order_effect effect_type" and "announced (trace w)"
    and "runtime_call_client env method payload effect_type retries asset w = (result, w')"
  shows "announced (trace w') \<and> order_requests (trace w') \<le> order_requests (trace w) + 1"
  using keepsD [OF runtime_call_client_covered [OF assms(1)] assms(3)] assms(2)
  by (auto simp: one_covered_def announced_append)

text \<open>
  C2: a successful order is a filled one. When an order call returns outside a dry run, the
  returned response says FILLED, the shared state holds FILLED_ACCOUNTING_PENDING with exactly the
  fill that response attests, and this record is the last one that was saved.
\<close>

theorem order_return_is_recorded_fill:
  assumes "is_order_effect effect_type" and "\<not> rt_dry_run (rt w)" and "rt_permitted (rt w)"
    and "runtime_call_client env method payload effect_type retries asset w = (Inr v, w')"
  shows "fill_recorded v w'"
proof -
  have not_earn: "earn_method_by_effect effect_type \<noteq> Some method"
    using assms(1) by (auto simp: is_order_effect_def earn_method_by_effect_def split: if_splits)
  have m: "returns (submit_mutation env method payload effect_type retries asset False) fill_recorded"
    unfolding submit_mutation_def Let_def if_False by (intro returns_intros)
  have R: "wp (bind l (\<lambda>_. bind k (\<lambda>_. n))) fill_recorded (\<lambda>_ _. True) u" if "returns n fill_recorded"
    for l :: "unit run" and k :: "unit run" and n u
    using that by (metis returns_bind returns_def)
  have "wp (runtime_call_client env method payload effect_type retries asset) fill_recorded (\<lambda>_ _. True) w"
    unfolding runtime_call_client_def wp_bind wp_whenM Let_def
    using assms(1-3) not_earn
    by (simp only: if_True refl) (rule wp_mono [OF quiet_rt], simp_all add: wp_gets R m returns_throw)
  then show ?thesis using assms(4) by (auto simp: wp_def)
qed

text \<open>
  A suppressed call leaves the program untouched. In a dry run, or without permission to
  execute, the call returns the suppressed marker, the only call made is the notification
  bookkeeping, no state is written and the suppressed counter grows by one.
\<close>

theorem suppressed_call_touches_nothing:
  assumes "rt_dry_run (rt w) \<or> \<not> rt_permitted (rt w)"
    and "runtime_call_client env method payload effect_type retries asset w = (result, w')"
  shows "result = Inr (PDict [(''status'', PStr ''suppressed''), (''method'', PStr method), (''payload'', PDict payload)])
    \<and> (\<exists>evs. trace w' = trace w @ evs \<and> fst ` set evs \<subseteq> {OrderIdentity None})
    \<and> heap w' = heap w \<and> rt_pending (rt w') = rt_pending (rt w)
    \<and> rp_suppressed (rp w') = rp_suppressed (rp w) + 1 \<and> rp_executed (rp w') = rp_executed (rp w)"
  using assms
  by (cases "is_order_effect effect_type"; cases "env (trace w) (OrderIdentity None)")
    (auto simp: runtime_call_client_def suppressed_call_def record_side_effect_def bind_def whenM_def quiet_def attempt_def
      invoke_def gets_def ret_def upd_rt_def upd_rp_def update_def)

text \<open>
  C4: the owner of the durable state is released only when nothing is open: with a confirmed
  release no fund is pending and the shared record is neither SUBMISSION_UNKNOWN nor
  FILLED_ACCOUNTING_PENDING; and once a release was requested, this runtime holds no ownership,
  whatever the store answered.
\<close>

theorem release_only_when_settled:
  assumes "release_runtime_state_owner env w = (result, w')"
  shows "(result = Inr True \<longrightarrow>
      rt_pending (rt w) = [] \<and> \<not> rt_owner_held (rt w')
      \<and> (\<forall>a. rt_trade_state (rt w) = Some a \<longrightarrow>
           submission_state_of (heap w a) \<notin> {Inr (PStr ''SUBMISSION_UNKNOWN''), Inr (PStr ''FILLED_ACCOUNTING_PENDING'')}))
    \<and> (\<forall>evs i r. trace w' = trace w @ evs \<and> (ReleaseOwner i, r) \<in> set evs \<longrightarrow> \<not> rt_owner_held (rt w'))"
  using assms
  by (auto simp: release_runtime_state_owner_def require_runtime_state_owner_def bind_def attempt_def invoke_def gets_def
      ret_def throw_def upd_rt_def update_def liftE_def split: if_splits sum.splits option.splits)

text \<open>
  C5: an unresolved submission admits no other intent. While the shared record is
  SUBMISSION_UNKNOWN for an order whose identity differs from the one now asked for, the call
  raises and never reaches the broker: not for the order, not even for a read.
\<close>

theorem foreign_unknown_blocks:
  assumes "is_order_effect effect_type" and "\<not> rt_dry_run (rt w)" and "rt_permitted (rt w)"
    and "rt_trade_state (rt w) = Some a"
    and "dget (heap w a) submission_key = PDict (unknown_order_record identity symbol)"
    and "ensure_order_logical_identity (rt_run_id (rt w)) method payload = Inr (payload', identity')"
    and "identity' \<noteq> identity"
    and "runtime_call_client env method payload effect_type retries asset w = (result, w')"
  shows "isl result \<and> (\<exists>evs. trace w' = trace w @ evs \<and> (\<forall>m kw r. (Client m kw, r) \<notin> set evs))"
proof -
  have not_earn: "earn_method_by_effect effect_type \<noteq> Some method"
    using assms(1) by (auto simp: is_order_effect_def earn_method_by_effect_def split: if_splits)
  have rec: "dget_or (heap w a) submission_key z = PDict (unknown_order_record identity symbol)" for z
    using assms(5) by (simp add: dget_or_def dget_def split: option.splits)
  show ?thesis
    using assms(1-4,6-8) not_earn
    by (auto simp: runtime_call_client_def submit_mutation_def load_order_submission_state_def resume_unknown_order_def
        require_runtime_state_owner_def rec bind_def whenM_def quiet_def attempt_def invoke_def gets_def ret_def throw_def
        upd_rt_def upd_rp_def update_def liftE_def raise_if_def read_ref_def Let_def unknown_order_record_def
        split: if_splits sum.splits option.splits)
qed

section \<open>Concrete runs\<close>

text \<open>A broker that fills every market buy, and a store that accepts every write.\<close>

definition filling_env :: env where
  "filling_env tr c = (case c of
     WriteState d \<Rightarrow> Inr (PBool True)
   | ReleaseOwner i \<Rightarrow> Inr (PBool True)
   | Client m kw \<Rightarrow> (if m = ''order_market_buy'' then
       Inr (PDict [(''type'', PStr ''MARKET''), (''clientOrderId'', dget kw ''newClientOrderId''),
         (''symbol'', dget kw ''symbol''), (''side'', PStr ''BUY''), (''origQty'', dget kw ''quantity''),
         (''status'', PStr ''FILLED''), (''executedQty'', dget kw ''quantity'')])
       else Inl (ClientExc True None))
   | _ \<Rightarrow> Inr PNone)"

definition sample_runtime :: runtime where
  "sample_runtime = \<lparr>rt_dry_run = False, rt_permitted = True, rt_run_id = ''r1'', rt_now = DT 0 (Some 0), rt_client = True,
     rt_loader = True, rt_writer = PlainWriter, rt_bound = False, rt_receipts = False, rt_owner_claim = True,
     rt_owner_release = True, rt_owner_id = ''o1'', rt_owner_held = True, rt_trade_state = Some 0, rt_pending = [],
     rt_cash = [], rt_fuel_symbol = ''BNBUSDT'', rt_fuel_asset = ''BNB'', rt_order_sequence = 0, rt_notifier = True,
     rt_log = []\<rparr>"

definition sample_report :: report where
  "sample_report = \<lparr>rp_status = PStr ''ok'', rp_executed = 0, rp_suppressed = 0, rp_observation = PNone, rp_state_intents = [],
     rp_gating_summary = [], rp_gating_events = [], rp_errors = [], rp_notifications = [], rp_summary = [], rp_fields = []\<rparr>"

definition sample_world :: "pydict \<Rightarrow> world" where
  "sample_world d = \<lparr>rt = sample_runtime, rp = sample_report, heap = (\<lambda>_. d), fresh = 1, trace = []\<rparr>"

definition sample_order :: pydict where
  "sample_order = [(''symbol'', PStr ''BTCUSDT''), (''quantity'', PStr ''2'')]"

lemma sample_texts:
  "upper (strip ''BTCUSDT'') = ''BTCUSDT''" "is_symbol ''BTCUSDT''" "to_dec (PStr ''2'') = Inr (Dec False 2 0)"
  "upper (strip ''FILLED'') = ''FILLED''" "upper (strip ''BUY'') = ''BUY''" "dec_positive (Dec False 2 0)"
  "dec_finite (Dec False 2 0)" "dec_eq (Dec False 2 0) (Dec False 2 0)" "is_order_effect ''order_buy''"
  "upper ''BTCUSDT'' = ''BTCUSDT''"
  by code_simp+

lemma strip_prefixed: "\<not> is_space c \<Longrightarrow> list_all is_hex_lower s \<Longrightarrow> s \<noteq> [] \<Longrightarrow> strip (c # t @ s) = c # t @ s"
proof -
  assume c: "\<not> is_space c" and s: "list_all is_hex_lower s" "s \<noteq> []"
  have "\<not> is_space (last s)"
    using s by (auto simp: list_all_iff is_hex_lower_def is_digit_def is_space_def dest!: last_in_set)
  with c s show ?thesis
    by (simp add: strip_by_def dropWhile_fix hd_append hd_rev)
qed

lemma strip_client_order_id: "strip (''QSL_'' @ take 28 (sha256 s)) = ''QSL_'' @ take 28 (sha256 s)"
proof -
  have "hex64 (sha256 s)" by simp
  then have "list_all is_hex_lower (take 28 (sha256 s))" "take 28 (sha256 s) \<noteq> []"
    by (auto simp: hex64_def list_all_iff dest: in_set_takeD)
  then show ?thesis
    using strip_prefixed [of "CHR ''Q''" "take 28 (sha256 s)" "''SL_''"] by (simp add: is_space_def ord_def)
qed

lemma wp_quiet: "wp (quiet env c) Q E w = Q () (w\<lparr>trace := trace w @ [(c, env (trace w) c)]\<rparr>)"
  by (cases "env (trace w) c") (simp_all add: quiet_def eff_simps)

lemmas submission_simps = runtime_call_client_def submit_mutation_def load_order_submission_state_def
  require_runtime_state_owner_def submit_order_def announce_submission_def persist_order_submission_state_def
  persist_runtime_state_def write_runtime_state_def record_order_submission_attempt_def bump_def record_side_effect_def
  accept_order_response_def complete_order_response_def record_order_response_def require_filled_order_response_def

lemma sample_run:
  "wp (runtime_call_client filling_env ''order_market_buy'' sample_order ''order_buy'' 0 PNone)
     (\<lambda>v w'. order_requests (trace w') = 1) (\<lambda>_ _. False) (sample_world [])"
  by (simp add: submission_simps eff_simps wp_quiet sample_world_def sample_runtime_def sample_texts earn_method_by_effect_def
      earn_success_id_def reserved_record_def check_submission_record_def keys_are_def ensure_identity_total
      build_order_request_association_def sample_order_def order_side_def tryE_def filling_env_def
      reconciled_order_matches_request_def response_status_def failed_statuses_def order_requests_def
      dsub_dhas dget_or_eq Let_def strip_client_order_id [simplified])

lemma order_requests_announced_witness:
  "announced (trace (snd (runtime_call_client filling_env ''order_market_buy'' sample_order ''order_buy'' 0 PNone (sample_world []))))"
  using order_requests_announced [of "''order_buy''" "sample_world []" filling_env "''order_market_buy''" sample_order 0 PNone,
      OF _ _ prod.collapse [symmetric]]
  by (simp add: sample_texts sample_world_def announced_def)

lemma order_return_is_recorded_fill_witness:
  "\<exists>v w'. runtime_call_client filling_env ''order_market_buy'' sample_order ''order_buy'' 0 PNone (sample_world []) = (Inr v, w')
     \<and> fill_recorded v w'"
proof -
  obtain r w' where run: "runtime_call_client filling_env ''order_market_buy'' sample_order ''order_buy'' 0 PNone (sample_world []) = (r, w')"
    by (cases "runtime_call_client filling_env ''order_market_buy'' sample_order ''order_buy'' 0 PNone (sample_world [])")
  with sample_run obtain v where "r = Inr v" by (auto simp: wp_def split: sum.splits)
  with run show ?thesis
    using order_return_is_recorded_fill [of "''order_buy''" "sample_world []" filling_env "''order_market_buy''" sample_order 0 PNone v w']
    by (auto simp: sample_texts sample_world_def sample_runtime_def)
qed

lemma suppressed_call_touches_nothing_witness:
  "heap (snd (runtime_call_client filling_env ''order_market_buy'' sample_order ''order_buy'' 0 PNone
     (sample_world []\<lparr>rt := sample_runtime\<lparr>rt_dry_run := True\<rparr>\<rparr>))) = (\<lambda>_. [])"
  using suppressed_call_touches_nothing [of "sample_world []\<lparr>rt := sample_runtime\<lparr>rt_dry_run := True\<rparr>\<rparr>" filling_env
      "''order_market_buy''" sample_order "''order_buy''" 0 PNone, OF _ prod.collapse [symmetric]]
  by (simp add: sample_world_def)

lemma release_only_when_settled_witness:
  "fst (release_runtime_state_owner filling_env (sample_world [])) = Inr True
   \<and> rt_pending (rt (sample_world [])) = []"
proof -
  have "fst (release_runtime_state_owner filling_env (sample_world [])) = Inr True"
    by (simp add: release_runtime_state_owner_def require_runtime_state_owner_def bind_def attempt_def gets_def ret_def liftE_def
        submission_state_of_def invoke_def upd_rt_def update_def sample_world_def sample_runtime_def filling_env_def vget_def)
  then show ?thesis
    using release_only_when_settled [of filling_env "sample_world []", OF prod.collapse [symmetric]] by simp
qed

lemma foreign_unknown_blocks_witness:
  "isl (fst (runtime_call_client filling_env ''order_market_buy'' sample_order ''order_buy'' 0 PNone
     (sample_world [(submission_key, PDict (unknown_order_record ''other'' ''BTCUSDT''))])))"
proof -
  have "length (sha256 s) = 64" for s
    using sha256_hex64 [of s] by (simp add: hex64_def)
  moreover have len: "length ''other'' \<noteq> 64" by simp
  ultimately have "sha256 s \<noteq> ''other''" for s
    by (metis len)
  then show ?thesis
    using foreign_unknown_blocks [of "''order_buy''" "sample_world [(submission_key, PDict (unknown_order_record ''other'' ''BTCUSDT''))]"
        0 "''other''" "''BTCUSDT''" "''order_market_buy''" sample_order _ _ filling_env 0 PNone, OF _ _ _ _ _ ensure_identity_total _ prod.collapse [symmetric]]
    by (simp add: sample_texts sample_world_def sample_runtime_def)
qed

end
