(* ===== verification/Earn_Accrual.thy ===== *)
theory Earn_Accrual
  imports Order_Submission
begin

text \<open>
  \<open>application/earn_accrual.py\<close>: an Earn checkpoint is one observation of the Spot and Flexible
  Earn balances; two checkpoints are compared under a 100-digit context, and the difference of
  every asset must be the growth of the broker's reward counters plus the accounted net change.
  The lemmas show that no rounding happens at that precision, so an accepted comparison is an exact
  conservation law over the rationals.
\<close>

section \<open>Amounts and times\<close>

definition earn_invalid :: pyexc where
  "earn_invalid = ValueError ''earn_checkpoint_invalid''"

definition dec_1e30 :: pydec where "dec_1e30 = Dec False 1 30"

text \<open>\<open>_amount\<close>; the precision is that of the context it runs in, which \<open>abs\<close> rounds to.\<close>

definition amount :: "nat \<Rightarrow> bool \<Rightarrow> pyval \<Rightarrow> pyexc + pydec" where
  "amount prec sgned v = (case v of
     PStr s \<Rightarrow>
       if \<not> (0 < length s \<and> length s \<le> 80) then Inl earn_invalid
       else (case dec_parse s of
         None \<Rightarrow> Inl earn_invalid
       | Some d \<Rightarrow>
           if \<not> dec_finite d \<or> (\<not> sgned \<and> dec_negative d) then Inl earn_invalid
           else bindE (dec_abs prec d) (\<lambda>m.
             if dec_less dec_1e30 m then Inl earn_invalid
             else (case d of Dec s c e \<Rightarrow> if e < - 30 then Inl earn_invalid else Inr d | _ \<Rightarrow> Inr d)))
   | _ \<Rightarrow> Inl earn_invalid)"

definition earn_time :: "pyval \<Rightarrow> pyexc + pydt" where
  "earn_time v = (case v of
     PStr s \<Rightarrow> (case parse_stamp s of
         Inl e \<Rightarrow> Inl (ValueError ''earn_checkpoint_time_invalid'')
       | Inr t \<Rightarrow> if \<not> dt_aware t then Inl (ValueError ''earn_checkpoint_time_invalid'') else to_utc t)
   | _ \<Rightarrow> Inl (ValueError ''earn_checkpoint_time_invalid''))"

section \<open>Collecting a checkpoint\<close>

definition earn_stage :: "string \<Rightarrow> pyexc" where
  "earn_stage stage = EarnUnavailable (''earn_checkpoint_'' @ stage @ ''_unavailable'')"

definition at_stage :: "string \<Rightarrow> pyexc + 'a \<Rightarrow> pyexc + 'a" where
  "at_stage stage r = (case r of Inl e \<Rightarrow> Inl (earn_stage stage) | Inr a \<Rightarrow> Inr a)"

definition call_at_stage :: "env \<Rightarrow> string \<Rightarrow> call \<Rightarrow> pyval run" where
  "call_at_stage env stage c = attempt (invoke env c) (\<lambda>e. throw (earn_stage stage)) ret"

definition is_asset :: "string \<Rightarrow> bool" where
  "is_asset a = upper_alnum 1 20 a"

text \<open>The account identity: a non-empty text or integer uid, hashed by the platform kit's \<open>digest\<close>.\<close>

definition account_scope :: "(pyval \<Rightarrow> string) \<Rightarrow> string option \<Rightarrow> pyval \<Rightarrow> pyexc + string" where
  "account_scope digest expected account =
     bindE (vget account ''uid'') (\<lambda>uid.
     bindE (ensure ((is_str uid \<or> is_plain_int uid) \<and> py_str uid \<noteq> []) (ValueError ''identity'')) (\<lambda>_.
     let scope = digest (PDict [(''account_uid'', PStr (py_str uid))]) in
     bindE (ensure (expected = None \<or> expected = Some scope) (ValueError ''identity'')) (\<lambda>_. Inr scope)))"

type_synonym spot_balances = "(string \<times> pydec \<times> pydec) list"

definition spot_row :: "spot_balances \<Rightarrow> pyval \<Rightarrow> pyexc + spot_balances" where
  "spot_row spot row =
     bindE (at_stage ''spot_shape''
       (bindE (vsub row ''asset'') (\<lambda>asset.
        bindE (ensure (case asset of
            PStr a \<Rightarrow> 0 < length a \<and> length a \<le> 128 \<and> list_all is_printable a \<and> \<not> list_ex is_space a
              \<and> map_of spot a = None
          | _ \<Rightarrow> False) (ValueError ''spot'')) (\<lambda>_.
        bindE (bindE (vsub row ''free'') (amount 28 False)) (\<lambda>free.
        bindE (bindE (vsub row ''locked'') (amount 28 False)) (\<lambda>locked.
        Inr (the_str asset, free, locked))))))) (\<lambda>(asset, free, locked).
     if \<not> dec_is_zero locked then Inl (earn_stage ''spot_locked'')
     else Inr (spot @ [(asset, free, locked)]))"

definition spot_of_account :: "pyval \<Rightarrow> pyexc + spot_balances" where
  "spot_of_account account =
     bindE (at_stage ''spot_shape'' (bindE (vsub account ''balances'') (\<lambda>rows. case rows of
         PList xs \<Rightarrow> if 5000 < length xs then Inl (ValueError ''spot'') else Inr xs
       | _ \<Rightarrow> Inl (ValueError ''spot'')))) (\<lambda>rows.
     foldE spot_row [] rows)"

text \<open>The position page must be complete: as many rows as it says, fewer than a hundred.\<close>

definition page_total :: "pyval \<Rightarrow> int option" where
  "page_total n = (case n of
     PInt i \<Rightarrow> Some i
   | PStr s \<Rightarrow> if s \<noteq> [] \<and> list_all is_digit s \<and> length s < 4 then Some (int (nat_of_digits s)) else None
   | _ \<Rightarrow> None)"

definition earn_page :: "pyval \<Rightarrow> pyexc + pyval list" where
  "earn_page response =
     at_stage ''earn_page''
       (bindE (vget response ''rows'') (\<lambda>rows. bindE (vget response ''total'') (\<lambda>total.
        case (rows, page_total total) of
          (PList xs, Some n) \<Rightarrow> if n \<noteq> int (length xs) \<or> 100 \<le> n then Inl (ValueError ''page'') else Inr xs
        | _ \<Rightarrow> Inl (ValueError ''page''))))"

type_synonym earn_products = "(string \<times> pydict) list"

definition earn_row ::
    "earn_products \<times> string list \<Rightarrow> pyval \<Rightarrow> pyexc + earn_products \<times> string list" where
  "earn_row acc row = (case acc of (products, seen) \<Rightarrow>
     bindE (at_stage ''earn_product''
       (bindE (vsub row ''asset'') (\<lambda>asset. bindE (vsub row ''productId'') (\<lambda>product.
        bindE (ensure (case product of PStr p \<Rightarrow> p \<noteq> [] \<and> p \<notin> set seen | _ \<Rightarrow> False) (ValueError ''product'')) (\<lambda>_.
        bindE (ensure (hashable asset) TypeError) (\<lambda>_. Inr (asset, the_str product))))))) (\<lambda>(asset, product).
     case (case asset of PStr a \<Rightarrow> map_of products a | _ \<Rightarrow> None) of
       None \<Rightarrow> Inr (products, product # seen)
     | Some known \<Rightarrow>
         bindE (at_stage ''earn_amount_counter''
           (bindE (bindE (vsub row ''totalAmount'') (amount 28 False)) (\<lambda>total.
            bindE (bindE (vsub row ''cumulativeRealTimeRewards'') (amount 28 False)) (\<lambda>counter. Inr (total, counter))))) (\<lambda>(total, counter).
         bindE (at_stage ''earn_availability''
           (bindE (bindE (vsub row ''collateralAmount'') (amount 28 False)) (\<lambda>collateral.
            bindE (ensure (dec_is_zero collateral) (ValueError ''availability'')) (\<lambda>_.
            bindE (vsub row ''autoSubscribe'') (\<lambda>auto.
            bindE (ensure (is_bool auto) (ValueError ''availability'')) (\<lambda>_.
            bindE (vsub row ''canRedeem'') (\<lambda>can.
            bindE (ensure (can = PBool True) (ValueError ''availability'')) (\<lambda>_. Inr auto)))))))) (\<lambda>auto.
         Inr (AList.update (the_str asset) (dset product (PDict [
             (''total'', PStr (dec_str total)), (''realtime_rewards'', PStr (dec_str counter)),
             (''auto_subscribe'', auto), (''can_redeem'', PBool True)]) known) products, product # seen)))))"

definition product_total :: "string \<times> pyval \<Rightarrow> pyexc + pydec" where
  "product_total p = bindE (vsub (snd p) ''total'') (amount 100 False)"

definition asset_observation :: "spot_balances \<Rightarrow> earn_products \<Rightarrow> string \<Rightarrow> pyexc + string \<times> pyval" where
  "asset_observation spot products asset = (case map_of spot asset of
     None \<Rightarrow> Inl KeyError
   | Some (free, locked) \<Rightarrow>
       (let held = (case map_of products asset of Some d \<Rightarrow> d | None \<Rightarrow> [])
        in bindE (dec_add 100 free locked) (\<lambda>base.
           bindE (mapE product_total held) (\<lambda>totals.
           bindE (dec_sum 100 dec_zero totals) (\<lambda>earned.
           bindE (dec_add 100 base earned) (\<lambda>quantity.
           Inr (asset, PDict [(''spot_free'', PStr (dec_str free)), (''spot_locked'', PStr (dec_str locked)),
             (''products'', PDict held), (''quantity'', PStr (dec_str quantity))])))))))"

definition collect_earn_checkpoint ::
    "env \<Rightarrow> (pyval \<Rightarrow> string) \<Rightarrow> string list \<Rightarrow> pydt \<Rightarrow> string option \<Rightarrow> pyval run" where
  "collect_earn_checkpoint env digest asset_names observed_at expected =
     (let assets = sort (remdups asset_names) in
      bind (raise_if (assets = [] \<or> 32 < length assets \<or> \<not> list_all is_asset assets \<or> \<not> dt_aware observed_at)
        (earn_stage ''scope'')) (\<lambda>_.
      bind (call_at_stage env ''account_read'' (Client ''get_account'' [])) (\<lambda>account.
      bind (liftE (at_stage ''identity'' (account_scope digest expected account))) (\<lambda>scope.
      bind (liftE (spot_of_account account)) (\<lambda>spot.
      bind (call_at_stage env ''earn_read'' (Client ''get_simple_earn_flexible_product_position''
        [(''current'', PInt 1), (''size'', PInt 100)])) (\<lambda>response.
      bind (liftE (earn_page response)) (\<lambda>rows.
      bind (liftE (foldE earn_row (map (\<lambda>a. (a, [])) assets, []) rows)) (\<lambda>(products, seen).
      bind (liftE (at_stage ''managed_spot_balance'' (mapE (asset_observation spot products) assets))) (\<lambda>observations.
      bind (liftE (at_stage ''managed_spot_balance'' (to_utc observed_at))) (\<lambda>stamp.
      ret (PDict [(''account_scope_sha256'', PStr scope), (''observed_at'', PStr (iso_text stamp)),
        (''assets'', PDict observations), (''execution_authority_granted'', PBool False)])))))))))))"

section \<open>Validating and comparing\<close>

definition position_total :: "pydec \<Rightarrow> string \<times> pyval \<Rightarrow> pyexc + pydec" where
  "position_total acc p = (case snd p of
     PDict position \<Rightarrow>
       bindE (ensure (fst p \<noteq> [] \<and> is_bool (dget position ''auto_subscribe'') \<and> dget position ''can_redeem'' = PBool True)
         earn_invalid) (\<lambda>_.
       bindE (amount 100 False (dget position ''total'')) (\<lambda>t.
       bindE (dec_add 100 acc t) (\<lambda>acc'.
       bindE (amount 100 False (dget position ''realtime_rewards'')) (\<lambda>_. Inr acc'))))
   | _ \<Rightarrow> Inl earn_invalid)"

definition validate_asset :: "string \<times> pyval \<Rightarrow> pyexc + unit" where
  "validate_asset p = (case snd p of
     PDict row \<Rightarrow>
       bindE (ensure (is_asset (fst p)) earn_invalid) (\<lambda>_.
       case dget row ''products'' of
         PDict products \<Rightarrow>
           bindE (ensure (length products < 100) earn_invalid) (\<lambda>_.
           bindE (amount 100 False (dget row ''spot_free'')) (\<lambda>free.
           bindE (amount 100 False (dget row ''spot_locked'')) (\<lambda>locked.
           bindE (dec_add 100 free locked) (\<lambda>base.
           bindE (foldE position_total base products) (\<lambda>total.
           bindE (amount 100 False (dget row ''quantity'')) (\<lambda>quantity.
           bindE (ensure (dec_eq quantity total) earn_invalid) (\<lambda>_.
           ensure (dec_is_zero locked) earn_invalid)))))))
       | _ \<Rightarrow> Inl earn_invalid)
   | _ \<Rightarrow> Inl earn_invalid)"

fun all_ok :: "('a \<Rightarrow> pyexc + unit) \<Rightarrow> 'a list \<Rightarrow> pyexc + unit" where
  "all_ok f [] = Inr ()"
| "all_ok f (x # xs) = bindE (f x) (\<lambda>_. all_ok f xs)"

definition validate_checkpoint :: "pyval \<Rightarrow> pyexc + unit" where
  "validate_checkpoint checkpoint = (case checkpoint of
     PDict c \<Rightarrow>
       bindE (ensure (dget c ''execution_authority_granted'' = PBool False
         \<and> hex64 (py_str (dget_or c ''account_scope_sha256'' (PStr [])))) earn_invalid) (\<lambda>_.
       bindE (earn_time (dget c ''observed_at'')) (\<lambda>_.
       case dget c ''assets'' of
         PDict assets \<Rightarrow>
           bindE (ensure (0 < length assets \<and> length assets \<le> 32) earn_invalid) (\<lambda>_. all_ok validate_asset assets)
       | _ \<Rightarrow> Inl earn_invalid))
   | _ \<Rightarrow> Inl earn_invalid)"

definition same_keys :: "pydict \<Rightarrow> pydict \<Rightarrow> bool" where
  "same_keys d e = (list_all (dhas e) (map fst d) \<and> list_all (dhas d) (map fst e))"

definition product_delta :: "pydict \<Rightarrow> pydec \<Rightarrow> string \<times> pyval \<Rightarrow> pyexc + pydec" where
  "product_delta news reward p =
     (let was = the_dict (snd p); after = the_dict (dget news (fst p))
      in bindE (ensure (py_eq (dget was ''auto_subscribe'') (dget after ''auto_subscribe''))
           (ValueError ''earn_product_lifecycle_unverified'')) (\<lambda>_.
         bindE (amount 100 False (dget after ''realtime_rewards'')) (\<lambda>a.
         bindE (amount 100 False (dget was ''realtime_rewards'')) (\<lambda>b.
         bindE (dec_sub 100 a b) (\<lambda>delta.
         bindE (ensure (\<not> dec_negative delta) (ValueError ''earn_counter_reset'')) (\<lambda>_.
         dec_add 100 reward delta))))))"

definition compare_asset :: "pydict \<Rightarrow> pydict \<Rightarrow> string \<times> pyval \<Rightarrow> pyexc + string \<times> pyval" where
  "compare_asset current_assets verified p =
     (let asset = fst p; old = the_dict (snd p); new = the_dict (dget current_assets asset);
          olds = the_dict (dget old ''products''); news = the_dict (dget new ''products'')
      in bindE (ensure (same_keys olds news) (ValueError ''earn_product_lifecycle_unverified'')) (\<lambda>_.
         bindE (foldE (product_delta news) dec_zero olds) (\<lambda>reward.
         bindE (amount 100 False (dget new ''quantity'')) (\<lambda>q.
         bindE (amount 100 False (dget old ''quantity'')) (\<lambda>q0.
         bindE (dec_sub 100 q q0) (\<lambda>observed.
         bindE (amount 100 True (dget verified asset)) (\<lambda>net.
         bindE (dec_add 100 reward net) (\<lambda>explained.
         bindE (ensure (dec_eq observed explained) (ValueError ''earn_quantity_change_unexplained'')) (\<lambda>_.
         Inr (asset, PStr (dec_format_f reward)))))))))))"

definition compare_earn_checkpoints :: "pyval \<Rightarrow> pyval \<Rightarrow> pyval \<Rightarrow> pyexc + pyval" where
  "compare_earn_checkpoints previous current verified =
     bindE (validate_checkpoint previous) (\<lambda>_.
     bindE (validate_checkpoint current) (\<lambda>_.
     let p = the_dict previous; c = the_dict current; pa = the_dict (dget p ''assets''); ca = the_dict (dget c ''assets'');
         changed = ValueError ''earn_checkpoint_scope_changed'' in
     bindE (ensure (py_eq (dget p ''account_scope_sha256'') (dget c ''account_scope_sha256'') \<and> same_keys pa ca) changed) (\<lambda>_.
     bindE (earn_time (dget p ''observed_at'')) (\<lambda>t0.
     bindE (earn_time (dget c ''observed_at'')) (\<lambda>t1.
     bindE (ensure (dt_utc t0 < dt_utc t1) changed) (\<lambda>_.
     case verified of
       PDict v \<Rightarrow>
         bindE (ensure (same_keys v ca) changed) (\<lambda>_.
         bindE (mapE (compare_asset ca v) pa) (\<lambda>accrual.
         Inr (PDict [(''quantities_conserve'', PBool True), (''broker_reported_accrual'', PDict accrual),
           (''absolute_principal_proven'', PBool False), (''execution_authority_granted'', PBool False)])))
     | _ \<Rightarrow> Inl changed))))))"


section \<open>The next ledger\<close>

definition flow_counter_keys :: "string list" where
  "flow_counter_keys = [''new_confirmed_deposit_count'', ''new_unsupported_deposit_count'', ''new_or_changed_withdrawal_count'']"

definition flow_counter_ok :: "pydict \<Rightarrow> string \<Rightarrow> bool" where
  "flow_counter_ok flows k = (case dget flows k of PInt n \<Rightarrow> 0 \<le> n | _ \<Rightarrow> False)"

definition deposit_in_window :: "pydt \<Rightarrow> pydt \<Rightarrow> pyval \<Rightarrow> pyexc + unit" where
  "deposit_in_window from_t cutoff v =
     bindE (earn_time v) (\<lambda>t.
     ensure (dt_utc from_t < dt_utc t \<and> dt_utc t \<le> dt_utc cutoff \<and> dt_day t = dt_day cutoff)
       (ValueError ''earn_cash_flow_time_unverified''))"

definition rounded_quantity :: "string \<times> pyval \<Rightarrow> pyexc + string \<times> pyval" where
  "rounded_quantity p = bindE (bindE (vsub (snd p) ''quantity'') (amount 100 False)) (\<lambda>q.
     bindE (float_of_dec q) (\<lambda>f. Inr (fst p, PFloat (f_round 8 f))))"

definition signed_amounts :: "pydict \<Rightarrow> string list \<Rightarrow> pyexc + (string \<times> pydec) list" where
  "signed_amounts d ks = mapE (\<lambda>k. bindE (bindE (dsub d k) (amount 100 True)) (\<lambda>x. Inr (k, x))) ks"

text \<open>\<open>verified[k] += x\<close>.\<close>

definition add_to :: "string \<Rightarrow> pydec \<Rightarrow> (string \<times> pydec) list \<Rightarrow> pyexc + (string \<times> pydec) list" where
  "add_to k x d = (case map_of d k of None \<Rightarrow> Inl KeyError
     | Some y \<Rightarrow> bindE (dec_add 100 y x) (\<lambda>z. Inr (AList.update k z d)))"

definition dec_strings :: "(string \<times> pydec) list \<Rightarrow> pydict" where
  "dec_strings d = map (\<lambda>(k, x). (k, PStr (dec_str x))) d"

text \<open>Evidence of the cash flows in the window: principal, dividend, both cursors on the two observations.\<close>

definition verified_flows :: "pydict \<Rightarrow> pyval \<Rightarrow> pydt \<Rightarrow> pydt \<Rightarrow> pyexc + pydec \<times> pydec" where
  "verified_flows state cash_flows from_t cutoff =
     bindE (vget cash_flows ''cursor'') (\<lambda>new_cursor.
     let flows = the_dict cash_flows; old_cursor = dget state ''external_cash_flow_cursor'';
         mismatch = ValueError ''earn_cash_cursor_mismatch'' in
     bindE (ensure (is_dict old_cursor \<and> is_dict new_cursor) mismatch) (\<lambda>_.
     bindE (earn_time (dget (the_dict old_cursor) ''observed_at'')) (\<lambda>t0.
     bindE (ensure (dt_utc t0 = dt_utc from_t) mismatch) (\<lambda>_.
     bindE (earn_time (dget (the_dict new_cursor) ''observed_at'')) (\<lambda>t1.
     bindE (ensure (dt_utc t1 = dt_utc cutoff) mismatch) (\<lambda>_.
     bindE (ensure (list_all (flow_counter_ok flows) flow_counter_keys) (ValueError ''earn_cash_flow_invalid'')) (\<lambda>_.
     bindE (ensure (dget flows ''new_unsupported_deposit_count'' = PInt 0
       \<and> dget flows ''new_or_changed_withdrawal_count'' = PInt 0) (ValueError ''earn_cash_flow_unsupported'')) (\<lambda>_.
     bindE (bindE (dsub flows ''new_deposit_principal_usdt'') (amount 100 False)) (\<lambda>principal.
     bindE (amount 100 False (dget_or flows ''bnb_dividend_quantity'' (PStr ''0''))) (\<lambda>dividend.
     bindE (dsub flows ''new_deposit_completed_at'') (\<lambda>completed. case completed of
         PList stamps \<Rightarrow>
           bindE (ensure (py_eq (PInt (int (length stamps))) (dget flows ''new_confirmed_deposit_count'')
             \<and> (dec_is_zero principal \<longleftrightarrow> stamps = [])) (ValueError ''earn_cash_flow_time_unverified'')) (\<lambda>_.
           bindE (all_ok (deposit_in_window from_t cutoff) stamps) (\<lambda>_.
           Inr (principal, dividend)))
       | _ \<Rightarrow> Inl (ValueError ''earn_cash_flow_time_unverified''))))))))))))"

definition next_earn_state :: "pydict \<Rightarrow> pydict \<Rightarrow> pyval \<Rightarrow> pydt \<Rightarrow> pydec \<Rightarrow> pyval \<Rightarrow> pyexc + pydict" where
  "next_earn_state state asset_rows current cutoff deposited new_cursor =
     bindE (if \<not> dec_is_zero deposited \<and> dget state ''last_reset_date'' = PStr (date_text (dt_date cutoff)) then
              bindE (amount 100 False (PStr (py_str (dget_or state ''daily_external_principal_usdt'' (PInt 0))))) (\<lambda>was.
              bindE (dec_add 100 was deposited) (\<lambda>accumulated.
              bindE (float_of_dec accumulated) (\<lambda>f.
              Inr (dset ''daily_external_principal_usdt'' (PFloat f) state))))
            else Inr state) (\<lambda>updated.
     let rows = the_dict (dget (the_dict current) ''assets'') in
     bindE (mapE rounded_quantity rows) (\<lambda>snapshot.
     Inr (dset ''external_cash_flow_cursor'' new_cursor
       (dset ''last_balance_snapshot'' (PDict snapshot)
       (dset ''earn_accounted_net_changes'' (PDict (map (\<lambda>(a, _). (a, PStr ''0'')) asset_rows))
       (dset ''earn_accrual_checkpoint'' current updated))))))"

definition prepare_forward_earn_state :: "pydict \<Rightarrow> pyval \<Rightarrow> pyval \<Rightarrow> pyexc + pydict" where
  "prepare_forward_earn_state state current cash_flows =
     bindE (dsub state ''earn_accrual_checkpoint'') (\<lambda>previous.
     bindE (validate_checkpoint previous) (\<lambda>_.
     bindE (validate_checkpoint current) (\<lambda>_.
     bindE (vget (dget_or state submission_key (PDict [])) ''state'') (\<lambda>status.
     bindE (ensure (hashable status) TypeError) (\<lambda>_.
     bindE (ensure (status = PStr ''RESERVED'' \<or> status = PStr ''TERMINAL'') (ValueError ''earn_order_unsettled'')) (\<lambda>_.
     let rows = the_dict (dget (the_dict previous) ''assets''); net = dget state ''earn_accounted_net_changes'';
         snapshot = dget state ''last_balance_snapshot'' in
     bindE (ensure (is_dict net \<and> same_keys (the_dict net) rows \<and> is_dict snapshot \<and> same_keys (the_dict snapshot) rows)
       (ValueError ''earn_accounted_changes_missing'')) (\<lambda>_.
     bindE (signed_amounts (the_dict net) (map fst rows)) (\<lambda>verified0.
     bindE (earn_time (dget (the_dict current) ''observed_at'')) (\<lambda>cutoff.
     bindE (earn_time (dget (the_dict previous) ''observed_at'')) (\<lambda>from_t.
     bindE (verified_flows state cash_flows from_t cutoff) (\<lambda>(principal, dividend).
     bindE (add_to ''USDT'' principal verified0) (\<lambda>verified1.
     bindE (if dec_is_zero dividend then Inr verified1
            else if map_of verified1 ''BNB'' = None then Inl (ValueError ''earn_cash_flow_invalid'')
            else add_to ''BNB'' dividend verified1) (\<lambda>verified.
     bindE (compare_earn_checkpoints previous current (PDict (dec_strings verified))) (\<lambda>_.
     next_earn_state state rows current cutoff principal (dget (the_dict cash_flows) ''cursor'')))))))))))))))"


section \<open>Exactness at 100 digits\<close>

lemma length_strip: "length (strip_by p s) \<le> length s"
  unfolding strip_by_def by (metis length_rev length_dropWhile_le le_trans)

lemma split_sign_length: "split_sign s = (b, t) \<Longrightarrow> length t \<le> length s"
  by (auto simp: split_sign_def split: list.splits if_splits)

lemma parse_numeral_digits:
  assumes "parse_numeral t = Some (c, e)"
  shows "c < 10 ^ length t"
proof -
  obtain fp r where f: "split_fraction (dropWhile is_digit t) = (fp, r)" by (cases "split_fraction (dropWhile is_digit t)")
  have d: "list_all is_digit fp" and l: "length fp \<le> length (dropWhile is_digit t)"
    using f by (auto simp: split_fraction_def list_all_iff dest: set_takeWhileD split: list.splits if_splits)
      (metis length_takeWhile_le le_SucI)
  let ?ds = "takeWhile is_digit t @ fp"
  have "c = nat_of_digits ?ds"
    using assms f by (auto simp: parse_numeral_def Let_def split: list.splits if_splits prod.splits)
  moreover have "\<forall>x \<in> set ?ds. is_digit x"
    using d by (auto simp: list_all_iff dest: set_takeWhileD)
  then have "nat_of_digits ?ds < 10 ^ length ?ds" by (rule nat_of_digits_less)
  moreover have "length ?ds \<le> length t"
    using l by (metis length_append takeWhile_dropWhile_id add_le_cancel_left)
  then have "(10 :: nat) ^ length ?ds \<le> 10 ^ length t" by (intro power_increasing) auto
  ultimately show ?thesis by linarith
qed

lemma dec_parse_digits:
  assumes "dec_parse s = Some (Dec neg c e)"
  shows "c < 10 ^ length s"
proof -
  obtain b t where t: "split_sign (filter (\<lambda>c. c \<noteq> CHR ''_'') (strip s)) = (b, t)"
    by (cases "split_sign (filter (\<lambda>c. c \<noteq> CHR ''_'') (strip s))")
  have "parse_numeral t = Some (c, e)"
    using assms t by (auto simp: dec_parse_def dec_parse_nan_def Let_def split: if_splits option.splits)
  then have "c < 10 ^ length t" by (rule parse_numeral_digits)
  moreover have "length t \<le> length s"
    using split_sign_length [OF t] length_strip [of is_space s] length_filter_le le_trans by metis
  then have "(10 :: nat) ^ length t \<le> 10 ^ length s" by (intro power_increasing) auto
  ultimately show ?thesis by linarith
qed

lemma amount_bounded:
  assumes "amount 100 sgned v = Inr d"
  shows "bounded_dec 1 d" and "\<not> sgned \<Longrightarrow> 0 \<le> dec_val d"
proof -
  obtain s where v: "v = PStr s" using assms by (auto simp: amount_def split: pyval.splits)
  obtain m where len: "0 < length s" "length s \<le> 80" and p: "dec_parse s = Some d" and fin: "dec_finite d"
    and neg: "sgned \<or> \<not> dec_negative d" and m: "dec_abs 100 d = Inr m" and le: "\<not> dec_less dec_1e30 m"
    using assms by (auto simp: amount_def v result_simps earn_invalid_def split: if_splits option.splits pydec.splits)
  obtain sg c e where d: "d = Dec sg c e" using fin by (cases d) auto
  have e: "- 30 \<le> e"
    using assms len p m le by (auto simp: amount_def v d result_simps split: if_splits option.splits)
  have "c < 10 ^ length s" using dec_parse_digits p by (simp add: d)
  moreover have "(10 :: nat) ^ length s \<le> 10 ^ 80" using len by (intro power_increasing) auto
  ultimately have "num_digits c \<le> 80" by (intro num_digits_le) auto
  then have mv: "dec_val m = \<bar>dec_val d\<bar> \<and> dec_finite m"
    using m e by (auto simp: d dec_fix_def dec_emax_def Let_def signed_int_def abs_mult split: if_splits)
  then have "\<bar>dec_val d\<bar> \<le> 10 ^ 30"
    using le by (simp add: dec_less_finite dec_1e30_def ten_def signed_int_def)
  with e show "bounded_dec 1 d" by (auto simp: bounded_dec_def d)
  show "0 \<le> dec_val d" if "\<not> sgned"
    using neg that fin by (simp add: dec_negative_iff)
qed

text \<open>The rationals the checkpoints speak of.\<close>

definition amount_value :: "pyval \<Rightarrow> rat" where
  "amount_value v = (case amount 100 True v of Inr d \<Rightarrow> dec_val d | Inl e \<Rightarrow> 0)"

definition counter_value_of :: "pyval \<Rightarrow> rat" where
  "counter_value_of position = amount_value (dget (the_dict position) ''realtime_rewards'')"

definition reward_growth :: "pydict \<Rightarrow> pydict \<Rightarrow> rat" where
  "reward_growth olds news = (\<Sum>(product, before) \<leftarrow> olds. counter_value_of (dget news product) - counter_value_of before)"

lemma amount_value: "amount 100 sgned v = Inr d \<Longrightarrow> amount_value v = dec_val d"
  by (auto simp: amount_value_def amount_def result_simps split: pyval.splits if_splits option.splits)

lemma product_delta_Inr:
  "product_delta news reward (product, before) = Inr r \<longleftrightarrow>
     py_eq (dget (the_dict before) ''auto_subscribe'') (dget (the_dict (dget news product)) ''auto_subscribe'')
     \<and> (\<exists>a b delta. amount 100 False (dget (the_dict (dget news product)) ''realtime_rewards'') = Inr a
       \<and> amount 100 False (dget (the_dict before) ''realtime_rewards'') = Inr b
       \<and> dec_sub 100 a b = Inr delta \<and> \<not> dec_negative delta \<and> dec_add 100 reward delta = Inr r)"
  by (auto simp: product_delta_def Let_def result_simps)

lemma product_deltas_exact:
  assumes "foldE (product_delta news) reward olds = Inr result" and "bounded_dec n reward" and "n + 2 * length olds \<le> 1000"
  shows "dec_val result = dec_val reward + reward_growth olds news \<and> bounded_dec (n + 2 * length olds) result
    \<and> dec_val reward \<le> dec_val result"
  using assms
proof (induction olds arbitrary: reward n)
  case (Cons p olds)
  obtain product before where p: "p = (product, before)" by (cases p)
  obtain a b delta next_reward where a: "amount 100 False (dget (the_dict (dget news product)) ''realtime_rewards'') = Inr a"
    and b: "amount 100 False (dget (the_dict before) ''realtime_rewards'') = Inr b"
    and delta: "dec_sub 100 a b = Inr delta" "\<not> dec_negative delta"
    and nr: "dec_add 100 reward delta = Inr next_reward" "foldE (product_delta news) next_reward olds = Inr result"
    using Cons.prems(1) by (auto simp: p bindE_Inr_iff product_delta_Inr)
  have d: "dec_val delta = dec_val a - dec_val b" "bounded_dec 2 delta"
    using bounded_sub [OF amount_bounded(1) [OF a] amount_bounded(1) [OF b]] delta(1) by (auto simp: numeral_2_eq_2)
  obtain r where "dec_val r = dec_val reward + dec_val delta" "bounded_dec (n + 2) r" "dec_add 100 reward delta = Inr r"
    using bounded_add [OF Cons.prems(2) d(2)] Cons.prems(3) by auto
  then have r: "dec_val next_reward = dec_val reward + dec_val delta" "bounded_dec (n + 2) next_reward"
    using nr(1) by auto
  have "0 \<le> dec_val delta" using delta(2) d(2) by (simp add: dec_negative_iff bounded_finite)
  moreover have "n + 2 + 2 * length olds \<le> 1000" using Cons.prems(3) by simp
  note Cons.IH [OF nr(2) r(2) this]
  ultimately show ?case
    using r d amount_value [OF a] amount_value [OF b]
    by (simp add: p reward_growth_def counter_value_of_def)
qed (simp add: reward_growth_def)

lemma compare_asset_exact:
  assumes "compare_asset current_assets verified (asset, old) = Inr r"
    and "length (the_dict (dget (the_dict old) ''products'')) < 100"
  shows "amount_value (dget (the_dict (dget current_assets asset)) ''quantity'') - amount_value (dget (the_dict old) ''quantity'')
    = reward_growth (the_dict (dget (the_dict old) ''products'')) (the_dict (dget (the_dict (dget current_assets asset)) ''products''))
      + amount_value (dget verified asset)"
proof -
  let ?olds = "the_dict (dget (the_dict old) ''products'')"
  let ?news = "the_dict (dget (the_dict (dget current_assets asset)) ''products'')"
  obtain reward q q0 observed net explained where
    reward: "foldE (product_delta ?news) dec_zero ?olds = Inr reward"
    and q: "amount 100 False (dget (the_dict (dget current_assets asset)) ''quantity'') = Inr q"
    and q0: "amount 100 False (dget (the_dict old) ''quantity'') = Inr q0"
    and observed: "dec_sub 100 q q0 = Inr observed" and net: "amount 100 True (dget verified asset) = Inr net"
    and explained: "dec_add 100 reward net = Inr explained" and eq: "dec_eq observed explained"
    using assms(1) by (auto simp: compare_asset_def Let_def result_simps simp del: foldE.simps)
  have r: "dec_val reward = reward_growth ?olds ?news" "bounded_dec (2 * length ?olds) reward"
    using product_deltas_exact [OF reward bounded_zero(1), of 0] assms(2) by (auto simp: bounded_zero)
  have o: "dec_val observed = dec_val q - dec_val q0" "bounded_dec 2 observed"
    using bounded_sub [OF amount_bounded(1) [OF q] amount_bounded(1) [OF q0]] observed by (auto simp: numeral_2_eq_2)
  have "2 * length ?olds + 1 \<le> 1000000" using assms(2) by simp
  from bounded_add [OF r(2) amount_bounded(1) [OF net] this] explained
  have x: "dec_val explained = dec_val reward + dec_val net" "bounded_dec (2 * length ?olds + 1) explained"
    by auto
  have "dec_val observed = dec_val explained"
    using eq dec_eq_finite bounded_finite o(2) x(2) by blast
  then show ?thesis
    using r o x amount_value [OF q] amount_value [OF q0] amount_value [OF net] by simp
qed

lemma validate_asset_products:
  "validate_asset (asset, row) = Inr () \<Longrightarrow> length (the_dict (dget (the_dict row) ''products'')) < 100"
  by (auto simp: validate_asset_def result_simps split: pyval.splits)

lemma all_ok_iff: "all_ok f xs = Inr () \<longleftrightarrow> (\<forall>x \<in> set xs. f x = Inr ())"
  by (induction xs) (auto simp: result_simps)

section \<open>Properties\<close>

text \<open>
  C6: conservation. When two checkpoints compare successfully, then for every asset of the scope
  the change of its quantity is exactly, over the rationals, the growth of the broker's reward
  counters of its products plus the verified net change. Nothing is lost to decimal rounding.
\<close>

theorem earn_comparison_conserves:
  assumes "compare_earn_checkpoints (PDict p) (PDict c) (PDict v) = Inr report"
  shows "\<forall>(asset, old) \<in> set (the_dict (dget p ''assets'')).
    amount_value (dget (the_dict (dget (the_dict (dget c ''assets'')) asset)) ''quantity'') - amount_value (dget (the_dict old) ''quantity'')
    = reward_growth (the_dict (dget (the_dict old) ''products''))
        (the_dict (dget (the_dict (dget (the_dict (dget c ''assets'')) asset)) ''products''))
      + amount_value (dget v asset)"
proof -
  obtain accrual where m: "mapE (compare_asset (the_dict (dget c ''assets'')) v) (the_dict (dget p ''assets'')) = Inr accrual"
    and val: "validate_checkpoint (PDict p) = Inr ()"
    using assms by (auto simp: compare_earn_checkpoints_def Let_def result_simps simp del: mapE.simps)
  have "validate_asset x = Inr ()" if "x \<in> set (the_dict (dget p ''assets''))" for x
    using val that by (auto simp: validate_checkpoint_def result_simps all_ok_iff split: pyval.splits)
  moreover have "\<exists>r. compare_asset (the_dict (dget c ''assets'')) v x = Inr r" if "x \<in> set (the_dict (dget p ''assets''))" for x
    using mapE_Inr_all [OF m] that by (auto simp: list_all2_conv_all_nth in_set_conv_nth)
  ultimately show ?thesis
    using compare_asset_exact validate_asset_products by blast
qed

definition sample_checkpoint :: "string \<Rightarrow> string \<Rightarrow> string \<Rightarrow> string \<Rightarrow> pydict" where
  "sample_checkpoint stamp held rewards quantity = [
     (''account_scope_sha256'', PStr (replicate 64 (CHR ''a''))), (''observed_at'', PStr stamp),
     (''assets'', PDict [(''USDT'', PDict [(''spot_free'', PStr ''1''), (''spot_locked'', PStr ''0''),
        (''products'', PDict [(''P1'', PDict [(''total'', PStr held), (''realtime_rewards'', PStr rewards),
           (''auto_subscribe'', PBool True), (''can_redeem'', PBool True)])]),
        (''quantity'', PStr quantity)])]),
     (''execution_authority_granted'', PBool False)]"

definition sample_before :: pydict where
  "sample_before = sample_checkpoint ''2026-01-01T00:00:00+00:00'' ''2'' ''0.1'' ''3''"

definition sample_after :: pydict where
  "sample_after = sample_checkpoint ''2026-01-02T00:00:00+00:00'' ''2.1'' ''0.2'' ''3.1''"

lemma sample_parts:
  "validate_checkpoint (PDict sample_before) = Inr ()" "validate_checkpoint (PDict sample_after) = Inr ()"
  "\<not> isl (compare_asset (the_dict (dget sample_after ''assets'')) [(''USDT'', PStr ''0'')]
     (''USDT'', dget (the_dict (dget sample_before ''assets'')) ''USDT''))"
  by code_simp+

lemma sample_times:
  "map_sum id dt_utc (earn_time (dget sample_before ''observed_at'')) = Inr 63902822400000000"
  "map_sum id dt_utc (earn_time (dget sample_after ''observed_at'')) = Inr 63902908800000000"
  by code_simp+

lemma sample_comparison:
  "\<exists>r. compare_earn_checkpoints (PDict sample_before) (PDict sample_after) (PDict [(''USDT'', PStr ''0'')]) = Inr r"
proof -
  obtain t0 t1 where t: "earn_time (dget sample_before ''observed_at'') = Inr t0" "earn_time (dget sample_after ''observed_at'') = Inr t1"
    "dt_utc t0 < dt_utc t1"
    using sample_times by (auto simp: map_sum_def split: sum.splits)
  have a: "the_dict (dget sample_before ''assets'') = [(''USDT'', dget (the_dict (dget sample_before ''assets'')) ''USDT'')]"
    by (simp add: sample_before_def sample_checkpoint_def)
  have k: "same_keys (the_dict (dget sample_before ''assets'')) (the_dict (dget sample_after ''assets''))"
    "same_keys [(''USDT'', PStr ''0'')] (the_dict (dget sample_after ''assets''))"
    "py_eq (dget sample_before ''account_scope_sha256'') (dget sample_after ''account_scope_sha256'')"
    by (simp_all add: sample_before_def sample_after_def sample_checkpoint_def same_keys_def)
  obtain x where "compare_asset (the_dict (dget sample_after ''assets'')) [(''USDT'', PStr ''0'')]
     (''USDT'', dget (the_dict (dget sample_before ''assets'')) ''USDT'') = Inr x"
    using sample_parts(3) by (metis sum.collapse(2))
  then have "mapE (compare_asset (the_dict (dget sample_after ''assets'')) [(''USDT'', PStr ''0'')])
      (the_dict (dget sample_before ''assets'')) = Inr [x]"
    by (subst a) simp
  then show ?thesis
    by (simp add: compare_earn_checkpoints_def sample_parts(1,2) t k Let_def)
qed

lemma earn_comparison_conserves_witness:
  "\<exists>(asset, old) \<in> set (the_dict (dget sample_before ''assets'')).
     amount_value (dget (the_dict (dget (the_dict (dget sample_after ''assets'')) asset)) ''quantity'')
       - amount_value (dget (the_dict old) ''quantity'')
     = reward_growth (the_dict (dget (the_dict old) ''products''))
         (the_dict (dget (the_dict (dget (the_dict (dget sample_after ''assets'')) asset)) ''products''))
       + amount_value (dget [(''USDT'', PStr ''0'')] asset)"
proof -
  have "set (the_dict (dget sample_before ''assets'')) \<noteq> {}"
    by (simp add: sample_before_def sample_checkpoint_def)
  then show ?thesis
    using sample_comparison earn_comparison_conserves [of sample_before sample_after "[(''USDT'', PStr ''0'')]"]
    by (metis (no_types, lifting) ex_in_conv)
qed

text \<open>
  The next ledger. When the forward accounting step succeeds, no submission was open, the new
  state carries the current checkpoint and cursor, every accounted net change is reset to zero,
  and every entry outside the five accounting fields is the one it was.
\<close>

theorem forward_state_frame:
  assumes "prepare_forward_earn_state state current cash_flows = Inr next_state"
  shows "submission_state_of state \<in> {Inr (PStr ''RESERVED''), Inr (PStr ''TERMINAL'')}
    \<and> dget next_state ''earn_accrual_checkpoint'' = current
    \<and> Inr (dget next_state ''external_cash_flow_cursor'') = vget cash_flows ''cursor''
    \<and> (\<forall>v \<in> set (map snd (the_dict (dget next_state ''earn_accounted_net_changes''))). v = PStr ''0'')
    \<and> (\<forall>k. k \<notin> {''earn_accrual_checkpoint'', ''external_cash_flow_cursor'', ''earn_accounted_net_changes'',
              ''last_balance_snapshot'', ''daily_external_principal_usdt''} \<longrightarrow> dget next_state k = dget state k)"
proof -
  obtain rows cutoff paid where n: "next_earn_state state rows current cutoff paid (dget (the_dict cash_flows) ''cursor'') = Inr next_state"
    and sub: "submission_state_of state = Inr (PStr ''RESERVED'') \<or> submission_state_of state = Inr (PStr ''TERMINAL'')"
    and cf: "is_dict cash_flows"
    using assms
    by (auto simp: prepare_forward_earn_state_def submission_state_of_def Let_def result_simps verified_flows_def split: prod.splits)
  obtain updated snapshot where "next_state = dset ''external_cash_flow_cursor'' (dget (the_dict cash_flows) ''cursor'')
       (dset ''last_balance_snapshot'' (PDict snapshot)
       (dset ''earn_accounted_net_changes'' (PDict (map (\<lambda>(a, _). (a, PStr ''0'')) rows))
       (dset ''earn_accrual_checkpoint'' current updated)))"
    and "\<And>k. k \<noteq> ''daily_external_principal_usdt'' \<Longrightarrow> dget updated k = dget state k"
    using n by (auto simp: next_earn_state_def Let_def result_simps split: if_splits)
  with sub cf show ?thesis by (auto simp: is_dict.simps elim: is_dict.elims)
qed

definition sample_ledger :: pydict where
  "sample_ledger = [(''earn_accrual_checkpoint'', PDict sample_before), (submission_key, PDict terminal_record),
     (''earn_accounted_net_changes'', PDict [(''USDT'', PStr ''0'')]),
     (''last_balance_snapshot'', PDict [(''USDT'', PFloat (Fin 3))]),
     (''external_cash_flow_cursor'', PDict [(''observed_at'', dget sample_before ''observed_at'')])]"

definition sample_flows :: pydict where
  "sample_flows = [(''cursor'', PDict [(''observed_at'', dget sample_after ''observed_at'')]),
     (''new_confirmed_deposit_count'', PInt 0), (''new_unsupported_deposit_count'', PInt 0),
     (''new_or_changed_withdrawal_count'', PInt 0), (''new_deposit_principal_usdt'', PStr ''0''),
     (''new_deposit_completed_at'', PList [])]"

lemma sample_amounts:
  "amount 100 True (PStr ''0'') = Inr (Dec False 0 0)" "amount 100 False (PStr ''0'') = Inr (Dec False 0 0)"
  "amount 100 False (PStr ''3.1'') = Inr (Dec False 31 (- 1))"
  "dec_add 100 (Dec False 0 0) (Dec False 0 0) = Inr (Dec False 0 0)" "dec_str (Dec False 0 0) = ''0''"
  by code_simp+

lemma sample_forward:
  "\<exists>n. prepare_forward_earn_state sample_ledger (PDict sample_after) (PDict sample_flows) = Inr n"
proof -
  obtain t0 t1 where t: "earn_time (dget sample_before ''observed_at'') = Inr t0" "earn_time (dget sample_after ''observed_at'') = Inr t1"
    using sample_times by (auto simp: map_sum_def split: sum.splits)
  obtain r where r: "compare_earn_checkpoints (PDict sample_before) (PDict sample_after) (PDict [(''USDT'', PStr ''0'')]) = Inr r"
    using sample_comparison by blast
  have rows: "the_dict (dget sample_before ''assets'') = [(''USDT'', dget (the_dict (dget sample_before ''assets'')) ''USDT'')]"
    "the_dict (dget sample_after ''assets'') = [(''USDT'', dget (the_dict (dget sample_after ''assets'')) ''USDT'')]"
    "vsub (dget (the_dict (dget sample_after ''assets'')) ''USDT'') ''quantity'' = Inr (PStr ''3.1'')"
    by (simp_all add: sample_before_def sample_after_def sample_checkpoint_def dsub_dhas)
  have verified: "signed_amounts [(''USDT'', PStr ''0'')] (map fst (the_dict (dget sample_before ''assets''))) = Inr [(''USDT'', Dec False 0 0)]"
    by (subst rows) (simp add: signed_amounts_def dsub_dhas sample_amounts)
  have keys: "same_keys [(''USDT'', v)] (the_dict (dget sample_before ''assets''))" for v
    by (subst rows) (simp add: same_keys_def)
  have flows: "verified_flows sample_ledger (PDict sample_flows) t0 t1 = Inr (Dec False 0 0, Dec False 0 0)"
    by (simp add: verified_flows_def sample_ledger_def sample_flows_def t flow_counter_keys_def flow_counter_ok_def dsub_dhas
        sample_amounts dget_or_eq py_eq.simps num_eq_def submission_key_def Let_def)
  have snapshot: "\<exists>x. mapE rounded_quantity (the_dict (dget sample_after ''assets'')) = Inr x"
    by (subst rows(2)) (simp add: rounded_quantity_def rows(3) sample_amounts)
  have ledger: "dsub sample_ledger ''earn_accrual_checkpoint'' = Inr (PDict sample_before)"
    "dget_or sample_ledger submission_key z = PDict terminal_record" "dget terminal_record ''state'' = PStr ''TERMINAL''"
    "dget sample_ledger ''earn_accounted_net_changes'' = PDict [(''USDT'', PStr ''0'')]"
    "dget sample_ledger ''last_balance_snapshot'' = PDict [(''USDT'', PFloat (Fin 3))]" for z
    by (simp_all add: sample_ledger_def dsub_dhas submission_key_def terminal_record_def)
  from snapshot show ?thesis
    by (elim exE) (simp add: prepare_forward_earn_state_def ledger sample_parts(1,2)
        keys verified flows t r add_to_def sample_amounts dec_strings_def next_earn_state_def Let_def)
qed

lemma forward_state_frame_witness:
  "\<exists>n. prepare_forward_earn_state sample_ledger (PDict sample_after) (PDict sample_flows) = Inr n
     \<and> dget n ''earn_accrual_checkpoint'' = PDict sample_after"
  using sample_forward forward_state_frame by blast

end
