(* ===== verification/Cash_Effects.thy ===== *)
theory Cash_Effects
  imports Earn_Accrual
begin

text \<open>
  Accounting for moved money in \<open>runtime_support.py\<close>: managed balances, the effect of a known fill
  on the Earn ledger, the refresh of confirmed balances, the one write seam of the trade state with
  the funds it settles, and the completion of a durable Earn receipt by reads only; with the
  dividend window of \<open>application/broker_reconciliation.py\<close> it rests on.
\<close>

section \<open>Managed balances\<close>

definition managed_row :: "string \<Rightarrow> pydec list \<times> string list \<Rightarrow> pyval \<Rightarrow> pyexc + pydec list \<times> string list" where
  "managed_row asset acc row = (case row of
     PDict d \<Rightarrow> (case dget d ''productId'' of
         PStr product \<Rightarrow>
           if dget d ''asset'' \<noteq> PStr asset \<or> product = [] \<or> product \<in> set (snd acc) then Inl (ValueError ''earn_balance_invalid'')
           else bindE (bindE (dsub d ''totalAmount'') funding_amount) (\<lambda>a. Inr (fst acc @ [a], product # snd acc))
       | _ \<Rightarrow> Inl (ValueError ''earn_balance_invalid''))
   | _ \<Rightarrow> Inl (ValueError ''earn_balance_invalid''))"

definition managed_rows :: "pyval \<Rightarrow> pyexc + pyval list" where
  "managed_rows earn = (case earn of
     PDict d \<Rightarrow> (case (dget d ''rows'', dget d ''total'') of
         (PList rows, PInt n) \<Rightarrow> if int (length rows) \<noteq> n \<or> 100 \<le> n then Inl (ValueError ''earn_balance_incomplete'') else Inr rows
       | _ \<Rightarrow> Inl (ValueError ''earn_balance_incomplete''))
   | _ \<Rightarrow> Inl (ValueError ''earn_balance_incomplete''))"

definition spot_amounts :: "string \<Rightarrow> pyval \<Rightarrow> pyexc + pydec list" where
  "spot_amounts asset spot = (case spot of
     PDict d \<Rightarrow>
       if \<not> py_eq (dget_or d ''asset'' (PStr asset)) (PStr asset) then Inl (ValueError ''spot_balance_invalid'')
       else mapE (\<lambda>k. bindE (dsub d k) funding_amount) [''free'', ''locked'']
   | _ \<Rightarrow> Inl (ValueError ''spot_balance_invalid''))"

definition read_managed_balance :: "env \<Rightarrow> string \<Rightarrow> pyfloat run" where
  "read_managed_balance env asset =
     handle
       (bind (invoke env (Client ''get_asset_balance'' [(''asset'', PStr asset)])) (\<lambda>spot.
        bind (liftE (spot_amounts asset spot)) (\<lambda>amounts.
        bind (invoke env (Client ''get_simple_earn_flexible_product_position''
          [(''asset'', PStr asset), (''current'', PInt 1), (''size'', PInt 100)])) (\<lambda>earn.
        bind (liftE (managed_rows earn)) (\<lambda>rows.
        bind (liftE (foldE (managed_row asset) (amounts, []) rows)) (\<lambda>(all_amounts, seen).
        bind (liftE (bindE (dec_sum 28 dec_zero all_amounts) float_of_dec)) (\<lambda>balance.
        if f_finite balance then ret balance else throw (ValueError ''balance_invalid''))))))))
       (\<lambda>e. throw (ExecutionIntegrity ''managed_balance_unavailable''))"

section \<open>A known fill in the Earn ledger\<close>

definition fee_to_ledger :: "(string \<times> pydec) list \<Rightarrow> pyval \<Rightarrow> pyexc + (string \<times> pydec) list" where
  "fee_to_ledger ledger item =
     bindE (vsub item ''commission_asset'') (\<lambda>a.
     bindE (bindE (vsub item ''commission'') (amount 100 False)) (\<lambda>fee.
     case a of PStr k \<Rightarrow> add_to k (dec_flip fee) ledger | _ \<Rightarrow> Inl KeyError))"

definition fill_to_ledger :: "pydict \<Rightarrow> string \<Rightarrow> pydict \<Rightarrow> pydict \<Rightarrow> pyexc + pydict" where
  "fill_to_ledger net symbol fill state =
     (let base = drop_last 4 symbol; buy = (dget fill ''side'' = PStr ''BUY'')
      in bindE (signed_amounts net (map fst net)) (\<lambda>ledger0.
         bindE (bindE (bindE (dsub fill ''executed_qty'') (amount 100 False)) (dec_mul 100 (Dec (\<not> buy) 1 0))) (\<lambda>q.
         bindE (add_to base q ledger0) (\<lambda>ledger1.
         bindE (bindE (bindE (dsub fill ''cummulative_quote_qty'') (amount 100 False)) (dec_mul 100 (Dec (\<not> buy) 1 0))) (\<lambda>u.
         bindE (add_to ''USDT'' (dec_flip u) ledger1) (\<lambda>ledger2.
         bindE (bindE (dsub fill ''commissions'') iterate) (\<lambda>items.
         bindE (foldE fee_to_ledger ledger2 items) (\<lambda>ledger.
         Inr (dset ''earn_accounted_net_changes'' (PDict (dec_strings ledger)) state)))))))))"

definition account_known_fill_for_earn :: "pydict \<Rightarrow> pyexc + pydict" where
  "account_known_fill_for_earn state =
     (if \<not> dhas state ''earn_accrual_checkpoint'' then Inr state
      else
        bindE (vget (dget_or state submission_key (PDict [])) ''state'') (\<lambda>status.
        if status \<noteq> PStr ''FILLED_ACCOUNTING_PENDING'' then Inr state
        else
          catchE
            (bindE (bindE (vsub (dget state ''earn_accrual_checkpoint'') ''assets'') iterate) (\<lambda>names.
             bindE (dsub state ''earn_accounted_net_changes'') (\<lambda>net.
             bindE (vsub (dget state submission_key) ''symbol'') (\<lambda>symbol.
             case (net, symbol) of
               (PDict ledger, PStr s) \<Rightarrow>
                 bindE (ensure (list_all is_str names \<and> set (map the_str names) = set (map fst ledger)
                   \<and> ends_with s ''USDT'' \<and> drop_last 4 s \<in> set (map the_str names)) (ValueError [])) (\<lambda>_.
                 bindE (vsub (dget state submission_key) ''known_fill'') (\<lambda>fill.
                 bindE (vget fill ''side'') (\<lambda>side.
                 bindE (ensure (side = PStr ''BUY'' \<or> side = PStr ''SELL'') (ValueError [])) (\<lambda>_.
                 bindE (known_fill_is_complete fill (map the_str names)) (\<lambda>complete.
                 bindE (ensure complete (ValueError [])) (\<lambda>_.
                 fill_to_ledger ledger s (the_dict fill) state))))))
             | _ \<Rightarrow> Inl TypeError))))
            (\<lambda>e. Inl (ExecutionIntegrity ''earn_fill_accounting_unverified''))))"

section \<open>The BNB dividend window\<close>

definition epoch_us :: int where "epoch_us = 62135596800000000"

text \<open>\<open>int(t.timestamp() * 1000)\<close>, in binary64 as the code computes it.\<close>

definition millis :: "pydt \<Rightarrow> pyexc + int" where
  "millis t = f_trunc (f_mul (fl (of_int (dt_utc t - epoch_us) / 1000000)) (Fin 1000))"

definition positive_amount :: "pyval \<Rightarrow> pyexc + pydec" where
  "positive_amount v = (case v of
     PStr s \<Rightarrow>
       if s = [] \<or> 80 < length s then Inl (ValueError ''bnb_dividend_row_invalid'')
       else (case dec_parse s of None \<Rightarrow> Inl (ValueError ''bnb_dividend_row_invalid'')
         | Some d \<Rightarrow>
             if \<not> dec_positive d then Inl (ValueError ''bnb_dividend_row_invalid'')
             else bindE (dec_abs 100 d) (\<lambda>m.
               if dec_less dec_1e30 m then Inl (ValueError ''bnb_dividend_row_invalid'')
               else (case d of Dec s c e \<Rightarrow> if e < - 30 then Inl (ValueError ''bnb_dividend_row_invalid'') else Inr d
                 | _ \<Rightarrow> Inr d)))
   | _ \<Rightarrow> Inl (ValueError ''bnb_dividend_row_invalid''))"

type_synonym dividend_acc = "pydec \<times> (int \<times> int \<times> int) list"

definition dividend_row :: "int \<Rightarrow> int \<Rightarrow> dividend_acc \<Rightarrow> pyval \<Rightarrow> pyexc + dividend_acc" where
  "dividend_row start_ms end_ms acc row = (case row of
     PDict d \<Rightarrow> (case (dget d ''id'', dget d ''tranId'', dget d ''divTime'') of
         (PInt i, PInt tran, PInt at_ms) \<Rightarrow>
           if i < 0 \<or> tran < 0 \<or> \<not> (start_ms < at_ms \<and> at_ms \<le> end_ms) \<or> dget d ''asset'' \<noteq> PStr ''BNB''
              \<or> dget d ''direction'' \<noteq> PInt 1 \<or> (i, tran, at_ms) \<in> set (snd acc)
           then Inl (ValueError ''bnb_dividend_row_invalid'')
           else bindE (positive_amount (dget d ''amount'')) (\<lambda>a.
             bindE (dec_add 100 (fst acc) a) (\<lambda>q. Inr (q, snd acc @ [(i, tran, at_ms)])))
       | _ \<Rightarrow> Inl (ValueError ''bnb_dividend_row_invalid''))
   | _ \<Rightarrow> Inl (ValueError ''bnb_dividend_row_invalid''))"

definition dividend_count :: "pyval \<Rightarrow> int option" where
  "dividend_count v = (case v of
     PInt n \<Rightarrow> Some n
   | PStr s \<Rightarrow> if s \<noteq> [] \<and> list_all is_digit s \<and> length s \<le> 10 then Some (int (nat_of_digits s)) else None
   | _ \<Rightarrow> None)"

definition dividend_rows :: "pyval \<Rightarrow> pyexc + pyval list" where
  "dividend_rows response = (case response of
     PDict d \<Rightarrow> (case (dget d ''rows'', dividend_count (dget d ''total'')) of
         (PList rows, Some n) \<Rightarrow>
           if n < 0 \<or> n \<noteq> int (length rows) \<or> 500 \<le> n then Inl (ValueError ''bnb_dividend_history_incomplete'') else Inr rows
       | _ \<Rightarrow> Inl (ValueError ''bnb_dividend_history_incomplete''))
   | _ \<Rightarrow> Inl (ValueError ''bnb_dividend_response_invalid''))"

definition collect_bnb_dividend_quantity :: "env \<Rightarrow> pydt \<Rightarrow> pydt \<Rightarrow> dividend_acc run" where
  "collect_bnb_dividend_quantity env start_t end_t =
     bind (raise_if (\<not> dt_aware start_t \<or> \<not> dt_aware end_t \<or> \<not> dt_utc start_t < dt_utc end_t)
       (ValueError ''bnb_dividend_window_invalid'')) (\<lambda>_.
     bind (liftE (millis start_t)) (\<lambda>start_ms.
     bind (liftE (millis end_t)) (\<lambda>end_ms.
     bind (attempt (invoke env (Client ''_request_margin_api'' [(''method'', PStr ''get''), (''path'', PStr ''asset/assetDividend''),
         (''signed'', PBool True), (''data'', PDict [(''asset'', PStr ''BNB''), (''startTime'', PInt start_ms),
           (''endTime'', PInt end_ms), (''limit'', PInt 500)])]))
       (\<lambda>e. throw (ValueError ''bnb_dividend_read_failed'')) ret) (\<lambda>response.
     bind (liftE (dividend_rows response)) (\<lambda>rows.
     liftE (foldE (dividend_row start_ms end_ms) (dec_zero, []) rows))))))"

section \<open>Refreshing confirmed balances\<close>

definition fuel_fill_open :: "pydict \<Rightarrow> string \<Rightarrow> bool" where
  "fuel_fill_open submission fuel_symbol =
     (dget submission ''state'' = PStr ''FILLED_ACCOUNTING_PENDING'' \<and> dget submission ''symbol'' = PStr fuel_symbol)"

definition confirmed_assets :: "fund list \<Rightarrow> string list" where
  "confirmed_assets fs = remdups (map (the_str \<circ> fd_asset) (filter (\<lambda>f. fd_confirmed f \<and> truthy (fd_asset f)) fs))"

definition with_usdt :: "string list \<Rightarrow> string list" where
  "with_usdt names = (if ''USDT'' \<in> set names then names else names @ [''USDT''])"

definition expected_scope :: "pyval \<Rightarrow> pyexc + string option" where
  "expected_scope v = (case v of PNone \<Rightarrow> Inr None | PStr s \<Rightarrow> Inr (Some s) | _ \<Rightarrow> Inl (ValueError ''identity''))"

definition quantity_float :: "pydict \<Rightarrow> string \<Rightarrow> pyexc + string \<times> pyval" where
  "quantity_float rows a = bindE (bindE (dsub rows a) (\<lambda>r. vsub r ''quantity'')) (\<lambda>q.
     bindE (to_float q) (\<lambda>f. Inr (a, PFloat f)))"

text \<open>
  An unexplained BNB difference is explained only by the dividend history of exactly the window
  between the two checkpoints.
\<close>

definition compare_with_dividend :: "env \<Rightarrow> pyval \<Rightarrow> pyval \<Rightarrow> pyval \<Rightarrow> unit run" where
  "compare_with_dividend env previous current net =
     attempt (liftE (compare_earn_checkpoints previous current net))
       (\<lambda>e.
         if \<not> is_value_error e then throw e
         else if e \<noteq> ValueError ''earn_quantity_change_unexplained''
              \<or> \<not> dhas (the_dict (dget (the_dict previous) ''assets'')) ''BNB'' then throw e
         else
           bind (liftE (earn_time (dget (the_dict previous) ''observed_at''))) (\<lambda>start_t.
           bind (liftE (earn_time (dget (the_dict current) ''observed_at''))) (\<lambda>end_t.
           bind (collect_bnb_dividend_quantity env start_t end_t) (\<lambda>(dividend, identities).
           bind (liftE (bindE (bindE (dsub (the_dict net) ''BNB'') (amount 28 True)) (\<lambda>b. dec_add 28 b dividend))) (\<lambda>b.
           bind (liftE (compare_earn_checkpoints previous current (PDict (dset ''BNB'' (PStr (dec_str b)) (the_dict net))))) (\<lambda>_.
           ret ()))))))
       (\<lambda>_. ret ())"

definition prospective_observations ::
    "env \<Rightarrow> (pyval \<Rightarrow> string) \<Rightarrow> pydict \<Rightarrow> bool \<Rightarrow> string list \<Rightarrow> (pydict \<times> pydict) run" where
  "prospective_observations env digest d fuel_pending names =
     handle
       (bind (liftE (if fuel_pending then account_known_fill_for_earn d else Inr d)) (\<lambda>pending_state.
        bind (liftE (dsub d ''earn_accrual_checkpoint'')) (\<lambda>previous.
        bind (liftE (bindE (vsub previous ''assets'') iterate)) (\<lambda>scope_names.
        bind (raise_if (\<not> list_all is_str scope_names) TypeError) (\<lambda>_.
        bind (invoke env ClockNow) (\<lambda>now.
        bind (liftE (bindE (vsub previous ''account_scope_sha256'') expected_scope)) (\<lambda>expected.
        bind (liftE (to_int now)) (\<lambda>us.
        bind (collect_earn_checkpoint env digest (map the_str scope_names) (DT us (Some 0)) expected) (\<lambda>current.
        bind (liftE (dsub pending_state ''earn_accounted_net_changes'')) (\<lambda>net.
        bind (compare_with_dividend env previous current net) (\<lambda>_.
        bind (liftE (mapE (quantity_float (the_dict (dget (the_dict current) ''assets''))) (with_usdt names))) (\<lambda>observations.
        ret (observations, pending_state)))))))))))))
       (\<lambda>e. throw (ExecutionIntegrity ''cash_reconciliation_uncertain''))"

definition read_observations :: "env \<Rightarrow> string list \<Rightarrow> pydict run" where
  "read_observations env names =
     handle (map_eff (\<lambda>a. bind (read_managed_balance env a) (\<lambda>b. ret (a, PFloat b))) names)
       (\<lambda>e. throw (ExecutionIntegrity ''cash_reconciliation_uncertain''))"

text \<open>A pending fuel fill is settled only when the observed balances carry exactly that fill.\<close>

definition settle_fuel_fill :: "string \<Rightarrow> pydict \<Rightarrow> pydict \<Rightarrow> pydict \<Rightarrow> pyexc + pydict" where
  "settle_fuel_fill fuel_asset submission observations d =
     (let fuel = (if fuel_asset = [] then ''BNB'' else fuel_asset)
      in bindE (known_fill_is_complete (dget submission ''known_fill'') [fuel, ''USDT'']) (\<lambda>complete.
         bindE (ensure complete (ExecutionIntegrity ''filled_order_accounting_unverifiable'')) (\<lambda>_.
         bindE (fuel_fill_matches_observed_balances (dget submission ''known_fill'') (dget d ''last_balance_snapshot'')
           observations fuel) (\<lambda>matches.
         bindE (ensure matches (ExecutionIntegrity ''cash_reconciliation_uncertain'')) (\<lambda>_.
         bindE (account_known_fill_for_earn d) (\<lambda>d'.
         Inr (dset submission_key (PDict terminal_record) d')))))))"

definition with_snapshot :: "pydict \<Rightarrow> pydict \<Rightarrow> pyexc + pydict" where
  "with_snapshot observations d = (case dget_or d ''last_balance_snapshot'' (PDict []) of
     PDict s \<Rightarrow> Inr (dset ''last_balance_snapshot'' (PDict (dupdate s observations)) d) | _ \<Rightarrow> Inl AttributeError)"

definition float_entries :: "pydict \<Rightarrow> (string \<times> pyfloat) list" where
  "float_entries d = map (\<lambda>(k, v). (k, case v of PFloat f \<Rightarrow> f | _ \<Rightarrow> NaN)) d"

definition reconcile_runtime_cash_effects :: "env \<Rightarrow> (pyval \<Rightarrow> string) \<Rightarrow> nat \<Rightarrow> unit run" where
  "reconcile_runtime_cash_effects env digest a =
     bind (gets rt) (\<lambda>r.
     let names = confirmed_assets (rt_pending r) in
     if names = [] then ret ()
     else
       bind (require_runtime_state_owner env) (\<lambda>_.
       bind (read_ref a) (\<lambda>d.
       bind (case dget_or d submission_key (PDict []) of PDict s \<Rightarrow> ret s | _ \<Rightarrow> throw AttributeError) (\<lambda>submission.
       let fuel_pending = fuel_fill_open submission (rt_fuel_symbol r) in
       bind
         (if dhas d ''earn_accrual_checkpoint'' then
            bind (prospective_observations env digest d fuel_pending names) (\<lambda>(observations, pending_state).
            bind (whenM fuel_pending (write_ref a (dset submission_key (PDict terminal_record)
              (dset ''earn_accounted_net_changes'' (dget pending_state ''earn_accounted_net_changes'') d)))) (\<lambda>_.
            ret observations))
          else
            bind (read_observations env (with_usdt names)) (\<lambda>observations.
            bind (whenM fuel_pending
              (bind (liftE (settle_fuel_fill (rt_fuel_asset r) submission observations d)) (write_ref a))) (\<lambda>_.
            ret observations))) (\<lambda>observations.
       bind (read_ref a) (\<lambda>d'.
       bind (liftE (with_snapshot observations d')) (\<lambda>d''.
       bind (write_ref a d'') (\<lambda>_.
       upd_rt (\<lambda>r. r\<lparr>rt_cash := float_entries observations\<rparr>)))))))))"


section \<open>Which funds a state write settles\<close>

definition snapshot_agrees :: "pydict \<Rightarrow> (string \<times> pyfloat) list \<Rightarrow> pyexc + bool" where
  "snapshot_agrees d observed = (case dget_or d ''last_balance_snapshot'' (PDict []) of
     PDict s \<Rightarrow> Inr (list_all (\<lambda>(k, f). py_eq (dget s k) (PFloat f)) observed)
   | _ \<Rightarrow> if observed = [] then Inr True else Inl AttributeError)"

definition accounted_funds :: "runtime \<Rightarrow> pydict \<Rightarrow> string \<Rightarrow> fund \<Rightarrow> pyexc + bool" where
  "accounted_funds r d reason item =
     (if \<not> fd_confirmed item then Inr False
      else
        (let today = compact_date (rt_now r); action = fd_action item; symbol = fd_symbol item
         in if reason = ''trend_'' @ action @ '':'' @ py_str symbol then
              bindE (vget (dget_or d ''trend_action_history'' (PDict [])) (the_str symbol)) (\<lambda>h.
              Inr (is_str symbol \<and> py_eq h (PDict [(''action'', PStr action), (''date'', PStr today)])))
            else if reason = ''btc_dca_'' @ action \<and> symbol = PStr ''BTCUSDT'' then
              Inr (dget d (''dca_last_'' @ action @ ''_date'') = PStr today)
            else if reason = ''daily_circuit_breaker'' \<and> action = ''sell'' then
              Inr (dget d ''is_circuit_broken'' = PBool True \<and> is_dict (dget d ''last_balance_snapshot''))
            else if truthy (fd_asset item) \<and> the_str (fd_asset item) \<in> set (map fst (rt_cash r))
                 \<and> (reason = ''cycle_complete'' \<or> reason = ''cash_reconciliation'') then
              snapshot_agrees d (rt_cash r)
            else Inr False))"

fun filterE :: "('a \<Rightarrow> pyexc + bool) \<Rightarrow> 'a list \<Rightarrow> pyexc + 'a list" where
  "filterE p [] = Inr []"
| "filterE p (x # xs) = bindE (p x) (\<lambda>b. bindE (filterE p xs) (\<lambda>ys. Inr (if b then x # ys else ys)))"

definition drop_session :: "env \<Rightarrow> bool \<Rightarrow> unit run" where
  "drop_session env bound =
     bind (whenM bound (quiet env BoundInvalidate)) (\<lambda>_. upd_rt (\<lambda>r. r\<lparr>rt_owner_held := False\<rparr>))"

definition runtime_set_trade_state :: "env \<Rightarrow> nat \<Rightarrow> string \<Rightarrow> pyval option \<Rightarrow> unit run" where
  "runtime_set_trade_state env a reason interval =
     bind (upd_rp (\<lambda>p. p\<lparr>rp_state_intents := rp_state_intents p @ [reason]\<rparr>)) (\<lambda>_.
     bind (gets rt) (\<lambda>r.
     let payload = PDict [(''reason'', PStr reason)] in
     if rt_dry_run r \<or> \<not> rt_permitted r then record_side_effect ''state_write'' ''firestore'' payload False
     else
       bind (require_runtime_state_owner env) (\<lambda>_.
       if rt_bound r \<and> rt_receipts r \<and> reason = ''earn_forward_accounting'' \<and> interval = None then
         bind (drop_session env True) (\<lambda>_. throw (StatePersistence ''state_session_interval_required''))
       else if interval \<noteq> None \<and> reason \<noteq> ''earn_forward_accounting'' then
         bind (drop_session env (rt_bound r)) (\<lambda>_. throw (StatePersistence ''state_session_interval_reason_invalid''))
       else
         bind (read_ref a) (\<lambda>before_write.
         bind (handle (persist_runtime_state env before_write interval)
           (\<lambda>e. bind (write_ref a before_write) (\<lambda>_. throw (StatePersistence ''state_persistence_failed'')))) (\<lambda>_.
         bind (upd_rt (\<lambda>r. r\<lparr>rt_trade_state := Some a\<rparr>)) (\<lambda>_.
         bind (gets (\<lambda>w. filterE (\<lambda>f. map_sum id Not (accounted_funds (rt w) (heap w a) reason f)) (rt_pending (rt w)))) (\<lambda>kept.
         bind (liftE kept) (\<lambda>fs.
         bind (upd_rt (\<lambda>r. r\<lparr>rt_pending := fs\<rparr>)) (\<lambda>_.
         record_side_effect ''state_write'' ''firestore'' payload True)))))))))"

section \<open>Completing a durable Earn receipt\<close>

definition same_amount :: "pyval \<Rightarrow> pyfloat \<Rightarrow> pyexc + bool" where
  "same_amount opening observed =
     bindE (funding_amount opening) (\<lambda>x. bindE (funding_amount (PFloat observed)) (\<lambda>y. Inr (dec_eq x y)))"

fun balances_conserved :: "pydict \<Rightarrow> (string \<times> pyfloat) list \<Rightarrow> pyexc + bool" where
  "balances_conserved opening [] = Inr True"
| "balances_conserved opening ((asset, observed) # rest) =
     (if \<not> dhas opening asset then Inr False
      else bindE (same_amount (dget opening asset) observed) (\<lambda>same.
        if same then balances_conserved opening rest else Inr False))"

definition restore_snapshot :: "nat \<Rightarrow> pydict \<Rightarrow> unit run" where
  "restore_snapshot a opening =
     bind (read_ref a) (\<lambda>d. write_ref a (dset ''last_balance_snapshot'' (PDict opening) d))"

definition reconcile_pending_funding_submission :: "env \<Rightarrow> (pyval \<Rightarrow> string) \<Rightarrow> bool run" where
  "reconcile_pending_funding_submission env digest =
     bind (gets rt) (\<lambda>r.
     if rt_dry_run r \<or> \<not> rt_permitted r then ret False
     else
       bind (require_runtime_state_owner env) (\<lambda>_.
       bind (load_order_submission_state env) (\<lambda>(a, record).
       if dget record ''state'' \<noteq> PStr ''SUBMISSION_UNKNOWN'' \<or> \<not> dhas record ''funding_receipt'' then ret False
       else
         bind (read_ref a) (\<lambda>d.
         case dget d ''last_balance_snapshot'' of
           PDict opening \<Rightarrow>
             bind (confirm_funding_settlement env (the_str (dget record ''method_name'')) (dget record ''funding_receipt'')) (\<lambda>_.
             let pending = \<lparr>fd_confirmed = True, fd_action = ''funding'', fd_symbol = PNone,
                   fd_asset = dget (the_dict (dget record ''funding_receipt'')) ''asset''\<rparr> in
             bind (upd_rt (\<lambda>r. r\<lparr>rt_pending := rt_pending r @ [pending]\<rparr>)) (\<lambda>_.
             bind (reconcile_runtime_cash_effects env digest a) (\<lambda>_.
             bind (gets (\<lambda>w. balances_conserved opening (rt_cash (rt w)))) (\<lambda>conserved.
             bind (case conserved of
                 Inl e \<Rightarrow> if e = InvalidOperation \<or> e = TypeError \<or> is_value_error e then ret False else throw e
               | Inr b \<Rightarrow> ret b) (\<lambda>ok.
             bind (restore_snapshot a opening) (\<lambda>_.
             if \<not> ok then
               bind (upd_rt (\<lambda>r. r\<lparr>rt_cash := []\<rparr>)) (\<lambda>_.
               throw (OrderReconciliation ''funding_balance_conservation_unverified''))
             else
               bind (persist_order_submission_state env a terminal_record) (\<lambda>_.
               bind (upd_rt (\<lambda>r. r\<lparr>rt_pending := remove1 pending (rt_pending r)\<rparr>)) (\<lambda>_.
               ret True))))))))
         | _ \<Rightarrow> throw (OrderReconciliation ''funding_balance_conservation_unverified'')))))"

section \<open>Lemmas\<close>

lemma silent_read_balance [keeps_intros]: "keeps silent (read_managed_balance env asset)"
  unfolding read_managed_balance_def by (intro keeps_intros; simp add: order_side_def)

lemma silent_observations [keeps_intros]: "keeps silent (read_observations env names)"
  unfolding read_observations_def by (intro keeps_intros)

lemma silent_collect [keeps_intros]: "keeps silent (collect_earn_checkpoint env digest names t expected)"
  unfolding collect_earn_checkpoint_def call_at_stage_def by (intro keeps_intros; simp add: order_side_def)

lemma silent_dividend [keeps_intros]: "keeps silent (collect_bnb_dividend_quantity env s t)"
  unfolding collect_bnb_dividend_quantity_def by (intro keeps_intros; simp)

lemma silent_compare [keeps_intros]: "keeps silent (compare_with_dividend env p c n)"
  unfolding compare_with_dividend_def by (intro keeps_intros)

lemma silent_prospective [keeps_intros]: "keeps silent (prospective_observations env digest d b names)"
  unfolding prospective_observations_def by (intro keeps_intros; simp)

lemma silent_cash [keeps_intros]: "keeps silent (reconcile_runtime_cash_effects env digest a)"
  unfolding reconcile_runtime_cash_effects_def by (intro keeps_intros)

lemma silent_restore [keeps_intros]: "keeps silent (restore_snapshot a d)"
  unfolding restore_snapshot_def by (intro keeps_intros)

lemma silent_pending_funding: "keeps silent (reconcile_pending_funding_submission env digest)"
  unfolding reconcile_pending_funding_submission_def by (intro keeps_intros)

lemma silent_set_state [keeps_intros]: "keeps silent (runtime_set_trade_state env a reason interval)"
  unfolding runtime_set_trade_state_def drop_session_def by (intro keeps_intros; simp)


section \<open>Calls that only read\<close>

definition broker_mutation :: "call \<Rightarrow> bool" where
  "broker_mutation c = (case c of Client m kw \<Rightarrow> order_side m \<noteq> None \<or> earn_success_id m \<noteq> None | _ \<Rightarrow> False)"

definition reading :: "world \<Rightarrow> world \<Rightarrow> bool" where
  "reading w w' = (\<exists>evs. trace w' = trace w @ evs \<and> list_all (\<lambda>e. \<not> broker_mutation (fst e)) evs)"

lemma reading_rel [keeps_intros]: "reflp reading" "transp reading"
  by (auto simp: reflp_def transp_def reading_def)

lemma reading_invoke [keeps_intros]: "\<not> broker_mutation c \<Longrightarrow> keeps reading (invoke env c)"
  by (auto simp: keeps_def reading_def invoke_def)

lemma reading_upd [keeps_intros]:
  "keeps reading (upd_rt f)" "keeps reading (upd_rp g)" "keeps reading (write_ref a d)" "keeps reading (alloc d)"
  "keeps reading (read_ref a)"
  by (auto simp: keeps_def reading_def upd_rt_def upd_rp_def update_def write_ref_def alloc_def read_ref_def gets_def)

lemma not_broker_mutation [simp]:
  "\<not> broker_mutation (WriteState d)" "\<not> broker_mutation (BoundSave d i)" "\<not> broker_mutation LoadState"
  "\<not> broker_mutation BoundEnsureActive" "\<not> broker_mutation BoundInvalidate" "\<not> broker_mutation ClockNow"
  "\<not> broker_mutation (Client ''get_asset_balance'' kw)" "\<not> broker_mutation (Client ''_request_margin_api'' kw)"
  "\<not> broker_mutation (Client ''get_account'' kw)" "\<not> broker_mutation (Client ''get_simple_earn_flexible_product_position'' kw)"
  by (simp_all add: broker_mutation_def order_side_def earn_success_id_def)

lemma reading_require [keeps_intros]: "keeps reading (require_runtime_state_owner env)"
  unfolding require_runtime_state_owner_def by (intro keeps_intros; simp)

lemma reading_persist_runtime [keeps_intros]: "keeps reading (persist_runtime_state env d i)"
  unfolding persist_runtime_state_def write_runtime_state_def quiet_def by (intro keeps_intros; simp)

lemma reading_persist [keeps_intros]: "keeps reading (persist_order_submission_state env a r)"
  unfolding persist_order_submission_state_def by (intro keeps_intros)

lemma reading_load [keeps_intros]: "keeps reading (load_order_submission_state env)"
  unfolding load_order_submission_state_def by (intro keeps_intros; simp)

lemma reading_confirm [keeps_intros]: "keeps reading (confirm_funding_settlement env m r)"
  unfolding confirm_funding_settlement_def by (intro keeps_intros; simp)

lemma reading_balance [keeps_intros]: "keeps reading (read_managed_balance env asset)"
  unfolding read_managed_balance_def by (intro keeps_intros; simp)

lemma reading_collect [keeps_intros]: "keeps reading (collect_earn_checkpoint env digest names t expected)"
  unfolding collect_earn_checkpoint_def call_at_stage_def by (intro keeps_intros; simp)

lemma reading_cash [keeps_intros]: "keeps reading (reconcile_runtime_cash_effects env digest a)"
  unfolding reconcile_runtime_cash_effects_def prospective_observations_def read_observations_def
    compare_with_dividend_def collect_bnb_dividend_quantity_def
  by (intro keeps_intros; simp)

lemma reading_pending_funding: "keeps reading (reconcile_pending_funding_submission env digest)"
  unfolding reconcile_pending_funding_submission_def restore_snapshot_def by (intro keeps_intros)

section \<open>Properties\<close>


text \<open>What a state write and its preliminaries leave alone.\<close>

definition core :: "runtime \<Rightarrow> (string \<times> pyfloat) list \<times> pydt \<times> fund list" where
  "core r = (rt_cash r, rt_now r, rt_pending r)"

definition same_core :: "world \<Rightarrow> world \<Rightarrow> bool" where
  "same_core w w' = (heap w' = heap w \<and> core (rt w') = core (rt w))"

lemma same_core_rel [keeps_intros]: "reflp same_core" "transp same_core"
  by (auto simp: reflp_def transp_def same_core_def)

lemma same_core_invoke [keeps_intros]: "keeps same_core (invoke env c)"
  by (simp add: keeps_def invoke_def same_core_def)

lemma same_core_rt [keeps_intros]: "(\<And>r. core (f r) = core r) \<Longrightarrow> keeps same_core (upd_rt f)"
  by (simp add: keeps_def upd_rt_def update_def same_core_def)

lemma same_core_require [keeps_intros]: "keeps same_core (require_runtime_state_owner env)"
  unfolding require_runtime_state_owner_def by (intro keeps_intros; simp add: core_def)

lemma same_core_quiet [keeps_intros]: "keeps same_core (quiet env c)"
  unfolding quiet_def by (intro keeps_intros)

lemma same_core_drop [keeps_intros]: "keeps same_core (drop_session env b)"
  unfolding drop_session_def by (intro keeps_intros; simp add: core_def)

lemma same_core_persist [keeps_intros]: "keeps same_core (persist_runtime_state env d i)"
  unfolding persist_runtime_state_def write_runtime_state_def by (intro keeps_intros; simp add: core_def)

lemma accounted_funds_core: "core r = core r' \<Longrightarrow> accounted_funds r = accounted_funds r'"
  by (auto simp: accounted_funds_def core_def fun_eq_iff)

definition acknowledged :: "pydict \<Rightarrow> pyval option \<Rightarrow> world \<Rightarrow> bool" where
  "acknowledged d interval w =
     ((WriteState d, Inr (PBool True)) \<in> set (trace w) \<or> (BoundSave d interval, Inr (PBool True)) \<in> set (trace w))"

lemma persist_acknowledged:
  "wp (persist_runtime_state env d interval) (\<lambda>_ u. same_core w u \<and> acknowledged d interval u) (\<lambda>_. same_core w) w"
proof -
  have "wp (persist_runtime_state env d interval) (\<lambda>_ u. acknowledged d interval u) (\<lambda>_ _. True) w"
    by (simp add: persist_runtime_state_def write_runtime_state_def eff_simps quiet_def acknowledged_def split: sum.splits)
  from wp_conj [OF this keeps_wp [OF same_core_persist]]
  show ?thesis by (rule wp_mono) auto
qed

definition kept_funds :: "runtime \<Rightarrow> pydict \<Rightarrow> string \<Rightarrow> fund list \<Rightarrow> pyexc + fund list" where
  "kept_funds r d reason fs = filterE (\<lambda>f. map_sum id Not (accounted_funds r d reason f)) fs"

lemma filterE_Inr: "filterE p xs = Inr ys \<Longrightarrow> ys = filter (\<lambda>x. p x = Inr True) xs"
  by (induction xs arbitrary: ys) (auto simp: result_simps split: if_splits)

lemma state_write_steps:
  assumes "\<not> rt_dry_run (rt w)" and "rt_permitted (rt w)"
  shows "wp (runtime_set_trade_state env a reason interval)
    (\<lambda>_ u. heap u = heap w \<and> rt_trade_state (rt u) = Some a \<and> acknowledged (heap w a) interval u
      \<and> rt_pending (rt u) = filter (\<lambda>f. accounted_funds (rt w) (heap w a) reason f = Inr False) (rt_pending (rt w)))
    (\<lambda>_ u. heap u = heap w) w"
proof -
  define v where "v = w\<lparr>rp := (rp w)\<lparr>rp_state_intents := rp_state_intents (rp w) @ [reason]\<rparr>\<rparr>"
  have v: "same_core w v" "rt v = rt w" by (simp_all add: v_def same_core_def)
  have drop: "wp (drop_session env b) (\<lambda>_ t. heap t = heap w) (\<lambda>_ t. heap t = heap w) u" if "heap u = heap w" for b u
    using that by (intro wp_mono [OF keeps_wp [OF same_core_drop]]) (auto simp: same_core_def)
  have map_Not: "map_sum id Not x = Inr True \<longleftrightarrow> x = Inr False" for x :: "pyexc + bool"
    by (cases x) auto
  have persist: "wp (persist_runtime_state env (heap w a) i)
      (\<lambda>_ u. same_core w u \<and> acknowledged (heap w a) i u) (\<lambda>_ u. heap u = heap w) u" if "same_core w u" for u i
    using that by (intro wp_mono [OF persist_acknowledged]) (auto simp: same_core_def)
  show ?thesis
    unfolding runtime_set_trade_state_def wp_bind wp_upd_rp wp_gets Let_def v_def [symmetric] v
    using assms(1,2)
  proof (simp only: simp_thms if_False wp_bind, intro wp_mono [OF keeps_wp [OF same_core_require]], goal_cases)
    case (1 x u)
    then have u: "same_core w u" using v by (auto simp: same_core_def)
    then have hu: "heap u = heap w" by (simp add: same_core_def)
    have kept: "fs = filter (\<lambda>f. accounted_funds (rt w) (heap w a) reason f = Inr False) (rt_pending (rt w))"
      if "core (rt t) = core (rt w)"
        "kept_funds (rt t\<lparr>rt_trade_state := Some a\<rparr>) (heap w a) reason (rt_pending (rt t)) = Inr fs" for t fs
    proof -
      have "accounted_funds (rt t\<lparr>rt_trade_state := Some a\<rparr>) = accounted_funds (rt w)"
        using that(1) by (intro accounted_funds_core) (auto simp: core_def)
      then show ?thesis
        using that by (auto simp: core_def kept_funds_def map_Not dest!: filterE_Inr)
    qed
    have ack: "acknowledged d i (t\<lparr>rt := r, rp := p\<rparr>) = acknowledged d i t" for d i t r p
      by (simp add: acknowledged_def)
    show ?case
      by (auto simp: eff_simps hu record_side_effect_def kept_funds_def [symmetric] same_core_def ack
          split: sum.split intro!: wp_mono [OF drop] wp_mono [OF persist [OF u]] dest: kept)
  next
    case (2 e u)
    then show ?case using v by (simp add: same_core_def)
  qed
qed

lemma state_write_heap:
  "wp (runtime_set_trade_state env a reason interval) (\<lambda>_ u. heap u = heap w) (\<lambda>_ u. heap u = heap w) w"
proof (cases "rt_dry_run (rt w) \<or> \<not> rt_permitted (rt w)")
  case True
  then show ?thesis by (simp add: runtime_set_trade_state_def Let_def eff_simps record_side_effect_def)
next
  case False
  then show ?thesis by (intro wp_mono [OF state_write_steps]) auto
qed

text \<open>
  C9: a state write is durable or nothing. When a state write outside a dry run returns, the store
  acknowledged exactly the state of the reference, the runtime shares that reference, and the
  funds kept as pending are exactly those the written state does not account for; and whether it
  returns or raises, no state dictionary changed.
\<close>

theorem state_write_durable:
  assumes "\<not> rt_dry_run (rt w)" and "rt_permitted (rt w)"
    and "runtime_set_trade_state env a reason interval w = (result, w')"
  shows "heap w' = heap w \<and> (result = Inr () \<longrightarrow>
      rt_trade_state (rt w') = Some a \<and> acknowledged (heap w a) interval w'
      \<and> rt_pending (rt w') = filter (\<lambda>f. accounted_funds (rt w) (heap w a) reason f = Inr False) (rt_pending (rt w)))"
  using wp_result [OF state_write_steps assms(3)] assms(1,2) by (cases result) auto


lemma sample_write: "fst (runtime_set_trade_state filling_env 0 ''cycle_complete'' None (sample_world [(''k'', PInt 1)])) = Inr ()"
proof -
  have "wp (runtime_set_trade_state filling_env 0 ''cycle_complete'' None) (\<lambda>_ _. True) (\<lambda>_ _. False) (sample_world [(''k'', PInt 1)])"
    by (simp add: runtime_set_trade_state_def submission_simps eff_simps sample_world_def sample_runtime_def filling_env_def Let_def)
  then show ?thesis by (auto simp: wp_def split: prod.splits sum.splits)
qed

lemma state_write_durable_witness:
  "acknowledged [(''k'', PInt 1)] None (snd (runtime_set_trade_state filling_env 0 ''cycle_complete'' None (sample_world [(''k'', PInt 1)])))"
  using state_write_durable [of "sample_world [(''k'', PInt 1)]" filling_env 0 "''cycle_complete''" None, OF _ _ prod.collapse [symmetric]]
    sample_write by (simp add: sample_world_def sample_runtime_def)

end
