(* ===== verification/Runtime_Report.thy ===== *)
theory Runtime_Report
  imports Order_Submission
begin

text \<open>
  The report side of \<open>runtime_support.py\<close>: validation and construction of the static runtime
  evidence aggregate, and the delivery of notifications with their receipts. A validator returns
  the list of its complaints in order; an unhashable status makes it raise \<open>TypeError\<close>. The
  lemmas show that an accepted aggregate hides no forbidden field at any depth and never claims
  that anything ran.
\<close>

section \<open>Evidence validation\<close>

definition forbidden_fields :: "string list" where
  "forbidden_fields = [''api_key'', ''api_secret'', ''authorization'', ''balances'', ''credentials'', ''headers'',
     ''orders'', ''positions'', ''provider_rows'', ''secret'', ''token'']"

definition evidence_label :: string where
  "evidence_label = ''runtime_evidence_aggregate''"

definition evidence_sha256 :: "pyval \<Rightarrow> bool" where
  "evidence_sha256 v = (case v of PStr s \<Rightarrow> hex64 (strip s) | _ \<Rightarrow> False)"

definition evidence_git_revision :: "pyval \<Rightarrow> bool" where
  "evidence_git_revision v = (case v of
     PStr s \<Rightarrow> length (strip s) = 40 \<and> list_all is_hex_lower (strip s) | _ \<Rightarrow> False)"

definition evidence_utc_timestamp :: "pyval \<Rightarrow> bool" where
  "evidence_utc_timestamp v = (case v of PStr s \<Rightarrow> ends_with s ''Z'' \<and> \<not> isl (parse_stamp s) | _ \<Rightarrow> False)"

definition nonblank :: "pyval \<Rightarrow> bool" where
  "nonblank v = (case v of PStr s \<Rightarrow> strip s \<noteq> [] | _ \<Rightarrow> False)"

definition missing_field_errors :: "pydict \<Rightarrow> string list \<Rightarrow> string \<Rightarrow> string list" where
  "missing_field_errors d wanted label =
     map (\<lambda>f. label @ '' missing field: '' @ f) (filter (\<lambda>f. \<not> dhas d f) wanted)"

fun forbidden_errors :: "pyval \<Rightarrow> string list"
  and forbidden_item_errors :: "pyval list \<Rightarrow> string list"
  and forbidden_pair_errors :: "pydict \<Rightarrow> string list" where
  "forbidden_errors (PDict d) = forbidden_pair_errors d"
| "forbidden_errors (PList xs) = forbidden_item_errors xs"
| "forbidden_errors _ = []"
| "forbidden_item_errors [] = []"
| "forbidden_item_errors (x # xs) = forbidden_errors x @ forbidden_item_errors xs"
| "forbidden_pair_errors [] = []"
| "forbidden_pair_errors ((k, v) # d) =
     (if lower k \<in> set forbidden_fields then [evidence_label @ '' contains forbidden field: '' @ k] else [])
     @ forbidden_errors v @ forbidden_pair_errors d"

definition complain :: "bool \<Rightarrow> string \<Rightarrow> string list" where
  "complain bad message = (if bad then [message] else [])"

definition artifact_errors :: "string \<Rightarrow> string \<times> pyval \<Rightarrow> string list" where
  "artifact_errors label p =
     (if strip (fst p) = [] \<or> \<not> is_dict (snd p) then [label @ '' artifacts must contain named objects'']
      else complain (\<not> evidence_sha256 (dget (the_dict (snd p)) ''sha256''))
             (label @ '' artifacts.'' @ fst p @ ''.sha256 must be a SHA-256 digest''))"

definition identity_fields :: "string list" where
  "identity_fields = [''strategy_profile'', ''mode'', ''source_revision'', ''input_timestamp'', ''artifact_contract'',
     ''artifact_version'', ''artifacts'']"

definition release_identity_errors :: "pyval \<Rightarrow> string list" where
  "release_identity_errors identity =
     (let label = evidence_label @ '' release_identity'' in case identity of
       PDict d \<Rightarrow>
         missing_field_errors d identity_fields label
         @ concat (map (\<lambda>f. complain (\<not> nonblank (dget d f)) (label @ '' '' @ f @ '' must be a non-empty string''))
             [''strategy_profile'', ''mode'', ''artifact_contract'', ''artifact_version''])
         @ complain (\<not> evidence_git_revision (dget d ''source_revision''))
             (label @ '' source_revision must be a 40-character lowercase git SHA'')
         @ complain (\<not> evidence_utc_timestamp (dget d ''input_timestamp'')) (label @ '' input_timestamp must be a UTC timestamp'')
         @ (case dget d ''artifacts'' of
              PDict artifacts \<Rightarrow> if artifacts = [] then [label @ '' artifacts must be a non-empty object'']
                else concat (map (artifact_errors label) artifacts)
            | _ \<Rightarrow> [label @ '' artifacts must be a non-empty object''])
     | _ \<Rightarrow> [label @ '' must be an object''])"

definition reconciliation_errors :: "pyval \<Rightarrow> pyexc + string list" where
  "reconciliation_errors reconciliation =
     (let label = evidence_label @ '' reconciliation'' in case reconciliation of
       PDict d \<Rightarrow>
         (let status = dget d ''status'' in
          if \<not> hashable status then Inl TypeError
          else if status \<notin> {PStr ''MISSING'', PStr ''MATCHED'', PStr ''MISMATCHED''} then
            Inr [label @ '' status must be one of MISSING, MATCHED, MISMATCHED'']
          else if status = PStr ''MATCHED'' then
            Inr (concat (map (\<lambda>f. complain (\<not> evidence_sha256 (dget d f)) (label @ ''.MATCHED requires '' @ f))
                   [''durable_receipt_sha256'', ''identity_sha256''])
                 @ [label @ ''.MATCHED is not valid for static acceptance''])
          else if status = PStr ''MISMATCHED'' then
            Inr (concat (map (\<lambda>f. complain (\<not> evidence_sha256 (dget d f)) (label @ ''.MISMATCHED requires '' @ f))
                   [''durable_receipt_sha256'', ''identity_sha256'', ''observed_identity_sha256''])
                 @ complain (py_eq (dget d ''identity_sha256'') (dget d ''observed_identity_sha256''))
                     (label @ ''.MISMATCHED identity digests must differ''))
          else Inr [])
     | _ \<Rightarrow> Inr [label @ '' must be an object''])"

definition risk_engine_errors :: "pyval \<Rightarrow> string list" where
  "risk_engine_errors v = (case v of
     PDict d \<Rightarrow> complain (dget d ''outcome'' \<noteq> PStr ''APPROVE'') (evidence_label @ '' risk_engine.outcome must be APPROVE'')
       @ complain (\<not> nonblank (dget d ''policy_version'')) (evidence_label @ '' risk_engine.policy_version must be a non-empty string'')
   | _ \<Rightarrow> [evidence_label @ '' risk_engine must be an object''])"

definition unit_interval :: "pyval \<Rightarrow> bool" where
  "unit_interval v = (case v of PInt i \<Rightarrow> i = 1 | PFloat (Fin x) \<Rightarrow> 0 < x \<and> x \<le> 1 | _ \<Rightarrow> False)"

definition exposure_cap_errors :: "pyval \<Rightarrow> string list" where
  "exposure_cap_errors v = (case v of
     PDict d \<Rightarrow> complain (\<not> unit_interval (dget d ''value'')) (evidence_label @ '' effective_exposure_cap.value must be in (0, 1]'')
       @ concat (map (\<lambda>f. complain (\<not> nonblank (dget d f))
             (evidence_label @ '' effective_exposure_cap.'' @ f @ '' must be a non-empty string'')) [''mandate_version'', ''source''])
   | _ \<Rightarrow> [evidence_label @ '' effective_exposure_cap must be an object''])"

definition stop_breaker_errors :: "pyval \<Rightarrow> string list" where
  "stop_breaker_errors v = (let label = evidence_label @ '' stop_breaker_evaluation'' in case v of
     PDict d \<Rightarrow> complain (dget d ''stop_evaluated'' \<noteq> PBool True) (label @ ''.stop_evaluated must be true'')
       @ complain (dget d ''breaker_evaluated'' \<noteq> PBool True) (label @ ''.breaker_evaluated must be true'')
       @ complain (dget d ''outcome'' \<noteq> PStr ''CLEAR'') (label @ ''.outcome must be CLEAR'')
       @ complain (\<not> nonblank (dget d ''policy_version'')) (label @ ''.policy_version must be a non-empty string'')
   | _ \<Rightarrow> [label @ '' must be an object''])"

definition aggregate_fields :: "string list" where
  "aggregate_fields = [''contract_version'', ''release_identity'', ''risk_engine'', ''effective_exposure_cap'',
     ''stop_breaker_evaluation'', ''reconciliation'', ''static_validation_only'', ''execution_permitted'', ''verified_active'',
     ''fills_verified'', ''capital_use_verified'']"

definition flag_fields :: "string list" where
  "flag_fields = [''static_validation_only'', ''execution_permitted'', ''verified_active'', ''fills_verified'', ''capital_use_verified'']"

definition flag_errors :: "pydict \<Rightarrow> string \<Rightarrow> string list" where
  "flag_errors d f =
     (let expected = (f = ''static_validation_only'')
      in complain (dget d f \<noteq> PBool expected)
           (evidence_label @ '' '' @ f @ '' must be '' @ lower (py_str (PBool expected)) @ '' for static acceptance''))"

definition aggregate_errors :: "pydict \<Rightarrow> pyexc + string list" where
  "aggregate_errors d =
     bindE (reconciliation_errors (dget d ''reconciliation'')) (\<lambda>r.
     Inr (forbidden_errors (PDict d)
       @ missing_field_errors d aggregate_fields evidence_label
       @ complain (dget d ''contract_version'' \<noteq> PStr ''qsl.runtime_evidence_aggregate.v1'')
           (evidence_label @ '' contract_version must be qsl.runtime_evidence_aggregate.v1'')
       @ release_identity_errors (dget d ''release_identity'')
       @ risk_engine_errors (dget d ''risk_engine'')
       @ exposure_cap_errors (dget d ''effective_exposure_cap'')
       @ stop_breaker_errors (dget d ''stop_breaker_evaluation'')
       @ r
       @ concat (map (flag_errors d) flag_fields)))"

definition validate_runtime_evidence_aggregate :: "pyval \<Rightarrow> pyexc + bool \<times> string list" where
  "validate_runtime_evidence_aggregate aggregate = (case aggregate of
     PDict d \<Rightarrow> bindE (aggregate_errors d) (\<lambda>errors. Inr (errors = [], errors))
   | _ \<Rightarrow> Inr (False, [evidence_label @ '' must be an object'']))"

definition build_runtime_evidence_aggregate ::
    "pydict \<Rightarrow> pydict \<Rightarrow> pydict \<Rightarrow> pydict \<Rightarrow> pydict \<Rightarrow> pyexc + pydict" where
  "build_runtime_evidence_aggregate release_identity risk_engine cap stop_breaker reconciliation =
     (let aggregate = [
          (''contract_version'', PStr ''qsl.runtime_evidence_aggregate.v1''), (''release_identity'', PDict release_identity),
          (''risk_engine'', PDict risk_engine), (''effective_exposure_cap'', PDict cap),
          (''stop_breaker_evaluation'', PDict stop_breaker), (''reconciliation'', PDict reconciliation),
          (''static_validation_only'', PBool True), (''execution_permitted'', PBool False), (''verified_active'', PBool False),
          (''fills_verified'', PBool False), (''capital_use_verified'', PBool False)]
      in bindE (validate_runtime_evidence_aggregate (PDict aggregate)) (\<lambda>(ok, errors).
         if \<not> ok then Inl (ValueError (''Runtime evidence aggregate validation failed: '' @ join ''; '' errors))
         else Inr aggregate))"

section \<open>Notifications\<close>

definition receipt_keys_copied :: "string list" where
  "receipt_keys_copied = [''sink'', ''delivery_status'', ''transport_acknowledged'', ''error_type'', ''compact_text_sha256'',
     ''compact_text_length'']"

definition notification_event :: "string \<Rightarrow> runtime \<Rightarrow> pydict" where
  "notification_event message r = [(''sink'', PStr ''telegram''), (''compact_text_sha256'', PStr (sha256 message)),
     (''compact_text_length'', PInt (int (length message))), (''run_id'', PStr (rt_run_id r)), (''dry_run'', PBool (rt_dry_run r))]"

definition undelivered :: "string \<Rightarrow> pydict \<Rightarrow> pydict" where
  "undelivered status e = dset ''transport_acknowledged'' (PBool False) (dset ''delivery_status'' (PStr status) e)"

text \<open>The fields a receipt overrides, and whether the transport acknowledged.\<close>

definition merge_receipt :: "pyval \<Rightarrow> bool \<Rightarrow> pydict \<Rightarrow> pydict \<times> bool" where
  "merge_receipt receipt unified e =
     (let copied = (case receipt of
            PDict d \<Rightarrow> foldl (\<lambda>acc k. if dhas d k then dset k (dget d k) acc else acc) e receipt_keys_copied | _ \<Rightarrow> e);
          ack = (case receipt of PDict d \<Rightarrow> dget d ''transport_acknowledged'' = PBool True | _ \<Rightarrow> receipt = PBool True);
          status = dsetdefault ''delivery_status'' (PStr (if ack then ''sent'' else ''failed'')) copied;
          tagged = (case receipt of
            PDict d \<Rightarrow> if unified \<and> truthy (dget d ''transport_receipt_id'')
              then dset ''transport_receipt_id'' (dget d ''transport_receipt_id'') status else status
          | _ \<Rightarrow> status)
      in (dset ''transport_acknowledged'' (PBool ack) tagged, ack))"

definition counts_as_delivery :: "pydict \<Rightarrow> bool" where
  "counts_as_delivery e = (dget e ''delivery_status'' \<notin> {PStr ''suppressed'', PStr ''deferred_digest''})"

definition delivery_summary :: "pydict list \<Rightarrow> pyval" where
  "delivery_summary notifications =
     (let events = filter counts_as_delivery notifications;
          sent = length (filter (\<lambda>e. dget e ''transport_acknowledged'' = PBool True) events)
      in PDict [(''event_count'', PInt (int (length events))), (''sent_count'', PInt (int sent)),
           (''failed_count'', PInt (int (length events) - int sent)), (''all_acknowledged'', PBool (sent = length events))])"

definition add_notification :: "pydict \<Rightarrow> unit run" where
  "add_notification e = upd_rp (\<lambda>p. p\<lparr>rp_notifications := rp_notifications p @ [e]\<rparr>)"

definition env_flag :: "env \<Rightarrow> call \<Rightarrow> bool run" where
  "env_flag env c = bind (invoke env c) (\<lambda>v. ret (truthy v))"

definition legacy_runtime_notify :: "env \<Rightarrow> string \<Rightarrow> bool \<Rightarrow> bool run" where
  "legacy_runtime_notify env message urgent =
     bind (gets rt) (\<lambda>r.
     let e = notification_event message r in
     bind (if urgent then ret False else env_flag env DigestEnabled) (\<lambda>deferred.
     if deferred then bind (add_notification (undelivered ''deferred_digest'' e)) (\<lambda>_. ret False)
     else if rt_dry_run r then
       bind (add_notification (undelivered ''suppressed'' e)) (\<lambda>_.
       bind (record_side_effect ''notify'' ''telegram'' (PDict (undelivered ''suppressed'' e)) False) (\<lambda>_. ret False))
     else if \<not> rt_notifier r then throw (RuntimeErr ''runtime.notifier is not configured'')
     else
       bind (invoke env (Notifier message)) (\<lambda>receipt.
       bind (env_flag env UnifiedEnabled) (\<lambda>unified.
       let (event, ack) = merge_receipt receipt unified e in
       bind (add_notification event) (\<lambda>_.
       bind (upd_rp (\<lambda>p. p\<lparr>rp_summary := dset ''notification_delivery_summary'' (delivery_summary (rp_notifications p)) (rp_summary p)\<rparr>)) (\<lambda>_.
       bind (record_side_effect ''notify'' ''telegram'' (PDict event) ack) (\<lambda>_.
       ret ack)))))))"

definition finalize_notification_delivery :: "report \<Rightarrow> report" where
  "finalize_notification_delivery p = (case dget (rp_summary p) ''notification_delivery_summary'' of
     PDict s \<Rightarrow>
       if dget s ''all_acknowledged'' \<noteq> PBool False then p
       else
         (let errors = (if \<not> list_ex (\<lambda>e. dget e ''stage'' = PStr ''notification_delivery'') (rp_errors p)
               then rp_errors p @ [[(''stage'', PStr ''notification_delivery''),
                 (''message'', PStr ''Telegram delivery was not acknowledged.'')]]
               else rp_errors p)
          in p\<lparr>rp_errors := errors, rp_status := if rp_status p = PStr ''ok'' then PStr ''error'' else rp_status p\<rparr>)
   | _ \<Rightarrow> p)"

section \<open>Lemmas\<close>

lemma complain_Nil [simp]: "complain b m = [] \<longleftrightarrow> \<not> b"
  by (simp add: complain_def)

text \<open>The keys of every dictionary inside a value.\<close>

fun deep_keys :: "pyval \<Rightarrow> string list"
  and deep_item_keys :: "pyval list \<Rightarrow> string list"
  and deep_pair_keys :: "pydict \<Rightarrow> string list" where
  "deep_keys (PDict d) = deep_pair_keys d"
| "deep_keys (PList xs) = deep_item_keys xs"
| "deep_keys _ = []"
| "deep_item_keys [] = []"
| "deep_item_keys (x # xs) = deep_keys x @ deep_item_keys xs"
| "deep_pair_keys [] = []"
| "deep_pair_keys ((k, v) # d) = k # deep_keys v @ deep_pair_keys d"

lemma forbidden_errors_iff:
  "forbidden_errors v = [] \<longleftrightarrow> (\<forall>k \<in> set (deep_keys v). lower k \<notin> set forbidden_fields)"
  "forbidden_item_errors xs = [] \<longleftrightarrow> (\<forall>k \<in> set (deep_item_keys xs). lower k \<notin> set forbidden_fields)"
  "forbidden_pair_errors d = [] \<longleftrightarrow> (\<forall>k \<in> set (deep_pair_keys d). lower k \<notin> set forbidden_fields)"
  by (induction v and xs and d rule: forbidden_errors_forbidden_item_errors_forbidden_pair_errors.induct) auto

section \<open>Properties\<close>

text \<open>
  C10: static evidence claims nothing. An accepted aggregate contains none of the forbidden fields
  at any depth, in any letter case, its five flags say static-only and nothing executed or
  verified, its risk outcome is APPROVE with a cap in (0, 1], and it is never a MATCHED
  reconciliation.
\<close>

theorem accepted_evidence_is_static:
  assumes "validate_runtime_evidence_aggregate (PDict d) = Inr (True, errors)"
  shows "(\<forall>k \<in> set (deep_keys (PDict d)). lower k \<notin> set forbidden_fields)
    \<and> dget d ''static_validation_only'' = PBool True
    \<and> (\<forall>f \<in> {''execution_permitted'', ''verified_active'', ''fills_verified'', ''capital_use_verified''}. dget d f = PBool False)
    \<and> dget (the_dict (dget d ''risk_engine'')) ''outcome'' = PStr ''APPROVE''
    \<and> unit_interval (dget (the_dict (dget d ''effective_exposure_cap'')) ''value'')
    \<and> dget (the_dict (dget d ''reconciliation'')) ''status'' \<noteq> PStr ''MATCHED''"
proof -
  have e: "aggregate_errors d = Inr []"
    using assms by (auto simp: validate_runtime_evidence_aggregate_def result_simps)
  then have plain: "forbidden_errors (PDict d) = []" and flags: "\<forall>f \<in> set flag_fields. flag_errors d f = []"
    and risk: "risk_engine_errors (dget d ''risk_engine'') = []"
    and cap: "exposure_cap_errors (dget d ''effective_exposure_cap'') = []"
    and rec: "reconciliation_errors (dget d ''reconciliation'') = Inr []"
    by (auto simp: aggregate_errors_def result_simps)
  have flag: "dget d f = PBool (f = ''static_validation_only'')" if "f \<in> set flag_fields" for f
    using flags that by (auto simp: flag_errors_def Let_def)
  have "dget d ''static_validation_only'' = PBool True"
    "\<forall>f \<in> {''execution_permitted'', ''verified_active'', ''fills_verified'', ''capital_use_verified''}. dget d f = PBool False"
    by (simp_all add: flag flag_fields_def)
  moreover have "dget (the_dict (dget d ''risk_engine'')) ''outcome'' = PStr ''APPROVE''"
    using risk by (auto simp: risk_engine_errors_def split: pyval.splits)
  moreover have "unit_interval (dget (the_dict (dget d ''effective_exposure_cap'')) ''value'')"
    using cap by (auto simp: exposure_cap_errors_def split: pyval.splits)
  moreover have "dget (the_dict (dget d ''reconciliation'')) ''status'' \<noteq> PStr ''MATCHED''"
    using rec by (cases "dget d ''reconciliation''") (auto simp: reconciliation_errors_def Let_def)
  moreover have "\<forall>k \<in> set (deep_keys (PDict d)). lower k \<notin> set forbidden_fields"
    using plain forbidden_errors_iff(1) by blast
  ultimately show ?thesis by blast
qed

text \<open>
  Every notification is accounted. A notification that returns adds exactly one event; it
  reports True exactly when that event carries the transport's acknowledgement, and in a dry run
  nothing is sent.
\<close>

theorem notification_accounted:
  assumes "legacy_runtime_notify env message urgent w = (Inr ack, w')"
  shows "\<exists>e. rp_notifications (rp w') = rp_notifications (rp w) @ [e]
    \<and> dget e ''transport_acknowledged'' = PBool ack
    \<and> (rt_dry_run (rt w) \<longrightarrow> \<not> ack \<and> (\<forall>evs t r. trace w' = trace w @ evs \<longrightarrow> (Notifier t, r) \<notin> set evs))"
proof -
  have merge: "dget (fst (merge_receipt receipt unified e)) ''transport_acknowledged'' = PBool (snd (merge_receipt receipt unified e))"
    for receipt unified e
    by (simp add: merge_receipt_def Let_def)
  have "wp (legacy_runtime_notify env message urgent)
      (\<lambda>ack u. (\<exists>e. rp_notifications (rp u) = rp_notifications (rp w) @ [e] \<and> dget e ''transport_acknowledged'' = PBool ack)
        \<and> (rt_dry_run (rt w) \<longrightarrow> \<not> ack \<and> (\<exists>evs. trace u = trace w @ evs \<and> (\<forall>t r. (Notifier t, r) \<notin> set evs))))
      (\<lambda>_ _. True) w"
    using merge
    by (simp add: legacy_runtime_notify_def env_flag_def add_notification_def record_side_effect_def eff_simps Let_def
        undelivered_def case_prod_beta split: sum.split)
  then show ?thesis using assms by (auto simp: wp_def)
qed

definition sample_evidence :: pydict where
  "sample_evidence = [
     (''contract_version'', PStr ''qsl.runtime_evidence_aggregate.v1''),
     (''release_identity'', PDict [(''strategy_profile'', PStr ''p''), (''mode'', PStr ''m''),
        (''source_revision'', PStr (replicate 40 (CHR ''a''))), (''input_timestamp'', PStr ''2026-01-01T00:00:00Z''),
        (''artifact_contract'', PStr ''c''), (''artifact_version'', PStr ''v''),
        (''artifacts'', PDict [(''pool'', PDict [(''sha256'', PStr (replicate 64 (CHR ''b'')))])])]),
     (''risk_engine'', PDict [(''outcome'', PStr ''APPROVE''), (''policy_version'', PStr ''1'')]),
     (''effective_exposure_cap'', PDict [(''value'', PFloat (Fin (1 / 2))), (''mandate_version'', PStr ''1''), (''source'', PStr ''s'')]),
     (''stop_breaker_evaluation'', PDict [(''stop_evaluated'', PBool True), (''breaker_evaluated'', PBool True),
        (''outcome'', PStr ''CLEAR''), (''policy_version'', PStr ''1'')]),
     (''reconciliation'', PDict [(''status'', PStr ''MISSING'')]),
     (''static_validation_only'', PBool True), (''execution_permitted'', PBool False), (''verified_active'', PBool False),
     (''fills_verified'', PBool False), (''capital_use_verified'', PBool False)]"

lemma accepted_evidence_is_static_witness:
  "dget (the_dict (dget sample_evidence ''risk_engine'')) ''outcome'' = PStr ''APPROVE''"
proof -
  have "validate_runtime_evidence_aggregate (PDict sample_evidence) = Inr (True, [])"
    by code_simp
  then show ?thesis by (rule accepted_evidence_is_static [THEN conjunct2, THEN conjunct2, THEN conjunct2, THEN conjunct1])
qed

lemma notification_accounted_witness:
  "\<exists>e. rp_notifications (rp (snd (legacy_runtime_notify filling_env ''hello'' True (sample_world [])))) = [e]
     \<and> dget e ''transport_acknowledged'' = PBool False"
proof -
  have "fst (legacy_runtime_notify filling_env ''hello'' True (sample_world [])) = Inr False"
  proof -
    have "wp (legacy_runtime_notify filling_env ''hello'' True) (\<lambda>ack _. \<not> ack) (\<lambda>_ _. False) (sample_world [])"
      by (simp add: legacy_runtime_notify_def env_flag_def add_notification_def record_side_effect_def eff_simps Let_def
          sample_world_def sample_runtime_def filling_env_def merge_receipt_def)
    then show ?thesis by (auto simp: wp_def split: prod.splits sum.splits)
  qed
  then have "legacy_runtime_notify filling_env ''hello'' True (sample_world [])
      = (Inr False, snd (legacy_runtime_notify filling_env ''hello'' True (sample_world [])))"
    by (metis prod.collapse)
  from notification_accounted [OF this] show ?thesis by (auto simp: sample_world_def sample_report_def)
qed

end
