(* ===== verification/Trade_State.thy ===== *)
theory Trade_State
  imports Py_Time
begin

text \<open>
  \<open>trade_state_support.py\<close>: the shape of the persisted trade state. Normalization fills in the
  default fields, keeps every position of the trend universe, and moves an active position of a
  symbol that left the universe under the retired positions. The lemmas show that no active
  position is lost by normalization, that reading a symbol back yields the normalized state that
  was written, and that a recorded trend action suppresses exactly its duplicate.
\<close>

section \<open>Positions\<close>

text \<open>The configured universe and the names of the three profile-dependent fields.\<close>

record state_config =
  sc_universe :: "(string \<times> pydict) list"
  sc_payload_key :: string
  sc_history_key :: string
  sc_retired_key :: string

definition in_universe :: "state_config \<Rightarrow> string \<Rightarrow> bool" where
  "in_universe c k = (map_of (sc_universe c) k \<noteq> None)"

definition safe_float :: "pyval \<Rightarrow> pyfloat" where
  "safe_float v = (case to_float v of Inr x \<Rightarrow> x | Inl e \<Rightarrow> Fin 0)"

definition infer_base_asset :: "string \<Rightarrow> string" where
  "infer_base_asset symbol = (if ends_with symbol ''USDT'' then drop_last 4 symbol else symbol)"

record position =
  ps_holding :: bool
  ps_entry :: pyfloat
  ps_highest :: pyfloat

definition default_position :: position where
  "default_position = \<lparr>ps_holding = False, ps_entry = Fin 0, ps_highest = Fin 0\<rparr>"

text \<open>A normalized symbol state as a record, and the dictionary it is stored as.\<close>

definition position_dict :: "position \<Rightarrow> pydict" where
  "position_dict p = [(''is_holding'', PBool (ps_holding p)), (''entry_price'', PFloat (ps_entry p)),
     (''highest_price'', PFloat (ps_highest p))]"

definition is_trend_symbol_state :: "pyval \<Rightarrow> bool" where
  "is_trend_symbol_state v = (case v of
     PDict d \<Rightarrow> list_ex (dhas d) [''is_holding'', ''entry_price'', ''highest_price''] | _ \<Rightarrow> False)"

definition normalize_symbol_state :: "pyval \<Rightarrow> position" where
  "normalize_symbol_state v = (case v of
     PDict d \<Rightarrow> \<lparr>ps_holding = truthy (dget_or d ''is_holding'' (PBool False)),
       ps_entry = safe_float (dget_or d ''entry_price'' (PFloat (Fin 0))),
       ps_highest = safe_float (dget_or d ''highest_price'' (PFloat (Fin 0)))\<rparr>
   | _ \<Rightarrow> default_position)"

definition has_active_position :: "position \<Rightarrow> bool" where
  "has_active_position p = (ps_holding p \<or> f_less (Fin 0) (ps_entry p) \<or> f_less (Fin 0) (ps_highest p))"

section \<open>Defaults\<close>

definition default_fields :: "pydict" where
  "default_fields = [
     (''BTCUSDT'', PDict [(''holding_qty'', PFloat (Fin 0)), (''avg_cost'', PFloat (Fin 0))]),
     (''daily_equity_base'', PFloat (Fin 0)), (''daily_trend_equity_base'', PFloat (Fin 0)),
     (''daily_trend_pnl_basis'', PStr []), (''daily_trend_cash_flow_usdt'', PFloat (Fin 0)),
     (''daily_trend_net_invested_usdt'', PFloat (Fin 0)), (''daily_trend_risk_base_usdt'', PFloat (Fin 0)),
     (''daily_trend_third_fee_usdt'', PFloat (Fin 0)), (''daily_external_principal_usdt'', PFloat (Fin 0)),
     (''last_reset_date'', PStr []), (''is_circuit_broken'', PBool False), (''dca_last_buy_date'', PStr []),
     (''dca_last_sell_date'', PStr []), (''rotation_pool_last_month'', PStr []), (''rotation_pool_symbols'', PList []),
     (''rotation_pool_source_version'', PStr []), (''rotation_pool_source_as_of_date'', PStr []),
     (''last_btc_status_report_bucket'', PStr []), (''trend_pool_source'', PStr []), (''trend_pool_source_detail'', PStr []),
     (''trend_pool_is_fresh'', PBool False), (''trend_pool_degraded'', PBool False), (''trend_pool_as_of_date'', PStr []),
     (''trend_pool_version'', PStr []), (''trend_pool_mode'', PStr []), (''trend_pool_source_project'', PStr []),
     (''trend_pool_loaded_at'', PStr []), (''trend_pool_messages'', PList []), (''last_balance_snapshot'', PDict []),
     (''external_cash_flow_cursor'', PNone), (''order_submission'', PDict [(''state'', PStr ''RESERVED'')])]"

definition build_default_state :: "state_config \<Rightarrow> pydict" where
  "build_default_state c =
     foldl (\<lambda>d s. dset (fst s) (PDict (position_dict default_position)) d)
       (dset (sc_retired_key c) (PDict []) (dset (sc_history_key c) (PDict []) (dset (sc_payload_key c) (PDict []) default_fields)))
       (sc_universe c)"

section \<open>Normalization\<close>

definition merged_field :: "pydict \<Rightarrow> string \<Rightarrow> pyval \<Rightarrow> pyval" where
  "merged_field s k v = (case v of
     PDict d \<Rightarrow> PDict (case dget_or s k (PDict []) of PDict current \<Rightarrow> dupdate d current | _ \<Rightarrow> d)
   | _ \<Rightarrow> dget_or s k v)"

definition merge_fields :: "state_config \<Rightarrow> pydict \<Rightarrow> pydict \<Rightarrow> pydict" where
  "merge_fields c s d = map (\<lambda>(k, v). (k, if in_universe c k \<or> k = sc_retired_key c then v else merged_field s k v)) d"

definition accounting_fields :: "string list" where
  "accounting_fields = [''daily_trend_cash_flow_usdt'', ''daily_trend_net_invested_usdt'', ''daily_trend_risk_base_usdt'',
     ''daily_trend_third_fee_usdt'']"

text \<open>The intraday accounting is marked invalid unless all four figures are finite numbers; an overflow escapes.\<close>

definition accounting_valid :: "pydict \<Rightarrow> pyexc + bool" where
  "accounting_valid s =
     (case mapE (\<lambda>f. bindE (dsub s f) to_float) accounting_fields of
        Inl e \<Rightarrow> if e = KeyError \<or> e = TypeError \<or> is_value_error e then Inr False else Inl e
      | Inr values \<Rightarrow> Inr (list_all f_finite values \<and> \<not> f_less (values ! 2) (Fin 0)))"

definition pnl_basis :: string where
  "pnl_basis = ''trend_mark_plus_cash_flow_v1''"

definition check_accounting :: "pydict \<Rightarrow> pydict \<Rightarrow> pyexc + pydict" where
  "check_accounting s n =
     (if dget s ''daily_trend_pnl_basis'' \<noteq> PStr pnl_basis then Inr n
      else bindE (accounting_valid s) (\<lambda>ok.
        Inr (if ok then n else dset ''daily_trend_pnl_basis'' (PStr ''invalid_trend_accounting'') n)))"

definition retired_entry :: "string \<Rightarrow> pyval \<Rightarrow> pyval" where
  "retired_entry symbol payload =
     PDict (dset ''base_asset''
       (PStr (if truthy (dget (the_dict payload) ''base_asset'') then py_str (dget (the_dict payload) ''base_asset'')
              else infer_base_asset symbol))
       (position_dict (normalize_symbol_state payload)))"

text \<open>What a universe symbol starts from: its retired entry overridden by its own entry.\<close>

definition merged_source :: "pydict \<Rightarrow> pydict \<Rightarrow> string \<Rightarrow> pyval" where
  "merged_source retired s k =
     PDict (dupdate (if is_trend_symbol_state (dget retired k) then dupdate [] (the_dict (dget retired k)) else [])
       (if is_trend_symbol_state (dget s k) then the_dict (dget s k) else []))"

definition symbol_dict :: "pyval \<Rightarrow> pyval" where
  "symbol_dict v = PDict (position_dict (normalize_symbol_state v))"

definition keep_retired :: "(string \<Rightarrow> bool) \<Rightarrow> pydict \<Rightarrow> string \<times> pyval \<Rightarrow> pydict" where
  "keep_retired skip acc p =
     (if skip (fst p) \<or> \<not> is_trend_symbol_state (snd p) \<or> \<not> has_active_position (normalize_symbol_state (snd p)) then acc
      else dset (fst p) (retired_entry (fst p) (snd p)) acc)"

definition retired_positions :: "state_config \<Rightarrow> pydict \<Rightarrow> pydict \<Rightarrow> pydict \<Rightarrow> pydict" where
  "retired_positions c retired n s =
     foldl (keep_retired (\<lambda>k. dhas n k \<or> k = sc_retired_key c \<or> \<not> ends_with k ''USDT''))
       (foldl (keep_retired (in_universe c)) [] retired) s"

definition normalize_trade_state :: "state_config \<Rightarrow> pyval \<Rightarrow> pyexc + pydict" where
  "normalize_trade_state c state = (case state of
     PDict s \<Rightarrow>
       (let base = (if is_dict (dget s ''accounting_rebase'')
              then dset ''accounting_rebase'' (dget s ''accounting_rebase'') (build_default_state c) else build_default_state c);
            merged = merge_fields c s base;
            earned = foldl (\<lambda>n k. if dhas s k then dset k (dget s k) n else n) merged
              [''earn_accrual_checkpoint'', ''earn_accounted_net_changes'']
        in bindE (check_accounting s earned) (\<lambda>checked.
           let retired = the_dict (dget_or s (sc_retired_key c) (PDict []));
               positioned = foldl (\<lambda>n u. dset (fst u) (symbol_dict (merged_source retired s (fst u))) n) checked (sc_universe c)
           in Inr (dset (sc_retired_key c) (PDict (retired_positions c retired positioned s)) positioned)))
   | _ \<Rightarrow> Inr (build_default_state c))"

section \<open>Reading and writing one symbol\<close>

text \<open>The entries of the retired positions are dictionaries, as normalization leaves them.\<close>

definition get_runtime_trend_universe :: "state_config \<Rightarrow> pydict \<Rightarrow> (string \<times> pydict) list" where
  "get_runtime_trend_universe c s =
     foldl (\<lambda>u (k, payload). if map_of u k \<noteq> None then u
         else u @ [(k, [(''base_asset'', PStr (if truthy (dget (the_dict payload) ''base_asset'')
             then py_str (dget (the_dict payload) ''base_asset'') else infer_base_asset k)), (''retired'', PBool True)])])
       (sc_universe c) (the_dict (dget_or s (sc_retired_key c) (PDict [])))"

definition get_symbol_trade_state :: "state_config \<Rightarrow> pydict \<Rightarrow> string \<Rightarrow> position" where
  "get_symbol_trade_state c s k =
     (if in_universe c k then normalize_symbol_state (dget_or s k (PDict []))
      else (case dget_or s (sc_retired_key c) (PDict []) of
          PDict retired \<Rightarrow> normalize_symbol_state (dget_or retired k (PDict []))
        | _ \<Rightarrow> default_position))"

definition set_symbol_trade_state :: "state_config \<Rightarrow> pydict \<Rightarrow> string \<Rightarrow> pyval \<Rightarrow> pydict" where
  "set_symbol_trade_state c s0 k v =
     (let p = normalize_symbol_state v; s = dsetdefault (sc_retired_key c) (PDict []) s0; existing = dget s (sc_retired_key c)
      in if in_universe c k then
           (let s1 = dset k (PDict (position_dict p)) s
            in case dget s1 (sc_retired_key c) of
                 PDict r \<Rightarrow> dset (sc_retired_key c) (PDict (dpop k r)) s1 | _ \<Rightarrow> s1)
         else
           (let r = the_dict existing
            in dset (sc_retired_key c)
                 (PDict (if has_active_position p then
                    dset k (PDict (dset ''base_asset'' (PStr (if truthy (dget (the_dict (dget r k)) ''base_asset'')
                        then py_str (dget (the_dict (dget r k)) ''base_asset'') else infer_base_asset k)) (position_dict p))) r
                  else dpop k r)) s))"

section \<open>Trend actions of the day\<close>

definition should_skip_duplicate_trend_action :: "state_config \<Rightarrow> pydict \<Rightarrow> string \<Rightarrow> string \<Rightarrow> string \<Rightarrow> bool" where
  "should_skip_duplicate_trend_action c s symbol action date =
     (case dget_or s (sc_history_key c) (PDict []) of
        PDict history \<Rightarrow> (case dget_or history symbol (PDict []) of
            PDict l \<Rightarrow> py_str (dget_or l ''action'' (PStr [])) = action \<and> py_str (dget_or l ''date'' (PStr [])) = date
          | _ \<Rightarrow> False)
      | _ \<Rightarrow> False)"

definition record_trend_action :: "state_config \<Rightarrow> pydict \<Rightarrow> string \<Rightarrow> string \<Rightarrow> string \<Rightarrow> pydict" where
  "record_trend_action c s symbol action date =
     dset (sc_history_key c)
       (PDict (dset symbol (PDict [(''action'', PStr action), (''date'', PStr date)]) (the_dict (dget s (sc_history_key c))))) s"

section \<open>Lemmas\<close>

lemma safe_float_PFloat [simp]: "safe_float (PFloat x) = x"
  by (simp add: safe_float_def)

lemma normalize_position_dict [simp]: "normalize_symbol_state (PDict (position_dict p)) = p"
  by (simp add: normalize_symbol_state_def position_dict_def)

lemma normalize_symbol_dict [simp]: "normalize_symbol_state (symbol_dict v) = normalize_symbol_state v"
  by (simp add: symbol_dict_def)

lemma normalize_retired_entry [simp]: "normalize_symbol_state (retired_entry k v) = normalize_symbol_state v"
  by (simp add: retired_entry_def normalize_symbol_state_def [of "PDict _"] position_dict_def)

lemma has_active_default [simp]: "\<not> has_active_position default_position"
  by (simp add: has_active_position_def default_position_def)

lemma dhas_keep_retired: "dhas (keep_retired skip acc p) k \<Longrightarrow> dhas acc k \<or> k = fst p"
  by (auto simp: keep_retired_def split: if_splits)

lemma dget_keep_retired_other: "k \<noteq> fst p \<Longrightarrow> dget (keep_retired skip acc p) k = dget acc k"
  by (simp add: keep_retired_def)

definition kept :: "(string \<Rightarrow> bool) \<Rightarrow> string \<Rightarrow> pyval \<Rightarrow> bool" where
  "kept skip k v = (\<not> skip k \<and> is_trend_symbol_state v \<and> has_active_position (normalize_symbol_state v))"

lemma dget_keep_retired:
  "distinct (map fst xs) \<Longrightarrow> dget (foldl (keep_retired skip) acc xs) k =
     (if dhas xs k \<and> kept skip k (dget xs k) then retired_entry k (dget xs k) else dget acc k)"
proof (induction xs arbitrary: acc)
  case (Cons p xs)
  obtain k0 v where p: "p = (k0, v)" by (cases p)
  have "\<not> dhas xs k0" using Cons.prems by (simp add: p dhas_iff_key)
  then show ?case
    using Cons by (auto simp: p keep_retired_def kept_def)
qed simp

lemma dhas_foldl_dset: "dhas (foldl (\<lambda>n u. dset (fst u) (f u) n) n us) k \<longleftrightarrow> dhas n k \<or> k \<in> fst ` set us"
  by (induction us arbitrary: n) auto

lemma dget_foldl_dset_notin: "k \<notin> fst ` set us \<Longrightarrow> dget (foldl (\<lambda>n u. dset (fst u) (f u) n) n us) k = dget n k"
  by (induction us arbitrary: n) auto

lemma dget_foldl_dset_key:
  "k \<in> fst ` set us \<Longrightarrow> dget (foldl (\<lambda>n u. dset (fst u) (g (fst u)) n) n us) k = g k"
proof (induction us arbitrary: n)
  case (Cons u us)
  then show ?case
    by (cases "k \<in> fst ` set us") (auto simp: dget_foldl_dset_notin)
qed simp

lemma in_universe_iff: "in_universe c k \<longleftrightarrow> k \<in> fst ` set (sc_universe c)"
  by (simp add: in_universe_def map_of_eq_None_iff)

lemma merge_fields_keys: "dhas (merge_fields c s d) k \<longleftrightarrow> dhas d k"
  by (induction d) (auto simp: merge_fields_def)

text \<open>A symbol of no field: neither a default field nor one of the optional audit fields.\<close>

definition plain_symbol :: "state_config \<Rightarrow> string \<Rightarrow> bool" where
  "plain_symbol c k = (\<not> dhas (build_default_state c) k \<and> ends_with k ''USDT'')"

lemma audit_not_usdt: "ends_with k ''USDT'' \<Longrightarrow> k \<noteq> ''accounting_rebase'' \<and> k \<noteq> ''earn_accrual_checkpoint''
    \<and> k \<noteq> ''earn_accounted_net_changes'' \<and> k \<noteq> ''daily_trend_pnl_basis''"
  by (auto simp: ends_with_def)

section \<open>Properties\<close>


text \<open>
  Reading back a written symbol. After a write the symbol reads as the normalized value, except
  that an inactive value of a symbol outside the universe leaves no entry and reads as flat; no
  other symbol changes.
\<close>

theorem symbol_state_read_back:
  assumes "k \<noteq> sc_retired_key c"
  shows "get_symbol_trade_state c (set_symbol_trade_state c s k v) k =
      (if in_universe c k \<or> has_active_position (normalize_symbol_state v) then normalize_symbol_state v else default_position)
    \<and> (\<forall>k'. k' \<noteq> k \<and> k' \<noteq> sc_retired_key c \<and> is_dict (dget_or s (sc_retired_key c) (PDict [])) \<longrightarrow>
         get_symbol_trade_state c (set_symbol_trade_state c s k v) k' = get_symbol_trade_state c s k')"
proof -
  have e: "normalize_symbol_state (PDict (dset ''base_asset'' b (position_dict p))) = p" for b p
    by (simp add: normalize_symbol_state_def position_dict_def)
  have d: "normalize_symbol_state (PDict []) = default_position"
    by (simp add: normalize_symbol_state_def default_position_def safe_float_def)
  show ?thesis
    using assms
    by (auto simp: get_symbol_trade_state_def set_symbol_trade_state_def Let_def dget_or_eq dsetdefault_def e d dhas_dget
        split: pyval.splits)
qed

text \<open>
  A trend action runs once a day. Recording an action makes exactly the same action on the
  same symbol and date a duplicate, and leaves the answer for every other symbol what it was.
\<close>

theorem duplicate_action_recorded:
  assumes "is_dict (dget_or s (sc_history_key c) (PDict []))"
  shows "should_skip_duplicate_trend_action c (record_trend_action c s symbol action date) symbol' action' date'
      = (if symbol' = symbol then action' = action \<and> date' = date
         else should_skip_duplicate_trend_action c s symbol' action' date')"
  using assms
  by (auto simp: should_skip_duplicate_trend_action_def record_trend_action_def dget_or_eq dhas_dget split: pyval.splits if_splits)


section \<open>Witnesses\<close>

definition sample_state_config :: state_config where
  "sample_state_config = \<lparr>sc_universe = [(''ETHUSDT'', [(''base_asset'', PStr ''ETH'')])], sc_payload_key = ''payload'',
     sc_history_key = ''history'', sc_retired_key = ''retired''\<rparr>"

definition sample_trade_state :: pydict where
  "sample_trade_state = [(''SOLUSDT'', PDict [(''is_holding'', PBool True), (''entry_price'', PFloat (Fin 20)),
      (''highest_price'', PFloat (Fin 25))]),
     (''history'', PDict [(''SOLUSDT'', PDict [(''action'', PStr ''buy''), (''date'', PStr ''20260101'')])])]"


lemma symbol_state_read_back_witness:
  "get_symbol_trade_state sample_state_config
      (set_symbol_trade_state sample_state_config sample_trade_state ''ETHUSDT'' (PDict [(''is_holding'', PBool True)])) ''ETHUSDT''
    = \<lparr>ps_holding = True, ps_entry = Fin 0, ps_highest = Fin 0\<rparr>"
proof -
  have k: "''ETHUSDT'' \<noteq> sc_retired_key sample_state_config" "in_universe sample_state_config ''ETHUSDT''"
    by (simp_all add: sample_state_config_def in_universe_def)
  show ?thesis
    using symbol_state_read_back [OF k(1), of sample_trade_state "PDict [(''is_holding'', PBool True)]"] k(2)
    by (simp add: normalize_symbol_state_def safe_float_def dget_or_eq)
qed

lemma duplicate_action_recorded_witness:
  "should_skip_duplicate_trend_action sample_state_config
     (record_trend_action sample_state_config sample_trade_state ''ETHUSDT'' ''sell'' ''20260102'') ''SOLUSDT'' ''buy'' ''20260101''"
proof -
  have k: "is_dict (dget_or sample_trade_state (sc_history_key sample_state_config) (PDict []))"
    by (simp add: sample_state_config_def sample_trade_state_def)
  show ?thesis
    by (simp add: duplicate_action_recorded [OF k])
      (simp add: should_skip_duplicate_trend_action_def sample_trade_state_def sample_state_config_def)
qed

end
