(* ===== verification/Portfolio_Daily.thy ===== *)
theory Portfolio_Daily
  imports Cash_Effects
begin

text \<open>
  \<open>application/portfolio_service.py\<close>: the portfolio figures of a cycle, the daily reset of the
  accounting bases, the daily profit figures the circuit breaker reads, and the reconciliation of
  an unexplained balance change. Balances and prices hold floats, as the market snapshot builds
  them. Budgets (\<open>compute_allocation_budgets_fn\<close>) and the external cash flow collector are
  injected functions and stay parameters.
\<close>

section \<open>Portfolio figures\<close>

definition number_at :: "pydict \<Rightarrow> string \<Rightarrow> pyexc + pyfloat" where
  "number_at d k = bindE (dsub d k) to_float"

definition product_at :: "pydict \<Rightarrow> pydict \<Rightarrow> string \<Rightarrow> pyexc + pyfloat" where
  "product_at balances prices k =
     bindE (number_at balances k) (\<lambda>b. bindE (number_at prices k) (\<lambda>p. Inr (f_mul b p)))"

definition compute_portfolio_allocation ::
    "(string \<times> pydict) list \<Rightarrow> pydict \<Rightarrow> pydict \<Rightarrow> pyfloat \<Rightarrow> pyfloat
      \<Rightarrow> (pyfloat \<Rightarrow> pyfloat \<Rightarrow> pyfloat \<Rightarrow> pyfloat \<Rightarrow> pyexc + pydict) \<Rightarrow> pyexc + pydict" where
  "compute_portfolio_allocation universe balances prices u_total fuel_val budgets =
     bindE (mapE (product_at balances prices) (map fst universe)) (\<lambda>vals.
     bindE (product_at balances prices ''BTCUSDT'') (\<lambda>dca_val.
     let trend_val = f_sum vals; equity = f_add (f_add (f_add u_total fuel_val) trend_val) dca_val in
     bindE (budgets equity u_total trend_val dca_val) (\<lambda>allocation.
     Inr (dupdate allocation [(''trend_val'', PFloat trend_val), (''dca_val'', PFloat dca_val), (''total_equity'', PFloat equity)]))))"

definition rounded :: "pyexc + pyfloat \<Rightarrow> pyexc + pyval" where
  "rounded x = bindE x (\<lambda>f. Inr (PFloat (f_round 8 f)))"

definition snapshot_entry :: "pydict \<Rightarrow> pydict \<Rightarrow> string \<times> pydict \<Rightarrow> pyexc + pydict" where
  "snapshot_entry balances acc entry =
     bindE (dsub (snd entry) ''base_asset'') (\<lambda>b.
     bindE (rounded (to_float (dget_or balances (fst entry) (PFloat (Fin 0))))) (\<lambda>q. Inr (dset (py_str b) q acc)))"

definition build_balance_snapshot :: "(string \<times> pydict) list \<Rightarrow> pydict \<Rightarrow> pyfloat \<Rightarrow> pyexc + pydict" where
  "build_balance_snapshot universe balances u_total =
     bindE (rounded (Inr u_total)) (\<lambda>u.
     bindE (rounded (to_float (dget_or balances ''BTCUSDT'' (PFloat (Fin 0))))) (\<lambda>btc.
     bindE (foldE (snapshot_entry balances) [(''USDT'', u), (''BTC'', btc)] universe) (\<lambda>snapshot.
     if dhas balances ''BNBUSDT'' then bindE (rounded (number_at balances ''BNBUSDT'')) (\<lambda>q. Inr (dset ''BNB'' q snapshot))
     else Inr snapshot)))"

section \<open>The daily reset\<close>

definition trend_pnl_basis :: string where
  "trend_pnl_basis = ''trend_mark_plus_cash_flow_v1''"

definition unverifiable_accounting :: pyexc where
  "unverifiable_accounting = ExecutionIntegrity ''daily_trend_accounting_unverifiable''"

text \<open>\<open>except (KeyError, TypeError, ValueError)\<close>: the guard an overflow escapes.\<close>

definition accounting_guard :: "pyexc \<Rightarrow> pyexc" where
  "accounting_guard e = (if e = KeyError \<or> e = TypeError \<or> is_value_error e then unverifiable_accounting else e)"

definition guarded :: "(pyexc \<Rightarrow> pyexc) \<Rightarrow> pyexc + 'a \<Rightarrow> pyexc + 'a" where
  "guarded g m = catchE m (\<lambda>e. Inl (g e))"

definition daily_fields :: "string list" where
  "daily_fields = [''daily_trend_cash_flow_usdt'', ''daily_trend_net_invested_usdt'', ''daily_trend_risk_base_usdt'',
     ''daily_trend_third_fee_usdt'']"

text \<open>\<open>float(state.get(k, d) or 0.0)\<close>.\<close>

definition float_or_zero :: "pyval \<Rightarrow> pyexc + pyfloat" where
  "float_or_zero v = (if truthy v then to_float v else Inr (Fin 0))"

definition verify_daily_accounting :: "pydict \<Rightarrow> pyfloat \<Rightarrow> pyexc + unit" where
  "verify_daily_accounting s trend_val =
     bindE (guarded accounting_guard (mapE (number_at s) daily_fields)) (\<lambda>vals.
     let risk = vals ! 2 in
     bindE (ensure (list_all f_finite vals \<and> \<not> f_less risk (Fin 0)) unverifiable_accounting) (\<lambda>_.
     bindE (guarded accounting_guard (float_or_zero (dget_or s ''daily_trend_equity_base'' (PFloat (Fin 0))))) (\<lambda>base.
     let activity = [trend_val, base, vals ! 0, vals ! 1, vals ! 3] in
     ensure (list_all f_finite activity \<and> \<not> (f_le risk (Fin 0) \<and> list_ex (\<lambda>x. \<not> f_eq x (Fin 0)) activity))
       unverifiable_accounting)))"

definition reset_fields :: "string \<Rightarrow> pyfloat \<Rightarrow> pyfloat \<Rightarrow> pydict" where
  "reset_fields today total_equity trend_val =
     [(''daily_equity_base'', PFloat total_equity), (''daily_trend_equity_base'', PFloat trend_val),
      (''daily_trend_pnl_basis'', PStr trend_pnl_basis), (''daily_trend_cash_flow_usdt'', PFloat (Fin 0)),
      (''daily_trend_net_invested_usdt'', PFloat (Fin 0)), (''daily_trend_risk_base_usdt'', PFloat (f_max (Fin 0) trend_val)),
      (''daily_trend_third_fee_usdt'', PFloat (Fin 0)), (''daily_external_principal_usdt'', PFloat (Fin 0)),
      (''last_reset_date'', PStr today), (''is_circuit_broken'', PBool False)]"

definition maybe_reset_daily_state :: "env \<Rightarrow> nat \<Rightarrow> string \<Rightarrow> pyfloat \<Rightarrow> pyfloat \<Rightarrow> bool run" where
  "maybe_reset_daily_state env a today total_equity trend_val =
     bind (read_ref a) (\<lambda>s.
     if dget s ''last_reset_date'' \<noteq> PStr today then
       bind (write_ref a (dupdate s (reset_fields today total_equity trend_val))) (\<lambda>_.
       bind (runtime_set_trade_state env a ''daily_reset'' None) (\<lambda>_. ret True))
     else if dget s ''daily_trend_pnl_basis'' \<noteq> PStr trend_pnl_basis then
       bind (diagnose ''daily_trend_accounting'' (PDict [(''status'', PStr ''migration_unverifiable''),
         (''from_basis'', dget s ''daily_trend_pnl_basis''), (''to_basis'', PStr trend_pnl_basis)])) (\<lambda>_.
       throw (ExecutionIntegrity ''daily_trend_accounting_migration_unverifiable''))
     else bind (liftE (verify_daily_accounting s trend_val)) (\<lambda>_. ret False))"

section \<open>The daily profit figures\<close>

fun all_finite :: "pyval list \<Rightarrow> pyexc + bool" where
  "all_finite [] = Inr True"
| "all_finite (v # vs) = bindE (to_float v) (\<lambda>x. if f_finite x then all_finite vs else Inr False)"

text \<open>An operand of float arithmetic and its comparison with zero: text, decimals and containers are type errors.\<close>

fun operand :: "pyval \<Rightarrow> pyexc + pyfloat" where
  "operand (PBool b) = to_float (PBool b)"
| "operand (PInt i) = to_float (PInt i)"
| "operand (PFloat x) = Inr x"
| "operand _ = Inl TypeError"

fun positiveE :: "pyval \<Rightarrow> pyexc + bool" where
  "positiveE (PBool b) = Inr b"
| "positiveE (PInt i) = Inr (0 < i)"
| "positiveE (PFloat x) = Inr (f_less (Fin 0) x)"
| "positiveE (PDec d) = dec_lessE dec_zero d"
| "positiveE _ = Inl TypeError"

definition zero_float :: pyval where "zero_float = PFloat (Fin 0)"

definition daily_numbers :: "pydict \<Rightarrow> pyfloat \<Rightarrow> pyfloat \<Rightarrow> pyval list" where
  "daily_numbers s total_equity trend_equity =
     [PFloat total_equity, PFloat trend_equity] @ map (\<lambda>k. dget_or s k zero_float)
        [''daily_equity_base'', ''daily_trend_equity_base'', ''daily_trend_cash_flow_usdt'', ''daily_trend_net_invested_usdt'',
         ''daily_trend_third_fee_usdt'']
     @ [dget_or s ''daily_trend_risk_base_usdt'' (dget_or s ''daily_trend_equity_base'' zero_float),
        dget_or s ''daily_external_principal_usdt'' zero_float]"

definition portfolio_pnl :: "pydict \<Rightarrow> pyfloat \<Rightarrow> pyexc + pyfloat" where
  "portfolio_pnl s total_equity =
     bindE (positiveE (dget_or s ''daily_equity_base'' (PInt 0))) (\<lambda>pos.
     if \<not> pos then Inr (Fin 0)
     else
       bindE (operand (dget s ''daily_equity_base'')) (\<lambda>base.
       bindE (float_or_zero (dget_or s ''daily_external_principal_usdt'' zero_float)) (\<lambda>deposited.
       f_div (f_sub (f_sub total_equity base) deposited) base)))"

definition trend_pnl :: "pydict \<Rightarrow> pyfloat \<Rightarrow> pyexc + pyfloat" where
  "trend_pnl s trend_equity =
     bindE (float_or_zero (dget_or s ''daily_trend_equity_base'' zero_float)) (\<lambda>base.
     bindE (float_or_zero (dget_or s ''daily_trend_cash_flow_usdt'' zero_float)) (\<lambda>flow.
     bindE (float_or_zero (dget_or s ''daily_trend_third_fee_usdt'' zero_float)) (\<lambda>fee.
     bindE (float_or_zero (dget_or s ''daily_trend_risk_base_usdt'' (PFloat base))) (\<lambda>risk.
     bindE (float_or_zero (dget_or s ''daily_trend_net_invested_usdt'' zero_float)) (\<lambda>invested.
     if f_le risk (Fin 0) then
       (if list_ex (\<lambda>x. \<not> f_eq x (Fin 0)) [base, trend_equity, flow, invested, fee] then Inl unverifiable_accounting
        else Inr (Fin 0))
     else f_div (f_sub (f_sub (f_add trend_equity flow) fee) base) risk)))))"

definition compute_daily_pnls :: "pydict \<Rightarrow> pyfloat \<Rightarrow> pyfloat \<Rightarrow> pyexc + pyfloat \<times> pyfloat" where
  "compute_daily_pnls s total_equity trend_equity =
     bindE (guarded accounting_guard (bindE (all_finite (daily_numbers s total_equity trend_equity))
       (\<lambda>ok. ensure ok (ValueError [])))) (\<lambda>_.
     bindE (portfolio_pnl s total_equity) (\<lambda>daily.
     bindE (trend_pnl s trend_equity) (\<lambda>trend. Inr (daily, trend))))"

section \<open>Explaining a balance change\<close>

text \<open>
  With a durable Earn checkpoint the whole difference must be reconciled by the forward step of
  \<open>earn_accrual.py\<close>; an unexplained BNB difference is retried with the dividends of the window.
\<close>

definition earn_reason_codes :: "string list" where
  "earn_reason_codes = [''earn_checkpoint_invalid'', ''earn_checkpoint_time_invalid'', ''earn_checkpoint_scope_changed'',
     ''earn_product_lifecycle_unverified'', ''earn_counter_reset'', ''earn_quantity_change_unexplained'', ''earn_order_unsettled'',
     ''earn_accounted_changes_missing'', ''earn_cash_cursor_mismatch'', ''earn_cash_flow_invalid'', ''earn_cash_flow_unsupported'',
     ''earn_cash_flow_time_unverified'', ''earn_valuation_snapshot_mismatch'', ''external_cash_flow_window_invalid'',
     ''external_cash_flow_cursor_invalid'', ''external_cash_flow_history_read_failed'', ''external_cash_flow_history_incomplete'',
     ''external_cash_flow_record_invalid'', ''external_cash_flow_record_changed'', ''external_cash_flow_cursor_capacity_exceeded'']"

definition earn_reason :: "pyexc \<Rightarrow> string" where
  "earn_reason e = (case e of
     ValueError m \<Rightarrow> if m \<in> set earn_reason_codes then m else ''earn_forward_accounting_unverified''
   | _ \<Rightarrow> ''earn_forward_accounting_unverified'')"

definition observed_quantity :: "string \<times> pyval \<Rightarrow> pyexc + string \<times> pyval" where
  "observed_quantity row = bindE (rounded (bindE (vsub (snd row) ''quantity'') to_float)) (\<lambda>q. Inr (fst row, q))"

definition observed_snapshot :: "pyval \<Rightarrow> pyexc + pydict" where
  "observed_snapshot current =
     bindE (vsub current ''assets'') (\<lambda>assets. case assets of PDict d \<Rightarrow> mapE observed_quantity d | _ \<Rightarrow> Inl AttributeError)"

definition rewards_of :: "pyval \<Rightarrow> string \<Rightarrow> pyexc + pydec" where
  "rewards_of bnb product =
     bindE (bindE (bindE (vsub bnb ''products'') (\<lambda>ps. vsub ps product)) (\<lambda>p. vsub p ''realtime_rewards'')) to_dec"

definition reward_delta :: "pyval \<Rightarrow> pyval \<Rightarrow> pyval \<Rightarrow> pyexc + pydec" where
  "reward_delta previous_bnb current_bnb product = (case product of
     PStr p \<Rightarrow> bindE (rewards_of current_bnb p) (\<lambda>c. bindE (rewards_of previous_bnb p) (dec_sub 28 c))
   | _ \<Rightarrow> Inl KeyError)"

definition unexplained_bnb :: "pyval \<Rightarrow> pyval \<Rightarrow> pyval \<Rightarrow> pyexc + pydec" where
  "unexplained_bnb previous_bnb current_bnb net_bnb =
     bindE (bindE (vsub previous_bnb ''products'') iterate) (\<lambda>products.
     bindE (mapE (reward_delta previous_bnb current_bnb) products) (\<lambda>deltas.
     bindE (dec_sum 28 dec_zero deltas) (\<lambda>delta.
     bindE (bindE (vsub current_bnb ''quantity'') to_dec) (\<lambda>c.
     bindE (bindE (vsub previous_bnb ''quantity'') to_dec) (\<lambda>p.
     bindE (dec_sub 28 c p) (\<lambda>d.
     bindE (dec_sub 28 d delta) (\<lambda>d'.
     bindE (to_dec net_bnb) (dec_sub 28 d'))))))))"

definition vget_or :: "pyval \<Rightarrow> string \<Rightarrow> pyval \<Rightarrow> pyexc + pyval" where
  "vget_or v k z = (case v of PDict d \<Rightarrow> Inr (dget_or d k z) | _ \<Rightarrow> Inl AttributeError)"

definition bnb_of :: "pyval \<Rightarrow> pyexc + pyval" where
  "bnb_of checkpoint = bindE (vget_or checkpoint ''assets'' (PDict [])) (\<lambda>a. vget a ''BNB'')"

definition forward_update :: "env \<Rightarrow> (pydt \<Rightarrow> pyval \<Rightarrow> pyval run) \<Rightarrow> pydict \<Rightarrow> pyval \<Rightarrow> pydict \<Rightarrow> (pydict \<times> pyval) run" where
  "forward_update env collect s current snapshot =
     bind (liftE (observed_snapshot current)) (\<lambda>seen.
     bind (raise_if (\<not> py_eq (PDict seen) (PDict snapshot)) (ValueError ''earn_valuation_snapshot_mismatch'')) (\<lambda>_.
     bind (liftE (bindE (vsub current ''observed_at'') earn_time)) (\<lambda>now.
     bind (collect now (dget s ''external_cash_flow_cursor'')) (\<lambda>cash.
     attempt (liftE (prepare_forward_earn_state s current cash))
       (\<lambda>e.
         if e \<noteq> ValueError ''earn_quantity_change_unexplained'' then throw e
         else
           let previous = dget s ''earn_accrual_checkpoint'' in
           bind (liftE (bnb_of previous)) (\<lambda>previous_bnb.
           bind (liftE (bnb_of current)) (\<lambda>current_bnb.
           bind (liftE (vget_or (dget_or s ''earn_accounted_net_changes'' (PDict [])) ''BNB'' (PStr ''0''))) (\<lambda>net_bnb.
           bind (raise_if (\<not> is_dict previous_bnb \<or> \<not> is_dict current_bnb) e) (\<lambda>_.
           bind (liftE (unexplained_bnb previous_bnb current_bnb net_bnb)) (\<lambda>excess.
           bind (liftE (dec_lessE dec_zero excess)) (\<lambda>more.
           bind (raise_if (\<not> more) e) (\<lambda>_.
           bind (liftE (bindE (vsub previous ''observed_at'') earn_time)) (\<lambda>start_t.
           bind (collect_bnb_dividend_quantity env start_t now) (\<lambda>(dividend, ids).
           let cash' = PDict (dset ''bnb_dividend_quantity'' (PStr (dec_format_f dividend)) (the_dict cash)) in
           bind (liftE (prepare_forward_earn_state s current cash')) (\<lambda>updated. ret (updated, cash'))))))))))))
       (\<lambda>updated. ret (updated, cash))))))"

definition forward_unverified :: pyexc where
  "forward_unverified = ExecutionIntegrity ''earn_forward_accounting_unverified''"

text \<open>The two figures the interval needs, as decimals of the printed values.\<close>

definition forward_figures :: "pyval \<Rightarrow> pyfloat \<Rightarrow> pyexc + pydec \<times> pydec" where
  "forward_figures cash total_equity =
     bindE (guarded (\<lambda>e. if e = KeyError \<or> e = TypeError \<or> e = InvalidOperation then forward_unverified else e)
       (bindE (bindE (vsub cash ''new_deposit_principal_usdt'') to_dec) (\<lambda>p. bindE (to_dec (PFloat total_equity)) (\<lambda>q. Inr (p, q))))) (\<lambda>(p, q).
     bindE (ensure (dec_finite p \<and> dec_finite q \<and> dec_positive q) forward_unverified) (\<lambda>_. Inr (p, q)))"

definition flow_interval :: "pyval \<Rightarrow> pyval \<Rightarrow> pydec \<Rightarrow> pydec \<Rightarrow> pyexc + pydict" where
  "flow_interval previous current deposited equity =
     bindE (vsub previous ''account_scope_sha256'') (\<lambda>scope.
     bindE (vsub previous ''observed_at'') (\<lambda>start_at.
     bindE (vsub current ''observed_at'') (\<lambda>end_at.
     Inr [(''account_scope_sha256'', scope), (''start_at'', start_at), (''end_at'', end_at),
       (''end_equity_usdt'', PStr (dec_format_f equity)), (''net_external_cash_flow'', PStr (dec_format_f deposited)),
       (''currency'', PStr ''USDT''), (''valuation_basis'', PStr ''checkpoint_quantities_sampled_prices'')])))"

definition forward_earn_rebase :: "env \<Rightarrow> (pydt \<Rightarrow> pyval \<Rightarrow> pyval run) \<Rightarrow> nat \<Rightarrow> pyval \<Rightarrow> pyfloat \<Rightarrow> pydict \<Rightarrow> bool run" where
  "forward_earn_rebase env collect a current total_equity snapshot =
     bind (read_ref a) (\<lambda>s.
     bind (handle (forward_update env collect s current snapshot)
       (\<lambda>e. bind (diagnose ''earn_accrual'' (PDict [(''status'', PStr ''blocked''), (''reason_code'', PStr (earn_reason e))]))
         (\<lambda>_. throw forward_unverified))) (\<lambda>(updated, cash).
     bind (liftE (forward_figures cash total_equity)) (\<lambda>(deposited, equity).
     bind (liftE (flow_interval (dget s ''earn_accrual_checkpoint'') current deposited equity)) (\<lambda>interval.
     bind (gets rt) (\<lambda>r.
     bind (alloc updated) (\<lambda>u.
     bind (runtime_set_trade_state env u ''earn_forward_accounting''
       (if rt_bound r \<and> rt_receipts r then Some (PDict interval) else None)) (\<lambda>_.
     bind (read_ref u) (\<lambda>d.
     bind (write_ref a d) (\<lambda>_.
     bind (upd_rt (\<lambda>r. r\<lparr>rt_trade_state := Some a\<rparr>)) (\<lambda>_.
     bind (set_report ''external_cash_flow_interval'' (PDict interval)) (\<lambda>_.
     bind (diagnose ''earn_accrual'' (PDict [(''status'', PStr ''reconciled'')])) (\<lambda>_.
     ret True))))))))))))"

text \<open>Without an Earn checkpoint only confirmed deposits may explain a change.\<close>

definition unexplained :: pyexc where
  "unexplained = ExecutionIntegrity ''balance_change_unexplained''"

definition flow_uncertain :: pyexc where
  "flow_uncertain = ExecutionIntegrity ''external_cash_flow_reconciliation_uncertain''"

definition asset_changed :: "pydict \<Rightarrow> pydict \<Rightarrow> string \<Rightarrow> pyexc + bool" where
  "asset_changed previous current asset =
     bindE (guarded (\<lambda>e. if e = TypeError \<or> is_value_error e then unexplained else e)
       (bindE (float_or_zero (dget_or previous asset zero_float)) (\<lambda>p.
        bindE (float_or_zero (dget_or current asset zero_float)) (\<lambda>c. Inr (p, c))))) (\<lambda>(p, c).
     bindE (ensure (f_finite p \<and> f_finite c) unexplained) (\<lambda>_.
     Inr (f_less (if asset = ''USDT'' then fl (1 / 10000) else fl (1 / 100000000)) (f_abs (f_sub c p)))))"

definition changed_assets :: "pydict \<Rightarrow> pydict \<Rightarrow> pyexc + string list" where
  "changed_assets previous current =
     filterE (asset_changed previous current) (sort (remdups (map fst previous @ map fst current)))"

definition blocked_flow :: "string \<Rightarrow> unit run" where
  "blocked_flow code = diagnose ''external_cash_flow'' (PDict [(''status'', PStr ''blocked''), (''reason_code'', PStr code)])"

fun error_text :: "pyexc \<Rightarrow> string" where
  "error_text (ValueError m) = m"
| "error_text (EarnUnavailable m) = m"
| "error_text (AccountFactsFailed m) = m"
| "error_text (RiskAuthorityInvalid m) = m"
| "error_text _ = []"

text \<open>Timestamps without an offset are read in the local zone of the host, taken to be UTC.\<close>

definition completion_time :: "pyval \<Rightarrow> pyexc + pydt" where
  "completion_time v = bindE (parse_stamp (py_str v)) to_utc"

definition deposit_facts :: "pyval \<Rightarrow> pyexc + pydec \<times> pydt list" where
  "deposit_facts flows =
     bindE (guarded (\<lambda>e. if e = KeyError \<or> e = TypeError \<or> e = InvalidOperation \<or> is_value_error e then flow_uncertain else e)
       (bindE (bindE (vsub flows ''new_deposit_principal_usdt'') to_dec) (\<lambda>p.
        bindE (bindE (vsub flows ''new_deposit_completed_at'') iterate) (\<lambda>stamps.
        bindE (mapE completion_time stamps) (\<lambda>completed. Inr (p, completed)))))) (\<lambda>(p, completed).
     let d = the_dict flows in
     bindE (ensure (dec_finite p \<and> \<not> dec_less p dec_zero \<and> is_plain_int (dget d ''new_confirmed_deposit_count'')
         \<and> is_plain_int (dget_or d ''new_unsupported_deposit_count'' (PInt 0))
         \<and> is_plain_int (dget_or d ''new_or_changed_withdrawal_count'' (PInt 0))
         \<and> dget d ''new_confirmed_deposit_count'' = PInt (int (length completed))
         \<and> (dec_is_zero p \<longleftrightarrow> completed = []) \<and> is_dict (dget d ''cursor'')) flow_uncertain) (\<lambda>_.
     Inr (p, completed)))"

definition withdrawals :: "pydict \<Rightarrow> pyval" where
  "withdrawals flows = dget_or flows ''new_or_changed_withdrawal_count'' (PInt 0)"

definition unsupported_deposits :: "pydict \<Rightarrow> pyval" where
  "unsupported_deposits flows = dget_or flows ''new_unsupported_deposit_count'' (PInt 0)"

text \<open>The observed change of the cash balance carries exactly the new principal.\<close>

definition deposit_matches :: "pydict \<Rightarrow> pydict \<Rightarrow> pydict \<Rightarrow> string list \<Rightarrow> pydec \<Rightarrow> pyexc + bool" where
  "deposit_matches previous current flows changed p =
     bindE (guarded (\<lambda>e. if e = InvalidOperation \<or> e = TypeError \<or> is_value_error e then flow_uncertain else e)
       (bindE (to_dec (dget_or current ''USDT'' zero_float)) (\<lambda>c.
        bindE (to_dec (dget_or previous ''USDT'' zero_float)) (dec_sub 28 c)))) (\<lambda>delta.
     if changed \<noteq> [''USDT''] \<or> truthy (unsupported_deposits flows) \<or> truthy (withdrawals flows) then Inr False
     else bindE (bindE (dec_sub 28 delta p) (dec_abs 28)) (\<lambda>gap. bindE (dec_lessE dec_1e8 gap) (\<lambda>far. Inr (\<not> far))))"

definition accumulate_principal :: "pydict \<Rightarrow> pydec \<Rightarrow> pyexc + pydict" where
  "accumulate_principal s p =
     (let unverifiable = ExecutionIntegrity ''daily_accounting_unverifiable'' in
      bindE (guarded (\<lambda>e. if e = InvalidOperation \<or> e = TypeError \<or> is_value_error e then unverifiable else e)
        (bindE (to_dec (dget_or s ''daily_external_principal_usdt'' zero_float)) (\<lambda>held. dec_add 28 held p))) (\<lambda>summed.
      bindE (ensure (dec_finite summed) unverifiable) (\<lambda>_.
      bindE (float_of_dec summed) (\<lambda>f. Inr (dset ''daily_external_principal_usdt'' (PFloat f) s)))))"

definition rebase_deposit :: "env \<Rightarrow> nat \<Rightarrow> pydict \<Rightarrow> pydict \<Rightarrow> pyval \<Rightarrow> string list \<Rightarrow> pydec \<Rightarrow> pydt list \<Rightarrow> bool run" where
  "rebase_deposit env a previous current flows changed p completed =
     bind (gets (\<lambda>w. to_utc (rt_now (rt w)))) (\<lambda>now_r.
     bind (liftE now_r) (\<lambda>now.
     if list_ex (\<lambda>t. dt_day t \<noteq> dt_day now) completed then
       bind (blocked_flow ''external_cash_flow_late_completion'') (\<lambda>_. throw flow_uncertain)
     else
       bind (liftE (deposit_matches previous current (the_dict flows) changed p)) (\<lambda>matches.
       if \<not> matches then bind (blocked_flow ''external_cash_flow_balance_mismatch'') (\<lambda>_. throw flow_uncertain)
       else
         bind (gets (\<lambda>w. dget (heap w a) ''last_reset_date'' = PStr (date_text (dt_date now)))) (\<lambda>same_day.
         bind (whenM same_day (modify_ref a (\<lambda>s. accumulate_principal s p))) (\<lambda>_.
         bind (modify_ref a (\<lambda>s. Inr (dset ''external_cash_flow_cursor'' (dget (the_dict flows) ''cursor'')
           (dset ''last_balance_snapshot'' (PDict current) s)))) (\<lambda>_.
         bind (diagnose ''external_cash_flow'' (PDict [(''status'', PStr ''reconciled''),
           (''confirmed_deposit_count'', dget (the_dict flows) ''new_confirmed_deposit_count''),
           (''principal_applied_to_current_day'', PBool same_day)])) (\<lambda>_.
         bind (runtime_set_trade_state env a ''external_cash_flow_reconciliation'' None) (\<lambda>_. ret True))))))))"

definition rebase_quiet :: "env \<Rightarrow> nat \<Rightarrow> bool \<Rightarrow> pyval \<Rightarrow> pydict \<Rightarrow> pyval \<Rightarrow> bool run" where
  "rebase_quiet env a initializing cursor current flows =
     bind (whenM initializing (modify_ref a (\<lambda>s. Inr (dset ''last_balance_snapshot'' (PDict current) s)))) (\<lambda>_.
     bind (whenM (initializing \<or> \<not> py_eq (dget (the_dict flows) ''cursor'') cursor)
       (bind (modify_ref a (\<lambda>s. Inr (dset ''external_cash_flow_cursor'' (dget (the_dict flows) ''cursor'') s))) (\<lambda>_.
        runtime_set_trade_state env a
          (if initializing then ''external_cash_flow_baseline'' else ''external_cash_flow_cursor'') None))) (\<lambda>_.
     ret False))"

definition refuse_change :: "pydict \<Rightarrow> string list \<Rightarrow> bool run" where
  "refuse_change flows changed =
     bind (if truthy (withdrawals flows) then blocked_flow ''external_withdrawal_accounting_unsupported''
           else if truthy (unsupported_deposits flows) then blocked_flow ''external_cash_flow_scope_unsupported'' else ret ()) (\<lambda>_.
     bind (diagnose ''balance_change'' (PDict [(''status'', PStr ''unexplained''), (''assets'', PList (map PStr changed))])) (\<lambda>_.
     throw unexplained))"

definition spot_rebase :: "env \<Rightarrow> (pydt \<Rightarrow> pyval \<Rightarrow> pyval run) \<Rightarrow> nat \<Rightarrow> pydict \<Rightarrow> bool run" where
  "spot_rebase env collect a current =
     bind (read_ref a) (\<lambda>s.
     let stored = dget s ''last_balance_snapshot''; initializing = (\<not> is_dict stored \<or> \<not> truthy stored);
         previous = (if initializing then current else the_dict stored); cursor = dget s ''external_cash_flow_cursor'' in
     bind (liftE (changed_assets previous current)) (\<lambda>changed.
     bind (raise_if (initializing \<and> cursor \<noteq> PNone) flow_uncertain) (\<lambda>_.
     if cursor = PNone \<and> changed \<noteq> [] then
       bind (diagnose ''balance_change'' (PDict [(''status'', PStr ''unexplained''), (''assets'', PList (map PStr changed)),
         (''reason_code'', PStr ''external_cash_flow_cursor_missing'')])) (\<lambda>_. throw unexplained)
     else
       bind (gets (\<lambda>w. rt_now (rt w))) (\<lambda>now.
       bind (handle (collect now cursor) (\<lambda>e.
         if is_value_error e then
           bind (blocked_flow (if starts_with (error_text e) ''external_'' then error_text e
             else ''external_cash_flow_reconciliation_uncertain'')) (\<lambda>_. throw flow_uncertain)
         else throw e)) (\<lambda>flows.
       bind (liftE (deposit_facts flows)) (\<lambda>(p, completed).
       if \<not> dec_is_zero p then rebase_deposit env a previous current flows changed p completed
       else if changed = [] then rebase_quiet env a initializing cursor current flows
       else refuse_change (the_dict flows) changed))))))"

definition maybe_rebase_daily_state_for_balance_change ::
    "env \<Rightarrow> (pydt \<Rightarrow> pyval \<Rightarrow> pyval run) \<Rightarrow> nat \<Rightarrow> pyval \<Rightarrow> pyfloat \<Rightarrow> pydict \<Rightarrow> bool run" where
  "maybe_rebase_daily_state_for_balance_change env collect a observation_v total_equity current =
     bind (gets rt) (\<lambda>r.
     bind (read_ref a) (\<lambda>s.
     bind (raise_if (rt_bound r \<and> rt_receipts r \<and> \<not> dhas s ''earn_accrual_checkpoint'')
       (ExecutionIntegrity ''earn_checkpoint_required_for_receipt'')) (\<lambda>_.
     if dhas s ''earn_accrual_checkpoint'' then forward_earn_rebase env collect a observation_v total_equity current
     else spot_rebase env collect a current)))"

section \<open>Lemmas\<close>

text \<open>A refused change leaves every state dictionary as it was and writes nothing.\<close>

definition no_write :: "event list \<Rightarrow> bool" where
  "no_write evs = list_all (\<lambda>e. case fst e of WriteState d \<Rightarrow> False | BoundSave d i \<Rightarrow> False | _ \<Rightarrow> True) evs"

definition untouched :: "world \<Rightarrow> world \<Rightarrow> bool" where
  "untouched w w' = (heap w' = heap w \<and> (\<exists>evs. trace w' = trace w @ evs \<and> no_write evs))"

lemma untouched_rel [keeps_intros]: "reflp untouched" "transp untouched"
  by (auto simp: reflp_def transp_def untouched_def no_write_def)

lemma untouched_rp [keeps_intros]: "keeps untouched (upd_rp f)" "keeps untouched (read_ref a)"
  by (auto simp: keeps_def untouched_def no_write_def upd_rp_def update_def read_ref_def gets_def)

lemma untouched_diagnose [keeps_intros]: "keeps untouched (diagnose k v)" "keeps untouched (set_report k v)"
  unfolding diagnose_def set_report_def by (intro keeps_intros)+

lemma untouched_blocked [keeps_intros]: "keeps untouched (blocked_flow c)" "keeps untouched (refuse_change d cs)"
  unfolding blocked_flow_def refuse_change_def by (intro keeps_intros)+


lemma no_heap_change_deposit:
  "wp (rebase_deposit env a previous current flows changed p completed)
     (\<lambda>b u. b \<and> deposit_matches previous current (the_dict flows) changed p = Inr True
        \<and> dget (heap u a) ''last_balance_snapshot'' = PDict current
        \<and> dget (heap u a) ''external_cash_flow_cursor'' = dget (the_dict flows) ''cursor''
        \<and> (\<forall>t \<in> set completed. dt_day t = dt_utc (rt_now (rt w)) div us_per_day))
     (\<lambda>_ _. True) w"
proof -
  have day: "dt_day u = dt_utc n div us_per_day" if "to_utc n = Inr u" for n u
    using that by (auto simp: to_utc_def dt_day_def split: if_splits)
  have diag: "wp (diagnose k v) Q (\<lambda>_ _. True) u" if "\<And>p. Q () (u\<lparr>rp := p\<rparr>)" for k v Q u
    using that by (auto simp: diagnose_def set_report_def eff_simps split: pyval.split)
  show ?thesis
    unfolding rebase_deposit_def
    by (auto simp: eff_simps blocked_flow_def list_ex_iff split: sum.split
        intro!: diag wp_mono [OF state_write_heap] dest!: day)
qed


text \<open>Reading the broker and reporting leave the state dictionaries and the runtime alone.\<close>

definition frozen :: "world \<Rightarrow> world \<Rightarrow> bool" where
  "frozen w w' = (heap w' = heap w \<and> fresh w' = fresh w \<and> rt w' = rt w)"

lemma frozen_rel [keeps_intros]: "reflp frozen" "transp frozen"
  by (auto simp: reflp_def transp_def frozen_def)

lemma frozen_steps [keeps_intros]: "keeps frozen (invoke env c)" "keeps frozen (upd_rp f)"
  by (simp_all add: keeps_def frozen_def invoke_def upd_rp_def update_def)

lemma frozen_diagnose [keeps_intros]: "keeps frozen (diagnose k v)"
  unfolding diagnose_def set_report_def by (intro keeps_intros)

lemma frozen_dividend [keeps_intros]: "keeps frozen (collect_bnb_dividend_quantity env s t)"
  unfolding collect_bnb_dividend_quantity_def by (intro keeps_intros)

lemma forward_update_frozen:
  "(\<And>t c. keeps frozen (collect t c)) \<Longrightarrow> keeps frozen (forward_update env collect s current snapshot)"
  unfolding forward_update_def Let_def by (intro keeps_intros; assumption?)

lemma forward_update_prepared:
  "returns (forward_update env collect s current snapshot)
     (\<lambda>(updated, cash) _. prepare_forward_earn_state s current cash = Inr updated)"
proof -
  have last: "returns (bind (liftE (prepare_forward_earn_state s current c)) (\<lambda>u. ret (u, c)))
      (\<lambda>(updated, cash) _. prepare_forward_earn_state s current cash = Inr updated)" for c
    by (auto simp: returns_iff bind_def liftE_def ret_def split: sum.splits)
  have attempted: "returns (attempt (liftE (prepare_forward_earn_state s current c)) h (\<lambda>u. ret (u, c)))
      (\<lambda>(updated, cash) _. prepare_forward_earn_state s current cash = Inr updated)"
    if "\<And>e. returns (h e) (\<lambda>(updated, cash) _. prepare_forward_earn_state s current cash = Inr updated)" for c h
    using that by (auto simp: returns_iff attempt_def liftE_def ret_def split: sum.splits)
  show ?thesis
    unfolding forward_update_def Let_def by (intro attempted last returns_intros)
qed

text \<open>
  The forward step is adopted whole or not at all. Whatever happens, the shared state is
  afterwards either the state before the call or exactly the state the forward step prepared from
  it and the collected cash flows; and when the call returns, the prepared state was adopted and
  is the one the runtime shares.
\<close>

theorem forward_step_all_or_nothing:
  assumes "dhas (heap w a) ''earn_accrual_checkpoint''" and "a \<noteq> fresh w"
    and "\<And>t c. keeps frozen (collect t c)"
    and "maybe_rebase_daily_state_for_balance_change env collect a current equity snapshot w = (result, w')"
  shows "(heap w' a = heap w a \<or> (\<exists>cash. prepare_forward_earn_state (heap w a) current cash = Inr (heap w' a)))
    \<and> (\<forall>b. result = Inr b \<longrightarrow> b \<and> rt_trade_state (rt w') = Some a
        \<and> (\<exists>cash. prepare_forward_earn_state (heap w a) current cash = Inr (heap w' a)))"
proof -
  let ?prepared = "\<lambda>u. \<exists>cash. prepare_forward_earn_state (heap w a) current cash = Inr (heap u a)"
  let ?safe = "\<lambda>u. heap u a = heap w a \<or> ?prepared u"
  have update: "wp (forward_update env collect (heap w a) current snapshot)
      (\<lambda>(updated, cash) u. frozen w u \<and> prepare_forward_earn_state (heap w a) current cash = Inr updated) (\<lambda>_. frozen w) w"
    using wp_conj [OF keeps_wp [OF forward_update_frozen [OF assms(3)]]
        forward_update_prepared [unfolded returns_def, rule_format]]
    by (rule wp_mono) auto
  have "wp (forward_earn_rebase env collect a current equity snapshot)
      (\<lambda>b u. b \<and> rt_trade_state (rt u) = Some a \<and> ?prepared u) (\<lambda>_ u. ?safe u) w"
    unfolding forward_earn_rebase_def eff_simps
  proof (rule wp_mono [OF update], goal_cases)
    case (1 r t)
    obtain updated cash where r: "r = (updated, cash)" by (cases r)
    with 1 have t: "heap t = heap w" "fresh t = fresh w" "prepare_forward_earn_state (heap w a) current cash = Inr updated"
      by (auto simp: frozen_def)
    show ?case
      using t assms(2)
      by (auto simp: r eff_simps set_report_def frozen_def wp_ret split: sum.split
          intro!: wp_mono [OF state_write_heap] wp_mono [OF keeps_wp [OF frozen_diagnose]] exI [of _ cash])
  next
    case (2 e t)
    then show ?case by (auto simp: frozen_def wp_throw intro!: wp_mono [OF keeps_wp [OF frozen_diagnose]])
  qed
  then have "wp (maybe_rebase_daily_state_for_balance_change env collect a current equity snapshot)
      (\<lambda>b u. b \<and> rt_trade_state (rt u) = Some a \<and> ?prepared u) (\<lambda>_ u. ?safe u) w"
    using assms(1) by (simp add: maybe_rebase_daily_state_for_balance_change_def eff_simps)
  from wp_result [OF this assms(4)] show ?thesis by (cases result) auto
qed

text \<open>
  The day starts flat. After a daily reset that returns, the portfolio and the trend book both
  stand at a profit of zero against the figures they were reset with, the accounting checks pass,
  and a second call on the same day changes nothing and reports no reset.
\<close>

theorem reset_day_starts_flat:
  assumes "dget (heap w a) ''last_reset_date'' \<noteq> PStr today"
    and "0 < x" and "fl x = Fin x" and "0 \<le> t" and "fl t = Fin t"
    and "maybe_reset_daily_state env a today (Fin x) (Fin t) w = (Inr b, w')"
  shows "b \<and> compute_daily_pnls (heap w' a) (Fin x) (Fin t) = Inr (Fin 0, Fin 0)
    \<and> maybe_reset_daily_state env a today (Fin y) (Fin t) w' = (Inr False, w')"
proof -
  have s: "heap w' a = dupdate (heap w a) (reset_fields today (Fin x) (Fin t)) \<and> b"
  proof -
    have "wp (maybe_reset_daily_state env a today (Fin x) (Fin t))
        (\<lambda>b u. heap u a = dupdate (heap w a) (reset_fields today (Fin x) (Fin t)) \<and> b) (\<lambda>_ _. True) w"
      using assms(1) by (auto simp: maybe_reset_daily_state_def eff_simps intro!: wp_mono [OF state_write_heap])
    then show ?thesis using assms(6) by (simp add: wp_def)
  qed
  then have d: "dget (heap w' a) k = dget (reset_fields today (Fin x) (Fin t)) k \<and> dhas (heap w' a) k"
    if "k \<in> set (map fst (reset_fields today (Fin x) (Fin t)))" for k
    using that by (auto simp: reset_fields_def dupdate_def)
  have vals: "dget (heap w' a) ''daily_equity_base'' = PFloat (Fin x)" "dhas (heap w' a) ''daily_equity_base''"
    "dget (heap w' a) ''daily_trend_equity_base'' = PFloat (Fin t)" "dhas (heap w' a) ''daily_trend_equity_base''"
    "dget (heap w' a) ''daily_trend_cash_flow_usdt'' = PFloat (Fin 0)" "dhas (heap w' a) ''daily_trend_cash_flow_usdt''"
    "dget (heap w' a) ''daily_trend_net_invested_usdt'' = PFloat (Fin 0)" "dhas (heap w' a) ''daily_trend_net_invested_usdt''"
    "dget (heap w' a) ''daily_trend_third_fee_usdt'' = PFloat (Fin 0)" "dhas (heap w' a) ''daily_trend_third_fee_usdt''"
    "dget (heap w' a) ''daily_trend_risk_base_usdt'' = PFloat (f_max (Fin 0) (Fin t))" "dhas (heap w' a) ''daily_trend_risk_base_usdt''"
    "dget (heap w' a) ''daily_external_principal_usdt'' = PFloat (Fin 0)" "dhas (heap w' a) ''daily_external_principal_usdt''"
    "dget (heap w' a) ''last_reset_date'' = PStr today" "dget (heap w' a) ''daily_trend_pnl_basis'' = PStr trend_pnl_basis"
    by (simp_all add: d reset_fields_def)
  have risk: "f_max (Fin 0) (Fin t) = Fin t"
    using assms(4) by (auto simp: f_max_def)
  have "portfolio_pnl (heap w' a) (Fin x) = Inr (Fin 0)"
    using assms(2) by (simp add: portfolio_pnl_def dget_or_eq vals float_or_zero_def f_sub_def f_div_def)
  moreover have "trend_pnl (heap w' a) (Fin t) = Inr (Fin 0)"
    using assms(4,5) by (auto simp: trend_pnl_def dget_or_eq vals risk float_or_zero_def f_sub_def f_div_def f_eq_def)
  moreover have "verify_daily_accounting (heap w' a) (Fin t) = Inr ()"
    using assms(4) by (simp add: verify_daily_accounting_def daily_fields_def number_at_def dsub_dhas vals risk guarded_def
        dget_or_eq float_or_zero_def f_eq_def)
  moreover have "all_finite (daily_numbers (heap w' a) (Fin x) (Fin t)) = Inr True"
    by (simp add: daily_numbers_def dget_or_eq vals risk zero_float_def)
  moreover have "maybe_reset_daily_state env a today (Fin y) (Fin t) w' = (Inr False, w')"
    using calculation(3) by (simp add: maybe_reset_daily_state_def bind_def read_ref_def gets_def vals liftE_def ret_def)
  ultimately show ?thesis
    using s by (simp add: compute_daily_pnls_def guarded_def)
qed

section \<open>Witnesses\<close>

definition quiet_flows :: pydict where
  "quiet_flows = [(''new_deposit_principal_usdt'', PStr ''2''), (''new_deposit_completed_at'', PList [PStr ''0001-01-01T00:00:00+00:00'']),
     (''new_confirmed_deposit_count'', PInt 1), (''cursor'', PDict [(''k'', PInt 2)])]"

definition before_deposit :: pydict where
  "before_deposit = [(''last_balance_snapshot'', PDict [(''USDT'', PInt 3)]), (''external_cash_flow_cursor'', PDict [])]"

definition after_deposit :: pydict where "after_deposit = [(''USDT'', PInt 5)]"

lemma sample_deposit:
  "changed_assets [(''USDT'', PInt 3)] after_deposit = Inr [''USDT'']"
  "deposit_facts (PDict quiet_flows) = Inr (Dec False 2 0, [DT 0 (Some 0)])"
  "deposit_matches [(''USDT'', PInt 3)] after_deposit quiet_flows [''USDT''] (Dec False 2 0) = Inr True"
proof -
  have "f_le (fl (1 / 10000)) (fl 1)" by (rule fl_mono) simp
  then have "f_less (fl (1 / 10000)) (Fin 2)" by (cases "fl (1 / 10000)") (auto simp: f_le_def f_eq_def)
  then show "changed_assets [(''USDT'', PInt 3)] after_deposit = Inr [''USDT'']"
    by (simp add: changed_assets_def after_deposit_def asset_changed_def guarded_def float_or_zero_def float_of_int_def f_sub_def)
  show "deposit_facts (PDict quiet_flows) = Inr (Dec False 2 0, [DT 0 (Some 0)])" by code_simp
  show "deposit_matches [(''USDT'', PInt 3)] after_deposit quiet_flows [''USDT''] (Dec False 2 0) = Inr True" by code_simp
qed

lemma sample_rebase:
  "wp (maybe_rebase_daily_state_for_balance_change filling_env (\<lambda>t c. ret (PDict quiet_flows)) 0 PNone (Fin 5) after_deposit)
     (\<lambda>b _. b) (\<lambda>_ _. False) (sample_world before_deposit)"
  by (simp add: maybe_rebase_daily_state_for_balance_change_def spot_rebase_def rebase_deposit_def before_deposit_def eff_simps
      sample_deposit sample_world_def sample_runtime_def sample_report_def to_utc_def dt_in_range_def us_per_day_def max_day_def dt_day_def
      diagnose_def set_report_def runtime_set_trade_state_def submission_simps filling_env_def Let_def)


lemma forward_step_all_or_nothing_witness:
  "heap (snd (maybe_rebase_daily_state_for_balance_change filling_env (\<lambda>t c. ret (PDict sample_flows)) 0 (PDict sample_after)
      (Fin 5) [] (sample_world sample_ledger))) 0 = sample_ledger
   \<or> (\<exists>cash. prepare_forward_earn_state sample_ledger (PDict sample_after) cash = Inr (heap (snd
      (maybe_rebase_daily_state_for_balance_change filling_env (\<lambda>t c. ret (PDict sample_flows)) 0 (PDict sample_after)
      (Fin 5) [] (sample_world sample_ledger))) 0))"
  using forward_step_all_or_nothing [of "sample_world sample_ledger" 0 "\<lambda>t c. ret (PDict sample_flows)" filling_env
      "PDict sample_after" "Fin 5" "[]", OF _ _ _ prod.collapse [symmetric]]
  by (simp add: sample_world_def sample_ledger_def keeps_def ret_def frozen_def)

lemma reset_day_starts_flat_witness:
  "\<exists>w'. maybe_reset_daily_state filling_env 0 ''2026-01-02'' (Fin 5) (Fin 3) (sample_world []) = (Inr True, w')
    \<and> compute_daily_pnls (heap w' 0) (Fin 5) (Fin 3) = Inr (Fin 0, Fin 0)"
proof -
  have "wp (maybe_reset_daily_state filling_env 0 ''2026-01-02'' (Fin 5) (Fin 3)) (\<lambda>b _. b) (\<lambda>_ _. False) (sample_world [])"
    by (simp add: maybe_reset_daily_state_def runtime_set_trade_state_def submission_simps eff_simps filling_env_def
        sample_world_def sample_runtime_def Let_def)
  then obtain w' where run: "maybe_reset_daily_state filling_env 0 ''2026-01-02'' (Fin 5) (Fin 3) (sample_world []) = (Inr True, w')"
    by (auto simp: wp_def split: prod.splits sum.splits)
  then show ?thesis
    using reset_day_starts_flat [OF _ _ _ _ _ run] by (simp add: sample_world_def)
qed

end
