(* ===== verification/Trade_Execution.thy ===== *)
theory Trade_Execution
  imports Portfolio_Daily Runtime_Report Trade_State
begin

text \<open>
  \<open>application/execution_service.py\<close>: how an order answer becomes balances, positions and daily
  figures, and the orders a cycle submits: the daily circuit breaker, trend sells and buys, the
  rotation that plans them, and the BTC accumulation.

  Balances live in a shared dictionary, like the state. Texts are not modelled: a \<open>notice\<close> keeps the
  translation key and the values the text is built from, and how it is sent is the injected
  function \<open>notify\<close>. What the orders rely on in a notifier is stated, as a locale, in
  \<open>Execution_Safety\<close>.
\<close>

section \<open>Reading a fill\<close>

definition fill_unverifiable :: pyexc where
  "fill_unverifiable = ExecutionIntegrity ''filled_order_accounting_unverifiable''"

definition required_number :: "bool \<Rightarrow> pyval \<Rightarrow> pyexc + pyfloat" where
  "required_number strictly v =
     bindE (guarded (\<lambda>e. if e = TypeError \<or> is_value_error e then fill_unverifiable else e) (to_float v)) (\<lambda>x.
     bindE (ensure (f_finite x \<and> \<not> f_less x (Fin 0) \<and> (strictly \<longrightarrow> f_less (Fin 0) x)) fill_unverifiable) (\<lambda>_.
     Inr x))"

record fill =
  fl_executed :: pyfloat
  fl_quote :: pyfloat
  fl_average :: pyfloat
  fl_base_asset :: string
  fl_base_fee :: pyfloat
  fl_quote_fee :: pyfloat
  fl_third_fees :: "(string \<times> pyfloat) list"
  fl_third_usdt :: pyfloat

type_synonym fees = "(string \<times> pyfloat) list"

text \<open>\<open>d.get(k, 0.0)\<close> and \<open>d.pop(k, 0.0)\<close> on a dictionary of floats.\<close>

definition fee_of :: "fees \<Rightarrow> string \<Rightarrow> pyfloat" where
  "fee_of fees a = (case map_of fees a of None \<Rightarrow> Fin 0 | Some x \<Rightarrow> x)"

record fill_sums =
  fs_qty :: pyfloat
  fs_quote :: pyfloat
  fs_fees :: fees

definition add_fill_line :: "fill_sums \<Rightarrow> pyval \<Rightarrow> pyexc + fill_sums" where
  "add_fill_line acc line = (case line of
     PDict d \<Rightarrow>
       bindE (required_number True (dget d ''price'')) (\<lambda>price.
       bindE (required_number True (dget d ''qty'')) (\<lambda>qty.
       bindE (required_number False (dget d ''commission'')) (\<lambda>commission.
       let asset = upper (strip (str_or_empty (dget d ''commissionAsset''))) in
       if asset = [] then Inl fill_unverifiable
       else Inr \<lparr>fs_qty = f_add (fs_qty acc) qty, fs_quote = f_add (fs_quote acc) (f_mul price qty),
         fs_fees = AList.update asset (f_add (fee_of (fs_fees acc) asset) commission) (fs_fees acc)\<rparr>)))
   | _ \<Rightarrow> Inl fill_unverifiable)"

definition f_1e8 :: pyfloat where "f_1e8 = fl (1 / 100000000)"
definition f_minus_1e10 :: pyfloat where "f_minus_1e10 = fl (- 1 / 10000000000)"

text \<open>\<open>abs(a - b) > max(1e-8, b * 1e-8)\<close>.\<close>

definition differs :: "pyfloat \<Rightarrow> pyfloat \<Rightarrow> bool" where
  "differs a b = f_less (f_max f_1e8 (f_mul b f_1e8)) (f_abs (f_sub a b))"

definition third_fee :: "pydict \<Rightarrow> fees \<times> pyfloat \<Rightarrow> string \<times> pyfloat \<Rightarrow> pyexc + fees \<times> pyfloat" where
  "third_fee prices acc entry =
     bindE (required_number True (dget prices (fst entry @ ''USDT''))) (\<lambda>price.
     Inr (AList.update (fst entry @ ''USDT'') (snd entry) (fst acc), f_add (snd acc) (f_mul (snd entry) price)))"

definition answers :: "pydict \<Rightarrow> string \<Rightarrow> string \<Rightarrow> bool" where
  "answers d symbol side = (upper (str_or_empty (dget d ''status'')) = ''FILLED''
     \<and> upper (str_or (dget d ''symbol'') symbol) = symbol \<and> upper (str_or (dget d ''side'') side) = side)"

definition parse_filled_order :: "pyval \<Rightarrow> string \<Rightarrow> string \<Rightarrow> pydict \<Rightarrow> pyexc + fill" where
  "parse_filled_order response symbol side prices = (case response of
     PDict d \<Rightarrow>
       bindE (ensure (answers d symbol side) fill_unverifiable) (\<lambda>_.
       bindE (required_number True (dget d ''executedQty'')) (\<lambda>executed.
       bindE (required_number True (dget d ''cummulativeQuoteQty'')) (\<lambda>quote.
       bindE (ensure (is_list (dget d ''fills'') \<and> the_list (dget d ''fills'') \<noteq> []) fill_unverifiable) (\<lambda>_.
       bindE (foldE add_fill_line \<lparr>fs_qty = Fin 0, fs_quote = Fin 0, fs_fees = []\<rparr> (the_list (dget d ''fills''))) (\<lambda>parts.
       bindE (ensure (\<not> differs (fs_qty parts) executed \<and> \<not> differs (fs_quote parts) quote) fill_unverifiable) (\<lambda>_.
       let base = (if ends_with symbol ''USDT'' then drop_last 4 symbol else []) in
       bindE (ensure (base \<noteq> []) fill_unverifiable) (\<lambda>_.
       bindE (foldE (third_fee prices) ([], Fin 0) (AList.delete ''USDT'' (AList.delete base (fs_fees parts)))) (\<lambda>(thirds, third_usdt).
       bindE (f_div quote executed) (\<lambda>average.
       Inr \<lparr>fl_executed = executed, fl_quote = quote, fl_average = average, fl_base_asset = base,
         fl_base_fee = fee_of (fs_fees parts) base, fl_quote_fee = fee_of (AList.delete base (fs_fees parts)) ''USDT'',
         fl_third_fees = thirds, fl_third_usdt = third_usdt\<rparr>)))))))))
   | _ \<Rightarrow> Inl fill_unverifiable)"

definition estimated_fill :: "string \<Rightarrow> pyfloat \<Rightarrow> pyfloat \<Rightarrow> fill" where
  "estimated_fill symbol qty price =
     \<lparr>fl_executed = qty, fl_quote = f_mul qty price, fl_average = price, fl_base_asset = drop_last 4 symbol,
      fl_base_fee = Fin 0, fl_quote_fee = Fin 0, fl_third_fees = [], fl_third_usdt = Fin 0\<rparr>"

definition resolve_fill :: "pyval \<Rightarrow> string \<Rightarrow> string \<Rightarrow> pyfloat \<Rightarrow> pyfloat \<Rightarrow> pydict \<Rightarrow> fill run" where
  "resolve_fill response symbol side qty price prices =
     bind (gets (\<lambda>w. rt_dry_run (rt w))) (\<lambda>dry.
     if dry then ret (estimated_fill symbol qty price) else liftE (parse_filled_order response symbol side prices))"

section \<open>Booking a fill\<close>

definition base_delta :: "fill \<Rightarrow> string \<Rightarrow> pyfloat" where
  "base_delta f side = (if side = ''SELL'' then f_neg (f_add (fl_executed f) (fl_base_fee f)) else f_sub (fl_executed f) (fl_base_fee f))"

definition quote_delta :: "fill \<Rightarrow> string \<Rightarrow> pyfloat" where
  "quote_delta f side = (if side = ''SELL'' then f_sub (fl_quote f) (fl_quote_fee f) else f_neg (f_add (fl_quote f) (fl_quote_fee f)))"

definition charge_third :: "pydict \<Rightarrow> pydict \<Rightarrow> string \<times> pyfloat \<Rightarrow> pyexc + pydict" where
  "charge_third balances acc entry =
     bindE (ensure (dhas balances (fst entry)) fill_unverifiable) (\<lambda>_.
     bindE (number_at balances (fst entry)) (\<lambda>held.
     let updated = f_sub held (snd entry) in
     bindE (ensure (f_finite updated \<and> \<not> f_less updated f_minus_1e10) fill_unverifiable) (\<lambda>_.
     Inr (dset (fst entry) (PFloat (f_max (Fin 0) updated)) acc))))"

definition booked_balances :: "fill \<Rightarrow> string \<Rightarrow> string \<Rightarrow> pydict \<Rightarrow> pyexc + pydict" where
  "booked_balances f side symbol balances =
     bindE (to_float (dget_or balances symbol zero_float)) (\<lambda>held.
     let new_base = f_add held (base_delta f side) in
     bindE (ensure (\<not> f_less new_base f_minus_1e10) fill_unverifiable) (\<lambda>_.
     bindE (foldE (charge_third balances) [] (fl_third_fees f)) (\<lambda>updates.
     Inr (dupdate (dset symbol (PFloat (f_max (Fin 0) new_base)) balances) updates))))"

definition apply_fill_balances :: "nat \<Rightarrow> fill \<Rightarrow> string \<Rightarrow> string \<Rightarrow> pyfloat \<Rightarrow> (pyfloat \<times> pyfloat) run" where
  "apply_fill_balances b f side symbol u_total =
     bind (modify_ref b (booked_balances f side symbol)) (\<lambda>_.
     ret (f_add u_total (quote_delta f side), quote_delta f side))"

definition add_to_field :: "string \<Rightarrow> pyfloat \<Rightarrow> pydict \<Rightarrow> pyexc + pydict" where
  "add_to_field k x s = bindE (to_float (dget_or s k zero_float)) (\<lambda>held. Inr (dset k (PFloat (f_add held x)) s))"

definition raise_risk_base :: "pydict \<Rightarrow> pyexc + pydict" where
  "raise_risk_base s =
     bindE (float_or_zero (dget_or s ''daily_trend_equity_base'' zero_float)) (\<lambda>opening.
     bindE (float_or_zero (dget_or s ''daily_trend_risk_base_usdt'' (PFloat opening))) (\<lambda>risk.
     bindE (number_at s ''daily_trend_net_invested_usdt'') (\<lambda>net.
     Inr (dset ''daily_trend_risk_base_usdt'' (PFloat (f_max risk (f_add opening (f_max (Fin 0) net)))) s))))"

definition record_trend_fill :: "nat \<Rightarrow> fill \<Rightarrow> pyfloat \<Rightarrow> unit run" where
  "record_trend_fill a f delta =
     bind (modify_ref a (add_to_field ''daily_trend_cash_flow_usdt'' delta)) (\<lambda>_.
     bind (modify_ref a (add_to_field ''daily_trend_net_invested_usdt''
       (if f_less delta (Fin 0) then fl_quote f else f_neg (fl_quote f)))) (\<lambda>_.
     bind (modify_ref a raise_risk_base) (\<lambda>_.
     modify_ref a (add_to_field ''daily_trend_third_fee_usdt'' (fl_third_usdt f)))))"

text \<open>The balance snapshot of the state follows the booked balances; an accounted fill closes its submission.\<close>

definition snapshot_set :: "string \<Rightarrow> pyexc + pyval \<Rightarrow> pydict \<Rightarrow> pyexc + pydict" where
  "snapshot_set k q s = bindE q (\<lambda>v.
     Inr (dset ''last_balance_snapshot'' (PDict (dset k v (the_dict (dget s ''last_balance_snapshot'')))) s))"

definition fee_symbols :: "string \<Rightarrow> pydict \<Rightarrow> string list" where
  "fee_symbols symbol balances =
     filter (\<lambda>k. ends_with k ''USDT'' \<and> k \<noteq> symbol \<and> k \<noteq> ''BTCUSDT'') (map fst balances)"

definition close_accounted_fill :: "pydict \<Rightarrow> pyexc + pydict" where
  "close_accounted_fill s =
     bindE (submission_state_of s) (\<lambda>status.
     if status \<noteq> PStr ''FILLED_ACCOUNTING_PENDING'' then Inr s
     else bindE (account_known_fill_for_earn s) (\<lambda>s'. Inr (dset submission_key (PDict terminal_record) s')))"

definition prepare_accounting_state :: "nat \<Rightarrow> nat \<Rightarrow> string \<Rightarrow> string \<Rightarrow> pyfloat \<Rightarrow> unit run" where
  "prepare_accounting_state a b symbol base_asset u_total =
     bind (modify_ref a (\<lambda>s. Inr (dsetdefault ''last_balance_snapshot'' (PDict []) s))) (\<lambda>_.
     bind (read_ref a) (\<lambda>s.
     bind (read_ref b) (\<lambda>balances.
     bind (whenM (is_dict (dget s ''last_balance_snapshot''))
       (bind (modify_ref a (snapshot_set ''USDT'' (rounded (Inr u_total)))) (\<lambda>_.
        bind (modify_ref a (snapshot_set base_asset (rounded (number_at balances symbol)))) (\<lambda>_.
        fold_eff (\<lambda>_ k. modify_ref a (snapshot_set (drop_last 4 k) (rounded (number_at balances k)))) ()
          (fee_symbols symbol balances))))) (\<lambda>_.
     modify_ref a close_accounted_fill))))"

section \<open>Sending an order and booking its answer\<close>

text \<open>A notification: the key of the text and the values in it; routine ones tell whether they report an order.\<close>

datatype notice =
    Immediate string "(string \<times> pyval) list"
  | Routine bool string "(string \<times> pyval) list"

type_synonym notifier = "notice \<Rightarrow> bool run"

definition format_qty :: "env \<Rightarrow> string \<Rightarrow> pyfloat \<Rightarrow> pyfloat run" where
  "format_qty env symbol qty = bind (invoke env (FormatQty symbol qty)) (\<lambda>v. liftE (to_float v))"

text \<open>\<open>infra/binance_runtime.py\<close>: only the free Spot balance counts.\<close>

definition availability_failed :: pyexc where
  "availability_failed = ExecutionIntegrity ''asset_availability_failed''"

definition ensure_asset_available_runtime :: "env \<Rightarrow> string \<Rightarrow> pyfloat \<Rightarrow> bool run" where
  "ensure_asset_available_runtime env asset required =
     handle
       (bind (invoke env (Client ''get_asset_balance'' [(''asset'', PStr asset)])) (\<lambda>spot.
        bind (liftE (bindE (vsub spot ''free'') to_float)) (\<lambda>spot_free.
        bind (raise_if (\<not> f_finite spot_free \<or> f_less spot_free (Fin 0) \<or> \<not> f_finite required \<or> f_le required (Fin 0))
          availability_failed) (\<lambda>_.
        ret (f_le required spot_free)))))
       (\<lambda>e. throw (if is_integrity_error e then e else availability_failed))"

definition order_payload :: "string option \<Rightarrow> string \<Rightarrow> pyfloat \<Rightarrow> pydict run" where
  "order_payload prefix symbol qty = (case prefix of
     None \<Rightarrow> ret [(''symbol'', PStr symbol), (''quantity'', PFloat qty)]
   | Some p \<Rightarrow> bind (next_order_id p symbol) (\<lambda>i.
       ret [(''symbol'', PStr symbol), (''quantity'', PFloat qty), (''newClientOrderId'', PStr i)]))"

definition order_method :: "string \<Rightarrow> string" where
  "order_method side = (if side = ''SELL'' then ''order_market_sell'' else ''order_market_buy'')"

definition order_effect :: "string \<Rightarrow> string" where
  "order_effect side = (if side = ''SELL'' then ''order_sell'' else ''order_buy'')"

definition place_order ::
    "env \<Rightarrow> nat \<Rightarrow> string option \<Rightarrow> string \<Rightarrow> string \<Rightarrow> pyfloat \<Rightarrow> pyfloat \<Rightarrow> pydict \<Rightarrow> pyfloat \<Rightarrow> (fill \<times> pyfloat \<times> pyfloat) run" where
  "place_order env b prefix side symbol qty price prices u_total =
     bind (order_payload prefix symbol qty) (\<lambda>payload.
     bind (runtime_call_client env (order_method side) payload (order_effect side) 3 PNone) (\<lambda>response.
     bind (resolve_fill response symbol side qty price prices) (\<lambda>f.
     bind (apply_fill_balances b f side symbol u_total) (\<lambda>(u, delta).
     ret (f, u, delta)))))"

text \<open>
  \<open>except ExecutionIntegrityError: raise\<close> / \<open>except Exception\<close>: a failed order is announced and the
  cycle goes on with the cash known at that point.
\<close>

definition order_failed :: "notifier \<Rightarrow> notice \<Rightarrow> pyfloat \<Rightarrow> pyexc \<Rightarrow> pyfloat run" where
  "order_failed notify n u e = (if is_integrity_error e then throw e else bind (notify n) (\<lambda>_. ret u))"

text \<open>
  One guarded order: \<open>submit\<close> may decline it, \<open>settle\<close> books a filled one. The cash is rebound
  before the settlement, so a settlement that fails keeps the new cash.
\<close>

definition guarded_order ::
    "notifier \<Rightarrow> notice \<Rightarrow> pyfloat \<Rightarrow> (fill \<times> pyfloat \<times> pyfloat) option run \<Rightarrow> (fill \<Rightarrow> pyfloat \<Rightarrow> pyfloat \<Rightarrow> unit run) \<Rightarrow> pyfloat run" where
  "guarded_order notify n u submit settle =
     attempt submit (order_failed notify n u)
       (\<lambda>r. case r of
          None \<Rightarrow> ret u
        | Some booked \<Rightarrow> (case booked of (f, u', delta) \<Rightarrow>
            handle (bind (settle f u' delta) (\<lambda>_. ret u')) (order_failed notify n u')))"

definition place_available ::
    "env \<Rightarrow> nat \<Rightarrow> string \<Rightarrow> pyfloat \<Rightarrow> string option \<Rightarrow> string \<Rightarrow> string \<Rightarrow> pyfloat \<Rightarrow> pyfloat \<Rightarrow> pydict \<Rightarrow> pyfloat
       \<Rightarrow> (fill \<times> pyfloat \<times> pyfloat) option run" where
  "place_available env b asset required prefix side symbol qty price prices u =
     bind (ensure_asset_available_runtime env asset required) (\<lambda>available.
     bind (raise_if (\<not> available) (RuntimeErr ''asset_unavailable'')) (\<lambda>_.
     bind (place_order env b prefix side symbol qty price prices u) (\<lambda>booked. ret (Some booked))))"

definition closed_position :: pyval where
  "closed_position = PDict [(''is_holding'', PBool False), (''entry_price'', PFloat (Fin 0)), (''highest_price'', PFloat (Fin 0))]"

definition opened_position :: "pyfloat \<Rightarrow> pyval" where
  "opened_position average = PDict [(''is_holding'', PBool True), (''entry_price'', PFloat average), (''highest_price'', PFloat average)]"

definition book_trend_fill :: "state_config \<Rightarrow> nat \<Rightarrow> nat \<Rightarrow> string \<Rightarrow> string \<Rightarrow> pyval \<Rightarrow> fill \<Rightarrow> pyfloat \<Rightarrow> pyfloat \<Rightarrow> unit run" where
  "book_trend_fill c a b symbol base_asset position_value f u delta =
     bind (record_trend_fill a f delta) (\<lambda>_.
     bind (prepare_accounting_state a b symbol base_asset u) (\<lambda>_.
     modify_ref a (\<lambda>s. Inr (set_symbol_trade_state c s symbol position_value))))"

section \<open>The daily circuit breaker\<close>

definition sell_intent :: "string \<Rightarrow> string \<Rightarrow> pyfloat \<Rightarrow> pydict \<Rightarrow> pyval" where
  "sell_intent symbol reason qty extra =
     PDict ([(''category'', PStr ''trend''), (''action'', PStr ''sell''), (''symbol'', PStr symbol), (''reason'', PStr reason),
       (''quantity'', PFloat qty)] @ extra)"

definition base_asset_of :: "pydict \<Rightarrow> pyexc + string" where
  "base_asset_of config = bindE (dsub config ''base_asset'') (\<lambda>v. Inr (py_str v))"

definition circuit_sell ::
    "env \<Rightarrow> notifier \<Rightarrow> state_config \<Rightarrow> nat \<Rightarrow> nat \<Rightarrow> pydict \<Rightarrow> pyfloat \<Rightarrow> string \<times> pydict \<Rightarrow> pyfloat run" where
  "circuit_sell env notify c a b prices u entry = (case entry of (symbol, config) \<Rightarrow>
     bind (read_ref b) (\<lambda>balances.
     bind (liftE (number_at balances symbol)) (\<lambda>held.
     bind (liftE (number_at prices symbol)) (\<lambda>price.
     if f_le (f_mul held price) (Fin 10) then
       bind (record_gating_event ''circuit_breaker_sell_below_min_position'' ''trend'' (PStr symbol)
         (PDict [(''position_value_usdt'', PFloat (f_round 4 (f_mul held price)))])) (\<lambda>_. ret u)
     else
       bind (format_qty env symbol held) (\<lambda>qty.
       bind (append_report ''buy_sell_intents'' (sell_intent symbol ''daily_circuit_breaker'' qty [])) (\<lambda>_.
       guarded_order notify (Immediate ''circuit_breaker_sell_failed'' [(''symbol'', PStr symbol)]) u
         (if f_le qty (Fin 0) then
            bind (notify (Immediate ''circuit_breaker_sell_skipped'' [(''symbol'', PStr symbol)])) (\<lambda>_. ret None)
          else
            bind (liftE (base_asset_of config)) (\<lambda>asset.
            place_available env b asset qty None ''SELL'' symbol qty price prices u))
         (\<lambda>f u' delta. bind (liftE (base_asset_of config)) (\<lambda>asset.
            book_trend_fill c a b symbol asset closed_position f u' delta))))))))"

definition run_daily_circuit_breaker ::
    "env \<Rightarrow> notifier \<Rightarrow> state_config \<Rightarrow> nat \<Rightarrow> nat \<Rightarrow> (string \<times> pydict) list \<Rightarrow> pyfloat \<Rightarrow> pydict \<Rightarrow> pyfloat \<Rightarrow> pyfloat \<Rightarrow> bool run" where
  "run_daily_circuit_breaker env notify c a b universe u_total prices pnl limit =
     (if f_less limit pnl then ret False
      else
        bind (fold_eff (circuit_sell env notify c a b prices) u_total universe) (\<lambda>u.
        bind (modify_ref a (\<lambda>s. Inr (dset ''is_circuit_broken'' (PBool True) s))) (\<lambda>_.
        bind (read_ref b) (\<lambda>balances.
        bind (modify_ref a (\<lambda>s. bindE (build_balance_snapshot universe balances u) (\<lambda>snapshot.
          Inr (dset ''last_balance_snapshot'' (PDict snapshot) s)))) (\<lambda>_.
        bind (set_report ''circuit_breaker_triggered'' (PBool True)) (\<lambda>_.
        bind (runtime_set_trade_state env a ''daily_circuit_breaker'' None) (\<lambda>_.
        bind (notify (Immediate ''circuit_msg'' [(''pnl'', PFloat pnl)])) (\<lambda>_.
        ret True))))))))"

section \<open>Trend sells and buys\<close>

definition sell_trend ::
    "env \<Rightarrow> notifier \<Rightarrow> state_config \<Rightarrow> nat \<Rightarrow> nat \<Rightarrow> pydict \<Rightarrow> pydict \<Rightarrow> string \<Rightarrow> pyfloat \<Rightarrow> string \<times> pydict \<Rightarrow> pyfloat run" where
  "sell_trend env notify c a b sell_reasons prices today u entry = (case entry of (symbol, config) \<Rightarrow>
     bind (liftE (number_at prices symbol)) (\<lambda>price.
     let reason = strip (py_str (dget_or sell_reasons symbol (PStr []))) in
     if reason = [] then ret u
     else
       bind (read_ref a) (\<lambda>s.
       if should_skip_duplicate_trend_action c s symbol ''sell'' today then ret u
       else
         bind (read_ref b) (\<lambda>balances.
         bind (liftE (number_at balances symbol)) (\<lambda>held.
         bind (format_qty env symbol held) (\<lambda>qty.
         bind (append_report ''buy_sell_intents'' (sell_intent symbol reason qty [(''price'', PFloat price)])) (\<lambda>_.
         guarded_order notify (Immediate ''trend_sell_failed'' [(''symbol'', PStr symbol), (''reason'', PStr reason)]) u
           (if f_le qty (Fin 0) then
              bind (notify (Routine False ''trend_sell_skipped'' [(''symbol'', PStr symbol), (''reason'', PStr reason)])) (\<lambda>_. ret None)
            else
              bind (liftE (base_asset_of config)) (\<lambda>asset.
              place_available env b asset qty (Some ''T_SELL'') ''SELL'' symbol qty price prices u))
           (\<lambda>f u' delta.
              bind (liftE (base_asset_of config)) (\<lambda>asset.
              bind (book_trend_fill c a b symbol asset closed_position f u' delta) (\<lambda>_.
              bind (modify_ref a (\<lambda>s. Inr (record_trend_action c s symbol ''sell'' today))) (\<lambda>_.
              bind (runtime_set_trade_state env a (''trend_sell:'' @ symbol) None) (\<lambda>_.
              bind (notify (Routine True ''trend_sell'' [(''symbol'', PStr symbol), (''reason'', PStr reason), (''price'', PFloat price)])) (\<lambda>_.
              ret ())))))))))))))"

definition execute_trend_sells ::
    "env \<Rightarrow> notifier \<Rightarrow> state_config \<Rightarrow> nat \<Rightarrow> nat \<Rightarrow> (string \<times> pydict) list \<Rightarrow> pydict \<Rightarrow> pydict \<Rightarrow> pyfloat \<Rightarrow> string \<Rightarrow> pyfloat run" where
  "execute_trend_sells env notify c a b universe sell_reasons prices u_total today =
     fold_eff (sell_trend env notify c a b sell_reasons prices today) u_total universe"

definition f_985 :: pyfloat where "f_985 = fl (985 / 1000)"

definition buy_intent :: "string \<Rightarrow> pyfloat \<Rightarrow> pyfloat \<Rightarrow> pyval \<Rightarrow> pyexc + pyval" where
  "buy_intent symbol qty budget meta =
     bindE (bindE (vsub meta ''weight'') to_float) (\<lambda>weight.
     bindE (bindE (vsub meta ''relative_score'') to_float) (\<lambda>score.
     Inr (PDict [(''category'', PStr ''trend''), (''action'', PStr ''buy''), (''symbol'', PStr symbol), (''quantity'', PFloat qty),
       (''budget'', PFloat budget), (''weight'', PFloat weight), (''relative_score'', PFloat score)])))"

definition buy_trend ::
    "env \<Rightarrow> notifier \<Rightarrow> state_config \<Rightarrow> nat \<Rightarrow> nat \<Rightarrow> pydict \<Rightarrow> pydict \<Rightarrow> pydict \<Rightarrow> string \<Rightarrow> pyfloat \<Rightarrow> string \<Rightarrow> pyfloat run" where
  "buy_trend env notify c a b selected planned prices today u symbol =
     bind (liftE (number_at prices symbol)) (\<lambda>price.
     bind (liftE (dsub selected symbol)) (\<lambda>meta.
     bind (liftE (operand (dget_or planned symbol zero_float))) (\<lambda>budget.
     if f_le budget (Fin 15) then
       bind (record_gating_event ''trend_buy_below_min_budget'' ''trend'' (PStr symbol)
         (PDict [(''budget_usdt'', PFloat (f_round 4 budget))])) (\<lambda>_. ret u)
     else
       bind (read_ref a) (\<lambda>s.
       if should_skip_duplicate_trend_action c s symbol ''buy'' today then
         bind (record_gating_event ''trend_buy_duplicate_cooldown'' ''trend'' (PStr symbol) PNone) (\<lambda>_. ret u)
       else
         bind (liftE (f_div (f_mul budget f_985) price)) (\<lambda>wanted.
         bind (format_qty env symbol wanted) (\<lambda>qty.
         bind (liftE (buy_intent symbol qty budget meta)) (\<lambda>intent.
         bind (append_report ''buy_sell_intents'' intent) (\<lambda>_.
         let cost = f_mul qty price in
         guarded_order notify (Immediate ''trend_buy_failed'' [(''symbol'', PStr symbol), (''budget'', PFloat budget)]) u
           (if f_le qty (Fin 0) \<or> f_le cost (Fin 0) then
              bind (record_gating_event ''trend_buy_zero_order_size'' ''trend'' (PStr symbol)
                (PDict [(''budget_usdt'', PFloat (f_round 4 budget))])) (\<lambda>_.
              bind (notify (Routine False ''trend_buy_skipped'' [(''symbol'', PStr symbol), (''budget'', PFloat budget)])) (\<lambda>_. ret None))
            else place_available env b ''USDT'' cost (Some ''T_BUY'') ''BUY'' symbol qty price prices u)
           (\<lambda>f u' delta.
              bind (book_trend_fill c a b symbol (fl_base_asset f) (opened_position (fl_average f)) f u' delta) (\<lambda>_.
              bind (modify_ref a (\<lambda>s. Inr (record_trend_action c s symbol ''buy'' today))) (\<lambda>_.
              bind (runtime_set_trade_state env a (''trend_buy:'' @ symbol) None) (\<lambda>_.
              bind (notify (Routine True ''trend_buy'' [(''symbol'', PStr symbol), (''price'', PFloat price), (''budget'', PFloat budget)])) (\<lambda>_.
              ret ())))))))))))))"

definition execute_trend_buys ::
    "env \<Rightarrow> notifier \<Rightarrow> state_config \<Rightarrow> nat \<Rightarrow> nat \<Rightarrow> pydict \<Rightarrow> string list \<Rightarrow> pydict \<Rightarrow> pydict \<Rightarrow> pyfloat \<Rightarrow> string \<Rightarrow> pyfloat run" where
  "execute_trend_buys env notify c a b selected eligible planned prices u_total today =
     fold_eff (buy_trend env notify c a b selected planned prices today) u_total eligible"

section \<open>Why no candidate was selected\<close>

text \<open>\<open>value is None or value != value\<close>.\<close>

definition is_missing :: "pyval \<Rightarrow> bool" where
  "is_missing v = (case v of PNone \<Rightarrow> True | PFloat NaN \<Rightarrow> True | PDec (DecNaN signaling) \<Rightarrow> \<not> signaling | _ \<Rightarrow> False)"

definition missing_fields :: "pydict \<Rightarrow> string list \<Rightarrow> string list" where
  "missing_fields d ks = filter (\<lambda>k. is_missing (dget d k)) ks"

definition reason_if :: "bool \<Rightarrow> string \<Rightarrow> string list" where
  "reason_if b r = (if b then [r] else [])"

definition weighted :: "pyfloat \<Rightarrow> pyfloat \<Rightarrow> pyfloat \<Rightarrow> pyfloat" where
  "weighted x20 x60 x120 = f_add (f_add (f_mul (fl (1 / 2)) x20) (f_mul (fl (3 / 10)) x60)) (f_mul (fl (1 / 5)) x120)"

definition momentum_scores :: "pydict \<Rightarrow> pydict \<Rightarrow> pyfloat \<Rightarrow> pyfloat \<times> pyfloat" where
  "momentum_scores ind btc vol20 =
     (let roc = (\<lambda>k. safe_float (dget ind k)); rel = (\<lambda>k. f_sub (roc k) (safe_float (dget btc (''btc_'' @ k))));
          score = f_div (weighted (rel ''roc20'') (rel ''roc60'') (rel ''roc120'')) vol20
      in (case score of Inr x \<Rightarrow> x | Inl e \<Rightarrow> NaN, weighted (roc ''roc20'') (roc ''roc60'') (roc ''roc120'')))"

definition trend_fields :: "string list" where
  "trend_fields = [''sma20'', ''sma60'', ''sma200'', ''roc20'', ''roc60'', ''roc120'', ''vol20'']"

text \<open>The score divides by a volatility that was tested to be positive, so it never raises.\<close>

definition filter_reasons :: "pydict \<Rightarrow> pydict \<Rightarrow> pyval \<Rightarrow> bool \<Rightarrow> string list \<times> (pyfloat \<times> pyfloat) option" where
  "filter_reasons ind btc price_v btc_complete =
     (let price = safe_float price_v; vol20 = safe_float (dget ind ''vol20'');
          below = concat (map (\<lambda>k. reason_if (\<not> is_missing (dget ind k) \<and> f_le price (safe_float (dget ind k))) (''price_lte_'' @ k))
            [''sma20'', ''sma60'', ''sma200'']);
          flat = reason_if (\<not> is_missing (dget ind ''vol20'') \<and> f_le vol20 (Fin 0)) ''vol20_lte_zero'';
          scorable = (btc_complete \<and> missing_fields ind [''roc20'', ''roc60'', ''roc120'', ''vol20''] = [] \<and> f_less (Fin 0) vol20)
      in if \<not> scorable then (below @ flat, None)
         else (let (relative, momentum) = momentum_scores ind btc vol20
               in (below @ flat @ reason_if (f_le relative (Fin 0)) ''relative_score_lte_zero''
                     @ reason_if (f_le momentum (Fin 0)) ''abs_momentum_lte_zero'', Some (relative, momentum))))"

definition reasons_value :: "string list \<Rightarrow> pyval" where
  "reasons_value rs = PList (map PStr rs)"

definition candidate_diagnosis :: "pydict \<Rightarrow> pydict \<Rightarrow> pydict \<Rightarrow> string \<Rightarrow> pyval" where
  "candidate_diagnosis indicators btc prices symbol =
     (let missing_btc = (missing_fields btc [''btc_roc20'', ''btc_roc60'', ''btc_roc120''] \<noteq> []);
          opening = reason_if (\<not> truthy (dget_or btc ''regime_on'' (PBool True))) ''btc_regime_off''
            @ reason_if missing_btc ''missing_btc_momentum''
      in case dget indicators symbol of
           PDict ind \<Rightarrow>
             (let absent = missing_fields ind trend_fields;
                  known = opening @ reason_if (absent \<noteq> []) (''missing_fields:'' @ join '','' absent)
              in if is_missing (dget prices symbol) then PDict [(''reasons'', reasons_value (known @ [''missing_price'']))]
                 else
                   (let (found, scores) = filter_reasons ind btc (dget prices symbol) (\<not> missing_btc);
                        reasons = known @ found
                    in PDict ([(''reasons'', reasons_value (if reasons = [] then [''unknown_filter''] else reasons))]
                         @ (case scores of None \<Rightarrow> []
                            | Some (relative, momentum) \<Rightarrow> [(''relative_score'', PFloat (f_round 6 relative)),
                                (''abs_momentum'', PFloat (f_round 6 momentum))]))))
         | _ \<Rightarrow> PDict [(''reasons'', reasons_value (opening @ [''missing_indicators'']))])"

definition build_trend_candidate_filter_diagnostics :: "pyval list \<Rightarrow> pydict \<Rightarrow> pydict \<Rightarrow> pydict \<Rightarrow> pydict" where
  "build_trend_candidate_filter_diagnostics pool indicators btc prices =
     foldl (\<lambda>acc v. dset (py_str v) (candidate_diagnosis indicators btc prices (py_str v)) acc) [] pool"

section \<open>Rotation\<close>

definition set_report_in :: "string \<Rightarrow> string \<Rightarrow> pyval \<Rightarrow> unit run" where
  "set_report_in k sub v =
     bind (gets (\<lambda>w. dsub (rp_fields (rp w)) k)) (\<lambda>field.
     bind (liftE field) (\<lambda>inner.
     case inner of PDict d \<Rightarrow> set_report k (PDict (dset sub v d)) | _ \<Rightarrow> throw TypeError))"

text \<open>\<open>dict(v)\<close> and \<open>list(v)\<close> of an entry of the plan.\<close>

definition plan_dict :: "pydict \<Rightarrow> string \<Rightarrow> pyexc + pydict" where
  "plan_dict plan k = bindE (dsub plan k) (\<lambda>v. case v of PDict d \<Rightarrow> Inr d | _ \<Rightarrow> Inl TypeError)"

definition plan_list :: "pydict \<Rightarrow> string \<Rightarrow> pyexc + pyval list" where
  "plan_list plan k = bindE (dsub plan k) iterate"

text \<open>What a plan decides before and after the sells; \<open>resolve\<close> is the injected strategy evaluation.\<close>

definition announce_plan :: "pydict \<Rightarrow> pydict \<Rightarrow> pydict \<Rightarrow> pydict \<Rightarrow> pydict run" where
  "announce_plan plan indicators btc prices =
     bind (liftE (plan_list plan ''active_trend_pool'')) (\<lambda>pool.
     bind (liftE (plan_dict plan ''selected_candidates'')) (\<lambda>selected.
     bind (liftE (plan_dict plan ''sell_reasons'')) (\<lambda>sell_reasons.
     bind (liftE (case dget_or plan ''combo_diagnostics'' (PDict []) of PDict d \<Rightarrow> Inr d | _ \<Rightarrow> Inl TypeError)) (\<lambda>combo.
     bind (whenM (combo \<noteq> []) (diagnose ''combo'' (PDict combo))) (\<lambda>_.
     bind (set_report_in ''selected_symbols'' ''active_trend_pool'' (PList pool)) (\<lambda>_.
     bind (set_report_in ''selected_symbols'' ''selected_candidates'' (PList (map (PStr \<circ> fst) selected))) (\<lambda>_.
     bind (whenM (selected = [])
       (record_gating_event ''trend_no_selected_candidate'' ''trend'' PNone
         (PDict [(''active_trend_pool_size'', PInt (int (length pool))),
           (''candidate_filter_reasons'', PDict (build_trend_candidate_filter_diagnostics pool indicators btc prices))]))) (\<lambda>_.
     ret sell_reasons))))))))"

definition execute_trend_rotation ::
    "env \<Rightarrow> notifier \<Rightarrow> state_config \<Rightarrow> nat \<Rightarrow> nat \<Rightarrow> (pyfloat \<Rightarrow> pydict run) \<Rightarrow> (string \<times> pydict) list \<Rightarrow> pydict \<Rightarrow> pydict \<Rightarrow> pydict
       \<Rightarrow> pyfloat \<Rightarrow> string \<Rightarrow> bool \<Rightarrow> pyfloat run" where
  "execute_trend_rotation env notify c a b resolve universe indicators btc prices u_total today allow_new =
     bind (resolve u_total) (\<lambda>plan.
     bind (announce_plan plan indicators btc prices) (\<lambda>sell_reasons.
     bind (execute_trend_sells env notify c a b universe sell_reasons prices u_total today) (\<lambda>u.
     bind (resolve u) (\<lambda>post.
     bind (liftE (plan_dict post ''selected_candidates'')) (\<lambda>selected.
     bind (liftE (plan_list post ''eligible_buy_symbols'')) (\<lambda>eligible.
     bind (liftE (plan_dict post ''planned_trend_buys'')) (\<lambda>planned.
     bind (whenM (selected \<noteq> [] \<and> eligible = [])
       (record_gating_event ''trend_no_eligible_buy'' ''trend'' PNone
         (PDict [(''selected_candidate_count'', PInt (int (length selected))), (''allow_new_trend_entries'', PBool allow_new)]))) (\<lambda>_.
     execute_trend_buys env notify c a b selected (map the_str eligible) planned prices u today))))))))"

section \<open>BTC accumulation\<close>

definition resolve_btc_buy_multiplier :: "pyfloat \<Rightarrow> int" where
  "resolve_btc_buy_multiplier ahr =
     (if f_less ahr (fl (45 / 100)) then 5 else if f_less ahr (fl (8 / 10)) then 2 else if f_less ahr (fl (12 / 10)) then 1 else 0)"

definition resolve_btc_trim_sell_pct :: "pyfloat \<Rightarrow> pyfloat" where
  "resolve_btc_trim_sell_pct z =
     (if f_less (Fin 5) z then fl (1 / 2) else if f_less (Fin 4) z then fl (3 / 10) else fl (1 / 10))"

definition require_btc_strategy_attribution :: "unit run" where
  "require_btc_strategy_attribution = throw (ExecutionIntegrity ''btc_strategy_attribution_unavailable'')"

definition btc_gate :: "string \<Rightarrow> pyval \<Rightarrow> unit run" where
  "btc_gate gate detail = record_gating_event gate ''btc_dca'' PNone detail"

definition rounded4 :: "pyfloat \<Rightarrow> pyval" where
  "rounded4 x = PFloat (f_round 4 x)"

definition btc_buy_gates :: "nat \<Rightarrow> pyfloat \<Rightarrow> pyfloat \<Rightarrow> string \<Rightarrow> unit run" where
  "btc_buy_gates a ahr pool today =
     bind (read_ref a) (\<lambda>s.
     if resolve_btc_buy_multiplier ahr \<le> 0 then btc_gate ''btc_dca_buy_valuation_gate_off'' (PDict [(''ahr999'', rounded4 ahr)])
     else if f_le pool (Fin 15) then btc_gate ''btc_dca_buy_below_min_budget'' (PDict [(''dca_usdt_pool'', rounded4 pool)])
     else if dget s ''dca_last_buy_date'' = PStr today then btc_gate ''btc_dca_buy_duplicate_cooldown'' PNone
     else ret ())"

definition settle_btc :: "env \<Rightarrow> notifier \<Rightarrow> nat \<Rightarrow> nat \<Rightarrow> string \<Rightarrow> string \<Rightarrow> notice \<Rightarrow> fill \<Rightarrow> pyfloat \<Rightarrow> pyfloat \<Rightarrow> unit run" where
  "settle_btc env notify a b action today n f u delta =
     bind (prepare_accounting_state a b ''BTCUSDT'' ''BTC'' u) (\<lambda>_.
     bind (modify_ref a (\<lambda>s. Inr (dset (''dca_last_'' @ action @ ''_date'') (PStr today) s))) (\<lambda>_.
     bind (notify n) (\<lambda>_.
     runtime_set_trade_state env a (''btc_dca_'' @ action) None)))"

definition btc_buy :: "env \<Rightarrow> notifier \<Rightarrow> nat \<Rightarrow> nat \<Rightarrow> pydict \<Rightarrow> pyfloat \<Rightarrow> pyfloat \<Rightarrow> pyfloat \<Rightarrow> pyfloat \<Rightarrow> pyfloat \<Rightarrow> string \<Rightarrow> pyfloat run" where
  "btc_buy env notify a b prices u price ahr pool base_order today =
     (let budget = f_min pool (f_mul base_order (Fin (of_int (resolve_btc_buy_multiplier ahr)))) in
      bind (liftE (f_div (f_mul budget f_985) price)) (\<lambda>wanted.
      bind (format_qty env ''BTCUSDT'' wanted) (\<lambda>qty.
      bind (append_report ''btc_dca_intents'' (PDict [(''action'', PStr ''buy''), (''symbol'', PStr ''BTCUSDT''),
        (''quantity'', PFloat qty), (''budget'', PFloat budget), (''ahr999'', PFloat ahr)])) (\<lambda>_.
      let cost = f_mul qty price in
      guarded_order notify (Immediate ''btc_dca_buy_failed'' []) u
        (if f_le qty (Fin 0) \<or> f_le cost (Fin 0) then bind (notify (Routine False ''btc_dca_buy_skipped'' [])) (\<lambda>_. ret None)
         else place_available env b ''USDT'' cost (Some ''D_BUY'') ''BUY'' ''BTCUSDT'' qty price prices u)
        (settle_btc env notify a b ''buy'' today (Routine True ''btc_dca_buy'' [(''ahr999'', PFloat ahr), (''quantity'', PFloat qty)]))))))"

definition btc_trim :: "env \<Rightarrow> notifier \<Rightarrow> nat \<Rightarrow> nat \<Rightarrow> pydict \<Rightarrow> pyfloat \<Rightarrow> pyfloat \<Rightarrow> pyfloat \<Rightarrow> string \<Rightarrow> pyfloat run" where
  "btc_trim env notify a b prices u price z today =
     bind require_btc_strategy_attribution (\<lambda>_.
     bind (read_ref b) (\<lambda>balances.
     bind (liftE (number_at balances ''BTCUSDT'')) (\<lambda>held.
     let pct = resolve_btc_trim_sell_pct z in
     bind (format_qty env ''BTCUSDT'' (f_mul held pct)) (\<lambda>qty.
     bind (append_report ''btc_dca_intents'' (PDict [(''action'', PStr ''sell''), (''symbol'', PStr ''BTCUSDT''),
       (''quantity'', PFloat qty), (''sell_pct'', PFloat pct), (''zscore'', PFloat z)])) (\<lambda>_.
     guarded_order notify (Immediate ''btc_dca_trim_failed'' []) u
       (if f_le qty (Fin 0) then bind (notify (Routine False ''btc_dca_trim_skipped'' [])) (\<lambda>_. ret None)
        else place_available env b ''BTC'' qty (Some ''D_SELL'') ''SELL'' ''BTCUSDT'' qty price prices u)
       (settle_btc env notify a b ''sell'' today (Routine True ''btc_dca_trim'' [(''ratio'', PFloat pct), (''quantity'', PFloat qty)])))))))"

definition btc_trim_gates :: "nat \<Rightarrow> pyfloat \<Rightarrow> pyfloat \<Rightarrow> bool \<Rightarrow> string \<Rightarrow> unit run" where
  "btc_trim_gates a dca_val z triggered today =
     bind (read_ref a) (\<lambda>s.
     if triggered \<and> f_le dca_val (Fin 20) then
       btc_gate ''btc_dca_sell_below_min_position'' (PDict [(''dca_val'', rounded4 dca_val), (''zscore'', rounded4 z)])
     else if triggered \<and> dget s ''dca_last_sell_date'' = PStr today then
       btc_gate ''btc_dca_sell_duplicate_cooldown'' (PDict [(''zscore'', rounded4 z)])
     else ret ())"

definition execute_btc_dca_cycle ::
    "env \<Rightarrow> notifier \<Rightarrow> nat \<Rightarrow> nat \<Rightarrow> pydict \<Rightarrow> pyfloat \<Rightarrow> pyfloat \<Rightarrow> pyfloat \<Rightarrow> pydict \<Rightarrow> pyfloat \<Rightarrow> string \<Rightarrow> pyfloat run" where
  "execute_btc_dca_cycle env notify a b prices u_total pool dca_val snap base_order today =
     (if f_le pool (Fin 10) \<and> f_le dca_val (Fin 10) then
        bind (btc_gate ''btc_dca_pool_too_small'' (PDict [(''dca_usdt_pool'', rounded4 pool), (''dca_val'', rounded4 dca_val)])) (\<lambda>_. ret u_total)
      else
        bind (liftE (number_at prices ''BTCUSDT'')) (\<lambda>price.
        bind (liftE (operand (dget_or snap ''ahr999'' zero_float))) (\<lambda>ahr.
        bind (btc_buy_gates a ahr pool today) (\<lambda>_.
        bind (read_ref a) (\<lambda>s.
        bind
          (if 0 < resolve_btc_buy_multiplier ahr \<and> f_less (Fin 15) pool \<and> dget s ''dca_last_buy_date'' \<noteq> PStr today
           then btc_buy env notify a b prices u_total price ahr pool base_order today else ret u_total) (\<lambda>u.
        bind (liftE (operand (dget_or snap ''zscore'' zero_float))) (\<lambda>z.
        bind (liftE (operand (dget_or snap ''sell_trigger'' (PBool False)))) (\<lambda>trigger.
        bind (btc_trim_gates a dca_val z (f_less trigger z) today) (\<lambda>_.
        bind (read_ref a) (\<lambda>s'.
        if f_less trigger z \<and> f_less (Fin 20) dca_val \<and> dget s' ''dca_last_sell_date'' \<noteq> PStr today
        then btc_trim env notify a b prices u price z today else ret u))))))))))"

end
