(* ===== verification/Execution_Safety.thy ===== *)
theory Execution_Safety
  imports Trade_Execution
begin

text \<open>
  The safety of the orders of a cycle. The locale \<open>notice_channel\<close> states what
  \<open>application/execution_service.py\<close> relies on in the notifier it is given: sending a notice sends
  no order, and touches neither the shared dictionaries nor the pending funds. Its lemmas count the
  order requests of each operation and carry the write-ahead discipline of \<open>Order_Submission\<close> over a
  whole cycle. \<open>send_notice\<close>, the sender of \<open>runtime_support.py\<close> behind the notification facade with
  the unified notifications switched off, is the interpretation the properties rest on.
\<close>

section \<open>Counting order requests\<close>

text \<open>At most \<open>n\<close> requests follow, each covered by the record last made durable before it.\<close>

definition covered_upto :: "nat \<Rightarrow> world \<Rightarrow> world \<Rightarrow> bool" where
  "covered_upto n w w' = (\<exists>evs. trace w' = trace w @ evs \<and> order_requests evs \<le> n \<and> announced_from (durable_record (trace w)) evs)"

lemma covered_silent: "silent w w' \<Longrightarrow> covered_upto n w w'"
  by (auto simp: silent_def covered_upto_def no_request_count no_request_announced)

lemma covered_trans:
  assumes "covered_upto m w u" and "covered_upto n u v"
  shows "covered_upto (m + n) w v"
proof -
  obtain xs ys where "trace u = trace w @ xs" "trace v = trace u @ ys" "order_requests xs \<le> m" "order_requests ys \<le> n"
    "announced_from (durable_record (trace w)) xs" "announced_from (durable_record (trace u)) ys"
    using assms by (auto simp: covered_upto_def)
  then show ?thesis
    by (auto simp: covered_upto_def announced_from_append durable_record_def intro!: exI [of _ "xs @ ys"])
qed

named_theorems sends_intros \<open>how many order requests a computation sends\<close>

lemma sends_silent: "keeps silent m \<Longrightarrow> keeps (covered_upto n) m"
  by (simp add: keeps_def covered_silent)

lemma sends_bind: "keeps (covered_upto m) f \<Longrightarrow> (\<And>x. keeps (covered_upto n) (g x)) \<Longrightarrow> keeps (covered_upto (m + n)) (bind f g)"
  unfolding keeps_def bind_def
  by (auto split: prod.splits sum.splits)
    (metis add.right_neutral add.commute covered_silent covered_trans silent_same snd_conv)+

lemma sends_first [sends_intros]: "keeps silent f \<Longrightarrow> (\<And>x. keeps (covered_upto n) (g x)) \<Longrightarrow> keeps (covered_upto n) (bind f g)"
  using sends_bind [of 0 f n g] by (simp add: sends_silent)

lemma sends_last: "keeps (covered_upto n) f \<Longrightarrow> (\<And>x. keeps silent (g x)) \<Longrightarrow> keeps (covered_upto n) (bind f g)"
  using sends_bind [of n f 0 g] by (simp add: sends_silent)

lemma sends_attempt:
  "keeps (covered_upto n) f \<Longrightarrow> (\<And>e. keeps silent (h e)) \<Longrightarrow> (\<And>x. keeps silent (g x)) \<Longrightarrow> keeps (covered_upto n) (attempt f h g)"
  unfolding keeps_def attempt_def
  by (auto split: prod.splits sum.splits) (metis add.right_neutral covered_silent covered_trans snd_conv)+

lemma silent_liftE: "keeps silent (liftE r)"
  by (intro keeps_intros)

lemma sends_fold:
  "(\<And>b x. keeps (covered_upto 1) (f b x)) \<Longrightarrow> keeps (covered_upto (length xs)) (fold_eff f b xs)"
proof (induction xs arbitrary: b)
  case (Cons x xs)
  then show ?case
    using sends_bind [of 1 "f b x" "length xs" "\<lambda>b'. fold_eff f b' xs"] by simp
qed (simp add: sends_silent keeps_ret silent_refl)

lemma sends_if [sends_intros]:
  "(b \<Longrightarrow> keeps (covered_upto n) m) \<Longrightarrow> (\<not> b \<Longrightarrow> keeps (covered_upto n) k) \<Longrightarrow> keeps (covered_upto n) (if b then m else k)"
  by simp

lemma sends_case_prod [sends_intros]:
  "(\<And>a b. x = (a, b) \<Longrightarrow> keeps (covered_upto n) (f a b)) \<Longrightarrow> keeps (covered_upto n) (case x of (a, b) \<Rightarrow> f a b)"
  by (cases x) auto

lemma sends_let [sends_intros]: "(\<And>x. x = a \<Longrightarrow> keeps (covered_upto n) (f x)) \<Longrightarrow> keeps (covered_upto n) (let x = a in f x)"
  by simp

lemma sends_call:
  assumes "is_order_effect effect_type"
  shows "keeps (covered_upto 1) (runtime_call_client env m payload effect_type retries asset)"
  using runtime_call_client_covered [OF assms, of env m payload retries asset]
  by (auto simp: keeps_def one_covered_def covered_upto_def)

section \<open>The parts that send no order\<close>

lemma silent_modify [keeps_intros]: "keeps silent (modify_ref a f)"
  by (intro keeps_intros silent_same) simp

lemma silent_report [keeps_intros]:
  "keeps silent (set_report k v)" "keeps silent (append_report k v)" "keeps silent (diagnose k v)"
  "keeps silent (record_gating_event g c s d)"
  unfolding record_gating_event_def by (intro keeps_intros silent_same; simp)+

lemma silent_set_report_in [keeps_intros]: "keeps silent (set_report_in k s v)"
  unfolding set_report_in_def by (intro keeps_intros)

lemma not_order_format [simp]: "\<not> order_request (FormatQty s x)"
  by (simp add: order_request_def)

lemma silent_format [keeps_intros]: "keeps silent (format_qty env s x)"
  unfolding format_qty_def by (intro keeps_intros; simp)

lemma silent_available [keeps_intros]: "keeps silent (ensure_asset_available_runtime env a x)"
  unfolding ensure_asset_available_runtime_def by (intro keeps_intros; simp)

lemma silent_payload [keeps_intros]: "keeps silent (order_payload p s x)"
  unfolding order_payload_def next_order_id_def by (intro keeps_intros)

lemma silent_fill [keeps_intros]: "keeps silent (resolve_fill r s d q p ps)" "keeps silent (apply_fill_balances b f d s u)"
  unfolding resolve_fill_def apply_fill_balances_def by (intro keeps_intros)+

lemma silent_accounting [keeps_intros]: "keeps silent (prepare_accounting_state a b s asset u)"
  unfolding prepare_accounting_state_def by (intro keeps_intros)

lemma silent_book [keeps_intros]: "keeps silent (book_trend_fill c a b s asset v f u d)"
  unfolding book_trend_fill_def record_trend_fill_def by (intro keeps_intros)

lemma order_effect_is_order: "is_order_effect (order_effect side)"
proof -
  have "is_order_effect ''order_sell''" "is_order_effect ''order_buy''" by code_simp+
  then show ?thesis by (simp add: order_effect_def)
qed

lemma sends_place [sends_intros]: "keeps (covered_upto 1) (place_order env b p side s q x ps u)"
  unfolding place_order_def
  by (intro sends_first sends_last sends_call order_effect_is_order keeps_intros)

lemma sends_available [sends_intros]: "keeps (covered_upto 1) (place_available env b asset r p side s q x ps u)"
  unfolding place_available_def by (intro sends_first sends_last sends_place keeps_intros)

section \<open>Notices\<close>

definition notice_frame :: "world \<Rightarrow> world \<Rightarrow> bool" where
  "notice_frame w w' = (silent w w' \<and> heap w' = heap w \<and> rt_pending (rt w') = rt_pending (rt w) \<and> rt_trade_state (rt w') = rt_trade_state (rt w))"

locale notice_channel =
  fixes notify :: notifier
  assumes notice_kept: "keeps notice_frame (notify n)"
begin

lemma notify_silent: "keeps silent (notify n)"
  using notice_kept [of n] by (simp add: keeps_def notice_frame_def)

lemma notify_heap: "wp (notify n) (\<lambda>_ u. heap u = heap w) (\<lambda>_ u. heap u = heap w) w"
  using keeps_wp [OF notice_kept [of n], of w] by (rule wp_mono) (auto simp: notice_frame_def)

lemma failed_silent: "keeps silent (order_failed notify n u e)"
  unfolding order_failed_def by (intro keeps_intros notify_silent)

lemma guarded_sends:
  assumes "keeps (covered_upto 1) submit" and "\<And>f u d. keeps silent (settle f u d)"
  shows "keeps (covered_upto 1) (guarded_order notify n u submit settle)"
  unfolding guarded_order_def
  by (intro sends_attempt assms(1) keeps_intros failed_silent assms(2))

lemma skipped_silent: "keeps silent m \<Longrightarrow> keeps silent (bind m (\<lambda>_. bind (notify n) (\<lambda>_. ret None)))"
  by (intro keeps_intros notify_silent)

lemma circuit_sell_sends: "keeps (covered_upto 1) (circuit_sell env notify c a b prices u entry)"
  unfolding circuit_sell_def
  by (intro sends_intros guarded_sends sends_silent keeps_intros notify_silent)

lemma sell_trend_sends: "keeps (covered_upto 1) (sell_trend env notify c a b reasons prices today u entry)"
  unfolding sell_trend_def
  by (intro sends_intros guarded_sends sends_silent keeps_intros notify_silent)

lemma buy_trend_sends: "keeps (covered_upto 1) (buy_trend env notify c a b selected planned prices today u symbol)"
  unfolding buy_trend_def
  by (intro sends_intros guarded_sends sends_silent keeps_intros notify_silent)

end

context notice_channel
begin

lemma state_write_silent: "keeps silent (runtime_set_trade_state env a reason i)"
  by (rule silent_set_state)

lemma circuit_breaker_sends:
  "keeps (covered_upto (length universe)) (run_daily_circuit_breaker env notify c a b universe u prices pnl limit)"
  unfolding run_daily_circuit_breaker_def
  by (intro sends_if sends_last sends_fold circuit_sell_sends sends_silent keeps_intros notify_silent)

lemma trend_sells_send:
  "keeps (covered_upto (length universe)) (execute_trend_sells env notify c a b universe reasons prices u today)"
  unfolding execute_trend_sells_def by (intro sends_fold sell_trend_sends)

lemma trend_buys_send:
  "keeps (covered_upto (length eligible)) (execute_trend_buys env notify c a b selected eligible planned prices u today)"
  unfolding execute_trend_buys_def by (intro sends_fold buy_trend_sends)

lemma dca_sends: "keeps (covered_upto 2) (execute_btc_dca_cycle env notify a b prices u pool dca_val snap base today)"
proof -
  have settle: "keeps silent (settle_btc env notify a b action today n f u d)" for action n f u d
    unfolding settle_btc_def by (intro keeps_intros notify_silent)
  have buy: "keeps (covered_upto 1) (btc_buy env notify a b prices u price ahr pool base today)" for price ahr
    unfolding btc_buy_def by (intro sends_intros guarded_sends sends_silent keeps_intros notify_silent settle)
  have trim: "keeps (covered_upto 1) (btc_trim env notify a b prices u price z today)" for u price z
    unfolding btc_trim_def require_btc_strategy_attribution_def
    by (intro sends_intros guarded_sends sends_silent keeps_intros notify_silent settle)
  have two: "keeps (covered_upto 2) (bind f g)" if "keeps (covered_upto 1) f" "\<And>x. keeps (covered_upto 1) (g x)"
    for f :: "pyfloat run" and g :: "pyfloat \<Rightarrow> pyfloat run"
    using sends_bind [of 1 f 1 g, OF that] by (simp add: numeral_2_eq_2)
  have gates: "keeps silent (btc_gate g v)" "keeps silent (btc_buy_gates a ahr pool today)"
    "keeps silent (btc_trim_gates a dca_val z t today)" for g v ahr z t
    unfolding btc_gate_def btc_buy_gates_def btc_trim_gates_def by (intro keeps_intros)+
  show ?thesis
    unfolding execute_btc_dca_cycle_def
    apply (rule sends_if)
     apply (rule sends_silent)
     apply (intro keeps_intros gates)
    apply (rule sends_first, rule silent_liftE)+
    apply (rule sends_first, rule gates)
    apply (rule sends_first, rule silent_upd)
    apply (rule two)
     apply (rule sends_if, rule buy, intro sends_silent keeps_intros)
    apply (rule sends_first, rule silent_liftE)+
    apply (rule sends_first, rule gates)
    apply (rule sends_first, rule silent_upd)
    apply (rule sends_if, rule trim, intro sends_silent keeps_intros)
    done
qed

end

text \<open>The rotation: sells over the universe, then buys over the symbols the second plan offers.\<close>

definition offers_upto :: "nat \<Rightarrow> (pyfloat \<Rightarrow> pydict run) \<Rightarrow> bool" where
  "offers_upto n resolve = (\<forall>u. keeps silent (resolve u)
     \<and> returns (resolve u) (\<lambda>plan _. \<forall>xs. plan_list plan ''eligible_buy_symbols'' = Inr xs \<longrightarrow> length xs \<le> n))"

lemma covered_mono: "covered_upto m w w' \<Longrightarrow> m \<le> n \<Longrightarrow> covered_upto n w w'"
  by (auto simp: covered_upto_def intro: order.trans)

lemma sends_mono: "keeps (covered_upto m) f \<Longrightarrow> m \<le> n \<Longrightarrow> keeps (covered_upto n) f"
  by (auto simp: keeps_def intro: covered_mono)

lemma sends_after_plan:
  assumes "keeps silent f" and "returns f P" and "\<And>x w. P x w \<Longrightarrow> keeps (covered_upto n) (g x)"
  shows "keeps (covered_upto n) (bind f g)"
  unfolding keeps_def
proof
  fix w
  show "covered_upto n w (snd (bind f g w))"
  proof (cases "f w")
    case (Pair r u)
    have u: "covered_upto 0 w u" using keepsD [OF assms(1) Pair] by (rule covered_silent)
    show ?thesis
    proof (cases r)
      case (Inr x)
      with Pair assms(2) have "P x u" by (auto dest: returnsD)
      then have "covered_upto n u (snd (g x u))" using assms(3) by (auto simp: keeps_def)
      with u Inr Pair show ?thesis using covered_trans [of 0 w u n] by (simp add: bind_def)
    qed (use Pair u covered_mono in \<open>auto simp: bind_def\<close>)
  qed
qed

context notice_channel
begin

lemma rotation_sends:
  assumes "offers_upto n resolve"
  shows "keeps (covered_upto (length universe + n))
    (execute_trend_rotation env notify c a b resolve universe indicators btc prices u today allow_new)"
proof -
  have resolve: "keeps silent (resolve v)" for v
    using assms by (simp add: offers_upto_def)
  have announce: "keeps silent (announce_plan plan indicators btc prices)" for plan
    unfolding announce_plan_def by (intro keeps_intros)
  have buys: "keeps (covered_upto n) (bind (liftE (plan_list post ''eligible_buy_symbols'')) (\<lambda>eligible. bind (liftE (plan_dict post ''planned_trend_buys'')) (\<lambda>planned.
      bind (whenM (selected \<noteq> [] \<and> eligible = []) (gate eligible))
        (\<lambda>_. execute_trend_buys env notify c a b selected (map the_str eligible) planned prices v today))))"
    if "\<forall>xs. plan_list post ''eligible_buy_symbols'' = Inr xs \<longrightarrow> length xs \<le> n" "\<And>xs. keeps silent (gate xs)" for post selected gate v
    by (rule sends_after_plan [where P = "\<lambda>xs _. length xs \<le> n"],
        use that in \<open>auto simp: returns_def eff_simps split: sum.split
          intro!: sends_first keeps_intros sends_mono [OF trend_buys_send] intro: silent_report\<close>)
  have rest: "keeps (covered_upto n) (bind (resolve v) (\<lambda>post. bind (liftE (plan_dict post ''selected_candidates'')) (\<lambda>selected.
      bind (liftE (plan_list post ''eligible_buy_symbols'')) (\<lambda>eligible. bind (liftE (plan_dict post ''planned_trend_buys'')) (\<lambda>planned.
      bind (whenM (selected \<noteq> [] \<and> eligible = []) (gate selected eligible))
        (\<lambda>_. execute_trend_buys env notify c a b selected (map the_str eligible) planned prices v today))))))"
    if "\<And>x xs. keeps silent (gate x xs)" for gate :: "pydict \<Rightarrow> pyval list \<Rightarrow> unit run" and v
    using assms that
    by (intro sends_after_plan [OF resolve, where P = "\<lambda>plan _. \<forall>xs. plan_list plan ''eligible_buy_symbols'' = Inr xs \<longrightarrow> length xs \<le> n"]
        sends_first buys keeps_intros) (simp_all add: offers_upto_def)
  show ?thesis
    unfolding execute_trend_rotation_def
    by (rule sends_first [OF resolve], rule sends_first [OF announce], rule sends_bind [OF trend_sells_send])
      (intro rest silent_report)
qed

end

section \<open>The sender of the program\<close>

text \<open>
  \<open>notifications/routing.py\<close> with the unified notifications off: both kinds of notice reach
  \<open>runtime_notify\<close>, which sends them as urgent ones. \<open>render\<close> is the translated text.
\<close>

definition send_notice :: "env \<Rightarrow> (notice \<Rightarrow> string) \<Rightarrow> notifier" where
  "send_notice env render n = legacy_runtime_notify env (render n) True"

lemma notice_frame_rel [keeps_intros]: "reflp notice_frame" "transp notice_frame"
  using silent_refl silent_trans by (auto simp: reflp_def transp_def notice_frame_def)

lemma notice_frame_invoke [keeps_intros]: "\<not> order_request c \<Longrightarrow> keeps notice_frame (invoke env c)"
  by (auto simp: keeps_def notice_frame_def silent_def invoke_def no_request_def)

lemma notice_frame_rp [keeps_intros]: "keeps notice_frame (upd_rp f)"
  by (auto simp: keeps_def notice_frame_def upd_rp_def update_def intro: silent_same)

lemma notice_frame_rt [keeps_intros]:
  "(\<And>r. rt_pending (f r) = rt_pending r \<and> rt_trade_state (f r) = rt_trade_state r) \<Longrightarrow> keeps notice_frame (upd_rt f)"
  by (auto simp: keeps_def notice_frame_def upd_rt_def update_def intro: silent_same)

lemma legacy_notice_kept: "keeps notice_frame (legacy_runtime_notify env message urgent)"
  unfolding legacy_runtime_notify_def env_flag_def add_notification_def record_side_effect_def
  by (intro keeps_intros notice_frame_invoke notice_frame_rt) simp_all

interpretation notices: notice_channel "send_notice env render" for env render
  by unfold_locales (simp add: send_notice_def legacy_notice_kept)

section \<open>The mode of a run never changes\<close>

definition same_mode :: "world \<Rightarrow> world \<Rightarrow> bool" where
  "same_mode w w' = (rt_dry_run (rt w') = rt_dry_run (rt w) \<and> rt_permitted (rt w') = rt_permitted (rt w)
     \<and> (\<exists>evs. trace w' = trace w @ evs))"

lemma mode_rel [keeps_intros]: "reflp same_mode" "transp same_mode"
  by (auto simp: reflp_def transp_def same_mode_def)

lemma mode_steps [keeps_intros]:
  "keeps same_mode (invoke env c)" "keeps same_mode (upd_rp g)" "keeps same_mode (write_ref a d)" "keeps same_mode (alloc d)"
  "keeps same_mode (read_ref a)"
  by (simp_all add: keeps_def same_mode_def invoke_def upd_rp_def update_def write_ref_def alloc_def read_ref_def gets_def)

lemma mode_rt [keeps_intros]:
  "(\<And>r. rt_dry_run (f r) = rt_dry_run r \<and> rt_permitted (f r) = rt_permitted r) \<Longrightarrow> keeps same_mode (upd_rt f)"
  by (simp add: keeps_def same_mode_def upd_rt_def update_def)

lemma mode_quiet [keeps_intros]: "keeps same_mode (quiet env c)"
  unfolding quiet_def by (intro keeps_intros)

lemma mode_modify [keeps_intros]: "keeps same_mode (modify_ref a f)"
  by (intro keeps_intros) (simp add: same_mode_def)

lemma mode_records [keeps_intros]:
  "keeps same_mode (record_side_effect t m p b)" "keeps same_mode (record_order_response v)"
  "keeps same_mode record_order_submission_attempt" "keeps same_mode record_order_transport_uncertainty"
  "keeps same_mode record_order_failure"
  unfolding record_side_effect_def record_order_response_def record_order_submission_attempt_def
    record_order_transport_uncertainty_def record_order_failure_def bump_def
  by (intro keeps_intros; simp)+

lemma mode_report [keeps_intros]:
  "keeps same_mode (set_report k v)" "keeps same_mode (append_report k v)" "keeps same_mode (diagnose k v)"
  "keeps same_mode (record_gating_event g c s d)"
  unfolding record_gating_event_def by (intro keeps_intros; simp add: same_mode_def)+

lemma mode_require [keeps_intros]: "keeps same_mode (require_runtime_state_owner env)"
  unfolding require_runtime_state_owner_def by (intro keeps_intros; simp)

lemma mode_persist_runtime [keeps_intros]: "keeps same_mode (persist_runtime_state env d i)"
  unfolding persist_runtime_state_def write_runtime_state_def by (intro keeps_intros; simp)

lemma mode_persist [keeps_intros]: "keeps same_mode (persist_order_submission_state env a r)"
  unfolding persist_order_submission_state_def by (intro keeps_intros; simp)

lemma mode_load [keeps_intros]: "keeps same_mode (load_order_submission_state env)"
  unfolding load_order_submission_state_def by (intro keeps_intros; simp)

lemma mode_complete [keeps_intros]: "keeps same_mode (complete_order_response env a r b)"
  unfolding complete_order_response_def require_filled_order_response_def by (intro keeps_intros; simp)

lemma mode_reconcile [keeps_intros]: "keeps same_mode (reconcile_uncertain_order env s i)"
  unfolding reconcile_uncertain_order_def by (intro keeps_intros)

lemma mode_accept [keeps_intros]: "keeps same_mode (accept_order_response env a assoc r m c)"
  unfolding accept_order_response_def by (intro keeps_intros)

lemma keeps_case_exc:
  "(\<And>m. keeps R (f m)) \<Longrightarrow> keeps R n \<Longrightarrow> keeps R (case e of OrderReconciliation m \<Rightarrow> f m | _ \<Rightarrow> n)"
  by (cases e) auto

lemma mode_recover [keeps_intros]: "keeps same_mode (recover_order env m p t a assoc i n e)"
  unfolding recover_order_def by (intro keeps_intros keeps_case_exc)

lemma mode_attempts [keeps_intros]: "keeps same_mode (client_attempts env m p t order k n left)"
  by (induction left arbitrary: n) (auto intro!: keeps_intros split: option.split)

lemma mode_resume [keeps_intros]: "keeps same_mode (resume_unknown_order env m p b a r)"
  unfolding resume_unknown_order_def by (intro keeps_intros; simp)

lemma mode_earn [keeps_intros]: "keeps same_mode (submit_earn_move env m p t v a)"
  unfolding submit_earn_move_def submit_earn_def earn_preflight_def deny_uncertain_earn_def announce_submission_def
    confirm_funding_settlement_def
  by (intro keeps_intros; simp)

lemma mode_call [keeps_intros]: "keeps same_mode (runtime_call_client env m p t n v)"
  unfolding runtime_call_client_def submit_mutation_def submit_order_def announce_submission_def suppressed_call_def
  by (intro keeps_intros; simp)

lemma mode_set_state [keeps_intros]: "keeps same_mode (runtime_set_trade_state env a r i)"
  unfolding runtime_set_trade_state_def drop_session_def by (intro keeps_intros; simp)

lemma mode_orders [keeps_intros]:
  "keeps same_mode (format_qty env s x)" "keeps same_mode (ensure_asset_available_runtime env asset x)"
  "keeps same_mode (place_order env b p s side q x ps u)" "keeps same_mode (prepare_accounting_state a b s asset u)"
  "keeps same_mode (book_trend_fill c a b s asset v f u d)"
  unfolding format_qty_def ensure_asset_available_runtime_def place_order_def order_payload_def next_order_id_def
    resolve_fill_def apply_fill_balances_def prepare_accounting_state_def book_trend_fill_def record_trend_fill_def
  by (intro keeps_intros; simp)+

lemma mode_notice [keeps_intros]: "keeps same_mode (send_notice env render n)"
  unfolding send_notice_def legacy_runtime_notify_def env_flag_def add_notification_def
  by (intro keeps_intros; simp)

lemma mode_guarded [keeps_intros]:
  "keeps same_mode submit \<Longrightarrow> (\<And>f u d. keeps same_mode (settle f u d))
    \<Longrightarrow> keeps same_mode (guarded_order (send_notice env render) n u submit settle)"
  unfolding guarded_order_def order_failed_def by (intro keeps_intros)

lemma mode_circuit_sell [keeps_intros]: "keeps same_mode (circuit_sell env (send_notice env render) c a b prices u entry)"
  unfolding circuit_sell_def place_available_def by (intro keeps_intros)

section \<open>The circuit breaker\<close>

definition live :: "world \<Rightarrow> bool" where
  "live w = (\<not> rt_dry_run (rt w) \<and> rt_permitted (rt w))"

text \<open>What a state write and the notices after it leave behind: the dictionaries, and an acknowledged save.\<close>

definition state_saved :: "nat \<Rightarrow> world \<Rightarrow> world \<Rightarrow> bool" where
  "state_saved a w w' = (heap w' = heap w \<and> same_mode w w' \<and> (live w \<longrightarrow> acknowledged (heap w a) None w'))"

lemma set_state_saved: "wp (runtime_set_trade_state env a reason None) (\<lambda>_. state_saved a w) (\<lambda>_ _. True) w"
proof (cases "live w")
  case True
  then have "wp (runtime_set_trade_state env a reason None)
      (\<lambda>_ u. heap u = heap w \<and> acknowledged (heap w a) None u) (\<lambda>_ _. True) w"
    by (intro wp_mono [OF state_write_steps]) (auto simp: live_def)
  from wp_conj [OF this keeps_wp [OF mode_set_state]] show ?thesis
    by (rule wp_mono) (auto simp: state_saved_def)
next
  case False
  from wp_conj [OF state_write_heap keeps_wp [OF mode_set_state]] show ?thesis
    by (rule wp_mono) (auto simp: state_saved_def False)
qed

lemma saved_after_notice:
  assumes "state_saved a w u"
  shows "wp (send_notice env render n) (\<lambda>_. state_saved a w) (\<lambda>_ _. True) u"
proof -
  have ack: "acknowledged d i v" if "acknowledged d i u" "same_mode u v" for d i v
    using that by (auto simp: acknowledged_def same_mode_def)
  have trans: "same_mode w v" if "same_mode u v" for v
    using assms that mode_rel(2) by (auto simp: state_saved_def dest: transpD)
  from wp_conj [OF notices.notify_heap keeps_wp [OF mode_notice]] show ?thesis
    by (rule wp_mono) (use assms in \<open>auto simp: state_saved_def ack trans\<close>)
qed

lemma circuit_breaker_steps:
  "wp (run_daily_circuit_breaker env (send_notice env render) c a b universe u prices pnl limit)
     (\<lambda>r t. if r then \<not> f_less limit pnl \<and> dget (heap t a) ''is_circuit_broken'' = PBool True
            \<and> (live w \<longrightarrow> acknowledged (heap t a) None t)
        else f_less limit pnl \<and> t = w) (\<lambda>_ _. \<not> f_less limit pnl) w"
proof (cases "f_less limit pnl")
  case False
  have sells: "wp (fold_eff (circuit_sell env (send_notice env render) c a b prices) u universe) (\<lambda>_. same_mode w) (\<lambda>_. same_mode w) w"
    by (intro keeps_wp keeps_intros)
  have last: "wp (runtime_set_trade_state env a reason None) (\<lambda>_. wp (bind (send_notice env render n) (\<lambda>_. ret True)) Q E) E v"
    if "same_mode w v" "dget (heap v a) ''is_circuit_broken'' = PBool True" "\<And>e t. E e t"
      "\<And>t. dget (heap t a) ''is_circuit_broken'' = PBool True \<Longrightarrow> (live w \<longrightarrow> acknowledged (heap t a) None t) \<Longrightarrow> Q True t"
    for reason n v and Q :: "bool \<Rightarrow> world \<Rightarrow> bool" and E :: "pyexc \<Rightarrow> world \<Rightarrow> bool"
  proof (rule wp_mono [OF set_state_saved])
    note mode = that(1) and broken = that(2) and done_Q = that(4)
    fix x t assume saved: "state_saved a v t"
    have "Q True t'" if "state_saved a v t'" for t'
      using that mode broken
      by (intro done_Q) (auto simp: state_saved_def live_def same_mode_def)
    then show "wp (bind (send_notice env render n) (\<lambda>_. ret True)) Q E t"
      unfolding wp_bind by (intro wp_mono [OF saved_after_notice [OF saved]]) (auto simp: wp_ret that(3))
  qed (rule that(3))
  show ?thesis
    using False
    by (auto simp: run_daily_circuit_breaker_def eff_simps set_report_def result_simps split: sum.split
        intro!: wp_mono [OF sells] last) (auto simp: same_mode_def)
qed (simp add: run_daily_circuit_breaker_def eff_simps)

section \<open>Which method an order call uses\<close>

definition sends_only :: "string \<Rightarrow> world \<Rightarrow> world \<Rightarrow> bool" where
  "sends_only method w w' = (\<exists>evs. trace w' = trace w @ evs
     \<and> list_all (\<lambda>e. order_request (fst e) \<longrightarrow> (\<exists>kw. fst e = Client method kw)) evs)"

lemma only_rel [keeps_intros]: "reflp (sends_only m)" "transp (sends_only m)"
  by (auto simp: reflp_def transp_def sends_only_def)

lemma only_silent: "keeps silent f \<Longrightarrow> keeps (sends_only m) f"
  by (auto simp: keeps_def silent_def sends_only_def no_request_def list_all_iff) blast

lemma only_request [keeps_intros]: "keeps (sends_only m) (invoke env (Client m kw))"
  by (simp add: keeps_def sends_only_def invoke_def)

lemma only_attempts: "keeps (sends_only m) (client_attempts env m p t order k n left)"
proof (induction left arbitrary: n)
  case 0
  show ?case by (auto intro!: only_silent keeps_intros)
next
  case (Suc left)
  have recover: "keeps (sends_only m) (recover_order env m p t a assoc i n e)" for a assoc i e
    by (intro only_silent keeps_intros)
  have others: "keeps (sends_only m) (quiet env Pause)" "keeps (sends_only m) (record_side_effect t m pl True)"
    "keeps (sends_only m) (accept_order_response env a assoc r mis c)" for pl a assoc r mis c
    by (intro only_silent keeps_intros; simp)+
  show ?case
  proof (cases order)
    case None
    with Suc.IH [of "Suc n"] show ?thesis by (auto intro!: keeps_intros others)
  next
    case (Some sub)
    then show ?thesis by (cases sub) (auto intro!: keeps_intros recover others)
  qed
qed

lemma only_call:
  assumes "is_order_effect t"
  shows "keeps (sends_only m) (runtime_call_client env m p t n v)"
proof -
  have not_earn: "earn_method_by_effect t \<noteq> Some m"
    using assms by (auto simp: is_order_effect_def earn_method_by_effect_def split: if_splits)
  have pre: "keeps (sends_only m) (announce_submission env m pl False PNone a r)" "keeps (sends_only m) (quiet env Pause)"
    "keeps (sends_only m) (quiet env (OrderIdentity c))" "keeps (sends_only m) (suppressed_call m p t)"
    "keeps (sends_only m) (require_runtime_state_owner env)" "keeps (sends_only m) (load_order_submission_state env)"
    "keeps (sends_only m) (resume_unknown_order env m p False a r)" "keeps (sends_only m) (persist_order_submission_state env a r)"
    for pl a r c
    by (intro only_silent keeps_intros; simp)+
  show ?thesis
    unfolding runtime_call_client_def submit_mutation_def submit_order_def Let_def
    using not_earn by (simp only: if_False simp_thms) (intro keeps_intros pre only_attempts)
qed

lemma only_place [keeps_intros]: "keeps (sends_only (order_method side)) (place_available env b asset r p side s q x ps u)"
proof -
  have parts: "keeps (sends_only m) (ensure_asset_available_runtime env asset r)" "keeps (sends_only m) (order_payload p s q)"
    "keeps (sends_only m) (resolve_fill v s side q x ps)" "keeps (sends_only m) (apply_fill_balances b f side s u)" for m v f
    by (intro only_silent keeps_intros)+
  show ?thesis
    unfolding place_available_def place_order_def
    by (intro keeps_intros parts only_call order_effect_is_order)
qed

context notice_channel
begin

lemma only_guarded:
  assumes "keeps (sends_only m) submit" and "\<And>f u d. keeps silent (settle f u d)"
  shows "keeps (sends_only m) (guarded_order notify n u submit settle)"
  unfolding guarded_order_def
  by (intro keeps_intros assms(1) only_silent failed_silent assms(2))

lemma settle_silent: "keeps silent (settle_btc env notify a b action today n f u d)"
  unfolding settle_btc_def by (intro keeps_intros notify_silent)

lemma btc_buy_only_buys:
  "keeps (sends_only ''order_market_buy'') (btc_buy env notify a b prices u price ahr pool base today)"
proof -
  have place: "keeps (sends_only ''order_market_buy'') (place_available env b asset r p ''BUY'' s q x ps v)" for asset r p s q x ps v
    using only_place [of "''BUY''"] by (simp add: order_method_def)
  show ?thesis
    unfolding btc_buy_def Let_def
    by (intro keeps_bind keeps_if only_rel only_guarded place settle_silent) (intro only_silent keeps_intros notify_silent)+
qed

text \<open>The trim cannot sell: its first step raises.\<close>

lemma dca_only_buys:
  "keeps (sends_only ''order_market_buy'') (execute_btc_dca_cycle env notify a b prices u pool dca_val snap base today)"
proof -
  have trim: "keeps (sends_only ''order_market_buy'') (btc_trim env notify a b prices u price z today)" for u price z
    by (simp add: btc_trim_def require_btc_strategy_attribution_def keeps_def bind_def throw_def sends_only_def)
  have gates: "keeps (sends_only m) (btc_gate g v)" "keeps (sends_only m) (btc_buy_gates a ahr pool today)"
    "keeps (sends_only m) (btc_trim_gates a dca_val z t today)" "keeps (sends_only m) (read_ref a)" for m g v ahr z t
    unfolding btc_gate_def btc_buy_gates_def btc_trim_gates_def by (intro only_silent keeps_intros)+
  show ?thesis
    unfolding execute_btc_dca_cycle_def
    by (intro keeps_intros gates btc_buy_only_buys trim)
qed

end

definition trim_wanted :: "pydict \<Rightarrow> pyfloat \<Rightarrow> pydict \<Rightarrow> string \<Rightarrow> bool" where
  "trim_wanted snap dca_val s today =
     (case (operand (dget_or snap ''zscore'' zero_float), operand (dget_or snap ''sell_trigger'' (PBool False))) of
        (Inr z, Inr t) \<Rightarrow> f_less t z \<and> f_less (Fin 20) dca_val \<and> dget s ''dca_last_sell_date'' \<noteq> PStr today
      | _ \<Rightarrow> False)"

lemma above_20: "f_less (Fin 20) x \<Longrightarrow> \<not> f_le x (Fin 10)"
  by (cases x) (auto simp: f_le_def f_eq_def)

lemma dca_never_trims:
  "returns (execute_btc_dca_cycle env notify a b prices u pool dca_val snap base today)
     (\<lambda>_ t. \<not> trim_wanted snap dca_val (heap t a) today)"
proof -
  have trim: "wp (btc_trim env notify a b prices v price z today) Q (\<lambda>_ _. True) t" for v price z t and Q :: "pyfloat \<Rightarrow> world \<Rightarrow> bool"
    by (simp add: btc_trim_def require_btc_strategy_attribution_def eff_simps)
  have gates: "wp (btc_trim_gates a dca_val z t today) (\<lambda>_ v. heap v = heap w) (\<lambda>_ _. True) w" for z t w
    by (simp add: btc_trim_gates_def btc_gate_def record_gating_event_def eff_simps split: sum.split)
  note buy = wp_trivial [of "btc_buy env notify a b prices u price ahr pool base today" for price ahr]
    and buy_gates = wp_trivial [of "btc_buy_gates a ahr pool today" for ahr] and gate = wp_trivial [of "btc_gate g v" for g v]
  show ?thesis
    unfolding returns_def
  proof
    fix w
    show "wp (execute_btc_dca_cycle env notify a b prices u pool dca_val snap base today)
      (\<lambda>_ t. \<not> trim_wanted snap dca_val (heap t a) today) (\<lambda>_ _. True) w"
      unfolding execute_btc_dca_cycle_def
      by (auto simp: eff_simps trim trim_wanted_def split: sum.split dest: above_20
          intro!: wp_mono [OF buy] wp_mono [OF buy_gates] wp_mono [OF gate] wp_mono [OF gates])
  qed
qed

section \<open>Properties\<close>

text \<open>
  C18: write-ahead over a whole rotation. Whatever the broker, the store and the network answer, and
  whatever plan the strategy returns, a rotation sends at most one order per symbol of the universe
  and per symbol it offers to buy, and each is preceded by the durable record of its own identity
  and symbol; failed orders, raised errors and notices in between do not change that.
\<close>

theorem rotation_orders_announced:
  assumes "offers_upto n resolve" and "announced (trace w)"
    and "execute_trend_rotation env (send_notice env render) c a b resolve universe indicators btc prices u today allow_new w = (result, w')"
  shows "announced (trace w') \<and> order_requests (trace w') \<le> order_requests (trace w) + length universe + n"
  using keepsD [OF notices.rotation_sends [OF assms(1)] assms(3)] assms(2)
  by (auto simp: covered_upto_def announced_append)

text \<open>
  C19: the daily circuit breaker. It lets the cycle go on only while the daily profit is above the
  limit, and then it did nothing at all; every other figure, NaN included, sells the universe with
  at most one announced order per symbol. Once it reports a break the shared state is marked broken,
  and outside a dry run the store has acknowledged exactly that state.
\<close>

theorem circuit_breaker_trips:
  assumes "announced (trace w)"
    and "run_daily_circuit_breaker env (send_notice env render) c a b universe u prices pnl limit w = (result, w')"
  shows "(result = Inr False \<longrightarrow> f_less limit pnl \<and> w' = w)
    \<and> (result = Inr True \<longrightarrow> \<not> f_less limit pnl \<and> dget (heap w' a) ''is_circuit_broken'' = PBool True
         \<and> (live w \<longrightarrow> acknowledged (heap w' a) None w'))
    \<and> announced (trace w') \<and> order_requests (trace w') \<le> order_requests (trace w) + length universe"
proof -
  have "announced (trace w')" "order_requests (trace w') \<le> order_requests (trace w) + length universe"
    using keepsD [OF notices.circuit_breaker_sends assms(2)] assms(1) by (auto simp: covered_upto_def announced_append)
  then show ?thesis
    using wp_result [OF circuit_breaker_steps assms(2)] by (auto split: sum.splits)
qed

text \<open>
  C20: the BTC accumulation only buys. Every order it sends is an announced market buy; a cycle in
  which a trim is due (the score above its trigger, enough BTC, no sale today) never returns: it
  raises, because no strategy-owned inventory source exists.
\<close>

theorem btc_cycle_only_buys:
  assumes "announced (trace w)"
    and "execute_btc_dca_cycle env (send_notice env render) a b prices u pool dca_val snap base today w = (result, w')"
  shows "announced (trace w') \<and> (\<forall>v. result = Inr v \<longrightarrow> \<not> trim_wanted snap dca_val (heap w' a) today)
    \<and> (\<exists>evs. trace w' = trace w @ evs \<and> list_all (\<lambda>e. order_request (fst e) \<longrightarrow> (\<exists>kw. fst e = Client ''order_market_buy'' kw)) evs)"
  using keepsD [OF notices.dca_sends assms(2)] keepsD [OF notices.dca_only_buys assms(2)] returnsD [OF dca_never_trims] assms
  by (auto simp: covered_upto_def announced_append sends_only_def)

section \<open>Concrete runs\<close>

text \<open>A plan that offers nothing, a universe of one symbol and a balance too small to sell.\<close>

definition sample_plan :: pydict where
  "sample_plan = [(''active_trend_pool'', PList [PStr ''ETHUSDT'']), (''selected_candidates'', PDict []), (''sell_reasons'', PDict []),
     (''eligible_buy_symbols'', PList []), (''planned_trend_buys'', PDict [])]"

definition cycle_world :: world where
  "cycle_world = (sample_world [(''ETHUSDT'', PInt 0), (''USDT'', PInt 9)])
     \<lparr>rp := sample_report\<lparr>rp_fields := [(''selected_symbols'', PDict []), (''buy_sell_intents'', PList []), (''btc_dca_intents'', PList [])]\<rparr>\<rparr>"

lemma rotation_orders_announced_witness:
  "announced (trace (snd (execute_trend_rotation filling_env (send_notice filling_env (\<lambda>_. ''text'')) sample_state_config 0 1 (\<lambda>_. ret sample_plan)
     [(''ETHUSDT'', [])] [] [] [(''ETHUSDT'', PInt 2)] (Fin 9) ''2026-01-01'' True cycle_world)))"
proof -
  have "offers_upto 0 (\<lambda>_. ret sample_plan)"
    by (simp add: offers_upto_def keeps_ret silent_refl returns_def eff_simps sample_plan_def plan_list_def dsub_dhas iterate_def)
  from rotation_orders_announced [OF this _ prod.collapse [symmetric], of cycle_world] show ?thesis
    by (simp add: cycle_world_def sample_world_def announced_def)
qed

lemma sample_notice:
  "rt_notifier (rt u) \<Longrightarrow> \<not> rt_dry_run (rt u) \<Longrightarrow> wp (send_notice filling_env render n) (\<lambda>_ _. True) (\<lambda>_ _. False) u"
  by (simp add: send_notice_def legacy_runtime_notify_def eff_simps env_flag_def add_notification_def record_side_effect_def
      filling_env_def merge_receipt_def Let_def)

lemma sample_save_of:
  "wp (runtime_set_trade_state filling_env 0 reason None) (\<lambda>_ v. rt_notifier (rt v) \<and> \<not> rt_dry_run (rt v)) (\<lambda>_ _. False)
     \<lparr>rt = sample_runtime, rp = p, heap = h, fresh = f, trace = []\<rparr>"
  by (simp add: runtime_set_trade_state_def submission_simps eff_simps sample_runtime_def filling_env_def Let_def)

lemma sample_save:
  assumes "rt u = sample_runtime" and "trace u = []"
  shows "wp (runtime_set_trade_state filling_env 0 reason None) (\<lambda>_ v. rt_notifier (rt v) \<and> \<not> rt_dry_run (rt v)) (\<lambda>_ _. False) u"
proof -
  have "\<exists>p h f. u = \<lparr>rt = sample_runtime, rp = p, heap = h, fresh = f, trace = []\<rparr>"
    using assms by (cases u) simp
  then obtain p h f where "u = \<lparr>rt = sample_runtime, rp = p, heap = h, fresh = f, trace = []\<rparr>"
    by blast
  then show ?thesis by (simp only: sample_save_of)
qed

lemma circuit_breaker_trips_witness:
  "dget (heap (snd (run_daily_circuit_breaker filling_env (send_notice filling_env (\<lambda>_. ''text'')) sample_state_config 0 1 [] (Fin 0) [] NaN (Fin 0) cycle_world)) 0)
     ''is_circuit_broken'' = PBool True"
proof -
  let ?run = "run_daily_circuit_breaker filling_env (send_notice filling_env (\<lambda>_. ''text'')) sample_state_config 0 1 [] (Fin 0) [] NaN (Fin 0)"
  obtain snapshot where "build_balance_snapshot [] (heap cycle_world 1) (Fin 0) = Inr snapshot"
    by (simp add: build_balance_snapshot_def rounded_def cycle_world_def sample_world_def dget_or_def)
  moreover have "rt cycle_world = sample_runtime" "trace cycle_world = []"
    by (simp_all add: cycle_world_def sample_world_def)
  ultimately have "wp ?run (\<lambda>r _. r) (\<lambda>_ _. False) cycle_world"
    by (auto simp: run_daily_circuit_breaker_def wp_bind wp_if wp_ret wp_modify_ref wp_read_ref set_report_def wp_upd_rp
        intro!: wp_mono [OF sample_save] wp_mono [OF sample_notice])
  then obtain w' where run: "?run cycle_world = (Inr True, w')"
    by (auto simp: wp_def split: prod.splits sum.splits)
  have "announced (trace cycle_world)"
    by (simp add: cycle_world_def sample_world_def announced_def)
  from circuit_breaker_trips [OF this run] run show ?thesis by simp
qed

lemma btc_cycle_only_buys_witness:
  "announced (trace (snd (execute_btc_dca_cycle filling_env (send_notice filling_env (\<lambda>_. ''text'')) 0 1 [(''BTCUSDT'', PInt 2)] (Fin 9) (Fin 100) (Fin 100)
     [(''ahr999'', PInt 0)] (Fin 20) ''2026-01-01'' cycle_world)))"
  using btc_cycle_only_buys [of cycle_world, OF _ prod.collapse [symmetric]]
  by (simp add: cycle_world_def sample_world_def announced_def)

end
