(* ===== verification/Fill_Accounting.thy ===== *)
theory Fill_Accounting
  imports Trade_Execution
begin

text \<open>
  What a parsed fill says and what booking it does (\<open>_parse_filled_order\<close> and
  \<open>_apply_fill_balances\<close> of \<open>application/execution_service.py\<close>): a fill is read from the lines of a
  FILLED answer and nothing else, and it is booked on the balances completely or not at all.
\<close>

section \<open>Reading the lines\<close>

lemma required_number_Inr [result_simps]:
  "required_number strictly v = Inr x \<longleftrightarrow>
     to_float v = Inr x \<and> f_finite x \<and> \<not> f_less x (Fin 0) \<and> (strictly \<longrightarrow> f_less (Fin 0) x)"
  by (cases "to_float v") (auto simp: required_number_def guarded_def result_simps)

text \<open>A line as the four values read from it: price, quantity, commission and its asset.\<close>

type_synonym line = "pyfloat \<times> pyfloat \<times> pyfloat \<times> string"

definition reads_line :: "pyval \<Rightarrow> line \<Rightarrow> bool" where
  "reads_line v line = (case (v, line) of
     (PDict d, (price, qty, fee, asset)) \<Rightarrow>
       required_number True (dget d ''price'') = Inr price \<and> required_number True (dget d ''qty'') = Inr qty
       \<and> required_number False (dget d ''commission'') = Inr fee
       \<and> asset = upper (strip (str_or_empty (dget d ''commissionAsset''))) \<and> asset \<noteq> []
   | _ \<Rightarrow> False)"

definition sum_f :: "pyfloat list \<Rightarrow> pyfloat" where
  "sum_f xs = foldl f_add (Fin 0) xs"

definition line_qty :: "line \<Rightarrow> pyfloat" where "line_qty l = (case l of (price, qty, fee, asset) \<Rightarrow> qty)"
definition line_quote :: "line \<Rightarrow> pyfloat" where "line_quote l = (case l of (price, qty, fee, asset) \<Rightarrow> f_mul price qty)"
definition line_fee :: "line \<Rightarrow> pyfloat" where "line_fee l = (case l of (price, qty, fee, asset) \<Rightarrow> fee)"
definition line_asset :: "line \<Rightarrow> string" where "line_asset l = (case l of (price, qty, fee, asset) \<Rightarrow> asset)"

text \<open>The commission charged in one asset, added in the order of the lines.\<close>

definition charged :: "string \<Rightarrow> line list \<Rightarrow> pyfloat" where
  "charged a lines = sum_f (map line_fee (filter (\<lambda>l. line_asset l = a) lines))"

lemma line_simps [simp]:
  "line_qty (price, qty, fee, asset) = qty" "line_quote (price, qty, fee, asset) = f_mul price qty"
  "line_fee (price, qty, fee, asset) = fee" "line_asset (price, qty, fee, asset) = asset"
  by (simp_all add: line_qty_def line_quote_def line_fee_def line_asset_def)

lemma sum_f_snoc: "sum_f (xs @ [x]) = f_add (sum_f xs) x"
  by (simp add: sum_f_def)

definition sums_of :: "line list \<Rightarrow> fill_sums \<Rightarrow> bool" where
  "sums_of lines acc = (fs_qty acc = sum_f (map line_qty lines) \<and> fs_quote acc = sum_f (map line_quote lines)
     \<and> distinct (map fst (fs_fees acc)) \<and> fst ` set (fs_fees acc) = line_asset ` set lines
     \<and> (\<forall>a. fee_of (fs_fees acc) a = charged a lines))"

lemma fee_of_update: "fee_of (AList.update k v fees) a = (if a = k then v else fee_of fees a)"
  by (simp add: fee_of_def update_conv')

lemma add_fill_line_sums:
  assumes "add_fill_line acc v = Inr acc'" and "sums_of lines acc"
  shows "\<exists>l. reads_line v l \<and> sums_of (lines @ [l]) acc'"
proof -
  from assms(1) obtain d price qty fee where v: "v = PDict d"
    and nums: "required_number True (dget d ''price'') = Inr price" "required_number True (dget d ''qty'') = Inr qty"
      "required_number False (dget d ''commission'') = Inr fee"
    by (auto simp: add_fill_line_def bindE_Inr_iff split: pyval.splits)
  let ?asset = "upper (strip (str_or_empty (dget d ''commissionAsset'')))"
  have acc': "?asset \<noteq> []" "acc' = \<lparr>fs_qty = f_add (fs_qty acc) qty, fs_quote = f_add (fs_quote acc) (f_mul price qty),
      fs_fees = AList.update ?asset (f_add (fee_of (fs_fees acc) ?asset) fee) (fs_fees acc)\<rparr>"
    using assms(1) by (auto simp: add_fill_line_def v nums Let_def split: if_splits)
  have "reads_line v (price, qty, fee, ?asset)"
    using nums acc'(1) by (simp add: reads_line_def v)
  moreover have "sums_of (lines @ [(price, qty, fee, ?asset)]) acc'"
    using assms(2) unfolding acc'(2) sums_of_def
    by (auto simp: fee_of_update charged_def sum_f_snoc distinct_update dom_update)
  ultimately show ?thesis by blast
qed

lemma fill_lines_sums:
  "foldE add_fill_line acc vs = Inr acc' \<Longrightarrow> sums_of lines acc \<Longrightarrow> \<exists>ls. list_all2 reads_line vs ls \<and> sums_of (lines @ ls) acc'"
proof (induction vs arbitrary: acc lines)
  case (Cons v vs)
  then obtain acc1 where step: "add_fill_line acc v = Inr acc1" "foldE add_fill_line acc1 vs = Inr acc'"
    by (auto simp: bindE_Inr_iff)
  with add_fill_line_sums Cons.prems(2) obtain l where l: "reads_line v l" "sums_of (lines @ [l]) acc1" by blast
  from Cons.IH [OF step(2) l(2)] obtain ls where "list_all2 reads_line vs ls" "sums_of (lines @ l # ls) acc'" by auto
  with l(1) show ?case by (intro exI [of _ "l # ls"]) simp
qed auto

lemma no_lines: "sums_of [] \<lparr>fs_qty = Fin 0, fs_quote = Fin 0, fs_fees = []\<rparr>"
  by (simp add: sums_of_def sum_f_def charged_def fee_of_def)

section \<open>Commissions in a third asset\<close>

lemma third_fees_map:
  "foldE (third_fee prices) acc es = Inr (thirds, usdt) \<Longrightarrow> distinct (map fst es) \<Longrightarrow> distinct (map fst (fst acc)) \<Longrightarrow>
     distinct (map fst thirds)
     \<and> (\<forall>a. map_of thirds (a @ ''USDT'') = (case map_of es a of Some q \<Rightarrow> Some q | None \<Rightarrow> map_of (fst acc) (a @ ''USDT'')))
     \<and> fst ` set thirds = fst ` set (fst acc) \<union> (\<lambda>a. a @ ''USDT'') ` fst ` set es
     \<and> (\<forall>a \<in> fst ` set es. \<exists>price. required_number True (dget prices (a @ ''USDT'')) = Inr price)"
proof (induction es arbitrary: acc)
  case (Cons e es)
  then obtain acc1 where step: "third_fee prices acc e = Inr acc1" and rest1: "foldE (third_fee prices) acc1 es = Inr (thirds, usdt)"
    by (auto simp: bindE_Inr_iff)
  then obtain price where price: "required_number True (dget prices (fst e @ ''USDT'')) = Inr price"
    and acc1: "acc1 = (AList.update (fst e @ ''USDT'') (snd e) (fst acc), f_add (snd acc) (f_mul (snd e) price))"
    by (auto simp: third_fee_def bindE_Inr_iff)
  note rest = rest1 [unfolded acc1]
  have "distinct (map fst (AList.update (fst e @ ''USDT'') (snd e) (fst acc)))"
    using Cons.prems(3) by (rule distinct_update)
  with Cons.IH [OF rest] Cons.prems(2)
  have ih: "distinct (map fst thirds)"
    "map_of thirds (a @ ''USDT'') = (case map_of es a of Some q \<Rightarrow> Some q
       | None \<Rightarrow> if a = fst e then Some (snd e) else map_of (fst acc) (a @ ''USDT''))"
    "fst ` set thirds = insert (fst e @ ''USDT'') (fst ` set (fst acc)) \<union> (\<lambda>a. a @ ''USDT'') ` fst ` set es"
    "\<forall>a \<in> fst ` set es. \<exists>price. required_number True (dget prices (a @ ''USDT'')) = Inr price" for a
    by (auto simp: update_conv' dom_update split: option.split)
  have "map_of es (fst e) = None"
    using Cons.prems(2) by (simp add: map_of_eq_None_iff)
  then have "map_of thirds (a @ ''USDT'') = (case map_of (e # es) a of Some q \<Rightarrow> Some q | None \<Rightarrow> map_of (fst acc) (a @ ''USDT''))" for a
    using ih(2) [of a] by (cases e) (auto split: option.split)
  with ih(1,3,4) price show ?case by auto
qed auto

lemma keys_delete: "fst ` set (AList.delete k al) = fst ` set al - {k}"
  by (simp flip: set_map add: delete_keys)

text \<open>What the fields of a parsed fill are, by the lines they were read from.\<close>

definition fill_of_lines :: "string \<Rightarrow> pydict \<Rightarrow> line list \<Rightarrow> fill \<Rightarrow> bool" where
  "fill_of_lines symbol prices lines f =
     (let base = fl_base_asset f; thirds = line_asset ` set lines - {base, ''USDT''}
      in lines \<noteq> [] \<and> symbol = base @ ''USDT'' \<and> base \<noteq> []
         \<and> \<not> differs (sum_f (map line_qty lines)) (fl_executed f) \<and> \<not> differs (sum_f (map line_quote lines)) (fl_quote f)
         \<and> f_div (fl_quote f) (fl_executed f) = Inr (fl_average f)
         \<and> fl_base_fee f = charged base lines
         \<and> fl_quote_fee f = (if base = ''USDT'' then Fin 0 else charged ''USDT'' lines)
         \<and> distinct (map fst (fl_third_fees f)) \<and> fst ` set (fl_third_fees f) = (\<lambda>a. a @ ''USDT'') ` thirds
         \<and> (\<forall>a \<in> thirds. map_of (fl_third_fees f) (a @ ''USDT'') = Some (charged a lines)
              \<and> (\<exists>price. required_number True (dget prices (a @ ''USDT'')) = Inr price)))"

lemma suffix_split: "ends_with s ''USDT'' \<Longrightarrow> s = drop_last 4 s @ ''USDT''"
proof -
  assume "ends_with s ''USDT''"
  then obtain t where "s = t @ ''USDT''"
    by (auto simp: ends_with_iff)
  then show ?thesis by (simp add: drop_last_def)
qed

lemma parsed_fill_read:
  assumes "parse_filled_order response symbol side prices = Inr f"
  shows "\<exists>d lines. response = PDict d \<and> answers d symbol side
     \<and> required_number True (dget d ''executedQty'') = Inr (fl_executed f)
     \<and> required_number True (dget d ''cummulativeQuoteQty'') = Inr (fl_quote f)
     \<and> is_list (dget d ''fills'') \<and> list_all2 reads_line (the_list (dget d ''fills'')) lines
     \<and> fill_of_lines symbol prices lines f"
proof -
  from assms obtain d parts thirds usdt where d: "response = PDict d" "answers d symbol side"
      "required_number True (dget d ''executedQty'') = Inr (fl_executed f)"
      "required_number True (dget d ''cummulativeQuoteQty'') = Inr (fl_quote f)"
      "is_list (dget d ''fills'')" "the_list (dget d ''fills'') \<noteq> []"
    and fold: "foldE add_fill_line \<lparr>fs_qty = Fin 0, fs_quote = Fin 0, fs_fees = []\<rparr> (the_list (dget d ''fills'')) = Inr parts"
    and sums: "\<not> differs (fs_qty parts) (fl_executed f)" "\<not> differs (fs_quote parts) (fl_quote f)"
    and base: "ends_with symbol ''USDT''" "fl_base_asset f = drop_last 4 symbol" "drop_last 4 symbol \<noteq> []"
    and third: "foldE (third_fee prices) ([], Fin 0) (AList.delete ''USDT'' (AList.delete (fl_base_asset f) (fs_fees parts))) = Inr (thirds, usdt)"
    and rest: "f_div (fl_quote f) (fl_executed f) = Inr (fl_average f)" "fl_base_fee f = fee_of (fs_fees parts) (fl_base_asset f)"
      "fl_quote_fee f = fee_of (AList.delete (fl_base_asset f) (fs_fees parts)) ''USDT''" "fl_third_fees f = thirds"
    by (auto simp: parse_filled_order_def bindE_Inr_iff ensure_Inr_iff Let_def split: pyval.splits if_splits)
  obtain lines where lines: "list_all2 reads_line (the_list (dget d ''fills'')) lines" "sums_of lines parts"
    using fill_lines_sums [OF fold no_lines] by auto
  let ?es = "AList.delete ''USDT'' (AList.delete (fl_base_asset f) (fs_fees parts))"
  have es: "distinct (map fst ?es)" "fst ` set ?es = line_asset ` set lines - {fl_base_asset f, ''USDT''}"
    "map_of ?es a = (if a \<in> {fl_base_asset f, ''USDT''} then None else map_of (fs_fees parts) a)" for a
    using lines(2) by (auto simp: sums_of_def distinct_delete delete_conv' keys_delete)
  from third_fees_map [OF third es(1)]
  have th: "distinct (map fst thirds)" "map_of thirds (a @ ''USDT'') = map_of ?es a"
    "fst ` set thirds = (\<lambda>a. a @ ''USDT'') ` fst ` set ?es"
    "\<forall>a \<in> fst ` set ?es. \<exists>price. required_number True (dget prices (a @ ''USDT'')) = Inr price" for a
    by (auto split: option.splits)
  have fee: "map_of (fs_fees parts) a = Some (charged a lines)" if "a \<in> line_asset ` set lines" for a
  proof -
    have "fst ` set (fs_fees parts) = line_asset ` set lines" "fee_of (fs_fees parts) a = charged a lines"
      using lines(2) by (simp_all add: sums_of_def)
    with that have "map_of (fs_fees parts) a \<noteq> None" "fee_of (fs_fees parts) a = charged a lines"
      by (simp_all add: map_of_eq_None_iff)
    then show ?thesis by (auto simp: fee_of_def)
  qed
  have "fill_of_lines symbol prices lines f"
    unfolding fill_of_lines_def Let_def
  proof (intro conjI)
    show "lines \<noteq> []" using lines(1) d(6) by auto
    show "symbol = fl_base_asset f @ ''USDT''" using base suffix_split by simp
    show "fl_quote_fee f = (if fl_base_asset f = ''USDT'' then Fin 0 else charged ''USDT'' lines)"
      using rest(3) lines(2) by (simp add: sums_of_def fee_of_def delete_conv')
    show "\<forall>a \<in> line_asset ` set lines - {fl_base_asset f, ''USDT''}. map_of (fl_third_fees f) (a @ ''USDT'') = Some (charged a lines)
        \<and> (\<exists>price. required_number True (dget prices (a @ ''USDT'')) = Inr price)"
      using th(2,4) es(2,3) fee rest(4) by simp
  qed (use sums lines(2) base rest th(1,3) es(2) in \<open>simp_all add: sums_of_def\<close>)
  with d lines show ?thesis by blast
qed

section \<open>Booking\<close>

text \<open>A fill that can be booked: its third assets are distinct symbols other than the traded one.\<close>

definition bookable :: "string \<Rightarrow> fill \<Rightarrow> bool" where
  "bookable symbol f = (distinct (map fst (fl_third_fees f)) \<and> symbol \<notin> fst ` set (fl_third_fees f))"

lemma parsed_bookable: "parse_filled_order response symbol side prices = Inr f \<Longrightarrow> bookable symbol f"
  by (drule parsed_fill_read) (auto simp: bookable_def fill_of_lines_def Let_def)

lemma estimated_bookable: "bookable symbol (estimated_fill symbol qty price)"
  by (simp add: bookable_def estimated_fill_def)

lemma resolved_bookable: "returns (resolve_fill response symbol side qty price prices) (\<lambda>f _. bookable symbol f)"
  by (auto simp: returns_def resolve_fill_def eff_simps parsed_bookable estimated_bookable split: sum.split)

definition charged_third :: "pydict \<Rightarrow> pydict \<Rightarrow> string \<times> pyfloat \<Rightarrow> bool" where
  "charged_third before after_d entry = (case number_at before (fst entry) of
     Inr held \<Rightarrow> f_finite (f_sub held (snd entry)) \<and> \<not> f_less (f_sub held (snd entry)) f_minus_1e10
       \<and> dget after_d (fst entry) = PFloat (f_max (Fin 0) (f_sub held (snd entry)))
   | Inl e \<Rightarrow> False)"

lemma charge_third_Inr:
  assumes "charge_third balances acc entry = Inr acc'"
  shows "charged_third balances acc' entry \<and> (\<forall>k. k \<noteq> fst entry \<longrightarrow> map_of acc' k = map_of acc k)"
  using assms
  by (auto simp: charge_third_def bindE_Inr_iff ensure_Inr_iff Let_def charged_third_def dset_def update_conv')
    (simp add: dget_def update_conv')

lemma charge_thirds:
  "foldE (charge_third balances) acc es = Inr acc' \<Longrightarrow> distinct (map fst es) \<Longrightarrow>
     list_all (charged_third balances acc') es \<and> (\<forall>k. k \<notin> fst ` set es \<longrightarrow> map_of acc' k = map_of acc k)"
proof (induction es arbitrary: acc)
  case (Cons e es)
  then obtain acc1 where step: "charge_third balances acc e = Inr acc1" "foldE (charge_third balances) acc1 es = Inr acc'"
    by (auto simp: bindE_Inr_iff)
  note rest = Cons.IH [OF step(2)] and first = charge_third_Inr [OF step(1)]
  have "map_of acc' (fst e) = map_of acc1 (fst e)"
    using rest Cons.prems(2) by auto
  then have "charged_third balances acc' e"
    using first by (auto simp: charged_third_def dget_def split: sum.splits)
  with rest first Cons.prems(2) show ?case by auto
qed auto

lemma map_of_dupdate: "distinct (map fst e) \<Longrightarrow> map_of (dupdate d e) k = (case map_of e k of Some v \<Rightarrow> Some v | None \<Rightarrow> map_of d k)"
proof (induction e arbitrary: d)
  case (Cons x e)
  have step: "dupdate d (x # e) = dupdate (dset (fst x) (snd x) d) e"
    by (simp add: dupdate_def case_prod_beta)
  have "map_of e (fst x) = None"
    using Cons.prems by (simp add: map_of_eq_None_iff)
  then show ?case
    unfolding step using Cons.IH [of "dset (fst x) (snd x) d"] Cons.prems
    by (cases x) (auto simp: dset_def update_conv' split: option.split)
qed (simp add: dupdate_def)

lemma keys_charge:
  "foldE (charge_third balances) acc es = Inr acc' \<Longrightarrow> distinct (map fst acc) \<Longrightarrow> distinct (map fst acc')"
  by (erule foldE_invariant) (auto simp: charge_third_def bindE_Inr_iff Let_def dset_def distinct_update)

text \<open>The balances after booking, entry by entry.\<close>

definition booked :: "fill \<Rightarrow> string \<Rightarrow> string \<Rightarrow> pydict \<Rightarrow> pydict \<Rightarrow> bool" where
  "booked f side symbol old new =
     ((\<forall>k. k \<noteq> symbol \<and> k \<notin> fst ` set (fl_third_fees f) \<longrightarrow> map_of new k = map_of old k)
      \<and> (\<exists>held. to_float (dget_or old symbol zero_float) = Inr held \<and> \<not> f_less (f_add held (base_delta f side)) f_minus_1e10
           \<and> dget new symbol = PFloat (f_max (Fin 0) (f_add held (base_delta f side))))
      \<and> list_all (charged_third old new) (fl_third_fees f))"

lemma booked_exactly:
  assumes "booked_balances f side symbol old = Inr new" and "bookable symbol f"
  shows "booked f side symbol old new"
proof -
  from assms(1) obtain held updates where held: "to_float (dget_or old symbol zero_float) = Inr held"
      "\<not> f_less (f_add held (base_delta f side)) f_minus_1e10"
    and fold: "foldE (charge_third old) [] (fl_third_fees f) = Inr updates"
    and new: "new = dupdate (dset symbol (PFloat (f_max (Fin 0) (f_add held (base_delta f side)))) old) updates"
    by (auto simp: booked_balances_def bindE_Inr_iff ensure_Inr_iff Let_def)
  have b: "distinct (map fst (fl_third_fees f))" "symbol \<notin> fst ` set (fl_third_fees f)"
    using assms(2) by (simp_all add: bookable_def)
  from charge_thirds [OF fold b(1)]
  have thirds: "list_all (charged_third old updates) (fl_third_fees f)"
    and others: "k \<notin> fst ` set (fl_third_fees f) \<Longrightarrow> map_of updates k = None" for k
    by auto
  have look: "map_of new k = (case map_of updates k of Some v \<Rightarrow> Some v
      | None \<Rightarrow> map_of (dset symbol (PFloat (f_max (Fin 0) (f_add held (base_delta f side)))) old) k)" for k
    unfolding new by (rule map_of_dupdate) (rule keys_charge [OF fold], simp)
  have "charged_third old new e" if "charged_third old updates e" for e
    using that look [of "fst e"] by (auto simp: charged_third_def dget_def split: sum.splits option.splits)
  with thirds have "list_all (charged_third old new) (fl_third_fees f)"
    by (auto simp: list_all_iff)
  moreover have "dget new symbol = PFloat (f_max (Fin 0) (f_add held (base_delta f side)))"
    using look [of symbol] others [OF b(2)] by (simp add: dget_def dset_def update_conv')
  moreover have "map_of new k = map_of old k" if "k \<noteq> symbol" "k \<notin> fst ` set (fl_third_fees f)" for k
    using look [of k] others [OF that(2)] that(1) by (simp add: dset_def update_conv')
  ultimately show ?thesis
    using held by (auto simp: booked_def)
qed

section \<open>Properties\<close>

text \<open>
  An accepted fill says what the broker's answer says. The answer is FILLED for this symbol and
  side; every line has a positive price and quantity, a nonnegative commission and an asset; the
  quantities and quote amounts of the lines add up to the totals of the answer; and the base, quote
  and third-asset fees are exactly the commissions of the lines in that asset, each third asset with
  a positive USDT price.
\<close>

theorem parsed_fill_is_evidenced:
  assumes "parse_filled_order response symbol side prices = Inr f"
  shows "\<exists>d lines. response = PDict d \<and> answers d symbol side
     \<and> required_number True (dget d ''executedQty'') = Inr (fl_executed f)
     \<and> required_number True (dget d ''cummulativeQuoteQty'') = Inr (fl_quote f)
     \<and> list_all2 reads_line (the_list (dget d ''fills'')) lines \<and> fill_of_lines symbol prices lines f"
  using parsed_fill_read [OF assms] by blast


section \<open>A concrete fill\<close>

text \<open>Two coins bought at 3, the fee paid in BNB.\<close>

definition sample_fill_answer :: pydict where
  "sample_fill_answer = [(''status'', PStr ''FILLED''), (''symbol'', PStr ''ETHUSDT''), (''side'', PStr ''BUY''),
     (''executedQty'', PInt 2), (''cummulativeQuoteQty'', PInt 6),
     (''fills'', PList [PDict [(''price'', PInt 3), (''qty'', PInt 2), (''commission'', PInt 1), (''commissionAsset'', PStr ''BNB'')]])]"

lemma differs_same: "0 \<le> x \<Longrightarrow> \<not> differs (Fin x) (Fin x)"
proof -
  have "f_le (Fin 0) f_1e8" unfolding f_1e8_def using fl_mono [of 0 "1 / 100000000"] by simp
  then have "\<not> f_less (f_max f_1e8 y) (Fin 0)" for y
    by (auto simp: f_max_def dest: f_less_not_le) (meson f_le_trans f_less_not_le f_le_def)+
  then show ?thesis by (simp add: differs_def f_sub_def)
qed

lemma sample_fill: "parse_filled_order (PDict sample_fill_answer) ''ETHUSDT'' ''BUY'' [(''BNBUSDT'', PInt 5)] =
    Inr \<lparr>fl_executed = Fin 2, fl_quote = Fin 6, fl_average = Fin 3, fl_base_asset = ''ETH'', fl_base_fee = Fin 0, fl_quote_fee = Fin 0,
      fl_third_fees = [(''BNBUSDT'', Fin 1)], fl_third_usdt = Fin 5\<rparr>"
proof -
  have t: "answers sample_fill_answer ''ETHUSDT'' ''BUY''" "upper (strip ''BNB'') = ''BNB''" "strip ''BNB'' \<noteq> []"
    "ends_with ''ETHUSDT'' ''USDT''" "drop_last 4 ''ETHUSDT'' = ''ETH''"
    by code_simp+
  have n: "required_number True (PInt 2) = Inr (Fin 2)" "required_number True (PInt 3) = Inr (Fin 3)" "required_number True (PInt 5) = Inr (Fin 5)"
    "required_number True (PInt 6) = Inr (Fin 6)" "required_number False (PInt 1) = Inr (Fin 1)"
    by (simp_all add: required_number_def guarded_def float_of_int_def bindE_ensure)
  show ?thesis
    unfolding parse_filled_order_def
    by (simp add: t) (simp add: sample_fill_answer_def n add_fill_line_def t third_fee_def differs_same fee_of_def bindE_ensure Let_def f_div_def f_mul_def)
qed

lemma parsed_fill_is_evidenced_witness:
  "\<exists>lines. list_all2 reads_line (the_list (dget sample_fill_answer ''fills'')) lines \<and> charged ''BNB'' lines = Fin 1"
proof -
  from parsed_fill_is_evidenced [OF sample_fill] obtain lines
    where lines: "list_all2 reads_line (the_list (dget sample_fill_answer ''fills'')) lines"
      and f: "fill_of_lines ''ETHUSDT'' [(''BNBUSDT'', PInt 5)] lines
        \<lparr>fl_executed = Fin 2, fl_quote = Fin 6, fl_average = Fin 3, fl_base_asset = ''ETH'', fl_base_fee = Fin 0, fl_quote_fee = Fin 0,
          fl_third_fees = [(''BNBUSDT'', Fin 1)], fl_third_usdt = Fin 5\<rparr>"
    by auto
  have "{''BNBUSDT''} = (\<lambda>a. a @ ''USDT'') ` (line_asset ` set lines - {''ETH'', ''USDT''})"
    using f by (simp add: fill_of_lines_def Let_def)
  then have "''BNBUSDT'' \<in> (\<lambda>a. a @ ''USDT'') ` (line_asset ` set lines - {''ETH'', ''USDT''})"
    by blast
  then obtain a where a: "''BNBUSDT'' = a @ ''USDT''" "a \<in> line_asset ` set lines - {''ETH'', ''USDT''}"
    by (rule imageE)
  moreover have "''BNBUSDT'' = ''BNB'' @ ''USDT''" by simp
  ultimately have "''BNB'' @ ''USDT'' = a @ ''USDT''" by (simp only:)
  then have "a = ''BNB''" by (simp only: append_same_eq)
  with a(2) have "''BNB'' \<in> line_asset ` set lines - {''ETH'', ''USDT''}" by (simp only:)
  moreover have "\<forall>a \<in> line_asset ` set lines - {''ETH'', ''USDT''}. map_of [(''BNBUSDT'', Fin 1)] (a @ ''USDT'') = Some (charged a lines)"
    using f by (simp only: fill_of_lines_def Let_def fill.select_convs) blast
  ultimately have "map_of [(''BNBUSDT'', Fin 1)] (''BNB'' @ ''USDT'') = Some (charged ''BNB'' lines)" by blast
  with lines show ?thesis by auto
qed


end
