(* ===== verification/Decimal_Text.thy ===== *)
theory Decimal_Text
  imports Py_Value
begin

text \<open>
  \<open>Decimal(str(d)) == d\<close>, digit for digit: the ledger keeps its amounts as text (receipts, checkpoints,
  net changes), and the exactness of what is read back rests on it. The only hypothesis is that the
  exponent is one the C implementation can represent.
\<close>

section \<open>Digits and separators\<close>

definition digits :: "string \<Rightarrow> bool" where
  "digits s = list_all is_digit s"

lemma digits_simps [simp]:
  "digits []" "digits (s @ t) \<longleftrightarrow> digits s \<and> digits t" "digits (c # s) \<longleftrightarrow> is_digit c \<and> digits s"
  by (simp_all add: digits_def)

lemma digits_show [simp]: "digits (show_nat n)"
  using show_nat_digits by (simp add: digits_def list_all_iff)

lemma is_digit_0 [simp]: "is_digit (CHR ''0'')"
  by (simp add: is_digit_def ord_def)

lemma digits_zeros [simp]: "digits (zeros n)"
  by (simp add: digits_def zeros_def list_all_iff)

lemma digits_take_drop: "digits s \<Longrightarrow> digits (take n s) \<and> digits (drop n s)"
  by (auto simp: digits_def list_all_iff dest: in_set_takeD in_set_dropD)

lemma length_zeros: "length (zeros n) = n"
  by (simp add: zeros_def)

lemma nat_of_digits_zeros [simp]: "nat_of_digits (zeros n @ s) = nat_of_digits s"
proof -
  have "nat_of_digits (zeros n) = 0"
    using nat_of_digits_pad [of n "[]"] by (simp add: pad_left_def zeros_def)
  then show ?thesis by (simp add: nat_of_digits_append)
qed

lemma nat_of_digits_0 [simp]: "nat_of_digits (CHR ''0'' # s) = nat_of_digits s"
  using nat_of_digits_zeros [of 1 s] by (simp add: zeros_def)

lemma not_digit [simp]: "\<not> is_digit (CHR ''.'')" "\<not> is_digit (CHR ''E'')"
  by (simp_all add: is_digit_def ord_def)

lemma takeWhile_digits [simp]: "digits s \<Longrightarrow> takeWhile is_digit (s @ t) = s @ takeWhile is_digit t"
  "digits s \<Longrightarrow> dropWhile is_digit (s @ t) = dropWhile is_digit t"
  "digits s \<Longrightarrow> takeWhile is_digit s = s" "digits s \<Longrightarrow> dropWhile is_digit s = []"
  by (induction s) (auto simp: digits_def)

section \<open>The exponent suffix\<close>

definition exponent_text :: "int \<Rightarrow> string" where
  "exponent_text k = (if k = 0 then [] else ''E'' @ (if 0 \<le> k then ''+'' else []) @ show_int k)"

lemma digit_not_sign: "is_digit c \<Longrightarrow> c \<noteq> CHR ''-'' \<and> c \<noteq> CHR ''+''"
  by (auto simp: is_digit_def ord_def)

lemma split_sign_digits: "digits s \<Longrightarrow> split_sign (s @ t) = (if s = [] then split_sign t else (False, s @ t))"
  by (cases s) (auto simp: split_sign_def dest: digit_not_sign)

lemma parse_exponent_text: "parse_exponent ((if 0 \<le> k then ''+'' else []) @ show_int k) = Some k"
  by (auto simp: parse_exponent_def split_sign_def show_int_def digits_def [symmetric])

lemma lower_E: "lower_char (CHR ''E'') = CHR ''e''"
  by code_simp

text \<open>A text after the digits of a numeral that stands for the power \<open>k\<close> of ten.\<close>

definition exponent_suffix :: "string \<Rightarrow> int \<Rightarrow> bool" where
  "exponent_suffix r k = (r = [] \<and> k = 0 \<or> (\<exists>x t. r = x # t \<and> lower_char x = CHR ''e'' \<and> parse_exponent t = Some k))"

lemma exponent_text_suffix: "exponent_suffix (exponent_text k) k"
  using parse_exponent_text [of k] lower_E by (simp add: exponent_suffix_def exponent_text_def)

lemma exponent_letter: "lower_char x = CHR ''e'' \<Longrightarrow> \<not> is_digit x \<and> x \<noteq> CHR ''.''"
proof -
  have "lower_char (CHR ''.'') \<noteq> CHR ''e''" "\<not> is_digit (CHR ''e'')" by code_simp+
  then show "lower_char x = CHR ''e'' \<Longrightarrow> \<not> is_digit x \<and> x \<noteq> CHR ''.''"
    by (auto simp: lower_char_def is_upper_letter_def is_digit_def split: if_splits)
qed

lemma parse_numeral_text:
  assumes "digits ip" and "digits fp" and "ip \<noteq> []" and "exponent_suffix r k"
  shows "parse_numeral (ip @ (if fp = [] then [] else CHR ''.'' # fp) @ r) = Some (nat_of_digits (ip @ fp), k - int (length fp))"
proof -
  have tail: "takeWhile is_digit r = []" "dropWhile is_digit r = r"
    using assms(4) by (auto simp: exponent_suffix_def dest: exponent_letter)
  have frac: "split_fraction ((if fp = [] then [] else CHR ''.'' # fp) @ r) = (fp, r)"
    using assms(2,4) tail by (auto simp: split_fraction_def exponent_suffix_def dest: exponent_letter split: list.split)
  have body: "takeWhile is_digit ((if fp = [] then [] else CHR ''.'' # fp) @ r) = []"
    "dropWhile is_digit ((if fp = [] then [] else CHR ''.'' # fp) @ r) = (if fp = [] then [] else CHR ''.'' # fp) @ r"
    using tail by auto
  show ?thesis
    using assms frac body by (auto simp: parse_numeral_def exponent_suffix_def simp del: append_Cons)
qed

section \<open>Positional notation\<close>

lemma positional_parts:
  assumes "digits ds" and "ds \<noteq> []"
  obtains ip fp where "positional ds dot = ip @ (if fp = [] then [] else CHR ''.'' # fp)" and "digits ip" and "digits fp" and "ip \<noteq> []"
    and "nat_of_digits (ip @ fp) = nat_of_digits ds * 10 ^ nat (dot - int (length ds))"
    and "int (length fp) = max 0 (int (length ds) - dot)" and "ip = ''0'' \<or> hd ip = hd ds"
proof -
  consider (small) "dot \<le> 0" | (whole) "0 < dot" "int (length ds) \<le> dot" | (split) "0 < dot" "dot < int (length ds)"
    by linarith
  then show thesis
  proof cases
    case small
    then show thesis
      using assms that [of "''0''" "zeros (nat (- dot)) @ ds"] by (simp add: positional_def length_zeros)
  next
    case whole
    have "nat_of_digits (ds @ zeros n) = nat_of_digits ds * 10 ^ n" for n
      using nat_of_digits_zeros [of n "[]"] by (simp add: nat_of_digits_append) (simp add: zeros_def)
    with whole show thesis
      using assms that [of "ds @ zeros (nat (dot - int (length ds)))" "[]"] by (simp add: positional_def)
  next
    case split
    then have "drop (nat dot) ds \<noteq> []" "take (nat dot) ds \<noteq> []" "nat (dot - int (length ds)) = 0"
      using assms(2) by auto
    with split show thesis
      using digits_take_drop [OF assms(1), of "nat dot"]
      by (intro that [of "take (nat dot) ds" "drop (nat dot) ds"]) (auto simp: positional_def)
  qed
qed

definition numeral_char :: "char \<Rightarrow> bool" where
  "numeral_char c = (is_digit c \<or> c \<in> set ''.E+-'')"

lemma numeral_char_plain: "numeral_char c \<Longrightarrow> \<not> is_space c \<and> c \<noteq> CHR ''_''"
  by (auto simp: numeral_char_def is_digit_def is_space_def ord_def)

lemma strip_none: "list_all (\<lambda>c. \<not> p c) s \<Longrightarrow> strip_by p s = s"
proof -
  assume "list_all (\<lambda>c. \<not> p c) s"
  then have "dropWhile p s = s" "dropWhile p (rev s) = rev s"
    by (auto simp: dropWhile_eq_self_iff list_all_iff hd_rev)
  then show ?thesis by (simp add: strip_by_def)
qed

lemma digits_numeral: "digits s \<Longrightarrow> list_all numeral_char s"
  by (auto simp: digits_def list_all_iff numeral_char_def)

lemma exponent_numeral: "list_all numeral_char (exponent_text k)"
  using digits_numeral [OF digits_show] by (auto simp: exponent_text_def show_int_def numeral_char_def)

lemma digit_word: "is_digit c \<Longrightarrow> lower (c # s) \<noteq> ''inf'' \<and> lower (c # s) \<noteq> ''infinity''"
  by (auto simp: lower_def lower_char_def is_digit_def is_upper_letter_def chr_def ord_def)

lemma dec_str_parts:
  obtains ip fp k where "dec_str (Dec s c e) = sign_text s @ ip @ (if fp = [] then [] else CHR ''.'' # fp) @ exponent_text k"
    and "digits ip" and "digits fp" and "ip \<noteq> []" and "nat_of_digits (ip @ fp) = c" and "k - int (length fp) = e"
proof -
  define ds where "ds = show_nat c"
  define left where "left = e + int (length ds)"
  define dot where "dot = (if e \<le> 0 \<and> - 6 < left then left else 1)"
  have ds: "digits ds" "ds \<noteq> []" "nat_of_digits ds = c" by (simp_all add: ds_def)
  obtain ip fp where p: "positional ds dot = ip @ (if fp = [] then [] else CHR ''.'' # fp)" "digits ip" "digits fp" "ip \<noteq> []"
    "nat_of_digits (ip @ fp) = nat_of_digits ds * 10 ^ nat (dot - int (length ds))" "int (length fp) = max 0 (int (length ds) - dot)"
    using positional_parts [OF ds(1,2)] by metis
  have len: "1 \<le> length ds" using ds(2) by (cases ds) auto
  have "dec_str (Dec s c e) = sign_text s @ positional ds dot @ exponent_text (left - dot)"
    by (simp add: dec_str_def Let_def ds_def left_def dot_def exponent_text_def)
  then have "dec_str (Dec s c e) = sign_text s @ ip @ (if fp = [] then [] else CHR ''.'' # fp) @ exponent_text (left - dot)"
    using p(1) by simp
  moreover have "nat (dot - int (length ds)) = 0" "left - dot - int (length fp) = e"
    using len p(6) by (auto simp: dot_def left_def)
  ultimately show thesis
    using that [of ip fp "left - dot"] p ds(3) by simp
qed

text \<open>A numeral of digits, a fraction and an exponent, with its sign.\<close>

lemma parse_signed_text:
  assumes "digits ip" and "digits fp" and "ip \<noteq> []" and "dec_representable (nat_of_digits (ip @ fp)) (k - int (length fp))"
  shows "dec_parseE (sign_text s @ ip @ (if fp = [] then [] else CHR ''.'' # fp) @ exponent_text k)
    = Inr (Dec s (nat_of_digits (ip @ fp)) (k - int (length fp)))"
proof -
  let ?t = "ip @ (if fp = [] then [] else CHR ''.'' # fp) @ exponent_text k"
  have chars: "list_all numeral_char (sign_text s @ ?t)"
    using exponent_numeral digits_numeral [OF assms(1)] digits_numeral [OF assms(2)]
    by (simp add: sign_text_def numeral_char_def)
  then have plain: "strip (sign_text s @ ?t) = sign_text s @ ?t"
    by (intro strip_none) (simp only: list_all_iff, blast dest: numeral_char_plain)
  have no_underscore: "filter (\<lambda>c. c \<noteq> CHR ''_'') (sign_text s @ ?t) = sign_text s @ ?t"
    using chars by (intro filter_True) (simp only: list_all_iff, blast dest: numeral_char_plain)
  obtain d ip' where ip: "ip = d # ip'" "is_digit d" using assms(1,3) by (cases ip) auto
  then have sign: "split_sign (sign_text s @ ?t) = (s, ?t)"
    by (auto simp: sign_text_def split_sign_def dest: digit_not_sign)
  have "lower ?t \<noteq> ''inf''" "lower ?t \<noteq> ''infinity''"
    using digit_word [OF ip(2)] ip(1) by simp_all
  then have "dec_parse (sign_text s @ ?t) = Some (Dec s (nat_of_digits (ip @ fp)) (k - int (length fp)))"
    using parse_numeral_text [OF assms(1-3) exponent_text_suffix, of k] assms(4)
    by (simp add: dec_parse_def plain no_underscore sign del: filter_append append_assoc)
  then show ?thesis by (simp add: dec_parseE_def)
qed

text \<open>Reading back the text of a decimal gives the same sign, coefficient and exponent.\<close>

lemma parse_dec_str:
  assumes "dec_representable c e"
  shows "dec_parseE (dec_str (Dec s c e)) = Inr (Dec s c e)"
proof -
  obtain ip fp k where shape: "dec_str (Dec s c e) = sign_text s @ ip @ (if fp = [] then [] else CHR ''.'' # fp) @ exponent_text k"
    and parts: "digits ip" "digits fp" "ip \<noteq> []" "nat_of_digits (ip @ fp) = c" "k - int (length fp) = e"
    by (rule dec_str_parts)
  show ?thesis using parse_signed_text [OF parts(1-3), of k s] parts(4,5) assms by (simp only: shape)
qed

lemma to_dec_str: "dec_representable c e \<Longrightarrow> to_dec (PStr (dec_str (Dec s c e))) = Inr (Dec s c e)"
  by (simp add: to_dec_def parse_dec_str)

end
