(* ===== verification/Submission_Lifecycle.thy ===== *)
theory Submission_Lifecycle
  imports Execution_Safety Decimal_Text
begin

text \<open>
  The life cycle of the submission record as a state machine. \<open>submission_step\<close> is the abstract
  specification: which record may follow which. The invariant is that every reachable record is one
  that \<open>_load_order_submission_state\<close> accepts, so the program never locks itself out; the refinement
  is that every client call, whatever the broker and the store answer, moves the record of the shared
  state along these steps and touches nothing else in it, and so does the accounting of a fill.
\<close>

section \<open>The state machine\<close>

definition status_of :: "pydict \<Rightarrow> pyval" where
  "status_of r = dget r ''state''"

definition unknown_order :: "pydict \<Rightarrow> bool" where
  "unknown_order r = (status_of r = PStr ''SUBMISSION_UNKNOWN'' \<and> \<not> dhas r ''method_name'')"

definition with_receipt :: "string \<Rightarrow> string \<Rightarrow> pyval \<Rightarrow> pydict" where
  "with_receipt identity method receipt = dset ''funding_receipt'' receipt (unknown_earn_record identity method)"

inductive submission_step :: "pydict \<Rightarrow> pydict \<Rightarrow> bool" where
  rearm: "status_of r = PStr ''TERMINAL'' \<Longrightarrow> submission_step r reserved_record"
| announce_order: "status_of r = PStr ''RESERVED'' \<Longrightarrow> hex64 (strip identity) \<Longrightarrow> is_symbol symbol \<Longrightarrow>
    submission_step r (unknown_order_record identity symbol)"
| announce_earn: "status_of r = PStr ''RESERVED'' \<Longrightarrow> hex64 (strip identity) \<Longrightarrow> earn_success_id method \<noteq> None \<Longrightarrow>
    submission_step r (unknown_earn_record identity method)"
| confirm_move: "valid_funding_receipt receipt \<Longrightarrow>
    submission_step (unknown_earn_record identity method) (with_receipt identity method receipt)"
| settle_move: "status_of r = PStr ''SUBMISSION_UNKNOWN'' \<Longrightarrow> dhas r ''funding_receipt'' \<Longrightarrow> submission_step r terminal_record"
| fill: "unknown_order r \<Longrightarrow> submission_step r (pending_record r response)"
| reject: "unknown_order r \<Longrightarrow> submission_step r terminal_record"
| account: "status_of r = PStr ''FILLED_ACCOUNTING_PENDING'' \<Longrightarrow> submission_step r terminal_record"

inductive_cases submission_stepE: "submission_step r r'"

abbreviation submission_steps :: "pydict \<Rightarrow> pydict \<Rightarrow> bool" where
  "submission_steps \<equiv> submission_step\<^sup>*\<^sup>*"

definition accepted :: "pydict \<Rightarrow> bool" where
  "accepted r = (check_submission_record r = Inr ())"

lemma accepted_simps:
  "accepted r \<longleftrightarrow> hashable (status_of r) \<and>
     (if status_of r = PStr ''RESERVED'' \<or> status_of r = PStr ''TERMINAL'' then keys_are r [''state'']
      else if status_of r = PStr ''FILLED_ACCOUNTING_PENDING'' then
        keys_are r [''state'', ''identity_sha256'', ''symbol'', ''known_fill''] \<and> is_sha256 (dget r ''identity_sha256'')
        \<and> symbol_field_ok r \<and> is_dict (dget r ''known_fill'')
      else status_of r = PStr ''SUBMISSION_UNKNOWN'' \<and> is_sha256 (dget r ''identity_sha256'')
        \<and> (if keys_are r [''state'', ''identity_sha256'', ''symbol''] then symbol_field_ok r
           else (keys_are r [''state'', ''identity_sha256'', ''method_name'']
               \<or> keys_are r [''state'', ''identity_sha256'', ''method_name'', ''funding_receipt''])
             \<and> earn_success_id (str_or_empty (dget r ''method_name'')) \<noteq> None
             \<and> (dhas r ''funding_receipt'' \<longrightarrow> valid_funding_receipt (dget r ''funding_receipt''))))"
  by (simp add: accepted_def check_submission_record_def status_of_def Let_def ensure_def)

lemma accepted_plain: "accepted reserved_record" "accepted terminal_record"
  by (simp_all add: accepted_simps status_of_def reserved_record_def terminal_record_def keys_are_def)

lemma accepted_order: "hex64 (strip identity) \<Longrightarrow> is_symbol symbol \<Longrightarrow> accepted (unknown_order_record identity symbol)"
  by (simp add: accepted_simps status_of_def unknown_order_record_def keys_are_def is_sha256_def symbol_field_ok_def)

lemma accepted_earn: "hex64 (strip identity) \<Longrightarrow> earn_success_id method \<noteq> None \<Longrightarrow> accepted (unknown_earn_record identity method)"
  by (simp add: accepted_simps status_of_def unknown_earn_record_def keys_are_def is_sha256_def)

lemma accepted_receipt:
  "accepted (unknown_earn_record identity method) \<Longrightarrow> valid_funding_receipt receipt \<Longrightarrow> accepted (with_receipt identity method receipt)"
  by (simp add: accepted_simps status_of_def unknown_earn_record_def with_receipt_def keys_are_def dset_def)

lemma symbol_upper: "is_symbol s \<Longrightarrow> upper s = s"
  by (auto simp: is_symbol_def upper_alnum_def list_all_iff upper_def upper_char_def is_upper_letter_def is_digit_def
      is_lower_letter_def intro!: map_idI)

lemma accepted_fill:
  assumes "accepted r" and "unknown_order r"
  shows "accepted (pending_record r response)"
proof -
  have keys: "keys_are r [''state'', ''identity_sha256'', ''symbol'']" and id: "is_sha256 (dget r ''identity_sha256'')"
    and sym: "is_symbol (str_or_empty (dget r ''symbol''))"
    using assms by (auto simp: accepted_simps unknown_order_def symbol_field_ok_def keys_are_def split: if_splits)
  have "truthy (dget r ''symbol'')"
    using sym by (auto simp: str_or_empty_def is_symbol_def upper_alnum_def split: if_splits)
  moreover obtain i where "dget r ''identity_sha256'' = PStr i" "hex64 (strip i)"
    using id by (auto simp: is_sha256_def split: pyval.splits)
  moreover from this have "str_or_empty (PStr i) = i"
    by (auto simp: str_or_empty_def hex64_def)
  ultimately show ?thesis
    using sym by (auto simp: accepted_simps status_of_def pending_record_def keys_are_def is_sha256_def symbol_field_ok_def
        symbol_upper known_fill_record_def str_or_empty_def [of "PStr (upper _)"] Let_def)
qed

lemma step_accepted: "submission_step r r' \<Longrightarrow> accepted r \<Longrightarrow> accepted r'"
  by (induction rule: submission_step.induct)
    (simp_all add: accepted_plain accepted_order accepted_earn accepted_receipt accepted_fill)

lemma steps_accepted: "submission_steps r r' \<Longrightarrow> accepted r \<Longrightarrow> accepted r'"
  by (induction rule: rtranclp_induct) (auto intro: step_accepted)

section \<open>Computations that move the record along the steps\<close>

definition record_at :: "nat \<Rightarrow> world \<Rightarrow> pydict" where
  "record_at a w = the_dict (dget_or (heap w a) submission_key (PDict reserved_record))"

text \<open>The record moved along the steps, nothing else in the state changed and the runtime still shares it.\<close>

definition moved :: "nat \<Rightarrow> world \<Rightarrow> world \<Rightarrow> bool" where
  "moved a w w' = (submission_steps (record_at a w) (record_at a w')
     \<and> (\<forall>k. k \<noteq> submission_key \<longrightarrow> map_of (heap w' a) k = map_of (heap w a) k)
     \<and> (\<forall>b. b \<noteq> a \<longrightarrow> heap w' b = heap w b) \<and> rt_trade_state (rt w') = Some a)"

definition calm :: "world \<Rightarrow> world \<Rightarrow> bool" where
  "calm w w' = (heap w' = heap w \<and> rt_trade_state (rt w') = rt_trade_state (rt w))"

lemma calm_rel [keeps_intros]: "reflp calm" "transp calm"
  by (auto simp: reflp_def transp_def calm_def)

lemma calm_basic [keeps_intros]:
  "keeps calm (invoke env c)" "keeps calm (upd_rp f)" "keeps calm (read_ref a)"
  by (simp_all add: keeps_def calm_def invoke_def upd_rp_def update_def read_ref_def gets_def)

lemma calm_rt [keeps_intros]: "(\<And>r. rt_trade_state (f r) = rt_trade_state r) \<Longrightarrow> keeps calm (upd_rt f)"
  by (simp add: keeps_def upd_rt_def update_def calm_def)

lemma calm_quiet [keeps_intros]: "keeps calm (quiet env c)"
  unfolding quiet_def by (intro keeps_intros)

lemma calm_records [keeps_intros]:
  "keeps calm (record_side_effect t m p b)" "keeps calm (record_order_response v)"
  "keeps calm record_order_submission_attempt" "keeps calm record_order_transport_uncertainty"
  "keeps calm record_order_failure"
  unfolding record_side_effect_def record_order_response_def record_order_submission_attempt_def
    record_order_transport_uncertainty_def record_order_failure_def bump_def
  by (intro keeps_intros; simp)+

lemma calm_parts [keeps_intros]:
  "keeps calm (require_runtime_state_owner env)" "keeps calm (persist_runtime_state env d i)"
  "keeps calm (reconcile_uncertain_order env s identity)" "keeps calm (require_filled_order_response v)"
  "keeps calm (confirm_funding_settlement env m receipt)" "keeps calm (earn_preflight env t p asset)"
  "keeps calm (suppressed_call m p t)" "keeps calm (deny_uncertain_earn env m p t)"
  unfolding require_runtime_state_owner_def persist_runtime_state_def write_runtime_state_def reconcile_uncertain_order_def
    require_filled_order_response_def confirm_funding_settlement_def earn_preflight_def suppressed_call_def deny_uncertain_earn_def
  by (intro keeps_intros; simp)+

text \<open>\<open>steers a p m\<close>: from a record with \<open>p\<close>, shared by the runtime, \<open>m\<close> moves it along the steps.\<close>

definition steers :: "nat \<Rightarrow> (pydict \<Rightarrow> bool) \<Rightarrow> 'a run \<Rightarrow> bool" where
  "steers a p m = (\<forall>w. rt_trade_state (rt w) = Some a \<longrightarrow> p (record_at a w) \<longrightarrow> moved a w (snd (m w)))"

named_theorems steers_intros \<open>computations that move the submission record along its steps\<close>

lemma moved_calm: "calm w u \<Longrightarrow> moved a u v \<Longrightarrow> moved a w v"
  by (auto simp: moved_def calm_def record_at_def)

lemma moved_then_calm: "moved a w u \<Longrightarrow> calm u v \<Longrightarrow> moved a w v"
  by (auto simp: moved_def calm_def record_at_def)

lemma moved_trans: "moved a w u \<Longrightarrow> moved a u v \<Longrightarrow> moved a w v"
  by (auto simp: moved_def)

lemma calm_moved: "rt_trade_state (rt w) = Some a \<Longrightarrow> calm w u \<Longrightarrow> moved a w u"
  by (auto simp: moved_def calm_def record_at_def)

lemma steers_calm: "keeps calm m \<Longrightarrow> steers a p m"
  by (auto simp: steers_def keeps_def calm_moved)

lemma steersD: "steers a p m \<Longrightarrow> rt_trade_state (rt w) = Some a \<Longrightarrow> p (record_at a w) \<Longrightarrow> m w = (r, u) \<Longrightarrow> moved a w u"
  by (metis steers_def snd_conv)

lemma calm_record: "calm w u \<Longrightarrow> record_at a u = record_at a w \<and> rt_trade_state (rt u) = rt_trade_state (rt w)"
  by (simp add: calm_def record_at_def)

text \<open>A first step that changes nothing, whose result \<open>Q\<close> may be used.\<close>

lemma steers_bind_post:
  assumes "keeps calm m" and "returns m Q" and "\<And>x u. Q x u \<Longrightarrow> steers a p (f x)"
  shows "steers a p (bind m f)"
  unfolding steers_def
proof (intro allI impI)
  fix w assume w: "rt_trade_state (rt w) = Some a" "p (record_at a w)"
  show "moved a w (snd (bind m f w))"
  proof (cases "m w")
    case (Pair r u)
    have u: "calm w u" using keepsD [OF assms(1) Pair] .
    show ?thesis
    proof (cases r)
      case (Inr x)
      with Pair assms(2) have "Q x u" by (auto dest: returnsD)
      then have "moved a u (snd (f x u))"
        using assms(3) w calm_record [OF u] by (simp add: steers_def)
      with moved_calm [OF u] Pair Inr show ?thesis by (simp add: bind_def)
    qed (use Pair calm_moved [OF w(1) u] in \<open>simp add: bind_def\<close>)
  qed
qed

lemma steers_bind [steers_intros]: "keeps calm m \<Longrightarrow> (\<And>x. steers a p (f x)) \<Longrightarrow> steers a p (bind m f)"
  by (rule steers_bind_post [where Q = "\<lambda>_ _. True"]) (simp_all add: returns_def wp_trivial)

lemma steers_liftE [steers_intros]: "(\<And>x. r = Inr x \<Longrightarrow> steers a p (f x)) \<Longrightarrow> steers a p (bind (liftE r) f)"
  by (rule steers_bind_post [where Q = "\<lambda>x _. r = Inr x"])
    (auto simp: returns_def eff_simps split: sum.split intro: keeps_intros)

lemma steers_last: "steers a p m \<Longrightarrow> (\<And>x. keeps calm (f x)) \<Longrightarrow> steers a p (bind m f)"
  unfolding steers_def keeps_def bind_def
  by (auto split: prod.splits sum.splits) (metis moved_then_calm snd_conv)+

lemma steers_attempt [steers_intros]:
  "keeps calm m \<Longrightarrow> (\<And>e. steers a p (h e)) \<Longrightarrow> (\<And>x. steers a p (f x)) \<Longrightarrow> steers a p (attempt m h f)"
  unfolding steers_def keeps_def attempt_def
  by (auto split: prod.splits sum.splits) (metis calm_record moved_calm snd_conv)+

lemma steers_if [steers_intros]: "(b \<Longrightarrow> steers a p m) \<Longrightarrow> (\<not> b \<Longrightarrow> steers a p n) \<Longrightarrow> steers a p (if b then m else n)"
  by simp

lemma steers_let [steers_intros]: "(\<And>x. x = v \<Longrightarrow> steers a p (f x)) \<Longrightarrow> steers a p (let x = v in f x)"
  by simp

lemma steers_case_prod [steers_intros]:
  "(\<And>x y. z = (x, y) \<Longrightarrow> steers a p (f x y)) \<Longrightarrow> steers a p (case z of (x, y) \<Rightarrow> f x y)"
  by (cases z) auto

lemma steers_weaken: "steers a q m \<Longrightarrow> (\<And>r. p r \<Longrightarrow> q r) \<Longrightarrow> steers a p m"
  by (auto simp: steers_def)

lemma steers_no: "(\<And>r. \<not> p r) \<Longrightarrow> steers a p m"
  by (simp add: steers_def)

text \<open>Writing the next record of the state machine.\<close>

lemma persist_moves:
  assumes "rt_trade_state (rt w) = Some a" and "submission_step (record_at a w) record"
  shows "wp (persist_order_submission_state env a record)
    (\<lambda>_ u. moved a w u \<and> record_at a u = record \<and> rt_trade_state (rt u) = Some a) (\<lambda>_. calm w) w"
proof -
  have p: "wp (persist_runtime_state env d i) (\<lambda>_. calm u) (\<lambda>_. calm u) u" for d i u
    by (intro keeps_wp keeps_intros)
  have "record_at a (w\<lparr>heap := (heap w)(a := dset submission_key (PDict record) (heap w a))\<rparr>) = record"
    by (simp add: record_at_def)
  then show ?thesis
    using assms unfolding persist_order_submission_state_def eff_simps
    by (intro wp_mono [OF keeps_wp [OF calm_parts(1)]] wp_mono [OF p])
      (auto simp: calm_def moved_def record_at_def dset_def update_conv' intro: r_into_rtranclp)
qed

lemma steers_persist [steers_intros]:
  assumes "\<And>r. p r \<Longrightarrow> submission_step r record" and "\<And>x. steers a (\<lambda>r. r = record) (f x)"
  shows "steers a p (bind (persist_order_submission_state env a record) f)"
  unfolding steers_def
proof (intro allI impI)
  fix w assume w: "rt_trade_state (rt w) = Some a" "p (record_at a w)"
  show "moved a w (snd (bind (persist_order_submission_state env a record) f w))"
  proof (cases "persist_order_submission_state env a record w")
    case (Pair r u)
    note step = wp_result [OF persist_moves [OF w(1) assms(1) [OF w(2)]] Pair]
    show ?thesis
    proof (cases r)
      case (Inl e)
      then show ?thesis using step Pair calm_moved [OF w(1)] by (simp add: bind_def)
    next
      case (Inr x)
      then have "moved a w u" "moved a u (snd (f x u))"
        using step assms(2) by (simp_all add: steers_def)
      then show ?thesis using Pair Inr moved_trans by (simp add: bind_def)
    qed
  qed
qed

section \<open>The order path\<close>

lemma bind_assoc: "bind (bind m f) g = bind m (\<lambda>x. bind (f x) g)"
  by (auto simp: bind_def fun_eq_iff split: prod.splits sum.splits)

lemma steers_whenM: "steers a p m \<Longrightarrow> steers a p (whenM b m)"
  by (simp add: whenM_def steers_calm keeps_ret calm_rel)

lemma steers_read:
  assumes "\<And>d. p (the_dict (dget_or d submission_key (PDict reserved_record)))
    \<Longrightarrow> steers a (\<lambda>r. r = the_dict (dget_or d submission_key (PDict reserved_record))) (f d)"
  shows "steers a p (bind (read_ref a) f)"
  using assms by (auto simp: steers_def bind_def read_ref_def gets_def record_at_def)

lemma unknown_present:
  "unknown_order (the_dict (dget_or d submission_key (PDict reserved_record))) \<Longrightarrow> dget_or d submission_key z = PDict previous
    \<Longrightarrow> the_dict (dget_or d submission_key (PDict reserved_record)) = previous"
  by (auto simp: dget_or_def unknown_order_def status_of_def reserved_record_def split: option.splits)

lemma steers_complete: "steers a unknown_order (complete_order_response env a response True)"
proof -
  have stored: "steers a unknown_order (bind (read_ref a) (\<lambda>d.
        bind (if b then (case dget_or d submission_key (PDict []) of
                   PDict previous \<Rightarrow> ret (pending_record previous (the_dict response)) | _ \<Rightarrow> throw AttributeError)
              else ret terminal_record) (\<lambda>record.
        bind (persist_order_submission_state env a record) (\<lambda>_. upd_rt g))))"
    if g: "\<And>r. rt_trade_state (g r) = rt_trade_state r" for b g
  proof (rule steers_read)
    fix d assume u: "unknown_order (the_dict (dget_or d submission_key (PDict reserved_record)))"
    let ?r = "the_dict (dget_or d submission_key (PDict reserved_record))"
    show "steers a (\<lambda>r. r = ?r) (bind (if b then (case dget_or d submission_key (PDict []) of
             PDict previous \<Rightarrow> ret (pending_record previous (the_dict response)) | _ \<Rightarrow> throw AttributeError)
          else ret terminal_record) (\<lambda>record. bind (persist_order_submission_state env a record) (\<lambda>_. upd_rt g)))"
    proof (rule steers_bind_post [where Q = "\<lambda>record _. submission_step ?r record"])
      show "returns (if b then (case dget_or d submission_key (PDict []) of
             PDict previous \<Rightarrow> ret (pending_record previous (the_dict response)) | _ \<Rightarrow> throw AttributeError)
          else ret terminal_record) (\<lambda>record _. submission_step ?r record)"
        using submission_step.fill [OF u] submission_step.reject [OF u] unknown_present [OF u]
        by (auto simp: returns_def eff_simps split: pyval.split)
      show "steers a (\<lambda>r. r = ?r) (bind (persist_order_submission_state env a new) (\<lambda>_. upd_rt g))"
        if "submission_step ?r new" for new
        using that by (intro steers_persist steers_calm calm_rt g) simp
    qed (intro keeps_intros)
  qed
  show ?thesis
    unfolding complete_order_response_def
    by (intro steers_bind steers_let steers_last [OF steers_whenM] stored keeps_intros) simp_all
qed

lemma steers_accept: "steers a unknown_order (accept_order_response env a assoc response m c)"
  unfolding accept_order_response_def
  by (intro steers_bind steers_last [OF steers_complete] keeps_intros)

lemma steers_recover: "steers a unknown_order (recover_order env m p t a assoc i n e)"
  unfolding recover_order_def
  by (intro steers_bind steers_attempt steers_accept steers_calm keeps_intros keeps_case_exc)

lemma steers_attempts: "steers a unknown_order (client_attempts env m p t (Some (a, assoc, i)) k n left)"
  by (cases left) (simp_all only: client_attempts.simps option.case prod.case,
      (intro steers_bind steers_attempt steers_accept steers_recover steers_calm keeps_intros)+)

lemma steers_resume:
  "status_of record = PStr ''SUBMISSION_UNKNOWN'' \<Longrightarrow> steers a (\<lambda>r. r = record) (resume_unknown_order env m p is_earn a record)"
  unfolding resume_unknown_order_def
  by (intro steers_if steers_intros steers_last [OF steers_weaken [OF steers_complete]] keeps_intros) 
    (auto simp: unknown_order_def intro!: steers_calm keeps_intros)

lemma identity_hex: "ensure_order_logical_identity run_id m p = Inr (p', i) \<Longrightarrow> hex64 (strip i)"
  by (auto simp: ensure_identity_total strip_hex64)

lemma association_is_symbol: "build_order_request_association m p = Inr assoc \<Longrightarrow> is_symbol (as_symbol assoc)"
  by (auto simp: build_order_request_association_def Let_def tryE_def split: if_splits option.splits list.splits sum.splits)

lemma steers_submit_order: "steers a (\<lambda>r. status_of r = PStr ''RESERVED'') (submit_order env m p t k a)"
proof -
  have sent: "steers a (\<lambda>r. r = unknown_order_record i s) (bind (upd_rt g) (\<lambda>_. bind record_order_submission_attempt (\<lambda>_.
      bind (quiet env Pause) (\<lambda>_. client_attempts env m pl t (Some (a, assoc, i)) k 0 (k + 1)))))"
    if "\<And>r. rt_trade_state (g r) = rt_trade_state r" for g pl assoc i s
    by (intro steers_bind steers_weaken [OF steers_attempts] keeps_intros that)
      (simp add: unknown_order_def status_of_def unknown_order_record_def)
  show ?thesis
    unfolding submit_order_def announce_submission_def bind_assoc
    by (intro steers_intros sent keeps_intros)
      (auto intro!: announce_order dest: identity_hex association_is_symbol)
qed

section \<open>The Earn path\<close>

lemma parsed_representable: "dec_parse s = Some (Dec neg c e) \<Longrightarrow> dec_representable c e"
  by (auto simp: dec_parse_def dec_parse_nan_def Let_def split: prod.splits if_splits option.splits)

lemma funding_text:
  assumes "funding_amount v = Inr d"
  shows "funding_amount (PStr (dec_str d)) = Inr d"
proof -
  from assms have d: "dec_finite d" "\<not> dec_negative d" "dec_parse (py_str v) = Some d"
    by (auto simp: funding_amount_def bindE_Inr_iff to_dec_def dec_parseE_def split: if_splits option.splits)
  then obtain s c e where "d = Dec s c e" "dec_representable c e"
    by (cases d) (auto dest: parsed_representable)
  with d show ?thesis by (simp add: funding_amount_def to_dec_str)
qed

text \<open>What the checks before an Earn move establish: the parts of a valid receipt.\<close>

definition move_checked :: "pyval \<Rightarrow> pydict \<times> pydec \<times> pydec \<Rightarrow> bool" where
  "move_checked asset checked = (case checked of (payload, moved_qty, spot_qty) \<Rightarrow>
     (case asset of PStr s \<Rightarrow> upper_alnum 1 20 s | _ \<Rightarrow> False)
     \<and> (case dget payload ''productId'' of PStr s \<Rightarrow> s \<noteq> [] | _ \<Rightarrow> False)
     \<and> dec_positive moved_qty \<and> funding_amount (PStr (dec_str moved_qty)) = Inr moved_qty \<and> funding_amount (PStr (dec_str spot_qty)) = Inr spot_qty)"

lemma preflight_checked: "returns (earn_preflight env t p asset) (\<lambda>r _. move_checked asset r)"
  by (auto simp: returns_def earn_preflight_def eff_simps Let_def move_checked_def bindE_Inr_iff
      dest: funding_text split: sum.splits pyval.splits)

lemma confirmed_id:
  "is_confirmed_earn_success method response \<Longrightarrow> \<exists>i. dget (the_dict response) (the (earn_success_id method)) = PInt i \<and> 0 < i"
  by (cases response) (auto simp: is_confirmed_earn_success_def split: pyval.splits option.splits)

lemma checked_receipt:
  assumes "move_checked asset (payload, moved_qty, spot_qty)" and "is_confirmed_earn_success method response"
  shows "valid_funding_receipt (PDict [(''id'', dget (the_dict response) (the (earn_success_id method))), (''asset'', asset),
     (''product_id'', dget payload ''productId''), (''amount'', PStr (dec_str moved_qty)), (''spot_before'', PStr (dec_str spot_qty))])"
proof -
  obtain i where i: "dget (the_dict response) (the (earn_success_id method)) = PInt i" "0 < i"
    using confirmed_id [OF assms(2)] by blast
  obtain s x where "asset = PStr s" "upper_alnum 1 20 s" "dget payload ''productId'' = PStr x" "x \<noteq> []"
    using assms(1) by (auto simp: move_checked_def split: pyval.splits)
  with assms(1) i show ?thesis
    by (simp add: move_checked_def valid_funding_receipt_def receipt_keys_def keys_are_def)
qed

lemma steers_submit_earn:
  assumes "move_checked asset (p, moved_qty, spot_qty)"
  shows "steers a (\<lambda>r. r = unknown_earn_record i m) (submit_earn env m p t asset a (unknown_earn_record i m) moved_qty spot_qty)"
proof -
  have fin: "dhas (with_receipt i m receipt) ''funding_receipt''" "status_of (with_receipt i m receipt) = PStr ''SUBMISSION_UNKNOWN''" for receipt
    by (simp_all add: with_receipt_def status_of_def unknown_earn_record_def)
  show ?thesis
    unfolding submit_earn_def with_receipt_def [symmetric]
    by (intro steers_intros steers_calm keeps_intros)
      (auto intro: confirm_move checked_receipt [OF assms] settle_move fin intro!: steers_calm keeps_intros)
qed

lemma steers_submit_move:
  assumes "earn_success_id m \<noteq> None"
  shows "steers a (\<lambda>r. status_of r = PStr ''RESERVED'') (submit_earn_move env m p t asset a)"
proof -
  have sent: "steers a (\<lambda>r. r = unknown_earn_record i m) (bind (upd_rt g) (\<lambda>_. bind record_order_submission_attempt (\<lambda>_.
      submit_earn env m pl t asset a (unknown_earn_record i m) moved_qty spot_qty)))"
    if "\<And>r. rt_trade_state (g r) = rt_trade_state r" "move_checked asset (pl, moved_qty, spot_qty)" for g pl i moved_qty spot_qty
    by (intro steers_bind steers_submit_earn keeps_intros that)
  show ?thesis
    unfolding submit_earn_move_def announce_submission_def bind_assoc
    by (rule steers_bind_post [OF _ preflight_checked], intro keeps_intros)
      (auto intro!: steers_bind steers_liftE steers_let steers_persist sent announce_earn assms keeps_intros
        dest: identity_hex split: prod.splits)
qed

section \<open>The whole call\<close>

lemma load_shared:
  assumes "rt_trade_state (rt w) = Some a"
  shows "wp (load_order_submission_state env)
    (\<lambda>(a', r) u. a' = a \<and> r = record_at a w \<and> accepted r \<and> calm w u) (\<lambda>_. calm w) w"
  using assms
  by (auto simp: load_order_submission_state_def eff_simps record_at_def calm_def accepted_def split: pyval.split sum.split)

lemma accepted_status:
  "accepted r \<Longrightarrow> status_of r \<in> {PStr ''RESERVED'', PStr ''TERMINAL'', PStr ''FILLED_ACCOUNTING_PENDING'', PStr ''SUBMISSION_UNKNOWN''}"
  by (auto simp: accepted_simps split: if_splits)

lemma steers_after_load:
  assumes "\<And>r. accepted r \<Longrightarrow> steers a (\<lambda>r'. r' = r) (f (a, r))"
  shows "steers a p (bind (load_order_submission_state env) f)"
  unfolding steers_def
proof (intro allI impI)
  fix w :: world assume w: "rt_trade_state (rt w) = Some a"
  show "moved a w (snd (bind (load_order_submission_state env) f w))"
  proof (cases "load_order_submission_state env w")
    case (Pair r u)
    note loaded = wp_result [OF load_shared [OF w] Pair]
    show ?thesis
    proof (cases r)
      case (Inl e)
      then show ?thesis using loaded Pair calm_moved [OF w] by (simp add: bind_def)
    next
      case (Inr x)
      then have x: "x = (a, record_at a w)" "accepted (record_at a w)" "calm w u"
        using loaded by (auto split: prod.splits)
      then have "moved a u (snd (f x u))"
        using assms [of "record_at a w"] w calm_record [OF x(3)] by (simp add: steers_def)
      with moved_calm [OF x(3)] Pair Inr show ?thesis by (simp add: bind_def)
    qed
  qed
qed

lemma steers_ready:
  assumes "accepted r" and "status_of r \<noteq> PStr ''SUBMISSION_UNKNOWN''" and "status_of r \<noteq> PStr ''FILLED_ACCOUNTING_PENDING''"
    and "steers a (\<lambda>r. status_of r = PStr ''RESERVED'') m"
  shows "steers a (\<lambda>r'. r' = r) (bind (whenM (status_of r = PStr ''TERMINAL'') (persist_order_submission_state env a reserved_record)) (\<lambda>_. m))"
proof (cases "status_of r = PStr ''TERMINAL''")
  case True
  have "steers a (\<lambda>r. r = reserved_record) m"
    using assms(4) by (rule steers_weaken) (simp add: status_of_def reserved_record_def)
  then show ?thesis
    using True by (simp add: whenM_def) (intro steers_persist, auto intro: rearm)
next
  case False
  then have "status_of r = PStr ''RESERVED''"
    using accepted_status [OF assms(1)] assms(2,3) by blast
  then show ?thesis
    using False assms(4) by (simp add: whenM_def) (intro steers_bind keeps_ret calm_rel steers_weaken [OF assms(4)], simp)
qed

lemma steers_submit_mutation:
  assumes "is_earn \<Longrightarrow> earn_success_id m \<noteq> None"
  shows "steers a p (submit_mutation env m pl t k asset is_earn)"
  unfolding submit_mutation_def Let_def status_of_def [symmetric]
proof (rule steers_after_load, simp only: prod.case, goal_cases)
  case (1 r)
  have "steers a (\<lambda>r. status_of r = PStr ''RESERVED'') (if is_earn then submit_earn_move env m pl t asset a else submit_order env m pl t k a)"
    using assms by (intro steers_if steers_submit_move steers_submit_order) auto
  with 1 show ?case
    by (intro steers_if steers_resume steers_ready) (auto intro!: steers_calm keeps_intros)
qed

lemma steers_call: "steers a p (runtime_call_client env m pl t k asset)"
proof -
  have earn: "earn_success_id m \<noteq> None" if "earn_method_by_effect t = Some m"
    using that by (auto simp: earn_method_by_effect_def earn_success_id_def split: if_splits)
  have plain: "keeps calm (client_attempts env m pl t None k n left)" for n left
    by (induction left arbitrary: n) (auto intro!: keeps_intros)
  show ?thesis
    unfolding runtime_call_client_def Let_def
    by (intro steers_if steers_bind steers_submit_mutation earn keeps_intros) (auto intro!: steers_calm keeps_intros plain)
qed

text \<open>Accounting a fill closes it.\<close>

lemma accounting_moves:
  assumes "close_accounted_fill s = Inr s'"
  shows "submission_steps (the_dict (dget_or s submission_key (PDict reserved_record))) (the_dict (dget_or s' submission_key (PDict reserved_record)))"
proof (cases "submission_state_of s = Inr (PStr ''FILLED_ACCOUNTING_PENDING'')")
  case True
  then have "status_of (the_dict (dget_or s submission_key (PDict reserved_record))) = PStr ''FILLED_ACCOUNTING_PENDING''"
    by (auto simp: submission_state_of_def vget_Inr_iff status_of_def dget_or_def split: option.splits)
  from submission_step.account [OF this] show ?thesis
    using assms True by (auto simp: close_accounted_fill_def bindE_Inr_iff)
next
  case False
  then have "s' = s"
    using assms by (auto simp: close_accounted_fill_def bindE_Inr_iff split: if_splits)
  then show ?thesis by simp
qed

section \<open>Properties\<close>


text \<open>
  C24: every client call refines the life cycle. Whatever the broker, the store and the network
  answer, and whether the call returns or raises, the submission record of the shared state moved
  along the steps of the state machine (so it stays readable), no other field of the state and no
  other dictionary changed, and the runtime still shares the same state.
\<close>

theorem client_call_refines_life_cycle:
  assumes "rt_trade_state (rt w) = Some a"
    and "runtime_call_client env method payload effect_type retries asset w = (result, w')"
  shows "submission_steps (record_at a w) (record_at a w') \<and> (accepted (record_at a w) \<longrightarrow> accepted (record_at a w'))
    \<and> (\<forall>k. k \<noteq> submission_key \<longrightarrow> map_of (heap w' a) k = map_of (heap w a) k)
    \<and> (\<forall>b. b \<noteq> a \<longrightarrow> heap w' b = heap w b) \<and> rt_trade_state (rt w') = Some a"
  using steersD [OF steers_call [of a "\<lambda>_. True"] assms(1) _ assms(2)] steps_accepted
  by (auto simp: moved_def)


lemma client_call_refines_life_cycle_witness:
  "accepted (record_at 0 (snd (runtime_call_client filling_env ''order_market_buy'' sample_order ''order_buy'' 0 PNone (sample_world []))))"
  using client_call_refines_life_cycle [of "sample_world []" 0, OF _ prod.collapse [symmetric]] accepted_plain(1)
  by (simp add: sample_world_def sample_runtime_def record_at_def)

end
