(* ===== verification/Float_Text.thy ===== *)
theory Float_Text
  imports Decimal_Text
begin

text \<open>
  \<open>float(repr(x)) == x\<close>: the shortest digits \<open>float_repr\<close> prints read back as the same binary64 value,
  and their text has the grammar of a JSON number. Seventeen digits are enough because the printed
  decimal is then closer to the value than half of the gap to its neighbours.
\<close>

section \<open>Decimals close to a binary64 value\<close>

lemma round_half_even_near: "\<bar>z - of_int j\<bar> < 1 / 2 \<Longrightarrow> round_half_even z = j"
proof -
  assume near: "\<bar>z - of_int j\<bar> < 1 / 2"
  then have "\<lfloor>z\<rfloor> = j \<and> z - of_int j < 1 / 2 \<or> \<lfloor>z\<rfloor> = j - 1 \<and> 1 / 2 < z - of_int (j - 1)"
    by linarith
  then show ?thesis
    by (auto simp: round_half_even_def Let_def)
qed

lemma fl_rat_grid: "fl_rat x = x \<Longrightarrow> \<exists>i :: int. x = of_int i * pow2 (ulp_exp \<bar>x\<bar>)"
  by (cases "x = 0") (auto simp: fl_rat_def intro: exI [of _ 0], metis)

lemma pow2_Suc: "pow2 (k + 1) = 2 * pow2 k"
  using pow2_add [of k 1] by (simp add: pow2_def [of 1])

lemma pow2_minus: "pow2 (k - int n) * 2 ^ n = pow2 k"
  using pow2_add [of "k - int n" "int n"] by (simp add: pow2_def [of "int n"])

text \<open>The gap above a positive value of the grid is more than its \<open>2 ^ 53\<close>rd part.\<close>

lemma ulp_large: "0 < x \<Longrightarrow> x < pow2 (ulp_exp x) * 2 ^ 53"
proof -
  assume x: "0 < x"
  have "x < pow2 (floor_log2 x + 1)" using floor_log2 [OF x] by simp
  also have "\<dots> = pow2 (floor_log2 x - 52) * 2 ^ 53"
    using pow2_minus [of "floor_log2 x + 1" 53] by simp
  also have "\<dots> \<le> pow2 (ulp_exp x) * 2 ^ 53"
    by (intro mult_right_mono pow2_mono) (simp_all add: ulp_exp_def)
  finally show ?thesis .
qed

lemma ulp_exp_mono: "0 < x \<Longrightarrow> x \<le> y \<Longrightarrow> ulp_exp x \<le> ulp_exp y"
  using floor_log2_mono [of x y] by (simp add: ulp_exp_def)

lemma on_grid_above:
  assumes "0 < x" and "x = of_int i * pow2 (ulp_exp x)" and "pow2 k < x" and "ulp_exp x \<le> k"
  shows "pow2 k + pow2 (ulp_exp x) \<le> x"
proof -
  obtain j where j: "pow2 k = of_int j * pow2 (ulp_exp x)"
    using grid_pow2 [OF assms(4)] by (metis nonzero_divide_eq_eq pow2_nonzero)
  have "of_int j * pow2 (ulp_exp x) < of_int i * pow2 (ulp_exp x)" using assms j by simp
  then have "j + 1 \<le> i" by simp
  then have "of_int (j + 1) * pow2 (ulp_exp x) \<le> of_int i * pow2 (ulp_exp x)"
    by (intro mult_right_mono) (simp_all only: of_int_le_iff pow2_nonneg)
  then show ?thesis using assms(2) j by (simp add: distrib_right)
qed

lemma on_grid_below:
  assumes "0 < x" and "x = of_int i * pow2 (ulp_exp x)" and "x < pow2 k" and "ulp_exp x \<le> k"
  shows "x + pow2 (ulp_exp x) \<le> pow2 k"
proof -
  obtain j where j: "pow2 k = of_int j * pow2 (ulp_exp x)"
    using grid_pow2 [OF assms(4)] by (metis nonzero_divide_eq_eq pow2_nonzero)
  have "of_int i * pow2 (ulp_exp x) < of_int j * pow2 (ulp_exp x)" using assms j by simp
  then have "i + 1 \<le> j" by simp
  then have "of_int (i + 1) * pow2 (ulp_exp x) \<le> of_int j * pow2 (ulp_exp x)"
    by (intro mult_right_mono) (simp_all only: of_int_le_iff pow2_nonneg)
  then show ?thesis using assms(2) j by (simp add: distrib_right)
qed

lemma fl_rat_near:
  assumes x: "0 < x" "fl_rat x = x" and near: "\<bar>y - x\<bar> * 2 ^ 54 < x"
  shows "fl_rat y = x"
proof -
  have y: "0 < y" "x < 2 * y" "y < 2 * x" using near x by (auto simp: abs_less_iff abs_if split: if_splits)
  obtain i where i: "x = of_int i * pow2 (ulp_exp x)" using fl_rat_grid [OF x(2)] x(1) by auto
  have "(\<bar>y - x\<bar> * 2) * 2 ^ 53 < pow2 (ulp_exp x) * 2 ^ 53" using near ulp_large [OF x(1)] by simp
  then have small: "\<bar>y - x\<bar> * 2 < pow2 (ulp_exp x)" by (rule mult_right_less_imp_less) simp
  have "\<exists>j. x = of_int j * pow2 (ulp_exp y) \<and> \<bar>y - x\<bar> * 2 < pow2 (ulp_exp y)"
  proof (cases "ulp_exp x" "ulp_exp y" rule: linorder_cases)
    case equal
    then show ?thesis using i small by auto
  next
    case less
    then have lt: "floor_log2 x < floor_log2 y" "ulp_exp x \<le> floor_log2 y" by (auto simp: ulp_exp_def max_def split: if_splits)
    then have "x < pow2 (floor_log2 y)"
      using floor_log2 [OF x(1)] pow2_mono [of "floor_log2 x + 1" "floor_log2 y"] by simp
    then have "x + pow2 (ulp_exp x) \<le> pow2 (floor_log2 y)" using on_grid_below [OF x(1) i] lt by simp
    then have "pow2 (ulp_exp x) \<le> y - x" using floor_log2 [OF y(1)] by simp
    with small x show ?thesis by (simp add: abs_if split: if_splits)
  next
    case greater
    define k where "k = floor_log2 x"
    have k: "ulp_exp x = k - 52" "floor_log2 y < k" "ulp_exp x \<le> k" "- 1074 < k - 52"
      using greater by (auto simp: ulp_exp_def max_def k_def split: if_splits)
    have yk: "y < pow2 k" using floor_log2 [OF y(1)] pow2_mono [of "floor_log2 y + 1" k] k by simp
    have kx: "pow2 k \<le> x" using floor_log2 [OF x(1)] by (simp add: k_def)
    have "x = pow2 k"
    proof (rule ccontr)
      assume "x \<noteq> pow2 k"
      then have "pow2 k + pow2 (ulp_exp x) \<le> x" using on_grid_above [OF x(1) i] kx k by simp
      then show False using yk small by (simp add: abs_if split: if_splits)
    qed
    moreover have "pow2 (k - 1) < y"
      using y(2) pow2_Suc [of "k - 1"] \<open>x = pow2 k\<close> by simp
    then have "floor_log2 y = k - 1" using yk floor_log2_eqI [of "k - 1" y] by simp
    then have uy: "ulp_exp y = k - 53" using k by (simp add: ulp_exp_def)
    moreover have "pow2 (k - 53) * 2 ^ 53 = pow2 k" using pow2_minus [of k 53] by simp
    ultimately have "x = of_int (2 ^ 53) * pow2 (ulp_exp y)" "\<bar>y - x\<bar> * 2 < pow2 (ulp_exp y)"
      using near by simp_all
    then show ?thesis by blast
  qed
  then obtain j where j: "x = of_int j * pow2 (ulp_exp y)" "\<bar>y - x\<bar> * 2 < pow2 (ulp_exp y)" by blast
  have "y / pow2 (ulp_exp y) - of_int j = (y - x) / pow2 (ulp_exp y)"
    by (subst j(1)) (simp add: diff_divide_distrib)
  then have "\<bar>y / pow2 (ulp_exp y) - of_int j\<bar> = \<bar>y - x\<bar> / pow2 (ulp_exp y)"
    by (simp add: abs_divide abs_of_pos)
  then have "\<bar>y / pow2 (ulp_exp y) - of_int j\<bar> < 1 / 2" using j(2) by (simp add: field_simps)
  then show ?thesis
    using y(1) j(1) by (simp add: fl_rat_def round_half_even_near)
qed

section \<open>The shortest digits\<close>

lemma ten_shift: "ten (k - int n) * 10 ^ n = ten k"
  using ten_add [of "k - int n" "int n"] by (simp add: ten_nat)

lemma closest_near: "\<bar>of_int (closest x e) * ten e - x\<bar> * 2 \<le> ten e"
proof -
  have "\<bar>of_int (closest x e) - x / ten e\<bar> \<le> 1 / 2"
    unfolding closest_def by (rule round_half_even_error)
  then have "\<bar>of_int (closest x e) - x / ten e\<bar> * ten e \<le> 1 / 2 * ten e"
    by (intro mult_right_mono) (simp_all add: less_imp_le)
  moreover have "(of_int (closest x e) - x / ten e) * ten e = of_int (closest x e) * ten e - x"
    by (simp add: left_diff_distrib)
  then have "\<bar>of_int (closest x e) - x / ten e\<bar> * ten e = \<bar>of_int (closest x e) * ten e - x\<bar>"
    by (metis abs_mult abs_of_pos ten_pos)
  ultimately show ?thesis by simp
qed

lemma shortest_reads:
  assumes "0 < x" and "fl_rat x = x" and "ten hi \<le> x"
  shows "shortest x hi n = (m, e) \<Longrightarrow> fl_rat (of_int m * ten e) = x"
proof (induction n)
  case 0
  have "\<bar>of_int (closest x (hi - 16)) * ten (hi - 16) - x\<bar> * 2 * 10 ^ 16 \<le> x"
    using mult_right_mono [OF closest_near [of x "hi - 16"], of "10 ^ 16"] ten_shift [of hi 16] assms(3) by simp
  then have "\<bar>of_int (closest x (hi - 16)) * ten (hi - 16) - x\<bar> * 2 ^ 54 < x"
    using assms(1) by (cases "of_int (closest x (hi - 16)) * ten (hi - 16) = x") (simp_all add: zero_less_abs_iff, linarith?)
  with 0 assms(1,2) show ?case by (auto intro: fl_rat_near)
qed (auto simp: Let_def split: if_splits)

lemma floor_log10_le:
  assumes "ten (k - 1) \<le> x" and "x < ten (k + 1)"
  shows "ten (floor_log10 x k (Suc (Suc n))) \<le> x"
  using assms by simp

lemma num_digits_bounds: "0 < n \<Longrightarrow> 10 ^ (num_digits n - 1) \<le> n \<and> n < 10 ^ num_digits n"
proof -
  assume n: "0 < n"
  have "n < 10 ^ num_digits n"
    using show_nat_length_le [of "num_digits n" n] num_digits_pos by (simp add: num_digits_def)
  moreover have "10 ^ (num_digits n - 1) \<le> n"
  proof (cases "num_digits n - 1 = 0")
    case False
    then have "\<not> n < 10 ^ (num_digits n - 1)"
      using show_nat_length_le [of "num_digits n - 1" n] num_digits_pos [of n] unfolding num_digits_def by linarith
    then show ?thesis by simp
  qed (use n in simp)
  ultimately show ?thesis by simp
qed

lemma float_log10:
  assumes "0 < y" and "quotient_of y = (p, q)"
  shows "ten (floor_log10 y (int (num_digits (nat p)) - int (num_digits (nat q))) 3) \<le> y"
proof -
  define a b where "a = num_digits (nat p)" and "b = num_digits (nat q)"
  have q: "0 < q" using quotient_of_denom_pos [OF assms(2)] .
  have y: "y = of_int p / of_int q" using quotient_of_div [OF assms(2)] .
  then have p: "0 < p" using assms(1) q by (simp add: zero_less_divide_iff)
  have P: "10 ^ (a - 1) \<le> p" "p < 10 ^ a" and Q: "10 ^ (b - 1) \<le> q" "q < 10 ^ b"
    using num_digits_bounds [of "nat p"] num_digits_bounds [of "nat q"] p q
    by (simp_all add: a_def b_def le_nat_iff nat_less_iff)
  have ab: "0 < a" "0 < b" by (simp_all add: a_def b_def)
  have up: "y < ten (int a - int b + 1)"
  proof -
    have "of_int p < (10 :: rat) ^ a" "(10 :: rat) ^ (b - 1) \<le> of_int q"
      using P(2) Q(1) by (metis of_int_less_iff of_int_power of_int_numeral, metis of_int_le_iff of_int_power of_int_numeral)
    then have "of_int p < ten (int a - int (b - 1)) * 10 ^ (b - 1)"
      using ten_shift [of "int a" "b - 1"] by (simp add: ten_nat)
    moreover have "ten (int a - int (b - 1)) * 10 ^ (b - 1) \<le> ten (int a - int (b - 1)) * of_int q"
      using \<open>10 ^ (b - 1) \<le> of_int q\<close> by (intro mult_left_mono) (simp_all add: less_imp_le)
    ultimately have "of_int p < ten (int a - int (b - 1)) * of_int q" by linarith
    moreover have shift: "int a - int (b - 1) = int a - int b + 1" using ab by simp
    ultimately show ?thesis using q unfolding shift by (simp only: y pos_divide_less_eq of_int_0_less_iff)
  qed
  have down: "ten (int a - int b - 1) \<le> y"
  proof -
    have "(10 :: rat) ^ (a - 1) \<le> of_int p" "of_int q \<le> (10 :: rat) ^ b"
      using P(1) Q(2) by (metis of_int_le_iff of_int_power of_int_numeral, metis of_int_less_iff of_int_power of_int_numeral less_imp_le)
    then have "ten (int (a - 1) - int b) * 10 ^ b \<le> of_int p"
      using ten_shift [of "int (a - 1)" b] by (simp add: ten_nat)
    moreover have "ten (int (a - 1) - int b) * of_int q \<le> ten (int (a - 1) - int b) * 10 ^ b"
      using \<open>of_int q \<le> 10 ^ b\<close> by (intro mult_left_mono) (simp_all add: less_imp_le)
    ultimately have "ten (int (a - 1) - int b) * of_int q \<le> of_int p" by linarith
    moreover have shift: "int (a - 1) - int b = int a - int b - 1" using ab by simp
    ultimately show ?thesis using q unfolding shift by (simp only: y pos_le_divide_eq of_int_0_less_iff)
  qed
  show ?thesis
    using floor_log10_le [OF down, of 1] up by (simp add: a_def b_def numeral_3_eq_3)
qed

section \<open>The text\<close>

definition float_exponent :: "string \<Rightarrow> bool" where
  "float_exponent r = (r = [] \<or> (\<exists>sg ds. r = CHR ''e'' # sg # ds \<and> (sg = CHR ''+'' \<or> sg = CHR ''-'') \<and> digits ds \<and> ds \<noteq> []))"

lemma digits_pad: "digits s \<Longrightarrow> digits (pad_left (CHR ''0'') n s)"
  by (auto simp: pad_left_def digits_def list_all_iff)

lemma exponent_e_suffix:
  "exponent_suffix (''e'' @ (if k < 0 then ''-'' else ''+'') @ pad_left (CHR ''0'') 2 (show_nat (nat \<bar>k\<bar>))) k"
proof -
  have "digits (pad_left (CHR ''0'') 2 (show_nat n))" "pad_left (CHR ''0'') 2 (show_nat n) \<noteq> []" for n
    using digits_pad by (simp_all add: pad_left_def)
  moreover have "lower_char (CHR ''e'') = CHR ''e''" by code_simp
  ultimately show ?thesis
    by (auto simp: exponent_suffix_def parse_exponent_def split_sign_def digits_def [symmetric])
qed

lemma strip_zeros:
  assumes "0 < n"
  obtains ds j where "rev (dropWhile (\<lambda>c. c = CHR ''0'') (rev (show_nat n))) = ds" and "show_nat n = ds @ zeros j"
    and "ds \<noteq> []" and "digits ds" and "hd ds \<noteq> CHR ''0''" and "nat_of_digits ds * 10 ^ j = n"
proof -
  define ds where "ds = rev (dropWhile (\<lambda>c. c = CHR ''0'') (rev (show_nat n)))"
  define j where "j = length (takeWhile (\<lambda>c. c = CHR ''0'') (rev (show_nat n)))"
  have "takeWhile (\<lambda>c. c = CHR ''0'') (rev (show_nat n)) = zeros j"
    by (auto simp: j_def zeros_def intro!: replicate_eqI dest: set_takeWhileD)
  then have split: "show_nat n = ds @ zeros j"
    by (metis ds_def rev_append rev_replicate rev_rev_ident takeWhile_dropWhile_id zeros_def)
  have "ds \<noteq> []"
  proof
    assume "ds = []"
    with split have "nat_of_digits (show_nat n) = 0" using nat_of_digits_zeros [of j "[]"] by simp
    with assms show False by simp
  qed
  moreover have "digits ds" using split digits_show [of n] by simp
  moreover have "hd ds \<noteq> CHR ''0''" using show_nat_hd [OF assms] split \<open>ds \<noteq> []\<close> by simp
  moreover have "nat_of_digits (ds @ zeros j) = n" by (simp flip: split)
  then have "nat_of_digits ds * 10 ^ j = n"
    using nat_of_digits_zeros [of j "[]"] by (simp add: nat_of_digits_append length_zeros)
  ultimately show thesis using that [OF ds_def [symmetric] split] by simp
qed

lemma float_repr_parts:
  assumes "fl_rat x = x"
  obtains ip fp xp k where "float_repr (Fin x) = sign_text (x < 0) @ ip @ (if fp = [] then [] else CHR ''.'' # fp) @ xp"
    and "digits ip" and "digits fp" and "ip \<noteq> []" and "ip = ''0'' \<or> hd ip \<noteq> CHR ''0''" and "exponent_suffix xp k" and "float_exponent xp"
    and "fp \<noteq> [] \<or> xp \<noteq> []" and "fl_rat (of_nat (nat_of_digits (ip @ fp)) * ten (k - int (length fp))) = \<bar>x\<bar>"
proof (cases "x = 0")
  case True
  have "nat_of_digits ''00'' = 0" by (simp add: nat_of_digits_def digit_val_def ord_def)
  with True show thesis
    by (intro that [of "''0''" "''0''" "[]" 0]) (simp_all add: float_repr_def sign_text_def exponent_suffix_def float_exponent_def)
next
  case False
  define y where "y = \<bar>x\<bar>"
  have y: "0 < y" "fl_rat y = y" using False assms fl_rat_minus [of x] by (auto simp: y_def abs_if)
  obtain p q where pq: "quotient_of y = (p, q)" by (cases "quotient_of y")
  define hi where "hi = floor_log10 y (int (num_digits (nat p)) - int (num_digits (nat q))) 3"
  obtain m e where me: "shortest y hi 17 = (m, e)" by (cases "shortest y hi 17")
  have reads: "fl_rat (of_int m * ten e) = y"
    using shortest_reads [OF y _ me] float_log10 [OF y(1) pq] by (simp add: hi_def)
  have "0 < m"
  proof (rule ccontr)
    assume "\<not> 0 < m"
    then have "of_int m * ten e \<le> 0" by (simp add: mult_le_0_iff less_imp_le [OF ten_pos])
    then have "fl_rat (of_int m * ten e) \<le> 0" using fl_rat_mono [of _ 0] by simp
    with reads y show False by simp
  qed
  obtain ds j where ds: "rev (dropWhile (\<lambda>c. c = CHR ''0'') (rev (show_nat (nat m)))) = ds" "show_nat (nat m) = ds @ zeros j"
    "ds \<noteq> []" "digits ds" "hd ds \<noteq> CHR ''0''" "nat_of_digits ds * 10 ^ j = nat m"
    using strip_zeros [of "nat m"] \<open>0 < m\<close> by (metis zero_less_nat_eq)
  define dot where "dot = int (num_digits (nat m)) + e"
  have dot: "dot = int (length ds) + int j + e" by (simp add: dot_def num_digits_def ds(2) length_zeros)
  have val: "of_int m * ten e = of_nat (nat_of_digits ds) * ten (dot - int (length ds))"
  proof -
    have "of_int m = of_nat (nat_of_digits ds) * (10 :: rat) ^ j"
      using \<open>0 < m\<close> ds(6) by (metis of_nat_mult of_nat_nat of_nat_numeral of_nat_power less_imp_le of_int_of_nat_eq)
    then show ?thesis using ten_add [of "int j" e] by (simp add: dot ten_nat)
  qed
  have printed: "float_repr (Fin x) = sign_text (x < 0) @
      (if - 4 < dot \<and> dot \<le> 16 then (let s = positional ds dot in if CHR ''.'' \<in> set s then s else s @ ''.0'')
       else positional ds 1 @ ''e'' @ (if dot - 1 < 0 then ''-'' else ''+'') @ pad_left (CHR ''0'') 2 (show_nat (nat \<bar>dot - 1\<bar>)))"
    using False by (simp add: float_repr_def Let_def pq me ds(1) flip: y_def hi_def dot_def)
  show thesis
  proof (cases "- 4 < dot \<and> dot \<le> 16")
    case True
    obtain ip fp where p: "positional ds dot = ip @ (if fp = [] then [] else CHR ''.'' # fp)" "digits ip" "digits fp" "ip \<noteq> []"
      "nat_of_digits (ip @ fp) = nat_of_digits ds * 10 ^ nat (dot - int (length ds))" "int (length fp) = max 0 (int (length ds) - dot)"
      "ip = ''0'' \<or> hd ip = hd ds"
      using positional_parts [OF ds(4,3)] by metis
    have v: "of_nat (nat_of_digits (ip @ fp)) * ten (- int (length fp)) = of_int m * ten e"
      using p(5,6) ten_nat [of "nat (dot - int (length ds))"]
      by (cases "dot \<le> int (length ds)") (simp_all add: val max_def)
    have no_point: "CHR ''.'' \<notin> set ip" using p(2) not_digit(1) by (auto simp: digits_def list_all_iff)
    show thesis
    proof (cases "fp = []")
      case True
      have "nat_of_digits (ip @ ''0'') = nat_of_digits ip * 10"
        by (simp add: digit_val_def ord_def)
      then have "of_nat (nat_of_digits (ip @ ''0'')) * ten (- int 1) = of_int m * ten e"
        using v True ten_minus_nat [of 1] by simp
      then show thesis
        using that [of ip "''0''" "[]" 0] p True no_point printed \<open>- 4 < dot \<and> dot \<le> 16\<close> reads ds(5)
        by (auto simp: exponent_suffix_def float_exponent_def y_def)
    next
      case False
      then show thesis
        using that [of ip fp "[]" 0] p no_point printed \<open>- 4 < dot \<and> dot \<le> 16\<close> reads ds(5) v
        by (auto simp: exponent_suffix_def float_exponent_def y_def)
    qed
  next
    case False
    obtain ip fp where p: "positional ds 1 = ip @ (if fp = [] then [] else CHR ''.'' # fp)" "digits ip" "digits fp" "ip \<noteq> []"
      "nat_of_digits (ip @ fp) = nat_of_digits ds * 10 ^ nat (1 - int (length ds))" "int (length fp) = max 0 (int (length ds) - 1)"
      "ip = ''0'' \<or> hd ip = hd ds"
      using positional_parts [OF ds(4,3)] by metis
    define xp where "xp = ''e'' @ (if dot - 1 < 0 then ''-'' else ''+'') @ pad_left (CHR ''0'') 2 (show_nat (nat \<bar>dot - 1\<bar>))"
    have len: "1 \<le> length ds" using ds(3) by (cases ds) auto
    have "of_nat (nat_of_digits (ip @ fp)) * ten (dot - 1 - int (length fp)) = of_int m * ten e"
      using len p(6) by (simp add: p(5) val max_def split: if_splits)
    moreover have "exponent_suffix xp (dot - 1)" unfolding xp_def by (rule exponent_e_suffix)
    moreover have "float_exponent xp" using digits_pad by (auto simp: float_exponent_def xp_def pad_left_def)
    moreover have "xp \<noteq> []" by (simp add: xp_def)
    ultimately show thesis
      using that [of ip fp xp "dot - 1"] p printed False reads ds(5) unfolding xp_def [symmetric] by (auto simp: y_def)
  qed
qed

text \<open>Reading the text back.\<close>

lemma float_exponent_numeral: "float_exponent r \<Longrightarrow> list_all (\<lambda>c. numeral_char c \<or> c = CHR ''e'') r"
  by (auto simp: float_exponent_def numeral_char_def digits_def list_all_iff)

lemma float_char_plain: "numeral_char c \<or> c = CHR ''e'' \<Longrightarrow> \<not> is_c_space c \<and> c \<noteq> CHR ''_''"
proof -
  have "\<not> is_c_space (CHR ''e'')" by code_simp
  moreover have "numeral_char c \<Longrightarrow> \<not> is_c_space c"
    using numeral_char_plain [of c] by (auto simp: is_space_def is_c_space_def)
  ultimately show "numeral_char c \<or> c = CHR ''e'' \<Longrightarrow> \<not> is_c_space c \<and> c \<noteq> CHR ''_''"
    using numeral_char_plain [of c] by auto
qed

lemma underscores_ok_plain: "\<forall>c \<in> set s. c \<noteq> CHR ''_'' \<Longrightarrow> p \<noteq> CHR ''_'' \<Longrightarrow> underscores_ok p s"
  by (induction s arbitrary: p) auto

lemma digit_no_nan: "is_digit c \<Longrightarrow> lower (c # s) \<noteq> ''nan''"
  by (auto simp: lower_def lower_char_def is_digit_def is_upper_letter_def chr_def ord_def)

lemma parse_float_repr:
  assumes "representable x"
  shows "float_parseE (float_repr (Fin x)) = Inr (Fin x)"
proof -
  have x: "fl_rat x = x" using assms by (simp add: representable_def)
  obtain ip fp xp k where shape: "float_repr (Fin x) = sign_text (x < 0) @ ip @ (if fp = [] then [] else CHR ''.'' # fp) @ xp"
    and parts: "digits ip" "digits fp" "ip \<noteq> []" "exponent_suffix xp k" "float_exponent xp"
    and val: "fl_rat (of_nat (nat_of_digits (ip @ fp)) * ten (k - int (length fp))) = \<bar>x\<bar>"
    using float_repr_parts [OF x] by metis
  let ?t = "ip @ (if fp = [] then [] else CHR ''.'' # fp) @ xp"
  have chars: "\<forall>c \<in> set (sign_text (x < 0) @ ?t). numeral_char c \<or> c = CHR ''e''"
    using float_exponent_numeral [OF parts(5)] digits_numeral [OF parts(1)] digits_numeral [OF parts(2)]
    by (auto simp: sign_text_def numeral_char_def list_all_iff)
  then have plain: "strip_by is_c_space (sign_text (x < 0) @ ?t) = sign_text (x < 0) @ ?t"
    using float_char_plain by (intro strip_none) (unfold list_all_iff, blast)
  have no_underscore: "filter (\<lambda>c. c \<noteq> CHR ''_'') (sign_text (x < 0) @ ?t) = sign_text (x < 0) @ ?t"
    using chars float_char_plain by (intro filter_True) blast
  have ok: "underscores_ok (CHR '' '') (sign_text (x < 0) @ ?t)"
    using chars float_char_plain by (intro underscores_ok_plain) (blast, simp)
  obtain d ip' where ip: "ip = d # ip'" "is_digit d" using parts(1,3) by (cases ip) auto
  then have sign: "split_sign (sign_text (x < 0) @ ?t) = (x < 0, ?t)"
    by (auto simp: sign_text_def split_sign_def dest: digit_not_sign)
  have words: "lower ?t \<noteq> ''inf''" "lower ?t \<noteq> ''infinity''" "lower ?t \<noteq> ''nan''"
    using digit_word [OF ip(2)] digit_no_nan [OF ip(2)] ip(1) by simp_all
  have "fl (of_int (signed_int (x < 0) (nat_of_digits (ip @ fp))) * ten (k - int (length fp))) = Fin x"
  proof -
    have "fl_rat (of_int (signed_int (x < 0) (nat_of_digits (ip @ fp))) * ten (k - int (length fp))) = x"
      using val fl_rat_minus [of "of_nat (nat_of_digits (ip @ fp)) * ten (k - int (length fp))"]
      by (simp add: signed_int_def split: if_splits)
    then show ?thesis using assms by (simp add: fl_Fin_iff representable_def)
  qed
  then show ?thesis
    using parse_numeral_text [OF parts(1-4)] words
    by (simp add: float_parseE_def float_parse_def shape plain no_underscore ok sign Let_def del: filter_append append_assoc)
qed

end
