(* ===== verification/Json_Text.thy ===== *)
theory Json_Text
  imports Py_Digest Float_Text
begin

text \<open>
  \<open>json.loads\<close> on the texts the code keeps (receipts and their patches), next to the \<open>json.dumps\<close> of
  \<open>Py_Digest\<close>, and \<open>json.dumps(..., allow_nan=False)\<close> without a default, which refuses what JSON
  cannot say. The lemma is the round trip: reading what was printed gives the value back, dictionaries
  by sorted keys; floats by their shortest digits.
\<close>

section \<open>What can be printed\<close>

text \<open>A \<open>Decimal\<close> is a \<open>TypeError\<close>, a NaN or infinity a \<open>ValueError\<close>.\<close>

fun json_plain :: "pyval \<Rightarrow> bool" where
  "json_plain (PDec d) = False"
| "json_plain (PFloat x) = f_finite x"
| "json_plain (PList xs) = list_all json_plain xs"
| "json_plain (PDict d) = list_all (\<lambda>p. json_plain (snd p)) d"
| "json_plain _ = True"

section \<open>Reading\<close>

definition json_space :: "char \<Rightarrow> bool" where
  "json_space c = (ord c \<in> {9, 10, 13, 32})"

definition skip_space :: "string \<Rightarrow> string" where
  "skip_space s = dropWhile json_space s"

definition hex_val :: "char \<Rightarrow> nat option" where
  "hex_val c = (if is_digit c then Some (ord c - 48)
     else if 97 \<le> ord c \<and> ord c \<le> 102 then Some (ord c - 87)
     else if 65 \<le> ord c \<and> ord c \<le> 70 then Some (ord c - 55) else None)"

definition simple_escape :: "char \<Rightarrow> char option" where
  "simple_escape c = map_of [(chr 34, chr 34), (chr 92, chr 92), (CHR ''/'', CHR ''/''), (CHR ''b'', chr 8), (CHR ''f'', chr 12),
     (CHR ''n'', chr 10), (CHR ''r'', chr 13), (CHR ''t'', chr 9)] c"

text \<open>The body of a string up to its closing quote; the characters of the model end at code point 255.\<close>

fun json_text :: "string \<Rightarrow> (string \<times> string) option" where
  "json_text [] = None"
| "json_text (c # s) =
     (if c = chr 34 then Some ([], s)
      else if ord c < 32 then None
      else if c = chr 92 then
        (case s of
           [] \<Rightarrow> None
         | e # t \<Rightarrow>
             if e = CHR ''u'' then
               (case t of
                  h0 # h1 # h2 # h3 # r \<Rightarrow>
                    (case (hex_val h0, hex_val h1, hex_val h2, hex_val h3) of
                       (Some 0, Some 0, Some a, Some b) \<Rightarrow> map_option (\<lambda>(x, y). (chr (16 * a + b) # x, y)) (json_text r)
                     | _ \<Rightarrow> None)
                | _ \<Rightarrow> None)
             else (case simple_escape e of None \<Rightarrow> None
               | Some d \<Rightarrow> map_option (\<lambda>(x, y). (d # x, y)) (json_text t)))
      else map_option (\<lambda>(x, y). (c # x, y)) (json_text s))"

text \<open>A number: its integer part, then a fraction and an exponent if their digits follow.\<close>

definition number_fraction :: "string \<Rightarrow> string \<times> string" where
  "number_fraction s = (case s of
     c # t \<Rightarrow> if c = CHR ''.'' \<and> takeWhile is_digit t \<noteq> [] then (c # takeWhile is_digit t, dropWhile is_digit t) else ([], s)
   | [] \<Rightarrow> ([], []))"

definition number_exponent :: "string \<Rightarrow> string \<times> string" where
  "number_exponent s = (case s of
     c # t \<Rightarrow>
       if lower_char c \<noteq> CHR ''e'' then ([], s)
       else (let (sign, u) = (case t of d # u \<Rightarrow> if d = CHR ''+'' \<or> d = CHR ''-'' then ([d], u) else ([], t) | [] \<Rightarrow> ([], []))
             in if takeWhile is_digit u = [] then ([], s) else (c # sign @ takeWhile is_digit u, dropWhile is_digit u))
   | [] \<Rightarrow> ([], []))"

definition json_number :: "string \<Rightarrow> (pyval \<times> string) option" where
  "json_number s =
     (let (neg, t) = (case s of c # t \<Rightarrow> if c = CHR ''-'' then ([c], t) else ([], s) | [] \<Rightarrow> ([], []));
          ip = takeWhile is_digit t
      in if ip = [] then None
         else (let (whole, r) = (if hd ip = CHR ''0'' then (''0'', tl t) else (ip, dropWhile is_digit t));
                   (frac, r1) = number_fraction r; (expo, r2) = number_exponent r1
               in if frac = [] \<and> expo = [] then
                    Some (PInt (if neg = [] then int (nat_of_digits whole) else - int (nat_of_digits whole)), r2)
                  else (case float_parseE (neg @ whole @ frac @ expo) of Inr x \<Rightarrow> Some (PFloat x, r2) | Inl e \<Rightarrow> None)))"

definition json_words :: "(string \<times> pyval) list" where
  "json_words = [(''null'', PNone), (''true'', PBool True), (''false'', PBool False), (''NaN'', PFloat NaN),
     (''Infinity'', PFloat PosInf), (''-Infinity'', PFloat NegInf)]"

fun json_word :: "(string \<times> pyval) list \<Rightarrow> string \<Rightarrow> (pyval \<times> string) option" where
  "json_word [] s = None"
| "json_word ((k, v) # ws) s = (if starts_with s k then Some (v, drop (length k) s) else json_word ws s)"

text \<open>
  One value at the front of a text, the items after an opening bracket or a comma, and the members of
  a dictionary; a repeated key keeps the last value. The first argument bounds the depth: the length
  of the text is enough, since every nested value is shorter.
\<close>

fun json_value :: "nat \<Rightarrow> string \<Rightarrow> (pyval \<times> string) option"
  and json_list :: "nat \<Rightarrow> string \<Rightarrow> (pyval list \<times> string) option"
  and json_members :: "nat \<Rightarrow> pydict \<Rightarrow> string \<Rightarrow> (pydict \<times> string) option" where
  "json_value 0 s = None"
| "json_value (Suc n) s = (case s of
     [] \<Rightarrow> None
   | c # t \<Rightarrow>
       if c = chr 34 then map_option (\<lambda>(x, r). (PStr x, r)) (json_text t)
       else if c = CHR ''['' then
         (case skip_space t of
            d # r \<Rightarrow> if d = CHR '']'' then Some (PList [], r)
              else map_option (\<lambda>(xs, r). (PList xs, r)) (json_list n (d # r))
          | [] \<Rightarrow> None)
       else if c = CHR ''{'' then
         (case skip_space t of
            d # r \<Rightarrow> if d = CHR ''}'' then Some (PDict [], r)
              else map_option (\<lambda>(xs, r). (PDict xs, r)) (json_members n [] (d # r))
          | [] \<Rightarrow> None)
       else (case json_word json_words s of Some r \<Rightarrow> Some r | None \<Rightarrow> json_number s))"
| "json_list 0 s = None"
| "json_list (Suc n) s = (case json_value n s of
     None \<Rightarrow> None
   | Some (x, r) \<Rightarrow> (case skip_space r of
       d # r \<Rightarrow> if d = CHR '']'' then Some ([x], r)
         else if d = CHR '','' then map_option (\<lambda>(xs, r). (x # xs, r)) (json_list n (skip_space r))
         else None
     | [] \<Rightarrow> None))"
| "json_members 0 acc s = None"
| "json_members (Suc n) acc s = (case s of
     [] \<Rightarrow> None
   | q # t \<Rightarrow> if q \<noteq> chr 34 then None
       else (case json_text t of
         None \<Rightarrow> None
       | Some (k, r) \<Rightarrow> (case skip_space r of
           [] \<Rightarrow> None
         | d # r \<Rightarrow> if d \<noteq> CHR '':'' then None
             else (case json_value n (skip_space r) of
               None \<Rightarrow> None
             | Some (v, r) \<Rightarrow> (case skip_space r of
                 d # r \<Rightarrow> if d = CHR ''}'' then Some (dset k v acc, r)
                   else if d = CHR '','' then json_members n (dset k v acc) (skip_space r) else None
               | [] \<Rightarrow> None)))))"

definition json_loads :: "string \<Rightarrow> pyexc + pyval" where
  "json_loads s = (case json_value (2 * length s + 1) (skip_space s) of
     Some (v, r) \<Rightarrow> if skip_space r = [] then Inr v else Inl (ValueError ''Extra data'')
   | None \<Rightarrow> Inl (ValueError ''Expecting value''))"

section \<open>Strings and integers read back\<close>

lemma hex_val_digit: "d < 16 \<Longrightarrow> hex_val (hex_digit d) = Some d"
  by (auto simp: hex_val_def hex_digit_def is_digit_def)

lemma json_text_escape:
  "e \<noteq> CHR ''u'' \<Longrightarrow> simple_escape e = Some d \<Longrightarrow> json_text (chr 92 # e # s) = map_option (\<lambda>(x, y). (d # x, y)) (json_text s)"
proof -
  have "chr 92 \<noteq> chr 34" "ord (chr 92) = 92" by code_simp+
  then show "e \<noteq> CHR ''u'' \<Longrightarrow> simple_escape e = Some d \<Longrightarrow> json_text (chr 92 # e # s) = map_option (\<lambda>(x, y). (d # x, y)) (json_text s)"
    by simp
qed

lemma json_char_escapes:
  "json_char (chr 34) = [chr 92, chr 34]" "json_char (chr 92) = [chr 92, chr 92]" "json_char (chr 8) = [chr 92, CHR ''b'']"
  "json_char (chr 9) = [chr 92, CHR ''t'']" "json_char (chr 10) = [chr 92, CHR ''n'']" "json_char (chr 12) = [chr 92, CHR ''f'']"
  "json_char (chr 13) = [chr 92, CHR ''r'']"
  by code_simp+

lemma simple_escapes:
  "simple_escape (chr 34) = Some (chr 34)" "simple_escape (chr 92) = Some (chr 92)" "simple_escape (CHR ''b'') = Some (chr 8)"
  "simple_escape (CHR ''t'') = Some (chr 9)" "simple_escape (CHR ''n'') = Some (chr 10)" "simple_escape (CHR ''f'') = Some (chr 12)"
  "simple_escape (CHR ''r'') = Some (chr 13)" "chr 34 \<noteq> CHR ''u''" "chr 92 \<noteq> CHR ''u''"
  by code_simp+

lemma json_text_char: "json_text (json_char c @ s) = map_option (\<lambda>(x, y). (c # x, y)) (json_text s)"
proof -
  consider (short) "ord c \<in> {34, 92, 8, 9, 10, 12, 13}"
    | (hex) "ord c \<notin> {34, 92, 8, 9, 10, 12, 13}" "ord c < 32 \<or> 126 < ord c" | (plain) "32 \<le> ord c" "ord c \<le> 126" "ord c \<noteq> 34" "ord c \<noteq> 92"
    by fastforce
  then show ?thesis
  proof cases
    case short
    then have "c \<in> {chr 34, chr 92, chr 8, chr 9, chr 10, chr 12, chr 13}"
      by (metis chr_ord empty_iff insert_iff)
    then show ?thesis
      by (elim insertE emptyE; hypsubst; simp only: json_char_escapes append_Cons append_Nil;
          intro json_text_escape simple_escapes; simp)
  next
    case hex
    have "ord c div 16 < 16" "ord c mod 16 < 16" "chr (16 * (ord c div 16) + ord c mod 16) = c"
      by (simp_all add: less_mult_imp_div_less)
    moreover have "hex_val (CHR ''0'') = Some 0" "simple_escape (CHR ''u'') = None"
      by code_simp+
    moreover have "chr 92 \<noteq> chr 34" "ord (chr 92) = 92" by code_simp+
    ultimately show ?thesis
      using hex by (simp add: json_char_def hex_val_digit)
  next
    case plain
    then have "c \<noteq> chr 34" "c \<noteq> chr 92" by auto
    with plain show ?thesis by (simp add: json_char_def)
  qed
qed

lemma json_text_str: "json_text (concat (map json_char s) @ chr 34 # r) = Some (s, r)"
  by (induction s) (simp_all add: json_text_char)

text \<open>What may follow a value: nothing that a number could continue with.\<close>

definition stops :: "string \<Rightarrow> bool" where
  "stops r = (r = [] \<or> hd r \<in> {CHR '','', CHR '']'', CHR ''}''})"

lemma stops_number: "stops r \<Longrightarrow> takeWhile is_digit r = [] \<and> dropWhile is_digit r = r \<and> number_fraction r = ([], r) \<and> number_exponent r = ([], r)"
  by (cases r) (auto simp: stops_def number_fraction_def number_exponent_def is_digit_def ord_def lower_char_def is_upper_letter_def)

lemma show_nat_zero: "hd (show_nat n) = CHR ''0'' \<Longrightarrow> show_nat n = ''0''"
  using show_nat_hd [of n] by (cases "n = 0") (auto simp: show_nat.simps [of 0] digit_char_def chr_def)

lemma json_number_int:
  assumes "stops r"
  shows "json_number (show_int i @ r) = Some (PInt i, r)"
proof -
  have ip: "takeWhile is_digit (show_nat n @ r) = show_nat n" "dropWhile is_digit (show_nat n @ r) = r" for n
    using stops_number [OF assms] by simp_all
  have head: "show_nat n @ r \<noteq> []" "\<not> (\<exists>t. show_nat n @ r = CHR ''-'' # t)" for n
    using show_nat_digits [of n] by (cases "show_nat n"; auto simp: is_digit_def ord_def)+
  have whole: "(if hd (show_nat n) = CHR ''0'' then (''0'', tl (show_nat n @ r)) else (show_nat n, dropWhile is_digit (show_nat n @ r))) = (show_nat n, r)" for n
    using ip(2) [of n] show_nat_zero [of n] by auto
  have nat: "json_number (neg @ show_nat n @ r) = Some (PInt (if neg = [] then int n else - int n), r)"
    if "neg = [] \<or> neg = ''-''" for neg n
  proof -
    have "(case neg @ show_nat n @ r of c # t \<Rightarrow> if c = CHR ''-'' then ([c], t) else ([], neg @ show_nat n @ r) | [] \<Rightarrow> ([], [])) = (neg, show_nat n @ r)"
      using that head [of n] by (auto split: list.split)
    then show ?thesis
      using whole [of n] ip [of n] stops_number [OF assms] by (simp add: json_number_def)
  qed
  show ?thesis
    using nat [of "[]" "nat i"] nat [of "''-''" "nat (- i)"] by (simp add: show_int_def)
qed

lemma json_number_float:
  assumes "stops r" and "representable x"
  shows "json_number (float_repr (Fin x) @ r) = Some (PFloat (Fin x), r)"
proof -
  have x: "fl_rat x = x" using assms(2) by (simp add: representable_def)
  obtain ip fp xp k where shape: "float_repr (Fin x) = sign_text (x < 0) @ ip @ (if fp = [] then [] else CHR ''.'' # fp) @ xp"
    and parts: "Decimal_Text.digits ip" "Decimal_Text.digits fp" "ip \<noteq> []" "ip = ''0'' \<or> hd ip \<noteq> CHR ''0''" "float_exponent xp" "fp \<noteq> [] \<or> xp \<noteq> []"
    using float_repr_parts [OF x] by metis
  let ?neg = "sign_text (x < 0)" and ?frac = "if fp = [] then [] else CHR ''.'' # fp"
  have stop: "takeWhile is_digit r = []" "dropWhile is_digit r = r" "number_exponent r = ([], r)"
    using stops_number [OF assms(1)] by simp_all
  have letter: "\<not> is_digit (CHR ''e'')" "lower_char (CHR ''e'') = CHR ''e''" by code_simp+
  have expo: "number_exponent (xp @ r) = (xp, r)"
  proof (cases "xp = []")
    case False
    then show ?thesis using parts(5) stop(1,2) letter by (auto simp: float_exponent_def number_exponent_def)
  qed (simp add: stop(3))
  have tail: "takeWhile is_digit (xp @ r) = []" "dropWhile is_digit (xp @ r) = xp @ r"
    using parts(5) stop letter by (auto simp: float_exponent_def)
  have frac: "number_fraction (?frac @ xp @ r) = (?frac, xp @ r)"
    using parts(2,5,6) tail stop by (auto simp: number_fraction_def float_exponent_def)
  have body: "takeWhile is_digit (?frac @ xp @ r) = []" "dropWhile is_digit (?frac @ xp @ r) = ?frac @ xp @ r"
    using tail by auto
  have digits_here: "takeWhile is_digit (ip @ ?frac @ xp @ r) = ip" "dropWhile is_digit (ip @ ?frac @ xp @ r) = ?frac @ xp @ r"
    using parts(1) body by simp_all
  obtain d ip' where ip: "ip = d # ip'" "is_digit d" using parts(1,3) by (cases ip) auto
  then have neg: "(case ?neg @ ip @ ?frac @ xp @ r of c # t \<Rightarrow> if c = CHR ''-'' then ([c], t) else ([], ?neg @ ip @ ?frac @ xp @ r) | [] \<Rightarrow> ([], []))
      = (?neg, ip @ ?frac @ xp @ r)"
    by (auto simp: sign_text_def dest: digit_not_sign)
  have whole: "(if hd ip = CHR ''0'' then (''0'', tl (ip @ ?frac @ xp @ r)) else (ip, dropWhile is_digit (ip @ ?frac @ xp @ r))) = (ip, ?frac @ xp @ r)"
    using parts(4) digits_here by auto
  have "\<not> (?frac = [] \<and> xp = [])" using parts(6) by auto
  moreover have "float_parseE (?neg @ ip @ ?frac @ xp) = Inr (Fin x)"
    using parse_float_repr [OF assms(2)] by (simp only: shape)
  ultimately show ?thesis
    unfolding json_number_def shape append_assoc neg Let_def prod.case digits_here(1) whole frac expo
    using parts(3) by simp
qed

lemma digit_no_word: "is_digit c \<Longrightarrow> c \<notin> set ''ntfNI-''"
  by (auto simp: is_digit_def ord_def)

text \<open>Texts that begin like a number are no word of JSON.\<close>

definition starts_number :: "string \<Rightarrow> bool" where
  "starts_number s = (\<exists>d t. is_digit d \<and> (s = d # t \<or> s = CHR ''-'' # d # t))"

lemma json_word_number: "starts_number s \<Longrightarrow> json_word json_words (s @ r) = None"
  by (auto simp: json_words_def starts_number_def dest: digit_no_word)

lemma int_starts_number: "starts_number (show_int i)"
proof -
  have "\<exists>d t. is_digit d \<and> show_nat n = d # t" for n
    using show_nat_digits [of n] by (cases "show_nat n") auto
  then show ?thesis by (fastforce simp: show_int_def starts_number_def)
qed

lemma float_starts_number: "representable x \<Longrightarrow> starts_number (float_repr (Fin x))"
proof -
  assume "representable x"
  then obtain ip fp xp k where "float_repr (Fin x) = sign_text (x < 0) @ ip @ (if fp = [] then [] else CHR ''.'' # fp) @ xp"
    "Decimal_Text.digits ip" "ip \<noteq> []"
    using float_repr_parts [of x] by (metis representable_def)
  then show ?thesis by (cases ip) (auto simp: starts_number_def sign_text_def)
qed

section \<open>The round trip\<close>

text \<open>Values of JSON whose floats are binary64 and whose dictionaries have distinct keys; their form with sorted keys.\<close>

fun json_exact :: "pyval \<Rightarrow> bool" where
  "json_exact (PDec d) = False"
| "json_exact (PFloat x) = (case x of Fin y \<Rightarrow> representable y | _ \<Rightarrow> False)"
| "json_exact (PList xs) = list_all json_exact xs"
| "json_exact (PDict d) = (distinct (map fst d) \<and> list_all (\<lambda>p. json_exact (snd p)) d)"
| "json_exact _ = True"

fun sorted_keys :: "pyval \<Rightarrow> pyval" where
  "sorted_keys (PList xs) = PList (map sorted_keys xs)"
| "sorted_keys (PDict d) = PDict (sort_key fst (map (\<lambda>p. (fst p, sorted_keys (snd p))) d))"
| "sorted_keys v = v"

definition member_text :: "string \<times> pyval \<Rightarrow> string" where
  "member_text p = json_str (fst p) @ '':'' @ json_dumps (snd p)"

lemma json_items_map: "json_items xs = map json_dumps xs"
  by (induction xs) simp_all

lemma json_pairs_map: "json_pairs d = map (\<lambda>p. (fst p, member_text p)) d"
  by (induction d) (auto simp: member_text_def)

lemma insort_key_map: "(\<And>x. g (f x) = h x) \<Longrightarrow> insort_key g (f x) (map f xs) = map f (insort_key h x xs)"
  by (induction xs) auto

lemma sort_key_map: "(\<And>x. g (f x) = h x) \<Longrightarrow> sort_key g (map f xs) = map f (sort_key h xs)"
  by (induction xs) (auto simp: insort_key_map)

lemma dumps_dict: "json_dumps (PDict d) = ''{'' @ join '','' (map member_text (sort_key fst d)) @ ''}''"
  by (simp add: json_pairs_map sort_key_map [where h = fst] comp_def)

lemma no_space: "\<not> json_space c \<Longrightarrow> skip_space (c # s) = c # s"
  by (simp add: skip_space_def)

lemma not_json_space [simp]:
  "\<not> json_space (CHR '','')" "\<not> json_space (CHR '']'')" "\<not> json_space (CHR ''}'')" "\<not> json_space (CHR '':'')" "\<not> json_space (chr 34)"
  "\<not> json_space (CHR ''['')" "\<not> json_space (CHR ''{'')"
  by code_simp+

lemma skip_space_simps [simp]:
  "skip_space (CHR '','' # s) = CHR '','' # s" "skip_space (CHR '']'' # s) = CHR '']'' # s"
  "skip_space (CHR ''}'' # s) = CHR ''}'' # s" "skip_space (CHR '':'' # s) = CHR '':'' # s" "skip_space (chr 34 # s) = chr 34 # s"
  by (simp_all add: no_space)

text \<open>The first character of a printed value is none that ends or separates.\<close>

definition starts_value :: "string \<Rightarrow> bool" where
  "starts_value s = (s \<noteq> [] \<and> \<not> json_space (hd s) \<and> hd s \<noteq> CHR '']'' \<and> hd s \<noteq> CHR ''}'')"

lemma number_char_starts: "is_digit c \<or> c = CHR ''-'' \<Longrightarrow> starts_value (c # t)"
proof -
  have minus: "starts_value (CHR ''-'' # t)" by code_simp
  have "\<not> is_digit (CHR '']'')" "\<not> is_digit (CHR ''}'')" by code_simp+
  moreover have "is_digit c \<Longrightarrow> \<not> json_space c"
    unfolding is_digit_def json_space_def by (elim conjE) (intro notI, elim insertE; simp)
  ultimately have "is_digit c \<Longrightarrow> starts_value (c # t)"
    unfolding starts_value_def list.sel by (intro conjI notI; simp)
  then show "is_digit c \<or> c = CHR ''-'' \<Longrightarrow> starts_value (c # t)"
    using minus by (elim disjE) simp_all
qed

lemma number_starts: "starts_number s \<Longrightarrow> starts_value s"
  unfolding starts_number_def by (elim exE conjE disjE) (simp_all only: number_char_starts simp_thms)

lemma dumps_starts: "json_exact v \<Longrightarrow> starts_value (json_dumps v)"
proof (cases v)
  case (PStr s)
  moreover have "chr 34 \<noteq> CHR '']''" "chr 34 \<noteq> CHR ''}''" by code_simp+
  ultimately show ?thesis by (simp add: json_str_def starts_value_def)
next
  case (PFloat x)
  then show "json_exact v \<Longrightarrow> starts_value (json_dumps v)"
    by (auto simp: json_float_def intro: number_starts float_starts_number split: pyfloat.splits)
qed (auto intro: number_starts int_starts_number, (simp add: starts_value_def json_space_def ord_def)+)

lemma starts_skip: "starts_value s \<Longrightarrow> skip_space (s @ r) = s @ r"
  by (cases s) (simp_all add: starts_value_def no_space)

lemma dset_fresh: "k \<notin> fst ` set d \<Longrightarrow> dset k v d = d @ [(k, v)]"
  by (induction d) (auto simp: dset_def)

lemma join_Cons: "xs \<noteq> [] \<Longrightarrow> join sep (x # xs) = x @ sep @ join sep xs"
  by (cases xs) simp_all

definition reads :: "pyval \<Rightarrow> bool" where
  "reads v = (\<forall>n r. stops r \<longrightarrow> 2 * length (json_dumps v) \<le> n \<longrightarrow> json_value n (json_dumps v @ r) = Some (sorted_keys v, r))"

lemma readsD: "reads v \<Longrightarrow> stops r \<Longrightarrow> 2 * length (json_dumps v) \<le> n \<Longrightarrow> json_value n (json_dumps v @ r) = Some (sorted_keys v, r)"
  by (simp add: reads_def)

lemma stops_simps [simp]: "stops (CHR '','' # r)" "stops (CHR '']'' # r)" "stops (CHR ''}'' # r)"
  by (simp_all add: stops_def)

lemma list_reads:
  assumes "\<forall>x \<in> set xs. json_exact x \<and> reads x" and "xs \<noteq> []"
  shows "2 * (length (join '','' (map json_dumps xs)) + 1) \<le> n \<Longrightarrow>
    json_list n (join '','' (map json_dumps xs) @ CHR '']'' # r) = Some (map sorted_keys xs, r)"
  using assms
proof (induction xs arbitrary: n)
  case (Cons x xs)
  then obtain m where n: "n = Suc m" by (cases n) auto
  show ?case
  proof (cases xs)
    case Nil
    then show ?thesis
      using Cons.prems n by (simp add: readsD)
  next
    case (Cons y ys)
    let ?rest = "join '','' (map json_dumps xs) @ CHR '']'' # r"
    have text_eq: "join '','' (map json_dumps (x # xs)) @ CHR '']'' # r = json_dumps x @ CHR '','' # ?rest"
      using Cons by simp
    have "skip_space ?rest = ?rest"
      using Cons Cons.prems(2) dumps_starts [of y] starts_skip [of "json_dumps y"] by (cases ys) simp_all
    moreover have "json_list m ?rest = Some (map sorted_keys xs, r)"
      using Cons Cons.prems n by (intro Cons.IH) simp_all
    moreover have "json_value m (json_dumps x @ CHR '','' # ?rest) = Some (sorted_keys x, CHR '','' # ?rest)"
      using Cons Cons.prems n by (intro readsD) simp_all
    ultimately show ?thesis
      unfolding text_eq n by simp
  qed
qed simp

lemma member_reads:
  assumes "reads v" and "2 * length (json_dumps v) \<le> n" and "stops r" and "json_exact v"
  shows "json_value n (skip_space (json_dumps v @ r)) = Some (sorted_keys v, r)"
  using assms dumps_starts [OF assms(4)] by (simp add: starts_skip readsD)

lemma members_read:
  assumes "\<forall>p \<in> set d. json_exact (snd p) \<and> reads (snd p)" and "d \<noteq> []" and "distinct (map fst (acc @ d))"
  shows "2 * (length (join '','' (map member_text d)) + 1) \<le> n \<Longrightarrow>
    json_members n acc (join '','' (map member_text d) @ CHR ''}'' # r)
      = Some (acc @ map (\<lambda>p. (fst p, sorted_keys (snd p))) d, r)"
  using assms
proof (induction d arbitrary: n acc)
  case (Cons p d)
  then obtain m where n: "n = Suc m" by (cases n) auto
  have acc: "dset (fst p) (sorted_keys (snd p)) acc = acc @ [(fst p, sorted_keys (snd p))]"
    using Cons.prems(4) by (intro dset_fresh) auto
  have head: "member_text p @ t = chr 34 # concat (map json_char (fst p)) @ chr 34 # CHR '':'' # json_dumps (snd p) @ t" for t
    by (simp add: member_text_def json_str_def)
  have one: "json_value m (skip_space (json_dumps (snd p) @ t)) = Some (sorted_keys (snd p), t)" if "stops t" for t
    using Cons.prems n that by (intro member_reads) (auto simp: member_text_def join_Cons split: if_splits, (cases d; simp)+)
  show ?case
  proof (cases "d = []")
    case True
    then show ?thesis
      using one [of "CHR ''}'' # r"] acc by (simp add: n head json_text_str)
  next
    case False
    let ?rest = "join '','' (map member_text d) @ CHR ''}'' # r"
    have "json_members m (acc @ [(fst p, sorted_keys (snd p))]) ?rest
        = Some ((acc @ [(fst p, sorted_keys (snd p))]) @ map (\<lambda>p. (fst p, sorted_keys (snd p))) d, r)"
      using Cons.prems False n by (intro Cons.IH) (auto simp: join_Cons comp_def)
    moreover have "skip_space ?rest = ?rest"
      using False by (cases d) (simp_all add: join_Cons head json_str_def member_text_def, cases "tl d", simp_all add: member_text_def json_str_def)
    ultimately show ?thesis
      using one [of "CHR '','' # ?rest"] acc False by (simp add: n head json_text_str join_Cons)
  qed
qed simp

lemma distinct_insort_key: "distinct (map f (insort_key f x xs)) = distinct (map f (x # xs))"
  by (induction xs) (auto simp: set_insort_key)

lemma distinct_sort_key: "distinct (map f (sort_key f xs)) = distinct (map f xs)"
proof (induction xs)
  case (Cons x xs)
  then show ?case
    by (simp add: distinct_insort_key [simplified])
qed simp

lemma word_reads:
  "json_value (Suc n) (''null'' @ r) = Some (PNone, r)" "json_value (Suc n) (''true'' @ r) = Some (PBool True, r)"
  "json_value (Suc n) (''false'' @ r) = Some (PBool False, r)"
proof -
  have "chr 34 \<notin> set ''ntf''" by code_simp
  then show "json_value (Suc n) (''null'' @ r) = Some (PNone, r)" "json_value (Suc n) (''true'' @ r) = Some (PBool True, r)"
    "json_value (Suc n) (''false'' @ r) = Some (PBool False, r)"
    by (auto simp: json_words_def)
qed

lemma number_reads:
  assumes "starts_number s" and "json_number (s @ r) = Some (v, r)"
  shows "json_value (Suc n) (s @ r) = Some (v, r)"
proof -
  have concrete: "chr 34 \<noteq> CHR ''-''" "\<not> is_digit (chr 34)" "\<not> is_digit (CHR ''['')" "\<not> is_digit (CHR ''{'')"
    by code_simp+
  obtain c t where c: "s = c # t" "is_digit c \<or> c = CHR ''-''" using assms(1) by (auto simp: starts_number_def)
  then have "c \<noteq> chr 34 \<and> c \<noteq> CHR ''['' \<and> c \<noteq> CHR ''{''" using concrete by auto
  then show ?thesis
    using json_word_number [OF assms(1), of r] assms(2) by (simp add: c(1))
qed

lemma size_snd: "p \<in> set d \<Longrightarrow> size (snd p) < size (PDict d)"
  by (cases p) (auto simp: less_Suc_eq_le intro: order_trans [OF _ size_list_estimation'])

lemma value_reads: "json_exact v \<Longrightarrow> reads v"
proof (induction v rule: measure_induct_rule [of size])
  case (less v)
  have "json_value n (json_dumps v @ r) = Some (sorted_keys v, r)" if r: "stops r" and n: "2 * length (json_dumps v) \<le> n" for n r
  proof -
    have "json_dumps v \<noteq> []" using dumps_starts [OF less.prems] by (simp add: starts_value_def)
    then obtain m where m: "n = Suc m" using n by (cases n) auto
    show ?thesis
    proof (cases v)
      case (PStr s)
      then show ?thesis by (simp add: m json_str_def json_text_str)
    next
      case (PList xs)
      have xs: "\<forall>x \<in> set xs. json_exact x \<and> reads x"
        using less PList by (auto simp: list_all_iff size_list_estimation' less_Suc_eq_le intro!: less.IH)
      have "chr 34 \<noteq> CHR ''[''" by code_simp
      then show ?thesis
      proof (cases "xs = []")
        case False
        then have "skip_space (join '','' (map json_dumps xs) @ CHR '']'' # r) = join '','' (map json_dumps xs) @ CHR '']'' # r"
          "hd (join '','' (map json_dumps xs)) \<noteq> CHR '']''" "join '','' (map json_dumps xs) \<noteq> []"
          using xs dumps_starts [of "hd xs"] starts_skip [of "json_dumps (hd xs)"]
          by (cases xs; cases "tl xs"; simp add: starts_value_def)+
        then show ?thesis
          using list_reads [OF xs False, of m r] n \<open>chr 34 \<noteq> _\<close> PList m
          by (cases "join '','' (map json_dumps xs)") (auto simp: json_items_map)
      qed (simp add: PList m)
    next
      case (PDict d)
      have "CHR ''{'' \<noteq> chr 34" "chr 34 \<noteq> CHR ''}''" by code_simp+
      have d: "\<forall>p \<in> set (sort_key fst d). json_exact (snd p) \<and> reads (snd p)" "distinct (map fst ([] @ sort_key fst d))"
        using less.prems PDict size_snd [of _ d] by (simp_all add: list_all_iff distinct_sort_key less.IH)
      show ?thesis
      proof (cases "d = []")
        case False
        then obtain q t where q: "join '','' (map member_text (sort_key fst d)) @ CHR ''}'' # r = chr 34 # t"
          using length_sort [of fst d] by (cases "sort_key fst d"; cases "tl (sort_key fst d)") (auto simp: member_text_def json_str_def)
        have "sort_key fst d \<noteq> []" using False by (metis length_0_conv length_sort)
        then have "json_members m [] (chr 34 # t) = Some (map (\<lambda>p. (fst p, sorted_keys (snd p))) (sort_key fst d), r)"
          using members_read [OF d(1) _ d(2), of m r] n m PDict by (simp add: q dumps_dict del: json_dumps.simps)
        then show ?thesis
          using \<open>CHR ''{'' \<noteq> chr 34\<close> \<open>chr 34 \<noteq> CHR ''}''\<close> q
          by (simp add: PDict m dumps_dict sort_key_map [where h = fst] del: json_dumps.simps)
      qed (use \<open>CHR ''{'' \<noteq> chr 34\<close> in \<open>simp add: PDict m\<close>)
    next
      case (PBool b)
      then show ?thesis using word_reads by (cases b) (simp_all only: m sorted_keys.simps json_dumps.simps if_True if_False)
    next
      case (PInt i)
      then show ?thesis
        using number_reads [OF int_starts_number json_number_int [OF r]] by (simp only: m sorted_keys.simps json_dumps.simps)
    next
      case (PFloat x)
      then obtain y where y: "x = Fin y" "representable y" using less.prems by (auto split: pyfloat.splits)
      then show ?thesis
        using number_reads [OF float_starts_number json_number_float [OF r]] PFloat
        by (simp only: m sorted_keys.simps json_dumps.simps json_float_def pyfloat.case)
    qed (use less.prems r m word_reads in \<open>simp_all only: sorted_keys.simps json_dumps.simps json_exact.simps\<close>)
  qed
  then show ?case by (simp add: reads_def)
qed

theorem json_round_trip: "json_exact v \<Longrightarrow> json_loads (json_dumps v) = Inr (sorted_keys v)"
proof -
  assume v: "json_exact v"
  have "json_value (2 * length (json_dumps v) + 1) (json_dumps v @ []) = Some (sorted_keys v, [])"
    using value_reads [OF v] by (intro readsD) (simp_all add: stops_def)
  moreover have "skip_space (json_dumps v @ []) = json_dumps v @ []"
    using dumps_starts [OF v] by (rule starts_skip)
  ultimately show ?thesis
    by (simp add: json_loads_def skip_space_def [of "[]"])
qed

end
