(* ===== verification/Interval_Receipt.thy ===== *)
theory Interval_Receipt
  imports Json_Text Py_Time
begin

text \<open>
  \<open>application/interval_source_receipt_candidate.py\<close>, its pure part: an interval of the account
  (two checkpoints, the equity at its end, the external flow in it) is bound to the exact change of
  the ledger that closes it. A plan freezes everything as text: the digests of the ledger before and
  after, the patch of five fields and the receipt. The transaction that writes a plan is in
  \<open>Store_Session\<close>.
\<close>

section \<open>Material\<close>

definition interval_fields :: "string list" where
  "interval_fields = [''account_scope_sha256'', ''start_at'', ''end_at'', ''end_equity_usdt'',
     ''net_external_cash_flow'', ''currency'', ''valuation_basis'']"

definition patch_fields :: "string list" where
  "patch_fields = [''earn_accrual_checkpoint'', ''external_cash_flow_cursor'', ''earn_accounted_net_changes'',
     ''last_balance_snapshot'', ''daily_external_principal_usdt'']"

definition receipt_schema :: string where
  "receipt_schema = ''binance_interval_source_receipt_candidate.v1''"

definition receipt_basis :: string where
  "receipt_basis = ''checkpoint_quantities_sampled_prices''"

abbreviation blocked :: "string \<Rightarrow> pyexc" where
  "blocked reason \<equiv> IntervalBlocked (''interval_receipt_'' @ reason)"

definition canonical_json :: "pyval \<Rightarrow> pyexc + string" where
  "canonical_json v = (if json_plain v then Inr (json_dumps v) else Inl (blocked ''material_invalid''))"

definition material_digest :: "pyval \<Rightarrow> pyexc + string" where
  "material_digest v = bindE (canonical_json v) (\<lambda>s. Inr (sha256 s))"

text \<open>\<open>re.search(r"[.,][0-9]{7}", value)\<close>.\<close>

fun fine_fraction :: "string \<Rightarrow> bool" where
  "fine_fraction [] = False"
| "fine_fraction (c # s) =
     (((c = CHR ''.'' \<or> c = CHR '','') \<and> 7 \<le> length s \<and> list_all is_digit (take 7 s)) \<or> fine_fraction s)"

definition receipt_time :: "pyval \<Rightarrow> pyexc + pydt" where
  "receipt_time v = (case v of
     PStr s \<Rightarrow>
       if \<not> (0 < length s \<and> length s \<le> 80) \<or> fine_fraction s then Inl (blocked ''time_invalid'')
       else (case parse_stamp s of
         Inl e \<Rightarrow> Inl (blocked ''time_invalid'')
       | Inr t \<Rightarrow> if \<not> dt_aware t then Inl (blocked ''time_invalid'')
           else catchE (to_utc t) (\<lambda>e. Inl (blocked ''time_invalid'')))
   | _ \<Rightarrow> Inl (blocked ''time_invalid''))"

text \<open>
  The \<open>update_time\<close> of a snapshot: not a \<open>datetime\<close>, or one with its \<open>nanosecond\<close> attribute, which
  is 0 when there is none. \<open>%Y\<close> does not pad the year.
\<close>

datatype stamp = NoTime | Stamp pydt pyval

definition stamp_micro :: "pydt \<Rightarrow> int" where
  "stamp_micro t = dt_local t mod us_per_second"

definition stamp_nanos :: "pydt \<Rightarrow> pyval \<Rightarrow> pyval" where
  "stamp_nanos t nanos = (if truthy nanos then nanos else PInt (stamp_micro t * 1000))"

definition stamp_text :: "pydt \<Rightarrow> int \<Rightarrow> string" where
  "stamp_text t nanos = (case dt_date t of (y, m, d) \<Rightarrow>
     show_int y @ ''-'' @ two m @ ''-'' @ two d @ ''T''
     @ (let u = dt_local t mod us_per_day
        in two (u div us_per_hour) @ '':'' @ two (u div us_per_minute mod 60) @ '':'' @ two (u div us_per_second mod 60))
     @ ''.'' @ pad_num 9 nanos @ ''Z'')"

definition exact_version :: "stamp \<Rightarrow> pyexc + string" where
  "exact_version v = (case v of
     NoTime \<Rightarrow> Inl (blocked ''version_invalid'')
   | Stamp t nanos \<Rightarrow>
       if dt_offset t \<noteq> Some 0 then Inl (blocked ''version_invalid'')
       else (case stamp_nanos t nanos of
         PInt n \<Rightarrow> if 0 \<le> n \<and> n < 1000000000 \<and> n div 1000 = stamp_micro t then Inr (stamp_text t n)
           else Inl (blocked ''version_invalid'')
       | _ \<Rightarrow> Inl (blocked ''version_invalid'')))"

definition receipt_amount :: "bool \<Rightarrow> pyval \<Rightarrow> pyexc + pydec" where
  "receipt_amount positive v = (case v of
     PStr s \<Rightarrow>
       if \<not> (0 < length s \<and> length s \<le> 80) then Inl (blocked ''amount_invalid'')
       else (case dec_parse s of
         Some (Dec sg c e) \<Rightarrow>
           if dec_less (Dec False 1 30) (Dec False c e) \<or> e < - 30 \<or> (positive \<and> \<not> dec_less dec_zero (Dec sg c e))
           then Inl (blocked ''amount_invalid'') else Inr (Dec sg c e)
       | _ \<Rightarrow> Inl (blocked ''amount_invalid''))
   | _ \<Rightarrow> Inl (blocked ''amount_invalid''))"

text \<open>\<open>value.split("/")\<close>.\<close>

fun split_slash :: "string \<Rightarrow> string list" where
  "split_slash [] = [[]]"
| "split_slash (c # s) = (if c = CHR ''/'' then [] # split_slash s
     else (case split_slash s of p # ps \<Rightarrow> (c # p) # ps | [] \<Rightarrow> [[c]]))"

definition validate_path :: "pyval \<Rightarrow> pyexc + unit" where
  "validate_path v = (case v of
     PStr s \<Rightarrow> ensure (length s \<le> 512 \<and> even (length (split_slash s))
       \<and> list_all (\<lambda>p. p \<noteq> [] \<and> p \<noteq> ''.'' \<and> p \<noteq> ''..'') (split_slash s)) (blocked ''reference_invalid'')
   | _ \<Rightarrow> Inl (blocked ''reference_invalid''))"

definition payload_material :: "pyval \<Rightarrow> pyexc + pydict \<times> pydt \<times> pydt \<times> string" where
  "payload_material interval = (case interval of
     PDict payload \<Rightarrow>
       bindE (ensure (keys_are payload interval_fields) (blocked ''payload_invalid'')) (\<lambda>_.
       bindE (ensure (is_str (dget payload ''account_scope_sha256'') \<and> hex64 (the_str (dget payload ''account_scope_sha256''))
           \<and> py_eq (dget payload ''currency'') (PStr ''USDT'') \<and> py_eq (dget payload ''valuation_basis'') (PStr receipt_basis))
         (blocked ''payload_invalid'')) (\<lambda>_.
       bindE (receipt_time (dget payload ''start_at'')) (\<lambda>start.
       bindE (receipt_time (dget payload ''end_at'')) (\<lambda>finish.
       bindE (ensure (dt_utc start < dt_utc finish \<and> dt_day finish - dt_day start \<le> 1) (blocked ''time_invalid'')) (\<lambda>_.
       bindE (receipt_amount True (dget payload ''end_equity_usdt'')) (\<lambda>_.
       bindE (receipt_amount False (dget payload ''net_external_cash_flow'')) (\<lambda>_.
       bindE (material_digest (PDict [(''account_scope_sha256'', dget payload ''account_scope_sha256''),
           (''start_at'', PStr (iso_text start)), (''end_at'', PStr (iso_text finish))])) (\<lambda>logical_id.
       Inr (payload, start, finish, logical_id)))))))))
   | _ \<Rightarrow> Inl (blocked ''payload_invalid''))"

definition receipt_material :: "pyval \<Rightarrow> pyval \<Rightarrow> pyval \<Rightarrow> pyval \<Rightarrow> pydict \<Rightarrow> pydict \<Rightarrow> pyexc + pyval" where
  "receipt_material ledger_path source_version before_digest after_digest patch payload =
     bindE (payload_material (PDict payload)) (\<lambda>(_, _, _, logical_id).
     bindE (material_digest (PDict payload)) (\<lambda>payload_digest.
     bindE (material_digest (PDict patch)) (\<lambda>patch_digest.
     Inr (PDict [(''schema_version'', PStr receipt_schema), (''interval_id_sha256'', PStr logical_id),
       (''payload_sha256'', PStr payload_digest),
       (''source'', PDict [(''ledger_path'', ledger_path), (''ledger_before_version'', source_version),
          (''ledger_before_sha256'', before_digest), (''ledger_after_sha256'', after_digest),
          (''patch_sha256'', PStr patch_digest)]),
       (''interval'', PDict payload)]))))"

section \<open>Plans\<close>

text \<open>The frozen dataclass; its fields are not checked when it is built by hand.\<close>

record receipt_plan =
  pl_ledger_path :: pyval
  pl_receipt_path :: pyval
  pl_source_version :: pyval
  pl_before :: pyval
  pl_after :: pyval
  pl_payload :: pyval
  pl_patch :: pyval
  pl_receipt :: pyval

definition receipt_suffix :: "string \<Rightarrow> string \<Rightarrow> string" where
  "receipt_suffix ledger_path logical_id = ledger_path @ ''__interval_receipt_'' @ logical_id"

definition version_shape :: "string \<Rightarrow> bool" where
  "version_shape s = list_all2 (\<lambda>p c. if p = CHR ''d'' then is_digit c else p = c) ''dddd-dd-ddTdd:dd:dd.dddddddddZ'' s"

definition text_loads :: "pyval \<Rightarrow> pyexc + pyval" where
  "text_loads v = (case v of PStr s \<Rightarrow> json_loads s | _ \<Rightarrow> Inl TypeError)"

definition is_hex64 :: "pyval \<Rightarrow> bool" where
  "is_hex64 v = (case v of PStr s \<Rightarrow> hex64 s | _ \<Rightarrow> False)"

definition invalid_value :: pyexc where
  "invalid_value = ValueError []"

text \<open>\<open>v[k1][k2]\<close>.\<close>

definition vsub2 :: "pydict \<Rightarrow> string \<Rightarrow> string \<Rightarrow> pyexc + pyval" where
  "vsub2 d k1 k2 = bindE (dsub d k1) (\<lambda>v. vsub v k2)"

definition zero_changes :: "pydict \<Rightarrow> pyval" where
  "zero_changes assets = PDict (map (\<lambda>p. (fst p, PStr ''0'')) assets)"

text \<open>Whether an exception is one that the validators of plans and transitions turn into their own.\<close>

definition is_plan_error :: "pyexc \<Rightarrow> bool" where
  "is_plan_error e = (e = AttributeError \<or> e = KeyError \<or> e = TypeError \<or> is_value_error e)"

definition same_instant :: "pyval \<Rightarrow> pydt \<Rightarrow> pyexc + unit" where
  "same_instant v t = bindE (receipt_time v) (\<lambda>u. ensure (dt_utc u = dt_utc t) invalid_value)"

definition plan_bindings :: "receipt_plan \<Rightarrow> pyexc + pydict \<times> pydict" where
  "plan_bindings plan =
     bindE (validate_path (pl_ledger_path plan)) (\<lambda>_.
     bindE (text_loads (pl_patch plan)) (\<lambda>patch_val.
     bindE (text_loads (pl_receipt plan)) (\<lambda>receipt.
     case patch_val of
       PDict patch \<Rightarrow>
         bindE (ensure (keys_are patch patch_fields \<and> is_dict receipt) invalid_value) (\<lambda>_.
         bindE (canonical_json (PDict patch)) (\<lambda>patch_json.
         bindE (ensure (py_eq (PStr patch_json) (pl_patch plan) \<and> is_str (pl_source_version plan)
             \<and> version_shape (the_str (pl_source_version plan))
             \<and> list_all is_hex64 [pl_before plan, pl_after plan, pl_payload plan]) invalid_value) (\<lambda>_.
         bindE (receipt_time (PStr (take 19 (the_str (pl_source_version plan)) @ ''Z''))) (\<lambda>_.
         bindE (vsub receipt ''interval'') (\<lambda>interval.
         bindE (payload_material interval) (\<lambda>(payload, _, finish, logical_id).
         bindE (vsub2 patch ''earn_accrual_checkpoint'' ''assets'') (\<lambda>assets.
         bindE (vsub2 patch ''earn_accrual_checkpoint'' ''account_scope_sha256'') (\<lambda>scope.
         bindE (ensure (py_eq scope (dget payload ''account_scope_sha256'')) invalid_value) (\<lambda>_.
         bindE (vsub2 patch ''earn_accrual_checkpoint'' ''execution_authority_granted'') (\<lambda>granted.
         bindE (ensure (granted = PBool False) invalid_value) (\<lambda>_.
         bindE (bindE (vsub2 patch ''earn_accrual_checkpoint'' ''observed_at'') (\<lambda>v. same_instant v finish)) (\<lambda>_.
         bindE (bindE (vsub2 patch ''external_cash_flow_cursor'' ''observed_at'') (\<lambda>v. same_instant v finish)) (\<lambda>_.
         bindE (ensure (is_dict assets \<and> truthy assets
             \<and> py_eq (dget patch ''earn_accounted_net_changes'') (zero_changes (the_dict assets))
             \<and> pl_receipt_path plan = PStr (receipt_suffix (the_str (pl_ledger_path plan)) logical_id)) invalid_value) (\<lambda>_.
         bindE (material_digest (PDict payload)) (\<lambda>payload_digest.
         bindE (ensure (pl_payload plan = PStr payload_digest) invalid_value) (\<lambda>_.
         bindE (receipt_material (pl_ledger_path plan) (pl_source_version plan) (pl_before plan) (pl_after plan) patch payload) (\<lambda>expected.
         bindE (canonical_json expected) (\<lambda>expected_json.
         bindE (ensure (pl_receipt plan = PStr expected_json) invalid_value) (\<lambda>_.
         Inr (patch, payload))))))))))))))))))))
     | _ \<Rightarrow> Inl invalid_value)))"

definition validate_plan :: "receipt_plan \<Rightarrow> pyexc + pydict \<times> pydict" where
  "validate_plan plan = catchE (plan_bindings plan)
     (\<lambda>e. Inl (if is_plan_error e then blocked ''plan_invalid'' else e))"

text \<open>\<open>set(v)\<close> of text elements: whether it equals the keys of a dictionary.\<close>

definition keys_equal :: "pydict \<Rightarrow> pyval \<Rightarrow> pyexc + bool" where
  "keys_equal d v = (case v of
     PDict e \<Rightarrow> Inr (keys_are d (map fst e))
   | PList xs \<Rightarrow> if list_all hashable xs then Inr (set (map (PStr \<circ> fst) d) = set xs) else Inl TypeError
   | PStr s \<Rightarrow> Inr (keys_are d (map (\<lambda>c. [c]) s))
   | _ \<Rightarrow> Inl TypeError)"

text \<open>\<open>key not in old or key not in new or _json(old[key]) != _json(new[key])\<close>.\<close>

definition field_changed :: "pydict \<Rightarrow> pydict \<Rightarrow> string \<Rightarrow> pyexc + bool" where
  "field_changed old new k =
     (if \<not> dhas old k \<or> \<not> dhas new k then Inr True
      else bindE (canonical_json (dget old k)) (\<lambda>a. bindE (canonical_json (dget new k)) (\<lambda>b. Inr (a \<noteq> b))))"

definition check_transition :: "string \<Rightarrow> pydt \<Rightarrow> pydt \<Rightarrow> pydict \<Rightarrow> pydict \<Rightarrow> pyexc + unit" where
  "check_transition scope start finish old new =
     bindE (dsub old ''earn_accrual_checkpoint'') (\<lambda>was.
     bindE (dsub new ''earn_accrual_checkpoint'') (\<lambda>becomes.
     bindE (vsub was ''account_scope_sha256'') (\<lambda>s0. bindE (ensure (py_eq s0 (PStr scope)) invalid_value) (\<lambda>_.
     bindE (vsub becomes ''account_scope_sha256'') (\<lambda>s1. bindE (ensure (py_eq s1 (PStr scope)) invalid_value) (\<lambda>_.
     bindE (vsub was ''execution_authority_granted'') (\<lambda>g0. bindE (ensure (g0 = PBool False) invalid_value) (\<lambda>_.
     bindE (vsub becomes ''execution_authority_granted'') (\<lambda>g1. bindE (ensure (g1 = PBool False) invalid_value) (\<lambda>_.
     bindE (bindE (vsub was ''observed_at'') (\<lambda>v. same_instant v start)) (\<lambda>_.
     bindE (bindE (vsub becomes ''observed_at'') (\<lambda>v. same_instant v finish)) (\<lambda>_.
     bindE (bindE (vsub2 old ''external_cash_flow_cursor'' ''observed_at'') (\<lambda>v. same_instant v start)) (\<lambda>_.
     bindE (bindE (vsub2 new ''external_cash_flow_cursor'' ''observed_at'') (\<lambda>v. same_instant v finish)) (\<lambda>_.
     bindE (vsub was ''assets'') (\<lambda>held.
     bindE (ensure (is_dict held \<and> truthy held) invalid_value) (\<lambda>_.
     bindE (vsub becomes ''assets'') (\<lambda>holds. bindE (keys_equal (the_dict held) holds) (\<lambda>same.
     bindE (ensure same invalid_value) (\<lambda>_.
     bindE (dsub new ''earn_accounted_net_changes'') (\<lambda>net.
     bindE (ensure (py_eq net (zero_changes (the_dict held))) invalid_value) (\<lambda>_.
     bindE (vsub2 old ''order_submission'' ''state'') (\<lambda>st.
     bindE (ensure (st = PStr ''RESERVED'' \<or> st = PStr ''TERMINAL'') invalid_value) (\<lambda>_.
     bindE (mapE (field_changed old new) (map fst old @ filter (\<lambda>k. \<not> dhas old k) (map fst new))) (\<lambda>flags.
     ensure (list_all (\<lambda>(k, c). c \<longrightarrow> k \<in> set patch_fields)
         (zip (map fst old @ filter (\<lambda>k. \<not> dhas old k) (map fst new)) flags)
       \<and> list_all (dhas new) patch_fields) invalid_value))))))))))))))))))))))))"

definition plan_patch :: "pydict \<Rightarrow> pydict" where
  "plan_patch new = map (\<lambda>k. (k, dget new k)) patch_fields"

definition build_interval_receipt_plan :: "pyval \<Rightarrow> stamp \<Rightarrow> pyval \<Rightarrow> pyval \<Rightarrow> pyval \<Rightarrow> pyexc + receipt_plan" where
  "build_interval_receipt_plan ledger_path update_time previous_state next_state interval =
     bindE (validate_path ledger_path) (\<lambda>_.
     bindE (payload_material interval) (\<lambda>(payload, start, finish, logical_id).
     bindE (ensure (is_dict previous_state \<and> is_dict next_state) (blocked ''state_invalid'')) (\<lambda>_.
     let old = the_dict previous_state; new = the_dict next_state;
         patch = plan_patch new
     in bindE (catchE (check_transition (the_str (dget payload ''account_scope_sha256'')) start finish old new)
          (\<lambda>e. Inl (if e = KeyError \<or> e = TypeError \<or> is_value_error e then blocked ''transition_invalid'' else e))) (\<lambda>_.
        bindE (canonical_json (PDict (dupdate old patch))) (\<lambda>patched.
        bindE (canonical_json (PDict new)) (\<lambda>target.
        bindE (ensure (patched = target) (blocked ''transition_invalid'')) (\<lambda>_.
        bindE (exact_version update_time) (\<lambda>source_version.
        bindE (material_digest (PDict old)) (\<lambda>before_digest.
        bindE (material_digest (PDict new)) (\<lambda>after_digest.
        bindE (material_digest (PDict payload)) (\<lambda>payload_digest.
        bindE (receipt_material ledger_path (PStr source_version) (PStr before_digest) (PStr after_digest) patch payload) (\<lambda>receipt.
        bindE (canonical_json (PDict patch)) (\<lambda>patch_json.
        bindE (canonical_json receipt) (\<lambda>receipt_json.
        Inr \<lparr>pl_ledger_path = ledger_path, pl_receipt_path = PStr (receipt_suffix (the_str ledger_path) logical_id),
          pl_source_version = PStr source_version, pl_before = PStr before_digest, pl_after = PStr after_digest,
          pl_payload = PStr payload_digest, pl_patch = PStr patch_json, pl_receipt = PStr receipt_json\<rparr>))))))))))))))"

end
