(* ===== verification/Time_Text.thy ===== *)
theory Time_Text
  imports Py_Time Decimal_Text
begin

text \<open>
  \<open>datetime.fromisoformat(t.isoformat()) == t\<close> for a UTC instant of the calendar: the code keeps its
  times as such texts (checkpoints, cursors, interval bounds) and compares them after reading them
  back. The calendar lemmas show that \<open>date_of_day\<close> and \<open>day_number\<close> are inverse.
\<close>

section \<open>The calendar\<close>

lemma year_from_bounds:
  "days_before_year y \<le> n \<Longrightarrow> y \<le> year_from y n \<and> days_before_year (year_from y n) \<le> n \<and> n < days_before_year (year_from y n + 1)"
proof (induction y n rule: year_from.induct)
  case (1 y n)
  show ?case
  proof (cases "days_before_year (y + 1) \<le> n")
    case True
    with "1.IH" show ?thesis by (subst (1 2 3) year_from.simps) simp
  next
    case False
    with "1.prems" show ?thesis by (subst (1 2 3) year_from.simps) simp
  qed
qed

lemma days_before_year_bound: "0 \<le> k \<Longrightarrow> days_before_year (k + 1) \<le> 366 * k"
proof -
  assume k: "0 \<le> k"
  have "k div 4 \<le> k" "k div 400 \<le> k div 100"
    using k zdiv_mono2 [of k 1 4] zdiv_mono2 [of k 100 400] by simp_all
  with k show ?thesis by (simp add: days_before_year_def)
qed

lemma days_before_year_mono: "y \<le> z \<Longrightarrow> days_before_year y \<le> days_before_year z"
proof (induction z rule: int_ge_induct)
  case (step z)
  then show ?case by (simp add: days_before_year_Suc)
qed simp

lemma year_of_day:
  assumes "0 \<le> n" and "n \<le> max_day"
  shows "1 \<le> year_of_day n" "year_of_day n \<le> 9999" "days_before_year (year_of_day n) \<le> n"
    "n < days_before_year (year_of_day n) + (if leap_year (year_of_day n) then 366 else 365)"
proof -
  have "days_before_year (n div 366 + 1) \<le> n"
    using days_before_year_bound [of "n div 366"] assms(1) by (simp add: pos_imp_zdiv_nonneg_iff)
  from year_from_bounds [OF this] have b: "n div 366 + 1 \<le> year_of_day n" "days_before_year (year_of_day n) \<le> n"
    "n < days_before_year (year_of_day n + 1)"
    by (simp_all add: year_of_day_def)
  then show "1 \<le> year_of_day n" "days_before_year (year_of_day n) \<le> n"
    using assms(1) by (simp_all add: pos_imp_zdiv_nonneg_iff order_trans [of 1 "n div 366 + 1"])
  show "n < days_before_year (year_of_day n) + (if leap_year (year_of_day n) then 366 else 365)"
    using b(3) by (simp add: days_before_year_Suc)
  show "year_of_day n \<le> 9999"
  proof (rule ccontr)
    assume "\<not> year_of_day n \<le> 9999"
    then have "days_before_year 10000 \<le> days_before_year (year_of_day n)" by (intro days_before_year_mono) simp
    then show False using b(2) assms(2) by (simp add: days_before_year_def max_day_def)
  qed
qed

lemma month_from_bounds:
  "month_from y k m r = (m', d) \<Longrightarrow> 0 \<le> r \<Longrightarrow> r < sum_list (map (days_in_month y) [m..m + int k]) \<Longrightarrow>
   m \<le> m' \<and> m' \<le> m + int k \<and> 1 \<le> d \<and> d \<le> days_in_month y m' \<and> sum_list (map (days_in_month y) [m..m' - 1]) + d - 1 = r"
proof (induction k arbitrary: m r)
  case (Suc k)
  show ?case
  proof (cases "days_in_month y m \<le> r")
    case True
    have shift: "m + int (Suc k) = m + 1 + int k" by simp
    have "m + 1 \<le> m' \<and> m' \<le> m + 1 + int k \<and> 1 \<le> d \<and> d \<le> days_in_month y m'
        \<and> sum_list (map (days_in_month y) [m + 1..m' - 1]) + d - 1 = r - days_in_month y m"
      using Suc.prems True upto_rec1 [of m "m + 1 + int k"] unfolding shift by (intro Suc.IH) auto
    then show ?thesis using upto_rec1 [of m "m' - 1"] by auto
  next
    case False
    with Suc.prems show ?thesis by auto
  qed
qed auto

lemma days_of_year: "sum_list (map (days_in_month y) [1..12]) = (if leap_year y then 366 else 365)"
  by (simp add: upto.simps days_in_month_def)

lemma date_of_day:
  assumes "0 \<le> n" and "n \<le> max_day" and "date_of_day n = (y, m, d)"
  shows "valid_date y m d" "day_number y m d = n"
proof -
  note yb = year_of_day [OF assms(1,2)]
  have y: "y = year_of_day n" and md: "month_from y 11 1 (n - days_before_year y) = (m, d)"
    using assms(3) by (auto simp: date_of_day_def Let_def split: prod.splits)
  have "1 \<le> m \<and> m \<le> 1 + int 11 \<and> 1 \<le> d \<and> d \<le> days_in_month y m
      \<and> sum_list (map (days_in_month y) [1..m - 1]) + d - 1 = n - days_before_year y"
    using yb days_of_year [of y] by (intro month_from_bounds [OF md]) (auto simp: y)
  then show "valid_date y m d" "day_number y m d = n"
    using yb by (auto simp: valid_date_def day_number_def days_before_month_def y)
qed

section \<open>Digits of a field\<close>

lemma pad_num_digits:
  assumes "0 \<le> i" and "i < 10 ^ w" and "0 < w"
  shows "length (pad_num w i) = w" "list_all is_digit (pad_num w i)" "int (nat_of_digits (pad_num w i)) = i"
proof -
  have "nat i < 10 ^ w" using assms by (simp add: nat_less_iff)
  then have "length (show_nat (nat i)) \<le> w" using show_nat_length_le [OF assms(3)] by simp
  then show "length (pad_num w i) = w" by (simp add: pad_num_def pad_left_def)
  show "list_all is_digit (pad_num w i)"
    using show_nat_digits [of "nat i"] by (auto simp: pad_num_def pad_left_def list_all_iff)
  show "int (nat_of_digits (pad_num w i)) = i" using assms(1) by (simp add: pad_num_def)
qed

lemma digits_pad_num: "0 \<le> i \<Longrightarrow> i < 10 ^ w \<Longrightarrow> 0 < w \<Longrightarrow> Py_Time.digits w (pad_num w i @ r) = Some (i, r)"
  using pad_num_digits [of i w] by (simp add: Py_Time.digits_def)

lemma two_pad: "two i = pad_num 2 i"
  by (simp add: two_def pad_num_def)

lemma digits_two: "0 \<le> i \<Longrightarrow> i < 100 \<Longrightarrow> Py_Time.digits 2 (two i @ r) = Some (i, r)"
  using digits_pad_num [of i 2] by (simp add: two_pad)

lemma two_chars: "0 \<le> i \<Longrightarrow> i < 100 \<Longrightarrow> \<exists>a b. two i = [a, b] \<and> is_digit a \<and> is_digit b"
  using pad_num_digits [of i 2] by (auto simp: two_pad numeral_2_eq_2 length_Suc_conv)

lemma four_chars: "0 \<le> i \<Longrightarrow> i < 10000 \<Longrightarrow> \<exists>a b c d. pad_num 4 i = [a, b, c, d] \<and> is_digit a \<and> is_digit b \<and> is_digit c \<and> is_digit d"
  using pad_num_digits [of i 4] by (auto simp: numeral_eq_Suc length_Suc_conv)

section \<open>Reading the text of a time\<close>

lemma digit_chars [simp]:
  "is_digit c \<Longrightarrow> c \<noteq> CHR ''W''" "is_digit c \<Longrightarrow> c \<noteq> CHR '':''" "is_digit c \<Longrightarrow> c \<noteq> CHR ''-''"
  "is_digit c \<Longrightarrow> \<not> is_zone_char c" "is_digit c \<Longrightarrow> c \<noteq> CHR ''Z''"
proof -
  have "\<not> is_digit (CHR ''W'')" "\<not> is_digit (CHR '':'')" "\<not> is_digit (CHR ''-'')" "\<not> is_digit (CHR ''+'')" "\<not> is_digit (CHR ''Z'')"
    by code_simp+
  then show "is_digit c \<Longrightarrow> c \<noteq> CHR ''W''" "is_digit c \<Longrightarrow> c \<noteq> CHR '':''" "is_digit c \<Longrightarrow> c \<noteq> CHR ''-''"
    "is_digit c \<Longrightarrow> \<not> is_zone_char c" "is_digit c \<Longrightarrow> c \<noteq> CHR ''Z''"
    by (auto simp: is_zone_char_def)
qed

lemma parse_iso_date_text:
  assumes "valid_date y m d"
  shows "parse_iso_date (date_text (y, m, d)) = Some (day_number y m d)"
proof -
  have r: "0 \<le> y" "y < 10 ^ 4" "0 \<le> m" "m < 100" "0 \<le> d" "d < 100"
    using assms by (auto simp: valid_date_def days_in_month_def split: if_splits)
  obtain a b where m: "two m = [a, b]" "is_digit a" "is_digit b" using two_chars [of m] r by auto
  have "Py_Time.digits 4 (date_text (y, m, d)) = Some (y, ''-'' @ two m @ ''-'' @ two d)"
    using digits_pad_num [OF r(1,2), of "''-'' @ two m @ ''-'' @ two d"] by (simp add: date_text_def)
  moreover have "\<not> starts_with (two m @ t) ''W''" for t using m by simp
  moreover have "Py_Time.digits 2 (two d) = Some (d, [])" using digits_two [of d "[]"] r by simp
  ultimately show ?thesis
    using digits_two [of m "''-'' @ two d"] r assms by (simp add: parse_iso_date_def)
qed

lemma iso_separator_date:
  assumes "valid_date y m d"
  shows "iso_separator (date_text (y, m, d) @ CHR ''T'' # t) = 10" "length (date_text (y, m, d)) = 10"
proof -
  have r: "0 \<le> y" "y < 10000" "0 \<le> m" "m < 100" "0 \<le> d" "d < 100"
    using assms by (auto simp: valid_date_def days_in_month_def split: if_splits)
  obtain y1 y2 y3 y4 where y: "pad_num 4 y = [y1, y2, y3, y4]" using four_chars [of y] r by auto
  obtain a b where m: "two m = [a, b]" "is_digit a" using two_chars [of m] r by auto
  obtain e f where d: "two d = [e, f]" using two_chars [of d] r by auto
  show "iso_separator (date_text (y, m, d) @ CHR ''T'' # t) = 10" "length (date_text (y, m, d)) = 10"
    using y m d by (simp_all add: date_text_def iso_separator_def)
qed

text \<open>The clock: hours, minutes, seconds, and six digits of a second when there are any.\<close>

definition clock_parts :: "int \<Rightarrow> int list" where
  "clock_parts u = [u div us_per_hour, u div us_per_minute mod 60, u div us_per_second mod 60]"

lemma clock_parts_sum:
  assumes "0 \<le> u"
  shows "u div us_per_hour * us_per_hour + u div us_per_minute mod 60 * us_per_minute + u div us_per_second mod 60 * us_per_second
    + u mod us_per_second = u"
proof -
  have "u div us_per_minute = u div us_per_hour * 60 + u div us_per_minute mod 60"
    using zdiv_zmult2_eq [of 60 u us_per_minute] by (simp add: us_per_hour_def us_per_minute_def)
  moreover have "u div us_per_second = u div us_per_minute * 60 + u div us_per_second mod 60"
    using zdiv_zmult2_eq [of 60 u us_per_second] by (simp add: us_per_second_def us_per_minute_def)
  moreover have "u = u div us_per_second * us_per_second + u mod us_per_second" by simp
  ultimately show ?thesis unfolding us_per_hour_def us_per_minute_def us_per_second_def by linarith
qed

lemma parse_clock_text:
  assumes "0 \<le> u" and "u < us_per_day"
  shows "parse_clock 3 True [] (clock_text u) = Some (clock_parts u, u mod us_per_second, False)"
proof -
  define h m s f where "h = u div us_per_hour" and "m = u div us_per_minute mod 60" and "s = u div us_per_second mod 60" and "f = u mod us_per_second"
  have r: "0 \<le> h" "h < 100" "0 \<le> m" "m < 100" "0 \<le> s" "s < 100" "0 \<le> f" "f < 10 ^ 6"
    using assms by (auto simp: h_def m_def s_def f_def us_per_hour_def us_per_minute_def us_per_second_def us_per_day_def
        pos_imp_zdiv_nonneg_iff div_less_iff_less_mult intro: le_less_trans [OF _ pos_mod_bound])
  define tail where "tail = (if f = 0 then [] else ''.'' @ pad_num 6 f)"
  have shape: "clock_text u = two h @ CHR '':'' # two m @ CHR '':'' # two s @ tail"
    by (simp add: clock_text_def h_def m_def s_def f_def tail_def)
  have nonempty: "two i \<noteq> []" "pad_num 6 i \<noteq> []" for i by (simp_all add: two_def pad_num_def pad_left_def)
  have last: "parse_clock 1 True [h, m] (two s @ tail) = Some ([h, m, s], f, False)"
  proof (cases "f = 0")
    case True
    then show ?thesis using digits_two [of s "[]"] r by (simp add: tail_def)
  next
    case False
    have "parse_fraction (pad_num 6 f) = Some (f, False)"
      using digits_pad_num [OF r(7,8), of "[]"] pad_num_digits(1) [OF r(7,8)] by (simp add: parse_fraction_def)
    then show ?thesis
      using digits_two [of s tail] r False nonempty(2) [of f] by (simp add: tail_def)
  qed
  have "parse_clock 2 True [h] (two m @ CHR '':'' # two s @ tail) = Some ([h, m, s], f, False)"
    using digits_two [of m "CHR '':'' # two s @ tail"] r last nonempty(1) [of s] by (simp add: numeral_2_eq_2)
  then show ?thesis
    using digits_two [of h "CHR '':'' # two m @ CHR '':'' # two s @ tail"] r nonempty(1) [of m]
    by (simp add: shape numeral_3_eq_3 clock_parts_def h_def m_def s_def f_def numeral_2_eq_2)
qed

lemma field_digits: "\<forall>c \<in> set (pad_num n i). is_digit c" "\<forall>c \<in> set (two i). is_digit c"
  using show_nat_digits [of "nat i"] by (auto simp: two_def pad_num_def pad_left_def)

lemma field_no_Z: "CHR ''Z'' \<notin> set (pad_num n i)" "CHR ''Z'' \<notin> set (two i)"
proof -
  have "\<not> is_digit (CHR ''Z'')" by code_simp
  then show "CHR ''Z'' \<notin> set (pad_num n i)" "CHR ''Z'' \<notin> set (two i)" using field_digits by blast+
qed

lemma clock_no_zone:
  assumes "0 \<le> u" and "u < us_per_day"
  shows "\<forall>c \<in> set (clock_text u). \<not> is_zone_char c \<and> c \<noteq> CHR ''Z''"
proof -
  have "\<not> is_zone_char (CHR '':'')" "\<not> is_zone_char (CHR ''.'')" by code_simp+
  moreover have "is_digit c \<Longrightarrow> \<not> is_zone_char c" for c by simp
  ultimately show ?thesis
    using field_digits field_no_Z by (auto simp: clock_text_def split: if_splits)
qed

lemma parse_iso_time_text:
  assumes "0 \<le> u" and "u < us_per_day"
  shows "parse_iso_time (clock_text u @ ''+00:00'') = Some (u, Some 0)"
proof -
  have "is_zone_char (CHR ''+'')" "parse_zone ''+00:00'' = Some (Some 0)" by code_simp+
  then have "takeWhile (\<lambda>c. \<not> is_zone_char c) (clock_text u @ ''+00:00'') = clock_text u"
    "dropWhile (\<lambda>c. \<not> is_zone_char c) (clock_text u @ ''+00:00'') = ''+00:00''"
    using clock_no_zone [OF assms] by (simp_all add: takeWhile_append2 dropWhile_append2)
  moreover have "u div us_per_hour \<le> 23" "u div us_per_minute mod 60 \<le> 59" "u div us_per_second mod 60 \<le> 59"
  proof -
    show "u div us_per_hour \<le> 23"
      using zdiv_mono1 [of u "us_per_day - 1" us_per_hour] assms by (simp add: us_per_day_def us_per_hour_def)
    show "u div us_per_minute mod 60 \<le> 59" "u div us_per_second mod 60 \<le> 59"
      using pos_mod_bound [of 60 "u div us_per_minute"] pos_mod_bound [of 60 "u div us_per_second"] by simp_all
  qed
  ultimately show ?thesis
    using parse_clock_text [OF assms] clock_parts_sum [OF assms(1)] \<open>parse_zone ''+00:00'' = Some (Some 0)\<close>
    by (simp add: parse_iso_time_def clock_parts_def clock_field_def not_less)
qed

lemma from_iso_parts:
  assumes "dt_in_range (day * us_per_day + u)" and "0 \<le> u" and "u < us_per_day"
  shows "from_iso (date_text (date_of_day day) @ CHR ''T'' # clock_text u @ ''+00:00'') = Some (DT (day * us_per_day + u) (Some 0))"
proof -
  have day: "0 \<le> day" "day \<le> max_day"
    using assms by (auto simp: dt_in_range_def us_per_day_def max_day_def)
  obtain y m d where ymd: "date_of_day day = (y, m, d)" by (cases "date_of_day day")
  note valid = date_of_day [OF day ymd]
  note sep = iso_separator_date [OF valid(1)]
  have "from_iso (date_text (y, m, d) @ CHR ''T'' # clock_text u @ ''+00:00'')
      = map_option (\<lambda>(v, off). DT (day * us_per_day + v) off) (parse_iso_time (clock_text u @ ''+00:00''))"
    using sep parse_iso_date_text [OF valid(1)] valid(2) by (simp add: from_iso_def)
  then show ?thesis
    using parse_iso_time_text [OF assms(2,3)] by (simp add: ymd)
qed

lemma replace_char_none: "\<forall>x \<in> set s. x \<noteq> c \<Longrightarrow> replace_char c r (s @ t) = s @ replace_char c r t"
  by (induction s) auto

lemma date_text_no_Z: "\<forall>c \<in> set (date_text ymd). c \<noteq> CHR ''Z''"
  using field_no_Z by (cases ymd) (auto simp: date_text_def)

text \<open>A UTC time and the same time with the suffix \<open>Z\<close>.\<close>

lemma parse_stamp_text:
  assumes "dt_in_range l"
  shows "parse_stamp (iso_text (DT l (Some 0))) = Inr (DT l (Some 0))"
    "parse_stamp (date_text (dt_date (DT l z)) @ CHR ''T'' # clock_text (l mod us_per_day) @ ''Z'') = Inr (DT l (Some 0))"
proof -
  have u: "0 \<le> l mod us_per_day" "l mod us_per_day < us_per_day" "l div us_per_day * us_per_day + l mod us_per_day = l"
    by (simp_all add: us_per_day_def)
  have zero: "offset_text 0 = ''+00:00''" by code_simp
  have noZ: "replace_char (CHR ''Z'') ''+00:00'' (date_text ymd @ CHR ''T'' # clock_text (l mod us_per_day) @ t)
      = date_text ymd @ CHR ''T'' # clock_text (l mod us_per_day) @ replace_char (CHR ''Z'') ''+00:00'' t" for ymd t
    using date_text_no_Z [of ymd] clock_no_zone [OF u(1,2)] by (simp add: replace_char_none)
  show "parse_stamp (iso_text (DT l (Some 0))) = Inr (DT l (Some 0))"
    "parse_stamp (date_text (dt_date (DT l z)) @ CHR ''T'' # clock_text (l mod us_per_day) @ ''Z'') = Inr (DT l (Some 0))"
    using from_iso_parts [of "l div us_per_day" "l mod us_per_day"] u assms
    by (simp_all add: parse_stamp_def iso_text_def noZ zero from_isoE_def dt_date_def dt_day_def)
qed

end
