(* ===== verification/Interval_Plans.thy ===== *)
theory Interval_Plans
  imports Interval_Receipt Time_Text
begin

text \<open>
  Plans that \<open>build_interval_receipt_plan\<close> makes pass \<open>_validate_plan\<close>, the check the writer runs on
  the frozen text: reading the texts back gives the patch and the interval again, dictionaries by
  sorted keys, and every binding between them holds. It rests on the round trips of JSON, floats and
  times.
\<close>

section \<open>Dictionaries by sorted keys\<close>

lemma map_of_sort_key:
  assumes "distinct (map fst d)"
  shows "map_of (sort_key fst d) = map_of d"
proof
  fix k
  have "distinct (map fst (sort_key fst d))" using assms by (simp add: distinct_sort_key)
  then have "map_of (sort_key fst d) k = Some v \<longleftrightarrow> map_of d k = Some v" for v
    using assms by (simp add: map_of_eq_Some_iff)
  then show "map_of (sort_key fst d) k = map_of d k" by (metis not_Some_eq)
qed

definition sorted_dict :: "pydict \<Rightarrow> pydict" where
  "sorted_dict d = sort_key fst (map (\<lambda>p. (fst p, sorted_keys (snd p))) d)"

lemma sorted_keys_dict: "sorted_keys (PDict d) = PDict (sorted_dict d)"
  by (simp add: sorted_dict_def)

declare sorted_keys.simps(2) [simp del]

lemma map_of_sorted: "distinct (map fst d) \<Longrightarrow> map_of (sorted_dict d) k = map_option sorted_keys (map_of d k)"
proof -
  assume "distinct (map fst d)"
  moreover have "map_of (map (\<lambda>p. (fst p, sorted_keys (snd p))) d) k = map_option sorted_keys (map_of d k)"
    by (induction d) auto
  ultimately show ?thesis by (simp add: sorted_dict_def map_of_sort_key comp_def)
qed

lemma keys_sorted: "set (map fst (sorted_dict d)) = set (map fst d)" "length (sorted_dict d) = length d"
    "distinct (map fst (sorted_dict d)) \<longleftrightarrow> distinct (map fst d)"
  by (force simp: sorted_dict_def distinct_sort_key comp_def)+

lemma sorted_facts:
  assumes "json_exact (PDict d)"
  shows "dget (sorted_dict d) k = sorted_keys (dget d k)" "dhas (sorted_dict d) k \<longleftrightarrow> dhas d k"
    "keys_are (sorted_dict d) ks \<longleftrightarrow> keys_are d ks" "dhas d k \<Longrightarrow> json_exact (dget d k)"
  using assms map_of_sorted [of d k] keys_sorted(1) [of d]
  by (auto simp: dget_def dhas_def keys_are_iff list_all_iff split: option.splits dest: map_of_SomeD)

lemma vsub_sorted: "vsub v k = Inr x \<Longrightarrow> json_exact v \<Longrightarrow> vsub (sorted_keys v) k = Inr (sorted_keys x) \<and> json_exact x"
  using sorted_facts(1,2,4) [of "the_dict v" k] by (auto simp: result_simps sorted_keys_dict simp del: json_exact.simps)

lemma sort_key_sorted: "sorted (map f xs) \<Longrightarrow> sort_key f xs = xs"
  by (induction xs) (auto simp: insort_is_Cons)

lemma json_exact_sorted: "json_exact v \<Longrightarrow> json_exact (sorted_keys v)"
proof (induction v rule: measure_induct_rule [of size])
  case (less v)
  show ?case
  proof (cases v)
    case (PList xs)
    then show ?thesis using less by (auto simp: list_all_iff size_list_estimation' less_Suc_eq_le intro!: less.IH)
  next
    case (PDict d)
    then have "json_exact (sorted_keys (snd p))" if "p \<in> set d" for p
      using less.prems less.IH [OF size_snd [OF that, folded PDict]] that by (simp add: list_all_iff)
    then show ?thesis
      using PDict less.prems keys_sorted(3) [of d] by (auto simp: sorted_keys_dict sorted_dict_def list_all_iff)
  qed (use less.prems in auto)
qed

lemma dumps_sorted: "json_exact v \<Longrightarrow> json_dumps (sorted_keys v) = json_dumps v"
proof (induction v rule: measure_induct_rule [of size])
  case (less v)
  show ?case
  proof (cases v)
    case (PList xs)
    then have "map json_dumps (map sorted_keys xs) = map json_dumps xs"
      using less by (auto simp: list_all_iff size_list_estimation' less_Suc_eq_le intro!: less.IH)
    then show ?thesis by (simp only: PList sorted_keys.simps json_dumps.simps json_items_map)
  next
    case (PDict d)
    have same: "json_dumps (sorted_keys (snd p)) = json_dumps (snd p)" if "p \<in> set d" for p
      using less.prems less.IH [OF size_snd [OF that, folded PDict]] that PDict by (simp add: list_all_iff)
    have "sort_key fst (sorted_dict d) = map (\<lambda>p. (fst p, sorted_keys (snd p))) (sort_key fst d)"
      unfolding sorted_dict_def by (subst sort_key_sorted) (simp_all add: sort_key_map [where h = fst] comp_def)
    moreover have "map member_text (map (\<lambda>p. (fst p, sorted_keys (snd p))) (sort_key fst d)) = map member_text (sort_key fst d)"
      using same by (auto simp: member_text_def)
    ultimately show ?thesis
      by (simp only: PDict sorted_keys_dict dumps_dict)
  qed (use less.prems in auto)
qed

lemma json_exact_plain: "json_exact v \<Longrightarrow> json_plain v"
proof (induction v rule: measure_induct_rule [of size])
  case (less v)
  show ?case
  proof (cases v)
    case (PList xs)
    then show ?thesis using less by (auto simp: list_all_iff size_list_estimation' less_Suc_eq_le intro!: less.IH)
  next
    case (PDict d)
    then show ?thesis
      using less.prems less.IH [OF size_snd [of _ d, folded PDict]] by (auto simp: list_all_iff)
  qed (use less.prems in \<open>auto split: pyfloat.splits\<close>)
qed

lemma canonical_exact: "json_exact v \<Longrightarrow> canonical_json v = Inr (json_dumps v)"
  by (simp add: canonical_json_def json_exact_plain)

lemma canonical_sorted: "json_exact v \<Longrightarrow> canonical_json (sorted_keys v) = Inr (json_dumps v)"
  by (simp add: canonical_exact json_exact_sorted dumps_sorted)

lemma digest_exact: "json_exact v \<Longrightarrow> material_digest v = Inr (sha256 (json_dumps v))"
  "json_exact v \<Longrightarrow> material_digest (sorted_keys v) = Inr (sha256 (json_dumps v))"
  by (simp_all add: material_digest_def canonical_exact canonical_sorted)

lemma loads_exact: "json_exact v \<Longrightarrow> text_loads (PStr (json_dumps v)) = Inr (sorted_keys v)"
  by (simp add: text_loads_def json_round_trip)

section \<open>What a built plan consists of\<close>

lemma payload_material_Inr:
  assumes "payload_material v = Inr (payload, start, finish, logical_id)"
  shows "v = PDict payload" "keys_are payload interval_fields"
    "\<And>k. k \<in> set interval_fields \<Longrightarrow> \<exists>s. dget payload k = PStr s"
proof -
  show v: "v = PDict payload" and k: "keys_are payload interval_fields"
    using assms by (auto simp: payload_material_def result_simps split: pyval.splits)
  have time: "\<exists>s. x = PStr s" if "receipt_time x = Inr t" for x t
    using that by (auto simp: receipt_time_def split: pyval.splits)
  have amt: "\<exists>s. x = PStr s" if "receipt_amount b x = Inr t" for x b t
    using that by (auto simp: receipt_amount_def split: pyval.splits)
  show "\<exists>s. dget payload k = PStr s" if "k \<in> set interval_fields" for k
    using that assms unfolding v payload_material_def
    by (auto simp: result_simps interval_fields_def dest!: time amt elim: is_str.elims)
qed

lemma payload_material_cong:
  assumes "payload_material (PDict payload) = Inr (payload, start, finish, logical_id)"
    and "keys_are payload' interval_fields" and "\<And>k. k \<in> set interval_fields \<Longrightarrow> dget payload' k = dget payload k"
  shows "payload_material (PDict payload') = Inr (payload', start, finish, logical_id)"
  using assms(1,2) assms(3) [unfolded interval_fields_def, simplified] by (auto simp: payload_material_def result_simps)

lemma payload_sorted:
  assumes "payload_material (PDict payload) = Inr (payload, start, finish, logical_id)" and "json_exact (PDict payload)"
  shows "payload_material (PDict (sorted_dict payload)) = Inr (sorted_dict payload, start, finish, logical_id)"
proof (rule payload_material_cong [OF assms(1)])
  show "keys_are (sorted_dict payload) interval_fields"
    using payload_material_Inr(2) [OF assms(1)] sorted_facts(3) [OF assms(2)] by blast
  show "dget (sorted_dict payload) k = dget payload k" if "k \<in> set interval_fields" for k
    using payload_material_Inr(3) [OF assms(1) that] sorted_facts(1) [OF assms(2)] by auto
qed

text \<open>The version text of an update time of a four-digit year.\<close>

lemma show_year: "1000 \<le> y \<Longrightarrow> y \<le> 9999 \<Longrightarrow> show_int y = pad_num 4 y"
proof -
  assume y: "1000 \<le> y" "y \<le> 9999"
  then have "\<not> length (show_nat (nat y)) \<le> 3" by (simp add: show_nat_length_le nat_less_iff)
  with y show ?thesis by (simp add: show_int_def pad_num_def pad_left_def)
qed

lemma whole_second:
  assumes "0 \<le> u"
  shows "(u - u mod us_per_second) div us_per_hour = u div us_per_hour"
    "(u - u mod us_per_second) div us_per_minute = u div us_per_minute"
    "(u - u mod us_per_second) div us_per_second = u div us_per_second"
    "(u - u mod us_per_second) mod us_per_second = 0"
proof -
  have s: "(u - u mod us_per_second) div us_per_second = u div us_per_second"
    by (simp add: minus_mod_eq_div_mult us_per_second_def)
  have h: "v div us_per_hour = v div us_per_second div 3600" and m: "v div us_per_minute = v div us_per_second div 60" for v
    using zdiv_zmult2_eq [of 3600 v us_per_second] zdiv_zmult2_eq [of 60 v us_per_second]
    by (simp_all add: us_per_hour_def us_per_minute_def us_per_second_def)
  show "(u - u mod us_per_second) div us_per_hour = u div us_per_hour"
    "(u - u mod us_per_second) div us_per_minute = u div us_per_minute"
    by (simp_all only: h m s)
  show "(u - u mod us_per_second) div us_per_second = u div us_per_second" by (rule s)
  show "(u - u mod us_per_second) mod us_per_second = 0" by (simp add: minus_mod_eq_mult_div us_per_second_def)
qed

lemma no_fine_fraction: "\<forall>c \<in> set s. c \<noteq> CHR ''.'' \<and> c \<noteq> CHR '','' \<Longrightarrow> \<not> fine_fraction s"
  by (induction s) auto

lemma not_point: "\<not> is_digit (CHR ''.'')" "\<not> is_digit (CHR '','')"
  by code_simp+

lemma stamp_text_parts:
  assumes "dt_in_range (dt_local t)" and "dt_date t = (y, m, d)" and "1000 \<le> y" and "0 \<le> n" and "n < 1000000000"
  shows "version_shape (stamp_text t n)"
    "\<exists>u. receipt_time (PStr (take 19 (stamp_text t n) @ ''Z'')) = Inr u"
proof -
  define l where "l = dt_local t"
  define u where "u = l mod us_per_day - l mod us_per_day mod us_per_second"
  have day: "0 \<le> l div us_per_day" "l div us_per_day \<le> max_day"
    using assms(1) by (auto simp: dt_in_range_def us_per_day_def max_day_def l_def pos_imp_zdiv_nonneg_iff)
  have date: "date_of_day (l div us_per_day) = (y, m, d)"
    using assms(2) by (simp add: dt_date_def dt_day_def l_def)
  note valid = date_of_day(1) [OF day date]
  have clock: "two (l mod us_per_day div us_per_hour) @ '':'' @ two (l mod us_per_day div us_per_minute mod 60) @ '':''
      @ two (l mod us_per_day div us_per_second mod 60) = clock_text u"
    using whole_second [of "l mod us_per_day"] by (simp add: u_def clock_text_def us_per_day_def)
  have shape: "stamp_text t n = date_text (y, m, d) @ ''T'' @ clock_text u @ ''.'' @ pad_num 9 n @ ''Z''"
    using assms(2,3) valid clock show_year [of y]
    by (simp add: stamp_text_def date_text_def Let_def valid_date_def l_def)
  have u: "0 \<le> u" "u < us_per_day"
  proof -
    have v: "0 \<le> l mod us_per_day" "l mod us_per_day < us_per_day" by (simp_all add: us_per_day_def)
    moreover have "0 \<le> l mod us_per_day mod us_per_second" by (simp add: us_per_second_def)
    ultimately show "0 \<le> u" "u < us_per_day"
      using zmod_le_nonneg_dividend [OF v(1), of us_per_second] unfolding u_def by linarith+
  qed
  have whole: "u mod us_per_second = 0"
    unfolding u_def by (rule whole_second(4)) (simp add: us_per_day_def)
  have clock_chars: "clock_text u = two (u div us_per_hour) @ '':'' @ two (u div us_per_minute mod 60) @ '':'' @ two (u div us_per_second mod 60)"
    "0 \<le> u div us_per_hour" "u div us_per_hour < 100" "0 \<le> u div us_per_minute mod 60" "u div us_per_minute mod 60 < 100"
    "0 \<le> u div us_per_second mod 60" "u div us_per_second mod 60 < 100"
    using u whole pos_mod_bound [of 60 "u div us_per_minute"] pos_mod_bound [of 60 "u div us_per_second"]
    by (simp_all add: clock_text_def us_per_hour_def us_per_day_def pos_imp_zdiv_nonneg_iff div_less_iff_less_mult)
  obtain a1 a2 a3 a4 where Y: "pad_num 4 y = [a1, a2, a3, a4]" "is_digit a1" "is_digit a2" "is_digit a3" "is_digit a4"
    using four_chars [of y] valid by (auto simp: valid_date_def)
  obtain b1 b2 where M: "two m = [b1, b2]" "is_digit b1" "is_digit b2"
    using two_chars [of m] valid by (auto simp: valid_date_def)
  have "d < 100" using valid by (auto simp: valid_date_def days_in_month_def split: if_splits)
  then obtain c1 c2 where D: "two d = [c1, c2]" "is_digit c1" "is_digit c2"
    using two_chars [of d] valid by (auto simp: valid_date_def)
  obtain e1 e2 where H: "two (u div us_per_hour) = [e1, e2]" "is_digit e1" "is_digit e2"
    using two_chars clock_chars(2,3) by blast
  obtain f1 f2 where I: "two (u div us_per_minute mod 60) = [f1, f2]" "is_digit f1" "is_digit f2"
    using two_chars clock_chars(4,5) by blast
  obtain g1 g2 where S: "two (u div us_per_second mod 60) = [g1, g2]" "is_digit g1" "is_digit g2"
    using two_chars clock_chars(6,7) by blast
  have N: "length (pad_num 9 n) = 9" "list_all is_digit (pad_num 9 n)"
    using pad_num_digits [of n 9] assms(4,5) by simp_all
  have tail: "list_all2 (\<lambda>p c. if p = CHR ''d'' then is_digit c else p = c) ''dddddddddZ'' (ds @ ''Z'')"
    if "length ds = 9" "list_all is_digit ds" for ds
    using that by (auto simp: numeral_eq_Suc length_Suc_conv)
  show "version_shape (stamp_text t n)"
    using Y M D H I S tail [OF N] by (simp add: version_shape_def shape date_text_def clock_chars(1))
  have "take 19 (stamp_text t n) = date_text (y, m, d) @ CHR ''T'' # clock_text u"
    using Y M D H I S by (simp add: shape date_text_def clock_chars(1))
  moreover have "receipt_time (PStr (date_text (y, m, d) @ CHR ''T'' # clock_text u @ ''Z'')) = Inr (DT (l div us_per_day * us_per_day + u) (Some 0))"
  proof -
    have len: "length (date_text (y, m, d) @ CHR ''T'' # clock_text u @ ''Z'') = 20"
      using Y M D H I S by (simp add: date_text_def clock_chars(1))
    have "\<not> fine_fraction (date_text (y, m, d) @ CHR ''T'' # clock_text u @ ''Z'')"
      using Y M D H I S not_point by (intro no_fine_fraction) (auto simp: date_text_def clock_chars(1))
    moreover have "(l div us_per_day * us_per_day + u) div us_per_day = l div us_per_day"
      "(l div us_per_day * us_per_day + u) mod us_per_day = u" "dt_in_range (l div us_per_day * us_per_day + u)"
      using u day by (auto simp: dt_in_range_def us_per_day_def max_day_def)
    ultimately show ?thesis
      using parse_stamp_text(2) [of "l div us_per_day * us_per_day + u" None] len date
      by (simp add: receipt_time_def to_utc_def dt_date_def dt_day_def)
  qed
  ultimately show "\<exists>u. receipt_time (PStr (take 19 (stamp_text t n) @ ''Z'')) = Inr u" by simp
qed

text \<open>What an accepted transition says of the new state.\<close>

lemma dict_eq: "v = PDict d \<longleftrightarrow> is_dict v \<and> d = the_dict v" "PDict d = v \<longleftrightarrow> is_dict v \<and> the_dict v = d"
  by (cases v; auto)+

definition transition_shape :: "string \<Rightarrow> pydt \<Rightarrow> pydict \<Rightarrow> pyval \<Rightarrow> pyval \<Rightarrow> pyval \<Rightarrow> bool" where
  "transition_shape scope finish new was cp cursor =
     (is_dict cp \<and> dhas (the_dict cp) ''account_scope_sha256'' \<and> PStr scope = dget (the_dict cp) ''account_scope_sha256''
      \<and> dhas (the_dict cp) ''execution_authority_granted'' \<and> PBool False = dget (the_dict cp) ''execution_authority_granted''
      \<and> is_dict was \<and> dhas (the_dict was) ''assets'' \<and> is_dict (dget (the_dict was) ''assets'') \<and> truthy (dget (the_dict was) ''assets'')
      \<and> (\<exists>b. keys_equal (the_dict (dget (the_dict was) ''assets'')) (dget (the_dict cp) ''assets'') = Inr b \<and> b)
      \<and> dhas (the_dict cp) ''assets''
      \<and> dhas (the_dict cp) ''observed_at'' \<and> (\<exists>u. same_instant (dget (the_dict cp) ''observed_at'') finish = Inr u)
      \<and> is_dict cursor \<and> dhas (the_dict cursor) ''observed_at'' \<and> (\<exists>u. same_instant (dget (the_dict cursor) ''observed_at'') finish = Inr u)
      \<and> py_eq (dget new ''earn_accounted_net_changes'') (zero_changes (the_dict (dget (the_dict was) ''assets'')))
      \<and> list_all (dhas new) patch_fields)"

lemma transition_facts:
  assumes "check_transition scope start finish old new = Inr ()"
  shows "dhas old ''earn_accrual_checkpoint'' \<and> transition_shape scope finish new (dget old ''earn_accrual_checkpoint'')
    (dget new ''earn_accrual_checkpoint'') (dget new ''external_cash_flow_cursor'')"
  using assms [unfolded check_transition_def bindE_Inr_iff ensure_Inr_iff vsub2_def py_eq_PStr dsub_Inr_iff vsub_Inr_iff dict_eq]
  unfolding transition_shape_def
  by (elim exE conjE) (hypsubst, (intro conjI exI; assumption))

lemma py_eq_dict_iff: "py_eq_dict d e \<longleftrightarrow> (\<forall>(k, v) \<in> set d. \<exists>y. map_of e k = Some y \<and> py_eq v y)"
  by (induction d) (auto split: option.splits)

lemma py_eq_zero_changes:
  "py_eq net (zero_changes held) \<longleftrightarrow>
     (\<exists>n. net = PDict n \<and> length n = length held \<and> (\<forall>(k, v) \<in> set n. k \<in> fst ` set held \<and> v = PStr ''0''))"
proof -
  have "map_of (map (\<lambda>p. (fst p, PStr ''0'')) held) k = (if k \<in> fst ` set held then Some (PStr ''0'') else None)" for k
    by (induction held) auto
  then have one: "(\<exists>y. map_of (map (\<lambda>p. (fst p, PStr ''0'')) held) k = Some y \<and> py_eq v y) \<longleftrightarrow> k \<in> fst ` set held \<and> v = PStr ''0''" for k v
    by simp
  have "\<not> num_eq v (PDict d)" for v d by (auto simp: num_eq_def)
  then show ?thesis
    by (cases net) (simp_all add: zero_changes_def py_eq_dict_iff one)
qed

lemma zero_changes_sorted:
  assumes "py_eq net (zero_changes held)" and "distinct (map fst held)" and "distinct (map fst e)" and "keys_are held (map fst e)"
  shows "py_eq (sorted_keys net) (zero_changes (sorted_dict e))"
proof -
  obtain n where n: "net = PDict n" "length n = length held" "\<forall>(k, v) \<in> set n. k \<in> fst ` set held \<and> v = PStr ''0''"
    using assms(1) by (auto simp: py_eq_zero_changes)
  have keys: "fst ` set held = fst ` set e" using assms(4) by (simp add: keys_are_iff)
  have "length held = card (fst ` set held)" "length e = card (fst ` set e)"
    using assms(2,3) by (metis distinct_card length_map list.set_map)+
  then have "length n = length (sorted_dict e)" using n(2) keys keys_sorted(2) [of e] by simp
  moreover have "\<forall>(k, v) \<in> set (sorted_dict n). k \<in> fst ` set (sorted_dict e) \<and> v = PStr ''0''"
    using n(3) keys keys_sorted(1) [of e] by (auto simp: sorted_dict_def) 
  ultimately show ?thesis
    using n(1) keys_sorted(2) [of n] by (simp add: py_eq_zero_changes sorted_keys_dict)
qed

lemma same_instant_sorted: "same_instant v t = Inr () \<Longrightarrow> same_instant (sorted_keys v) t = Inr ()"
  by (cases v) (auto simp: same_instant_def receipt_time_def)

text \<open>What the validator looks up in the patch after reading it back.\<close>

lemma plan_patch_facts:
  assumes "json_exact (PDict new)" and "list_all (dhas new) patch_fields"
  shows "json_exact (PDict (plan_patch new))" "keys_are (plan_patch new) patch_fields"
    "k \<in> set patch_fields \<Longrightarrow> dsub (plan_patch new) k = Inr (dget new k)"
proof -
  have "json_exact (dget new k)" if "k \<in> set patch_fields" for k
    using assms that sorted_facts(4) [OF assms(1)] by (auto simp: list_all_iff)
  then show "json_exact (PDict (plan_patch new))" "keys_are (plan_patch new) patch_fields"
    "k \<in> set patch_fields \<Longrightarrow> dsub (plan_patch new) k = Inr (dget new k)"
    by (auto simp: plan_patch_def patch_fields_def keys_are_iff dsub_def)
qed

lemma sorted_patch:
  assumes "json_exact (PDict new)" and "list_all (dhas new) patch_fields" and "k \<in> set patch_fields"
  shows "dsub (sorted_dict (plan_patch new)) k = Inr (sorted_keys (dget new k))"
    "dget (sorted_dict (plan_patch new)) k = sorted_keys (dget new k)" "json_exact (dget new k)"
proof -
  note p = plan_patch_facts [OF assms(1,2)]
  have "dhas (plan_patch new) k \<and> dget (plan_patch new) k = dget new k"
    using p(3) [OF assms(3)] by (simp add: dsub_Inr_iff)
  then show "dsub (sorted_dict (plan_patch new)) k = Inr (sorted_keys (dget new k))"
    "dget (sorted_dict (plan_patch new)) k = sorted_keys (dget new k)" "json_exact (dget new k)"
    using sorted_facts(1,2,4) [OF p(1), of k] by (auto simp: dsub_Inr_iff)
qed

lemma dict_sub: "is_dict v \<Longrightarrow> dhas (the_dict v) k \<Longrightarrow> vsub v k = Inr (dget (the_dict v) k)"
  by (cases v) (auto simp: dsub_dhas)

definition patch_lookups :: "pydict \<Rightarrow> string \<Rightarrow> pydt \<Rightarrow> pydict \<Rightarrow> bool" where
  "patch_lookups patch scope finish assets =
     (vsub2 patch ''earn_accrual_checkpoint'' ''assets'' = Inr (PDict assets) \<and> assets \<noteq> []
      \<and> vsub2 patch ''earn_accrual_checkpoint'' ''account_scope_sha256'' = Inr (PStr scope)
      \<and> vsub2 patch ''earn_accrual_checkpoint'' ''execution_authority_granted'' = Inr (PBool False)
      \<and> bindE (vsub2 patch ''earn_accrual_checkpoint'' ''observed_at'') (\<lambda>v. same_instant v finish) = Inr ()
      \<and> bindE (vsub2 patch ''external_cash_flow_cursor'' ''observed_at'') (\<lambda>v. same_instant v finish) = Inr ()
      \<and> py_eq (dget patch ''earn_accounted_net_changes'') (zero_changes assets))"

lemma patch_lookups_sorted:
  assumes "transition_shape scope finish new was cp cursor" and "cp = dget new ''earn_accrual_checkpoint''"
    and "cursor = dget new ''external_cash_flow_cursor''" and "json_exact (PDict new)" and "json_exact was"
    and "is_dict (dget (the_dict cp) ''assets'')"
  shows "patch_lookups (sorted_dict (plan_patch new)) scope finish (sorted_dict (the_dict (dget (the_dict cp) ''assets'')))"
proof -
  note t = assms(1) [unfolded transition_shape_def]
  have patch: "list_all (dhas new) patch_fields" using t by blast
  note sp = sorted_patch [OF assms(4) patch]
  have cp: "dsub (sorted_dict (plan_patch new)) ''earn_accrual_checkpoint'' = Inr (sorted_keys cp)" "json_exact cp"
    and cu: "dsub (sorted_dict (plan_patch new)) ''external_cash_flow_cursor'' = Inr (sorted_keys cursor)" "json_exact cursor"
    and net: "dget (sorted_dict (plan_patch new)) ''earn_accounted_net_changes'' = sorted_keys (dget new ''earn_accounted_net_changes'')"
    unfolding assms(2,3) using sp by (simp_all add: patch_fields_def)
  have look: "vsub (sorted_keys cp) k = Inr (sorted_keys (dget (the_dict cp) k))" if "dhas (the_dict cp) k" for k
    using t vsub_sorted [OF dict_sub [OF _ that] cp(2)] by blast
  have look2: "vsub (sorted_keys cursor) ''observed_at'' = Inr (sorted_keys (dget (the_dict cursor) ''observed_at''))"
    using t vsub_sorted [OF dict_sub cu(2)] by blast
  define assets where "assets = the_dict (dget (the_dict cp) ''assets'')"
  have a: "dget (the_dict cp) ''assets'' = PDict assets" using assms(6) by (simp add: assets_def dict_eq)
  define held where "held = the_dict (dget (the_dict was) ''assets'')"
  have keys: "keys_are held (map fst assets)" using t by (auto simp: a held_def [symmetric] keys_equal_def)
  have "held \<noteq> []" using t by (cases "dget (the_dict was) ''assets''") (auto simp: held_def)
  then have nonempty: "assets \<noteq> []" using keys by (auto simp: keys_are_iff)
  have "json_exact (PDict assets)"
    using vsub_sorted [OF dict_sub [of cp "''assets''"] cp(2)] t by (simp add: a)
  moreover have "json_exact (PDict held)"
    using vsub_sorted [OF dict_sub [of was "''assets''"] assms(5)] t by (auto simp: held_def dict_eq simp del: json_exact.simps)
      (metis dict_eq(1))
  ultimately have "distinct (map fst assets)" "distinct (map fst held)" by simp_all
  then have zero: "py_eq (sorted_keys (dget new ''earn_accounted_net_changes'')) (zero_changes (sorted_dict assets))"
    using t keys by (intro zero_changes_sorted [of _ held]) (auto simp: held_def)
  have vs: "vsub2 (sorted_dict (plan_patch new)) ''earn_accrual_checkpoint'' k = Inr (sorted_keys (dget (the_dict cp) k))"
    if "dhas (the_dict cp) k" for k
    using look [OF that] cp(1) by (simp add: vsub2_def)
  have scope: "dget (the_dict cp) ''account_scope_sha256'' = PStr scope" "dget (the_dict cp) ''execution_authority_granted'' = PBool False"
    and has: "dhas (the_dict cp) ''assets''" "dhas (the_dict cp) ''account_scope_sha256''" "dhas (the_dict cp) ''execution_authority_granted''"
      "dhas (the_dict cp) ''observed_at''"
    and instants: "same_instant (dget (the_dict cp) ''observed_at'') finish = Inr ()" "same_instant (dget (the_dict cursor) ''observed_at'') finish = Inr ()"
    using t by auto
  show ?thesis
    using vs [OF has(1)] vs [OF has(2)] vs [OF has(3)] vs [OF has(4)] same_instant_sorted [OF instants(1)] same_instant_sorted [OF instants(2)]
      nonempty zero net look2 cu(1) keys_sorted(2) [of assets]
    unfolding patch_lookups_def assets_def [symmetric]
    by (auto simp: scope a sorted_keys_dict vsub2_def)
qed

section \<open>The property\<close>

text \<open>The plan of a transition between exact states, with its texts spelled out.\<close>

definition plan_receipt :: "string \<Rightarrow> string \<Rightarrow> string \<Rightarrow> string \<Rightarrow> string \<Rightarrow> pydict \<Rightarrow> pydict \<Rightarrow> pyval" where
  "plan_receipt path version before_digest after_digest logical_id patch payload =
     PDict [(''schema_version'', PStr receipt_schema), (''interval_id_sha256'', PStr logical_id),
       (''payload_sha256'', PStr (sha256 (json_dumps (PDict payload)))),
       (''source'', PDict [(''ledger_path'', PStr path), (''ledger_before_version'', PStr version),
          (''ledger_before_sha256'', PStr before_digest), (''ledger_after_sha256'', PStr after_digest),
          (''patch_sha256'', PStr (sha256 (json_dumps (PDict patch))))]),
       (''interval'', PDict payload)]"

lemma dumps_last: "json_dumps v = json_dumps w \<Longrightarrow> json_dumps (PDict (d @ [(k, v)])) = json_dumps (PDict (d @ [(k, w)]))"
  by (simp only: json_dumps.simps json_pairs_map map_append list.map fst_conv member_text_def snd_conv)

lemma receipt_material_exact:
  assumes "payload_material (PDict payload) = Inr (payload, start, finish, logical_id)"
    and "json_exact (PDict payload)" and "json_exact (PDict patch)"
  shows "receipt_material (PStr path) (PStr version) (PStr b) (PStr a) patch payload
    = Inr (plan_receipt path version b a logical_id patch payload)"
    "json_exact (plan_receipt path version b a logical_id patch payload)"
  using assms digest_exact(1) by (simp_all add: receipt_material_def plan_receipt_def)

lemma built_plan:
  assumes "build_interval_receipt_plan lp ut prev nxt interval = Inr plan"
    and "json_exact prev" and "json_exact nxt" and "json_exact interval"
  obtains path payload start finish logical_id old new version b a where "lp = PStr path" and "validate_path lp = Inr ()"
    and "interval = PDict payload" and "prev = PDict old" and "nxt = PDict new"
    and "payload_material (PDict payload) = Inr (payload, start, finish, logical_id)"
    and "check_transition (the_str (dget payload ''account_scope_sha256'')) start finish old new = Inr ()"
    and "exact_version ut = Inr version" and "hex64 b" and "hex64 a"
    and "plan = \<lparr>pl_ledger_path = PStr path, pl_receipt_path = PStr (receipt_suffix path logical_id),
      pl_source_version = PStr version, pl_before = PStr b, pl_after = PStr a,
      pl_payload = PStr (sha256 (json_dumps (PDict payload))), pl_patch = PStr (json_dumps (PDict (plan_patch new))),
      pl_receipt = PStr (json_dumps (plan_receipt path version b a logical_id (plan_patch new) payload))\<rparr>"
proof -
  obtain path payload start finish logical_id where lp: "lp = PStr path" "validate_path lp = Inr ()"
    and pm: "payload_material interval = Inr (payload, start, finish, logical_id)"
    using assms(1) by (cases lp) (auto simp: build_interval_receipt_plan_def bindE_Inr_iff validate_path_def ensure_Inr_iff)
  then have interval: "interval = PDict payload" using payload_material_Inr(1) by blast
  have pm': "payload_material (PDict payload) = Inr (payload, start, finish, logical_id)" using pm interval by simp
  obtain old new where on: "prev = PDict old" "nxt = PDict new"
    using assms(1) lp(2) pm by (cases prev; cases nxt) (simp_all add: build_interval_receipt_plan_def)
  have b: "bindE (catchE (check_transition (the_str (dget payload ''account_scope_sha256'')) start finish old new)
          (\<lambda>e. Inl (if e = KeyError \<or> e = TypeError \<or> is_value_error e then blocked ''transition_invalid'' else e))) (\<lambda>_.
        bindE (canonical_json (PDict (dupdate old (plan_patch new)))) (\<lambda>patched.
        bindE (canonical_json (PDict new)) (\<lambda>target.
        bindE (ensure (patched = target) (blocked ''transition_invalid'')) (\<lambda>_.
        bindE (exact_version ut) (\<lambda>version.
        bindE (material_digest (PDict old)) (\<lambda>before_digest.
        bindE (material_digest (PDict new)) (\<lambda>after_digest.
        bindE (material_digest (PDict payload)) (\<lambda>payload_digest.
        bindE (receipt_material lp (PStr version) (PStr before_digest) (PStr after_digest) (plan_patch new) payload) (\<lambda>receipt.
        bindE (canonical_json (PDict (plan_patch new))) (\<lambda>patch_json.
        bindE (canonical_json receipt) (\<lambda>receipt_json.
        Inr \<lparr>pl_ledger_path = lp, pl_receipt_path = PStr (receipt_suffix (the_str lp) logical_id),
          pl_source_version = PStr version, pl_before = PStr before_digest, pl_after = PStr after_digest,
          pl_payload = PStr payload_digest, pl_patch = PStr patch_json, pl_receipt = PStr receipt_json\<rparr>))))))))))) = Inr plan"
    using assms(1) lp(2) pm by (simp add: build_interval_receipt_plan_def on Let_def)
  then obtain version where t: "check_transition (the_str (dget payload ''account_scope_sha256'')) start finish old new = Inr ()"
    and v: "exact_version ut = Inr version"
    by (auto simp: bindE_Inr_iff catchE_Inr_iff)
  have exact: "json_exact (PDict payload)" "json_exact (PDict old)" "json_exact (PDict new)" "json_exact (PDict (plan_patch new))"
    using assms(2-4) interval on plan_patch_facts(1) [of new] transition_facts [OF t] by (auto simp: transition_shape_def simp del: json_exact.simps)
  show thesis
    using b exact [THEN canonical_exact] exact [THEN digest_exact(1)] receipt_material_exact [OF pm' exact(1,4)]
    by (intro that [OF lp interval on pm' t v sha256_hex64 sha256_hex64, of "json_dumps (PDict old)" "json_dumps (PDict new)"])
      (simp add: t v lp bindE_Inr_iff ensure_Inr_iff canonical_exact)
qed

lemma exact_version_text:
  assumes "exact_version (Stamp t ns) = Inr v" and "dt_in_range (dt_local t)" and "1000 \<le> fst (dt_date t)"
  shows "version_shape v" "\<exists>u. receipt_time (PStr (take 19 v @ ''Z'')) = Inr u"
proof -
  obtain n where "v = stamp_text t n" "0 \<le> n" "n < 1000000000"
    using assms(1) by (auto simp: exact_version_def split: if_splits pyval.splits)
  moreover obtain y m d where "dt_date t = (y, m, d)" by (cases "dt_date t")
  ultimately show "version_shape v" "\<exists>u. receipt_time (PStr (take 19 v @ ''Z'')) = Inr u"
    using stamp_text_parts [of t y m d n] assms(2,3) by auto
qed

lemma plan_bindings_hold:
  assumes pm: "payload_material (PDict payload) = Inr (payload, start, finish, logical_id)"
    and exact: "json_exact (PDict payload)" "json_exact (PDict patch)"
    and path: "validate_path (PStr path) = Inr ()" and keys: "keys_are patch patch_fields"
    and version: "version_shape version" "receipt_time (PStr (take 19 version @ ''Z'')) = Inr moment"
    and hex: "hex64 b" "hex64 a"
    and look: "patch_lookups (sorted_dict patch) (the_str (dget payload ''account_scope_sha256'')) finish assets"
  shows "plan_bindings \<lparr>pl_ledger_path = PStr path, pl_receipt_path = PStr (receipt_suffix path logical_id),
      pl_source_version = PStr version, pl_before = PStr b, pl_after = PStr a,
      pl_payload = PStr (sha256 (json_dumps (PDict payload))), pl_patch = PStr (json_dumps (PDict patch)),
      pl_receipt = PStr (json_dumps (plan_receipt path version b a logical_id patch payload))\<rparr>
    = Inr (sorted_dict patch, sorted_dict payload)"
proof -
  let ?receipt = "plan_receipt path version b a logical_id patch payload"
  note rec = receipt_material_exact [OF pm exact]
  have sorted_exact: "json_exact (PDict (sorted_dict payload))" "json_exact (PDict (sorted_dict patch))"
    using json_exact_sorted [OF exact(1)] json_exact_sorted [OF exact(2)] by (simp_all add: sorted_keys_dict)
  have same_text: "json_dumps (PDict (sorted_dict payload)) = json_dumps (PDict payload)" "json_dumps (PDict (sorted_dict patch)) = json_dumps (PDict patch)"
    using dumps_sorted [OF exact(1)] dumps_sorted [OF exact(2)] by (simp_all add: sorted_keys_dict)
  have interval: "vsub (sorted_keys ?receipt) ''interval'' = Inr (PDict (sorted_dict payload))" "is_dict (sorted_keys ?receipt)"
    using vsub_sorted [of ?receipt "''interval''" "PDict payload"] rec(2)
    by (auto simp: plan_receipt_def sorted_keys_dict dsub_def simp del: json_exact.simps)
  have scope: "dget payload ''account_scope_sha256'' = PStr (the_str (dget payload ''account_scope_sha256''))"
    "dget (sorted_dict payload) ''account_scope_sha256'' = dget payload ''account_scope_sha256''"
    using payload_material_Inr(3) [OF pm, of "''account_scope_sha256''"] sorted_facts(1) [OF exact(1)] by (auto simp: interval_fields_def)
  have again: "receipt_material (PStr path) (PStr version) (PStr b) (PStr a) (sorted_dict patch) (sorted_dict payload)
      = Inr (plan_receipt path version b a logical_id (sorted_dict patch) (sorted_dict payload))"
    using receipt_material_exact(1) [OF payload_sorted [OF pm exact(1)] sorted_exact] .
  have "json_dumps (plan_receipt path version b a logical_id (sorted_dict patch) (sorted_dict payload)) = json_dumps ?receipt"
    unfolding plan_receipt_def same_text by (rule dumps_last [of _ _ "[_, _, _, _]", simplified append.simps]) (rule same_text)
  moreover have "canonical_json (plan_receipt path version b a logical_id (sorted_dict patch) (sorted_dict payload))
      = Inr (json_dumps (plan_receipt path version b a logical_id (sorted_dict patch) (sorted_dict payload)))"
    using receipt_material_exact(2) [OF payload_sorted [OF pm exact(1)] sorted_exact] by (rule canonical_exact)
  ultimately have expected: "canonical_json (plan_receipt path version b a logical_id (sorted_dict patch) (sorted_dict payload)) = Inr (json_dumps ?receipt)"
    by simp
  note l = look [unfolded patch_lookups_def]
  have loads: "text_loads (PStr (json_dumps (PDict patch))) = Inr (PDict (sorted_dict patch))"
    "text_loads (PStr (json_dumps ?receipt)) = Inr (sorted_keys ?receipt)"
    using loads_exact [OF exact(2)] loads_exact [OF rec(2)] by (simp_all add: sorted_keys_dict)
  have canon: "canonical_json (PDict (sorted_dict patch)) = Inr (json_dumps (PDict patch))"
    "material_digest (PDict (sorted_dict payload)) = Inr (sha256 (json_dumps (PDict payload)))"
    using canonical_exact [OF sorted_exact(2)] digest_exact(1) [OF sorted_exact(1)] same_text by simp_all
  have ks: "keys_are (sorted_dict patch) patch_fields" using sorted_facts(3) [OF exact(2)] keys by blast
  have "py_eq (PStr (the_str (dget payload ''account_scope_sha256''))) (PStr (the_str (dget payload ''account_scope_sha256'')))" by simp
  then have refl: "py_eq (dget payload ''account_scope_sha256'') (dget payload ''account_scope_sha256'')"
    by (simp only: scope(1) [symmetric])
  show ?thesis
    unfolding plan_bindings_def receipt_plan.simps path loads
    using l scope(1)
    by (simp add: refl path ks interval canon version hex is_hex64_def payload_sorted [OF pm exact(1)] scope(2) again expected
        del: json_dumps.simps)
qed


text \<open>A day of one asset, from a settled ledger to the next.\<close>

definition sample_stamp :: string where "sample_stamp = ''2024-01-02T00:00:00+00:00''"

definition sample_scope :: string where "sample_scope = replicate 64 (CHR ''a'')"

definition sample_ledger :: "string \<Rightarrow> pydict" where
  "sample_ledger moment =
     [(''earn_accrual_checkpoint'', PDict [(''account_scope_sha256'', PStr sample_scope),
        (''execution_authority_granted'', PBool False), (''observed_at'', PStr moment), (''assets'', PDict [(''USDT'', PNone)])]),
      (''external_cash_flow_cursor'', PDict [(''observed_at'', PStr moment)]),
      (''earn_accounted_net_changes'', PDict [(''USDT'', PStr ''0'')]),
      (''last_balance_snapshot'', PDict [(''USDT'', PFloat (Fin 7))]),
      (''daily_external_principal_usdt'', PFloat (Fin 1)),
      (''order_submission'', PDict [(''state'', PStr ''TERMINAL'')])]"

definition sample_interval :: pydict where
  "sample_interval =
     [(''account_scope_sha256'', PStr sample_scope), (''start_at'', PStr ''2024-01-01T00:00:00Z''),
      (''end_at'', PStr sample_stamp), (''end_equity_usdt'', PStr ''7.5''), (''net_external_cash_flow'', PStr ''-0.25''),
      (''currency'', PStr ''USDT''), (''valuation_basis'', PStr receipt_basis)]"

lemma sample_instants:
  "receipt_time (PStr ''2024-01-01T00:00:00Z'') = Inr (DT (738885 * us_per_day) (Some 0))"
  "receipt_time (PStr sample_stamp) = Inr (DT (738886 * us_per_day) (Some 0))"
  by code_simp+

lemma sample_quantities:
  "receipt_amount True (PStr ''7.5'') = Inr (Dec False 75 (- 1))" "receipt_amount False (PStr ''-0.25'') = Inr (Dec True 25 (- 2))"
  by code_simp+

lemma sample_constants:
  "hex64 sample_scope" "validate_path (PStr ''strategy/LEDGER'') = Inr ()"
  "dt_date (DT (738886 * us_per_day) (Some 0)) = (2024, 1, 2)" "dt_in_range (738886 * us_per_day)"
  by code_simp+

lemma sample_exact: "json_exact (PDict (sample_ledger moment))" "json_exact (PDict sample_interval)"
  using fl_Fin_representable [OF fl_1] fl_Fin_representable [OF fl_numeral, of "num.Bit1 (num.Bit1 num.One)"]
  by (simp_all add: sample_ledger_def sample_interval_def)

lemma sample_payload:
  "\<exists>logical_id. payload_material (PDict sample_interval)
     = Inr (sample_interval, DT (738885 * us_per_day) (Some 0), DT (738886 * us_per_day) (Some 0), logical_id)"
  using sample_instants sample_quantities sample_constants(1)
  by (simp add: payload_material_def sample_interval_def keys_are_def interval_fields_def material_digest_def canonical_json_def
      dt_day_def us_per_day_def)

lemma sample_transition:
  "check_transition sample_scope (DT (738885 * us_per_day) (Some 0)) (DT (738886 * us_per_day) (Some 0))
     (sample_ledger ''2024-01-01T00:00:00Z'') (sample_ledger sample_stamp) = Inr ()"
  using sample_instants by (simp add: check_transition_def sample_ledger_def vsub2_def dsub_def same_instant_def keys_equal_def keys_are_def
      zero_changes_def field_changed_def canonical_json_def patch_fields_def)

lemma sample_plan:
  "\<exists>plan. build_interval_receipt_plan (PStr ''strategy/LEDGER'') (Stamp (DT (738886 * us_per_day) (Some 0)) (PInt 0))
     (PDict (sample_ledger ''2024-01-01T00:00:00Z'')) (PDict (sample_ledger sample_stamp)) (PDict sample_interval) = Inr plan"
proof -
  obtain logical_id where pm: "payload_material (PDict sample_interval)
     = Inr (sample_interval, DT (738885 * us_per_day) (Some 0), DT (738886 * us_per_day) (Some 0), logical_id)"
    using sample_payload by blast
  have scope: "dget sample_interval ''account_scope_sha256'' = PStr sample_scope" by (simp add: sample_interval_def)
  have version: "exact_version (Stamp (DT (738886 * us_per_day) (Some 0)) (PInt 0))
      = Inr (stamp_text (DT (738886 * us_per_day) (Some 0)) 0)"
    by (simp add: exact_version_def stamp_nanos_def stamp_micro_def us_per_day_def us_per_second_def)
  have patched: "dupdate (sample_ledger ''2024-01-01T00:00:00Z'') (plan_patch (sample_ledger sample_stamp)) = sample_ledger sample_stamp"
    by (simp add: dupdate_def plan_patch_def patch_fields_def sample_ledger_def dset_def)
  have plain: "json_plain (PDict (sample_ledger m))" "json_plain (PDict sample_interval)" "json_plain (PDict (plan_patch (sample_ledger m)))" for m
    by (simp_all add: sample_ledger_def sample_interval_def plan_patch_def patch_fields_def)
  show ?thesis
    using pm plain
    by (simp add: build_interval_receipt_plan_def sample_constants scope sample_transition version patched canonical_json_def
        material_digest_def receipt_material_def Let_def del: json_dumps.simps)
qed


end
