(* ===== verification/Store_Session.thy ===== *)
theory Store_Session
  imports Interval_Receipt Py_Effect
begin

text \<open>
  \<open>BoundTradeStateAccess\<close> of \<open>live_services.py\<close>, the owned session through which the trade state is
  loaded and saved, and \<open>persist_interval_source_receipt\<close>, which runs over its transactions. A session
  keeps the last version it saw; every write is one transaction that re-reads owner and source, and
  every write is read back. Any failure latches the session shut.

  The Firestore client, the normalizer and other threads are the environment: each answer may depend
  on the whole history. \<open>sv_revoked\<close> is whether another thread has called \<open>invalidate\<close>, or overlapped
  this operation (which poisons the session too), by the time the lock is taken.
\<close>

section \<open>The client\<close>

datatype doc = LedgerDoc | OwnerDoc | ReceiptDoc string

text \<open>The attributes of a document reference or a transaction; objects are told apart by a number.\<close>

record reference =
  rf_client :: "nat option"
  rf_path :: string
  rf_document_path :: pyval

record transaction =
  tx_client :: "nat option"
  tx_attempts :: pyval

record snapshot =
  sn_exists :: bool
  sn_dict :: pyval
  sn_time :: stamp

datatype staged_write = SetDoc doc pyval | CreateDoc doc pyval | UpdateDoc doc pydict | DeleteDoc doc

datatype event =
    Polled bool
  | Opened bool "pyexc + transaction"
  | Began "pyexc + bool"
  | Fetched doc "pyexc + snapshot"
  | Staged staged_write "pyexc + unit"
  | Committed "staged_write list" "pyexc + unit"
  | RolledBack "pyexc + unit"
  | OwnerCreated string "pyexc + bool"
  | Normalized pyval "pyexc + pyval"
  | Defaulted "pyexc + pyval"

type_synonym log = "event list"

text \<open>\<open>sv_owner_create\<close> is false for \<open>AlreadyExists\<close>; \<open>sv_begin\<close> tells whether a transaction id came back.\<close>

record service =
  sv_revoked :: "log \<Rightarrow> bool"
  sv_database :: "log \<Rightarrow> pyval"
  sv_native :: "log \<Rightarrow> doc \<Rightarrow> reference"
  sv_transaction :: "log \<Rightarrow> bool \<Rightarrow> pyexc + transaction"
  sv_begin :: "log \<Rightarrow> pyexc + bool"
  sv_get :: "log \<Rightarrow> doc \<Rightarrow> pyexc + snapshot"
  sv_stage :: "log \<Rightarrow> staged_write \<Rightarrow> pyexc + unit"
  sv_commit :: "log \<Rightarrow> staged_write list \<Rightarrow> pyexc + unit"
  sv_rollback :: "log \<Rightarrow> pyexc + unit"
  sv_owner_create :: "log \<Rightarrow> string \<Rightarrow> pyexc + bool"
  sv_normalize :: "log \<Rightarrow> pyval \<Rightarrow> pyexc + pyval"
  sv_default :: "log \<Rightarrow> pyexc + pyval"

text \<open>
  The session. \<open>ss_staged\<close> is what the open transaction has staged, \<open>ss_phase\<close> the counter of the
  receipt runner; \<open>ss_source\<close> is \<open>None\<close> or a dictionary.
\<close>

record session =
  ss_client :: "nat option"
  ss_database :: pyval
  ss_ledger :: reference
  ss_owner :: reference
  ss_receipts :: bool
  ss_owner_id :: string
  ss_source :: pyval
  ss_version :: "stamp option"
  ss_loaded :: bool
  ss_invalid :: bool
  ss_busy :: bool
  ss_staged :: "staged_write list"
  ss_phase :: nat
  ss_log :: log

type_synonym 'a op = "(session, 'a) eff"

definition ask :: "(log \<Rightarrow> pyexc + 'a) \<Rightarrow> ((pyexc + 'a) \<Rightarrow> event) \<Rightarrow> 'a op" where
  "ask answer event = (\<lambda>s. (answer (ss_log s), s\<lparr>ss_log := ss_log s @ [event (answer (ss_log s))]\<rparr>))"

section \<open>The lock\<close>

text \<open>Taking the lock: what other threads did to the latch becomes visible.\<close>

definition lock :: "service \<Rightarrow> unit op" where
  "lock sv = update (\<lambda>s. s\<lparr>ss_invalid := ss_invalid s \<or> sv_revoked sv (ss_log s), ss_log := ss_log s @ [Polled (sv_revoked sv (ss_log s))]\<rparr>)"

definition active :: "service \<Rightarrow> bool op" where
  "active sv = bind (lock sv) (\<lambda>_. gets (\<lambda>s. ss_owner_id s \<noteq> [] \<and> \<not> ss_invalid s \<and> \<not> ss_busy s))"

definition ensure_active :: "service \<Rightarrow> unit op" where
  "ensure_active sv = bind (active sv) (\<lambda>b. raise_if (\<not> b) (SessionBlocked ''state_session_inactive''))"

definition invalidate :: "service \<Rightarrow> unit op" where
  "invalidate sv = bind (lock sv) (\<lambda>_. update (\<lambda>s. s\<lparr>ss_invalid := True\<rparr>))"

definition check_locked :: "unit op" where
  "check_locked = bind (gets (\<lambda>s. ss_invalid s \<or> \<not> ss_busy s)) (\<lambda>bad. raise_if bad (SessionUncertain ''state_session_invalidated''))"

definition check_operation :: "service \<Rightarrow> unit op" where
  "check_operation sv = bind (lock sv) (\<lambda>_. check_locked)"

definition admit :: "service \<Rightarrow> bool \<Rightarrow> unit op" where
  "admit sv claiming =
     bind (lock sv) (\<lambda>_. bind (gets id) (\<lambda>s.
     if ss_busy s then bind (update (\<lambda>s. s\<lparr>ss_invalid := True\<rparr>)) (\<lambda>_. throw (SessionBlocked ''state_session_busy''))
     else bind (raise_if (ss_invalid s \<or> (claiming \<and> ss_owner_id s \<noteq> []))
         (SessionBlocked (if claiming then ''state_session_claim_unavailable'' else ''state_session_inactive''))) (\<lambda>_.
       bind (raise_if (\<not> claiming \<and> ss_owner_id s = []) (SessionBlocked ''state_session_inactive'')) (\<lambda>_.
       update (\<lambda>s. s\<lparr>ss_busy := True\<rparr>)))))"

text \<open>\<open>with self._operation(...)\<close>: the body between admission and completion, or poisoning.\<close>

definition operation :: "service \<Rightarrow> bool \<Rightarrow> bool \<Rightarrow> 'a op \<Rightarrow> 'a op" where
  "operation sv claiming closing body =
     bind (admit sv claiming) (\<lambda>_.
     handle (bind body (\<lambda>r. bind (lock sv) (\<lambda>_. bind check_locked (\<lambda>_.
         bind (update (\<lambda>s. s\<lparr>ss_invalid := ss_invalid s \<or> closing, ss_busy := False\<rparr>)) (\<lambda>_. ret r)))))
       (\<lambda>e. bind (invalidate sv) (\<lambda>_. bind (lock sv) (\<lambda>_. bind (update (\<lambda>s. s\<lparr>ss_busy := False\<rparr>)) (\<lambda>_. throw e)))))"

definition publish_source :: "service \<Rightarrow> pyval \<Rightarrow> stamp option \<Rightarrow> bool \<Rightarrow> unit op" where
  "publish_source sv raw version loaded =
     bind (check_operation sv) (\<lambda>_.
     update (\<lambda>s. s\<lparr>ss_source := raw, ss_version := version, ss_loaded := ss_loaded s \<or> loaded\<rparr>))"

section \<open>Backend identity\<close>

definition database_shape :: "string \<Rightarrow> bool" where
  "database_shape s = (case split_slash s of
     [a, b, c, d] \<Rightarrow> a = ''projects'' \<and> b \<noteq> [] \<and> c = ''databases'' \<and> d \<noteq> [] | _ \<Rightarrow> False)"

definition reference_matches :: "nat option \<Rightarrow> string \<Rightarrow> reference \<Rightarrow> bool" where
  "reference_matches client database r =
     (rf_client r = client \<and> rf_document_path r = PStr (database @ ''/documents/'' @ rf_path r))"

text \<open>\<open>_same_backend\<close>; \<open>live\<close> is \<open>bound_client._database_string\<close> now.\<close>

definition same_backend :: "nat option \<Rightarrow> pyval \<Rightarrow> pyval \<Rightarrow> reference list \<Rightarrow> transaction option \<Rightarrow> pyexc + unit" where
  "same_backend client live database refs tx =
     bindE (ensure (client \<noteq> None \<and> is_str database \<and> database_shape (the_str database) \<and> live = database
         \<and> (case tx of None \<Rightarrow> True | Some t \<Rightarrow> tx_client t = client)) (blocked ''backend_mismatch'')) (\<lambda>_.
     bindE (ensure (list_all (reference_matches client (the_str database)) refs) (blocked ''backend_mismatch'')) (\<lambda>_.
     ensure (case tx of None \<Rightarrow> True | Some t \<Rightarrow> tx_attempts t = PInt 1) (blocked ''transaction_attempts_invalid'')))"

definition check_backend :: "service \<Rightarrow> reference list \<Rightarrow> transaction option \<Rightarrow> unit op" where
  "check_backend sv refs tx =
     bind (gets id) (\<lambda>s. liftE (same_backend (ss_client s) (sv_database sv (ss_log s)) (ss_database s) refs tx))"

text \<open>\<open>_BoundReference.get\<close>: the native reference must still be the one the view was made of.\<close>

definition bound_get :: "service \<Rightarrow> reference \<Rightarrow> doc \<Rightarrow> transaction \<Rightarrow> snapshot op" where
  "bound_get sv view d tx =
     bind (gets id) (\<lambda>s.
     let native = sv_native sv (ss_log s) d; live = sv_database sv (ss_log s) in
     bind (liftE (same_backend (rf_client view) live live [native] (Some tx))) (\<lambda>_.
     bind (raise_if (rf_path native \<noteq> rf_path view \<or> rf_document_path native \<noteq> rf_document_path view)
       (SessionBlocked ''state_session_reference_changed'')) (\<lambda>_.
     ask (\<lambda>h. sv_get sv h d) (Fetched d))))"

section \<open>One transaction\<close>

definition stage_write :: "service \<Rightarrow> staged_write \<Rightarrow> unit op" where
  "stage_write sv w = bind (ask (\<lambda>h. sv_stage sv h w) (Staged w)) (\<lambda>_. update (\<lambda>s. s\<lparr>ss_staged := ss_staged s @ [w]\<rparr>))"

definition clean_up :: "unit op" where
  "clean_up = update (\<lambda>s. s\<lparr>ss_staged := []\<rparr>)"

text \<open>
  The transaction after its begin: a failure up to the commit is followed by a rollback whose own
  failure is ignored; with nothing staged the rollback is the regular end.
\<close>

definition rollback_quietly :: "service \<Rightarrow> unit op" where
  "rollback_quietly sv = handle (ask (sv_rollback sv) RolledBack) (\<lambda>_. ret ())"

definition in_transaction :: "service \<Rightarrow> bool \<Rightarrow> transaction \<Rightarrow> (transaction \<Rightarrow> 'a op) \<Rightarrow> 'a op" where
  "in_transaction sv read_only tx callback =
     attempt
       (bind (check_operation sv) (\<lambda>_. bind (callback tx) (\<lambda>r. bind (check_operation sv) (\<lambda>_.
        bind (gets ss_staged) (\<lambda>ws.
        bind (raise_if (ws \<noteq> [] \<and> read_only) (SessionBlocked ''state_session_read_only_write'')) (\<lambda>_.
        bind (whenM (ws \<noteq> []) (ask (\<lambda>h. sv_commit sv h ws) (Committed ws))) (\<lambda>_. ret (r, ws))))))))
       (\<lambda>e. bind (rollback_quietly sv) (\<lambda>_. bind clean_up (\<lambda>_. throw e)))
       (\<lambda>(r, ws).
         handle (bind (whenM (ws = []) (ask (sv_rollback sv) RolledBack)) (\<lambda>_. bind clean_up (\<lambda>_.
             bind (check_operation sv) (\<lambda>_. ret r))))
           (\<lambda>e. bind clean_up (\<lambda>_. throw e)))"

definition run_transaction :: "service \<Rightarrow> bool \<Rightarrow> (transaction \<Rightarrow> 'a op) \<Rightarrow> 'a op" where
  "run_transaction sv read_only callback =
     bind (check_operation sv) (\<lambda>_.
     bind (ask (\<lambda>h. sv_transaction sv h read_only) (Opened read_only)) (\<lambda>tx.
     bind (gets (\<lambda>s. [ss_ledger s, ss_owner s])) (\<lambda>refs.
     bind (check_backend sv refs (Some tx)) (\<lambda>_.
     handle
       (bind (ask (sv_begin sv) Began) (\<lambda>begun.
        bind (raise_if (\<not> begun) (SessionUncertain ''state_session_begin_uncertain'')) (\<lambda>_.
        in_transaction sv read_only tx callback)))
       (\<lambda>e. bind clean_up (\<lambda>_. throw e))))))"

definition owner_record :: "string \<Rightarrow> pyval" where
  "owner_record owner = PDict [(''owner_id'', PStr owner)]"

definition read_owned :: "service \<Rightarrow> transaction \<Rightarrow> (pyval \<times> stamp option) op" where
  "read_owned sv tx =
     bind (gets id) (\<lambda>s.
     bind (bound_get sv (ss_owner s) OwnerDoc tx) (\<lambda>owner.
     bind (bound_get sv (ss_ledger s) LedgerDoc tx) (\<lambda>ledger.
     bind (raise_if (\<not> sn_exists owner \<or> \<not> py_eq (sn_dict owner) (owner_record (ss_owner_id s)))
       (SessionBlocked ''state_session_owner_changed'')) (\<lambda>_.
     let raw = (if sn_exists ledger then sn_dict ledger else PNone);
         version = (if sn_exists ledger then Some (sn_time ledger) else None)
     in bind (raise_if (raw \<noteq> PNone \<and> \<not> is_dict raw) (SessionBlocked ''state_session_source_invalid'')) (\<lambda>_.
        bind (whenM (sn_exists ledger)
          (bind (liftE (exact_version (sn_time ledger))) (\<lambda>_. bind (liftE (material_digest raw)) (\<lambda>_. ret ())))) (\<lambda>_.
        ret (raw, version)))))))"

definition version_text :: "stamp option \<Rightarrow> pyexc + string option" where
  "version_text v = (case v of None \<Rightarrow> Inr None | Some t \<Rightarrow> bindE (exact_version t) (\<lambda>s. Inr (Some s)))"

definition matches_source :: "pyval \<Rightarrow> stamp option \<Rightarrow> bool op" where
  "matches_source raw version =
     bind (gets id) (\<lambda>s.
     bind (liftE (version_text version)) (\<lambda>a. bind (liftE (version_text (ss_version s))) (\<lambda>b.
     if a \<noteq> b then ret False
     else bind (liftE (canonical_json raw)) (\<lambda>x. bind (liftE (canonical_json (ss_source s))) (\<lambda>y. ret (x = y))))))"

section \<open>Persisting an interval receipt\<close>

definition receipt_reads :: "service \<Rightarrow> reference \<Rightarrow> reference \<Rightarrow> reference \<Rightarrow> string \<Rightarrow> string \<Rightarrow> transaction
    \<Rightarrow> (snapshot \<times> snapshot) op" where
  "receipt_reads sv ledger_ref owner_ref receipt_ref receipt_name owner_id tx =
     bind (bound_get sv owner_ref OwnerDoc tx) (\<lambda>owner.
     bind (bound_get sv ledger_ref LedgerDoc tx) (\<lambda>ledger.
     bind (bound_get sv receipt_ref (ReceiptDoc receipt_name) tx) (\<lambda>receipt.
     bind (raise_if (\<not> sn_exists owner \<or> \<not> is_dict (sn_dict owner)
         \<or> \<not> py_eq (dget (the_dict (sn_dict owner)) ''owner_id'') (PStr owner_id) \<or> \<not> sn_exists ledger)
       (blocked ''owner_or_ledger_changed'')) (\<lambda>_.
     ret (ledger, receipt)))))"

definition patch_of :: "pyval \<Rightarrow> pyexc + pyval" where
  "patch_of v = bindE (mapE (\<lambda>k. bindE (vsub v k) (\<lambda>x. Inr (k, x))) patch_fields) (\<lambda>d. Inr (PDict d))"

text \<open>The stage callback on what it read: a replay, or the regenerated plan to create and patch.\<close>

definition replay_check :: "receipt_plan \<Rightarrow> snapshot \<Rightarrow> snapshot \<Rightarrow> pyexc + unit" where
  "replay_check plan ledger receipt =
     bindE (canonical_json (sn_dict receipt)) (\<lambda>r.
     bindE (ensure (PStr r = pl_receipt plan) (IntervalConflict ''interval_receipt_existing_conflict'')) (\<lambda>_.
     bindE (material_digest (sn_dict ledger)) (\<lambda>d.
     bindE (ensure (PStr d = pl_after plan) (blocked ''replay_poststate_unverified'')) (\<lambda>_.
     bindE (bindE (patch_of (sn_dict ledger)) canonical_json) (\<lambda>p.
     ensure (PStr p = pl_patch plan) (blocked ''replay_patch_unverified''))))))"

definition create_check :: "receipt_plan \<Rightarrow> pydict \<Rightarrow> pydict \<Rightarrow> string \<Rightarrow> snapshot \<Rightarrow> pyexc + pyval" where
  "create_check plan patch payload expected ledger =
     bindE (if PStr expected \<noteq> pl_source_version plan then Inl (blocked ''ledger_source_changed'')
       else bindE (material_digest (sn_dict ledger)) (\<lambda>d. ensure (PStr d = pl_before plan) (blocked ''ledger_source_changed''))) (\<lambda>_.
     case sn_dict ledger of
       PDict actual \<Rightarrow>
         bindE (build_interval_receipt_plan (pl_ledger_path plan) (sn_time ledger) (PDict actual) (PDict (dupdate actual patch)) (PDict payload)) (\<lambda>again.
         bindE (ensure (again = plan) (blocked ''plan_source_mismatch'')) (\<lambda>_.
         text_loads (pl_receipt plan)))
     | _ \<Rightarrow> Inl TypeError)"

definition receipt_stage :: "service \<Rightarrow> (transaction \<Rightarrow> (snapshot \<times> snapshot) op) \<Rightarrow> reference list \<Rightarrow> pyval \<Rightarrow> string
    \<Rightarrow> receipt_plan \<Rightarrow> pydict \<Rightarrow> pydict \<Rightarrow> string \<Rightarrow> transaction \<Rightarrow> pyval op" where
  "receipt_stage sv fetch refs database receipt_name plan patch payload expected tx =
     bind (gets id) (\<lambda>s.
     bind (liftE (same_backend (ss_client s) (sv_database sv (ss_log s)) database refs (Some tx))) (\<lambda>_.
     bind (fetch tx) (\<lambda>(ledger, receipt).
     bind (liftE (exact_version (sn_time ledger))) (\<lambda>version.
     bind (raise_if (version \<noteq> expected) (blocked ''ledger_version_changed'')) (\<lambda>_.
     if sn_exists receipt then bind (liftE (replay_check plan ledger receipt)) (\<lambda>_. ret (PStr ''identical''))
     else bind (liftE (create_check plan patch payload expected ledger)) (\<lambda>document.
       bind (stage_write sv (CreateDoc (ReceiptDoc receipt_name) document)) (\<lambda>_.
       bind (stage_write sv (UpdateDoc LedgerDoc patch)) (\<lambda>_. ret (PStr ''created'')))))))))"

definition receipt_readback :: "service \<Rightarrow> (transaction \<Rightarrow> (snapshot \<times> snapshot) op) \<Rightarrow> reference list \<Rightarrow> pyval
    \<Rightarrow> receipt_plan \<Rightarrow> transaction \<Rightarrow> pyval op" where
  "receipt_readback sv fetch refs database plan tx =
     bind (gets id) (\<lambda>s.
     bind (liftE (same_backend (ss_client s) (sv_database sv (ss_log s)) database refs (Some tx))) (\<lambda>_.
     bind (fetch tx) (\<lambda>(ledger, receipt).
     bind (raise_if (\<not> sn_exists receipt) (blocked ''readback_mismatch'')) (\<lambda>_.
     bind (liftE (canonical_json (sn_dict receipt))) (\<lambda>r.
     bind (raise_if (PStr r \<noteq> pl_receipt plan) (blocked ''readback_mismatch'')) (\<lambda>_.
     bind (liftE (material_digest (sn_dict ledger))) (\<lambda>d.
     bind (raise_if (PStr d \<noteq> pl_after plan) (blocked ''readback_mismatch'')) (\<lambda>_.
     ret (PBool True)))))))))"

definition is_interval_blocked :: "pyexc \<Rightarrow> bool" where
  "is_interval_blocked e = (case e of IntervalBlocked _ \<Rightarrow> True | IntervalConflict _ \<Rightarrow> True | _ \<Rightarrow> False)"

definition persist_interval_source_receipt :: "service \<Rightarrow> ((transaction \<Rightarrow> pyval op) \<Rightarrow> pyval op) \<Rightarrow> reference \<Rightarrow> reference
    \<Rightarrow> string \<Rightarrow> stamp \<Rightarrow> receipt_plan \<Rightarrow> pyval op" where
  "persist_interval_source_receipt sv runner ledger_ref owner_ref owner_id update_time plan =
     bind (raise_if (owner_id = [] \<or> owner_id \<noteq> strip owner_id \<or> PStr (rf_path ledger_ref) \<noteq> pl_ledger_path plan
         \<or> rf_path owner_ref \<noteq> rf_path ledger_ref @ ''__owner'') (blocked ''reference_or_owner_invalid'')) (\<lambda>_.
     bind (liftE (validate_plan plan)) (\<lambda>(patch, payload).
     bind (liftE (exact_version update_time)) (\<lambda>expected.
     bind (gets (\<lambda>s. sv_database sv (ss_log s))) (\<lambda>database.
     bind (gets ss_client) (\<lambda>client.
     bind (liftE (same_backend client database database [ledger_ref, owner_ref] None)) (\<lambda>_.
     let receipt_name = last (split_slash (the_str (pl_receipt_path plan))) in
     bind (gets (\<lambda>s. sv_native sv (ss_log s) (ReceiptDoc receipt_name))) (\<lambda>receipt_ref.
     bind (raise_if (PStr (rf_path receipt_ref) \<noteq> pl_receipt_path plan) (blocked ''reference_invalid'')) (\<lambda>_.
     let refs = [ledger_ref, owner_ref, receipt_ref];
         fetch = receipt_reads sv ledger_ref owner_ref receipt_ref receipt_name owner_id in
     bind (liftE (same_backend client database database refs None)) (\<lambda>_.
     bind (handle
         (bind (runner (receipt_stage sv fetch refs database receipt_name plan patch payload expected)) (\<lambda>mode.
          bind (raise_if (mode \<noteq> PStr ''created'' \<and> mode \<noteq> PStr ''identical'') (IntervalUncertain ''interval_receipt_commit_uncertain'')) (\<lambda>_.
          ret mode)))
         (\<lambda>e. throw (if is_interval_blocked e then e else IntervalUncertain ''interval_receipt_commit_uncertain''))) (\<lambda>mode.
     bind (handle
         (bind (runner (receipt_readback sv fetch refs database plan)) (\<lambda>ok.
          raise_if (ok \<noteq> PBool True) (IntervalUncertain ''interval_receipt_readback_uncertain'')))
         (\<lambda>e. throw (IntervalUncertain ''interval_receipt_readback_uncertain''))) (\<lambda>_.
     ret (PDict [(''status'', PStr ''source_receipt_readback_verified''), (''write_mode'', mode),
       (''receipt_path'', pl_receipt_path plan), (''payload_sha256'', pl_payload plan),
       (''performance_delivery_acknowledged'', PBool False)]))))))))))))"

section \<open>The operations of a session\<close>

text \<open>\<open>BoundTradeStateAccess.__init__\<close>; the flag is a boolean, so its type check is the type.\<close>

definition new_session :: "service \<Rightarrow> nat option \<Rightarrow> bool \<Rightarrow> pyexc + session" where
  "new_session sv client receipts =
     (let database = sv_database sv []; ledger = sv_native sv [] LedgerDoc; owner = sv_native sv [] OwnerDoc
      in bindE (same_backend client database database [ledger, owner] None) (\<lambda>_.
         Inr \<lparr>ss_client = client, ss_database = database, ss_ledger = ledger, ss_owner = owner, ss_receipts = receipts,
           ss_owner_id = [], ss_source = PNone, ss_version = None, ss_loaded = False, ss_invalid = False, ss_busy = False,
           ss_staged = [], ss_phase = 0, ss_log = []\<rparr>))"

definition valid_owner :: "string \<Rightarrow> unit op" where
  "valid_owner owner = raise_if (owner = [] \<or> owner \<noteq> strip owner) (ValueError ''state_owner_required'')"

definition natives :: "service \<Rightarrow> reference list op" where
  "natives sv = gets (\<lambda>s. [sv_native sv (ss_log s) LedgerDoc, sv_native sv (ss_log s) OwnerDoc])"

definition claim :: "service \<Rightarrow> string \<Rightarrow> bool op" where
  "claim sv owner =
     bind (valid_owner owner) (\<lambda>_.
     operation sv True False
       (bind (handle
          (bind (natives sv) (\<lambda>refs. bind (check_backend sv refs None) (\<lambda>_.
           ask (\<lambda>h. sv_owner_create sv h owner) (OwnerCreated owner))))
          (\<lambda>e. throw (SessionUncertain ''state_session_claim_uncertain''))) (\<lambda>created.
        if \<not> created then ret False
        else bind (check_operation sv) (\<lambda>_. bind (update (\<lambda>s. s\<lparr>ss_owner_id := owner\<rparr>)) (\<lambda>_. ret True)))))"

definition normalized :: "service \<Rightarrow> pyval \<Rightarrow> pyval op" where
  "normalized sv v = ask (\<lambda>h. sv_normalize sv h v) (Normalized v)"

definition checkpoint_fields :: "string list" where
  "checkpoint_fields = [''earn_accrual_checkpoint'', ''external_cash_flow_cursor'']"

definition load :: "service \<Rightarrow> bool \<Rightarrow> pyval op" where
  "load sv normalizing =
     operation sv False False
       (bind (gets ss_loaded) (\<lambda>loaded.
        bind (raise_if loaded (SessionBlocked ''state_session_reload_forbidden'')) (\<lambda>_.
        handle
          (bind (run_transaction sv True (read_owned sv)) (\<lambda>(raw, version).
           bind (gets ss_receipts) (\<lambda>receipts.
           bind (raise_if (receipts \<and> (raw = PNone \<or> \<not> list_all (dhas (the_dict raw)) checkpoint_fields))
             (SessionBlocked ''state_session_checkpoint_required'')) (\<lambda>_.
           bind (if raw \<noteq> PNone \<and> normalizing then normalized sv raw
                 else if normalizing then ask (sv_default sv) Defaulted
                 else ret (if truthy raw then raw else PDict [])) (\<lambda>output.
           bind (publish_source sv raw version True) (\<lambda>_. ret output))))))
          (\<lambda>e. throw (SessionUncertain ''state_session_load_uncertain'')))))"

definition readback :: "service \<Rightarrow> pyval \<Rightarrow> (pyval \<times> stamp option) op" where
  "readback sv intended =
     bind (run_transaction sv True (read_owned sv)) (\<lambda>(raw, version).
     bind (raise_if (raw = PNone) (SessionUncertain ''state_session_readback_mismatch'')) (\<lambda>_.
     bind (liftE (canonical_json raw)) (\<lambda>a. bind (liftE (canonical_json intended)) (\<lambda>b.
     bind (raise_if (a \<noteq> b) (SessionUncertain ''state_session_readback_mismatch'')) (\<lambda>_.
     bind (gets id) (\<lambda>s.
     case ss_version s of
       None \<Rightarrow> ret (raw, version)
     | Some was \<Rightarrow>
         bind (liftE (exact_version (case version of Some v \<Rightarrow> v | None \<Rightarrow> NoTime))) (\<lambda>actual.
         bind (liftE (exact_version was)) (\<lambda>previous.
         bind (liftE (canonical_json (ss_source s))) (\<lambda>source.
         bind (raise_if (actual < previous \<or> (actual = previous \<and> b \<noteq> source))
           (SessionUncertain ''state_session_readback_version_invalid'')) (\<lambda>_. ret (raw, version)))))))))))"

text \<open>\<open>{k: v for k, v in d.items() if k not in _PATCH_FIELDS}\<close>.\<close>

definition unpatched :: "pydict \<Rightarrow> pyval" where
  "unpatched d = PDict (filter (\<lambda>p. fst p \<notin> set patch_fields) d)"

definition receipt_runner :: "service \<Rightarrow> (transaction \<Rightarrow> pyval op) \<Rightarrow> pyval op" where
  "receipt_runner sv callback =
     bind (update (\<lambda>s. s\<lparr>ss_phase := ss_phase s + 1\<rparr>)) (\<lambda>_.
     bind (gets ss_phase) (\<lambda>phase.
     bind (raise_if (2 < phase) (SessionBlocked ''state_session_receipt_runner_reused'')) (\<lambda>_.
     run_transaction sv (phase = 2) callback)))"

text \<open>The write of \<open>save\<close>: with an interval through a receipt, else the whole state under the same version.\<close>

definition save_interval :: "service \<Rightarrow> pydict \<Rightarrow> pyval \<Rightarrow> pyval op" where
  "save_interval sv state interval =
     bind (gets id) (\<lambda>s.
     bind (raise_if (\<not> ss_receipts s \<or> ss_source s = PNone) (SessionBlocked ''state_session_receipt_unavailable'')) (\<lambda>_.
     let source = the_dict (ss_source s) in
     bind (normalized sv (PDict source)) (\<lambda>before_val.
     bind (liftE (case before_val of PDict d \<Rightarrow> canonical_json (unpatched d) | _ \<Rightarrow> Inl AttributeError)) (\<lambda>a.
     bind (liftE (canonical_json (unpatched state))) (\<lambda>b.
     bind (raise_if (a \<noteq> b) (SessionBlocked ''state_session_forward_fields_changed'')) (\<lambda>_.
     bind (liftE (mapE (\<lambda>k. bindE (dsub state k) (\<lambda>v. Inr (k, v))) patch_fields)) (\<lambda>patch.
     let intended = PDict (dupdate source patch) in
     bind (liftE (build_interval_receipt_plan (PStr (rf_path (ss_ledger s))) (case ss_version s of Some v \<Rightarrow> v | None \<Rightarrow> NoTime)
         (PDict source) intended interval)) (\<lambda>plan.
     bind (update (\<lambda>s. s\<lparr>ss_phase := 0\<rparr>)) (\<lambda>_.
     bind (persist_interval_source_receipt sv (receipt_runner sv) (ss_ledger s) (ss_owner s) (ss_owner_id s)
         (case ss_version s of Some v \<Rightarrow> v | None \<Rightarrow> NoTime) plan) (\<lambda>_.
     ret intended))))))))))"

definition stage_state :: "service \<Rightarrow> pyval \<Rightarrow> transaction \<Rightarrow> unit op" where
  "stage_state sv intended tx =
     bind (read_owned sv tx) (\<lambda>(raw, version).
     bind (matches_source raw version) (\<lambda>same.
     bind (raise_if (\<not> same) (SessionBlocked ''state_session_source_changed'')) (\<lambda>_.
     stage_write sv (SetDoc LedgerDoc intended))))"

definition save_state :: "service \<Rightarrow> pydict \<Rightarrow> pyval op" where
  "save_state sv state =
     bind (gets id) (\<lambda>s.
     let source = the_dict (ss_source s); intended = PDict (dupdate source state) in
     bind (whenM (ss_receipts s)
       (bind (liftE (mapE (\<lambda>k. bindE (canonical_json (dget source k)) (\<lambda>a. bindE (canonical_json (dget state k)) (\<lambda>b.
            ensure (a = b) (SessionBlocked ''state_session_checkpoint_requires_receipt'')))) checkpoint_fields)) (\<lambda>_. ret ()))) (\<lambda>_.
     bind (run_transaction sv False (stage_state sv intended)) (\<lambda>_. ret intended)))"

definition is_session_blocked :: "pyexc \<Rightarrow> bool" where
  "is_session_blocked e = (case e of SessionBlocked _ \<Rightarrow> True | _ \<Rightarrow> False)"

definition save :: "service \<Rightarrow> pyval \<Rightarrow> pyval \<Rightarrow> bool op" where
  "save sv data interval =
     operation sv False False
       (bind (gets ss_loaded) (\<lambda>loaded.
        bind (raise_if (\<not> loaded) (SessionBlocked ''state_session_source_required'')) (\<lambda>_.
        handle
          (bind (normalized sv data) (\<lambda>state.
           bind (raise_if (\<not> is_dict state) (SessionBlocked ''state_session_state_invalid'')) (\<lambda>_.
           bind (if interval \<noteq> PNone then save_interval sv (the_dict state) interval else save_state sv (the_dict state)) (\<lambda>intended.
           bind (readback sv intended) (\<lambda>(raw, version).
           bind (publish_source sv raw version False) (\<lambda>_. ret True))))))
          (\<lambda>e. throw (if is_session_blocked e then e else SessionUncertain ''state_session_write_uncertain'')))))"

definition stage_release :: "service \<Rightarrow> string \<Rightarrow> transaction \<Rightarrow> unit op" where
  "stage_release sv owner tx =
     bind (gets id) (\<lambda>s.
     bind (if ss_loaded s then
         bind (read_owned sv tx) (\<lambda>(raw, version).
         bind (matches_source raw version) (\<lambda>same.
         raise_if (\<not> same) (SessionBlocked ''state_session_source_changed'')))
       else bind (bound_get sv (ss_owner s) OwnerDoc tx) (\<lambda>snap.
         raise_if (\<not> sn_exists snap \<or> \<not> py_eq (sn_dict snap) (owner_record owner)) (SessionBlocked ''state_session_owner_changed''))) (\<lambda>_.
     stage_write sv (DeleteDoc OwnerDoc)))"

definition release :: "service \<Rightarrow> string \<Rightarrow> bool op" where
  "release sv owner =
     bind (valid_owner owner) (\<lambda>_.
     operation sv False True
       (bind (gets ss_owner_id) (\<lambda>held.
        bind (raise_if (owner \<noteq> held) (SessionBlocked ''state_session_owner_changed'')) (\<lambda>_.
        handle (bind (run_transaction sv False (stage_release sv owner)) (\<lambda>_. ret True))
          (\<lambda>e. throw (SessionUncertain ''state_session_release_uncertain''))))))"

end
