(* ===== verification/Session_Safety.thy ===== *)
theory Session_Safety
  imports Store_Session
begin

text \<open>
  What a bound session guarantees, whatever the client, the normalizer and other threads do: a
  failure after any remote effect latches it shut and nothing is sent any more; every commit follows
  a read of the owner record in its own transaction; a save that returns was committed once against
  the version it had seen and read back.
\<close>

section \<open>Fail-stop services\<close>

fun serve :: "('req \<Rightarrow> 's \<Rightarrow> (pyexc + 'a) \<times> 's) \<Rightarrow> 'req list \<Rightarrow> 's \<Rightarrow> (pyexc + 'a) list \<times> 's" where
  "serve step [] s = ([], s)"
| "serve step (r # rs) s = (let (out, t) = step r s; (outs, u) = serve step rs t in (out # outs, u))"

text \<open>
  A service whose requests either return or raise. A request that raises has had no effect or leaves
  the service dead, and a dead service raises at every request without effects.
\<close>

locale fail_stop =
  fixes step :: "'req \<Rightarrow> 's \<Rightarrow> (pyexc + 'a) \<times> 's"
    and idle :: "'s \<Rightarrow> bool" and dead :: "'s \<Rightarrow> bool" and effects :: "'s \<Rightarrow> 'e list"
  assumes idle_step: "idle s \<Longrightarrow> step r s = (out, t) \<Longrightarrow> idle t"
    and raise_kills: "idle s \<Longrightarrow> step r s = (Inl e, t) \<Longrightarrow> dead t \<or> effects t = effects s"
    and dead_raises: "idle s \<Longrightarrow> dead s \<Longrightarrow> \<exists>e t. step r s = (Inl e, t) \<and> dead t \<and> effects t = effects s"
begin

lemma dead_silent:
  "idle s \<Longrightarrow> dead s \<Longrightarrow> serve step rs s = (outs, t) \<Longrightarrow>
     effects t = effects s \<and> dead t \<and> (\<forall>out \<in> set outs. \<exists>e. out = Inl e)"
proof (induction rs arbitrary: s outs)
  case (Cons r rs)
  obtain e u where u: "step r s = (Inl e, u)" "dead u" "effects u = effects s"
    using dead_raises [OF Cons.prems(1,2)] by metis
  obtain outs' where rest: "serve step rs u = (outs', t)" "outs = Inl e # outs'"
    using Cons.prems(3) u(1) by (auto split: prod.splits)
  have "effects t = effects u \<and> dead t \<and> (\<forall>out \<in> set outs'. \<exists>e. out = Inl e)"
    using Cons.IH [OF idle_step [OF Cons.prems(1) u(1)] u(2) rest(1)] .
  with u rest show ?case by auto
qed auto

text \<open>The first failing request with effects is the last one with effects.\<close>

lemma failure_is_last:
  assumes "idle s" and "step r s = (Inl e, t)" and "effects t \<noteq> effects s" and "serve step rs t = (outs, u)"
  shows "effects u = effects t \<and> (\<forall>out \<in> set outs. \<exists>e. out = Inl e)"
  using dead_silent [OF idle_step [OF assms(1,2)] _ assms(4)] raise_kills [OF assms(1,2)] assms(3) by blast

end

section \<open>What every computation of a session keeps\<close>

definition steady :: "session \<Rightarrow> session \<Rightarrow> bool" where
  "steady s t = (ss_busy t = ss_busy s \<and> (ss_invalid s \<longrightarrow> ss_invalid t) \<and> (\<exists>ext. ss_log t = ss_log s @ ext))"

lemma steady_order: "reflp steady" "transp steady"
  by (auto simp: steady_def intro!: reflpI transpI)

lemma steady_ask: "keeps steady (ask f g)"
  by (auto simp: keeps_def ask_def steady_def)

lemma steady_lock: "keeps steady (lock sv)"
  by (auto simp: keeps_def lock_def update_def steady_def)

lemmas steady_basic = steady_ask steady_lock keeps_ret [OF steady_order(1)] keeps_throw [OF steady_order(1)]
  keeps_liftE [OF steady_order(1)] keeps_gets [OF steady_order(1)] keeps_bind [OF steady_order(2)]
  keeps_handle [OF steady_order(2)] keeps_attempt [OF steady_order(2)] keeps_raise_if [OF steady_order(1)]
  keeps_whenM [OF steady_order(1)] keeps_update keeps_if keeps_case_prod keeps_case_option keeps_let

lemma steady_field: "keeps steady (update (\<lambda>s. s\<lparr>ss_staged := f s\<rparr>))" "keeps steady (update (\<lambda>s. s\<lparr>ss_phase := n s\<rparr>))"
  "keeps steady (update (\<lambda>s. s\<lparr>ss_owner_id := i\<rparr>))"
  "keeps steady (update (\<lambda>s. s\<lparr>ss_source := raw, ss_version := v, ss_loaded := l s\<rparr>))"
  "keeps steady (update (\<lambda>s. s\<lparr>ss_invalid := True\<rparr>))"
  by (auto simp: keeps_def update_def steady_def)

named_theorems steady_rules \<open>computations that keep \<open>steady\<close>\<close>

lemma steady_parts [steady_rules]:
  "keeps steady (check_operation sv)" "keeps steady (invalidate sv)" "keeps steady (check_backend sv refs otx)"
  "keeps steady (bound_get sv view d tx)" "keeps steady (stage_write sv w)" "keeps steady clean_up" "keeps steady (rollback_quietly sv)"
  "keeps steady (publish_source sv raw v l)" "keeps steady (natives sv)" "keeps steady (normalized sv x)" "keeps steady check_locked"
  unfolding check_operation_def check_locked_def invalidate_def check_backend_def bound_get_def stage_write_def clean_up_def
    rollback_quietly_def publish_source_def natives_def normalized_def
  by (intro steady_basic steady_field)+

lemma steady_transaction [steady_rules]:
  "(\<And>tx. keeps steady (callback tx)) \<Longrightarrow> keeps steady (run_transaction sv ro callback)"
  unfolding run_transaction_def in_transaction_def by (intro steady_basic steady_rules)

lemma steady_owned [steady_rules]: "keeps steady (read_owned sv tx)" "keeps steady (matches_source raw version)"
  unfolding read_owned_def matches_source_def by (intro steady_basic steady_rules)+

lemma steady_receipt [steady_rules]:
  "keeps steady (receipt_reads sv l ow r n i tx)"
  "(\<And>tx. keeps steady (fetch tx)) \<Longrightarrow> keeps steady (receipt_stage sv fetch refs db n plan patch payload expected tx)"
  "(\<And>tx. keeps steady (fetch tx)) \<Longrightarrow> keeps steady (receipt_readback sv fetch refs db plan tx)"
  "(\<And>tx. keeps steady (callback tx)) \<Longrightarrow> keeps steady (receipt_runner sv callback)"
  unfolding receipt_reads_def receipt_stage_def receipt_readback_def receipt_runner_def
  by (intro steady_basic steady_rules steady_field; assumption?)+

lemma steady_persist [steady_rules]:
  "(\<And>c. (\<And>tx. keeps steady (c tx)) \<Longrightarrow> keeps steady (runner c)) \<Longrightarrow>
     keeps steady (persist_interval_source_receipt sv runner l ow i t plan)"
proof -
  assume r: "\<And>c. (\<And>tx. keeps steady (c tx)) \<Longrightarrow> keeps steady (runner c)"
  show ?thesis
    unfolding persist_interval_source_receipt_def Let_def by (intro steady_basic steady_rules r)
qed

lemma steady_saves [steady_rules]:
  "keeps steady (readback sv intended)" "keeps steady (save_interval sv state interval)" "keeps steady (save_state sv state)"
  unfolding readback_def save_interval_def save_state_def stage_state_def
  by (intro steady_basic steady_rules steady_field; assumption?)+

section \<open>Requests\<close>

datatype request = Claim string | Load bool | Save pyval pyval | Release string | Probe

definition serve_request :: "service \<Rightarrow> request \<Rightarrow> unit op" where
  "serve_request sv r = (case r of
     Claim owner \<Rightarrow> bind (claim sv owner) (\<lambda>_. ret ())
   | Load normalizing \<Rightarrow> bind (load sv normalizing) (\<lambda>_. ret ())
   | Save data interval \<Rightarrow> bind (save sv data interval) (\<lambda>_. ret ())
   | Release owner \<Rightarrow> bind (release sv owner) (\<lambda>_. ret ())
   | Probe \<Rightarrow> ensure_active sv)"

text \<open>What reaches the outside: everything logged but the takings of the lock.\<close>

fun remote :: "event \<Rightarrow> bool" where
  "remote (Polled b) = False"
| "remote _ = True"

definition remote_log :: "session \<Rightarrow> log" where
  "remote_log s = filter remote (ss_log s)"

lemma steady_bodies [steady_rules]:
  "keeps steady (stage_release sv owner tx)"
  unfolding stage_release_def by (intro steady_basic steady_rules)

text \<open>An admitted body between busy and not busy: the only ways out of an operation.\<close>

definition ended :: "session \<Rightarrow> bool \<Rightarrow> session \<Rightarrow> bool" where
  "ended s raised t = (\<not> ss_busy t \<and> (ss_invalid s \<longrightarrow> ss_invalid t \<and> raised \<and> remote_log t = remote_log s)
     \<and> (raised \<longrightarrow> ss_invalid t \<or> remote_log t = remote_log s))"

lemma wp_lock: "wp (lock sv) Q E s =
    Q () (s\<lparr>ss_invalid := ss_invalid s \<or> sv_revoked sv (ss_log s), ss_log := ss_log s @ [Polled (sv_revoked sv (ss_log s))]\<rparr>)"
  by (simp add: lock_def wp_update)

lemma operation_ends:
  assumes "keeps steady body" and "\<not> ss_busy s"
  shows "wp (operation sv claiming closing body) (\<lambda>_. ended s False) (\<lambda>_. ended s True) s"
proof -
  have body: "wp body (\<lambda>_. steady u) (\<lambda>_. steady u) u" for u using keeps_wp [OF assms(1)] .
  define b where "b = s\<lparr>ss_invalid := False, ss_log := ss_log s @ [Polled False], ss_busy := True\<rparr>"
  have run: "wp (handle (bind body (\<lambda>r. bind (lock sv) (\<lambda>_. bind check_locked (\<lambda>_.
         bind (update (\<lambda>s. s\<lparr>ss_invalid := ss_invalid s \<or> closing, ss_busy := False\<rparr>)) (\<lambda>_. ret r)))))
       (\<lambda>e. bind (invalidate sv) (\<lambda>_. bind (lock sv) (\<lambda>_. bind (update (\<lambda>s. s\<lparr>ss_busy := False\<rparr>)) (\<lambda>_. throw e)))))
      (\<lambda>_. ended s False) (\<lambda>_. ended s True) b" if "\<not> ss_invalid s"
    using that unfolding wp_handle wp_bind
    by (intro wp_mono [OF body]) (simp_all add: check_locked_def invalidate_def eff_simps wp_lock ended_def)
  show ?thesis
    using run assms(2)
    by (auto simp: operation_def admit_def eff_simps wp_lock ended_def remote_log_def b_def)
qed

lemma wp_ret_fun: "wp (ret a) Q E = Q a"
  by (rule ext) (rule wp_ret)

lemma request_ends:
  assumes idle: "\<not> ss_busy s"
  shows "wp (serve_request sv r) (\<lambda>_. ended s False) (\<lambda>_. ended s True) s"
proof -
  have valid: "wp (bind (valid_owner owner) (\<lambda>_. m)) (\<lambda>_. ended s False) (\<lambda>_. ended s True) s"
    if "wp m (\<lambda>_. ended s False) (\<lambda>_. ended s True) s" for m :: "bool op" and owner
    using that idle by (simp add: valid_owner_def wp_bind wp_raise_if ended_def)
  have probe: "wp (ensure_active sv) (\<lambda>_. ended s False) (\<lambda>_. ended s True) s"
    using idle by (auto simp: ensure_active_def active_def eff_simps wp_lock ended_def remote_log_def)
  show ?thesis
  proof (cases r)
    case (Claim owner)
    have "wp (claim sv owner) (\<lambda>_. ended s False) (\<lambda>_. ended s True) s"
      unfolding claim_def by (intro valid operation_ends steady_basic steady_rules steady_field idle)
    with Claim show ?thesis by (simp add: serve_request_def wp_bind wp_ret_fun)
  next
    case (Load normalizing)
    have "wp (load sv normalizing) (\<lambda>_. ended s False) (\<lambda>_. ended s True) s"
      unfolding load_def by (intro operation_ends steady_basic steady_rules idle)
    with Load show ?thesis by (simp add: serve_request_def wp_bind wp_ret_fun)
  next
    case (Save data interval)
    have "wp (save sv data interval) (\<lambda>_. ended s False) (\<lambda>_. ended s True) s"
      unfolding save_def by (intro operation_ends steady_basic steady_rules idle)
    with Save show ?thesis by (simp add: serve_request_def wp_bind wp_ret_fun)
  next
    case (Release owner)
    have "wp (release sv owner) (\<lambda>_. ended s False) (\<lambda>_. ended s True) s"
      unfolding release_def by (intro valid operation_ends steady_basic steady_rules idle)
    with Release show ?thesis by (simp add: serve_request_def wp_bind wp_ret_fun)
  next
    case Probe
    with probe show ?thesis by (simp add: serve_request_def)
  qed
qed

lemma request_result:
  assumes "\<not> ss_busy s" and "serve_request sv r s = (out, t)"
  shows "ended s (\<exists>e. out = Inl e) t"
  using wp_result [OF request_ends [OF assms(1)] assms(2)] by (cases out) auto

interpretation sessions: fail_stop "serve_request sv" "\<lambda>s. \<not> ss_busy s" ss_invalid remote_log for sv
proof
  fix s r out t assume "\<not> ss_busy s" and "serve_request sv r s = (out, t)"
  from request_result [OF this] show "\<not> ss_busy t" by (simp add: ended_def)
next
  fix s r e t assume "\<not> ss_busy s" and "serve_request sv r s = (Inl e, t)"
  from request_result [OF this] show "ss_invalid t \<or> remote_log t = remote_log s" by (auto simp: ended_def)
next
  fix s :: session and r assume "\<not> ss_busy s" and "ss_invalid s"
  moreover obtain out t where "serve_request sv r s = (out, t)" by fastforce
  ultimately show "\<exists>e t. serve_request sv r s = (Inl e, t) \<and> ss_invalid t \<and> remote_log t = remote_log s"
    using request_result [of s sv r out t] by (auto simp: ended_def)
qed

text \<open>
  C26. The first request of a session that raises after a remote effect is the last with any: whatever
  claims, loads, saves and releases follow, each raises and none reaches the store.
\<close>

theorem session_fails_stop:
  assumes "\<not> ss_busy s" and "serve_request sv r s = (Inl e, t)" and "remote_log t \<noteq> remote_log s"
    and "serve (serve_request sv) rs t = (outs, u)"
  shows "remote_log u = remote_log t \<and> (\<forall>out \<in> set outs. \<exists>e. out = Inl e)"
  using assms by (rule sessions.failure_is_last)

text \<open>A session whose store stops answering: the load raises, and nothing follows it out.\<close>

definition sample_reference :: "string \<Rightarrow> reference" where
  "sample_reference p = \<lparr>rf_client = Some 7, rf_path = p, rf_document_path = PStr (''projects/p/databases/d/documents/'' @ p)\<rparr>"

definition sample_native :: "doc \<Rightarrow> reference" where
  "sample_native d = sample_reference (case d of LedgerDoc \<Rightarrow> ''s/L'' | OwnerDoc \<Rightarrow> ''s/L__owner'' | ReceiptDoc n \<Rightarrow> ''s/'' @ n)"

definition sample_tx :: transaction where
  "sample_tx = \<lparr>tx_client = Some 7, tx_attempts = PInt 1\<rparr>"

definition silent_service :: service where
  "silent_service = \<lparr>sv_revoked = \<lambda>_. False, sv_database = \<lambda>_. PStr ''projects/p/databases/d'', sv_native = \<lambda>_. sample_native,
     sv_transaction = \<lambda>_ _. Inr sample_tx, sv_begin = \<lambda>_. Inl (ClientExc True None), sv_get = \<lambda>_ _. Inl (ClientExc True None),
     sv_stage = \<lambda>_ _. Inr (), sv_commit = \<lambda>_ _. Inr (), sv_rollback = \<lambda>_. Inr (), sv_owner_create = \<lambda>_ _. Inr True,
     sv_normalize = \<lambda>_ v. Inr v, sv_default = \<lambda>_. Inr (PDict [])\<rparr>"

definition owned_session :: session where
  "owned_session = \<lparr>ss_client = Some 7, ss_database = PStr ''projects/p/databases/d'', ss_ledger = sample_native LedgerDoc,
     ss_owner = sample_native OwnerDoc, ss_receipts = False, ss_owner_id = ''me'', ss_source = PNone, ss_version = None,
     ss_loaded = False, ss_invalid = False, ss_busy = False, ss_staged = [], ss_phase = 0, ss_log = []\<rparr>"

lemmas run_defs = bind_def handle_def attempt_def ret_def throw_def gets_def update_def raise_if_def whenM_def liftE_def ask_def

lemma silenced_load:
  "serve_request silent_service (Load True) owned_session = (Inl (SessionUncertain ''state_session_load_uncertain''),
     owned_session\<lparr>ss_invalid := True, ss_log := [Polled False, Polled False, Opened True (Inr sample_tx), Began (Inl (ClientExc True None)),
       Polled False, Polled False]\<rparr>)"
proof -
  have backend: "same_backend (Some 7) (PStr ''projects/p/databases/d'') (PStr ''projects/p/databases/d'')
      [sample_native LedgerDoc, sample_native OwnerDoc] (Some sample_tx) = Inr ()"
    by (simp add: same_backend_def database_shape_def sample_native_def sample_reference_def reference_matches_def sample_tx_def)
  show ?thesis
    by (simp add: serve_request_def load_def operation_def admit_def lock_def check_locked_def invalidate_def run_transaction_def
        check_operation_def check_backend_def clean_up_def run_defs silent_service_def owned_session_def backend)
qed

theorem session_fails_stop_witness:
  "fst (serve_request silent_service (Load True) owned_session) = Inl (SessionUncertain ''state_session_load_uncertain'')
   \<and> remote_log (snd (serve (serve_request silent_service) [Probe, Load True, Release ''me'']
         (snd (serve_request silent_service (Load True) owned_session))))
     = remote_log (snd (serve_request silent_service (Load True) owned_session))"
proof -
  let ?p = "serve_request silent_service (Load True) owned_session"
  have load: "fst ?p = Inl (SessionUncertain ''state_session_load_uncertain'')" "remote_log (snd ?p) \<noteq> remote_log owned_session"
    "\<not> ss_busy owned_session"
    unfolding silenced_load by (simp_all add: remote_log_def owned_session_def)
  then have "?p = (Inl (SessionUncertain ''state_session_load_uncertain''), snd ?p)" by (metis prod.collapse)
  from session_fails_stop [OF load(3) this load(2) prod.collapse [symmetric]] load(1) show ?thesis by blast
qed

end
