(* ===== verification/Session_Commits.thy ===== *)
theory Session_Commits
  imports Session_Safety
begin

text \<open>
  The protocol a returning save follows on the wire, call by call, and what every commit of a session
  is preceded by.
\<close>

section \<open>What a returning step has done\<close>

lemma returned_ask [returned]:
  "ask f g s = (Inr a, t) \<longleftrightarrow> f (ss_log s) = Inr a \<and> t = s\<lparr>ss_log := ss_log s @ [g (Inr a)]\<rparr>"
  by (auto simp: ask_def)

text \<open>The parts of a session only \<open>claim\<close> and \<open>publish_source\<close> change.\<close>

definition core :: "session \<Rightarrow> nat option \<times> pyval \<times> reference \<times> reference \<times> bool \<times> string \<times> pyval \<times> stamp option \<times> bool" where
  "core s = (ss_client s, ss_database s, ss_ledger s, ss_owner s, ss_receipts s, ss_owner_id s, ss_source s, ss_version s, ss_loaded s)"

definition went :: "log \<Rightarrow> session \<Rightarrow> session \<Rightarrow> bool" where
  "went es s t = (remote_log t = remote_log s @ es \<and> core t = core s \<and> ss_busy t = ss_busy s)"

lemma went_trans: "went es s t \<Longrightarrow> went fs t u \<Longrightarrow> went (es @ fs) s u"
  by (simp add: went_def)

lemma went_event: "remote e \<Longrightarrow> went [e] s (s\<lparr>ss_log := ss_log s @ [e]\<rparr>)"
  by (simp add: went_def remote_log_def core_def)

lemma check_returned: "check_operation sv s = (Inr u, t) \<Longrightarrow> went [] s t \<and> ss_staged t = ss_staged s \<and> \<not> ss_invalid t"
  by (auto simp: check_operation_def check_locked_def lock_def returned went_def remote_log_def core_def)

lemma get_returned:
  "bound_get sv view d tx s = (Inr snap, t) \<Longrightarrow> t = s\<lparr>ss_log := ss_log s @ [Fetched d (Inr snap)]\<rparr>"
  by (auto simp: bound_get_def returned Let_def)

definition owns :: "string \<Rightarrow> snapshot \<Rightarrow> bool" where
  "owns owner snap = (sn_exists snap \<and> py_eq (sn_dict snap) (owner_record owner))"

definition seen :: "snapshot \<Rightarrow> pyval" where
  "seen snap = (if sn_exists snap then sn_dict snap else PNone)"

definition seen_version :: "snapshot \<Rightarrow> stamp option" where
  "seen_version snap = (if sn_exists snap then Some (sn_time snap) else None)"

lemma owned_returned:
  assumes "read_owned sv tx s = (Inr (raw, version), t)"
  obtains ow le where "t = s\<lparr>ss_log := ss_log s @ [Fetched OwnerDoc (Inr ow), Fetched LedgerDoc (Inr le)]\<rparr>"
    and "owns (ss_owner_id s) ow" and "raw = seen le" and "version = seen_version le"
  using assms by (auto simp: read_owned_def returned Let_def owns_def seen_def seen_version_def dest!: get_returned split: if_splits)

lemma returned_clean [returned]: "clean_up s = (Inr u, t) \<longleftrightarrow> t = s\<lparr>ss_staged := []\<rparr>"
  by (simp add: clean_up_def returned)

definition final_event :: "staged_write list \<Rightarrow> event" where
  "final_event ws = (if ws = [] then RolledBack (Inr ()) else Committed ws (Inr ()))"

lemma in_transaction_steps:
  assumes "in_transaction sv ro tx callback b = (Inr r, t)"
  shows "\<exists>c d e. check_operation sv b = (Inr (), c) \<and> callback tx c = (Inr r, d) \<and> check_operation sv d = (Inr (), e)
    \<and> (ss_staged e \<noteq> [] \<longrightarrow> \<not> ro)
    \<and> check_operation sv (e\<lparr>ss_log := ss_log e @ [final_event (ss_staged e)], ss_staged := []\<rparr>) = (Inr (), t)"
proof -
  have h: "raises (\<lambda>e. bind (rollback_quietly sv) (\<lambda>_. bind clean_up (\<lambda>_. throw e)))" by (intro raises_seq raises_bind)
  have "\<exists>c d e f x i j k. check_operation sv b = (Inr i, c) \<and> callback tx c = (Inr x, d) \<and> check_operation sv d = (Inr j, e)
    \<and> \<not> (ss_staged e \<noteq> [] \<and> ro)
    \<and> whenM (ss_staged e \<noteq> []) (ask (\<lambda>h. sv_commit sv h (ss_staged e)) (Committed (ss_staged e))) e = (Inr k, f)
    \<and> handle (bind (whenM (ss_staged e = []) (ask (sv_rollback sv) RolledBack)) (\<lambda>_. bind clean_up (\<lambda>_.
             bind (check_operation sv) (\<lambda>_. ret x)))) (\<lambda>e. bind clean_up (\<lambda>_. throw e)) f = (Inr r, t)"
    using assms unfolding in_transaction_def returned_attempt [OF h] returned_bind returned_basic
    by (elim exE conjE) (hypsubst, unfold prod.case, intro exI conjI; assumption)
  then obtain c d e f x where c: "check_operation sv b = (Inr (), c)" "callback tx c = (Inr x, d)" "check_operation sv d = (Inr (), e)"
    "\<not> (ss_staged e \<noteq> [] \<and> ro)"
    and f: "whenM (ss_staged e \<noteq> []) (ask (\<lambda>h. sv_commit sv h (ss_staged e)) (Committed (ss_staged e))) e = (Inr (), f)"
    and t: "handle (bind (whenM (ss_staged e = []) (ask (sv_rollback sv) RolledBack)) (\<lambda>_. bind clean_up (\<lambda>_.
             bind (check_operation sv) (\<lambda>_. ret x)))) (\<lambda>e. bind clean_up (\<lambda>_. throw e)) f = (Inr r, t)"
    by auto
  have "x = r \<and> check_operation sv (e\<lparr>ss_log := ss_log e @ [final_event (ss_staged e)], ss_staged := []\<rparr>) = (Inr (), t)"
    using f t by (cases "ss_staged e = []") (auto simp: returned returned_handle raises_bind final_event_def)
  with c show ?thesis by blast
qed

lemma transaction_steps:
  assumes "run_transaction sv ro callback s = (Inr r, t)"
  shows "\<exists>a tx. check_operation sv s = (Inr (), a)
    \<and> in_transaction sv ro tx callback (a\<lparr>ss_log := ss_log a @ [Opened ro (Inr tx), Began (Inr True)]\<rparr>) = (Inr r, t)"
  using assms by (auto simp: run_transaction_def check_backend_def returned returned_handle raises_bind)

lemma transaction_returned:
  assumes "run_transaction sv ro callback s = (Inr r, t)" and "ss_staged s = []"
  obtains tx c d where "went [Opened ro (Inr tx), Began (Inr True)] s c" and "ss_staged c = []" and "callback tx c = (Inr r, d)"
    and "\<And>es. went es c d \<Longrightarrow> went ([Opened ro (Inr tx), Began (Inr True)] @ es @ [final_event (ss_staged d)]) s t"
    and "ss_staged d \<noteq> [] \<longrightarrow> \<not> ro" and "ss_staged t = []" and "\<not> ss_invalid t"
proof -
  obtain a tx where a: "check_operation sv s = (Inr (), a)"
    and tr: "in_transaction sv ro tx callback (a\<lparr>ss_log := ss_log a @ [Opened ro (Inr tx), Began (Inr True)]\<rparr>) = (Inr r, t)"
    using transaction_steps [OF assms(1)] by blast
  obtain c d e where c: "check_operation sv (a\<lparr>ss_log := ss_log a @ [Opened ro (Inr tx), Began (Inr True)]\<rparr>) = (Inr (), c)"
    and d: "callback tx c = (Inr r, d)" "check_operation sv d = (Inr (), e)" "ss_staged e \<noteq> [] \<longrightarrow> \<not> ro"
    and t: "check_operation sv (e\<lparr>ss_log := ss_log e @ [final_event (ss_staged e)], ss_staged := []\<rparr>) = (Inr (), t)"
    using in_transaction_steps [OF tr] by blast
  note A = check_returned [OF a] and C = check_returned [OF c] and D = check_returned [OF d(2)] and T = check_returned [OF t]
  have "went [Opened ro (Inr tx), Began (Inr True)] s c"
    using A C by (auto simp: went_def remote_log_def core_def)
  moreover have "went ([Opened ro (Inr tx), Began (Inr True)] @ es @ [final_event (ss_staged d)]) s t" if "went es c d" for es
    using that A C D T by (auto simp: went_def remote_log_def core_def final_event_def)
  ultimately show thesis
    using that [of tx c d] A C D T d assms(2) by simp
qed

lemma operation_returned:
  assumes "operation sv claiming closing body s = (Inr r, t)"
  obtains a b where "remote_log a = remote_log s" and "core a = core s" and "ss_staged a = ss_staged s" and "\<not> ss_invalid a" and "body a = (Inr r, b)"
    and "remote_log t = remote_log b" and "core t = core b" and "ss_invalid t = closing" and "\<not> ss_busy t"
proof -
  have h: "raises (\<lambda>e. bind (invalidate sv) (\<lambda>_. bind (lock sv) (\<lambda>_. bind (update (\<lambda>s. s\<lparr>ss_busy := False\<rparr>)) (\<lambda>_. throw e))))"
    by (intro raises_seq raises_bind)
  define a where "a = s\<lparr>ss_invalid := False, ss_log := ss_log s @ [Polled False], ss_busy := True\<rparr>"
  obtain b where b: "\<not> ss_invalid s" "body a = (Inr r, b)" "\<not> ss_invalid b"
      "t = b\<lparr>ss_log := ss_log b @ [Polled False], ss_invalid := closing, ss_busy := False\<rparr>"
    using assms unfolding operation_def admit_def returned returned_handle [OF h]
    by (auto simp: returned lock_def check_locked_def a_def split: if_splits)
  show thesis
    by (rule that [of a b]) (use b in \<open>simp_all add: a_def remote_log_def core_def\<close>)
qed

lemma publish_returned:
  assumes "publish_source sv raw v l s = (Inr u, t)"
  shows "remote_log t = remote_log s" "ss_source t = raw" "ss_version t = v"
  using assms by (auto simp: publish_source_def returned went_def remote_log_def dest!: check_returned)

text \<open>The version a session holds against the one just read: the same text of the time and the same JSON.\<close>

definition unchanged_since :: "session \<Rightarrow> snapshot \<Rightarrow> bool" where
  "unchanged_since s snap = (version_text (seen_version snap) = version_text (ss_version s)
     \<and> canonical_json (seen snap) = canonical_json (ss_source s))"

lemma matches_returned:
  "matches_source (seen snap) (seen_version snap) s = (Inr b, t) \<Longrightarrow> t = s \<and> (b \<longrightarrow> unchanged_since s snap)"
  by (auto simp: matches_source_def returned unchanged_since_def split: if_splits)

lemma staged_returned:
  "stage_write sv w s = (Inr u, t) \<Longrightarrow> t = s\<lparr>ss_log := ss_log s @ [Staged w (Inr ())], ss_staged := ss_staged s @ [w]\<rparr>"
  by (auto simp: stage_write_def returned)

lemma stage_state_returned:
  assumes "stage_state sv intended tx s = (Inr u, t)" and "ss_staged s = []"
  obtains ow le where "went [Fetched OwnerDoc (Inr ow), Fetched LedgerDoc (Inr le), Staged (SetDoc LedgerDoc intended) (Inr ())] s t"
    and "ss_staged t = [SetDoc LedgerDoc intended]" and "owns (ss_owner_id s) ow" and "unchanged_since s le"
proof -
  obtain raw version a where "read_owned sv tx s = (Inr (raw, version), a)"
    and m: "matches_source raw version a = (Inr True, a)" and w: "stage_write sv (SetDoc LedgerDoc intended) a = (Inr u, t)"
    using assms(1) by (auto simp: stage_state_def returned matches_source_def split: if_splits)
  then obtain ow le where a: "a = s\<lparr>ss_log := ss_log s @ [Fetched OwnerDoc (Inr ow), Fetched LedgerDoc (Inr le)]\<rparr>"
    and o: "owns (ss_owner_id s) ow" "raw = seen le" "version = seen_version le"
    using owned_returned by metis
  have "unchanged_since a le" using m o matches_returned by metis
  then show thesis
    using that [of ow le] o staged_returned [OF w] assms(2) a
    by (auto simp: unchanged_since_def went_def remote_log_def core_def)
qed

lemma readback_returned:
  assumes "readback sv intended s = (Inr (raw, version), t)" and "ss_staged s = []"
  obtains tx ow le where "went [Opened True (Inr tx), Began (Inr True), Fetched OwnerDoc (Inr ow), Fetched LedgerDoc (Inr le), RolledBack (Inr ())] s t"
    and "owns (ss_owner_id s) ow" and "sn_exists le" and "raw = sn_dict le" and "version = Some (sn_time le)"
    and "canonical_json raw = canonical_json intended" and "\<exists>j. canonical_json intended = Inr j"
proof -
  obtain a where run: "run_transaction sv True (read_owned sv) s = (Inr (raw, version), a)" and raw: "raw \<noteq> PNone"
    and j: "canonical_json raw = canonical_json intended" "\<exists>j. canonical_json intended = Inr j" and t: "t = a"
    using assms(1) by (auto simp: readback_def returned split: option.splits)
  obtain tx c d where c: "went [Opened True (Inr tx), Began (Inr True)] s c" "ss_staged c = []" "read_owned sv tx c = (Inr (raw, version), d)"
    and all: "\<And>es. went es c d \<Longrightarrow> went ([Opened True (Inr tx), Began (Inr True)] @ es @ [final_event (ss_staged d)]) s a"
    using transaction_returned [OF run assms(2)] by metis
  obtain ow le where d: "d = c\<lparr>ss_log := ss_log c @ [Fetched OwnerDoc (Inr ow), Fetched LedgerDoc (Inr le)]\<rparr>"
    and o: "owns (ss_owner_id c) ow" "raw = seen le" "version = seen_version le"
    using owned_returned [OF c(3)] by metis
  have "went [Fetched OwnerDoc (Inr ow), Fetched LedgerDoc (Inr le)] c d" by (simp add: d went_def remote_log_def core_def)
  from all [OF this] have "went [Opened True (Inr tx), Began (Inr True), Fetched OwnerDoc (Inr ow), Fetched LedgerDoc (Inr le), RolledBack (Inr ())] s t"
    using c(2) by (simp add: d t final_event_def)
  moreover have "sn_exists le" using raw o(2) by (auto simp: seen_def split: if_splits)
  ultimately show thesis
    using that [of tx ow le] o c(1) j by (simp add: went_def core_def seen_def seen_version_def)
qed

section \<open>A save that returns\<close>

lemma save_state_returned:
  assumes "save_state sv state s = (Inr intended, t)" and "ss_staged s = []"
  obtains tx ow le where "intended = PDict (dupdate (the_dict (ss_source s)) state)"
    and "went [Opened False (Inr tx), Began (Inr True), Fetched OwnerDoc (Inr ow), Fetched LedgerDoc (Inr le),
      Staged (SetDoc LedgerDoc intended) (Inr ()), Committed [SetDoc LedgerDoc intended] (Inr ())] s t"
    and "owns (ss_owner_id s) ow" and "unchanged_since s le" and "ss_staged t = []"
proof -
  have i: "intended = PDict (dupdate (the_dict (ss_source s)) state)"
    using assms(1) by (auto simp: save_state_def returned Let_def split: if_splits)
  obtain u where run: "run_transaction sv False (stage_state sv intended) s = (Inr u, t)"
    using assms(1) by (auto simp: save_state_def returned Let_def split: if_splits)
  obtain tx c d where c: "went [Opened False (Inr tx), Began (Inr True)] s c" "ss_staged c = []" "stage_state sv intended tx c = (Inr u, d)"
    and all: "\<And>es. went es c d \<Longrightarrow> went ([Opened False (Inr tx), Began (Inr True)] @ es @ [final_event (ss_staged d)]) s t"
    and t: "ss_staged t = []"
    using transaction_returned [OF run assms(2)] by metis
  obtain ow le where d: "went [Fetched OwnerDoc (Inr ow), Fetched LedgerDoc (Inr le), Staged (SetDoc LedgerDoc intended) (Inr ())] c d"
    and e: "ss_staged d = [SetDoc LedgerDoc intended]" "owns (ss_owner_id c) ow" "unchanged_since c le"
    using stage_state_returned [OF c(3,2)] by metis
  have "core c = core s" using c(1) by (simp add: went_def)
  then show thesis
    using that [of tx ow le] i all [OF d] e t by (simp add: final_event_def core_def unchanged_since_def)
qed


text \<open>The first save of a session whose ledger does not exist yet, against a store that keeps what is committed.\<close>

definition sample_state :: pyval where
  "sample_state = PDict [(''cash'', PInt 7)]"

definition kept_document :: "log \<Rightarrow> doc \<Rightarrow> snapshot" where
  "kept_document h d = (case d of
     OwnerDoc \<Rightarrow> \<lparr>sn_exists = True, sn_dict = owner_record ''me'', sn_time = Stamp (DT 0 (Some 0)) (PInt 0)\<rparr>
   | _ \<Rightarrow> \<lparr>sn_exists = Committed [SetDoc LedgerDoc sample_state] (Inr ()) \<in> set h, sn_dict = sample_state,
        sn_time = Stamp (DT 0 (Some 0)) (PInt 0)\<rparr>)"

definition keeping_service :: service where
  "keeping_service = silent_service\<lparr>sv_begin := \<lambda>_. Inr True, sv_get := \<lambda>h d. Inr (kept_document h d)\<rparr>"

definition fresh_session :: session where
  "fresh_session = owned_session\<lparr>ss_loaded := True\<rparr>"

lemma fresh_save: "fst (save keeping_service sample_state PNone fresh_session) = Inr True"
proof -
  have backend: "same_backend (Some 7) (PStr ''projects/p/databases/d'') (PStr ''projects/p/databases/d'')
      [sample_native LedgerDoc, sample_native OwnerDoc] (Some sample_tx) = Inr ()"
    by (simp add: same_backend_def database_shape_def sample_native_def sample_reference_def reference_matches_def sample_tx_def)
  have version: "exact_version (Stamp (DT 0 (Some 0)) (PInt 0)) = Inr (stamp_text (DT 0 (Some 0)) 0)"
    by (simp add: exact_version_def stamp_nanos_def stamp_micro_def us_per_day_def us_per_second_def)
  have plain: "json_plain sample_state" "canonical_json PNone = Inr (json_dumps PNone)" by (simp_all add: sample_state_def canonical_json_def)
  have read: "same_backend (Some 7) (PStr ''projects/p/databases/d'') (PStr ''projects/p/databases/d'') [sample_native d] (Some sample_tx) = Inr ()" if "d \<in> {LedgerDoc, OwnerDoc}" for d
    using that by (auto simp: same_backend_def database_shape_def sample_native_def sample_reference_def reference_matches_def sample_tx_def)
  have client: "rf_client (sample_native d) = Some 7" for d by (simp add: sample_native_def sample_reference_def)
  have digest: "material_digest sample_state = Inr (sha256 (json_dumps sample_state))"
    "canonical_json sample_state = Inr (json_dumps sample_state)"
    using plain by (simp_all add: material_digest_def canonical_json_def)
  have state: "PDict (dupdate [] (the_dict sample_state)) = sample_state" "is_dict sample_state" "sample_state \<noteq> PNone"
    "py_eq (owner_record ''me'') (owner_record ''me'')"
    by (simp_all add: sample_state_def dupdate_def dset_def owner_record_def)
  show ?thesis
    by (simp add: save_def operation_def admit_def lock_def check_locked_def invalidate_def run_transaction_def in_transaction_def
        check_operation_def check_backend_def clean_up_def run_defs keeping_service_def silent_service_def fresh_session_def owned_session_def backend
        normalized_def save_state_def stage_state_def read_owned_def bound_get_def read client matches_source_def readback_def publish_source_def
        kept_document_def version_text_def stage_write_def rollback_quietly_def version plain digest state Let_def)
qed


end
