(* ===== verification/Trend_Pool.thy ===== *)
theory Trend_Pool
  imports Trade_State Time_Text Json_Text
begin

text \<open>
  \<open>trend_pool_support.py\<close>, \<open>degraded_mode_support.py\<close>, \<open>application/trend_pool_service.py\<close> and
  \<open>strategy_artifact_support.py\<close>: the upstream trend pool, its contract, and the order in which a
  cycle falls back when the upstream document is not usable: the pool last accepted, a local file,
  the built-in universe.

  Texts are not modelled: a message is the key of its translation and the values in it, and
  \<open>render\<close> makes it the text that the state keeps. The document store, the file system and the
  process environment are arguments.
\<close>

section \<open>Settings\<close>

text \<open>\<open>s.split(c)\<close>.\<close>

fun split_at :: "char \<Rightarrow> string \<Rightarrow> string list" where
  "split_at c [] = [[]]"
| "split_at c (x # xs) = (if x = c then [] # split_at c xs
     else (case split_at c xs of p # ps \<Rightarrow> (x # p) # ps | [] \<Rightarrow> [[x]]))"

type_synonym process_env = "string \<Rightarrow> string option"

definition artifact_env :: "process_env \<Rightarrow> string \<Rightarrow> string" where
  "artifact_env getenv name = strip (case getenv name of Some s \<Rightarrow> s | None \<Rightarrow> [])"

definition artifact_int :: "process_env \<Rightarrow> string \<Rightarrow> int \<Rightarrow> int" where
  "artifact_int getenv name z =
     (let raw = artifact_env getenv name in if raw = [] then z else case int_parse raw of Inr i \<Rightarrow> i | Inl e \<Rightarrow> z)"

definition artifact_csv :: "process_env \<Rightarrow> string \<Rightarrow> string list \<Rightarrow> string list" where
  "artifact_csv getenv name zs =
     (let raw = artifact_env getenv name
      in if raw = [] then zs else filter (\<lambda>s. s \<noteq> []) (map strip (split_at (CHR '','') raw)))"

record pool_settings =
  tp_max_age :: int
  tp_modes :: "string list"
  tp_size :: int

definition get_trend_pool_contract_settings :: "process_env \<Rightarrow> int \<Rightarrow> string list \<Rightarrow> int \<Rightarrow> pool_settings" where
  "get_trend_pool_contract_settings getenv max_age modes expected =
     \<lparr>tp_max_age = max 0 (artifact_int getenv ''STRATEGY_ARTIFACT_MAX_AGE_DAYS'' max_age),
      tp_modes = artifact_csv getenv ''STRATEGY_ARTIFACT_ACCEPTABLE_MODES'' modes,
      tp_size = max 1 (artifact_int getenv ''STRATEGY_ARTIFACT_EXPECTED_SIZE'' expected)\<rparr>"

section \<open>Reading a payload\<close>

text \<open>
  \<open>strptime(s, '%Y-%m-%d').date()\<close>: a year of four digits, a month and a day of one or two digits,
  the day padded with a zero or a space.
\<close>

definition calendar_field :: "bool \<Rightarrow> string \<Rightarrow> int option" where
  "calendar_field blank s = (case s of
     [d] \<Rightarrow> if is_digit d then Some (int (digit_val d)) else None
   | [c, d] \<Rightarrow> if is_digit d \<and> is_digit c then Some (int (10 * digit_val c + digit_val d))
       else if is_digit d \<and> blank \<and> c = CHR '' '' then Some (int (digit_val d)) else None
   | _ \<Rightarrow> None)"

definition strptime_date :: "string \<Rightarrow> int option" where
  "strptime_date s =
     (let rest = drop 4 s; m = takeWhile (\<lambda>c. c \<noteq> CHR ''-'') (tl rest); d = dropWhile (\<lambda>c. c \<noteq> CHR ''-'') (tl rest)
      in if 4 \<le> length s \<and> list_all is_digit (take 4 s) \<and> rest \<noteq> [] \<and> hd rest = CHR ''-'' \<and> d \<noteq> []
         then (case (calendar_field False m, calendar_field True (tl d)) of
             (Some month, Some day) \<Rightarrow>
               let year = int (nat_of_digits (take 4 s)) in
               if valid_date year month day then Some (day_number year month day) else None
           | _ \<Rightarrow> None)
         else None)"

definition parse_trend_pool_date :: "pyval \<Rightarrow> int option" where
  "parse_trend_pool_date v = (case v of
     PStr s \<Rightarrow> if strip s = [] then None else strptime_date (take 10 s)
   | _ \<Rightarrow> None)"

text \<open>\<open>payload or {}\<close> before a \<open>get\<close>.\<close>

definition payload_fields :: "pyval \<Rightarrow> pyexc + pydict" where
  "payload_fields v = (case v of PDict d \<Rightarrow> Inr d | _ \<Rightarrow> if truthy v then Inl AttributeError else Inr [])"

definition is_container :: "pyval \<Rightarrow> bool" where
  "is_container v = (is_dict v \<or> is_list v)"

definition pool_entries :: "pydict \<Rightarrow> (pyval \<times> pyval) list" where
  "pool_entries d =
     (let symbols = (if is_container (dget d ''symbol_map'') then dget d ''symbol_map'' else dget d ''symbols'')
      in case symbols of
           PList xs \<Rightarrow> map (\<lambda>s. (s, PNone)) xs
         | PDict kvs \<Rightarrow> map (\<lambda>(k, v). (PStr k, v)) kvs
         | _ \<Rightarrow> [])"

type_synonym universe = "(string \<times> pydict) list"

definition base_meta :: "string \<Rightarrow> pydict" where
  "base_meta a = [(''base_asset'', PStr a)]"

text \<open>Metadata that is no dictionary stands for the inferred base asset, as an absent one does.\<close>

definition entry_base :: "string \<Rightarrow> pyval \<Rightarrow> string" where
  "entry_base symbol meta = strip (str_or (dget (the_dict meta) ''base_asset'') (infer_base_asset symbol))"

definition add_pool_symbol :: "universe \<Rightarrow> pyval \<times> pyval \<Rightarrow> universe" where
  "add_pool_symbol acc entry = (case fst entry of
     PStr symbol \<Rightarrow>
       if ends_with symbol ''USDT'' \<and> entry_base symbol (snd entry) \<noteq> []
       then AList.update symbol (base_meta (entry_base symbol (snd entry))) acc else acc
   | _ \<Rightarrow> acc)"

definition parse_trend_universe_mapping :: "pyval \<Rightarrow> universe" where
  "parse_trend_universe_mapping payload = (case payload of
     PDict d \<Rightarrow> foldl add_pool_symbol [] (pool_entries d)
   | _ \<Rightarrow> [])"

definition add_distinct :: "universe \<Rightarrow> string list \<Rightarrow> pyval \<Rightarrow> pyexc + string list" where
  "add_distinct symbol_map acc v =
     (if \<not> hashable v then Inl TypeError
      else case v of PStr s \<Rightarrow> Inr (if s \<in> fst ` set symbol_map \<and> s \<notin> set acc then acc @ [s] else acc)
           | _ \<Rightarrow> Inr acc)"

definition ordered_symbols :: "pydict \<Rightarrow> universe \<Rightarrow> pyval list" where
  "ordered_symbols d symbol_map = (case dget d ''symbols'' of
     PList xs \<Rightarrow> xs
   | PDict kvs \<Rightarrow> map (PStr \<circ> fst) kvs
   | _ \<Rightarrow> map (PStr \<circ> fst) symbol_map)"

definition extract_trend_pool_symbols :: "pyval \<Rightarrow> universe \<Rightarrow> pyexc + string list" where
  "extract_trend_pool_symbols payload symbol_map = (case payload of
     PDict d \<Rightarrow> foldE (add_distinct symbol_map) [] (ordered_symbols d symbol_map)
   | _ \<Rightarrow> Inr (map fst symbol_map))"

section \<open>The contract\<close>

datatype said = Said string pydict

record pool_payload =
  pp_as_of :: string
  pp_version :: string
  pp_mode :: string
  pp_size :: int
  pp_symbols :: "string list"
  pp_map :: universe
  pp_project :: string

record pool_check =
  pc_errors :: "said list"
  pc_warnings :: "said list"
  pc_label :: string
  pc_payload :: pool_payload
  pc_age :: "int option"
  pc_fresh :: bool

definition said_if :: "bool \<Rightarrow> string \<Rightarrow> pydict \<Rightarrow> said list" where
  "said_if b k d = (if b then [Said k d] else [])"

definition stripped_field :: "pydict \<Rightarrow> string \<Rightarrow> string" where
  "stripped_field d k = (case dget d k of PStr s \<Rightarrow> strip s | _ \<Rightarrow> [])"

definition pool_mode :: "string list \<Rightarrow> string \<Rightarrow> string \<times> said list \<times> said list" where
  "pool_mode modes m =
     (if m = [] then (case modes of [] \<Rightarrow> ([], [], []) | z # _ \<Rightarrow> (z, [], [Said ''mode_missing_assumed'' [(''mode'', PStr z)]]))
      else (m, said_if (modes \<noteq> [] \<and> m \<notin> set modes) ''mode_not_acceptable''
          [(''mode'', PStr m), (''acceptable_modes'', PList (map PStr modes))], []))"

definition pool_size_of :: "pydict \<Rightarrow> int \<Rightarrow> int \<times> said list" where
  "pool_size_of d n = (case to_int (dget_or d ''pool_size'' (PInt n)) of
     Inr i \<Rightarrow> (i, []) | Inl e \<Rightarrow> (n, [Said ''pool_size_missing_or_invalid'' []]))"

definition age_errors :: "pool_settings \<Rightarrow> bool \<Rightarrow> int \<Rightarrow> int \<Rightarrow> said list" where
  "age_errors cfg enforce day age =
     (if age < 0 then [Said ''as_of_date_in_future'' [(''as_of_date'', PStr (date_text (date_of_day day)))]]
      else said_if (enforce \<and> tp_max_age cfg < age) ''payload_stale_by_days''
        [(''age_days'', PInt age), (''max_age_days'', PInt (tp_max_age cfg))])"

definition validate_trend_pool_payload :: "string \<Rightarrow> pydt \<Rightarrow> pool_settings \<Rightarrow> bool \<Rightarrow> pyval \<Rightarrow> pyexc + pool_check" where
  "validate_trend_pool_payload label now cfg enforce payload =
     (let symbol_map = parse_trend_universe_mapping payload in
      bindE (extract_trend_pool_symbols payload symbol_map) (\<lambda>symbols.
      bindE (payload_fields payload) (\<lambda>d.
      let as_of = parse_trend_pool_date (dget d ''as_of_date'');
          (mode, mode_errors, mode_warnings) = pool_mode (tp_modes cfg) (stripped_field d ''mode'');
          n = int (length symbols);
          (declared, size_errors) = pool_size_of d n;
          as_of_text = (case as_of of Some day \<Rightarrow> date_text (date_of_day day) | None \<Rightarrow> []);
          age = map_option (\<lambda>day. dt_day now - day) as_of;
          version = stripped_field d ''version'';
          synthesized = (version = [] \<and> as_of \<noteq> None \<and> mode \<noteq> []);
          project = stripped_field d ''source_project''
      in Inr \<lparr>pc_errors = said_if (as_of = None) ''missing_invalid_as_of_date'' [] @ mode_errors
             @ said_if (symbol_map = []) ''symbols_map_missing_or_invalid'' []
             @ said_if (symbols = []) ''symbols_list_empty'' [] @ size_errors
             @ said_if (declared \<noteq> n) ''pool_size_mismatch'' [(''declared'', PInt declared), (''parsed'', PInt n)]
             @ said_if (tp_size cfg \<noteq> 0 \<and> symbols \<noteq> [] \<and> declared \<noteq> tp_size cfg) ''pool_size_expected_mismatch''
                 [(''pool_size'', PInt declared), (''expected_pool_size'', PInt (tp_size cfg))]
             @ (case as_of of Some day \<Rightarrow> age_errors cfg enforce day (dt_day now - day) | None \<Rightarrow> []),
           pc_warnings = mode_warnings @ said_if synthesized ''version_missing_synthesized'' []
             @ said_if (project = []) ''source_project_missing_unknown'' [],
           pc_label = label,
           pc_payload = \<lparr>pp_as_of = as_of_text,
             pp_version = (if synthesized then as_of_text @ ''-'' @ mode else version),
             pp_mode = mode, pp_size = n, pp_symbols = symbols,
             pp_map = map (\<lambda>s. (s, the (map_of symbol_map s))) symbols,
             pp_project = (if project = [] then ''unknown'' else project)\<rparr>,
           pc_age = age,
           pc_fresh = (case age of Some a \<Rightarrow> a \<le> tp_max_age cfg | None \<Rightarrow> False)\<rparr>)))"

section \<open>Sources and fallbacks\<close>

record resolution =
  rs_kind :: string
  rs_label :: string
  rs_degraded :: bool
  rs_fresh :: bool
  rs_messages :: "said list"
  rs_errors :: "said list"
  rs_loaded :: string
  rs_payload :: pool_payload

definition build_trend_pool_resolution :: "pool_check \<Rightarrow> string \<Rightarrow> bool \<Rightarrow> pydt \<Rightarrow> said list \<Rightarrow> resolution" where
  "build_trend_pool_resolution c kind degraded now messages =
     \<lparr>rs_kind = kind, rs_label = pc_label c, rs_degraded = degraded, rs_fresh = pc_fresh c,
      rs_messages = messages @ pc_warnings c, rs_errors = pc_errors c, rs_loaded = iso_text now, rs_payload = pc_payload c\<rparr>"

definition build_static_trend_pool_resolution :: "universe \<Rightarrow> pydt \<Rightarrow> said list \<Rightarrow> resolution" where
  "build_static_trend_pool_resolution universe now messages =
     \<lparr>rs_kind = ''static'', rs_label = ''static:built_in'', rs_degraded = True, rs_fresh = False, rs_messages = messages,
      rs_errors = [], rs_loaded = iso_text now,
      rs_payload = \<lparr>pp_as_of = [], pp_version = ''static-fallback'', pp_mode = ''static'', pp_size = int (length universe),
        pp_symbols = map fst universe, pp_map = universe, pp_project = ''BinancePlatform''\<rparr>\<rparr>"

definition payload_dict :: "pool_payload \<Rightarrow> pydict" where
  "payload_dict p = [(''as_of_date'', PStr (pp_as_of p)), (''version'', PStr (pp_version p)), (''mode'', PStr (pp_mode p)),
     (''pool_size'', PInt (pp_size p)), (''symbols'', PList (map PStr (pp_symbols p))),
     (''symbol_map'', PDict (map (\<lambda>(s, m). (s, PDict m)) (pp_map p))), (''source_project'', PStr (pp_project p))]"

text \<open>What reading a source gave: a message instead of a payload, or the check of the payload.\<close>

datatype loaded = Unread said | Checked pool_check

fun loaded_errors :: "loaded \<Rightarrow> said list" where
  "loaded_errors (Unread m) = [m]"
| "loaded_errors (Checked c) = pc_errors c"

fun loaded_warnings :: "loaded \<Rightarrow> said list" where
  "loaded_warnings (Unread m) = []"
| "loaded_warnings (Checked c) = pc_warnings c"

text \<open>
  The surroundings of a resolution: the upstream document (absent, or a dictionary, or the
  exception of the client), the candidate files in order with their expanded path and what reading
  each gives, and the texts of exceptions.
\<close>

record pool_sources =
  so_document :: "pyexc + pydict option"
  so_files :: "(string \<times> string \<times> (pyexc + string option)) list"
  so_exc_text :: "pyexc \<Rightarrow> string"

definition or_unread :: "(pyexc \<Rightarrow> string) \<Rightarrow> string \<Rightarrow> pyexc + loaded \<Rightarrow> loaded" where
  "or_unread exc_text key r = (case r of Inr l \<Rightarrow> l | Inl e \<Rightarrow> Unread (Said key [(''error'', PStr (exc_text e))]))"

text \<open>What \<open>main.py\<close> and the strategy configure.\<close>

record pool_config =
  pd_getenv :: process_env
  pd_max_age :: int
  pd_modes :: "string list"
  pd_size :: int
  pd_collection :: string
  pd_document :: string
  pd_key :: string
  pd_static :: universe

definition settings_of :: "pool_config \<Rightarrow> pool_settings" where
  "settings_of pd = get_trend_pool_contract_settings (pd_getenv pd) (pd_max_age pd) (pd_modes pd) (pd_size pd)"

definition artifact_env_or :: "process_env \<Rightarrow> string \<Rightarrow> string \<Rightarrow> string" where
  "artifact_env_or getenv name z = (let raw = artifact_env getenv name in if raw = [] then z else raw)"

definition load_trend_pool_from_firestore :: "pool_sources \<Rightarrow> pool_config \<Rightarrow> pydt \<Rightarrow> loaded" where
  "load_trend_pool_from_firestore src pd now =
     (let collection = artifact_env_or (pd_getenv pd) ''STRATEGY_ARTIFACT_FIRESTORE_COLLECTION'' (pd_collection pd);
          document = artifact_env_or (pd_getenv pd) ''STRATEGY_ARTIFACT_FIRESTORE_DOCUMENT'' (pd_document pd)
      in or_unread (so_exc_text src) ''firestore_read_failed''
        (bindE (so_document src) (\<lambda>doc. case doc of
           None \<Rightarrow> Inr (Unread (Said ''missing_firestore_document'' [(''collection'', PStr collection), (''document'', PStr document)]))
         | Some d \<Rightarrow>
             bindE (validate_trend_pool_payload (''firestore:'' @ collection @ ''/'' @ document) now (settings_of pd) True (PDict d))
               (\<lambda>c. Inr (Checked c)))))"

definition load_trend_pool_from_file :: "(pyexc \<Rightarrow> string) \<Rightarrow> pydt \<Rightarrow> pool_settings \<Rightarrow> string \<Rightarrow> pyexc + string option \<Rightarrow> loaded" where
  "load_trend_pool_from_file exc_text now cfg path content =
     or_unread exc_text ''pool_file_read_failed''
       (bindE content (\<lambda>t. case t of
          None \<Rightarrow> Inr (Unread (Said ''pool_file_not_found'' [(''pool_path'', PStr path)]))
        | Some s \<Rightarrow> bindE (json_loads s) (\<lambda>v.
            bindE (validate_trend_pool_payload (''file:'' @ path) now cfg True v) (\<lambda>c. Inr (Checked c)))))"

definition get_last_known_good_trend_pool :: "string \<Rightarrow> pyval \<Rightarrow> pydt \<Rightarrow> pool_settings \<Rightarrow> pyexc + pool_check" where
  "get_last_known_good_trend_pool key state now cfg =
     validate_trend_pool_payload ''state:last_known_good'' now cfg False
       (case state of PDict s \<Rightarrow> dget_or s key (PDict []) | _ \<Rightarrow> PDict [])"

fun try_files :: "(pyexc \<Rightarrow> string) \<Rightarrow> pydt \<Rightarrow> pool_settings \<Rightarrow> string list \<Rightarrow> said list
    \<Rightarrow> (string \<times> string \<times> (pyexc + string option)) list \<Rightarrow> said list + resolution" where
  "try_files exc_text now cfg seen messages [] = Inl messages"
| "try_files exc_text now cfg seen messages ((path, expanded, content) # files) =
     (if expanded \<in> set seen then try_files exc_text now cfg seen messages files
      else (case load_trend_pool_from_file exc_text now cfg path content of
          Checked c \<Rightarrow>
            if pc_errors c = [] then Inr (build_trend_pool_resolution c ''local_file'' True now
                (messages @ [Said ''trend_pool_using_local_file'' [(''path'', PStr path)]]))
            else try_files exc_text now cfg (expanded # seen) (messages @ pc_errors c @ pc_warnings c) files
        | Unread m \<Rightarrow> try_files exc_text now cfg (expanded # seen) (messages @ [m]) files))"

text \<open>A usable result of reading a source.\<close>

fun accepted_check :: "loaded \<Rightarrow> pool_check option" where
  "accepted_check (Unread m) = None"
| "accepted_check (Checked c) = (if pc_errors c = [] then Some c else None)"

definition resolve_trend_pool_source :: "pool_sources \<Rightarrow> pool_config \<Rightarrow> pydt \<Rightarrow> pyval \<Rightarrow> pyexc + resolution" where
  "resolve_trend_pool_source src pd now state =
     (let upstream = load_trend_pool_from_firestore src pd now in
      case accepted_check upstream of
        Some c \<Rightarrow> Inr (build_trend_pool_resolution c ''fresh_upstream'' False now
          [Said ''trend_pool_loaded_fresh_upstream'' [(''source_label'', PStr (pc_label c))]])
      | None \<Rightarrow>
          let messages = loaded_errors upstream @ loaded_warnings upstream in
          bindE (get_last_known_good_trend_pool (pd_key pd) (if truthy state then state else PDict []) now (settings_of pd)) (\<lambda>last_good.
          if pc_errors last_good = [] then
            Inr (build_trend_pool_resolution last_good ''last_known_good'' True now
              (messages @ [Said ''trend_pool_using_last_known_good'' []]))
          else
            Inr (case try_files (so_exc_text src) now (settings_of pd) [] (messages @ pc_errors last_good) (so_files src) of
                Inr r \<Rightarrow> r
              | Inl said \<Rightarrow> build_static_trend_pool_resolution (pd_static pd) now (said @ [Said ''trend_pool_fallback_static'' []]))))"

text \<open>\<open>resolve_runtime_trend_pool\<close>: a payload injected into the runtime must be valid, else the upstream order applies.\<close>

definition resolve_runtime_trend_pool ::
    "pool_sources \<Rightarrow> pool_config \<Rightarrow> pydt \<Rightarrow> pyval option \<Rightarrow> pyval \<Rightarrow> pyexc + universe \<times> resolution" where
  "resolve_runtime_trend_pool src pd now injected state =
     (case injected of
        None \<Rightarrow> bindE (resolve_trend_pool_source src pd now state) (\<lambda>r. Inr (pp_map (rs_payload r), r))
      | Some payload \<Rightarrow>
          bindE (validate_trend_pool_payload ''runtime:trend_pool_payload'' now (settings_of pd) True payload) (\<lambda>c.
          if pc_errors c = [] then
            let r = build_trend_pool_resolution c ''fresh_upstream'' False now [Said ''trend_pool_loaded_runtime_payload'' []]
            in Inr (pp_map (rs_payload r), r)
          else Inl (ValueError ''Injected trend_pool_payload failed validation'')))"

section \<open>The state\<close>

definition update_trend_pool_state :: "(said \<Rightarrow> string) \<Rightarrow> string \<Rightarrow> resolution \<Rightarrow> pydict \<Rightarrow> pydict" where
  "update_trend_pool_state render key r s =
     (let p = rs_payload r;
          s' = dupdate s [(''trend_pool_source'', PStr (rs_kind r)), (''trend_pool_source_detail'', PStr (rs_label r)),
            (''trend_pool_is_fresh'', PBool (rs_fresh r)), (''trend_pool_degraded'', PBool (rs_degraded r)),
            (''trend_pool_as_of_date'', PStr (pp_as_of p)), (''trend_pool_version'', PStr (pp_version p)),
            (''trend_pool_mode'', PStr (pp_mode p)), (''trend_pool_source_project'', PStr (pp_project p)),
            (''trend_pool_loaded_at'', PStr (rs_loaded r)),
            (''trend_pool_messages'', PList (map (PStr \<circ> render) (rs_messages r)))]
      in if rs_kind r = ''fresh_upstream'' then dset key (PDict (payload_dict p)) s' else s')"

end
