(* ===== verification/Pool_Contract.thy ===== *)
theory Pool_Contract
  imports Trend_Pool
begin

text \<open>
  What the trend pool contract guarantees: an accepted payload is exactly an ordered pool of the
  expected number of distinct USDT symbols with their base assets, dated and of an acceptable mode;
  its normalized form, kept in the state, is accepted again with the same content on every later day;
  and the fallbacks never produce an unchecked pool other than the built-in one.
\<close>

section \<open>Dates\<close>

lemma strptime_date_text:
  assumes "valid_date y m d"
  shows "strptime_date (date_text (y, m, d)) = Some (day_number y m d)" "take 10 (date_text (y, m, d)) = date_text (y, m, d)"
proof -
  have r: "0 \<le> y" "y < 10 ^ 4" "0 \<le> m" "m < 100" "0 \<le> d" "d < 100"
    using assms by (auto simp: valid_date_def days_in_month_def split: if_splits)
  obtain y1 y2 y3 y4 where y: "pad_num 4 y = [y1, y2, y3, y4]" "is_digit y1" "is_digit y2" "is_digit y3" "is_digit y4"
    using four_chars [of y] r by auto
  obtain a b where m: "two m = [a, b]" "is_digit a" "is_digit b" using two_chars [of m] r by auto
  obtain e f where d: "two d = [e, f]" "is_digit e" "is_digit f" using two_chars [of d] r by auto
  have "int (nat_of_digits [y1, y2, y3, y4]) = y" using pad_num_digits [OF r(1,2)] y by simp
  moreover have "int (10 * digit_val a + digit_val b) = m" "int (10 * digit_val e + digit_val f) = d"
    using pad_num_digits [of m 2] pad_num_digits [of d 2] r m d by (simp_all add: two_pad [symmetric] nat_of_digits_def)
  ultimately show "strptime_date (date_text (y, m, d)) = Some (day_number y m d)"
    using y m d assms by (simp add: date_text_def strptime_date_def calendar_field_def Let_def)
  show "take 10 (date_text (y, m, d)) = date_text (y, m, d)" using iso_separator_date [OF assms] by simp
qed

lemma day_number_bounds:
  assumes "valid_date y m d"
  shows "0 \<le> day_number y m d" "day_number y m d \<le> max_day"
proof -
  have v: "1 \<le> y" "y \<le> 9999" "1 \<le> m" "m \<le> 12" "1 \<le> d" "d \<le> days_in_month y m" using assms by (auto simp: valid_date_def)
  have "days_before_year 1 = 0" "days_before_year 10000 = max_day + 1" by (simp_all add: days_before_year_def max_day_def)
  then have b: "0 \<le> days_before_year y" "days_before_year y + (if leap_year y then 366 else 365) \<le> max_day + 1"
    using v days_before_year_mono [of 1 y] days_before_year_mono [of "y + 1" 10000] by (simp_all only: days_before_year_Suc)
  have "m \<in> {1, 2, 3, 4, 5, 6, 7, 8, 9, 10, 11, 12}" using v(3,4) by simp arith
  then have "0 \<le> days_before_month y m \<and> days_before_month y m + days_in_month y m \<le> (if leap_year y then 366 else 365)"
    by (elim insertE) (simp_all add: days_before_month_def days_in_month_def upto.simps)
  with b v show "0 \<le> day_number y m d" "day_number y m d \<le> max_day" by (auto simp: day_number_def split: if_splits)
qed

lemma pool_date_valid: "parse_trend_pool_date v = Some n \<Longrightarrow> 0 \<le> n \<and> n \<le> max_day"
  using day_number_bounds
  by (auto simp: parse_trend_pool_date_def strptime_date_def Let_def split: pyval.splits if_splits option.splits)

lemma pool_date_text:
  assumes "0 \<le> n" and "n \<le> max_day"
  shows "parse_trend_pool_date (PStr (date_text (date_of_day n))) = Some n"
proof -
  obtain y m d where date: "date_of_day n = (y, m, d)" by (cases "date_of_day n") auto
  note v = date_of_day [OF assms date]
  have "date_text (y, m, d) \<noteq> []" by (simp add: date_text_def)
  moreover have "\<not> is_space c" if "c \<in> set (date_text (y, m, d))" for c
  proof -
    have "is_digit c \<or> c = CHR ''-''" using that field_digits by (auto simp: date_text_def)
    moreover have "\<not> is_space (CHR ''-'')" by code_simp
    ultimately show ?thesis by (auto simp: is_digit_def is_space_def)
  qed
  ultimately have "strip (date_text (y, m, d)) \<noteq> []" by (auto simp: strip_by_def dropWhile_eq_Nil_conv)
  then show ?thesis
    using strptime_date_text [OF v(1)] v(2) by (simp add: parse_trend_pool_date_def date)
qed

section \<open>Symbol maps\<close>

definition wf_symbol :: "string \<times> pydict \<Rightarrow> bool" where
  "wf_symbol e = (ends_with (fst e) ''USDT'' \<and> (\<exists>a. snd e = base_meta a \<and> a \<noteq> [] \<and> strip a = a))"

definition wf_universe :: "universe \<Rightarrow> bool" where
  "wf_universe u = (distinct (map fst u) \<and> (\<forall>e \<in> set u. wf_symbol e))"

lemma update_keys: "fst ` set (AList.update k v m) = insert k (fst ` set m)"
  by (induction m) auto

lemma update_wf: "wf_universe m \<Longrightarrow> wf_symbol (k, v) \<Longrightarrow> wf_universe (AList.update k v m)"
  by (induction m) (auto simp: wf_universe_def update_keys image_iff)

lemma add_symbol_wf: "wf_universe m \<Longrightarrow> wf_universe (add_pool_symbol m e)"
  by (auto simp: add_pool_symbol_def wf_symbol_def entry_base_def base_meta_def split: pyval.splits intro!: update_wf)

lemma parsed_wf: "wf_universe (parse_trend_universe_mapping v)"
proof -
  have added: "wf_universe (foldl add_pool_symbol m es)" if "wf_universe m" for m es
    using that by (induction es arbitrary: m) (auto intro: add_symbol_wf)
  have "wf_universe []" by (simp add: wf_universe_def)
  with added show ?thesis by (simp add: parse_trend_universe_mapping_def split: pyval.splits)
qed

lemma symbols_distinct:
  assumes "foldE (add_distinct m) acc vs = Inr symbols" and "distinct acc" and "set acc \<subseteq> fst ` set m"
  shows "distinct symbols \<and> set symbols \<subseteq> fst ` set m"
  using assms
proof (induction vs arbitrary: acc)
  case (Cons v vs)
  then obtain acc' where acc': "add_distinct m acc v = Inr acc'" "foldE (add_distinct m) acc' vs = Inr symbols"
    by (auto simp: result_simps)
  have "distinct acc' \<and> set acc' \<subseteq> fst ` set m"
    using acc'(1) Cons.prems(2,3) unfolding add_distinct_def
    by (cases v) (force split: if_splits)+
  with Cons.IH [OF acc'(2)] show ?case by blast
qed simp

lemma symbols_of_list:
  assumes "distinct symbols" and "set symbols \<subseteq> fst ` set m"
  shows "foldE (add_distinct m) [] (map PStr symbols) = Inr symbols"
proof -
  have "foldE (add_distinct m) acc (map PStr xs) = Inr (acc @ xs)" if "distinct (acc @ xs)" "set xs \<subseteq> fst ` set m" for acc xs
    using that by (induction xs arbitrary: acc) (auto simp: add_distinct_def)
  from this [of "[]"] assms show ?thesis by simp
qed

lemma extracted: "extract_trend_pool_symbols v m = Inr symbols \<Longrightarrow> wf_universe m \<Longrightarrow> distinct symbols \<and> set symbols \<subseteq> fst ` set m"
  by (auto simp: extract_trend_pool_symbols_def wf_universe_def dest: symbols_distinct split: pyval.splits)

definition listed :: "universe \<Rightarrow> string list \<Rightarrow> universe" where
  "listed m symbols = map (\<lambda>s. (s, the (map_of m s))) symbols"

lemma listed_wf:
  assumes "wf_universe m" and "distinct symbols" and "set symbols \<subseteq> fst ` set m"
  shows "wf_universe (listed m symbols)" "map fst (listed m symbols) = symbols"
proof -
  show keys: "map fst (listed m symbols) = symbols" by (simp add: listed_def comp_def)
  have "wf_symbol (s, the (map_of m s))" if "s \<in> set symbols" for s
  proof -
    have "map_of m s \<noteq> None" using that assms(3) by (simp add: map_of_eq_None_iff) blast
    then obtain v where v: "map_of m s = Some v" by blast
    from map_of_SomeD [OF this] v assms(1) show ?thesis by (auto simp: wf_universe_def)
  qed
  with keys assms(2) show "wf_universe (listed m symbols)" by (auto simp: wf_universe_def listed_def)
qed

text \<open>Parsing the dictionary of a well-formed map gives the map back, in order.\<close>

lemma update_fresh: "k \<notin> fst ` set m \<Longrightarrow> AList.update k v m = m @ [(k, v)]"
  by (induction m) auto

lemma reparse:
  assumes "wf_universe u"
  shows "foldl add_pool_symbol [] (map (\<lambda>(s, m). (PStr s, PDict m)) u) = u"
proof -
  have "foldl add_pool_symbol acc (map (\<lambda>(s, m). (PStr s, PDict m)) xs) = acc @ xs"
    if "distinct (map fst (acc @ xs))" "\<forall>e \<in> set xs. wf_symbol e" for acc xs
    using that
  proof (induction xs arbitrary: acc)
    case (Cons x xs)
    obtain s a where x: "x = (s, base_meta a)" "ends_with s ''USDT''" "a \<noteq> []" "strip a = a"
      using Cons.prems(2) by (cases x) (auto simp: wf_symbol_def)
    have "add_pool_symbol acc (PStr s, PDict (base_meta a)) = acc @ [x]"
      using x Cons.prems(1) by (simp add: add_pool_symbol_def entry_base_def base_meta_def str_or_def update_fresh)
    with Cons.IH [of "acc @ [x]"] Cons.prems show ?case by (simp add: x(1))
  qed simp
  from this [of "[]" u] assms show ?thesis by (simp add: wf_universe_def)
qed

section \<open>Accepted payloads\<close>

text \<open>
  The contract of an accepted payload on a given day: the number of symbols, their order and base
  assets, the mode, the date and its age.
\<close>

definition contractual :: "pool_settings \<Rightarrow> int \<Rightarrow> bool \<Rightarrow> pool_payload \<Rightarrow> bool" where
  "contractual cfg today enforce p =
     (wf_universe (pp_map p) \<and> map fst (pp_map p) = pp_symbols p \<and> pp_size p = int (length (pp_symbols p))
      \<and> pp_symbols p \<noteq> [] \<and> (tp_size cfg \<noteq> 0 \<longrightarrow> pp_size p = tp_size cfg)
      \<and> (tp_modes cfg \<noteq> [] \<longrightarrow> pp_mode p \<in> set (tp_modes cfg))
      \<and> (\<exists>day. 0 \<le> day \<and> day \<le> max_day \<and> pp_as_of p = date_text (date_of_day day) \<and> day \<le> today
           \<and> (enforce \<longrightarrow> today - day \<le> tp_max_age cfg)))"

lemma said_if_Nil [simp]: "said_if b k d = [] \<longleftrightarrow> \<not> b" "said_if False k d = []"
  by (simp_all add: said_if_def)

lemma no_age_errors [simp]: "age_errors cfg enforce day age = [] \<longleftrightarrow> 0 \<le> age \<and> (enforce \<longrightarrow> age \<le> tp_max_age cfg)"
  by (auto simp: age_errors_def)

lemma mode_accepted: "pool_mode modes m = (mode, [], warnings) \<Longrightarrow> modes \<noteq> [] \<Longrightarrow> mode \<in> set modes"
  by (auto simp: pool_mode_def split: if_splits list.splits)

lemma size_accepted: "pool_size_of d n = (i, []) \<Longrightarrow> to_int (dget_or d ''pool_size'' (PInt n)) = Inr i"
  by (auto simp: pool_size_of_def split: sum.splits)

lemma accepted_contractual:
  assumes "validate_trend_pool_payload label now cfg enforce v = Inr c" and "pc_errors c = []"
  shows "contractual cfg (dt_day now) enforce (pc_payload c)"
proof -
  let ?m = "parse_trend_universe_mapping v"
  obtain symbols d where s: "extract_trend_pool_symbols v ?m = Inr symbols" "payload_fields v = Inr d"
    using assms(1) by (auto simp: validate_trend_pool_payload_def Let_def result_simps)
  obtain mode me mw where mode: "pool_mode (tp_modes cfg) (stripped_field d ''mode'') = (mode, me, mw)" by (metis prod_cases3)
  obtain i se where i: "pool_size_of d (int (length symbols)) = (i, se)" by fastforce
  note c = assms(1) [unfolded validate_trend_pool_payload_def Let_def s bindE.simps mode i prod.case, simplified, symmetric]
  obtain day where day: "parse_trend_pool_date (dget d ''as_of_date'') = Some day"
    using assms(2) c by (cases "parse_trend_pool_date (dget d ''as_of_date'')") auto
  have facts: "me = []" "symbols \<noteq> []" "se = []" "i = int (length symbols)" "tp_size cfg \<noteq> 0 \<longrightarrow> i = tp_size cfg"
    "0 \<le> dt_day now - day" "enforce \<longrightarrow> dt_day now - day \<le> tp_max_age cfg"
    using assms(2) c day by auto
  note e = extracted [OF s(1) parsed_wf]
  have "pp_map (pc_payload c) = listed ?m symbols" "pp_symbols (pc_payload c) = symbols" "pp_size (pc_payload c) = int (length symbols)"
    "pp_mode (pc_payload c) = mode" "pp_as_of (pc_payload c) = date_text (date_of_day day)"
    using c day by (auto simp: listed_def)
  then show ?thesis
    using facts listed_wf [OF parsed_wf, of symbols v] e mode_accepted [of "tp_modes cfg" _ mode mw] mode pool_date_valid [OF day]
    by (auto simp: contractual_def)
qed

section \<open>The last good payload\<close>

lemma strip_nonempty_ends: "strip s = s \<Longrightarrow> s \<noteq> [] \<Longrightarrow> \<not> is_space (hd s) \<and> \<not> is_space (last s)"
proof -
  assume s: "strip s = s" "s \<noteq> []"
  let ?t = "dropWhile is_space s"
  have "length (strip s) \<le> length ?t" unfolding strip_by_def by (metis length_dropWhile_le length_rev)
  with s(1) have "length s \<le> length ?t" by simp
  then have "length ?t = length s" using length_dropWhile_le [of is_space s] by simp
  then have t: "?t = s" by (metis append_eq_append_conv append_self_conv2 length_append takeWhile_dropWhile_id)
  have "dropWhile is_space (rev s) = rev s" using s(1) unfolding strip_by_def t by (metis rev_rev_ident)
  with t s(2) show ?thesis by (simp add: dropWhile_eq_self_iff hd_rev)
qed

lemma strip_ends: "s \<noteq> [] \<Longrightarrow> \<not> is_space (hd s) \<Longrightarrow> \<not> is_space (last s) \<Longrightarrow> strip s = s"
  by (simp add: strip_by_def dropWhile_eq_self_iff [THEN iffD2] hd_rev)

lemma strip_joined: "strip a = a \<Longrightarrow> strip b = b \<Longrightarrow> a \<noteq> [] \<Longrightarrow> b \<noteq> [] \<Longrightarrow> strip (a @ c @ b) = a @ c @ b"
  using strip_nonempty_ends [of a] strip_nonempty_ends [of b] by (intro strip_ends) auto

lemma listed_self: "distinct (map fst u) \<Longrightarrow> listed u (map fst u) = u"
  by (auto simp: listed_def comp_def intro!: map_idI)

lemma payload_lookups:
  "dget (payload_dict p) ''as_of_date'' = PStr (pp_as_of p)" "dget (payload_dict p) ''version'' = PStr (pp_version p)"
  "dget (payload_dict p) ''mode'' = PStr (pp_mode p)" "dget_or (payload_dict p) ''pool_size'' z = PInt (pp_size p)"
  "dget (payload_dict p) ''symbols'' = PList (map PStr (pp_symbols p))" "dget (payload_dict p) ''source_project'' = PStr (pp_project p)"
  "dget (payload_dict p) ''symbol_map'' = PDict (map (\<lambda>(s, m). (s, PDict m)) (pp_map p))"
  by (simp_all add: payload_dict_def)

text \<open>The texts of a payload that normalization does not change any more.\<close>

definition settled_texts :: "pool_payload \<Rightarrow> bool" where
  "settled_texts p = (strip (pp_mode p) = pp_mode p \<and> strip (pp_version p) = pp_version p \<and> strip (pp_project p) = pp_project p
     \<and> (pp_version p = [] \<longrightarrow> pp_mode p = []) \<and> pp_project p \<noteq> [])"

definition clean_modes :: "pool_settings \<Rightarrow> bool" where
  "clean_modes cfg = (\<forall>m \<in> set (tp_modes cfg). m \<noteq> [] \<and> strip m = m)"

lemma unknown_stripped: "strip ''unknown'' = ''unknown''"
  by code_simp

lemma strip_Nil [simp]: "strip [] = []"
  by (simp add: strip_by_def)

lemma stripped_fields [simp]: "strip (stripped_field d k) = stripped_field d k"
  by (simp add: stripped_field_def split: pyval.split)

lemma date_text_stripped: "0 \<le> n \<Longrightarrow> n \<le> max_day \<Longrightarrow> strip (date_text (date_of_day n)) = date_text (date_of_day n) \<and> date_text (date_of_day n) \<noteq> []"
proof -
  assume n: "0 \<le> n" "n \<le> max_day"
  obtain y m d where date: "date_of_day n = (y, m, d)" by (cases "date_of_day n") auto
  have v: "valid_date y m d" using date_of_day [OF n date] by simp
  have r: "0 \<le> y" "y < 10000" "0 \<le> d" "d < 100"
    using v by (auto simp: valid_date_def days_in_month_def split: if_splits)
  obtain a b c e where y: "pad_num 4 y = [a, b, c, e]" "is_digit a" using four_chars [of y] r by auto
  obtain f g where d: "two d = [f, g]" "is_digit g" using two_chars [of d] r by auto
  have "\<not> is_space x" if "is_digit x" for x using that by (auto simp: is_digit_def is_space_def)
  then show ?thesis using y d by (auto simp: date date_text_def intro!: strip_ends)
qed

lemma accepted_settled:
  assumes "validate_trend_pool_payload label now cfg enforce v = Inr c" and "pc_errors c = []" and "clean_modes cfg"
  shows "settled_texts (pc_payload c)"
proof -
  obtain symbols d where s: "extract_trend_pool_symbols v (parse_trend_universe_mapping v) = Inr symbols" "payload_fields v = Inr d"
    using assms(1) by (auto simp: validate_trend_pool_payload_def Let_def result_simps)
  obtain mode me mw where mode: "pool_mode (tp_modes cfg) (stripped_field d ''mode'') = (mode, me, mw)" by (metis prod_cases3)
  obtain i se where i: "pool_size_of d (int (length symbols)) = (i, se)" by fastforce
  note c = assms(1) [unfolded validate_trend_pool_payload_def Let_def s bindE.simps mode i prod.case, simplified, symmetric]
  obtain day where day: "parse_trend_pool_date (dget d ''as_of_date'') = Some day"
    using assms(2) c by (cases "parse_trend_pool_date (dget d ''as_of_date'')") auto
  note written = date_text_stripped [of day] pool_date_valid [OF day]
  have "strip mode = mode"
    using mode assms(3) by (auto simp: pool_mode_def clean_modes_def split: if_splits list.splits)
  then show ?thesis
    using c day written strip_joined [of "date_text (date_of_day day)" mode "''-''"]
    by (auto simp: settled_texts_def unknown_stripped)
qed

lemma payload_revalidates:
  assumes "contractual cfg today enforce p" and "settled_texts p" and "clean_modes cfg" and "today \<le> dt_day now"
  shows "\<exists>c. validate_trend_pool_payload label now cfg False (PDict (payload_dict p)) = Inr c \<and> pc_errors c = [] \<and> pc_payload c = p"
proof -
  have wf: "wf_universe (pp_map p)" "map fst (pp_map p) = pp_symbols p" and n: "pp_size p = int (length (pp_symbols p))" "pp_symbols p \<noteq> []"
    "tp_size cfg \<noteq> 0 \<longrightarrow> pp_size p = tp_size cfg" and m: "tp_modes cfg \<noteq> [] \<longrightarrow> pp_mode p \<in> set (tp_modes cfg)"
    using assms(1) by (auto simp: contractual_def)
  obtain day where day: "0 \<le> day" "day \<le> max_day" "pp_as_of p = date_text (date_of_day day)" "day \<le> today"
    using assms(1) by (auto simp: contractual_def)
  have entries: "pool_entries (payload_dict p) = map (\<lambda>(s, m). (PStr s, PDict m)) (pp_map p)"
    by (simp add: pool_entries_def payload_lookups is_container_def comp_def split_def)
  have map: "parse_trend_universe_mapping (PDict (payload_dict p)) = pp_map p"
    using reparse [OF wf(1)] by (simp add: parse_trend_universe_mapping_def entries)
  have distinct: "distinct (pp_symbols p)" "set (pp_symbols p) = fst ` set (pp_map p)"
    using wf unfolding wf_universe_def by (metis, metis set_map)
  have symbols: "extract_trend_pool_symbols (PDict (payload_dict p)) (pp_map p) = Inr (pp_symbols p)"
    using symbols_of_list [OF distinct(1), of "pp_map p"] distinct(2)
    by (simp add: extract_trend_pool_symbols_def ordered_symbols_def payload_lookups)
  have nonempty: "pp_map p \<noteq> []" using wf(2) n(2) by auto
  have mode: "\<exists>w. pool_mode (tp_modes cfg) (pp_mode p) = (pp_mode p, [], w)"
    using m assms(3) by (auto simp: pool_mode_def clean_modes_def split: list.splits)
  have same: "map (\<lambda>s. (s, the (map_of (pp_map p) s))) (pp_symbols p) = pp_map p"
    using listed_self [of "pp_map p"] wf by (simp add: listed_def wf_universe_def)
  have texts: "stripped_field (payload_dict p) ''mode'' = pp_mode p" "stripped_field (payload_dict p) ''version'' = pp_version p"
    "stripped_field (payload_dict p) ''source_project'' = pp_project p" "pp_version p = [] \<longrightarrow> pp_mode p = []" "pp_project p \<noteq> []"
    using assms(2) by (auto simp: settled_texts_def stripped_field_def payload_lookups)
  have sz: "pool_size_of (payload_dict p) (int (length (pp_symbols p))) = (pp_size p, [])"
    by (simp add: pool_size_of_def payload_lookups)
  have date: "parse_trend_pool_date (PStr (date_text (date_of_day day))) = Some day" using pool_date_text [OF day(1,2)] .
  obtain w where w: "pool_mode (tp_modes cfg) (pp_mode p) = (pp_mode p, [], w)" using mode by blast
  show ?thesis
    using n day assms(4) nonempty texts
    by (cases "tp_size cfg = 0") (simp_all add: validate_trend_pool_payload_def map symbols payload_fields_def texts w sz same payload_lookups date Let_def)
qed

text \<open>
  C28. A pool that was accepted fresh and kept in the state is its own fallback: on every later day,
  under the same settings, the last good payload read back from the state is accepted with exactly the
  symbols, base assets, mode, version and date it was accepted with. Modes are configured without
  surrounding space.
\<close>

theorem last_good_pool_survives:
  assumes "validate_trend_pool_payload label now cfg True v = Inr c" and "pc_errors c = []" and "clean_modes cfg"
    and "dt_day now \<le> dt_day later"
  shows "\<exists>c'. get_last_known_good_trend_pool key
      (PDict (update_trend_pool_state render key (build_trend_pool_resolution c ''fresh_upstream'' False now messages) s)) later cfg = Inr c'
    \<and> pc_errors c' = [] \<and> pc_payload c' = pc_payload c"
  using payload_revalidates [OF accepted_contractual [OF assms(1,2)] accepted_settled [OF assms(1-3)] assms(3,4)]
  by (simp add: get_last_known_good_trend_pool_def update_trend_pool_state_def build_trend_pool_resolution_def Let_def)

lemma files_contractual:
  "try_files exc_text now cfg seen messages files = Inr r \<Longrightarrow>
     rs_kind r = ''local_file'' \<and> rs_degraded r \<and> contractual cfg (dt_day now) True (rs_payload r)"
proof (induction files arbitrary: seen messages)
  case (Cons f files)
  obtain path expanded content where f: "f = (path, expanded, content)" by (cases f) auto
  show ?case
  proof (cases "load_trend_pool_from_file exc_text now cfg path content")
    case (Checked c)
    then have "\<exists>v. validate_trend_pool_payload (''file:'' @ path) now cfg True v = Inr c"
      by (auto simp: load_trend_pool_from_file_def or_unread_def result_simps split: sum.splits option.splits)
    with Cons Checked f show ?thesis
      by (auto simp: build_trend_pool_resolution_def dest: accepted_contractual split: if_splits)
  qed (use Cons f in \<open>auto split: if_splits\<close>)
qed simp

lemma upstream_check:
  assumes "load_trend_pool_from_firestore src pd now = Checked c"
  shows "\<exists>label v. validate_trend_pool_payload label now (settings_of pd) True v = Inr c"
  using assms by (auto simp: load_trend_pool_from_firestore_def or_unread_def Let_def result_simps split: sum.splits option.splits)

text \<open>
  C29. Where a resolution comes from decides what it is. It is not degraded exactly when the upstream
  document was accepted, and then it is a fresh contractual pool; a local file is a fresh contractual
  pool too, the last good payload a contractual pool of any age; what remains is the built-in universe.
\<close>

theorem resolution_by_source:
  assumes "resolve_trend_pool_source src pd now state = Inr r"
  shows "(\<not> rs_degraded r \<longleftrightarrow> accepted_check (load_trend_pool_from_firestore src pd now) \<noteq> None)
    \<and> (case (rs_degraded r, rs_kind r = ''static'') of
         (False, _) \<Rightarrow> rs_kind r = ''fresh_upstream'' \<and> contractual (settings_of pd) (dt_day now) True (rs_payload r)
       | (True, True) \<Rightarrow> pp_map (rs_payload r) = pd_static pd
       | (True, False) \<Rightarrow> rs_kind r \<in> {''last_known_good'', ''local_file''}
           \<and> contractual (settings_of pd) (dt_day now) (rs_kind r = ''local_file'') (rs_payload r))"
proof (cases "accepted_check (load_trend_pool_from_firestore src pd now)")
  case (Some c)
  then have "load_trend_pool_from_firestore src pd now = Checked c" "pc_errors c = []"
    by (cases "load_trend_pool_from_firestore src pd now"; auto split: if_splits)+
  with Some assms upstream_check accepted_contractual show ?thesis
    by (fastforce simp: resolve_trend_pool_source_def build_trend_pool_resolution_def Let_def)
next
  case None
  obtain g where g: "get_last_known_good_trend_pool (pd_key pd) (if truthy state then state else PDict []) now (settings_of pd) = Inr g"
    using assms None by (auto simp: resolve_trend_pool_source_def Let_def result_simps)
  let ?m = "loaded_errors (load_trend_pool_from_firestore src pd now) @ loaded_warnings (load_trend_pool_from_firestore src pd now)"
  show ?thesis
  proof (cases "pc_errors g = []")
    case True
    with g have "contractual (settings_of pd) (dt_day now) False (pc_payload g)"
      by (auto simp: get_last_known_good_trend_pool_def dest: accepted_contractual)
    with True None assms g show ?thesis
      by (auto simp: resolve_trend_pool_source_def build_trend_pool_resolution_def Let_def)
  next
    case False
    with None assms g have r: "r = (case try_files (so_exc_text src) now (settings_of pd) [] (?m @ pc_errors g) (so_files src) of
                Inr r \<Rightarrow> r
              | Inl said \<Rightarrow> build_static_trend_pool_resolution (pd_static pd) now (said @ [Said ''trend_pool_fallback_static'' []]))"
      by (auto simp: resolve_trend_pool_source_def Let_def)
    show ?thesis
    proof (cases "try_files (so_exc_text src) now (settings_of pd) [] (?m @ pc_errors g) (so_files src)")
      case (Inl said)
      with r None show ?thesis by (simp add: build_static_trend_pool_resolution_def)
    next
      case (Inr r')
      with r None files_contractual [OF Inr] show ?thesis by simp
    qed
  qed
qed

text \<open>An upstream document with one symbol on the day after its date.\<close>

definition sample_settings :: pool_settings where
  "sample_settings = \<lparr>tp_max_age = 45, tp_modes = [''core''], tp_size = 1\<rparr>"

definition sample_pool :: pyval where
  "sample_pool = PDict [(''as_of_date'', PStr ''2026-01-02''), (''mode'', PStr '' core ''), (''symbols'', PList [PStr ''ETHUSDT'', PStr ''ETHUSDT''])]"

definition pool_day :: pydt where
  "pool_day = DT (day_number 2026 1 3 * us_per_day) (Some 0)"

definition sample_config :: pool_config where
  "sample_config = \<lparr>pd_getenv = \<lambda>_. None, pd_max_age = 45, pd_modes = [''core''], pd_size = 1, pd_collection = ''c'', pd_document = ''d'',
     pd_key = ''last'', pd_static = [(''ETHUSDT'', base_meta ''ETH'')]\<rparr>"

definition sample_sources :: pool_sources where
  "sample_sources = \<lparr>so_document = Inr (Some (the_dict sample_pool)), so_files = [], so_exc_text = \<lambda>_. []\<rparr>"

lemma sample_pool_accepted:
  "case validate_trend_pool_payload ''upstream'' pool_day sample_settings True sample_pool of Inr c \<Rightarrow> pc_errors c = [] | Inl e \<Rightarrow> False"
  by code_simp

theorem last_good_pool_survives_witness:
  "\<exists>c'. get_last_known_good_trend_pool ''last'' (PDict (update_trend_pool_state (\<lambda>_. []) ''last''
      (build_trend_pool_resolution (projr (validate_trend_pool_payload ''upstream'' pool_day sample_settings True sample_pool))
        ''fresh_upstream'' False pool_day []) [])) (DT (800000 * us_per_day) (Some 0)) sample_settings = Inr c' \<and> pc_errors c' = []"
proof -
  obtain c where c: "validate_trend_pool_payload ''upstream'' pool_day sample_settings True sample_pool = Inr c" "pc_errors c = []"
    using sample_pool_accepted by (auto split: sum.splits)
  have modes: "clean_modes sample_settings" by code_simp
  have days: "dt_day pool_day \<le> dt_day (DT (800000 * us_per_day) (Some 0))" by code_simp
  from last_good_pool_survives [OF c modes days, of "''last''" "\<lambda>_. []" "[]" "[]"] show ?thesis unfolding c(1) by auto
qed

theorem resolution_by_source_witness:
  "\<exists>r. resolve_trend_pool_source sample_sources sample_config pool_day PNone = Inr r \<and> \<not> rs_degraded r \<and> rs_kind r = ''fresh_upstream''"
proof -
  have acc: "accepted_check (load_trend_pool_from_firestore sample_sources sample_config pool_day) \<noteq> None" by code_simp
  then obtain r where r: "resolve_trend_pool_source sample_sources sample_config pool_day PNone = Inr r"
    by (auto simp: resolve_trend_pool_source_def)
  from resolution_by_source [OF r] acc r show ?thesis by auto
qed

end
