(* ===== verification/Scope_Safety.thy ===== *)
theory Scope_Safety
  imports State_Scope Execution_Safety
begin

text \<open>
  The universe of a rebased ledger is exactly the approved one: nothing outside it is traded or
  valued, and a position outside it stops the load.
\<close>

section \<open>The approved universe\<close>

definition trend_symbols :: "string list \<Rightarrow> string set" where
  "trend_symbols names = (\<lambda>a. a @ ''USDT'') ` (set names - set dedicated_assets)"

lemma symbols_allowed: "trend_symbols names = (\<lambda>a. a @ ''USDT'') ` set (filter (\<lambda>a. a \<notin> set dedicated_assets) names)"
  by (auto simp: trend_symbols_def)

lemma canonical_symbol: "canonical_trend_meta symbol meta = Inr a \<Longrightarrow> symbol = a @ ''USDT'' \<and> a \<notin> set dedicated_assets"
  by (auto simp: canonical_trend_meta_def result_simps split: pyval.splits)

lemma mapE_member: "mapE f xs = Inr ys \<Longrightarrow> x \<in> set xs \<Longrightarrow> \<exists>y. f x = Inr y"
  by (induction xs arbitrary: ys) (auto simp: result_simps)

lemma candidates_allowed:
  "foldE (candidate_entry raw allowed) acc resolved = Inr u \<Longrightarrow>
     fst ` set acc \<subseteq> (\<lambda>a. a @ ''USDT'') ` set allowed \<Longrightarrow> fst ` set u \<subseteq> (\<lambda>a. a @ ''USDT'') ` set allowed"
proof (induction resolved arbitrary: acc)
  case (Cons e resolved)
  obtain acc' where acc': "candidate_entry raw allowed acc e = Inr acc'" "foldE (candidate_entry raw allowed) acc' resolved = Inr u"
    using Cons.prems(1) by (auto simp: result_simps)
  have "acc' = acc \<or> (\<exists>a \<in> set allowed. acc' = AList.update (a @ ''USDT'') (snd e) acc)"
    using acc'(1) by (auto simp: candidate_entry_def result_simps dest!: canonical_symbol split: if_splits)
  then have "fst ` set acc' \<subseteq> (\<lambda>a. a @ ''USDT'') ` set allowed"
    using Cons.prems(2) by (elim disjE bexE) (simp_all add: update_keys)
  with Cons.IH acc'(2) show ?case by blast
qed simp

lemma valuation_keys: "fst ` set (foldl valuation_entry u names) = fst ` set u \<union> (\<lambda>a. a @ ''USDT'') ` set names"
  by (induction names arbitrary: u) (auto simp: valuation_entry_def)

lemma refused_foreign:
  assumes "mapE (refuse_foreign raw allowed) (state_symbols raw) = Inr us" and "symbol \<in> set (state_symbols raw)"
    and "has_active_symbol_state raw symbol \<noteq> Inr False"
  shows "symbol \<in> (\<lambda>a. a @ ''USDT'') ` set allowed"
proof -
  have "\<exists>u. refuse_foreign raw allowed symbol = Inr u"
    using mapE_member [OF assms(1,2)] .
  with assms(3) have a: "remove_suffix symbol ''USDT'' \<in> set allowed"
    by (auto simp: refuse_foreign_def result_simps split: if_splits)
  have "ends_with symbol ''USDT''" using assms(2) by (auto simp: state_symbols_def split: pyval.splits)
  then obtain t where "symbol = t @ ''USDT''" by (auto simp: ends_with_iff)
  with a show ?thesis by simp
qed

text \<open>The effective universe, and the positions it covers.\<close>

lemma prepared_exactly:
  assumes "prepare_rebased_universes raw resolved = Inr (candidates, effective)" and "rebased_approved_assets raw = Inr (Some names)"
  shows "fst ` set effective = trend_symbols names"
    and "symbol \<in> set (state_symbols raw) \<Longrightarrow> has_active_symbol_state raw symbol \<noteq> Inr False \<Longrightarrow> symbol \<in> fst ` set effective"
proof -
  let ?allowed = "filter (\<lambda>a. a \<notin> set dedicated_assets) names"
  obtain us u where r: "mapE (refuse_foreign raw ?allowed) (state_symbols raw) = Inr us"
    and u: "foldE (candidate_entry raw ?allowed) [] resolved = Inr u" "effective = foldl valuation_entry u (sort ?allowed)"
    using assms by (auto simp: prepare_rebased_universes_def Let_def result_simps)
  show keys: "fst ` set effective = trend_symbols names"
    using candidates_allowed [OF u(1)] by (auto simp: u(2) valuation_keys symbols_allowed)
  show "symbol \<in> fst ` set effective" if "symbol \<in> set (state_symbols raw)" "has_active_symbol_state raw symbol \<noteq> Inr False"
    using refused_foreign [OF r that] unfolding keys symbols_allowed .
qed

lemma checked_scope:
  assumes "check_rebased_asset_scope raw u = Inr ()" and "rebased_approved_assets raw = Inr (Some names)"
  shows "fst ` set u \<subseteq> trend_symbols names"
proof -
  obtain us where us: "mapE (\<lambda>(symbol, meta). bindE (canonical_trend_meta symbol meta) (\<lambda>a.
      ensure (a \<in> set names \<and> a \<notin> set dedicated_assets) scope_mismatch)) u = Inr us"
    using assms by (auto simp: check_rebased_asset_scope_def result_simps)
  have "symbol \<in> trend_symbols names" if "(symbol, meta) \<in> set u" for symbol meta
    using mapE_member [OF us that] by (auto simp: result_simps trend_symbols_def dest!: canonical_symbol)
  then show ?thesis by auto
qed

section \<open>A loaded state\<close>

lemma gating_returned: "record_gating_event g c s d w = (Inr u, t) \<Longrightarrow> \<exists>p. t = w\<lparr>rp := p\<rparr>"
  by (auto simp: record_gating_event_def returned)

lemma loaded_facts:
  assumes "load_cycle_state env render c resolve allow w = (Inr (Some cs), t)" and "env (trace w) LoadState = Inr (PDict raw)"
  shows "\<exists>resolved candidates. prepare_rebased_universes raw resolved = Inr (candidates, sc_universe (cs_config cs))
    \<and> check_rebased_asset_scope raw (cs_universe cs) = Inr ()
    \<and> resolve (PDict raw) = Inr (resolved, cs_resolution cs) \<and> cs_allow_new cs = (\<not> rs_degraded (cs_resolution cs) \<or> allow)
    \<and> cs_universe cs = get_runtime_trend_universe (cs_config cs) (heap t (cs_state cs))
    \<and> (live w \<longrightarrow> acknowledged (heap t (cs_state cs)) None t)"
proof -
  note saved = wp_result [OF set_state_saved]
  show ?thesis
    using assms
    by (auto simp: load_cycle_state_def returned Let_def split: prod.splits if_splits option.splits
        dest!: gating_returned saved simp: state_saved_def live_def acknowledged_def)
qed

lemma universe_kept: "fst ` set (sc_universe c) \<subseteq> fst ` set (get_runtime_trend_universe c s)"
proof -
  have "fst ` set u \<subseteq> fst ` set (foldl (\<lambda>u (k, payload). if map_of u k \<noteq> None then u else u @ [(k, f k payload)]) u xs)"
    for u :: universe and f and xs :: pydict
  proof (induction xs arbitrary: u)
    case (Cons x xs)
    obtain k v where "x = (k, v)" by fastforce
    then show ?case using Cons [of u] Cons [of "u @ [(k, f k v)]"] by auto
  qed simp
  then show ?thesis by (simp add: get_runtime_trend_universe_def)
qed

text \<open>
  C30. A cycle that loads a rebased ledger trades and values exactly the approved assets: its universe,
  and the one the state functions read, consist of the approved trend symbols; every symbol with an
  active position in the stored state is among them; and outside a dry run the loaded state with its
  refreshed pool was saved.
\<close>

theorem loaded_state_in_scope:
  assumes "load_cycle_state env render c resolve allow w = (Inr (Some cs), t)" and "env (trace w) LoadState = Inr (PDict raw)"
    and "rebased_approved_assets raw = Inr (Some names)"
  shows "fst ` set (cs_universe cs) = trend_symbols names \<and> fst ` set (sc_universe (cs_config cs)) = trend_symbols names
    \<and> (\<forall>symbol \<in> set (state_symbols raw). has_active_symbol_state raw symbol \<noteq> Inr False \<longrightarrow> symbol \<in> fst ` set (cs_universe cs))
    \<and> (live w \<longrightarrow> acknowledged (heap t (cs_state cs)) None t)"
proof -
  obtain resolved candidates where p: "prepare_rebased_universes raw resolved = Inr (candidates, sc_universe (cs_config cs))"
    and k: "check_rebased_asset_scope raw (cs_universe cs) = Inr ()"
    and u: "cs_universe cs = get_runtime_trend_universe (cs_config cs) (heap t (cs_state cs))"
    and s: "live w \<longrightarrow> acknowledged (heap t (cs_state cs)) None t"
    using loaded_facts [OF assms(1,2)] by blast
  note eff = prepared_exactly [OF p assms(3)]
  have "fst ` set (cs_universe cs) = trend_symbols names"
    using checked_scope [OF k assms(3)] universe_kept [of "cs_config cs" "heap t (cs_state cs)"] eff(1) u by auto
  with eff s show ?thesis by auto
qed

text \<open>A rebased ledger with one approved trend asset, loaded in a dry run.\<close>

definition rebased_ledger :: pydict where
  "rebased_ledger = [(''accounting_rebase'', PDict []), (''last_balance_snapshot'',
     PDict (map (\<lambda>a. (a, PInt 0)) [''USDT'', ''BTC'', ''BNB'', ''ETH''])), (''ETHUSDT'', PDict [(''is_holding'', PBool True)])]"

definition ledger_env :: env where
  "ledger_env h c = (case c of LoadState \<Rightarrow> Inr (PDict rebased_ledger) | _ \<Rightarrow> Inl TypeError)"

definition dry_world :: world where
  "dry_world = (sample_world [])\<lparr>rt := sample_runtime\<lparr>rt_dry_run := True\<rparr>\<rparr>"

definition ledger_resolve :: "pyval \<Rightarrow> pyexc + universe \<times> resolution" where
  "ledger_resolve v = Inr ([(''ETHUSDT'', base_meta ''ETH''), (''SOLUSDT'', base_meta ''SOL'')],
     build_static_trend_pool_resolution [] (DT 0 (Some 0)) [])"

lemma ledger_loads:
  "case load_cycle_state ledger_env (\<lambda>_. []) sample_state_config ledger_resolve True dry_world of
     (Inr (Some cs), t) \<Rightarrow> True | _ \<Rightarrow> False"
  by code_simp

lemma loaded_state_in_scope_witness:
  "\<exists>cs t. load_cycle_state ledger_env (\<lambda>_. []) sample_state_config ledger_resolve True dry_world = (Inr (Some cs), t)
     \<and> fst ` set (cs_universe cs) = {''ETHUSDT''}"
proof -
  obtain cs t where run: "load_cycle_state ledger_env (\<lambda>_. []) sample_state_config ledger_resolve True dry_world = (Inr (Some cs), t)"
    using ledger_loads by (auto split: prod.splits sum.splits option.splits)
  have raw: "ledger_env (trace dry_world) LoadState = Inr (PDict rebased_ledger)" by (simp add: ledger_env_def)
  have names: "rebased_approved_assets rebased_ledger = Inr (Some [''USDT'', ''BTC'', ''BNB'', ''ETH''])" by code_simp
  have "trend_symbols [''USDT'', ''BTC'', ''BNB'', ''ETH''] = {''ETHUSDT''}"
    by (auto simp: trend_symbols_def dedicated_assets_def)
  with loaded_state_in_scope [OF run raw names] run show ?thesis by auto
qed

end
