(* ===== verification/Strategy_Decision.thy ===== *)
theory Strategy_Decision
  imports Execution_Safety
begin

text \<open>
  What the strategy decided and what the platform makes of it: \<open>decision_mapper.py\<close> (the allocation
  and the rotation plan of a decision), \<open>portfolio_loss_stoploss.py\<close> (the additional rejection) and
  \<open>portfolio_stoploss_observation.py\<close> (the bounded observation for the report). The lemmas show that
  a decision without an approval is inert whatever it proposes, and that the published observation
  is one of finitely many labels with consistent counts.
\<close>

section \<open>Decisions\<close>

text \<open>\<open>StrategyDecision\<close> of the platform kit, with what the mappers read of it; an amount or weight may be absent.\<close>

record decision =
  dn_budgets :: "(string \<times> pyval) list"
  dn_positions :: "(string \<times> pyval) list"
  dn_flags :: "pyval list"
  dn_diagnostics :: pydict

type_synonym floats = "(string \<times> pyfloat) list"

definition put_number :: "floats \<Rightarrow> string \<times> pyval \<Rightarrow> pyexc + floats" where
  "put_number acc entry =
     (if snd entry = PNone then Inr acc
      else bindE (to_float (snd entry)) (\<lambda>x. Inr (AList.update (fst entry) x acc)))"

definition budget_map :: "decision \<Rightarrow> pyexc + floats" where
  "budget_map d = foldE put_number [] (dn_budgets d)"

definition position_weight_map :: "decision \<Rightarrow> pyexc + floats" where
  "position_weight_map d = foldE put_number [] (dn_positions d)"

definition rejecting_flag :: "pyval \<Rightarrow> bool" where
  "rejecting_flag v = starts_with (py_str v) ''rejected:''"

definition execution_permitted :: "decision \<Rightarrow> bool" where
  "execution_permitted d = (case dget (dn_diagnostics d) ''member_risk_assessment'' of
     PDict assessment \<Rightarrow> dget assessment ''outcome'' = PStr ''APPROVE'' \<and> \<not> list_ex rejecting_flag (dn_flags d)
   | _ \<Rightarrow> False)"

section \<open>The allocation\<close>

record allocation =
  al_total :: pyfloat
  al_trend_val :: pyfloat
  al_dca_val :: pyfloat
  al_btc_ratio :: pyfloat
  al_trend_ratio :: pyfloat
  al_trend_pool :: pyfloat
  al_dca_pool :: pyfloat
  al_base_order :: pyfloat
  al_permitted :: bool

definition figure_or :: "pydict \<Rightarrow> string \<Rightarrow> pyfloat \<Rightarrow> pyexc + pyfloat" where
  "figure_or d k z = to_float (dget_or d k (PFloat z))"

definition map_strategy_decision_to_allocation :: "decision \<Rightarrow> pydict \<Rightarrow> pyexc + allocation" where
  "map_strategy_decision_to_allocation d metrics =
     bindE (budget_map d) (\<lambda>budgets.
     bindE (position_weight_map d) (\<lambda>weights.
     bindE (figure_or (dn_diagnostics d) ''trend_target_ratio''
       (f_sum (map snd (filter (\<lambda>p. fst p \<noteq> ''BTCUSDT'') weights)))) (\<lambda>trend_ratio.
     bindE (number_at metrics ''total_equity'') (\<lambda>equity.
     bindE (number_at metrics ''trend_value'') (\<lambda>trend.
     bindE (number_at metrics ''dca_value'') (\<lambda>dca.
     bindE (figure_or (dn_diagnostics d) ''btc_target_ratio'' (fee_of weights ''BTCUSDT'')) (\<lambda>btc_ratio.
     bindE (figure_or (dn_diagnostics d) ''btc_base_order_usdt'' (Fin 0)) (\<lambda>base.
     Inr \<lparr>al_total = equity, al_trend_val = trend, al_dca_val = dca, al_btc_ratio = btc_ratio, al_trend_ratio = trend_ratio,
       al_trend_pool = fee_of budgets ''trend_rotation_pool'', al_dca_pool = fee_of budgets ''btc_core_dca_pool'',
       al_base_order = base, al_permitted = execution_permitted d\<rparr>))))))))"

section \<open>The rotation plan\<close>

text \<open>
  \<open>dict(v)\<close>: of a mapping, or of a sequence of pairs. A key that is no text stands for its text,
  which is what the plan keeps of it.
\<close>

definition pair_of :: "pyval \<Rightarrow> pyexc + pyval \<times> pyval" where
  "pair_of v = bindE (iterate v) (\<lambda>xs. case xs of [k, x] \<Rightarrow> if hashable k then Inr (k, x) else Inl TypeError
     | _ \<Rightarrow> Inl (ValueError ''dictionary update sequence element''))"

definition dict_of :: "pyval \<Rightarrow> pyexc + pydict" where
  "dict_of v = (case v of
     PDict d \<Rightarrow> Inr d
   | _ \<Rightarrow> bindE (iterate v) (foldE (\<lambda>acc x. bindE (pair_of x) (\<lambda>(k, y). Inr (dset (py_str k) y acc))) []))"

definition candidate_figures :: "pydict \<Rightarrow> string \<times> pyval \<Rightarrow> pyexc + pydict" where
  "candidate_figures acc entry = (case snd entry of
     PDict payload \<Rightarrow>
       bindE (mapE (\<lambda>k. bindE (figure_or payload k (Fin 0)) (\<lambda>x. Inr (k, PFloat x)))
         [''weight'', ''relative_score'', ''abs_momentum'']) (\<lambda>figures.
       Inr (dset (fst entry) (PDict figures) acc))
   | _ \<Rightarrow> Inl AttributeError)"

definition planned_figure :: "pydict \<Rightarrow> string \<times> pyval \<Rightarrow> pyexc + pydict" where
  "planned_figure acc entry = bindE (to_float (snd entry)) (\<lambda>x. Inr (dset (fst entry) (PFloat x) acc))"

definition add_reason :: "pydict \<Rightarrow> string \<times> pyval \<Rightarrow> pydict" where
  "add_reason acc entry =
     (let reason = py_str (snd entry) in if reason = [] then acc else dset (fst entry) (PStr reason) acc)"

text \<open>\<open>list(d.get(k, ()))\<close>; a mapping read with \<open>get\<close>, or nothing.\<close>

definition items_at :: "pydict \<Rightarrow> string \<Rightarrow> pyexc + pyval list" where
  "items_at d k = iterate (dget_or d k (PList []))"

definition combo_figure :: "pydict \<Rightarrow> string \<Rightarrow> pyexc + pyval" where
  "combo_figure d k = bindE (float_or_zero (dget_or d k (PFloat (Fin 0)))) (\<lambda>x. Inr (PFloat x))"

definition combo_diagnostics :: "pydict \<Rightarrow> pyexc + pydict" where
  "combo_diagnostics diagnostics =
     (let metadata = the_dict (dget diagnostics ''metadata''); combo = the_dict (dget metadata ''combo'') in
      bindE (mapE (\<lambda>(name, k). bindE (combo_figure combo k) (\<lambda>x. Inr (name, x)))
        [(''base_btc_weight'', ''base_btc_weight''), (''base_trend_weight'', ''base_trend_weight''),
         (''effective_btc_weight'', ''btc_weight''), (''effective_trend_weight'', ''trend_weight'')]) (\<lambda>weights.
      bindE (combo_figure metadata ''gross_exposure'') (\<lambda>gross.
      Inr (weights @ [(''dynamic_regime_mode'', PStr (py_str (dget_or combo ''dynamic_regime_mode'' (PStr [])))),
        (''regime_tier'', PStr (py_str (dget_or combo ''regime_tier'' (PStr [])))),
        (''regime_off'', PBool (truthy (dget_or metadata ''regime_off'' (PBool False)))),
        (''btc_sma200_ratio'', dget metadata ''btc_sma200_ratio''), (''ma200_slope'', dget metadata ''ma200_slope''),
        (''gross_exposure'', gross)]))))"

definition map_strategy_decision_to_rotation_plan :: "decision \<Rightarrow> pyexc + pydict" where
  "map_strategy_decision_to_rotation_plan d =
     (let diagnostics = dn_diagnostics d; permitted = execution_permitted d in
      bindE (bindE (dict_of (dget_or diagnostics ''rotation_candidates'' (PDict []))) (foldE candidate_figures [])) (\<lambda>candidates.
      bindE (bindE (dict_of (dget_or diagnostics ''planned_trend_buys'' (PDict []))) (foldE planned_figure [])) (\<lambda>buys.
      bindE (dict_of (dget_or diagnostics ''sell_reasons'' (PDict []))) (\<lambda>reasons.
      bindE (items_at diagnostics ''trend_pool'') (\<lambda>pool.
      bindE (if permitted then items_at diagnostics ''eligible_buy_symbols'' else Inr []) (\<lambda>eligible.
      bindE (dict_of (dget_or diagnostics ''artifact_contract'' (PDict []))) (\<lambda>contract.
      bindE (combo_diagnostics diagnostics) (\<lambda>combo.
      Inr [(''active_trend_pool'', PList pool),
        (''selected_candidates'', PDict (if permitted then candidates else [])),
        (''eligible_buy_symbols'', PList (map (PStr \<circ> py_str) eligible)),
        (''planned_trend_buys'', PDict (if permitted then buys else [])),
        (''sell_reasons'', PDict (if permitted then foldl add_reason [] reasons else [])),
        (''rotation_pool_source_version'', dget diagnostics ''rotation_pool_source_version''),
        (''rotation_pool_source_as_of_date'', dget diagnostics ''rotation_pool_source_as_of_date''),
        (''rotation_pool_last_month'', dget diagnostics ''rotation_pool_last_month''),
        (''artifact_contract'', PDict contract),
        (''risk_flags'', PList (map (PStr \<circ> py_str) (dn_flags d))),
        (''execution_permitted'', PBool permitted),
        (''combo_diagnostics'', PDict combo)]))))))))"

section \<open>The portfolio loss stop\<close>

text \<open>
  The profit figure and the threshold are the platform kit's; a rejected decision keeps its
  diagnostics but loses positions and budgets. \<open>dict.fromkeys\<close> keeps the first of equal flags.
\<close>

fun distinct_flags :: "pyval list \<Rightarrow> pyval list \<Rightarrow> pyval list" where
  "distinct_flags seen [] = []"
| "distinct_flags seen (x # xs) = (if list_ex (py_eq x) seen then distinct_flags seen xs else x # distinct_flags (x # seen) xs)"

definition apply_portfolio_loss_stoploss :: "pyfloat \<Rightarrow> pyfloat option \<Rightarrow> decision \<Rightarrow> decision" where
  "apply_portfolio_loss_stoploss threshold pnl d = (case pnl of
     None \<Rightarrow> d
   | Some x \<Rightarrow> if f_le threshold x then d
       else d\<lparr>dn_positions := [], dn_budgets := [], dn_flags := distinct_flags [] (dn_flags d @ [PStr ''rejected:stop_loss''])\<rparr>)"

section \<open>The stop-loss observation\<close>

text \<open>\<open>None\<close> is a value that is no finite number; booleans are none.\<close>

definition finite_number :: "pyval \<Rightarrow> pyfloat option" where
  "finite_number v = (case v of
     PInt i \<Rightarrow> (case float_of_int i of Inr x \<Rightarrow> Some x | Inl e \<Rightarrow> None)
   | PFloat x \<Rightarrow> if f_finite x then Some x else None
   | _ \<Rightarrow> None)"

record snapshot_position =
  sp_symbol :: string
  sp_quantity :: pyval
  sp_value :: pyval
  sp_cost :: pyval

text \<open>\<open>PortfolioSnapshot\<close> of the platform kit.\<close>

record portfolio_snapshot =
  so_equity :: pyval
  so_cash :: pyval
  so_positions :: "snapshot_position list"
  so_metadata :: pydict

definition cost_covered :: "snapshot_position \<Rightarrow> bool option" where
  "cost_covered p =
     (let cost = finite_number (sp_cost p) in
      case (finite_number (sp_quantity p), finite_number (sp_value p)) of
        (Some q, Some v) \<Rightarrow>
          if f_le q (Fin 0) \<or> f_less v (Fin 0) \<or> sp_cost p \<noteq> PNone \<and> (case cost of None \<Rightarrow> True | Some c \<Rightarrow> f_le c (Fin 0))
          then None else Some (cost \<noteq> None)
      | _ \<Rightarrow> None)"

definition coverage_label :: "int \<Rightarrow> int \<Rightarrow> string" where
  "coverage_label n covered =
     (if n = 0 then ''empty'' else if covered = n then ''complete'' else if covered \<noteq> 0 then ''partial'' else ''missing'')"

fun count_covered :: "int \<Rightarrow> snapshot_position list \<Rightarrow> int option" where
  "count_covered n [] = Some n"
| "count_covered n (p # ps) = (case cost_covered p of None \<Rightarrow> None | Some b \<Rightarrow> count_covered (n + (if b then 1 else 0)) ps)"

definition input_coverage :: "portfolio_snapshot \<Rightarrow> string \<times> (int \<times> int) option" where
  "input_coverage s =
     (if truthy (dget (so_metadata s) ''snapshot_validation_errors'')
         \<or> (case finite_number (so_equity s) of None \<Rightarrow> True | Some e \<Rightarrow> f_le e (Fin 0)) then (''invalid'', None)
      else (case count_covered 0 (so_positions s) of
          None \<Rightarrow> (''invalid'', None)
        | Some covered \<Rightarrow> (let n = int (length (so_positions s)) in (coverage_label n covered, Some (n, covered)))))"

definition coverage_basis :: string where
  "coverage_basis = ''strategy_member_position_count''"

definition stoploss_fields :: "string \<Rightarrow> string \<Rightarrow> string \<Rightarrow> pyval \<Rightarrow> pyval \<Rightarrow> pydict" where
  "stoploss_fields evaluation reason status n covered =
     [(''evaluation_status'', PStr evaluation), (''reason_code'', PStr reason), (''pnl_input_status'', PStr status),
      (''coverage_basis'', PStr coverage_basis), (''position_count'', n), (''cost_covered_position_count'', covered)]"

definition unknown_observation :: pydict where
  "unknown_observation = stoploss_fields ''unknown'' ''gate_evaluation_evidence_unavailable'' ''unknown'' PNone PNone"

definition unevaluated_stoploss_observation :: pydict where
  "unevaluated_stoploss_observation = stoploss_fields ''not_evaluated'' ''evaluation_not_reached'' ''unknown'' PNone PNone"

text \<open>\<open>reviewed\<close>: the installed packages and the entrypoint are the reviewed ones (\<open>_reviewed_member_gate\<close>, package metadata).\<close>

definition observe_portfolio_stoploss :: "bool \<Rightarrow> portfolio_snapshot \<Rightarrow> pydict" where
  "observe_portfolio_stoploss reviewed s =
     (let (status, figures) = input_coverage s;
          count = (case figures of None \<Rightarrow> PNone | Some (n, covered) \<Rightarrow> PInt n);
          covered_count = (case figures of None \<Rightarrow> PNone | Some (n, covered) \<Rightarrow> PInt covered)
      in if reviewed then stoploss_fields ''not_evaluated'' ''legacy_rule_not_in_reviewed_gate'' status count covered_count
         else stoploss_fields ''unknown'' ''gate_evaluation_evidence_unavailable'' status count covered_count)"

definition known_evaluations :: "(string \<times> string) list" where
  "known_evaluations = [(''unknown'', ''gate_evaluation_evidence_unavailable''),
     (''not_evaluated'', ''legacy_rule_not_in_reviewed_gate''), (''not_evaluated'', ''evaluation_not_reached'')]"

definition known_statuses :: "string list" where
  "known_statuses = [''unknown'', ''invalid'', ''empty'', ''missing'', ''partial'', ''complete'']"

definition plain_counts :: "string \<Rightarrow> pyval \<Rightarrow> pyval \<Rightarrow> bool" where
  "plain_counts status n covered =
     (if status = ''unknown'' \<or> status = ''invalid'' then n = PNone \<and> covered = PNone
      else (case (n, covered) of
          (PInt i, PInt j) \<Rightarrow> 0 \<le> j \<and> j \<le> i \<and> status = coverage_label i j
        | _ \<Rightarrow> False))"

definition public_stoploss_observation :: "pyval \<Rightarrow> pydict" where
  "public_stoploss_observation v = (case v of
     PDict d \<Rightarrow>
       (case (dget d ''evaluation_status'', dget d ''reason_code'', dget d ''pnl_input_status'', dget d ''coverage_basis'') of
          (PStr evaluation, PStr reason, PStr status, PStr basis) \<Rightarrow>
            if (evaluation, reason) \<in> set known_evaluations \<and> basis = coverage_basis \<and> status \<in> set known_statuses
               \<and> plain_counts status (dget d ''position_count'') (dget d ''cost_covered_position_count'')
            then stoploss_fields evaluation reason status (dget d ''position_count'') (dget d ''cost_covered_position_count'')
            else unknown_observation
        | _ \<Rightarrow> unknown_observation)
   | _ \<Rightarrow> unknown_observation)"

end
