(* ===== verification/Risk_Authority.thy ===== *)
theory Risk_Authority
  imports Time_Text Json_Text
begin

text \<open>
  \<open>live_risk_authority.py\<close>: the externally approved risk mandate. A file is loaded against the
  digest the operator configured, the runtime target and the revisions of the running code; before
  every evaluation the mandate is bound to the inputs of that cycle. What comes from outside (file,
  environment, the revisions of the installed packages and of the checkout, the clock) is an
  argument, as is the digest that the platform kit gives a candidate identity. All refusals are
  \<open>LiveRiskAuthorityError\<close>s, here \<open>RiskAuthorityInvalid\<close> with the reason.
\<close>

section \<open>Checks on single values\<close>

abbreviation refuse :: "string \<Rightarrow> pyexc" where
  "refuse reason \<equiv> RiskAuthorityInvalid reason"

definition invalid_field :: "string \<Rightarrow> pyexc" where
  "invalid_field name = refuse (''invalid '' @ name)"

definition lower_hex :: "nat \<Rightarrow> string \<Rightarrow> bool" where
  "lower_hex n s = (length s = n \<and> list_all is_hex_lower s)"

definition digest_field :: "string \<Rightarrow> string \<Rightarrow> pyexc + string" where
  "digest_field name s = bindE (ensure (lower_hex 64 s) (invalid_field name)) (\<lambda>_. Inr s)"

definition revision_field :: "string \<Rightarrow> string \<Rightarrow> pyexc + string" where
  "revision_field name s = bindE (ensure (lower_hex 40 s) (invalid_field name)) (\<lambda>_. Inr s)"

text \<open>\<open>_finite\<close>; an integer beyond binary64 raises \<open>OverflowError\<close>, which is not caught.\<close>

definition finite_field :: "string \<Rightarrow> pyfloat option \<Rightarrow> pyfloat option \<Rightarrow> pyval \<Rightarrow> pyexc + pyfloat" where
  "finite_field name low high v =
     bindE (ensure (\<not> is_bool v) (invalid_field name)) (\<lambda>_.
     bindE (catchE (to_float v) (\<lambda>e. Inl (if e = TypeError \<or> is_value_error e then invalid_field name else e))) (\<lambda>x.
     bindE (ensure (f_finite x \<and> (case low of Some l \<Rightarrow> \<not> f_less x l | None \<Rightarrow> True)
       \<and> (case high of Some h \<Rightarrow> \<not> f_less h x | None \<Rightarrow> True)) (invalid_field name)) (\<lambda>_. Inr x)))"

definition utc_field :: "string \<Rightarrow> pyval \<Rightarrow> pyexc + pydt" where
  "utc_field name v = (case v of
     PStr s \<Rightarrow> (case parse_stamp s of
         Inr t \<Rightarrow> bindE (ensure (dt_offset t = Some 0) (invalid_field name)) (\<lambda>_. to_utc t)
       | Inl e \<Rightarrow> Inl (if is_value_error e then invalid_field name else e))
   | _ \<Rightarrow> Inl (invalid_field name))"

section \<open>The file\<close>

text \<open>What \<open>lstat\<close> and \<open>read_bytes\<close> give: nothing readable, something that is no regular file, or a size and the content.\<close>

datatype authority_file = Unreadable | Irregular | Regular int "string option"

definition regular_file_bytes :: "authority_file \<Rightarrow> pyexc + string" where
  "regular_file_bytes f = (case f of
     Unreadable \<Rightarrow> Inl (refuse ''authority file cannot be read'')
   | Irregular \<Rightarrow> Inl (refuse ''authority file must be a regular non-symlink file'')
   | Regular size_bytes content \<Rightarrow>
       bindE (ensure (0 < size_bytes \<and> size_bytes \<le> 64 * 1024) (refuse ''authority file size is invalid'')) (\<lambda>_.
       case content of
         None \<Rightarrow> Inl (refuse ''authority file cannot be read'')
       | Some raw \<Rightarrow> bindE (ensure (int (length raw) = size_bytes) (refuse ''authority file changed while reading'')) (\<lambda>_. Inr raw)))"

text \<open>
  \<open>_strict_json\<close>: as \<open>json_loads\<close>, but a repeated key of an object and the words for NaN and the
  infinities are refused when the reader meets them.
\<close>

definition bad_json :: pyexc where
  "bad_json = refuse ''invalid authority JSON''"

definition strict_word :: "string \<Rightarrow> pyexc + (pyval \<times> string)" where
  "strict_word s = (case json_word json_words s of
     Some (v, r) \<Rightarrow> bindE (ensure (json_plain v) (refuse ''non-finite JSON value'')) (\<lambda>_. Inr (v, r))
   | None \<Rightarrow> (case json_number s of Some r \<Rightarrow> Inr r | None \<Rightarrow> Inl bad_json))"

definition strict_object :: "pydict \<Rightarrow> pyexc + pydict" where
  "strict_object d = bindE (ensure (distinct (map fst d)) (refuse ''duplicate authority field'')) (\<lambda>_. Inr d)"

fun strict_value :: "nat \<Rightarrow> string \<Rightarrow> pyexc + (pyval \<times> string)"
  and strict_list :: "nat \<Rightarrow> string \<Rightarrow> pyexc + (pyval list \<times> string)"
  and strict_members :: "nat \<Rightarrow> pydict \<Rightarrow> string \<Rightarrow> pyexc + (pydict \<times> string)" where
  "strict_value 0 s = Inl bad_json"
| "strict_value (Suc n) s = (case s of
     [] \<Rightarrow> Inl bad_json
   | c # t \<Rightarrow>
       if c = chr 34 then (case json_text t of Some (x, r) \<Rightarrow> Inr (PStr x, r) | None \<Rightarrow> Inl bad_json)
       else if c = CHR ''['' then
         (case skip_space t of
            d # r \<Rightarrow> if d = CHR '']'' then Inr (PList [], r)
              else bindE (strict_list n (d # r)) (\<lambda>(xs, r). Inr (PList xs, r))
          | [] \<Rightarrow> Inl bad_json)
       else if c = CHR ''{'' then
         (case skip_space t of
            d # r \<Rightarrow> if d = CHR ''}'' then Inr (PDict [], r)
              else bindE (strict_members n [] (d # r)) (\<lambda>(xs, r). Inr (PDict xs, r))
          | [] \<Rightarrow> Inl bad_json)
       else strict_word s)"
| "strict_list 0 s = Inl bad_json"
| "strict_list (Suc n) s = bindE (strict_value n s) (\<lambda>(x, r).
     case skip_space r of
       d # r \<Rightarrow> if d = CHR '']'' then Inr ([x], r)
         else if d = CHR '','' then bindE (strict_list n (skip_space r)) (\<lambda>(xs, r). Inr (x # xs, r))
         else Inl bad_json
     | [] \<Rightarrow> Inl bad_json)"
| "strict_members 0 acc s = Inl bad_json"
| "strict_members (Suc n) acc s = (case s of
     [] \<Rightarrow> Inl bad_json
   | q # t \<Rightarrow> if q \<noteq> chr 34 then Inl bad_json
       else (case json_text t of
         None \<Rightarrow> Inl bad_json
       | Some (k, r) \<Rightarrow> (case skip_space r of
           [] \<Rightarrow> Inl bad_json
         | d # r \<Rightarrow> if d \<noteq> CHR '':'' then Inl bad_json
             else bindE (strict_value n (skip_space r)) (\<lambda>(v, r).
               case skip_space r of
                 d # r \<Rightarrow> if d = CHR ''}'' then bindE (strict_object (acc @ [(k, v)])) (\<lambda>xs. Inr (xs, r))
                   else if d = CHR '','' then strict_members n (acc @ [(k, v)]) (skip_space r) else Inl bad_json
               | [] \<Rightarrow> Inl bad_json))))"

definition strict_json :: "string \<Rightarrow> pyexc + pydict" where
  "strict_json s =
     bindE (strict_value (2 * length s + 1) (skip_space s)) (\<lambda>(v, r).
     bindE (ensure (skip_space r = []) bad_json) (\<lambda>_.
     case v of PDict d \<Rightarrow> Inr d | _ \<Rightarrow> Inl (refuse ''authority JSON must be an object'')))"

section \<open>The runtime target\<close>

text \<open>\<open>RuntimeTarget\<close> of the platform kit.\<close>

record runtime_target =
  tg_platform :: pyval
  tg_profile :: pyval
  tg_scope :: pyval
  tg_selector :: "pyval list"
  tg_deployment :: pyval

definition target_fields :: "string list" where
  "target_fields = [''platform_id'', ''strategy_profile'', ''account_scope'', ''account_selector'', ''deployment_selector'']"

definition ambiguous_part :: "pyval \<Rightarrow> bool" where
  "ambiguous_part v = (case v of PStr s \<Rightarrow> strip s = [] \<or> s = ''default'' | _ \<Rightarrow> True)"

definition target_binding :: "runtime_target option \<Rightarrow> pyexc + pydict" where
  "target_binding target = (case target of
     None \<Rightarrow> Inl (refuse ''runtime target is missing'')
   | Some t \<Rightarrow>
       (let parts = map py_str [tg_platform t, tg_profile t, tg_scope t, tg_deployment t] in
        bindE (ensure (list_all (\<lambda>s. s \<noteq> [] \<and> s \<noteq> ''None'') parts) (refuse ''runtime target identity is incomplete'')) (\<lambda>_.
        bindE (ensure (parts ! 2 \<noteq> ''default'' \<and> tg_selector t \<noteq> [] \<and> list_all (\<lambda>v. \<not> ambiguous_part v) (tg_selector t))
          (refuse ''runtime target account identity is ambiguous'')) (\<lambda>_.
        Inr [(''platform_id'', PStr (parts ! 0)), (''strategy_profile'', PStr (parts ! 1)), (''account_scope'', PStr (parts ! 2)),
          (''account_selector'', PList (tg_selector t)), (''deployment_selector'', PStr (parts ! 3))]))))"

definition validate_target_binding :: "pyval \<Rightarrow> runtime_target option \<Rightarrow> pyexc + pydict" where
  "validate_target_binding v target = (case v of
     PDict d \<Rightarrow>
       bindE (ensure (keys_are d target_fields) (refuse ''runtime target binding is invalid'')) (\<lambda>_.
       bindE (target_binding target) (\<lambda>expected.
       let actual = map (\<lambda>k. (k, dget d k)) target_fields in
       bindE (ensure (is_list (dget d ''account_selector'') \<and> py_eq (PDict actual) (PDict expected)) (refuse ''runtime target mismatch'')) (\<lambda>_.
       Inr actual)))
   | _ \<Rightarrow> Inl (refuse ''runtime target binding is invalid''))"

section \<open>The mandate\<close>

definition required_mandate_fields :: "string list" where
  "required_mandate_fields = [''mandate_id'', ''mandate_version'', ''effective_at'', ''expires_at'', ''max_snapshot_age_seconds'',
     ''effective_exposure_cap'', ''product_caps'', ''nominal_caps'', ''product_leverage_factors'', ''allowed_nonzero_assets'']"

definition optional_mandate_fields :: "string list" where
  "optional_mandate_fields = [''product_effective_caps'', ''max_nonzero_assets'', ''budget_policy'', ''validity_mode'', ''loss_budget'']"

definition forbidden_authority_fields :: "string list" where
  "forbidden_authority_fields = [''no_live'', ''no_order'', ''no_paper'', ''no_shadow'', ''research_only'', ''paper_only'']"

definition fixed_expiry :: pyval where "fixed_expiry = PStr ''fixed_expiry''"
definition until_revoked :: pyval where "until_revoked = PStr ''until_revoked''"

definition validity_mode :: "pydict \<Rightarrow> pyexc + pyval" where
  "validity_mode m =
     (let v = dget_or m ''validity_mode'' fixed_expiry in
      if \<not> hashable v then Inl TypeError
      else bindE (ensure (v = fixed_expiry \<or> v = until_revoked) (refuse ''invalid validity mode'')) (\<lambda>_. Inr v))"

definition not_in_force :: pyexc where
  "not_in_force = refuse ''authority expired or not yet effective''"

definition check_window :: "pydict \<Rightarrow> pydt \<Rightarrow> pyexc + unit" where
  "check_window m now =
     bindE (bindE (dsub m ''effective_at'') (utc_field ''effective_at'')) (\<lambda>effective.
     bindE (validity_mode m) (\<lambda>mode.
     bindE (if mode = until_revoked then
              ensure (dget m ''expires_at'' = PNone) (refuse ''until-revoked authority must not contain expires_at'')
            else bindE (utc_field ''expires_at'' (dget m ''expires_at'')) (\<lambda>expires.
              ensure (dt_utc effective < dt_utc expires \<and> dt_utc now < dt_utc expires) not_in_force)) (\<lambda>_.
     ensure (dt_utc effective \<le> dt_utc now) not_in_force)))"

definition dynamic_policy :: "pyval \<Rightarrow> pyexc + unit" where
  "dynamic_policy v = ensure (is_dict v \<and> keys_are (the_dict v) [''mode''] \<and> dget (the_dict v) ''mode'' = PStr ''managed_usdt_dynamic'')
     (refuse ''invalid budget policy'')"

definition check_budget :: "pydict \<Rightarrow> pyexc + unit" where
  "check_budget m = (let policy = dget m ''budget_policy'' in
     if policy = PNone then
       bindE (ensure (dhas m ''loss_budget'') (refuse ''mandate fields are incomplete'')) (\<lambda>_.
       bindE (finite_field ''loss_budget'' (Some (Fin 0)) None (dget m ''loss_budget'')) (\<lambda>_. Inr ()))
     else
       bindE (dynamic_policy policy) (\<lambda>_.
       ensure (dget m ''loss_budget'' = PNone) (refuse ''dynamic budget policy cannot contain loss_budget'')))"

definition named_text :: "pyval \<Rightarrow> bool" where
  "named_text v = (case v of PStr s \<Rightarrow> strip s \<noteq> [] | _ \<Rightarrow> False)"

definition cap_value :: "pyval \<Rightarrow> bool" where
  "cap_value v = (case v of PDict d \<Rightarrow> True | PInt i \<Rightarrow> True | PFloat x \<Rightarrow> True | _ \<Rightarrow> False)"

definition check_named :: "(pyval \<Rightarrow> bool) \<Rightarrow> pydict \<Rightarrow> string \<Rightarrow> pyexc + unit" where
  "check_named p m k = ensure (p (dget m k)) (invalid_field k)"

definition validate_mandate :: "pyval \<Rightarrow> pydt \<Rightarrow> pyexc + pydict" where
  "validate_mandate v now = (case v of
     PDict m \<Rightarrow>
       bindE (ensure (list_all (dhas m) required_mandate_fields) (refuse ''mandate fields are incomplete'')) (\<lambda>_.
       bindE (ensure (list_all (\<lambda>k. k \<in> set (required_mandate_fields @ optional_mandate_fields)) (map fst m))
         (refuse ''mandate fields are unsupported'')) (\<lambda>_.
       bindE (ensure (\<not> list_ex (dhas m) forbidden_authority_fields) (refuse ''mandate contains contradictory execution flags'')) (\<lambda>_.
       bindE (mapE (check_named named_text m) [''mandate_id'', ''mandate_version'']) (\<lambda>_.
       bindE (check_window m now) (\<lambda>_.
       bindE (finite_field ''max_snapshot_age_seconds'' (Some (fl (1 / 1000))) None (dget m ''max_snapshot_age_seconds'')) (\<lambda>_.
       bindE (finite_field ''effective_exposure_cap'' (Some (Fin 0)) (Some (Fin 1)) (dget m ''effective_exposure_cap'')) (\<lambda>_.
       bindE (check_budget m) (\<lambda>_.
       bindE (ensure (the_list (dget m ''allowed_nonzero_assets'') \<noteq> [] \<and> list_all named_text (the_list (dget m ''allowed_nonzero_assets'')))
         (refuse ''allowed_nonzero_assets is invalid'')) (\<lambda>_.
       bindE (mapE (check_named cap_value m) [''product_caps'', ''nominal_caps'', ''product_leverage_factors'']) (\<lambda>_.
       Inr m))))))))))
   | _ \<Rightarrow> Inl (refuse ''mandate fields are incomplete''))"

section \<open>Loading\<close>

record authority =
  au_receipt :: string
  au_source :: string
  au_target :: pydict
  au_strategy :: string
  au_runner :: string
  au_config :: string
  au_continuous :: bool
  au_mandate :: pydict

definition authority_fields :: "string list" where
  "authority_fields = [''decision'', ''authority_scope'', ''runtime_target'', ''strategy_revision'', ''runner_revision'',
     ''config_sha256'', ''continuous_inputs_allowed'', ''mandate'']"

text \<open>
  The three settings come stripped from the environment, empty when absent; \<open>strategy\<close> and \<open>runner\<close>
  are the revisions given or resolved. \<open>None\<close> means that no authority is configured.
\<close>

definition check_payload :: "pydict \<Rightarrow> pyexc + unit" where
  "check_payload p =
     bindE (ensure (keys_are p authority_fields) (refuse ''authority fields are unsupported or incomplete'')) (\<lambda>_.
     bindE (ensure (dget p ''decision'' = PStr ''APPROVE'') (refuse ''authority decision is not APPROVE'')) (\<lambda>_.
     bindE (ensure (dget p ''authority_scope'' = PStr ''LIVE'') (refuse ''authority scope is not LIVE'')) (\<lambda>_.
     ensure (dget p ''continuous_inputs_allowed'' = PBool True) (refuse ''continuous inputs are not approved''))))"

definition check_revisions :: "pydict \<Rightarrow> string \<Rightarrow> string \<Rightarrow> string \<Rightarrow> pyexc + unit" where
  "check_revisions p strategy runner config =
     bindE (ensure (dget p ''strategy_revision'' = PStr strategy) (refuse ''strategy revision mismatch'')) (\<lambda>_.
     bindE (ensure (dget p ''runner_revision'' = PStr runner) (refuse ''runner revision mismatch'')) (\<lambda>_.
     ensure (dget p ''config_sha256'' = PStr config) (refuse ''config digest mismatch'')))"

definition load_live_risk_authority ::
    "string \<Rightarrow> string \<Rightarrow> string \<Rightarrow> authority_file \<Rightarrow> runtime_target option \<Rightarrow> pyexc + string \<Rightarrow> pyexc + string \<Rightarrow> string \<Rightarrow> pydt
       \<Rightarrow> pyexc + authority option" where
  "load_live_risk_authority path sha source file target strategy runner config now =
     (if path = [] \<and> sha = [] \<and> source = [] then Inr None
      else
        bindE (ensure (path \<noteq> [] \<and> sha \<noteq> [] \<and> source \<noteq> []) (refuse ''authority source parameters are incomplete'')) (\<lambda>_.
        bindE (regular_file_bytes file) (\<lambda>raw.
        bindE (digest_field ''authority SHA-256'' (lower sha)) (\<lambda>receipt.
        bindE (ensure (sha256 raw = receipt) (refuse ''authority file digest mismatch'')) (\<lambda>_.
        bindE (revision_field ''source revision'' (lower source)) (\<lambda>source_revision.
        bindE (strict_json raw) (\<lambda>p.
        bindE (check_payload p) (\<lambda>_.
        bindE (validate_target_binding (dget p ''runtime_target'') target) (\<lambda>binding.
        bindE (bindE strategy (revision_field ''strategy revision'')) (\<lambda>strategy_revision.
        bindE (bindE runner (revision_field ''runner revision'')) (\<lambda>runner_revision.
        bindE (digest_field ''config SHA-256'' (lower config)) (\<lambda>config_digest.
        bindE (check_revisions p strategy_revision runner_revision config_digest) (\<lambda>_.
        bindE (ensure (dt_aware now) (refuse ''evaluation time has no timezone'')) (\<lambda>_.
        bindE (to_utc now) (\<lambda>utc_now.
        bindE (validate_mandate (dget p ''mandate'') utc_now) (\<lambda>mandate.
        Inr (Some \<lparr>au_receipt = receipt, au_source = source_revision, au_target = binding, au_strategy = strategy_revision,
          au_runner = runner_revision, au_config = config_digest, au_continuous = True, au_mandate = mandate\<rparr>)))))))))))))))))"

section \<open>Binding to the inputs of a cycle\<close>

text \<open>Every value that cannot be encoded, a NaN for instance, ends in the same refusal.\<close>

definition canonical_input_digest :: "pyval \<Rightarrow> pyexc + string" where
  "canonical_input_digest v =
     bindE (ensure (json_plain v) (refuse ''input cannot be canonically encoded'')) (\<lambda>_. Inr (sha256 (json_dumps v)))"

definition config_sha256 :: "pydict \<Rightarrow> pyexc + string" where
  "config_sha256 config = canonical_input_digest (PDict config)"

definition observed_figure :: "pydict \<Rightarrow> string \<Rightarrow> pyexc + pyfloat" where
  "observed_figure d k = finite_field (''budget observation '' @ k) (Some (Fin 0)) None (dget d k)"

definition derive_period_budget_usdt :: "pydict \<Rightarrow> pydict \<Rightarrow> pyexc + pyfloat option" where
  "derive_period_budget_usdt m material =
     (if dget m ''budget_policy'' = PNone then Inr None
      else
        bindE (dynamic_policy (dget m ''budget_policy'')) (\<lambda>_.
        case dget material ''budget_observation'' of
          PDict d \<Rightarrow>
            bindE (observed_figure d ''managed_usdt'') (\<lambda>managed.
            bindE (observed_figure d ''total_equity'') (\<lambda>equity.
            bindE (ensure (\<not> f_le equity (Fin 0)) (refuse ''invalid budget observation total_equity'')) (\<lambda>_.
            bindE (observed_figure d ''observed_effective_exposure'') (\<lambda>exposure.
            bindE (finite_field ''effective_exposure_cap'' (Some (Fin 0)) (Some (Fin 1)) (dget m ''effective_exposure_cap'')) (\<lambda>cap.
            let limit = f_mul cap equity; held = f_mul exposure equity in
            bindE (ensure (f_finite limit \<and> f_finite held) (refuse ''invalid budget observation'')) (\<lambda>_.
            Inr (Some (f_min managed (f_max (Fin 0) (f_sub limit held))))))))))
        | _ \<Rightarrow> Inl (refuse ''budget observation is missing'')))"

text \<open>\<open>timedelta(seconds=x)\<close> in microseconds; the fraction is scaled in binary64 before it is rounded.\<close>

definition seconds_us :: "pyfloat \<Rightarrow> pyexc + int" where
  "seconds_us x = bindE (f_trunc x) (\<lambda>i. case x of
     Fin q \<Rightarrow> (let us = round_half_even (of_int (i * 1000000) + fl_rat (1000000 * (q - of_int i))) in
       if \<bar>us div us_per_day\<bar> \<le> 999999999 then Inr us else Inl OverflowError)
   | _ \<Rightarrow> Inl OverflowError)"

text \<open>\<open>CandidateRiskIdentity\<close> of the platform kit; \<open>candidate_digest\<close> is its \<open>candidate_sha256\<close>, or the exception of its constructor.\<close>

record candidate =
  cd_profile :: string
  cd_mode :: string
  cd_strategy :: string
  cd_runner :: string
  cd_config :: string
  cd_inputs :: string
  cd_receipt :: string

definition account_mode :: string where
  "account_mode = ''single_strategy_account_v1''"

text \<open>The end of the bound mandate: fixed, or one snapshot age after now.\<close>

definition bound_expiry :: "pydict \<Rightarrow> pydt \<Rightarrow> pyexc + pydt" where
  "bound_expiry m now =
     bindE (bindE (dsub m ''effective_at'') (utc_field ''effective_at'')) (\<lambda>effective.
     bindE (validity_mode m) (\<lambda>mode.
     if mode = until_revoked then
       bindE (bindE (dsub m ''max_snapshot_age_seconds'') (finite_field ''max_snapshot_age_seconds'' (Some (fl (1 / 1000))) None)) (\<lambda>age.
       bindE (bindE (seconds_us age) (dt_shift now)) (\<lambda>expires.
       bindE (ensure (dt_utc effective \<le> dt_utc now) not_in_force) (\<lambda>_. Inr expires)))
     else
       bindE (bindE (dsub m ''expires_at'') (utc_field ''expires_at'')) (\<lambda>expires.
       bindE (ensure (dt_utc effective \<le> dt_utc now \<and> dt_utc now < dt_utc expires) not_in_force) (\<lambda>_. Inr expires))))"

definition z_text :: "pydt \<Rightarrow> string" where
  "z_text t = remove_suffix (iso_text t) ''+00:00'' @ ''Z''"

definition bind_live_risk_authority ::
    "(candidate \<Rightarrow> pyexc + string) \<Rightarrow> authority \<Rightarrow> runtime_target option \<Rightarrow> pydict \<Rightarrow> string \<Rightarrow> pyexc + string \<Rightarrow> pyexc + string \<Rightarrow> pydt
       \<Rightarrow> pyexc + pydict \<times> candidate" where
  "bind_live_risk_authority candidate_digest au target material config strategy runner now =
     bindE (validate_target_binding (PDict (au_target au)) target) (\<lambda>binding.
     bindE (ensure (py_eq (PDict binding) (PDict (au_target au))) (refuse ''runtime target mismatch'')) (\<lambda>_.
     bindE (bindE strategy (revision_field ''strategy revision'')) (\<lambda>strategy_revision.
     bindE (bindE runner (revision_field ''runner revision'')) (\<lambda>runner_revision.
     bindE (digest_field ''config SHA-256'' (lower config)) (\<lambda>config_digest.
     bindE (ensure (strategy_revision = au_strategy au) (refuse ''strategy revision mismatch'')) (\<lambda>_.
     bindE (ensure (runner_revision = au_runner au) (refuse ''runner revision mismatch'')) (\<lambda>_.
     bindE (ensure (config_digest = au_config au) (refuse ''config digest mismatch'')) (\<lambda>_.
     bindE (ensure (au_continuous au) (refuse ''continuous inputs are not approved'')) (\<lambda>_.
     bindE (to_utc now) (\<lambda>utc_now.
     bindE (bound_expiry (au_mandate au) utc_now) (\<lambda>expires.
     bindE (derive_period_budget_usdt (au_mandate au) material) (\<lambda>budget.
     bindE (ensure (case budget of None \<Rightarrow> True | Some b \<Rightarrow> f_finite b \<and> \<not> f_less b (Fin 0)) (refuse ''invalid derived budget'')) (\<lambda>_.
     bindE (canonical_input_digest (PDict material)) (\<lambda>inputs.
     let cand = \<lparr>cd_profile = (case target of Some t \<Rightarrow> py_str (tg_profile t) | None \<Rightarrow> []), cd_mode = account_mode,
           cd_strategy = strategy_revision, cd_runner = runner_revision, cd_config = config_digest, cd_inputs = inputs,
           cd_receipt = au_receipt au\<rparr> in
     bindE (candidate_digest cand) (\<lambda>identity.
     let mandate = (case budget of None \<Rightarrow> au_mandate au | Some b \<Rightarrow> dset ''loss_budget'' (PFloat b) (au_mandate au)) in
     Inr (dupdate (dset ''expires_at'' (PStr (z_text expires)) mandate)
       [(''authority_receipt_sha256'', PStr (au_receipt au)), (''authority_scope'', PStr ''LIVE''),
        (''source_revision'', PStr (au_source au)), (''strategy_profile'', PStr (cd_profile cand)), (''account_mode'', PStr account_mode),
        (''strategy_revision'', PStr strategy_revision), (''runner_revision'', PStr runner_revision),
        (''config_sha256'', PStr config_digest), (''input_manifest_sha256'', PStr inputs),
        (''candidate_identity_sha256'', PStr identity)], cand))))))))))))))))"

end
