(* ===== verification/Strategy_Runtime.thy ===== *)
theory Strategy_Runtime
  imports Strategy_Decision Risk_Authority
begin

text \<open>
  \<open>strategy_runtime.py\<close>: the account figures and the portfolio snapshot a strategy is evaluated on,
  and the evaluation with the risk material that reaches it. The strategy itself, the stamp of its
  losing streak, its profit figure and the check of its origin belong to the platform kit and the
  strategy package: they are fields of \<open>strategy_runtime\<close>. A strategy answers with a decision or an
  exception and leaves a state; it gets nothing else of the program to change.
\<close>

section \<open>Account figures\<close>

definition holding_value :: "pydict \<Rightarrow> pydict \<Rightarrow> string \<Rightarrow> pyexc + pyfloat" where
  "holding_value balances prices symbol =
     bindE (number_at balances symbol) (\<lambda>q. bindE (number_at prices symbol) (\<lambda>p. Inr (f_mul q p)))"

text \<open>The sum over an empty universe is the integer zero.\<close>

definition compute_account_metrics :: "string list \<Rightarrow> pydict \<Rightarrow> pydict \<Rightarrow> pyfloat \<Rightarrow> pyfloat \<Rightarrow> pyexc + pydict" where
  "compute_account_metrics symbols balances prices u_total fuel_val =
     bindE (mapE (holding_value balances prices) symbols) (\<lambda>vals.
     bindE (holding_value balances prices ''BTCUSDT'') (\<lambda>dca.
     Inr [(''cash_usdt'', PFloat u_total), (''trend_value'', if vals = [] then PInt 0 else PFloat (f_sum vals)), (''dca_value'', PFloat dca),
       (''total_equity'', PFloat (f_add (f_add (f_add u_total fuel_val) (f_sum vals)) dca))]))"

section \<open>The portfolio snapshot\<close>

definition snapshot_error :: "string \<Rightarrow> pyexc" where
  "snapshot_error s = ValueError (''portfolio_snapshot.'' @ s)"

definition snapshot_number :: "string \<Rightarrow> pyfloat option \<Rightarrow> pyval \<Rightarrow> pyexc + pyfloat" where
  "snapshot_number label low v =
     (let unreadable = snapshot_error (label @ '' must be a finite number'') in
      bindE (ensure (\<not> is_bool v) unreadable) (\<lambda>_.
      bindE (catchE (to_float v) (\<lambda>e. Inl (if e = TypeError \<or> is_value_error e then unreadable else e))) (\<lambda>x.
      bindE (ensure (f_finite x \<and> (case low of Some l \<Rightarrow> \<not> f_less x l | None \<Rightarrow> True)) (snapshot_error (label @ '' is invalid''))) (\<lambda>_.
      Inr x))))"

text \<open>\<open>tuple(dict.fromkeys(s for s in symbols if s != 'USDT'))\<close>.\<close>

definition risk_symbols :: "string list \<Rightarrow> string list" where
  "risk_symbols symbols = rev (remdups (rev (filter (\<lambda>s. s \<noteq> ''USDT'') symbols)))"

definition position_cost :: "pydict \<Rightarrow> string \<Rightarrow> pyexc + pyval" where
  "position_cost costs symbol = (let raw = dget costs symbol in
     if raw = PNone then Inr PNone
     else bindE (snapshot_number (''average_cost.'' @ symbol) None raw) (\<lambda>c.
       bindE (ensure (\<not> f_le c (Fin 0)) (snapshot_error (''average_cost.'' @ symbol @ '' must be positive''))) (\<lambda>_. Inr (PFloat c))))"

definition add_position :: "pydict \<Rightarrow> pydict \<Rightarrow> pydict \<Rightarrow> snapshot_position list \<times> pyfloat \<Rightarrow> string \<Rightarrow> pyexc + snapshot_position list \<times> pyfloat" where
  "add_position costs balances prices acc symbol =
     bindE (ensure (dhas balances symbol) (snapshot_error (''balances missing '' @ symbol))) (\<lambda>_.
     bindE (ensure (dhas prices symbol) (snapshot_error (''prices missing '' @ symbol))) (\<lambda>_.
     bindE (snapshot_number (''balance.'' @ symbol) (Some (Fin 0)) (dget balances symbol)) (\<lambda>quantity.
     bindE (snapshot_number (''price.'' @ symbol) None (dget prices symbol)) (\<lambda>price.
     bindE (ensure (\<not> f_le price (Fin 0)) (snapshot_error (''price.'' @ symbol @ '' must be positive''))) (\<lambda>_.
     let held = f_mul quantity price in
     bindE (ensure (f_finite held \<and> \<not> f_less held (Fin 0)) (snapshot_error (''market_value.'' @ symbol @ '' is invalid''))) (\<lambda>_.
     if f_less (Fin 0) quantity then
       bindE (position_cost costs symbol) (\<lambda>cost.
       Inr (fst acc @ [\<lparr>sp_symbol = symbol, sp_quantity = PFloat quantity, sp_value = PFloat held, sp_cost = cost\<rparr>], f_add (snd acc) held))
     else Inr (fst acc, f_add (snd acc) held)))))))"

text \<open>\<open>math.isclose\<close>.\<close>

definition f_isclose :: "pyfloat \<Rightarrow> pyfloat \<Rightarrow> pyfloat \<Rightarrow> pyfloat \<Rightarrow> bool" where
  "f_isclose rel tol a b =
     (f_eq a b \<or> f_finite a \<and> f_finite b \<and>
       (let d = f_abs (f_sub b a) in f_le d (f_abs (f_mul rel b)) \<or> f_le d (f_abs (f_mul rel a)) \<or> f_le d tol))"

definition reconciled :: "pyfloat \<Rightarrow> pyfloat \<Rightarrow> bool" where
  "reconciled a b = f_isclose (fl (1 / 1000000000)) (fl (1 / 1000000)) a b"

definition build_portfolio_snapshot :: "pydict \<Rightarrow> pydict \<Rightarrow> pydict \<Rightarrow> string list \<Rightarrow> pydict \<Rightarrow> pyexc + portfolio_snapshot" where
  "build_portfolio_snapshot metrics balances prices symbols costs =
     bindE (ensure (balances \<noteq> []) (snapshot_error ''balances must be a complete non-empty mapping'')) (\<lambda>_.
     bindE (snapshot_number ''total_equity'' (Some (Fin 0)) (dget metrics ''total_equity'')) (\<lambda>equity.
     bindE (ensure (\<not> f_le equity (Fin 0)) (snapshot_error ''total_equity must be positive'')) (\<lambda>_.
     bindE (snapshot_number ''cash_usdt'' (Some (Fin 0)) (dget metrics ''cash_usdt'')) (\<lambda>cash.
     bindE (snapshot_number ''trend_value'' (Some (Fin 0)) (dget metrics ''trend_value'')) (\<lambda>trend.
     bindE (snapshot_number ''dca_value'' (Some (Fin 0)) (dget metrics ''dca_value'')) (\<lambda>dca.
     bindE (ensure (risk_symbols symbols \<noteq> []) (snapshot_error ''risk_assets must be non-empty'')) (\<lambda>_.
     bindE (foldE (add_position costs balances prices) ([], Fin 0) (risk_symbols symbols)) (\<lambda>(positions, observed).
     bindE (ensure (reconciled (f_add cash observed) equity) (snapshot_error ''equity_reconciliation is invalid'')) (\<lambda>_.
     bindE (f_div observed equity) (\<lambda>exposure.
     Inr \<lparr>so_equity = PFloat equity, so_cash = PFloat cash, so_positions = positions,
       so_metadata = [(''account_metrics'', PDict metrics), (''cash_available_for_trading'', PFloat cash), (''trend_value'', PFloat trend),
         (''dca_value'', PFloat dca), (''risk_asset_symbols'', PList (map PStr (risk_symbols symbols))),
         (''observed_risk_asset_value'', PFloat observed), (''observed_effective_exposure'', PFloat exposure)]\<rparr>))))))))))"

text \<open>What the strategy sees when the snapshot is refused: no positions and the reason.\<close>

definition invalid_snapshot_number :: "pyval \<Rightarrow> pyexc + pyval" where
  "invalid_snapshot_number v = (case to_float v of
     Inr x \<Rightarrow> Inr (if f_finite x then PFloat x else PNone)
   | Inl e \<Rightarrow> if e = TypeError \<or> is_value_error e then Inr PNone else Inl e)"

fun exc_message :: "pyexc \<Rightarrow> string" where
  "exc_message (ValueError s) = s"
| "exc_message _ = []"

definition invalid_snapshot :: "pydict \<Rightarrow> pyexc \<Rightarrow> pyexc + portfolio_snapshot" where
  "invalid_snapshot metrics e =
     bindE (invalid_snapshot_number (dget metrics ''total_equity'')) (\<lambda>equity.
     bindE (invalid_snapshot_number (dget metrics ''cash_usdt'')) (\<lambda>cash.
     Inr \<lparr>so_equity = equity, so_cash = cash, so_positions = [],
       so_metadata = [(''snapshot_validation_errors'', PList [PStr (exc_message e)]), (''observed_effective_exposure'', PNone)]\<rparr>))"

definition portfolio_snapshot_of :: "pydict \<Rightarrow> pydict \<Rightarrow> pydict \<Rightarrow> string list \<Rightarrow> pydict \<Rightarrow> pyexc + portfolio_snapshot" where
  "portfolio_snapshot_of metrics balances prices symbols costs =
     catchE (build_portfolio_snapshot metrics balances prices symbols costs)
       (\<lambda>e. if is_value_error e then invalid_snapshot metrics e else Inl e)"

section \<open>Evaluation\<close>

record evaluation_request =
  er_prices :: pydict
  er_indicators :: pydict
  er_btc :: pydict
  er_metrics :: pydict
  er_symbols :: "string list"
  er_portfolio :: "string list"
  er_balances :: pydict
  er_now :: pydt
  er_allow_new :: bool
  er_allow_refresh :: bool

text \<open>The risk material of the runtime: the mode, the loaded authority and what it is bound with; in a dry run a given pair.\<close>

record risk_material =
  rk_live :: bool
  rk_authority :: "authority option"
  rk_target :: "runtime_target option"
  rk_contract :: pyval
  rk_strategy :: "pyexc + string"
  rk_runner :: "pyexc + string"
  rk_given_mandate :: "pydict option"
  rk_given_candidate :: "candidate option"

record strategy_context =
  sx_request :: evaluation_request
  sx_snapshot :: portfolio_snapshot
  sx_mandate :: "pydict option"
  sx_candidate :: "candidate option"

record strategy_runtime =
  sr_profile :: string
  sr_config :: pydict
  sr_stoploss :: bool
  sr_threshold :: pyfloat
  sr_pnl :: "portfolio_snapshot \<Rightarrow> pyexc + pyfloat option"
  sr_stamp :: "portfolio_snapshot \<Rightarrow> pyexc + portfolio_snapshot"
  sr_reviewed :: "decision \<Rightarrow> bool"
  sr_candidate_digest :: "candidate \<Rightarrow> pyexc + string"
  sr_entry :: "strategy_context \<Rightarrow> pydict \<Rightarrow> (pyexc + decision) \<times> pydict"

definition input_material :: "evaluation_request \<Rightarrow> pydict \<Rightarrow> portfolio_snapshot \<Rightarrow> pydict \<Rightarrow> pydict" where
  "input_material q s snapshot contract =
     [(''prices'', PDict (er_prices q)), (''balances'', PDict (er_balances q)), (''account_metrics'', PDict (er_metrics q)),
      (''trend_indicators'', PDict (er_indicators q)), (''btc_snapshot'', PDict (er_btc q)), (''state'', PDict s),
      (''universe'', PDict [(''strategy_trend'', PList (map PStr (er_symbols q))), (''portfolio_trend'', PList (map PStr (er_portfolio q)))]),
      (''execution_controls'', PDict [(''allow_new_trend_entries'', PBool (er_allow_new q)), (''allow_rotation_refresh'', PBool (er_allow_refresh q))]),
      (''budget_observation'', PDict [(''managed_usdt'', dget (er_metrics q) ''cash_usdt''), (''total_equity'', so_equity snapshot),
        (''observed_effective_exposure'', dget (so_metadata snapshot) ''observed_effective_exposure'')]),
      (''trend_pool_contract'', PDict contract)]"

text \<open>The mandate, the candidate and the errors found so far; a refusal of the authority is an error, not an exception.\<close>

definition bound_material ::
    "strategy_runtime \<Rightarrow> risk_material \<Rightarrow> authority \<Rightarrow> evaluation_request \<Rightarrow> pydict \<Rightarrow> portfolio_snapshot \<Rightarrow> pyexc + (pydict \<times> candidate) option" where
  "bound_material sr rk au q s snapshot =
     catchE (bindE (ensure (rk_target rk \<noteq> None \<and> is_dict (rk_contract rk)) (RiskAuthorityInvalid ''material is missing'')) (\<lambda>_.
         bindE (config_sha256 (sr_config sr)) (\<lambda>config.
         bindE (bind_live_risk_authority (sr_candidate_digest sr) au (rk_target rk) (input_material q s snapshot (the_dict (rk_contract rk)))
           config (rk_strategy rk) (rk_runner rk) (er_now q)) (\<lambda>r. Inr (Some r)))))
       (\<lambda>e. if is_value_error e then Inr None else Inl e)"

definition risk_inputs ::
    "strategy_runtime \<Rightarrow> risk_material \<Rightarrow> evaluation_request \<Rightarrow> pydict \<Rightarrow> portfolio_snapshot \<Rightarrow> pyexc + pydict option \<times> candidate option" where
  "risk_inputs sr rk q s snapshot =
     bindE (case rk_authority rk of
         None \<Rightarrow> Inr (if rk_live rk then (None, None, [''live_authority_material_missing''])
           else (rk_given_mandate rk, rk_given_candidate rk, []))
       | Some au \<Rightarrow> bindE (bound_material sr rk au q s snapshot) (\<lambda>r. case r of
           Some (mandate, cand) \<Rightarrow> Inr (Some mandate, Some cand, [])
         | None \<Rightarrow> Inr (None, None, [''invalid_live_risk_authority'']))) (\<lambda>(mandate, cand, found).
     let errors = found
           @ (case cand of Some c \<Rightarrow> if cd_profile c \<noteq> sr_profile sr then [''candidate_identity_strategy_profile_mismatch''] else [] | None \<Rightarrow> [])
           @ (if rk_live rk \<and> (case mandate of None \<Rightarrow> True | Some m \<Rightarrow> dget m ''authority_scope'' \<noteq> PStr ''LIVE'')
              then [''live_requires_live_mandate''] else [])
     in Inr (mandate, if errors = [] then cand else None))"

definition managed_snapshot :: "string list \<Rightarrow> portfolio_snapshot \<Rightarrow> portfolio_snapshot" where
  "managed_snapshot symbols p = p\<lparr>so_positions := filter (\<lambda>x. sp_symbol x = ''BTCUSDT'' \<or> sp_symbol x \<in> set symbols) (so_positions p)\<rparr>"

definition strategy_context_of :: "strategy_runtime \<Rightarrow> risk_material \<Rightarrow> evaluation_request \<Rightarrow> string list \<Rightarrow> pydict \<Rightarrow> pyexc + strategy_context" where
  "strategy_context_of sr rk q symbols s =
     bindE (portfolio_snapshot_of (er_metrics q) (er_balances q) (er_prices q) symbols []) (\<lambda>snapshot.
     bindE (risk_inputs sr rk q s snapshot) (\<lambda>(mandate, cand).
     bindE (sr_stamp sr snapshot) (\<lambda>stamped.
     Inr \<lparr>sx_request = q, sx_snapshot = managed_snapshot (er_portfolio q) stamped, sx_mandate = mandate, sx_candidate = cand\<rparr>)))"

text \<open>The result: the decision after the loss stop and the observation of it.\<close>

definition evaluate_strategy :: "strategy_runtime \<Rightarrow> risk_material \<Rightarrow> evaluation_request \<Rightarrow> string list \<Rightarrow> nat \<Rightarrow> (decision \<times> pydict) run" where
  "evaluate_strategy sr rk q symbols a =
     bind (read_ref a) (\<lambda>s.
     bind (liftE (strategy_context_of sr rk q symbols s)) (\<lambda>ctx.
     bind (write_ref a (snd (sr_entry sr ctx s))) (\<lambda>_.
     bind (liftE (fst (sr_entry sr ctx s))) (\<lambda>d.
     bind (liftE (if sr_stoploss sr then bindE (sr_pnl sr (sx_snapshot ctx)) (\<lambda>pnl. Inr (apply_portfolio_loss_stoploss (sr_threshold sr) pnl d))
       else Inr d)) (\<lambda>decided.
     ret (decided, observe_portfolio_stoploss (sr_reviewed sr decided) (sx_snapshot ctx)))))))"

section \<open>What \<open>main.py\<close> asks of the strategy\<close>

text \<open>
  The market a cycle evaluates on. Prices do not change within a cycle; balances and cash do. The
  universe gives the portfolio symbols, and the strategy symbols are those not only valued.
\<close>

record market =
  mk_universe :: "(string \<times> pydict) list"
  mk_prices :: pydict
  mk_indicators :: pydict
  mk_btc :: pydict

definition resolve_strategy_evaluation ::
    "strategy_runtime \<Rightarrow> risk_material \<Rightarrow> market \<Rightarrow> nat \<Rightarrow> nat \<Rightarrow> pyfloat \<Rightarrow> pyfloat \<Rightarrow> bool \<Rightarrow> bool \<Rightarrow> (decision \<times> pydict \<times> pydict) run" where
  "resolve_strategy_evaluation sr rk mk a b u_total fuel_val allow_new allow_refresh =
     bind (read_ref b) (\<lambda>balances.
     let symbols = map fst (mk_universe mk) in
     bind (liftE (compute_account_metrics symbols balances (mk_prices mk) u_total fuel_val)) (\<lambda>metrics.
     bind (gets (\<lambda>w. rt_now (rt w))) (\<lambda>now.
     bind (gets (\<lambda>w. \<not> rt_dry_run (rt w))) (\<lambda>live.
     bind (evaluate_strategy sr (rk\<lparr>rk_live := live\<rparr>) \<lparr>er_prices = mk_prices mk, er_indicators = mk_indicators mk, er_btc = mk_btc mk, er_metrics = metrics,
         er_symbols = map fst (filter (\<lambda>p. \<not> truthy (dget (snd p) ''valuation_only'')) (mk_universe mk)), er_portfolio = symbols,
         er_balances = balances, er_now = now, er_allow_new = allow_new, er_allow_refresh = allow_refresh\<rparr>
       (''BTCUSDT'' # ''BNBUSDT'' # symbols) a) (\<lambda>(d, observed).
     ret (d, metrics, observed))))))"

definition resolve_strategy_plan ::
    "strategy_runtime \<Rightarrow> risk_material \<Rightarrow> market \<Rightarrow> nat \<Rightarrow> nat \<Rightarrow> pyfloat \<Rightarrow> bool \<Rightarrow> bool \<Rightarrow> pyfloat \<Rightarrow> pydict run" where
  "resolve_strategy_plan sr rk mk a b fuel_val allow_new allow_refresh u_total =
     bind (resolve_strategy_evaluation sr rk mk a b u_total fuel_val allow_new allow_refresh) (\<lambda>(d, metrics, observed).
     bind (liftE (map_strategy_decision_to_rotation_plan d)) (\<lambda>plan.
     bind (liftE (map_strategy_decision_to_allocation d metrics)) (\<lambda>_. ret plan)))"

text \<open>The allocation of a cycle with the figures the report takes from the decision.\<close>

record cycle_allocation =
  ca_figures :: allocation
  ca_assessment :: "pydict option"
  ca_observation :: pydict
  ca_flags :: "string list"

definition compute_cycle_allocation ::
    "strategy_runtime \<Rightarrow> risk_material \<Rightarrow> market \<Rightarrow> nat \<Rightarrow> nat \<Rightarrow> pyfloat \<Rightarrow> pyfloat \<Rightarrow> cycle_allocation run" where
  "compute_cycle_allocation sr rk mk a b u_total fuel_val =
     bind (resolve_strategy_evaluation sr rk mk a b u_total fuel_val True True) (\<lambda>(d, metrics, observed).
     bind (liftE (map_strategy_decision_to_allocation d metrics)) (\<lambda>figures.
     ret \<lparr>ca_figures = figures,
       ca_assessment = (case dget (dn_diagnostics d) ''member_risk_assessment'' of PDict m \<Rightarrow> Some m | _ \<Rightarrow> None),
       ca_observation = public_stoploss_observation (PDict observed), ca_flags = map py_str (dn_flags d)\<rparr>))"

end
