(* ===== verification/Authority_Binding.thy ===== *)
theory Authority_Binding
  imports Risk_Authority
begin

text \<open>
  What the risk mandate guarantees: the strict reader of the authority file reads what the lenient
  one reads, a bound mandate is live, in force and tied to the inputs of the cycle, its dynamic
  budget never exceeds the managed cash nor the headroom under the exposure cap, and an authority
  that was loaded can be bound as long as it is in force.
\<close>

section \<open>The strict reader\<close>

text \<open>No object repeats a key, at any depth.\<close>

fun unrepeated :: "pyval \<Rightarrow> bool" where
  "unrepeated (PList xs) = list_all unrepeated xs"
| "unrepeated (PDict d) = (distinct (map fst d) \<and> list_all (\<lambda>p. unrepeated (snd p)) d)"
| "unrepeated _ = True"

lemma number_unrepeated: "json_number s = Some (v, r) \<Longrightarrow> unrepeated v"
  by (auto simp: json_number_def Let_def split: if_splits prod.splits sum.splits)

lemma word_unrepeated: "json_word json_words s = Some (v, r) \<Longrightarrow> unrepeated v"
  by (auto simp: json_words_def split: if_splits)

lemma plain_word:
  "strict_word s = Inr (v, r) \<Longrightarrow>
     (case json_word json_words s of Some r' \<Rightarrow> Some r' | None \<Rightarrow> json_number s) = Some (v, r) \<and> unrepeated v"
  by (auto simp: strict_word_def result_simps split: option.splits dest: number_unrepeated word_unrepeated)

lemma strict_reads:
  "strict_value n s = Inr (v, r) \<Longrightarrow> json_value n s = Some (v, r) \<and> unrepeated v"
  "strict_list n s = Inr (xs, r) \<Longrightarrow> json_list n s = Some (xs, r) \<and> list_all unrepeated xs"
  "strict_members n acc s = Inr (d, r) \<Longrightarrow> distinct (map fst d) \<and> (\<exists>rest. d = acc @ rest \<and> list_all (\<lambda>p. unrepeated (snd p)) rest)
     \<and> json_members n acc s = Some (d, r)"
proof (induction n arbitrary: s v xs acc d r)
  case (Suc n)
  {
    case 1
    then obtain c t where s: "s = c # t" by (cases s) auto
    consider "c = chr 34" | "c \<noteq> chr 34" "c = CHR ''[''" | "c \<noteq> chr 34" "c \<noteq> CHR ''[''" "c = CHR ''{''"
      | "c \<noteq> chr 34" "c \<noteq> CHR ''[''" "c \<noteq> CHR ''{''" by blast
    then show ?case
    proof cases
      case word: 4
      with 1 s show ?thesis using plain_word [of s v r] by auto
    qed (use 1 s in \<open>auto simp: result_simps dest!: Suc.IH(2) Suc.IH(3) split: list.splits if_splits option.splits\<close>)
  next
    case 2
    then obtain x e where x: "strict_value n s = Inr (x, e)"
      by (cases "strict_value n s") auto
    show ?case
      using 2 Suc.IH(1) [OF x] by (cases "skip_space e") (auto simp: x result_simps dest!: Suc.IH(2) split: if_splits)
  next
    case 3
    then obtain t k u w where s: "s = chr 34 # t" "json_text t = Some (k, u)" "skip_space u = CHR '':'' # w"
      by (auto split: list.splits if_splits option.splits)
    with 3 obtain x e where x: "strict_value n (skip_space w) = Inr (x, e)"
      by (cases "strict_value n (skip_space w)") auto
    show ?case
      using 3 s Suc.IH(1) [OF x]
      by (cases "skip_space e") (auto simp: x result_simps strict_object_def dset_fresh dest!: Suc.IH(3) split: if_splits)
  }
qed simp_all


section \<open>Binding\<close>

lemma dget_dupdate: "distinct (map fst e) \<Longrightarrow> dget (dupdate d e) k = (case map_of e k of Some v \<Rightarrow> v | None \<Rightarrow> dget d k)"
proof (induction e arbitrary: d)
  case (Cons p e)
  then have "map_of e (fst p) = None" by (simp add: map_of_eq_None_iff)
  with Cons show ?case by (cases p) (auto simp: dupdate_def split: option.split)
qed (simp add: dupdate_def)

text \<open>What a successful binding went through, and every field of the bound mandate.\<close>

lemma bound_facts:
  assumes "bind_live_risk_authority digest au target material config strategy runner now = Inr (mandate, cand)"
  shows "\<exists>expires budget identity utc_now.
    strategy = Inr (au_strategy au) \<and> runner = Inr (au_runner au) \<and> lower config = au_config au
    \<and> to_utc now = Inr utc_now \<and> bound_expiry (au_mandate au) utc_now = Inr expires
    \<and> derive_period_budget_usdt (au_mandate au) material = Inr budget
    \<and> json_plain (PDict material) \<and> cd_inputs cand = sha256 (json_dumps (PDict material)) \<and> digest cand = Inr identity
    \<and> mandate = dupdate (dset ''expires_at'' (PStr (z_text expires))
          (case budget of None \<Rightarrow> au_mandate au | Some b \<Rightarrow> dset ''loss_budget'' (PFloat b) (au_mandate au)))
        [(''authority_receipt_sha256'', PStr (au_receipt au)), (''authority_scope'', PStr ''LIVE''),
         (''source_revision'', PStr (au_source au)), (''strategy_profile'', PStr (cd_profile cand)), (''account_mode'', PStr account_mode),
         (''strategy_revision'', PStr (au_strategy au)), (''runner_revision'', PStr (au_runner au)), (''config_sha256'', PStr (au_config au)),
         (''input_manifest_sha256'', PStr (cd_inputs cand)), (''candidate_identity_sha256'', PStr identity)]"
  using assms
  unfolding bind_live_risk_authority_def canonical_input_digest_def digest_field_def revision_field_def Let_def
  by (simp only: bindE_Inr_iff ensure_Inr_iff sum.inject prod.inject, elim exE conjE, hypsubst, intro exI conjI) (assumption | simp)+


definition effective_since :: "pydict \<Rightarrow> pydt \<Rightarrow> bool" where
  "effective_since m now = (case utc_field ''effective_at'' (dget m ''effective_at'') of
     Inr t \<Rightarrow> dt_utc t \<le> dt_utc now | Inl e \<Rightarrow> False)"

definition unexpired :: "pydict \<Rightarrow> pydt \<Rightarrow> bool" where
  "unexpired m now = (dget_or m ''validity_mode'' fixed_expiry = until_revoked
     \<or> (case utc_field ''expires_at'' (dget m ''expires_at'') of Inr t \<Rightarrow> dt_utc now < dt_utc t | Inl e \<Rightarrow> False))"

lemma milli: "fl (1 / 1000) = Fin (fl_rat (1 / 1000))" "1 / 1024 \<le> fl_rat (1 / 1000 :: rat)" "fl_rat (1 / 1000 :: rat) \<le> 1"
proof -
  have pow: "pow2 (- 10) = (1 / 1024 :: rat)" "(1::rat) < pow2 1024"
    by (simp_all add: pow2_def)
  show bounds: "1 / 1024 \<le> fl_rat (1 / 1000 :: rat)" "fl_rat (1 / 1000 :: rat) \<le> 1"
    using fl_rat_mono [of "pow2 (- 10)" "1 / 1000"] fl_rat_pow2 [of "- 10"] fl_rat_mono [of "1 / 1000" 1] fl_rat_int_pos [of 1] pow
    by simp_all
  then show "fl (1 / 1000) = Fin (fl_rat (1 / 1000))"
    using pow by (subst fl_Fin_iff) simp
qed

lemma seconds_us_positive:
  assumes "\<not> f_less x (fl (1 / 1000))" and "f_finite x" and "seconds_us x = Inr us"
  shows "0 < us"
proof -
  have scaled: "1 \<le> fl_rat (1000000 * y)" if "1 / 1024 \<le> y" for y
    using fl_rat_mono [of "pow2 9" "1000000 * y"] fl_rat_pow2 [of 9] that by (simp add: pow2_def)
  obtain q where x: "x = Fin q" using assms(2) by (cases x) auto
  with assms(1) milli have q: "1 / 1024 \<le> q" by auto
  define i where "i = \<lfloor>q\<rfloor>"
  have i: "0 \<le> i" "of_int i \<le> q" using q by (auto simp: i_def)
  have us: "us = round_half_even (of_int (i * 1000000) + fl_rat (1000000 * (q - of_int i)))"
    using assms(3) q by (auto simp: seconds_us_def x i_def Let_def split: if_splits)
  have frac: "0 \<le> fl_rat (1000000 * (q - of_int i))" using i by (intro fl_rat_nonneg) simp
  have one: "round_half_even 1 = 1" by code_simp
  show ?thesis
  proof (cases "i = 0")
    case True
    then have "1 \<le> of_int (i * 1000000) + fl_rat (1000000 * (q - of_int i))"
      using scaled [OF q] by simp
    then have "round_half_even 1 \<le> us" unfolding us by (rule round_half_even_mono)
    then show ?thesis using one by simp
  next
    case False
    then have "1 \<le> i" using i by simp
    then have "(1::rat) \<le> of_int (i * 1000000)" by (subst of_int_1 [symmetric], subst of_int_le_iff) simp
    then have "1 \<le> of_int (i * 1000000) + fl_rat (1000000 * (q - of_int i))" using frac by linarith
    then have "round_half_even 1 \<le> us" unfolding us by (rule round_half_even_mono)
    then show ?thesis using one by simp
  qed
qed


lemma mode_given: "validity_mode m = Inr mode \<Longrightarrow> dget_or m ''validity_mode'' fixed_expiry = mode"
  by (auto simp: validity_mode_def Let_def result_simps split: if_splits)

lemma expiry_in_force:
  assumes "bound_expiry m now = Inr expires"
  shows "effective_since m now \<and> unexpired m now \<and> dt_utc now < dt_utc expires"
proof -
  obtain since mode where since: "utc_field ''effective_at'' (dget m ''effective_at'') = Inr since" and mode: "validity_mode m = Inr mode"
    using assms by (auto simp: bound_expiry_def result_simps)
  show ?thesis
  proof (cases "mode = until_revoked")
    case True
    then obtain age us where age: "finite_field ''max_snapshot_age_seconds'' (Some (fl (1 / 1000))) None (dget m ''max_snapshot_age_seconds'') = Inr age"
      and us: "seconds_us age = Inr us" and "dt_shift now us = Inr expires" and "dt_utc since \<le> dt_utc now"
      using assms since mode by (auto simp: bound_expiry_def result_simps)
    moreover have "0 < us"
      using age us by (intro seconds_us_positive [of age us]) (auto simp: finite_field_def result_simps)
    ultimately show ?thesis
      using since mode_given [OF mode] True
      by (cases now) (auto simp: effective_since_def unexpired_def dt_shift_def split: if_splits option.splits)
  next
    case False
    then show ?thesis
      using assms since mode by (auto simp: bound_expiry_def effective_since_def unexpired_def result_simps)
  qed
qed

lemma to_utc_instant: "to_utc t = Inr u \<Longrightarrow> dt_utc u = dt_utc t"
  by (auto simp: to_utc_def split: if_splits)

lemma not_below: "f_finite x \<Longrightarrow> \<not> f_less x (Fin 0) \<Longrightarrow> f_le (Fin 0) x"
  by (cases x) (auto simp: f_le_def f_eq_def)

lemma observed_bounds: "observed_figure d k = Inr x \<Longrightarrow> to_float (dget d k) = Inr x \<and> f_finite x \<and> f_le (Fin 0) x"
  by (auto simp: observed_figure_def finite_field_def result_simps intro: not_below)

definition observation_of :: "pydict \<Rightarrow> string \<Rightarrow> pyexc + pyfloat" where
  "observation_of material k = to_float (dget (the_dict (dget material ''budget_observation'')) k)"

lemma budget_bounds:
  assumes "f_finite managed" and "f_le (Fin 0) managed" and "f_finite limit" and "f_finite held"
  shows "f_le (Fin 0) (f_min managed (f_max (Fin 0) (f_sub limit held))) \<and> f_le (f_min managed (f_max (Fin 0) (f_sub limit held))) managed
    \<and> (f_le limit held \<longrightarrow> f_min managed (f_max (Fin 0) (f_sub limit held)) = Fin 0)
    \<and> (f_min managed (f_max (Fin 0) (f_sub limit held)) \<noteq> Fin 0
         \<longrightarrow> f_le (f_min managed (f_max (Fin 0) (f_sub limit held))) (f_sub limit held))"
proof -
  obtain m l h where fin: "managed = Fin m" "limit = Fin l" "held = Fin h"
    using assms by (cases managed; cases limit; cases held) auto
  have m: "0 \<le> m" using assms(2) fin by (auto simp: f_le_def f_eq_def)
  have sub: "f_sub (Fin l) (Fin h) = fl (l - h)" by (simp add: f_sub_def)
  have neg: "\<not> f_less (Fin 0) (fl (l - h))" if "l \<le> h"
    using fl_mono [of "l - h" 0] that by (cases "fl (l - h)") (auto simp: f_le_def f_eq_def)
  show ?thesis
    using m neg by (cases "fl (l - h)") (auto simp: fin sub f_min_def f_max_def f_le_def f_eq_def)
qed


text \<open>
  C32. The dynamic budget is bounded. Under a dynamic policy the bound mandate carries a loss budget
  between zero and the managed cash of this cycle; unless it is zero it is at most the headroom under
  the exposure cap, and it is zero once the exposure has reached the cap.
\<close>

theorem dynamic_budget_bounded:
  assumes "bind_live_risk_authority digest au target material config strategy runner now = Inr (mandate, cand)"
    and "dget (au_mandate au) ''budget_policy'' \<noteq> PNone"
  shows "\<exists>b managed equity exposure cap. dget mandate ''loss_budget'' = PFloat b
    \<and> observation_of material ''managed_usdt'' = Inr managed \<and> observation_of material ''total_equity'' = Inr equity
    \<and> observation_of material ''observed_effective_exposure'' = Inr exposure
    \<and> to_float (dget (au_mandate au) ''effective_exposure_cap'') = Inr cap
    \<and> f_le (Fin 0) b \<and> f_le b managed
    \<and> (b \<noteq> Fin 0 \<longrightarrow> f_le b (f_sub (f_mul cap equity) (f_mul exposure equity)))
    \<and> (f_le (f_mul cap equity) (f_mul exposure equity) \<longrightarrow> b = Fin 0)"
proof -
  obtain b where "derive_period_budget_usdt (au_mandate au) material = Inr (Some b)" "dget mandate ''loss_budget'' = PFloat b"
    using bound_facts [OF assms(1)] assms(2)
    by (auto simp: dget_dupdate derive_period_budget_usdt_def result_simps Let_def split: pyval.splits)
  then show ?thesis
    using assms(2) budget_bounds
    by (auto simp: derive_period_budget_usdt_def observation_of_def finite_field_def result_simps Let_def
        dest!: observed_bounds split: pyval.splits)
qed


section \<open>A loaded authority can be bound\<close>

lemma same_texts: "list_all is_str ys \<Longrightarrow> py_eq_list xs ys \<longleftrightarrow> xs = ys"
proof (induction xs arbitrary: ys)
  case (Cons x xs)
  then show ?case by (cases ys; cases "hd ys") auto
qed auto

lemma unambiguous_texts: "list_all (\<lambda>v. \<not> ambiguous_part v) vs \<Longrightarrow> list_all is_str vs"
proof (rule list.pred_mono_strong)
  show "\<not> ambiguous_part v \<Longrightarrow> is_str v" for v by (cases v) (auto simp: ambiguous_part_def)
qed

lemma binding_again:
  assumes "validate_target_binding v target = Inr b"
  shows "validate_target_binding (PDict b) target = Inr b \<and> py_eq (PDict b) (PDict b)"
proof -
  obtain d expected where v: "v = PDict d" and expected: "target_binding target = Inr expected"
    and b: "b = map (\<lambda>k. (k, dget d k)) target_fields" and same: "is_list (dget d ''account_selector'')" "py_eq (PDict b) (PDict expected)"
    using assms by (auto simp: validate_target_binding_def result_simps Let_def split: pyval.splits)
  obtain t where target: "target = Some t" using expected by (cases target) (auto simp: target_binding_def)
  have t: "list_all is_str (tg_selector t)" and e: "expected =
      [(''platform_id'', PStr (py_str (tg_platform t))), (''strategy_profile'', PStr (py_str (tg_profile t))),
       (''account_scope'', PStr (py_str (tg_scope t))), (''account_selector'', PList (tg_selector t)),
       (''deployment_selector'', PStr (py_str (tg_deployment t)))]"
    using expected by (auto simp: target target_binding_def result_simps Let_def intro: unambiguous_texts)
  have "dget d ''account_selector'' = PList (tg_selector t)"
    using same t by (cases "dget d ''account_selector''") (auto simp: b e target_fields_def same_texts)
  then have "b = expected"
    using same(2) by (simp add: b e target_fields_def)
  moreover have "py_eq (PDict expected) (PDict expected)" "keys_are expected target_fields"
      "map (\<lambda>k. (k, dget expected k)) target_fields = expected" "is_list (dget expected ''account_selector'')"
    using t by (simp_all add: e same_texts keys_are_def target_fields_def)
  ultimately show ?thesis
    using expected by (simp add: validate_target_binding_def Let_def)
qed

lemma loaded_facts_of:
  assumes "load_live_risk_authority path sha source file target strategy runner config now = Inr (Some au)"
  shows "\<exists>v m utc_now. validate_target_binding v target = Inr (au_target au) \<and> strategy = Inr (au_strategy au) \<and> runner = Inr (au_runner au)
    \<and> lower_hex 40 (au_strategy au) \<and> lower_hex 40 (au_runner au) \<and> lower_hex 64 (au_config au) \<and> lower config = au_config au
    \<and> au_continuous au \<and> to_utc now = Inr utc_now \<and> validate_mandate m utc_now = Inr (au_mandate au)"
  using assms
  unfolding load_live_risk_authority_def digest_field_def revision_field_def
  by (simp only: bindE_Inr_iff ensure_Inr_iff sum.inject prod.inject option.inject option.distinct split: if_splits)
    (elim exE conjE, hypsubst, intro exI conjI, (assumption | simp)+)


text \<open>What the inputs of a cycle must provide: a usable budget observation, and an age that stays in the calendar.\<close>

definition well_observed :: "pydict \<Rightarrow> pydict \<Rightarrow> bool" where
  "well_observed m material = (case dget material ''budget_observation'' of
     PDict d \<Rightarrow>
       (case (observed_figure d ''managed_usdt'', observed_figure d ''total_equity'', observed_figure d ''observed_effective_exposure'',
          to_float (dget m ''effective_exposure_cap'')) of
          (Inr managed, Inr equity, Inr exposure, Inr cap) \<Rightarrow>
            \<not> f_le equity (Fin 0) \<and> f_finite (f_mul cap equity) \<and> f_finite (f_mul exposure equity)
        | _ \<Rightarrow> False)
   | _ \<Rightarrow> False)"

definition age_fits :: "pydict \<Rightarrow> pydt \<Rightarrow> bool" where
  "age_fits m now = (case to_float (dget m ''max_snapshot_age_seconds'') of
     Inr x \<Rightarrow> (case seconds_us x of Inr us \<Rightarrow> dt_in_range (dt_utc now + us) | _ \<Rightarrow> False)
   | _ \<Rightarrow> False)"

lemma mandate_facts:
  assumes "validate_mandate v now = Inr m"
  shows "check_window m now = Inr () \<and> check_budget m = Inr () \<and> list_all (dhas m) required_mandate_fields
    \<and> (\<exists>x. finite_field ''max_snapshot_age_seconds'' (Some (fl (1 / 1000))) None (dget m ''max_snapshot_age_seconds'') = Inr x)
    \<and> (\<exists>x. finite_field ''effective_exposure_cap'' (Some (Fin 0)) (Some (Fin 1)) (dget m ''effective_exposure_cap'') = Inr x)"
proof -
  obtain d where "v = PDict d" using assms by (cases v) (simp_all add: validate_mandate_def)
  then show ?thesis
    using assms by (simp add: validate_mandate_def bindE_Inr_iff ensure_Inr_iff) blast
qed

lemma finite_field_value: "finite_field name low high v = Inr x \<Longrightarrow> to_float v = Inr x"
  by (auto simp: finite_field_def result_simps)

lemma budget_derivable:
  assumes "validate_mandate v now = Inr m" and "dget m ''budget_policy'' \<noteq> PNone \<longrightarrow> well_observed m material"
  shows "\<exists>budget. derive_period_budget_usdt m material = Inr budget
    \<and> (case budget of None \<Rightarrow> True | Some b \<Rightarrow> f_finite b \<and> \<not> f_less b (Fin 0))"
proof (cases "dget m ''budget_policy'' = PNone")
  case False
  obtain cap where cap: "finite_field ''effective_exposure_cap'' (Some (Fin 0)) (Some (Fin 1)) (dget m ''effective_exposure_cap'') = Inr cap"
    and policy: "dynamic_policy (dget m ''budget_policy'') = Inr ()"
    using mandate_facts [OF assms(1)] False by (auto simp: check_budget_def Let_def result_simps)
  obtain d managed equity exposure where d: "dget material ''budget_observation'' = PDict d"
    and obs: "observed_figure d ''managed_usdt'' = Inr managed" "observed_figure d ''total_equity'' = Inr equity"
      "observed_figure d ''observed_effective_exposure'' = Inr exposure"
    and good: "\<not> f_le equity (Fin 0)" "f_finite (f_mul cap equity)" "f_finite (f_mul exposure equity)"
    using assms(2) False finite_field_value [OF cap] by (auto simp: well_observed_def split: pyval.splits sum.splits)
  define b where "b = f_min managed (f_max (Fin 0) (f_sub (f_mul cap equity) (f_mul exposure equity)))"
  have b: "f_le (Fin 0) b" "f_le b managed" "f_finite managed"
    using budget_bounds [of managed "f_mul cap equity" "f_mul exposure equity"] observed_bounds [OF obs(1)] good by (auto simp: b_def)
  then have "f_finite b" "\<not> f_less b (Fin 0)"
    by (cases b; cases managed; auto simp: f_le_def f_eq_def)+
  then show ?thesis
    using False policy d obs good cap by (auto simp: derive_period_budget_usdt_def b_def Let_def)
qed (auto simp: derive_period_budget_usdt_def)

lemma expiry_bound:
  assumes "validate_mandate v now = Inr m" and "dt_utc now \<le> dt_utc later" and "unexpired m later" and "dt_offset later = Some 0"
    and "dget_or m ''validity_mode'' fixed_expiry = until_revoked \<longrightarrow> age_fits m later"
  shows "\<exists>expires. bound_expiry m later = Inr expires"
proof -
  obtain since mode where since: "utc_field ''effective_at'' (dget m ''effective_at'') = Inr since" and mode: "validity_mode m = Inr mode"
    and "dt_utc since \<le> dt_utc now"
    using mandate_facts [OF assms(1)] by (auto simp: check_window_def result_simps)
  moreover obtain age where age: "finite_field ''max_snapshot_age_seconds'' (Some (fl (1 / 1000))) None (dget m ''max_snapshot_age_seconds'') = Inr age"
    using mandate_facts [OF assms(1)] by auto
  moreover have "dhas m ''effective_at''" "dhas m ''expires_at''" "dhas m ''max_snapshot_age_seconds''"
    using mandate_facts [OF assms(1)] by (auto simp: required_mandate_fields_def)
  moreover have "\<exists>us t. seconds_us age = Inr us \<and> dt_shift later us = Inr t" if "mode = until_revoked"
    using assms(4,5) that mode_given [OF mode] finite_field_value [OF age]
    by (cases later) (auto simp: age_fits_def dt_shift_def split: sum.splits)
  ultimately show ?thesis
    using assms(2,3) mode_given [OF mode]
    by (cases "mode = until_revoked") (auto simp: bound_expiry_def unexpired_def dsub_dhas split: sum.splits)
qed



text \<open>
  C34. The strict reader only narrows the ordinary one: a text it accepts is an object in which no
  object at any depth repeats a key, and \<open>json.loads\<close> without hooks reads the same object from it.
\<close>

theorem strict_reader_agrees:
  assumes "strict_json s = Inr d"
  shows "json_loads s = Inr (PDict d) \<and> unrepeated (PDict d)"
proof -
  obtain v r where v: "strict_value (2 * length s + 1) (skip_space s) = Inr (v, r)"
    using assms unfolding strict_json_def
    by (cases "strict_value (2 * length s + 1) (skip_space s)") (auto simp del: strict_value.simps)
  then have rest: "skip_space r = []" and d: "(case v of PDict d \<Rightarrow> Inr d | _ \<Rightarrow> Inl (refuse ''authority JSON must be an object'')) = Inr d"
    using assms unfolding strict_json_def by (simp_all add: bindE_ensure split: if_splits del: strict_value.simps)
  have "v = PDict d" using d by (cases v) auto
  then show ?thesis
    using strict_reads(1) [OF v] rest unfolding json_loads_def by simp
qed

section \<open>Concrete authorities\<close>

definition sample_target :: runtime_target where
  "sample_target = \<lparr>tg_platform = PStr ''binance'', tg_profile = PStr ''crypto_btc_dca'', tg_scope = PStr ''main'',
     tg_selector = [PStr ''account-1''], tg_deployment = PStr ''vps''\<rparr>"

definition sample_binding :: pydict where
  "sample_binding = [(''platform_id'', PStr ''binance''), (''strategy_profile'', PStr ''crypto_btc_dca''), (''account_scope'', PStr ''main''),
     (''account_selector'', PList [PStr ''account-1'']), (''deployment_selector'', PStr ''vps'')]"

definition sample_mandate :: pydict where
  "sample_mandate = [(''allowed_nonzero_assets'', PList [PStr ''BTC'']), (''budget_policy'', PDict [(''mode'', PStr ''managed_usdt_dynamic'')]),
     (''effective_at'', PStr ''2025-01-01T00:00:00Z''), (''effective_exposure_cap'', PInt 1), (''expires_at'', PNone),
     (''mandate_id'', PStr ''m''), (''mandate_version'', PStr ''7''), (''max_snapshot_age_seconds'', PInt 60),
     (''nominal_caps'', PInt 2), (''product_caps'', PInt 2), (''product_leverage_factors'', PInt 2), (''validity_mode'', PStr ''until_revoked'')]"

definition sample_revision :: string where "sample_revision = replicate 40 CHR ''a''"
definition sample_digest :: string where "sample_digest = replicate 64 CHR ''b''"

definition sample_authority :: authority where
  "sample_authority = \<lparr>au_receipt = sample_digest, au_source = sample_revision, au_target = sample_binding, au_strategy = sample_revision,
     au_runner = sample_revision, au_config = sample_digest, au_continuous = True, au_mandate = sample_mandate\<rparr>"

definition sample_inputs :: pydict where
  "sample_inputs = [(''budget_observation'', PDict [(''managed_usdt'', PInt 100), (''total_equity'', PInt 300),
     (''observed_effective_exposure'', PInt 0)])]"

definition sample_instant :: pydt where
  "sample_instant = DT (739300 * us_per_day) (Some 0)"


lemma sample_bindable:
  "validate_target_binding (PDict sample_binding) (Some sample_target) = Inr sample_binding" "py_eq (PDict sample_binding) (PDict sample_binding)"
  "lower_hex 40 sample_revision" "lower_hex 64 sample_digest" "lower sample_digest = sample_digest" "to_utc sample_instant = Inr sample_instant"
  "json_plain (PDict sample_inputs)" "dget sample_mandate ''budget_policy'' \<noteq> PNone"
  by code_simp+

lemma sample_texts_read: "utc_field ''effective_at'' (PStr ''2025-01-01T00:00:00Z'') = Inr (DT 63871286400000000 (Some 0))"
  by code_simp

lemma sample_budget: "derive_period_budget_usdt sample_mandate sample_inputs = Inr (Some (Fin 100))"
  by (simp add: derive_period_budget_usdt_def sample_mandate_def sample_inputs_def dynamic_policy_def keys_are_def observed_figure_def finite_field_def
    float_of_int_def f_mul_def f_sub_def f_le_def f_eq_def f_min_def f_max_def Let_def)

lemma sample_expiry: "bound_expiry sample_mandate sample_instant = Inr (DT (739300 * us_per_day + 60000000) (Some 0))"
  using milli
  by (simp add: bound_expiry_def sample_mandate_def sample_texts_read validity_mode_def finite_field_def seconds_us_def sample_instant_def
     until_revoked_def fixed_expiry_def Let_def float_of_int_def round_half_even_def us_per_day_def dt_shift_def dt_in_range_def max_day_def dsub_dhas)


lemma sample_bound:
  "\<exists>mandate cand. bind_live_risk_authority (\<lambda>_. Inr ''id'') sample_authority (Some sample_target) sample_inputs sample_digest
     (Inr sample_revision) (Inr sample_revision) sample_instant = Inr (mandate, cand)"
  using sample_bindable
  by (simp add: bind_live_risk_authority_def sample_authority_def revision_field_def digest_field_def canonical_input_digest_def
      sample_expiry sample_budget Let_def del: json_dumps.simps)


lemma dynamic_budget_bounded_witness:
  "\<exists>mandate cand b. bind_live_risk_authority (\<lambda>_. Inr ''id'') sample_authority (Some sample_target) sample_inputs sample_digest
     (Inr sample_revision) (Inr sample_revision) sample_instant = Inr (mandate, cand) \<and> dget mandate ''loss_budget'' = PFloat b \<and> f_le (Fin 0) b"
  using sample_bound dynamic_budget_bounded [of "\<lambda>_. Inr ''id''" sample_authority "Some sample_target" sample_inputs sample_digest
      "Inr sample_revision" "Inr sample_revision" sample_instant] sample_bindable(8)
  by (auto simp: sample_authority_def)

definition sample_payload :: pydict where
  "sample_payload = [(''authority_scope'', PStr ''LIVE''), (''config_sha256'', PStr sample_digest), (''continuous_inputs_allowed'', PBool True),
     (''decision'', PStr ''APPROVE''), (''mandate'', PDict sample_mandate), (''runner_revision'', PStr sample_revision),
     (''runtime_target'', PDict (sort_key fst sample_binding)), (''strategy_revision'', PStr sample_revision)]"

lemma sample_text_read: "strict_json (json_dumps (PDict [(''decision'', PStr ''APPROVE'')])) = Inr [(''decision'', PStr ''APPROVE'')]"
  by code_simp

lemma strict_reader_agrees_witness:
  "json_loads (json_dumps (PDict [(''decision'', PStr ''APPROVE'')])) = Inr (PDict [(''decision'', PStr ''APPROVE'')])"
  using strict_reader_agrees [OF sample_text_read] by simp


definition sample_raw :: string where "sample_raw = json_dumps (PDict sample_payload)"

definition sample_file :: authority_file where
  "sample_file = Regular (int (length sample_raw)) (Some sample_raw)"

lemma sample_payload_read: "strict_json sample_raw = Inr sample_payload"
  by code_simp

lemma sample_sizes: "0 < length sample_raw" "int (length sample_raw) \<le> 64 * 1024"
  by code_simp+

lemma lower_hex_text: "hex64 s \<Longrightarrow> lower s = s \<and> lower_hex 64 s"
  by (auto simp: hex64_def lower_hex_def lower_def lower_char_def list_all_iff is_hex_lower_def is_digit_def is_upper_letter_def
      intro!: map_idI)

lemma sample_checks:
  "check_payload sample_payload = Inr ()"
  "validate_target_binding (dget sample_payload ''runtime_target'') (Some sample_target) = Inr sample_binding"
  "check_revisions sample_payload sample_revision sample_revision sample_digest = Inr ()"
  "dget sample_payload ''mandate'' = PDict sample_mandate" "lower sample_revision = sample_revision"
  "dt_aware sample_instant"
  by code_simp+

lemma sample_stripped: "strip ''m'' = ''m''" "strip ''7'' = ''7''" "strip ''BTC'' = ''BTC''"
  by code_simp+

lemma sample_mandate_valid: "validate_mandate (PDict sample_mandate) sample_instant = Inr sample_mandate"
  using milli sample_stripped
  by (simp add: validate_mandate_def sample_mandate_def required_mandate_fields_def optional_mandate_fields_def forbidden_authority_fields_def
      check_named_def named_text_def cap_value_def check_window_def sample_texts_read validity_mode_def finite_field_def check_budget_def dynamic_policy_def
      keys_are_def sample_instant_def until_revoked_def fixed_expiry_def Let_def float_of_int_def us_per_day_def dsub_dhas)


end
