(* ===== verification/Cash_Flows.thy ===== *)
theory Cash_Flows
  imports Cash_Effects Time_Text
begin

text \<open>
  External cash flows, the part of \<open>application/broker_reconciliation.py\<close> every cycle runs: a week of
  deposits and withdrawals is read and compared with the cursor kept in the trade state, so that a
  confirmed Spot USDT deposit explains a balance change once. The broker observation digest of the
  platform kit is the parameter \<open>digest\<close>; a row is counted by the cursor it is compared with, so the
  collection is a fold over the rows with the records as its state.
\<close>

section \<open>The cursor\<close>

definition cursor_invalid :: pyexc where
  "cursor_invalid = ValueError ''external_cash_flow_cursor_invalid''"

definition record_invalid :: pyexc where
  "record_invalid = ValueError ''external_cash_flow_record_invalid''"

definition record_changed :: pyexc where
  "record_changed = ValueError ''external_cash_flow_record_changed''"

definition history_incomplete :: pyexc where
  "history_incomplete = ValueError ''external_cash_flow_history_incomplete''"

definition one_of :: "pyval \<Rightarrow> string list \<Rightarrow> pyexc + bool" where
  "one_of v names = (if \<not> hashable v then Inl TypeError else Inr (v \<in> PStr ` set names))"

definition flow_record :: "string \<times> pyval \<Rightarrow> pyexc + string \<times> pyval" where
  "flow_record entry = (case snd entry of
     PDict r \<Rightarrow>
       bindE (ensure (hex64 (fst entry)) cursor_invalid) (\<lambda>_.
       bindE (bindE (one_of (dget r ''kind'') [''deposit'', ''withdrawal'']) (\<lambda>ok. ensure ok cursor_invalid)) (\<lambda>_.
       bindE (bindE (one_of (dget r ''status'') [''pending'', ''final'', ''observed'']) (\<lambda>ok. ensure ok cursor_invalid)) (\<lambda>_.
       bindE (ensure (case dget r ''payload_sha256'' of PStr s \<Rightarrow> length s = 64 | _ \<Rightarrow> False) cursor_invalid) (\<lambda>_.
       Inr entry))))
   | _ \<Rightarrow> Inl cursor_invalid)"

definition external_cash_flow_cursor :: "pyval \<Rightarrow> pydt \<Rightarrow> pyexc + bool \<times> pydict" where
  "external_cash_flow_cursor cursor now = (case cursor of
     PNone \<Rightarrow> Inr (True, [])
   | PDict c \<Rightarrow>
       bindE (ensure (py_eq (dget c ''version'') (PInt 1)) cursor_invalid) (\<lambda>_.
       bindE (catchE (parse_stamp (py_str (dget c ''observed_at''))) (\<lambda>e. Inl (if is_value_error e then cursor_invalid else e))) (\<lambda>observed.
       bindE (ensure (dt_aware observed) cursor_invalid) (\<lambda>_.
       bindE (to_utc observed) (\<lambda>u.
       bindE (ensure (\<not> dt_utc now < dt_utc u) cursor_invalid) (\<lambda>_.
       case dget c ''records'' of
         PDict records \<Rightarrow>
           bindE (ensure (length records \<le> 256) cursor_invalid) (\<lambda>_.
           bindE (mapE flow_record records) (\<lambda>kept. Inr (False, kept)))
       | _ \<Rightarrow> Inl cursor_invalid)))))
   | _ \<Rightarrow> Inl cursor_invalid)"

section \<open>The rows\<close>

definition flow_rows :: "pyval \<Rightarrow> pyexc + pyval list" where
  "flow_rows response = (case response of
     PList rows \<Rightarrow> if 1000 \<le> length rows \<or> \<not> list_all is_dict rows then Inl history_incomplete else Inr rows
   | _ \<Rightarrow> Inl history_incomplete)"

definition external_cash_flow_rows :: "env \<Rightarrow> string \<Rightarrow> int \<Rightarrow> int \<Rightarrow> pyval list run" where
  "external_cash_flow_rows env path start_ms end_ms =
     bind (attempt (invoke env (Client ''_request_margin_api'' [(''method'', PStr ''get''), (''path'', PStr path), (''signed'', PBool True),
         (''data'', PDict [(''startTime'', PInt start_ms), (''endTime'', PInt end_ms), (''offset'', PInt 0), (''limit'', PInt 1000)])]))
       (\<lambda>e. throw (ValueError ''external_cash_flow_history_read_failed'')) ret) (\<lambda>response.
     liftE (flow_rows response))"

definition external_identity :: "(pyval \<Rightarrow> string) \<Rightarrow> string \<Rightarrow> string \<Rightarrow> string" where
  "external_identity digest kind provider_id = digest (PDict [(''kind'', PStr kind), (''provider_id'', PStr provider_id)])"

definition external_amount :: "pyval \<Rightarrow> pyexc + pydec" where
  "external_amount v = (case v of
     PStr s \<Rightarrow> if s = [] \<or> 80 < length s then Inl record_invalid
       else (case dec_parse s of
           None \<Rightarrow> Inl record_invalid
         | Some d \<Rightarrow> if dec_positive d then Inr d else Inl record_invalid)
   | _ \<Rightarrow> Inl record_invalid)"

text \<open>\<open>datetime.fromtimestamp(ms / 1000, tz=utc)\<close>: the fraction of the double is rounded to microseconds.\<close>

definition from_milliseconds :: "int \<Rightarrow> pyexc + pydt" where
  "from_milliseconds ms = (case fl (of_int ms / 1000) of
     Fin t \<Rightarrow>
       let whole = (if t < 0 then - \<lfloor>- t\<rfloor> else \<lfloor>t\<rfloor>) in
       (case fl ((t - of_int whole) * 1000000) of
          Fin part \<Rightarrow>
            let l = epoch_us + whole * us_per_second + round_half_even part in
            if dt_in_range l then Inr (DT l (Some 0)) else Inl (ValueError ''year is out of range'')
        | _ \<Rightarrow> Inl OverflowError)
   | _ \<Rightarrow> Inl OverflowError)"

record flow_acc =
  fa_records :: pydict
  fa_observed :: "string list"
  fa_principal :: pydec
  fa_count :: int
  fa_completed :: "string list"
  fa_unsupported :: int
  fa_withdrawals :: int

text \<open>The shape of a deposit row: its id, status, insertion time and the fields its fingerprint is over.\<close>

record deposit_row =
  dw_id :: string
  dw_status :: int
  dw_inserted :: int
  dw_amount :: pydec
  dw_coin :: string
  dw_wallet :: int
  dw_transfer :: int

definition known_deposit_status :: "int \<Rightarrow> bool" where
  "known_deposit_status n = (n \<in> {0, 1, 2, 6, 7, 8})"

definition read_deposit :: "int \<Rightarrow> int \<Rightarrow> pydict \<Rightarrow> pyexc + deposit_row" where
  "read_deposit start_ms end_ms d = (case (dget d ''id'', dget d ''status'', dget d ''insertTime'') of
     (PStr i, PInt status, PInt inserted) \<Rightarrow>
       if i = [] \<or> 160 < length i \<or> \<not> known_deposit_status status \<or> \<not> (start_ms \<le> inserted \<and> inserted \<le> end_ms) then Inl record_invalid
       else
         bindE (external_amount (dget d ''amount'')) (\<lambda>a.
         case (dget d ''coin'', dget d ''walletType'', dget d ''transferType'') of
           (PStr coin, PInt wallet, PInt transfer) \<Rightarrow>
             if strip coin = [] then Inl record_invalid
             else Inr \<lparr>dw_id = i, dw_status = status, dw_inserted = inserted, dw_amount = a, dw_coin = upper (strip coin),
               dw_wallet = wallet, dw_transfer = transfer\<rparr>
         | _ \<Rightarrow> Inl record_invalid)
   | _ \<Rightarrow> Inl record_invalid)"

definition deposit_core :: "deposit_row \<Rightarrow> pydict" where
  "deposit_core r = [(''kind'', PStr ''deposit''), (''id'', PStr (dw_id r)), (''amount'', PStr (dec_format_f (dw_amount r))),
     (''coin'', PStr (dw_coin r)), (''wallet_type'', PInt (dw_wallet r)), (''transfer_type'', PInt (dw_transfer r)),
     (''insert_time'', PInt (dw_inserted r))]"

definition completion_of :: "int \<Rightarrow> deposit_row \<Rightarrow> pydict \<Rightarrow> pyexc + int \<times> string" where
  "completion_of end_ms r d = (case (dget d ''completeTime'', dget d ''txId'') of
     (PInt done_ms, PStr tx) \<Rightarrow>
       if done_ms < dw_inserted r \<or> end_ms < done_ms \<or> tx = [] \<or> 256 < length tx then Inl record_invalid else Inr (done_ms, tx)
   | _ \<Rightarrow> Inl record_invalid)"

definition final_digest :: "(pyval \<Rightarrow> string) \<Rightarrow> deposit_row \<Rightarrow> int \<times> string \<Rightarrow> string" where
  "final_digest digest r c = digest (PDict (deposit_core r @ [(''status'', PInt (dw_status r)), (''complete_time'', PInt (fst c)), (''tx_id'', PStr (snd c))]))"

definition pending_deposit :: "string \<Rightarrow> deposit_row \<Rightarrow> pyval" where
  "pending_deposit mark r = PDict [(''kind'', PStr ''deposit''), (''payload_sha256'', PStr mark), (''status'', PStr ''pending''),
     (''source_time_ms'', PInt (dw_inserted r))]"

definition final_deposit :: "string \<Rightarrow> string \<Rightarrow> deposit_row \<Rightarrow> pyval" where
  "final_deposit mark final r = PDict [(''kind'', PStr ''deposit''), (''payload_sha256'', PStr mark), (''final_sha256'', PStr final),
     (''status'', PStr ''final''), (''source_time_ms'', PInt (dw_inserted r))]"

definition prior_field :: "pydict \<Rightarrow> string \<Rightarrow> string \<Rightarrow> pyval" where
  "prior_field records identity k = dget (the_dict (dget records identity)) k"

text \<open>A newly confirmed deposit: counted unless it is the first collection, apart when it is not Spot USDT.\<close>

definition count_deposit :: "bool \<Rightarrow> deposit_row \<Rightarrow> int \<Rightarrow> flow_acc \<Rightarrow> pyexc + flow_acc" where
  "count_deposit bootstrap r done_ms acc =
     (if bootstrap then Inr acc
      else if dw_coin r \<noteq> ''USDT'' \<or> dw_wallet r \<noteq> 0 \<or> dw_transfer r \<noteq> 0 then Inr (acc\<lparr>fa_unsupported := fa_unsupported acc + 1\<rparr>)
      else
        bindE (dec_add 28 (fa_principal acc) (dw_amount r)) (\<lambda>p.
        bindE (from_milliseconds done_ms) (\<lambda>t.
        Inr (acc\<lparr>fa_principal := p, fa_count := fa_count acc + 1, fa_completed := fa_completed acc @ [iso_text t]\<rparr>))))"

definition add_deposit :: "(pyval \<Rightarrow> string) \<Rightarrow> bool \<Rightarrow> int \<Rightarrow> int \<Rightarrow> flow_acc \<Rightarrow> pyval \<Rightarrow> pyexc + flow_acc" where
  "add_deposit digest bootstrap start_ms end_ms acc row =
     bindE (read_deposit start_ms end_ms (the_dict row)) (\<lambda>r.
     let identity = external_identity digest ''deposit'' (dw_id r);
         mark = digest (PDict (deposit_core r));
         acc1 = acc\<lparr>fa_observed := identity # fa_observed acc\<rparr>;
         known = dhas (fa_records acc) identity;
         final_before = (known \<and> prior_field (fa_records acc) identity ''status'' = PStr ''final'')
     in
     bindE (ensure (identity \<notin> set (fa_observed acc)) history_incomplete) (\<lambda>_.
     bindE (ensure (\<not> (known \<and> prior_field (fa_records acc) identity ''payload_sha256'' \<noteq> PStr mark)) record_changed) (\<lambda>_.
     if dw_status r = 1 then
       bindE (completion_of end_ms r (the_dict row)) (\<lambda>c.
       let final = final_digest digest r c in
       if final_before then
         bindE (ensure (prior_field (fa_records acc) identity ''final_sha256'' = PStr final) record_changed) (\<lambda>_. Inr acc1)
       else
         bindE (count_deposit bootstrap r (fst c) acc1) (\<lambda>acc2.
         Inr (acc2\<lparr>fa_records := dset identity (final_deposit mark final r) (fa_records acc2)\<rparr>)))
     else
       bindE (ensure (\<not> final_before) record_changed) (\<lambda>_.
       Inr (acc1\<lparr>fa_records := dset identity (pending_deposit mark r) (fa_records acc1)\<rparr>)))))"

definition add_withdrawal :: "(pyval \<Rightarrow> string) \<Rightarrow> bool \<Rightarrow> flow_acc \<Rightarrow> pyval \<Rightarrow> pyexc + flow_acc" where
  "add_withdrawal digest bootstrap acc row = (case (dget (the_dict row) ''id'', dget (the_dict row) ''status'') of
     (PStr i, PInt status) \<Rightarrow>
       if i = [] \<or> 160 < length i then Inl record_invalid
       else
         let identity = external_identity digest ''withdrawal'' i; payload = digest row;
             acc1 = acc\<lparr>fa_observed := identity # fa_observed acc\<rparr> in
         bindE (ensure (identity \<notin> set (fa_observed acc)) history_incomplete) (\<lambda>_.
         Inr (if dhas (fa_records acc) identity \<and> prior_field (fa_records acc) identity ''payload_sha256'' = PStr payload then acc1
              else acc1\<lparr>fa_withdrawals := (if bootstrap then fa_withdrawals acc else fa_withdrawals acc + 1),
                fa_records := dset identity (PDict [(''kind'', PStr ''withdrawal''), (''payload_sha256'', PStr payload),
                  (''status'', PStr ''observed'')]) (fa_records acc)\<rparr>))
   | _ \<Rightarrow> Inl record_invalid)"

text \<open>Withdrawals that left the window and final deposits inserted before it are forgotten; pending deposits stay.\<close>

definition flow_kept :: "int \<Rightarrow> string list \<Rightarrow> string \<times> pyval \<Rightarrow> bool" where
  "flow_kept start_ms observed entry =
     (let r = the_dict (snd entry) in
      if dget r ''kind'' = PStr ''withdrawal'' \<and> fst entry \<notin> set observed then False
      else if dget r ''status'' = PStr ''final'' then (case dget r ''source_time_ms'' of PInt t \<Rightarrow> \<not> t < start_ms | _ \<Rightarrow> True)
      else True)"

definition flow_result :: "bool \<Rightarrow> pydt \<Rightarrow> pydict \<Rightarrow> flow_acc \<Rightarrow> pydict" where
  "flow_result bootstrap observed_at records acc =
     [(''bootstrap'', PBool bootstrap),
      (''new_deposit_principal_usdt'', PStr (if dec_is_zero (fa_principal acc) then ''0'' else dec_format_f (fa_principal acc))),
      (''new_confirmed_deposit_count'', PInt (fa_count acc)),
      (''new_deposit_completed_at'', PList (map PStr (fa_completed acc))),
      (''new_unsupported_deposit_count'', PInt (fa_unsupported acc)),
      (''new_or_changed_withdrawal_count'', PInt (fa_withdrawals acc)),
      (''cursor'', PDict [(''version'', PInt 1), (''observed_at'', PStr (iso_text observed_at)), (''records'', PDict records)])]"

definition external_flows ::
    "(pyval \<Rightarrow> string) \<Rightarrow> int \<Rightarrow> int \<Rightarrow> pydt \<Rightarrow> bool \<times> pydict \<Rightarrow> pyval list \<Rightarrow> pyval list \<Rightarrow> pyexc + pydict" where
  "external_flows digest start_ms end_ms observed_at known deposits withdrawals =
     bindE (foldE (add_deposit digest (fst known) start_ms end_ms)
       \<lparr>fa_records = snd known, fa_observed = [], fa_principal = dec_zero, fa_count = 0, fa_completed = [], fa_unsupported = 0,
        fa_withdrawals = 0\<rparr> deposits) (\<lambda>acc.
     bindE (foldE (add_withdrawal digest (fst known)) acc withdrawals) (\<lambda>acc.
     let records = filter (flow_kept start_ms (fa_observed acc)) (fa_records acc) in
     bindE (ensure (length records \<le> 256) (ValueError ''external_cash_flow_cursor_capacity_exceeded'')) (\<lambda>_.
     Inr (flow_result (fst known) observed_at records acc))))"

definition collect_spot_usdt_external_cash_flows :: "env \<Rightarrow> (pyval \<Rightarrow> string) \<Rightarrow> pydt \<Rightarrow> pyval \<Rightarrow> pyval run" where
  "collect_spot_usdt_external_cash_flows env digest now cursor =
     bind (raise_if (\<not> dt_aware now) (ValueError ''external_cash_flow_window_invalid'')) (\<lambda>_.
     bind (liftE (to_utc now)) (\<lambda>observed_at.
     bind (liftE (external_cash_flow_cursor cursor observed_at)) (\<lambda>known.
     bind (liftE (bindE (dt_shift observed_at (- (7 * us_per_day))) millis)) (\<lambda>start_ms.
     bind (liftE (millis observed_at)) (\<lambda>end_ms.
     bind (external_cash_flow_rows env ''capital/deposit/hisrec'' start_ms end_ms) (\<lambda>deposits.
     bind (external_cash_flow_rows env ''capital/withdraw/history'' start_ms end_ms) (\<lambda>withdrawals.
     bind (liftE (external_flows digest start_ms end_ms observed_at known deposits withdrawals)) (\<lambda>flows.
     ret (PDict flows)))))))))"

lemma silent_flow_rows [keeps_intros]: "keeps silent (external_cash_flow_rows env path s t)"
  unfolding external_cash_flow_rows_def by (intro keeps_intros; simp)

lemma silent_flows [keeps_intros]: "keeps silent (collect_spot_usdt_external_cash_flows env digest now cursor)"
  unfolding collect_spot_usdt_external_cash_flows_def by (intro keeps_intros)

section \<open>Collecting twice\<close>

definition deposit_id :: "(pyval \<Rightarrow> string) \<Rightarrow> pyval \<Rightarrow> string" where
  "deposit_id digest row = external_identity digest ''deposit'' (the_str (dget (the_dict row) ''id''))"

definition withdrawal_id :: "(pyval \<Rightarrow> string) \<Rightarrow> pyval \<Rightarrow> string" where
  "withdrawal_id digest row = external_identity digest ''withdrawal'' (the_str (dget (the_dict row) ''id''))"

lemma case_str_Inr:
  "case_pyval (Inl e) (\<lambda>_. Inl e) (\<lambda>_. Inl e) (\<lambda>_. Inl e) (\<lambda>_. Inl e) f (\<lambda>_. Inl e) (\<lambda>_. Inl e) v = Inr y \<longleftrightarrow> (\<exists>x. v = PStr x \<and> f x = Inr y)"
  by (cases v) auto

lemma case_int_Inr:
  "case_pyval (Inl e) (\<lambda>_. Inl e) f (\<lambda>_. Inl e) (\<lambda>_. Inl e) (\<lambda>_. Inl e) (\<lambda>_. Inl e) (\<lambda>_. Inl e) v = Inr y \<longleftrightarrow> (\<exists>x. v = PInt x \<and> f x = Inr y)"
  by (cases v) auto

lemma if_Inr: "(if b then Inl e else z) = Inr y \<longleftrightarrow> \<not> b \<and> z = Inr y"
  by simp

lemmas result_cases = case_str_Inr case_int_Inr if_Inr result_simps

lemma read_deposit_inv:
  assumes "read_deposit s t d = Inr r"
  shows "dget d ''id'' = PStr (dw_id r) \<and> dget d ''status'' = PInt (dw_status r) \<and> dget d ''insertTime'' = PInt (dw_inserted r) \<and> s \<le> dw_inserted r
    \<and> external_amount (dget d ''amount'') = Inr (dw_amount r) \<and> dw_coin r = upper (strip (the_str (dget d ''coin'')))
    \<and> dget d ''walletType'' = PInt (dw_wallet r) \<and> dget d ''transferType'' = PInt (dw_transfer r)"
  using assms unfolding read_deposit_def prod.case result_cases
  by (elim exE conjE) (drule sym [of "Inr _"], simp)

lemma read_deposit_facts:
  assumes "read_deposit s t (the_dict row) = Inr r"
  shows "external_identity digest ''deposit'' (dw_id r) = deposit_id digest row" "s \<le> dw_inserted r"
    "dget (the_dict row) ''insertTime'' = PInt (dw_inserted r)"
  using read_deposit_inv [OF assms] by (simp_all add: deposit_id_def)

lemma read_deposit_same: "read_deposit s t d = Inr r \<Longrightarrow> read_deposit s' t' d = Inr r' \<Longrightarrow> r' = r"
  by (drule read_deposit_inv, drule read_deposit_inv) simp

lemma count_deposit_frame:
  "count_deposit b r m acc = Inr acc' \<Longrightarrow> fa_records acc' = fa_records acc \<and> fa_observed acc' = fa_observed acc"
  by (auto simp: count_deposit_def result_simps split: if_splits)

text \<open>What a collection leaves in the records about a row it has seen.\<close>

definition deposit_stored :: "(pyval \<Rightarrow> string) \<Rightarrow> int \<Rightarrow> int \<Rightarrow> pydict \<Rightarrow> pyval \<Rightarrow> bool" where
  "deposit_stored digest s t records row = (let k = deposit_id digest row in dhas records k \<and> (\<exists>r. read_deposit s t (the_dict row) = Inr r
     \<and> prior_field records k ''payload_sha256'' = PStr (digest (PDict (deposit_core r)))
     \<and> (if dw_status r = 1 then prior_field records k ''status'' = PStr ''final'' \<and> prior_field records k ''source_time_ms'' = PInt (dw_inserted r)
            \<and> (\<exists>c. completion_of t r (the_dict row) = Inr c \<and> prior_field records k ''final_sha256'' = PStr (final_digest digest r c))
        else map_of records k = Some (pending_deposit (digest (PDict (deposit_core r))) r))))"

definition withdrawal_stored :: "(pyval \<Rightarrow> string) \<Rightarrow> pydict \<Rightarrow> pyval \<Rightarrow> bool" where
  "withdrawal_stored digest records row = (\<exists>i n. dget (the_dict row) ''id'' = PStr i \<and> dget (the_dict row) ''status'' = PInt n \<and> i \<noteq> [] \<and> length i \<le> 160
     \<and> dhas records (withdrawal_id digest row)
     \<and> prior_field records (withdrawal_id digest row) ''payload_sha256'' = PStr (digest row)
     \<and> prior_field records (withdrawal_id digest row) ''status'' \<noteq> PStr ''final'')"

text \<open>The records agree with the history: what they call final has the time of its row, and no withdrawal is final.\<close>

definition deposit_agrees :: "(pyval \<Rightarrow> string) \<Rightarrow> pydict \<Rightarrow> pyval \<Rightarrow> bool" where
  "deposit_agrees digest records row = (prior_field records (deposit_id digest row) ''status'' = PStr ''final''
     \<longrightarrow> prior_field records (deposit_id digest row) ''source_time_ms'' = dget (the_dict row) ''insertTime'')"

definition withdrawal_agrees :: "(pyval \<Rightarrow> string) \<Rightarrow> pydict \<Rightarrow> pyval \<Rightarrow> bool" where
  "withdrawal_agrees digest records row = (prior_field records (withdrawal_id digest row) ''status'' \<noteq> PStr ''final'')"

lemma prior_field_map: "map_of R k = map_of R' k \<Longrightarrow> prior_field R k x = prior_field R' k x"
  by (simp add: prior_field_def dget_def)

lemma map_of_dset: "map_of (dset k v d) k' = (if k' = k then Some v else map_of d k')"
  by (simp add: dset_def update_conv')

lemma prior_field_dset: "prior_field (dset k (PDict d) R) k' x = (if k' = k then dget d x else prior_field R k' x)"
  by (simp add: prior_field_def)

lemma add_deposit_inv:
  assumes "add_deposit digest b s t acc row = Inr acc'"
  shows "\<exists>r k m. read_deposit s t (the_dict row) = Inr r \<and> k = deposit_id digest row \<and> m = digest (PDict (deposit_core r))
    \<and> k \<notin> set (fa_observed acc) \<and> fa_observed acc' = k # fa_observed acc
    \<and> (dhas (fa_records acc) k \<longrightarrow> prior_field (fa_records acc) k ''payload_sha256'' = PStr m)
    \<and> ((\<exists>c. dw_status r = 1 \<and> completion_of t r (the_dict row) = Inr c
          \<and> (dhas (fa_records acc) k \<and> prior_field (fa_records acc) k ''status'' = PStr ''final''
              \<and> prior_field (fa_records acc) k ''final_sha256'' = PStr (final_digest digest r c) \<and> fa_records acc' = fa_records acc
            \<or> fa_records acc' = dset k (final_deposit m (final_digest digest r c) r) (fa_records acc)))
      \<or> dw_status r \<noteq> 1 \<and> fa_records acc' = dset k (pending_deposit m r) (fa_records acc))"
proof -
  obtain r where r: "read_deposit s t (the_dict row) = Inr r"
    using assms by (auto simp: add_deposit_def result_simps)
  note k = read_deposit_facts(1) [OF r, of digest]
  show ?thesis
    using assms unfolding add_deposit_def r bindE.simps k Let_def result_simps
    by (cases "dw_status r = 1"; cases "dhas (fa_records acc) (deposit_id digest row) \<and> prior_field (fa_records acc) (deposit_id digest row) ''status'' = PStr ''final''")
      (auto simp: result_simps r dest!: count_deposit_frame)
qed

lemma added_deposit:
  assumes "add_deposit digest b s t acc row = Inr acc'"
  shows "deposit_id digest row \<notin> set (fa_observed acc)" "fa_observed acc' = deposit_id digest row # fa_observed acc"
    "\<And>k. k \<noteq> deposit_id digest row \<Longrightarrow> map_of (fa_records acc') k = map_of (fa_records acc) k"
    "deposit_agrees digest (fa_records acc) row \<Longrightarrow> deposit_stored digest s t (fa_records acc') row"
proof -
  note step = add_deposit_inv [OF assms]
  from step show "deposit_id digest row \<notin> set (fa_observed acc)" "fa_observed acc' = deposit_id digest row # fa_observed acc"
    by blast+
  from step show "\<And>k. k \<noteq> deposit_id digest row \<Longrightarrow> map_of (fa_records acc') k = map_of (fa_records acc) k"
    by (elim exE conjE disjE) (simp_all add: map_of_dset)
  show "deposit_stored digest s t (fa_records acc') row" if agrees: "deposit_agrees digest (fa_records acc) row"
    using step
  proof (elim exE conjE)
    fix r k m
    assume r: "read_deposit s t (the_dict row) = Inr r" and k: "k = deposit_id digest row" and m: "m = digest (PDict (deposit_core r))"
      and same: "dhas (fa_records acc) k \<longrightarrow> prior_field (fa_records acc) k ''payload_sha256'' = PStr m"
      and how: "(\<exists>c. dw_status r = 1 \<and> completion_of t r (the_dict row) = Inr c
          \<and> (dhas (fa_records acc) k \<and> prior_field (fa_records acc) k ''status'' = PStr ''final''
              \<and> prior_field (fa_records acc) k ''final_sha256'' = PStr (final_digest digest r c) \<and> fa_records acc' = fa_records acc
            \<or> fa_records acc' = dset k (final_deposit m (final_digest digest r c) r) (fa_records acc)))
      \<or> dw_status r \<noteq> 1 \<and> fa_records acc' = dset k (pending_deposit m r) (fa_records acc)"
    show ?thesis
      using how agrees same read_deposit_facts(3) [OF r]
      by (elim disjE exE conjE)
        (auto simp: deposit_stored_def Let_def deposit_agrees_def r k m final_deposit_def pending_deposit_def prior_field_dset map_of_dset dget_def)
  qed
qed

lemma added_withdrawal:
  assumes "add_withdrawal digest b acc row = Inr acc'"
  shows "withdrawal_id digest row \<notin> set (fa_observed acc)" "fa_observed acc' = withdrawal_id digest row # fa_observed acc"
    "\<And>k. k \<noteq> withdrawal_id digest row \<Longrightarrow> map_of (fa_records acc') k = map_of (fa_records acc) k"
    "withdrawal_agrees digest (fa_records acc) row \<Longrightarrow> withdrawal_stored digest (fa_records acc') row"
proof -
  obtain i n where row: "dget (the_dict row) ''id'' = PStr i" "dget (the_dict row) ''status'' = PInt n" "i \<noteq> []" "length i \<le> 160"
    using assms by (auto simp: add_withdrawal_def result_simps not_less split: pyval.splits if_splits)
  have k: "external_identity digest ''withdrawal'' i = withdrawal_id digest row"
    by (simp add: withdrawal_id_def row)
  show "withdrawal_id digest row \<notin> set (fa_observed acc)" "fa_observed acc' = withdrawal_id digest row # fa_observed acc"
    "\<And>k. k \<noteq> withdrawal_id digest row \<Longrightarrow> map_of (fa_records acc') k = map_of (fa_records acc) k"
    "withdrawal_agrees digest (fa_records acc) row \<Longrightarrow> withdrawal_stored digest (fa_records acc') row"
    using assms row(3,4)
    by (auto simp: add_withdrawal_def row k Let_def result_simps map_of_dset prior_field_dset withdrawal_stored_def withdrawal_agrees_def
        split: if_splits)
qed

text \<open>A second collection that meets only stored rows.\<close>

lemma deposit_again:
  assumes "deposit_stored digest s t (fa_records acc) row" and "deposit_id digest row \<notin> set (fa_observed acc)"
    and "t \<le> t'" and "\<not> isl (read_deposit s' t' (the_dict row))"
  shows "add_deposit digest b s' t' acc row = Inr (acc\<lparr>fa_observed := deposit_id digest row # fa_observed acc\<rparr>)"
proof -
  obtain r where r: "read_deposit s t (the_dict row) = Inr r" "read_deposit s' t' (the_dict row) = Inr r"
    using assms by (auto simp: deposit_stored_def Let_def isl_def split: sum.splits) (metis isl_def read_deposit_same sum.exhaust_sel)
  have later: "completion_of t r d = Inr c \<Longrightarrow> completion_of t' r d = Inr c" for c d
    using assms(3) by (auto simp: completion_of_def split: pyval.splits if_splits)
  note k = read_deposit_facts(1) [OF r(1), of digest]
  have same: "dset k v d = d" if "map_of d k = Some v" for k v and d :: pydict
    using that by (induction d) (auto simp: dset_def split: if_splits)
  have "dhas (fa_records acc) (deposit_id digest row)" "prior_field (fa_records acc) (deposit_id digest row) ''payload_sha256'' = PStr (digest (PDict (deposit_core r)))"
    "dw_status r \<noteq> 1 \<Longrightarrow> map_of (fa_records acc) (deposit_id digest row) = Some (pending_deposit (digest (PDict (deposit_core r))) r)"
    "dw_status r = 1 \<Longrightarrow> prior_field (fa_records acc) (deposit_id digest row) ''status'' = PStr ''final'' \<and>
       (\<exists>c. completion_of t r (the_dict row) = Inr c \<and> prior_field (fa_records acc) (deposit_id digest row) ''final_sha256'' = PStr (final_digest digest r c))"
    using assms(1) r by (auto simp: deposit_stored_def Let_def split: if_splits)
  then show ?thesis
    using assms(2)
    by (cases "dw_status r = 1")
      (auto simp: add_deposit_def r k Let_def ensure_def same prior_field_def dget_def pending_deposit_def dest!: later)
qed

lemma withdrawal_again:
  assumes "withdrawal_stored digest (fa_records acc) row" and "withdrawal_id digest row \<notin> set (fa_observed acc)"
  shows "add_withdrawal digest b acc row = Inr (acc\<lparr>fa_observed := withdrawal_id digest row # fa_observed acc\<rparr>)"
  using assms by (auto simp: withdrawal_stored_def add_withdrawal_def withdrawal_id_def Let_def ensure_def)

text \<open>
  Both kinds of rows keep a ledger by identity: a step touches the record of its own row only, marks
  the row as seen and leaves it stored; a replay over stored rows changes nothing but the marks.
\<close>

locale flow_ledger =
  fixes add :: "flow_acc \<Rightarrow> pyval \<Rightarrow> pyexc + flow_acc" and rid :: "pyval \<Rightarrow> string"
    and agrees stored :: "pydict \<Rightarrow> pyval \<Rightarrow> bool"
  assumes unseen: "add acc row = Inr acc' \<Longrightarrow> rid row \<notin> set (fa_observed acc)"
    and marks: "add acc row = Inr acc' \<Longrightarrow> fa_observed acc' = rid row # fa_observed acc"
    and others: "add acc row = Inr acc' \<Longrightarrow> k \<noteq> rid row \<Longrightarrow> map_of (fa_records acc') k = map_of (fa_records acc) k"
    and stores: "add acc row = Inr acc' \<Longrightarrow> agrees (fa_records acc) row \<Longrightarrow> stored (fa_records acc') row"
    and agrees_local: "map_of R (rid row) = map_of R' (rid row) \<Longrightarrow> agrees R row \<Longrightarrow> agrees R' row"
    and stored_local: "map_of R (rid row) = map_of R' (rid row) \<Longrightarrow> stored R row \<Longrightarrow> stored R' row"
begin

lemma fold_marks:
  "foldE add acc rows = Inr acc' \<Longrightarrow> fa_observed acc' = rev (map rid rows) @ fa_observed acc \<and> distinct (map rid rows)
     \<and> set (map rid rows) \<inter> set (fa_observed acc) = {}"
proof (induction rows arbitrary: acc)
  case (Cons row rows)
  then obtain acc1 where step: "add acc row = Inr acc1" "foldE add acc1 rows = Inr acc'"
    by (auto simp: result_simps)
  show ?case
    using Cons.IH [OF step(2)] unseen [OF step(1)] marks [OF step(1)] by auto
qed simp

lemma fold_others:
  "foldE add acc rows = Inr acc' \<Longrightarrow> k \<notin> rid ` set rows \<Longrightarrow> map_of (fa_records acc') k = map_of (fa_records acc) k"
  by (induction rows arbitrary: acc) (auto simp: result_simps others)

lemma fold_stored:
  "foldE add acc rows = Inr acc' \<Longrightarrow> \<forall>row \<in> set rows. agrees (fa_records acc) row \<Longrightarrow> \<forall>row \<in> set rows. stored (fa_records acc') row"
proof (induction rows arbitrary: acc)
  case (Cons row rows)
  then obtain acc1 where step: "add acc row = Inr acc1" "foldE add acc1 rows = Inr acc'"
    by (auto simp: result_simps)
  have apart: "rid row \<notin> rid ` set rows"
    using fold_marks [OF step(2)] marks [OF step(1)] by auto
  have "agrees (fa_records acc1) x" if "x \<in> set rows" for x
  proof (intro agrees_local [OF sym [OF others [OF step(1)]]])
    show "rid x \<noteq> rid row" using that apart by (metis imageI)
    show "agrees (fa_records acc) x" using that Cons.prems(2) by simp
  qed
  then have "\<forall>x \<in> set rows. stored (fa_records acc') x"
    using Cons.IH [OF step(2)] by blast
  moreover have "stored (fa_records acc') row"
    using stores [OF step(1)] Cons.prems(2) by (intro stored_local [OF sym [OF fold_others [OF step(2) apart]]]) simp
  ultimately show ?case by simp
qed simp

end

locale flow_replay = flow_ledger +
  fixes add_again :: "flow_acc \<Rightarrow> pyval \<Rightarrow> pyexc + flow_acc" and visible :: "pyval \<Rightarrow> bool"
  assumes again: "stored (fa_records acc) row \<Longrightarrow> rid row \<notin> set (fa_observed acc) \<Longrightarrow> visible row
    \<Longrightarrow> add_again acc row = Inr (acc\<lparr>fa_observed := rid row # fa_observed acc\<rparr>)"
begin

lemma fold_again:
  assumes "\<forall>row \<in> set rows. stored (fa_records acc) row \<and> visible row" and "distinct (map rid rows)"
    and "set (map rid rows) \<inter> set (fa_observed acc) = {}"
  shows "foldE add_again acc rows = Inr (acc\<lparr>fa_observed := rev (map rid rows) @ fa_observed acc\<rparr>)"
  using assms
proof (induction rows arbitrary: acc)
  case (Cons row rows)
  then show ?case
    using Cons.IH [of "acc\<lparr>fa_observed := rid row # fa_observed acc\<rparr>"] by (simp add: again)
qed simp

end

interpretation deposits: flow_replay "add_deposit digest b s t" "deposit_id digest" "deposit_agrees digest" "deposit_stored digest s t"
  "add_deposit digest False s' t'" "\<lambda>row. t \<le> t' \<and> \<not> isl (read_deposit s' t' (the_dict row))" for digest b s t s' t'
proof unfold_locales
  fix R R' :: pydict and row
  assume same: "map_of R (deposit_id digest row) = map_of R' (deposit_id digest row)"
  note prior = prior_field_map [OF same]
  show "deposit_agrees digest R row \<Longrightarrow> deposit_agrees digest R' row"
    "deposit_stored digest s t R row \<Longrightarrow> deposit_stored digest s t R' row"
    using same by (simp_all add: deposit_agrees_def deposit_stored_def Let_def dhas_def prior cong: conj_cong if_cong)
qed (auto dest: added_deposit deposit_again)

interpretation withdrawals: flow_replay "add_withdrawal digest b" "withdrawal_id digest" "withdrawal_agrees digest" "withdrawal_stored digest"
  "add_withdrawal digest False" "\<lambda>_. True" for digest b
proof unfold_locales
  fix R R' :: pydict and row
  assume same: "map_of R (withdrawal_id digest row) = map_of R' (withdrawal_id digest row)"
  note prior = prior_field_map [OF same]
  show "withdrawal_agrees digest R row \<Longrightarrow> withdrawal_agrees digest R' row"
    "withdrawal_stored digest R row \<Longrightarrow> withdrawal_stored digest R' row"
    using same by (simp_all add: withdrawal_agrees_def withdrawal_stored_def dhas_def prior)
qed (auto dest: added_withdrawal withdrawal_again)

section \<open>The cursor of a collection\<close>

text \<open>Entries the next collection accepts.\<close>

definition acceptable :: "pydict \<Rightarrow> bool" where
  "acceptable records = list_all (\<lambda>entry. flow_record entry = Inr entry) records"

lemma mapE_same: "(\<And>x y. f x = Inr y \<Longrightarrow> y = x) \<Longrightarrow> mapE f xs = Inr ys \<Longrightarrow> ys = xs \<and> list_all (\<lambda>x. f x = Inr x) xs"
  by (induction xs arbitrary: ys) (auto simp: result_simps)

lemma mapE_all: "list_all (\<lambda>x. f x = Inr x) xs \<Longrightarrow> mapE f xs = Inr xs"
  by (induction xs) auto

lemma flow_record_same: "flow_record entry = Inr kept \<Longrightarrow> kept = entry"
  by (auto simp: flow_record_def result_simps split: pyval.splits)

lemma flow_records_acceptable: "mapE flow_record xs = Inr ys \<Longrightarrow> acceptable ys"
  using mapE_same [of flow_record, OF flow_record_same, of xs ys] by (simp add: acceptable_def)

lemma cursor_acceptable: "external_cash_flow_cursor cursor now = Inr known \<Longrightarrow> acceptable (snd known)"
  by (auto simp: external_cash_flow_cursor_def result_simps dest!: flow_records_acceptable split: pyval.splits) (simp add: acceptable_def)

lemma acceptable_dset: "acceptable d \<Longrightarrow> flow_record (k, v) = Inr (k, v) \<Longrightarrow> acceptable (dset k v d)"
  unfolding acceptable_def dset_def by (induction d) auto

lemma stored_acceptable:
  assumes "\<And>v. hex64 (digest v)"
  shows "flow_record (digest v, pending_deposit (digest u) r) = Inr (digest v, pending_deposit (digest u) r)"
    "flow_record (digest v, final_deposit (digest u) (digest x) r) = Inr (digest v, final_deposit (digest u) (digest x) r)"
    "flow_record (digest v, PDict [(''kind'', PStr ''withdrawal''), (''payload_sha256'', PStr (digest u)), (''status'', PStr ''observed'')])
       = Inr (digest v, PDict [(''kind'', PStr ''withdrawal''), (''payload_sha256'', PStr (digest u)), (''status'', PStr ''observed'')])"
  using assms by (simp_all add: flow_record_def pending_deposit_def final_deposit_def one_of_def ensure_def dget_def hex64_def)

lemma added_acceptable:
  assumes "\<And>v. hex64 (digest v)"
  shows "add_deposit digest b s t acc row = Inr acc' \<Longrightarrow> acceptable (fa_records acc) \<Longrightarrow> acceptable (fa_records acc')"
    "add_withdrawal digest b acc row = Inr acc' \<Longrightarrow> acceptable (fa_records acc) \<Longrightarrow> acceptable (fa_records acc')"
proof -
  note ok = acceptable_dset [OF _ stored_acceptable(1) [OF assms]] acceptable_dset [OF _ stored_acceptable(2) [OF assms]]
    acceptable_dset [OF _ stored_acceptable(3) [OF assms]]
  show "add_deposit digest b s t acc row = Inr acc' \<Longrightarrow> acceptable (fa_records acc) \<Longrightarrow> acceptable (fa_records acc')"
    by (drule add_deposit_inv, elim exE conjE disjE) (simp_all add: deposit_id_def external_identity_def final_digest_def ok)
  show "add_withdrawal digest b acc row = Inr acc' \<Longrightarrow> acceptable (fa_records acc) \<Longrightarrow> acceptable (fa_records acc')"
    by (auto simp: add_withdrawal_def Let_def external_identity_def result_simps intro!: ok split: pyval.splits if_splits)
qed

lemma folded_acceptable:
  assumes "\<And>v. hex64 (digest v)"
  shows "foldE (add_deposit digest b s t) acc rows = Inr acc' \<Longrightarrow> acceptable (fa_records acc) \<Longrightarrow> acceptable (fa_records acc')"
    "foldE (add_withdrawal digest b) acc rows = Inr acc' \<Longrightarrow> acceptable (fa_records acc) \<Longrightarrow> acceptable (fa_records acc')"
  by (induction rows arbitrary: acc) (auto simp: result_simps dest: added_acceptable [OF assms])

lemma map_of_filter: "map_of xs k = Some v \<Longrightarrow> P (k, v) \<Longrightarrow> map_of (filter P xs) k = Some v"
  by (induction xs) (auto split: if_splits)

text \<open>Forgetting old entries keeps what was stored for a row of the window.\<close>

lemma kept_stored:
  assumes "deposit_stored digest s t R row" and "deposit_id digest row \<in> set observed"
  shows "deposit_stored digest s t (filter (flow_kept s observed) R) row"
proof (rule deposits.stored_local [OF _ assms(1)])
  obtain v where v: "map_of R (deposit_id digest row) = Some v"
    using assms(1) by (auto simp: deposit_stored_def Let_def dhas_def)
  obtain r where r: "read_deposit s t (the_dict row) = Inr r" "dw_status r = 1 \<Longrightarrow> dget (the_dict v) ''source_time_ms'' = PInt (dw_inserted r)"
      "dw_status r \<noteq> 1 \<Longrightarrow> v = pending_deposit (digest (PDict (deposit_core r))) r"
    using assms(1) v by (auto simp: deposit_stored_def Let_def prior_field_def dget_def split: if_splits)
  have "flow_kept s observed (deposit_id digest row, v)"
    using assms(2) r read_deposit_facts(2) [OF r(1)]
    by (cases "dw_status r = 1") (auto simp: flow_kept_def pending_deposit_def dget_def)
  from map_of_filter [of R, OF v, where P = "flow_kept s observed", OF this]
  show "map_of R (deposit_id digest row) = map_of (filter (flow_kept s observed) R) (deposit_id digest row)"
    using v by simp
qed

lemma kept_withdrawal:
  assumes "withdrawal_stored digest R row" and "withdrawal_id digest row \<in> set observed"
  shows "withdrawal_stored digest (filter (flow_kept s observed) R) row"
proof (rule withdrawals.stored_local [OF _ assms(1)])
  obtain v where v: "map_of R (withdrawal_id digest row) = Some v" "dget (the_dict v) ''status'' \<noteq> PStr ''final''"
    using assms(1) by (auto simp: withdrawal_stored_def dhas_def prior_field_def dget_def)
  then have "flow_kept s observed (withdrawal_id digest row, v)"
    using assms(2) by (simp add: flow_kept_def Let_def)
  from map_of_filter [of R, OF v(1), where P = "flow_kept s observed", OF this]
  show "map_of R (withdrawal_id digest row) = map_of (filter (flow_kept s observed) R) (withdrawal_id digest row)"
    using v by simp
qed

lemma flows_replayed:
  assumes hex: "\<And>v. hex64 (digest v)" and acceptable: "acceptable (snd known)"
    and first: "external_flows digest s t obs known ds ws = Inr f"
    and deposits_agree: "\<forall>row \<in> set ds. deposit_agrees digest (snd known) row"
    and withdrawals_agree: "\<forall>row \<in> set ws. withdrawal_agrees digest (snd known) row"
    and window: "t \<le> t'" "\<forall>row \<in> set ds. \<not> isl (read_deposit s' t' (the_dict row))"
  shows "\<exists>records f'. dget f ''cursor'' = PDict [(''version'', PInt 1), (''observed_at'', PStr (iso_text obs)), (''records'', PDict records)]
    \<and> acceptable records \<and> length records \<le> 256 \<and> external_flows digest s' t' later (False, records) ds ws = Inr f'
    \<and> dget f' ''new_deposit_principal_usdt'' = PStr ''0'' \<and> dget f' ''new_confirmed_deposit_count'' = PInt 0
    \<and> dget f' ''new_deposit_completed_at'' = PList [] \<and> dget f' ''new_unsupported_deposit_count'' = PInt 0
    \<and> dget f' ''new_or_changed_withdrawal_count'' = PInt 0"
proof -
  let ?zero = "\<lambda>records. \<lparr>fa_records = records, fa_observed = [], fa_principal = dec_zero, fa_count = 0, fa_completed = [], fa_unsupported = 0,
    fa_withdrawals = 0\<rparr>"
  obtain a1 a2 where run: "foldE (add_deposit digest (fst known) s t) (?zero (snd known)) ds = Inr a1"
      "foldE (add_withdrawal digest (fst known)) a1 ws = Inr a2"
    and f: "f = flow_result (fst known) obs (filter (flow_kept s (fa_observed a2)) (fa_records a2)) a2"
      "length (filter (flow_kept s (fa_observed a2)) (fa_records a2)) \<le> 256"
    using first by (auto simp: external_flows_def result_simps Let_def)
  define R where "R = filter (flow_kept s (fa_observed a2)) (fa_records a2)"
  note seen = deposits.fold_marks [OF run(1)] withdrawals.fold_marks [OF run(2)]
  have apart: "deposit_id digest row \<notin> withdrawal_id digest ` set ws" if "row \<in> set ds" for row
    using seen that by auto
  have unmoved: "map_of (fa_records a1) (withdrawal_id digest row) = map_of (snd known) (withdrawal_id digest row)" if "row \<in> set ws" for row
    using deposits.fold_others [OF run(1)] seen that by (metis (mono_tags, lifting) apart imageE imageI flow_acc.select_convs(1))
  have stored: "deposit_stored digest s t R row" if "row \<in> set ds" for row
    unfolding R_def
  proof (rule kept_stored)
    have "deposit_stored digest s t (fa_records a1) row"
      using deposits.fold_stored [OF run(1)] deposits_agree that by simp
    then show "deposit_stored digest s t (fa_records a2) row"
      by (rule deposits.stored_local [OF sym [OF withdrawals.fold_others [OF run(2) apart [OF that]]]])
    show "deposit_id digest row \<in> set (fa_observed a2)" using seen that by simp
  qed
  have stored_w: "withdrawal_stored digest R row" if "row \<in> set ws" for row
    unfolding R_def
  proof (rule kept_withdrawal)
    have "\<forall>x \<in> set ws. withdrawal_agrees digest (fa_records a1) x"
      using withdrawals_agree withdrawals.agrees_local [OF sym [OF unmoved]] by blast
    then show "withdrawal_stored digest (fa_records a2) row"
      using withdrawals.fold_stored [OF run(2)] that by blast
    show "withdrawal_id digest row \<in> set (fa_observed a2)" using seen that by simp
  qed
  have "acceptable (fa_records a2)"
    using folded_acceptable(2) [OF hex run(2) folded_acceptable(1) [OF hex run(1)]] acceptable by simp
  then have R: "acceptable R" "length R \<le> 256"
    using f(2) by (auto simp: R_def acceptable_def list_all_iff)
  have again: "foldE (add_deposit digest False s' t') (?zero R) ds = Inr ((?zero R)\<lparr>fa_observed := rev (map (deposit_id digest) ds) @ []\<rparr>)"
    using deposits.fold_again [where t = t and s = s and acc = "?zero R" and rows = ds and digest = digest and s' = s' and t' = t'] stored seen window
    by simp
  have again_w: "foldE (add_withdrawal digest False) ((?zero R)\<lparr>fa_observed := rev (map (deposit_id digest) ds) @ []\<rparr>) ws
      = Inr ((?zero R)\<lparr>fa_observed := rev (map (withdrawal_id digest) ws) @ rev (map (deposit_id digest) ds) @ []\<rparr>)"
    using withdrawals.fold_again [where acc = "(?zero R)\<lparr>fa_observed := rev (map (deposit_id digest) ds) @ []\<rparr>" and rows = ws and digest = digest]
      stored_w seen by auto
  have len: "length (filter P R) \<le> 256" for P
    using R(2) length_filter_le [of P R] by linarith
  show ?thesis
    using f again again_w R len
    by - (rule exI [of _ R], simp add: external_flows_def flow_result_def R_def [symmetric] dget_def ensure_def dec_zero_def Let_def)
qed


section \<open>A concrete history\<close>

definition sample_deposit_row :: pyval where
  "sample_deposit_row = PDict [(''id'', PStr ''d1''), (''status'', PInt 1), (''insertTime'', PInt 1000), (''amount'', PStr ''25.5''), (''coin'', PStr ''usdt''),
     (''walletType'', PInt 0), (''transferType'', PInt 0), (''completeTime'', PInt 1500), (''txId'', PStr ''t1'')]"

definition plain_digest :: "pyval \<Rightarrow> string" where
  "plain_digest v = replicate 64 (CHR ''a'')"

definition sample_flow_cursor :: pyval where
  "sample_flow_cursor = dget (case external_flows plain_digest 0 2000 (DT 0 (Some 0)) (True, []) [sample_deposit_row] [] of Inr f \<Rightarrow> f | Inl e \<Rightarrow> []) ''cursor''"

lemma sample_flows:
  "\<exists>f. external_flows plain_digest 0 2000 (DT 0 (Some 0)) (True, []) [sample_deposit_row] [] = Inr f"
  "\<not> isl (read_deposit 500 2500 (the_dict sample_deposit_row))" "hex64 (plain_digest v)"
proof -
  have "\<not> isl (external_flows plain_digest 0 2000 (DT 0 (Some 0)) (True, []) [sample_deposit_row] [])" by code_simp
  then show "\<exists>f. external_flows plain_digest 0 2000 (DT 0 (Some 0)) (True, []) [sample_deposit_row] [] = Inr f"
    by (metis isl_def sum.exhaust_sel)
  show "\<not> isl (read_deposit 500 2500 (the_dict sample_deposit_row))" by code_simp
  show "hex64 (plain_digest v)" unfolding plain_digest_def by code_simp
qed


end
