(* ===== verification/Market_Snapshot.thy ===== *)
theory Market_Snapshot
  imports Strategy_Runtime Cash_Flows
begin

text \<open>
  What a cycle reads before it decides: \<open>infra/binance_runtime.py\<close> (connecting, the BTC snapshot and
  the indicators), \<open>market_snapshot_support.py\<close> (balances, prices, the fuel top-up) and the wrappers of
  \<open>main.py\<close> around them, in the validation scope \<open>standard\<close>. Fetching the BTC snapshot and the daily
  indicators is the platform kit's and stays a call of the environment; waiting is the call \<open>Pause\<close>.
  The base assets of a universe are strings.
\<close>

section \<open>Connecting\<close>

text \<open>\<open>left\<close> counts the attempts that remain, of \<open>max_retries\<close> = 3.\<close>

fun connect_attempts :: "env \<Rightarrow> notifier \<Rightarrow> nat \<Rightarrow> bool run" where
  "connect_attempts env notify 0 = ret False"
| "connect_attempts env notify (Suc left) =
     attempt (invoke env ConnectClient)
       (\<lambda>e. if 0 < left then bind (quiet env Pause) (\<lambda>_. connect_attempts env notify left)
          else
            bind (append_report_error ''client_connection_failed'' ''client'') (\<lambda>_.
            bind (upd_rp (\<lambda>p. p\<lparr>rp_status := PStr ''aborted''\<rparr>)) (\<lambda>_.
            bind (notify (Immediate ''api_error'' [(''error'', PStr ''client_connection_failed'')])) (\<lambda>_.
            ret False))))
       (\<lambda>v. bind (upd_rt (\<lambda>r. r\<lparr>rt_client := v \<noteq> PNone\<rparr>)) (\<lambda>_. ret True))"

definition ensure_runtime_client :: "env \<Rightarrow> notifier \<Rightarrow> nat \<Rightarrow> bool run" where
  "ensure_runtime_client env notify max_retries =
     bind (gets (\<lambda>w. rt_client (rt w))) (\<lambda>connected.
     if connected then ret True else connect_attempts env notify max_retries)"

section \<open>BTC snapshot and indicators\<close>

definition retry_delays :: "int list" where
  "retry_delays = [5, 15]"

text \<open>The delay after attempt \<open>k\<close>, counted from 1: the last one is repeated.\<close>

definition delay_after :: "int list \<Rightarrow> nat \<Rightarrow> int" where
  "delay_after delays k = (if delays = [] then 0 else max 0 (delays ! min (k - 1) (length delays - 1)))"

fun snapshot_attempts :: "env \<Rightarrow> int list \<Rightarrow> pyfloat \<Rightarrow> nat \<Rightarrow> nat \<Rightarrow> pydict option run" where
  "snapshot_attempts env delays price k 0 = ret None"
| "snapshot_attempts env delays price k (Suc left) =
     bind (invoke env (BtcSnapshot price)) (\<lambda>v. case v of
       PDict d \<Rightarrow> ret (Some d)
     | _ \<Rightarrow>
         if left = 0 then ret None
         else bind (whenM (0 < delay_after delays k) (quiet env Pause)) (\<lambda>_. snapshot_attempts env delays price (k + 1) left))"

text \<open>The sources of a snapshot: an injected one, the configured attempts, the indicator file if one was read.\<close>

record snapshot_source =
  ms_btc :: "pydict option"
  ms_attempts :: int
  ms_cycle :: "pyval option"
  ms_indicators :: "pydict option"

definition snapshot_tries :: "int \<Rightarrow> nat" where
  "snapshot_tries n = nat (max 1 (max 1 (min 5 n)))"

definition cycle_fields :: "string list" where
  "cycle_fields = [''ahr999'', ''ahr999_gma'', ''mayer_multiple'', ''mvrv_zscore'', ''ahr999_estimate_price'', ''drawdown_252d'', ''sma200_gap'']"

definition enrich_btc_snapshot :: "pyval option \<Rightarrow> pydict option \<Rightarrow> pyexc + pydict option" where
  "enrich_btc_snapshot cycle snapshot = (case cycle of
     None \<Rightarrow> Inr snapshot
   | Some (PDict c) \<Rightarrow>
       let found = filter (\<lambda>f. dget c f \<noteq> PNone) cycle_fields in
       (case snapshot of
          None \<Rightarrow> Inl (if found = [] then AttributeError else TypeError)
        | Some d \<Rightarrow> Inr (Some (foldl (\<lambda>d f. dset f (dget c f) d) d found)))
   | _ \<Rightarrow> Inl AttributeError)"

definition resolve_runtime_btc_snapshot :: "env \<Rightarrow> snapshot_source \<Rightarrow> pyfloat \<Rightarrow> pydict option run" where
  "resolve_runtime_btc_snapshot env ms price =
     bind (case ms_btc ms of Some d \<Rightarrow> ret (Some d) | None \<Rightarrow> snapshot_attempts env retry_delays price 1 (snapshot_tries (ms_attempts ms))) (\<lambda>d.
     liftE (enrich_btc_snapshot (ms_cycle ms) d))"

definition resolve_runtime_trend_indicators :: "env \<Rightarrow> snapshot_source \<Rightarrow> string list \<Rightarrow> pydict run" where
  "resolve_runtime_trend_indicators env ms symbols = (case ms_indicators ms of
     Some given \<Rightarrow> ret (map (\<lambda>s. (s, dget given s)) symbols)
   | None \<Rightarrow> map_eff (\<lambda>s. bind (invoke env (DailyIndicators s)) (\<lambda>v. ret (s, v))) symbols)"

section \<open>The snapshot\<close>

definition get_total_balance :: "env \<Rightarrow> string \<Rightarrow> pyfloat run" where
  "get_total_balance env asset =
     handle (read_managed_balance env asset) (\<lambda>e. throw (BalanceFetchFailed ''managed_balance_unavailable''))"

definition avg_price :: "env \<Rightarrow> string \<Rightarrow> pyfloat run" where
  "avg_price env symbol =
     bind (invoke env (Client ''get_avg_price'' [(''symbol'', PStr symbol)])) (\<lambda>v. liftE (bindE (vsub v ''price'') to_float))"

text \<open>With an Earn checkpoint in the state all balances come from one observation, which also sets the clock of the cycle.\<close>

definition base_asset :: "pydict \<Rightarrow> pyexc + pyval" where
  "base_asset config = dsub config ''base_asset''"

definition fuel_symbol :: string where "fuel_symbol = ''BNBUSDT''"
definition fuel_asset :: string where "fuel_asset = ''BNB''"

definition observed_scope :: "(string \<times> pydict) list \<Rightarrow> pyexc + string list" where
  "observed_scope universe =
     bindE (mapE (\<lambda>e. bindE (base_asset (snd e)) (\<lambda>v. if hashable v then Inr (the_str v) else Inl TypeError)) universe) (\<lambda>assets.
     Inr ([''USDT'', ''BTC'', fuel_asset] @ assets))"

definition same_names :: "string list \<Rightarrow> pyval list \<Rightarrow> bool" where
  "same_names names vs = (list_all is_str vs \<and> set names = the_str ` set vs)"

definition observe_earn :: "env \<Rightarrow> (pyval \<Rightarrow> string) \<Rightarrow> string list \<Rightarrow> pyval \<Rightarrow> pyval run" where
  "observe_earn env digest scope previous =
     handle
       (bind (liftE (bindE (vsub previous ''assets'') iterate)) (\<lambda>names.
        bind (raise_if (\<not> same_names scope names) (ValueError [])) (\<lambda>_.
        bind (invoke env ClockNow) (\<lambda>now.
        bind (liftE (to_int now)) (\<lambda>us.
        bind (liftE (bindE (vsub previous ''account_scope_sha256'') expected_scope)) (\<lambda>expected.
        collect_earn_checkpoint env digest scope (DT us (Some 0)) expected))))))
       (\<lambda>e. throw (ExecutionIntegrity ''earn_observation_unavailable''))"

definition observed_balance :: "pyval \<Rightarrow> string \<Rightarrow> pyexc + pyfloat" where
  "observed_balance checkpoint asset =
     bindE (vsub checkpoint ''assets'') (\<lambda>assets. bindE (vsub assets asset) (\<lambda>a. bindE (vsub a ''quantity'') to_float))"

text \<open>Where balances are read from: the observation, if there is one.\<close>

definition balance_reader :: "env \<Rightarrow> (pyval \<Rightarrow> string) \<Rightarrow> (string \<times> pydict) list \<Rightarrow> (pyval \<times> (string \<Rightarrow> pyfloat run)) run" where
  "balance_reader env digest universe =
     bind (gets (\<lambda>w. case rt_trade_state (rt w) of None \<Rightarrow> [] | Some a \<Rightarrow> heap w a)) (\<lambda>s.
     if \<not> dhas s ''earn_accrual_checkpoint'' then ret (PNone, get_total_balance env)
     else
       bind (liftE (observed_scope universe)) (\<lambda>scope.
       bind (observe_earn env digest scope (dget s ''earn_accrual_checkpoint'')) (\<lambda>checkpoint.
       bind (liftE (bindE (vsub checkpoint ''observed_at'') (\<lambda>v. from_isoE (the_str v)))) (\<lambda>now.
       bind (upd_rt (\<lambda>r. r\<lparr>rt_now := now\<rparr>)) (\<lambda>_.
       ret (checkpoint, \<lambda>asset. liftE (observed_balance checkpoint asset)))))))"

record market_snapshot =
  ss_cash :: pyfloat
  ss_fuel :: pyfloat
  ss_prices :: pydict
  ss_balances :: pydict
  ss_btc :: pydict
  ss_indicators :: pydict
  ss_observation :: pyval

definition quote_symbol :: "env \<Rightarrow> (string \<Rightarrow> pyfloat run) \<Rightarrow> pydict \<times> pydict \<Rightarrow> string \<times> pydict \<Rightarrow> (pydict \<times> pydict) run" where
  "quote_symbol env balance acc entry =
     bind (avg_price env (fst entry)) (\<lambda>price.
     bind (liftE (base_asset (snd entry))) (\<lambda>asset.
     bind (balance (the_str asset)) (\<lambda>held.
     ret (dset (fst entry) (PFloat price) (fst acc), dset (fst entry) (PFloat held) (snd acc)))))"

definition capture_market_snapshot ::
    "env \<Rightarrow> (pyval \<Rightarrow> string) \<Rightarrow> snapshot_source \<Rightarrow> string list \<Rightarrow> (string \<times> pydict) list \<Rightarrow> market_snapshot run" where
  "capture_market_snapshot env digest ms indicator_symbols universe =
     bind (balance_reader env digest universe) (\<lambda>(checkpoint, balance).
     bind (balance ''USDT'') (\<lambda>u_total.
     bind (balance (fuel_asset)) (\<lambda>fuel.
     bind (avg_price env (fuel_symbol)) (\<lambda>fuel_price.
     bind (fold_eff (quote_symbol env balance) ([(fuel_symbol, PFloat fuel_price)], [(fuel_symbol, PFloat fuel)]) universe) (\<lambda>(prices, balances).
     bind (avg_price env ''BTCUSDT'') (\<lambda>btc_price.
     bind (balance ''BTC'') (\<lambda>btc.
     bind (resolve_runtime_btc_snapshot env ms btc_price) (\<lambda>snapshot.
     case snapshot of
       None \<Rightarrow> throw (RuntimeErr ''btc_indicators_insufficient'')
     | Some d \<Rightarrow>
         bind (resolve_runtime_trend_indicators env ms indicator_symbols) (\<lambda>indicators.
         ret \<lparr>ss_cash = u_total, ss_fuel = f_mul fuel fuel_price, ss_prices = dset ''BTCUSDT'' (PFloat btc_price) prices,
           ss_balances = dset ''BTCUSDT'' (PFloat btc) balances, ss_btc = d, ss_indicators = indicators, ss_observation = checkpoint\<rparr>)))))))))"

section \<open>The fuel top-up\<close>

datatype fuel_status = FuelReady | FuelUnconfirmed | FuelFilled

definition top_up_bnb_fuel :: "env \<Rightarrow> notifier \<Rightarrow> pyfloat \<Rightarrow> pyfloat \<Rightarrow> pyfloat \<Rightarrow> pyfloat \<Rightarrow> fuel_status run" where
  "top_up_bnb_fuel env notify u_total fuel_val min_value buy_amount =
     (if f_le min_value fuel_val \<or> f_less u_total buy_amount then ret FuelReady
      else
        bind (append_report ''buy_sell_intents'' (PDict [(''category'', PStr ''fuel''), (''action'', PStr ''buy''), (''symbol'', PStr fuel_symbol),
          (''quote_order_qty'', PFloat buy_amount)])) (\<lambda>_.
        handle
          (bind (ensure_asset_available_runtime env ''USDT'' buy_amount) (\<lambda>available.
           bind (raise_if (\<not> available) (RuntimeErr ''usdt_spot_buffer_unavailable_for_bnb_top_up'')) (\<lambda>_.
           bind (runtime_call_client env ''order_market_buy'' [(''symbol'', PStr fuel_symbol), (''quoteOrderQty'', PFloat buy_amount)] ''order_buy'' 3 PNone)
             (\<lambda>response. ret (case response of
                PDict d \<Rightarrow> if upper (py_str (dget_or d ''status'' (PStr []))) = ''FILLED'' then FuelFilled else FuelUnconfirmed
              | _ \<Rightarrow> FuelUnconfirmed)))))
          (\<lambda>e. if is_integrity_error e then throw e
             else bind (notify (Immediate ''bnb_top_up_failed'' [(''error'', PStr ''order_execution_failed'')])) (\<lambda>_. ret FuelUnconfirmed))))"

end
