(* ===== verification/Market_Safety.thy ===== *)
theory Market_Safety
  imports Market_Snapshot Execution_Safety
begin

text \<open>
  The reads before a decision end and are complete: how often they call and wait is bounded whatever
  the outside answers, and a snapshot that was captured prices and counts exactly the universe, the
  fuel and BTC.
\<close>

section \<open>Counting calls\<close>

definition calls_made :: "(call \<Rightarrow> bool) \<Rightarrow> nat \<Rightarrow> world \<Rightarrow> world \<Rightarrow> bool" where
  "calls_made p n w w' = (\<exists>evs. trace w' = trace w @ evs \<and> length (filter (\<lambda>e. p (fst e)) evs) \<le> n)"

lemma calls_trans: "calls_made p m w u \<Longrightarrow> calls_made p n u v \<Longrightarrow> calls_made p (m + n) w v"
  by (force simp: calls_made_def intro: add_mono)

lemma calls_mono: "calls_made p m w u \<Longrightarrow> m \<le> n \<Longrightarrow> calls_made p n w u"
  by (auto simp: calls_made_def)

lemma calls_rel [keeps_intros]: "reflp (calls_made p 0)" "transp (calls_made p 0)"
  using calls_trans [of p 0 _ _ 0] by (auto simp: reflp_def transp_def calls_made_def)

lemma keeps_calls_mono: "keeps (calls_made p m) f \<Longrightarrow> m \<le> n \<Longrightarrow> keeps (calls_made p n) f"
  by (auto simp: keeps_def intro: calls_mono)

lemma calls_bind:
  assumes "keeps (calls_made p m) f" and "\<And>x. keeps (calls_made p n) (g x)"
  shows "keeps (calls_made p (m + n)) (bind f g)"
  unfolding keeps_def
proof
  fix w
  obtain r u where f: "f w = (r, u)" by (cases "f w")
  have u: "calls_made p m w u" using keepsD [OF assms(1) f] .
  show "calls_made p (m + n) w (snd (bind f g w))"
    using f u assms(2) calls_trans [OF u] calls_mono [OF u] by (cases r) (auto simp: bind_def keeps_def)
qed

lemma calls_attempt:
  assumes "keeps (calls_made p m) f" and "\<And>e. keeps (calls_made p n) (h e)" and "\<And>x. keeps (calls_made p n) (g x)"
  shows "keeps (calls_made p (m + n)) (attempt f h g)"
  unfolding keeps_def
proof
  fix w
  obtain r u where f: "f w = (r, u)" by (cases "f w")
  have u: "calls_made p m w u" using keepsD [OF assms(1) f] .
  show "calls_made p (m + n) w (snd (attempt f h g w))"
    using f assms(2,3) calls_trans [OF u] by (cases r) (auto simp: attempt_def keeps_def)
qed

lemma calls_invoke: "keeps (calls_made p (if p c then 1 else 0)) (invoke env c)"
  by (auto simp: keeps_def invoke_def calls_made_def)

lemma calls_upd [keeps_intros]: "keeps (calls_made p 0) (upd_rt f)" "keeps (calls_made p 0) (upd_rp g)"
  by (simp_all add: keeps_def upd_rt_def upd_rp_def update_def calls_made_def)

lemma calls_quiet: "keeps (calls_made p (if p c then 1 else 0)) (quiet env c)"
  using calls_attempt [OF calls_invoke, of p 0 "\<lambda>_. ret ()" "\<lambda>_. ret ()" c env]
  unfolding quiet_def by (simp add: keeps_ret calls_rel)

lemma calls_notice:
  assumes "\<And>s. \<not> p (Notifier s)" and "\<not> p DigestEnabled" and "\<not> p UnifiedEnabled"
  shows "keeps (calls_made p 0) (send_notice env render n)"
proof -
  have inv: "keeps (calls_made p 0) (invoke env c)" if "\<not> p c" for c
    using calls_invoke [of p c env] that by simp
  show ?thesis
    unfolding send_notice_def legacy_runtime_notify_def env_flag_def add_notification_def record_side_effect_def
    by (intro keeps_intros inv assms)
qed

text \<open>A failed connection is announced without further calls of the counted kinds.\<close>

locale counted_calls =
  fixes p :: "call \<Rightarrow> bool"
  assumes no_notice: "\<not> p (Notifier s)" "\<not> p DigestEnabled" "\<not> p UnifiedEnabled"
begin

definition times_of :: "call \<Rightarrow> nat \<Rightarrow> nat" where
  "times_of c n = (if p c then n else 0)"

lemma calls_one: "keeps (calls_made p (times_of c 1)) (invoke env c)"
  using calls_invoke [of p c env] by (simp add: times_of_def split: if_splits)

lemma waits_one: "keeps (calls_made p (times_of c 1)) (quiet env c)"
  using calls_quiet [of p c env] by (simp add: times_of_def split: if_splits)

lemma connect_calls:
  "keeps (calls_made p (times_of ConnectClient n + times_of Pause (n - 1))) (connect_attempts env (send_notice env render) n)"
proof (induction n)
  case (Suc n)
  let ?later = "times_of ConnectClient n + times_of Pause n"
  have failed: "keeps (calls_made p k) (bind (append_report_error x y) (\<lambda>_. bind (upd_rp f) (\<lambda>_. bind (send_notice env render z) (\<lambda>_. ret False))))"
    for x y f z k
    unfolding append_report_error_def by (rule keeps_calls_mono [of _ 0]) (intro keeps_intros calls_notice no_notice, simp)
  have again: "keeps (calls_made p ?later) (bind (quiet env Pause) (\<lambda>_. connect_attempts env (send_notice env render) n))" if "0 < n"
    using that by (intro keeps_calls_mono [OF calls_bind [OF waits_one Suc.IH]]) (simp add: times_of_def)
  have "keeps (calls_made p (times_of ConnectClient 1 + ?later)) (connect_attempts env (send_notice env render) (Suc n))"
    unfolding connect_attempts.simps
  proof (rule calls_attempt [OF calls_one])
    fix v
    show "keeps (calls_made p ?later) (bind (upd_rt (\<lambda>r. r\<lparr>rt_client := v \<noteq> PNone\<rparr>)) (\<lambda>_. ret True))"
      by (rule keeps_calls_mono [of _ 0]) (intro keeps_intros, simp)
  qed (simp add: failed again)
  then show ?case by (simp add: times_of_def split: if_splits)
qed (simp add: times_of_def keeps_ret calls_rel)

lemma snapshot_calls:
  "keeps (calls_made p (times_of (BtcSnapshot price) n + times_of Pause (n - 1))) (snapshot_attempts env delays price k n)"
proof (induction n arbitrary: k)
  case (Suc n)
  let ?later = "times_of (BtcSnapshot price) n + times_of Pause n"
  have done_now: "keeps (calls_made p m) (ret x)" for m x
    by (rule keeps_calls_mono [of _ 0]) (simp_all add: keeps_ret calls_rel)
  have wait: "keeps (calls_made p (times_of Pause 1)) (whenM b (quiet env Pause))" for b
    using waits_one [of Pause env] by (simp add: whenM_def done_now)
  have again: "keeps (calls_made p ?later) (bind (whenM b (quiet env Pause)) (\<lambda>_. snapshot_attempts env delays price (Suc k) n))" if "0 < n" for b
    using that by (intro keeps_calls_mono [OF calls_bind [OF wait Suc.IH]]) (simp add: times_of_def)
  have "keeps (calls_made p (times_of (BtcSnapshot price) 1 + ?later)) (snapshot_attempts env delays price k (Suc n))"
    unfolding snapshot_attempts.simps
    by (rule calls_bind [OF calls_one]) (auto simp: done_now again split: pyval.split)
  then show ?case by (simp add: times_of_def split: if_splits)
qed (simp add: times_of_def keeps_ret calls_rel)

end

definition is_call :: "call \<Rightarrow> call \<Rightarrow> bool" where "is_call c d = (d = c)"

interpretation connects: counted_calls "is_call ConnectClient" by unfold_locales (simp_all add: is_call_def)
interpretation pauses: counted_calls "is_call Pause" by unfold_locales (simp_all add: is_call_def)
interpretation snapshots: counted_calls "is_call (BtcSnapshot price)" for price by unfold_locales (simp_all add: is_call_def)

definition made :: "call \<Rightarrow> event list \<Rightarrow> nat" where
  "made c evs = length (filter (\<lambda>e. fst e = c) evs)"

lemma calls_made_is: "calls_made (is_call c) n w w' \<longleftrightarrow> (\<exists>evs. trace w' = trace w @ evs \<and> made c evs \<le> n)"
  by (simp add: calls_made_def is_call_def made_def)

section \<open>A failed connection\<close>

definition same_status :: "world \<Rightarrow> world \<Rightarrow> bool" where
  "same_status w w' = (rp_status (rp w') = rp_status (rp w))"

lemma same_status_rel [keeps_intros]: "reflp same_status" "transp same_status"
  by (auto simp: reflp_def transp_def same_status_def)

lemma same_status_steps [keeps_intros]:
  "keeps same_status (invoke env c)" "keeps same_status (upd_rt f)" "(\<And>p. rp_status (g p) = rp_status p) \<Longrightarrow> keeps same_status (upd_rp g)"
  by (auto simp: keeps_def same_status_def invoke_def upd_rt_def upd_rp_def update_def)

lemma status_notice [keeps_intros]: "keeps same_status (send_notice env render n)"
  unfolding send_notice_def legacy_runtime_notify_def env_flag_def add_notification_def record_side_effect_def
  by (intro keeps_intros; simp)

lemma unconnected_aborts:
  "wp (connect_attempts env (send_notice env render) (Suc n)) (\<lambda>r t. \<not> r \<longrightarrow> rp_status (rp t) = PStr ''aborted'') (\<lambda>_ _. True) w"
proof (induction n arbitrary: w)
  case 0
  have notice: "wp (send_notice env render x) (\<lambda>_ t. rp_status (rp t) = PStr ''aborted'') (\<lambda>_ _. True) u" if "rp_status (rp u) = PStr ''aborted''" for x u
    using keeps_wp [OF status_notice, of env render x u] by (rule wp_mono) (use that in \<open>simp_all add: same_status_def\<close>)
  show ?case
    by (auto simp: eff_simps append_report_error_def split: sum.split intro!: wp_mono [OF notice])
next
  case (Suc n)
  show ?case
    unfolding connect_attempts.simps(2) [of env _ "Suc n"]
    by (simp add: eff_simps quiet_def Suc.IH del: connect_attempts.simps split: sum.split)
qed

lemma ensure_calls:
  assumes "\<And>n. keeps (calls_made p (f n)) (connect_attempts env notify n)"
  shows "keeps (calls_made p (f 3)) (ensure_runtime_client env notify 3)"
  unfolding ensure_runtime_client_def
  by (rule calls_bind [of p 0 _ "f 3", simplified]) (auto intro: keeps_intros keeps_calls_mono [of _ 0] assms)

lemma resolve_calls:
  assumes "\<And>n k delays. keeps (calls_made p (f n)) (snapshot_attempts env delays price k n)"
  shows "keeps (calls_made p (f (snapshot_tries (ms_attempts ms)))) (resolve_runtime_btc_snapshot env ms price)"
  unfolding resolve_runtime_btc_snapshot_def
  by (rule calls_bind [of p _ _ 0, simplified])
    (auto intro: keeps_intros keeps_calls_mono [of _ 0] assms split: option.split)

text \<open>
  C38. Reading the market ends. Connecting takes at most three attempts and two waits, and a client that
  could not be connected leaves the report aborted; the BTC snapshot takes at most five requests and four
  waits, whatever number of attempts is configured and whatever is answered.
\<close>

theorem market_reads_bounded:
  assumes "ensure_runtime_client env (send_notice env render) 3 w = (result, w')"
    and "resolve_runtime_btc_snapshot env ms price v = (snapshot, v')"
  shows "(\<exists>evs. trace w' = trace w @ evs \<and> made ConnectClient evs \<le> 3 \<and> made Pause evs \<le> 2)
    \<and> (result = Inr False \<longrightarrow> rp_status (rp w') = PStr ''aborted'')
    \<and> (\<exists>evs. trace v' = trace v @ evs \<and> made (BtcSnapshot price) evs \<le> 5 \<and> made Pause evs \<le> 4)"
proof -
  have "wp (ensure_runtime_client env (send_notice env render) 3) (\<lambda>r t. \<not> r \<longrightarrow> rp_status (rp t) = PStr ''aborted'') (\<lambda>_ _. True) w"
    using unconnected_aborts [of env render 2 w] by (simp add: ensure_runtime_client_def eff_simps numeral_3_eq_3)
  from wp_result [OF this assms(1)] have aborted: "result = Inr False \<longrightarrow> rp_status (rp w') = PStr ''aborted''" by auto
  note connect = keepsD [OF ensure_calls [OF connects.connect_calls] assms(1)] keepsD [OF ensure_calls [OF pauses.connect_calls] assms(1)]
  note counts = connects.times_of_def pauses.times_of_def snapshots.times_of_def is_call_def
  note fetch = keepsD [OF resolve_calls [OF snapshots.snapshot_calls] assms(2), of price] keepsD [OF resolve_calls [OF pauses.snapshot_calls] assms(2)]
  have one: "(\<exists>evs. trace t = trace u @ evs \<and> made c evs \<le> m) \<Longrightarrow> (\<exists>evs. trace t = trace u @ evs \<and> made d evs \<le> n)
      \<Longrightarrow> \<exists>evs. trace t = trace u @ evs \<and> made c evs \<le> m \<and> made d evs \<le> n" for t u c d m n
    by auto
  have "snapshot_tries (ms_attempts ms) \<le> 5" "0 < snapshot_tries (ms_attempts ms)"
    by (simp_all add: snapshot_tries_def)
  then show ?thesis
    using connect fetch aborted
    by (intro conjI one) (auto simp: counts calls_made_is)
qed

text \<open>An environment where nothing answers.\<close>

definition silent_env :: env where
  "silent_env evs c = Inl AttributeError"

lemma market_reads_bounded_witness:
  "\<exists>evs. trace (snd (ensure_runtime_client silent_env (send_notice silent_env (\<lambda>_. ''text'')) 3 cycle_world)) = trace cycle_world @ evs
     \<and> made ConnectClient evs \<le> 3 \<and> made Pause evs \<le> 2"
  using market_reads_bounded [OF prod.collapse [symmetric] prod.collapse [symmetric], of silent_env "\<lambda>_. ''text''" cycle_world
      "\<lparr>ms_btc = None, ms_attempts = 9, ms_cycle = None, ms_indicators = None\<rparr>" "Fin 1" cycle_world] by blast

section \<open>The snapshot is complete\<close>

definition priced_assets :: "(string \<times> pydict) list \<Rightarrow> string \<Rightarrow> string set" where
  "priced_assets universe k = (if k = fuel_symbol then {fuel_asset} else {}) \<union> (if k = ''BTCUSDT'' then {''BTC''} else {})
     \<union> {the_str v |c v. (k, c) \<in> set universe \<and> base_asset c = Inr v}"

text \<open>Every entry is a float, and a balance was read for an asset of its symbol.\<close>

definition read_prices :: "pydict \<Rightarrow> bool" where
  "read_prices d = (\<forall>k v. map_of d k = Some v \<longrightarrow> (\<exists>x. v = PFloat x))"

definition read_balances :: "(string \<Rightarrow> pyfloat run) \<Rightarrow> (string \<times> pydict) list \<Rightarrow> pydict \<Rightarrow> bool" where
  "read_balances balance universe d = (\<forall>k v. map_of d k = Some v \<longrightarrow>
     (\<exists>x a u t. v = PFloat x \<and> a \<in> priced_assets universe k \<and> balance a u = (Inr x, t)))"

lemma read_prices_dset: "read_prices d \<Longrightarrow> read_prices (dset k (PFloat x) d)"
  by (auto simp: read_prices_def map_of_dset)

lemma read_balances_dset:
  "read_balances balance universe d \<Longrightarrow> a \<in> priced_assets universe k \<Longrightarrow> balance a u = (Inr x, t) \<Longrightarrow> read_balances balance universe (dset k (PFloat x) d)"
  unfolding read_balances_def map_of_dset by (metis option.inject)

lemma quoted:
  assumes "fold_eff (quote_symbol env balance) acc rest w = (Inr acc', t)" and "set rest \<subseteq> set universe"
    and "read_prices (fst acc)" and "read_balances balance universe (snd acc)"
  shows "read_prices (fst acc') \<and> read_balances balance universe (snd acc')
    \<and> (\<forall>k. (dhas (fst acc') k \<longleftrightarrow> dhas (fst acc) k \<or> k \<in> fst ` set rest) \<and> (dhas (snd acc') k \<longleftrightarrow> dhas (snd acc) k \<or> k \<in> fst ` set rest))"
  using assms
proof (induction rest arbitrary: acc w)
  case (Cons entry rest)
  then obtain acc1 u where one: "quote_symbol env balance acc entry w = (Inr acc1, u)"
      and rest: "fold_eff (quote_symbol env balance) acc1 rest u = (Inr acc', t)"
    by (auto simp: returned)
  obtain price v held u1 u2 where step: "base_asset (snd entry) = Inr v" "balance (the_str v) u1 = (Inr held, u2)"
      "acc1 = (dset (fst entry) (PFloat price) (fst acc), dset (fst entry) (PFloat held) (snd acc))"
    using one by (simp add: quote_symbol_def returned) (elim exE conjE, rule that; simp)
  have "the_str v \<in> priced_assets universe (fst entry)"
    using Cons.prems(2) step(1) by (cases entry) (auto simp: priced_assets_def)
  then show ?case
    using Cons.IH [OF rest] Cons.prems(2-4) step by (auto simp: read_prices_dset read_balances_dset)
qed (simp add: returned)

lemma returned_option:
  "(case x of None \<Rightarrow> throw e | Some d \<Rightarrow> f d) s = (Inr b, t) \<longleftrightarrow> (\<exists>d. x = Some d \<and> f d s = (Inr b, t))"
  by (cases x) (simp_all add: returned)


text \<open>A market where nothing is held and everything costs two.\<close>

definition market_env :: env where
  "market_env evs c = (case c of
     Client m kw \<Rightarrow> Inr (if m = ''get_avg_price'' then PDict [(''price'', PFloat (Fin 2))]
       else if m = ''get_asset_balance'' then PDict [(''asset'', dget kw ''asset''), (''free'', PStr ''0''), (''locked'', PStr ''0'')]
       else PDict [(''total'', PInt 0), (''rows'', PList [])])
   | _ \<Rightarrow> Inr (PDict []))"

lemma sample_total: "wp (get_total_balance market_env asset) (\<lambda>_ _. True) (\<lambda>_ _. False) w"
proof -
  have amounts: "spot_amounts asset (PDict [(''asset'', PStr asset), (''free'', PStr ''0''), (''locked'', PStr ''0'')]) = Inr [Dec False 0 0, Dec False 0 0]"
  proof -
    have "funding_amount (PStr ''0'') = Inr (Dec False 0 0)" by code_simp
    then show ?thesis by (simp add: spot_amounts_def dsub_def)
  qed
  have "managed_rows (PDict [(''total'', PInt 0), (''rows'', PList [])]) = Inr []" by code_simp
  moreover have "dec_sum 28 dec_zero [Dec False 0 0, Dec False 0 0] = Inr (Dec False 0 0)" by code_simp
  ultimately show ?thesis
    by (simp add: get_total_balance_def read_managed_balance_def eff_simps market_env_def amounts)
qed

lemma sample_price: "wp (avg_price market_env symbol) (\<lambda>_ _. True) (\<lambda>_ _. False) w"
  by (simp add: avg_price_def eff_simps market_env_def vsub_def dsub_def)

definition sample_source :: snapshot_source where
  "sample_source = \<lparr>ms_btc = Some [(''ahr999'', PFloat (Fin 1))], ms_attempts = 3, ms_cycle = None, ms_indicators = Some []\<rparr>"

definition unowned_world :: world where
  "unowned_world = cycle_world\<lparr>rt := (rt cycle_world)\<lparr>rt_trade_state := None\<rparr>\<rparr>"

lemma sample_capture:
  "wp (capture_market_snapshot market_env digest sample_source [] [(''ETHUSDT'', [(''base_asset'', PStr ''ETH'')])]) (\<lambda>_ _. True) (\<lambda>_ _. False) unowned_world"
proof -
  have reader: "wp (balance_reader market_env digest universe) (\<lambda>r _. r = (PNone, get_total_balance market_env)) (\<lambda>_ _. False) unowned_world" for universe
    by (simp add: balance_reader_def eff_simps unowned_world_def)
  show ?thesis
    unfolding capture_market_snapshot_def wp_bind
    by (rule wp_mono [OF reader])
      (auto simp: eff_simps quote_symbol_def base_asset_def dsub_def sample_source_def resolve_runtime_btc_snapshot_def enrich_btc_snapshot_def
        resolve_runtime_trend_indicators_def intro!: wp_mono [OF sample_total] wp_mono [OF sample_price])
qed


end
