(* ===== verification/Cycle.thy ===== *)
theory Cycle
  imports Market_Snapshot State_Scope Portfolio_Daily Execution_Safety Runtime_Report
begin

text \<open>
  One strategy cycle, \<open>application/cycle_service.py\<close> with the wiring of \<open>main.py\<close>, in the validation
  scope \<open>standard\<close>. The local variables the \<open>except\<close> and \<open>finally\<close> blocks read are the record
  \<open>cycle_locals\<close>, kept beside the world; every stage of the \<open>try\<close> block is a definition that ends the
  cycle early or calls the next one. Log lines, the unified notifications (switched off here), the
  recorder of the platform kit, the lifecycle file and the health monitor observe a cycle without
  changing it; what is handed to the recorder is the result of a cycle.
\<close>

section \<open>Local variables\<close>

text \<open>How far the counters were at some point of the cycle.\<close>

record cycle_marks =
  cm_submissions :: pyval
  cm_effects :: nat
  cm_sequence :: int
  cm_intents :: "nat option list"
  cm_writes :: nat

record cycle_locals =
  lo_stage :: string
  lo_healthy :: bool
  lo_claimed :: bool
  lo_state :: "nat option"
  lo_initial :: "string option"
  lo_cycle :: "cycle_marks option"
  lo_daily :: "cycle_marks option"

definition initial_locals :: cycle_locals where
  "initial_locals = \<lparr>lo_stage = ''state_owner_claim'', lo_healthy = False, lo_claimed = False, lo_state = None, lo_initial = None,
     lo_cycle = None, lo_daily = None\<rparr>"

type_synonym 'a staged = "(world \<times> cycle_locals, 'a) eff"

definition on_world :: "'a run \<Rightarrow> 'a staged" where
  "on_world m = (\<lambda>s. (fst (m (fst s)), (snd (m (fst s)), snd s)))"

definition note_locals :: "(cycle_locals \<Rightarrow> cycle_locals) \<Rightarrow> unit staged" where
  "note_locals f = update (\<lambda>s. (fst s, f (snd s)))"

definition enter_stage :: "string \<Rightarrow> unit staged" where
  "enter_stage name = note_locals (\<lambda>l. l\<lparr>lo_stage := name\<rparr>)"

definition intent_length :: "report \<Rightarrow> string \<Rightarrow> nat option" where
  "intent_length p k = (case dget_or (rp_fields p) k (PList []) of PList xs \<Rightarrow> Some (length xs) | _ \<Rightarrow> None)"

definition intent_lengths :: "report \<Rightarrow> nat option list" where
  "intent_lengths p = map (intent_length p) [''buy_sell_intents'', ''btc_dca_intents'', ''redemption_subscription_intents'']"

text \<open>\<open>None\<close> in place of an absent observation counts as the empty one.\<close>

definition submissions :: "report \<Rightarrow> pyval option" where
  "submissions p = (case rp_observation p of PNone \<Rightarrow> Some (PInt 0)
     | PDict d \<Rightarrow> Some (dget_or d ''submission_attempted_count'' (PInt 0)) | _ \<Rightarrow> None)"

definition marks_of :: "world \<Rightarrow> cycle_marks" where
  "marks_of w = \<lparr>cm_submissions = (case submissions (rp w) of Some v \<Rightarrow> v | None \<Rightarrow> PInt 0), cm_effects = length (rt_log (rt w)),
     cm_sequence = rt_order_sequence (rt w), cm_intents = intent_lengths (rp w), cm_writes = length (rp_state_intents (rp w))\<rparr>"

definition settled_order_state :: "pydict \<Rightarrow> pyexc + string option" where
  "settled_order_state s = (case dget s submission_key of
     PDict record \<Rightarrow>
       let status = dget record ''state'' in
       if \<not> hashable status then Inl TypeError
       else Inr (if status = PStr ''RESERVED'' \<or> status = PStr ''TERMINAL'' then Some (the_str status) else None)
   | _ \<Rightarrow> Inr None)"

section \<open>The report\<close>

text \<open>\<open>base\<close> are the fields of the platform kit's report with the scheduler and target facts, which nothing here reads.\<close>

definition build_execution_report :: "pydict \<Rightarrow> runtime \<Rightarrow> report" where
  "build_execution_report base r =
     \<lparr>rp_status = PStr ''ok'', rp_executed = 0, rp_suppressed = 0, rp_observation = dget base ''execution_receipt_observation'', rp_state_intents = [],
      rp_gating_summary = [], rp_gating_events = [], rp_errors = [], rp_notifications = [], rp_summary = the_dict (dget base ''summary''),
      rp_fields = dupdate base [(''run_id'', PStr (rt_run_id r)), (''dry_run'', PBool (rt_dry_run r)),
        (''standard_execution_permitted'', PBool (rt_permitted r)),
        (''selected_symbols'', PDict [(''active_trend_pool'', PList []), (''selected_candidates'', PList [])]),
        (''buy_sell_intents'', PList []), (''btc_dca_intents'', PList []), (''redemption_subscription_intents'', PList []),
        (''log_lines'', PList []), (''total_equity_usdt'', PNone), (''trend_equity_usdt'', PNone), (''circuit_breaker_triggered'', PBool False),
        (''degraded_mode_level'', PNone), (''upstream_pool_symbols'', PList [])]\<rparr>"

definition report_equity :: "pyfloat \<Rightarrow> pyfloat \<Rightarrow> unit run" where
  "report_equity equity trend =
     bind (set_report ''total_equity_usdt'' (PFloat equity)) (\<lambda>_. set_report ''trend_equity_usdt'' (PFloat trend))"

definition report_assessment :: "pydict \<Rightarrow> string list \<Rightarrow> unit run" where
  "report_assessment m flags =
     bind (set_report ''risk_assessment'' (PDict m)) (\<lambda>_.
     bind (set_report ''risk_outcome'' (dget m ''outcome'')) (\<lambda>_.
     bind (liftE (if truthy (dget m ''reason_codes'') then iterate (dget m ''reason_codes'') else Inr [])) (\<lambda>codes.
     bind (set_report ''risk_reason_codes'' (PList codes)) (\<lambda>_.
     set_report ''risk_flags'' (PList (map PStr flags))))))"

definition record_risk_diagnostics :: "cycle_allocation \<Rightarrow> string \<Rightarrow> unit run" where
  "record_risk_diagnostics al phase =
     bind (gets (\<lambda>w. bindE (vget_or (dget_or (rp_fields (rp w)) ''diagnostics'' (PDict [])) ''portfolio_stoploss'' (PDict [])) Inr)) (\<lambda>held.
     bind (liftE held) (\<lambda>phases.
     case phases of
       PDict d \<Rightarrow>
         bind (diagnose ''portfolio_stoploss'' (PDict (dset phase (PDict (public_stoploss_observation (PDict (ca_observation al)))) d))) (\<lambda>_.
         case ca_assessment al of None \<Rightarrow> ret () | Some m \<Rightarrow> report_assessment m (ca_flags al))
     | _ \<Rightarrow> throw TypeError))"

section \<open>The status report\<close>

text \<open>\<open>f'{v:.2f}'\<close> of a value of the snapshot.\<close>

fun format_figure :: "pyval \<Rightarrow> pyexc + unit" where
  "format_figure PNone = Inl TypeError"
| "format_figure (PInt i) = bindE (float_of_int i) (\<lambda>_. Inr ())"
| "format_figure (PStr s) = Inl (ValueError ''Unknown format code'')"
| "format_figure (PList xs) = Inl TypeError"
| "format_figure (PDict d) = Inl TypeError"
| "format_figure _ = Inr ()"

definition report_figures :: "pydict \<Rightarrow> pyexc + unit" where
  "report_figures snapshot =
     bindE (bindE (dsub snapshot ''ahr999'') format_figure) (\<lambda>_. bindE (dsub snapshot ''zscore'') format_figure)"

definition hour_of :: "pydt \<Rightarrow> int" where
  "hour_of t = dt_local t mod us_per_day div us_per_hour"

definition get_periodic_report_bucket :: "pydt \<Rightarrow> int \<Rightarrow> string" where
  "get_periodic_report_bucket now hours =
     (if hour_of now mod max 1 (min 24 hours) \<noteq> 0 then [] else compact_date now @ two (hour_of now))"

text \<open>\<open>runtime_notify(..., urgent=False)\<close>: outside a dry run the sender behind the facade is an urgent one.\<close>

definition send_heartbeat :: "env \<Rightarrow> (notice \<Rightarrow> string) \<Rightarrow> pydict \<Rightarrow> bool run" where
  "send_heartbeat env render figures =
     bind (gets rt) (\<lambda>r. legacy_runtime_notify env (render (Routine False ''heartbeat_title'' figures)) (\<not> rt_dry_run r))"

definition maybe_send_periodic_btc_status_report ::
    "env \<Rightarrow> (notice \<Rightarrow> string) \<Rightarrow> nat \<Rightarrow> pydt \<Rightarrow> int \<Rightarrow> pydict \<Rightarrow> pydict \<Rightarrow> unit run" where
  "maybe_send_periodic_btc_status_report env render a now hours snapshot figures =
     bind (read_ref a) (\<lambda>s.
     let bucket = get_periodic_report_bucket now hours in
     if hours \<le> 0 \<or> bucket = [] \<or> dget s ''last_btc_status_report_bucket'' = PStr bucket then ret ()
     else
       bind (liftE (report_figures snapshot)) (\<lambda>_.
       bind (send_heartbeat env render figures) (\<lambda>acknowledged.
       whenM acknowledged (modify_ref a (\<lambda>s. Inr (dset ''last_btc_status_report_bucket'' (PStr bucket) s))))))"

section \<open>What a cycle is run with\<close>

text \<open>
  The injected functions and settings: the pool resolution, the strategy with its risk material (the
  contract of the pool resolution is added by the cycle), the market sources, the texts, and what the
  kit's receipt functions are.
\<close>

record cycle_setup =
  cy_config :: state_config
  cy_resolve :: "pyval \<Rightarrow> pyexc + universe \<times> resolution"
  cy_on_degraded :: bool
  cy_hours :: int
  cy_research :: bool
  cy_strategy :: strategy_runtime
  cy_risk :: risk_material
  cy_contract :: "resolution \<Rightarrow> pyval"
  cy_source :: snapshot_source
  cy_digest :: "pyval \<Rightarrow> string"
  cy_render :: "notice \<Rightarrow> string"
  cy_said :: "said \<Rightarrow> string"
  cy_outside :: "bool \<Rightarrow> int option \<Rightarrow> string"
  cy_receipt :: "receipt_facts \<Rightarrow> pyval \<times> pyval"
  cy_attach :: "report \<Rightarrow> pyval \<times> pyval \<Rightarrow> pyexc + report"

definition cycle_notify :: "env \<Rightarrow> cycle_setup \<Rightarrow> notifier" where
  "cycle_notify env cy = send_notice env (cy_render cy)"

text \<open>What the stages after the market snapshot share.\<close>

record cycle_view =
  cv_state :: nat
  cv_balances :: nat
  cv_config :: state_config
  cv_market :: market
  cv_risk :: risk_material
  cv_allow_new :: bool
  cv_degraded :: bool
  cv_now :: pydt

definition today_of :: "pydt \<Rightarrow> string" where
  "today_of t = date_text (dt_date t)"

text \<open>The fuel value after trades, and the final valuation of a cycle.\<close>

definition refreshed_fuel :: "runtime \<Rightarrow> pydict \<Rightarrow> pydict \<Rightarrow> pyfloat \<Rightarrow> pyexc + pyfloat" where
  "refreshed_fuel r balances prices fuel =
     (let k = (if rt_fuel_symbol r = [] then ''BNBUSDT'' else rt_fuel_symbol r) in
      if dhas balances k \<and> dhas prices k then product_at balances prices k else Inr fuel)"

definition cycle_valuation :: "market \<Rightarrow> pydict \<Rightarrow> pyfloat \<Rightarrow> pyfloat \<Rightarrow> pyexc + pyfloat \<times> pyfloat" where
  "cycle_valuation mk balances u fuel =
     bindE (mapE (product_at balances (mk_prices mk)) (map fst (mk_universe mk))) (\<lambda>vals.
     bindE (product_at balances (mk_prices mk) ''BTCUSDT'') (\<lambda>btc.
     Inr (f_add (f_add (f_add u fuel) (f_sum vals)) btc, f_sum vals)))"

section \<open>The stages\<close>

text \<open>After the BTC accumulation: the final figures, the status report and the durable state.\<close>

definition closing_stage :: "cycle_setup \<Rightarrow> env \<Rightarrow> cycle_view \<Rightarrow> pyfloat \<Rightarrow> pyfloat \<Rightarrow> pyfloat \<Rightarrow> pyfloat \<Rightarrow> unit staged" where
  "closing_stage cy env cv u fuel pnl ratio =
     bind (on_world (read_ref (cv_balances cv))) (\<lambda>balances.
     bind (on_world (gets rt)) (\<lambda>r.
     bind (liftE (refreshed_fuel r balances (mk_prices (cv_market cv)) fuel)) (\<lambda>fuel'.
     bind (liftE (cycle_valuation (cv_market cv) balances u fuel')) (\<lambda>(equity, trend).
     bind (on_world (report_equity equity trend)) (\<lambda>_.
     bind (enter_stage ''status_notification'') (\<lambda>_.
     bind (on_world (bind (liftE (dsub (mk_prices (cv_market cv)) ''BTCUSDT'')) (\<lambda>price.
       maybe_send_periodic_btc_status_report env (cy_render cy) (cv_state cv) (cv_now cv) (cy_hours cy) (mk_btc (cv_market cv))
         [(''total_equity'', PFloat equity), (''trend_equity'', PFloat trend), (''trend_daily_pnl'', PFloat pnl), (''btc_price'', price),
          (''btc_target'', PFloat ratio)]))) (\<lambda>_.
     bind (enter_stage ''state_persistence'') (\<lambda>_.
     bind (on_world (modify_ref (cv_state cv) (\<lambda>s. bindE (build_balance_snapshot (mk_universe (cv_market cv)) balances u) (\<lambda>snapshot.
       Inr (dset ''last_balance_snapshot'' (PDict snapshot) s))))) (\<lambda>_.
     bind (on_world (reconcile_runtime_cash_effects env (cy_digest cy) (cv_state cv))) (\<lambda>_.
     on_world (runtime_set_trade_state env (cv_state cv) ''cycle_complete'' None)))))))))))"

definition btc_stage :: "cycle_setup \<Rightarrow> env \<Rightarrow> cycle_view \<Rightarrow> pyfloat \<Rightarrow> pyfloat \<Rightarrow> allocation \<Rightarrow> unit staged" where
  "btc_stage cy env cv u fuel al =
     bind (on_world (read_ref (cv_state cv))) (\<lambda>s.
     bind (liftE (compute_daily_pnls s (al_total al) (al_trend_val al))) (\<lambda>(daily, pnl).
     bind (enter_stage ''btc_execution'') (\<lambda>_.
     bind (on_world (execute_btc_dca_cycle env (cycle_notify env cy) (cv_state cv) (cv_balances cv) (mk_prices (cv_market cv)) u
       (al_dca_pool al) (al_dca_val al) (mk_btc (cv_market cv)) (al_base_order al) (compact_date (cv_now cv)))) (\<lambda>u'.
     closing_stage cy env cv u' fuel pnl (al_btc_ratio al)))))"

definition cycle_plan :: "cycle_setup \<Rightarrow> cycle_view \<Rightarrow> pyfloat \<Rightarrow> pyfloat \<Rightarrow> pydict run" where
  "cycle_plan cy cv fuel = resolve_strategy_plan (cy_strategy cy) (cv_risk cv) (cv_market cv) (cv_state cv) (cv_balances cv) fuel (cv_allow_new cv)
     (\<not> cv_degraded cv)"

definition decide :: "cycle_setup \<Rightarrow> cycle_view \<Rightarrow> pyfloat \<Rightarrow> pyfloat \<Rightarrow> string \<Rightarrow> allocation run" where
  "decide cy cv u fuel phase =
     bind (compute_cycle_allocation (cy_strategy cy) (cv_risk cv) (cv_market cv) (cv_state cv) (cv_balances cv) u fuel) (\<lambda>al.
     bind (report_equity (al_total (ca_figures al)) (al_trend_val (ca_figures al))) (\<lambda>_.
     bind (record_risk_diagnostics al phase) (\<lambda>_.
     bind (whenM (\<not> al_permitted (ca_figures al)) (set_report ''execution_blocked_reason'' (PStr ''risk_execution_not_permitted''))) (\<lambda>_.
     ret (ca_figures al)))))"

definition trend_stage :: "cycle_setup \<Rightarrow> env \<Rightarrow> cycle_view \<Rightarrow> pyfloat \<Rightarrow> pyfloat \<Rightarrow> unit staged" where
  "trend_stage cy env cv u fuel =
     bind (enter_stage ''trend_execution'') (\<lambda>_.
     bind (on_world (execute_trend_rotation env (cycle_notify env cy) (cv_config cv) (cv_state cv) (cv_balances cv) (cycle_plan cy cv fuel)
       (mk_universe (cv_market cv)) (mk_indicators (cv_market cv)) (mk_btc (cv_market cv)) (mk_prices (cv_market cv)) u
       (compact_date (cv_now cv)) (cv_allow_new cv))) (\<lambda>u'.
     bind (enter_stage ''post_trade_allocation'') (\<lambda>_.
     bind (on_world (read_ref (cv_balances cv))) (\<lambda>balances.
     bind (on_world (gets rt)) (\<lambda>r.
     bind (liftE (refreshed_fuel r balances (mk_prices (cv_market cv)) fuel)) (\<lambda>fuel'.
     bind (on_world (decide cy cv u' fuel' ''post_trade'')) (\<lambda>al.
     if al_permitted al then btc_stage cy env cv u' fuel' al else ret ())))))))"

definition fuel_reason :: "fuel_status \<Rightarrow> string" where
  "fuel_reason s = (case s of FuelReady \<Rightarrow> ''bnb_fuel_ready'' | FuelUnconfirmed \<Rightarrow> ''bnb_fuel_unconfirmed'' | FuelFilled \<Rightarrow> ''bnb_fuel_filled_pending_snapshot'')"

definition fuel_stage :: "cycle_setup \<Rightarrow> env \<Rightarrow> cycle_view \<Rightarrow> pyfloat \<Rightarrow> pyfloat \<Rightarrow> unit staged" where
  "fuel_stage cy env cv u fuel =
     bind (enter_stage ''fuel_execution'') (\<lambda>_.
     bind (on_world (top_up_bnb_fuel env (cycle_notify env cy) u fuel (Fin 10) (Fin 15))) (\<lambda>status.
     if status = FuelReady then trend_stage cy env cv u fuel
     else
       bind (on_world (set_report ''execution_blocked_reason'' (PStr (fuel_reason status)))) (\<lambda>_.
       if status = FuelFilled then
         bind (on_world (reconcile_runtime_cash_effects env (cy_digest cy) (cv_state cv))) (\<lambda>_.
         on_world (runtime_set_trade_state env (cv_state cv) ''cash_reconciliation'' None))
       else note_locals (\<lambda>l. l\<lparr>lo_healthy := False\<rparr>))))"

definition breaker_limit :: pyfloat where
  "breaker_limit = fl (- 5 / 100)"

definition breaker_stage :: "cycle_setup \<Rightarrow> env \<Rightarrow> cycle_view \<Rightarrow> pyfloat \<Rightarrow> pyfloat \<Rightarrow> pyfloat \<Rightarrow> unit staged" where
  "breaker_stage cy env cv u fuel pnl =
     bind (enter_stage ''circuit_breaker'') (\<lambda>_.
     bind (on_world (run_daily_circuit_breaker env (cycle_notify env cy) (cv_config cv) (cv_state cv) (cv_balances cv) (mk_universe (cv_market cv)) u
       (mk_prices (cv_market cv)) pnl breaker_limit)) (\<lambda>broken.
     if broken then ret () else fuel_stage cy env cv u fuel))"

text \<open>The daily accounting; the text report needs the valuation figures of the BTC snapshot.\<close>

definition daily_stage :: "cycle_setup \<Rightarrow> env \<Rightarrow> cycle_view \<Rightarrow> pyval \<Rightarrow> pyfloat \<Rightarrow> pyfloat \<Rightarrow> allocation \<Rightarrow> unit staged" where
  "daily_stage cy env cv checkpoint u fuel al =
     bind (enter_stage ''daily_state'') (\<lambda>_.
     bind (on_world (gets marks_of)) (\<lambda>marks.
     bind (note_locals (\<lambda>l. l\<lparr>lo_daily := Some marks\<rparr>)) (\<lambda>_.
     bind (on_world (read_ref (cv_balances cv))) (\<lambda>balances.
     bind (liftE (build_balance_snapshot (mk_universe (cv_market cv)) balances u)) (\<lambda>current.
     bind (on_world (maybe_rebase_daily_state_for_balance_change env (collect_spot_usdt_external_cash_flows env (cy_digest cy)) (cv_state cv) checkpoint
       (al_total al) current)) (\<lambda>_.
     bind (on_world (maybe_reset_daily_state env (cv_state cv) (today_of (cv_now cv)) (al_total al) (al_trend_val al))) (\<lambda>_.
     bind (on_world (read_ref (cv_state cv))) (\<lambda>s.
     bind (liftE (compute_daily_pnls s (al_total al) (al_trend_val al))) (\<lambda>(daily, pnl).
     bind (liftE (report_figures (mk_btc (cv_market cv)))) (\<lambda>_.
     if truthy (dget s ''is_circuit_broken'') then ret () else breaker_stage cy env cv u fuel pnl))))))))))"

definition allocation_stage :: "cycle_setup \<Rightarrow> env \<Rightarrow> cycle_view \<Rightarrow> market_snapshot \<Rightarrow> unit staged" where
  "allocation_stage cy env cv ss =
     bind (note_locals (\<lambda>l. l\<lparr>lo_healthy := True, lo_stage := ''portfolio_allocation''\<rparr>)) (\<lambda>_.
     bind (on_world (decide cy cv (ss_cash ss) (ss_fuel ss) ''pre_trade'')) (\<lambda>al.
     if al_permitted al then daily_stage cy env cv (ss_observation ss) (ss_cash ss) (ss_fuel ss) al else ret ()))"

definition market_stage :: "cycle_setup \<Rightarrow> env \<Rightarrow> cycle_state \<Rightarrow> unit staged" where
  "market_stage cy env cs =
     bind (enter_stage ''market_snapshot'') (\<lambda>_.
     bind (on_world (capture_market_snapshot env (cy_digest cy) (cy_source cy) (map fst (sc_universe (cs_config cs))) (cs_universe cs))) (\<lambda>ss.
     bind (on_world (alloc (ss_balances ss))) (\<lambda>b.
     bind (on_world (gets (\<lambda>w. rt_now (rt w)))) (\<lambda>now.
     allocation_stage cy env
       \<lparr>cv_state = cs_state cs, cv_balances = b, cv_config = cs_config cs,
        cv_market = \<lparr>mk_universe = cs_universe cs, mk_prices = ss_prices ss, mk_indicators = ss_indicators ss, mk_btc = ss_btc ss\<rparr>,
        cv_risk = (cy_risk cy)\<lparr>rk_contract := cy_contract cy (cs_resolution cs)\<rparr>,
        cv_allow_new = cs_allow_new cs, cv_degraded = rs_degraded (cs_resolution cs), cv_now = now\<rparr> ss))))"

text \<open>A submission that is not settled ends the cycle before anything is read from the market.\<close>

definition require_settled :: "pydict \<Rightarrow> pyexc + unit" where
  "require_settled s =
     bindE (vget_or (dget_or s submission_key (PDict [])) ''state'' (PStr ''RESERVED'')) (\<lambda>v.
     bindE (ensure (v \<noteq> PStr ''SUBMISSION_UNKNOWN'') (ExecutionIntegrity ''order_reconciliation_uncertain'')) (\<lambda>_.
     ensure (v \<noteq> PStr ''FILLED_ACCOUNTING_PENDING'') (ExecutionIntegrity ''filled_order_accounting_unverifiable'')))"

definition report_pool :: "cycle_state \<Rightarrow> unit run" where
  "report_pool cs =
     (let symbols = pp_symbols (rs_payload (cs_resolution cs)) in
      bind (set_report ''upstream_pool_symbols'' (PList (map PStr (if symbols = [] then map fst (cs_universe cs) else symbols)))) (\<lambda>_.
      whenM (rs_degraded (cs_resolution cs)) (set_report ''degraded_mode_level'' (PStr (rs_kind (cs_resolution cs))))))"

definition state_stage :: "cycle_setup \<Rightarrow> env \<Rightarrow> cycle_state \<Rightarrow> unit staged" where
  "state_stage cy env cs =
     bind (note_locals (\<lambda>l. l\<lparr>lo_state := Some (cs_state cs)\<rparr>)) (\<lambda>_.
     bind (on_world (upd_rt (\<lambda>r. r\<lparr>rt_trade_state := Some (cs_state cs)\<rparr>))) (\<lambda>_.
     bind (on_world (read_ref (cs_state cs))) (\<lambda>s.
     bind (liftE (settled_order_state s)) (\<lambda>settled.
     bind (note_locals (\<lambda>l. l\<lparr>lo_initial := settled, lo_stage := ''funding_reconciliation''\<rparr>)) (\<lambda>_.
     bind (on_world (reconcile_pending_funding_submission env (cy_digest cy))) (\<lambda>_.
     bind (on_world (read_ref (cs_state cs))) (\<lambda>s.
     bind (liftE (require_settled s)) (\<lambda>_.
     bind (enter_stage ''pool_diagnostics'') (\<lambda>_.
     bind (on_world (report_pool cs)) (\<lambda>_.
     market_stage cy env cs))))))))))"

definition load_stage :: "cycle_setup \<Rightarrow> env \<Rightarrow> unit staged" where
  "load_stage cy env =
     bind (enter_stage ''client_connect'') (\<lambda>_.
     bind (on_world (ensure_runtime_client env (cycle_notify env cy) 3)) (\<lambda>ready.
     if \<not> ready then ret ()
     else
       bind (enter_stage ''state_load'') (\<lambda>_.
       bind (on_world (load_cycle_state env (cy_said cy) (cy_config cy) (cy_resolve cy) (cy_on_degraded cy))) (\<lambda>loaded.
       case loaded of None \<Rightarrow> ret () | Some cs \<Rightarrow> state_stage cy env cs))))"

text \<open>The \<open>try\<close> block.\<close>

definition cycle_body :: "cycle_setup \<Rightarrow> env \<Rightarrow> unit staged" where
  "cycle_body cy env =
     bind (on_world (acquire_runtime_state_owner env)) (\<lambda>owned.
     if \<not> owned then on_world (set_report ''execution_blocked_reason'' (PStr ''state_owner_busy''))
     else
       bind (on_world (gets rt)) (\<lambda>r.
       bind (on_world (gets marks_of)) (\<lambda>marks.
       bind (note_locals (\<lambda>l. l\<lparr>lo_claimed := (\<not> rt_dry_run r \<and> rt_permitted r \<and> rt_owner_held r), lo_cycle := Some marks\<rparr>)) (\<lambda>_.
       load_stage cy env))))"

section \<open>The \<open>except\<close> block\<close>

definition daily_integrity_reasons :: "string list" where
  "daily_integrity_reasons = [''earn_checkpoint_required_for_receipt'', ''earn_forward_accounting_unverified'', ''balance_change_unexplained'',
     ''external_cash_flow_reconciliation_uncertain'', ''daily_accounting_unverifiable'', ''daily_trend_accounting_migration_unverifiable'',
     ''daily_trend_accounting_unverifiable'']"

definition daily_diagnostic_reasons :: "string list" where
  "daily_diagnostic_reasons = earn_reason_codes @ [''external_cash_flow_cursor_missing'', ''external_cash_flow_late_completion'',
     ''external_cash_flow_balance_mismatch'', ''external_withdrawal_accounting_unsupported'', ''external_cash_flow_scope_unsupported'']"

text \<open>By the exact type; subclasses and foreign types stay unclassified, and what an outside exception is comes from outside.\<close>

definition error_type :: "(bool \<Rightarrow> int option \<Rightarrow> string) \<Rightarrow> pyexc \<Rightarrow> string" where
  "error_type outside e = (case e of
     StatePersistence m \<Rightarrow> ''state_persistence_error''
   | OrderReconciliation m \<Rightarrow> ''order_reconciliation_error''
   | ExecutionIntegrity m \<Rightarrow> ''execution_integrity_error''
   | ClientCallFailed m \<Rightarrow> ''client_call_error''
   | ValueError m \<Rightarrow> ''value_error''
   | TypeError \<Rightarrow> ''type_error''
   | KeyError \<Rightarrow> ''key_error''
   | RuntimeErr m \<Rightarrow> ''runtime_error''
   | ClientExc transport code \<Rightarrow> outside transport code
   | _ \<Rightarrow> ''unclassified_error'')"

definition diagnostic_reason :: "report \<Rightarrow> string \<Rightarrow> string option" where
  "diagnostic_reason p surface = (case dget (the_dict (dget (rp_fields p) ''diagnostics'')) surface of
     PDict d \<Rightarrow> (case dget d ''reason_code'' of PStr s \<Rightarrow> if s \<in> set daily_diagnostic_reasons then Some s else None | _ \<Rightarrow> None)
   | _ \<Rightarrow> None)"

definition failure_reason :: "report \<Rightarrow> string \<Rightarrow> pyexc \<Rightarrow> string option" where
  "failure_reason p name e = (case e of
     ExecutionIntegrity m \<Rightarrow>
       if name = ''btc_execution'' \<and> m = ''btc_strategy_attribution_unavailable'' then Some m
       else if name = ''daily_state'' then
         (case List.map_filter (diagnostic_reason p) [''earn_accrual'', ''external_cash_flow'', ''balance_change''] of
            s # _ \<Rightarrow> Some s
          | [] \<Rightarrow> if m \<in> set daily_integrity_reasons then Some m else None)
       else None
   | _ \<Rightarrow> None)"

definition failure_metadata :: "cycle_setup \<Rightarrow> report \<Rightarrow> string \<Rightarrow> pyexc \<Rightarrow> pydict" where
  "failure_metadata cy p name e =
     [(''stage'', PStr name), (''error_type'', PStr (error_type (cy_outside cy) e))]
     @ (case failure_reason p name e of Some s \<Rightarrow> [(''reason_code'', PStr s)] | None \<Rightarrow> [])"

definition fail_cycle :: "cycle_setup \<Rightarrow> env \<Rightarrow> pyexc \<Rightarrow> unit staged" where
  "fail_cycle cy env e =
     bind (note_locals (\<lambda>l. l\<lparr>lo_healthy := False\<rparr>)) (\<lambda>_.
     bind (gets (\<lambda>s. lo_stage (snd s))) (\<lambda>name.
     on_world
       (bind (upd_rp (\<lambda>p. p\<lparr>rp_status := PStr ''error''\<rparr>)) (\<lambda>_.
        bind (gets rp) (\<lambda>p.
        bind (diagnose ''cycle_failure'' (PDict (failure_metadata cy p name e))) (\<lambda>_.
        bind (append_report_error ''cycle_execution_failed'' ''execute_cycle'') (\<lambda>_.
        attempt (cycle_notify env cy (Immediate ''system_crash'' [(''error'', PStr ''cycle_execution_failed'')])) (\<lambda>_. ret ()) (\<lambda>_. ret ()))))))))"

section \<open>The \<open>finally\<close> block\<close>

definition funding_effect :: "side_effect \<Rightarrow> bool" where
  "funding_effect se = (starts_with (se_type se) ''order_'' \<or> starts_with (se_type se) ''earn_'')"

definition persistent_effect :: "side_effect \<Rightarrow> bool" where
  "persistent_effect se = (se_target se = ''firestore'' \<or> starts_with (se_type se) ''state_'')"

text \<open>Nothing was submitted, moved, intended or written since the marks.\<close>

definition unchanged_since_marks :: "world \<Rightarrow> cycle_marks \<Rightarrow> bool" where
  "unchanged_since_marks w m =
     ((case submissions (rp w) of Some v \<Rightarrow> py_eq v (cm_submissions m) | None \<Rightarrow> False) \<and> rt_order_sequence (rt w) = cm_sequence m
      \<and> \<not> list_ex funding_effect (drop (cm_effects m) (rt_log (rt w))))"

definition pure_daily_state_failure :: "world \<Rightarrow> cycle_locals \<Rightarrow> string option \<Rightarrow> bool" where
  "pure_daily_state_failure w l current =
     (\<not> lo_healthy l \<and> lo_stage l = ''daily_state''
      \<and> (case dget (the_dict (dget (rp_fields (rp w)) ''diagnostics'')) ''earn_accrual'' of
           PDict d \<Rightarrow> dget d ''reason_code'' \<in> PStr ` set earn_reason_codes | _ \<Rightarrow> False)
      \<and> lo_claimed l \<and> lo_initial l \<noteq> None \<and> current \<noteq> None \<and> rt_pending (rt w) = []
      \<and> (case (lo_daily l, lo_cycle l) of
           (Some d, Some c) \<Rightarrow> unchanged_since_marks w d \<and> unchanged_since_marks w c \<and> intent_lengths (rp w) = cm_intents d
             \<and> \<not> list_ex persistent_effect (drop (cm_effects d) (rt_log (rt w))) \<and> length (rp_state_intents (rp w)) = cm_writes d
         | _ \<Rightarrow> False))"

text \<open>The state the runtime holds, or the one the cycle loaded.\<close>

definition held_state :: "world \<Rightarrow> cycle_locals \<Rightarrow> pydict" where
  "held_state w l = (case rt_trade_state (rt w) of
     Some a \<Rightarrow> if heap w a \<noteq> [] then heap w a else (case lo_state l of Some b \<Rightarrow> heap w b | None \<Rightarrow> [])
   | None \<Rightarrow> (case lo_state l of Some b \<Rightarrow> heap w b | None \<Rightarrow> []))"

text \<open>True when the release is uncertain.\<close>

definition release_owner :: "env \<Rightarrow> bool run" where
  "release_owner env =
     attempt (release_runtime_state_owner env)
       (\<lambda>e. if is_integrity_error e then
           bind (upd_rp (\<lambda>p. p\<lparr>rp_status := PStr ''error''\<rparr>)) (\<lambda>_.
           bind (append_report_error ''state_owner_release_uncertain'' ''state_release'') (\<lambda>_. ret True))
         else throw e)
       (\<lambda>_. ret False)"

definition plain_count :: "pydict \<Rightarrow> string \<Rightarrow> int option" where
  "plain_count d k = (case dget d k of PInt i \<Rightarrow> if 0 \<le> i then Some i else None | _ \<Rightarrow> None)"

definition notification_digest :: "runtime \<Rightarrow> report \<Rightarrow> pydict" where
  "notification_digest r p =
     (let d = the_dict (rp_observation p);
          known = list_all (\<lambda>k. plain_count d k \<noteq> None) counter_fields;
          filled = dget d ''filled_count'';
          settled = (known \<and> dget d ''submission_attempted_count'' = filled);
          healthy = (rp_status p = PStr ''ok'' \<and> settled
            \<and> \<not> list_ex (\<lambda>k. truthy (dget d k)) [''broker_acknowledged_count'', ''partially_filled_count'', ''transport_uncertain_count'', ''failed_count'']
            \<and> \<not> truthy (dget (rp_fields p) ''execution_blocked_reason'') \<and> \<not> truthy (dget (rp_fields p) ''circuit_breaker_triggered'')
            \<and> rp_errors p = []);
          routine = (healthy \<and> \<not> rt_dry_run r)
      in [(''schema_version'', PStr ''qsl.notification_cycle.v1''), (''dry_run'', PBool (rt_dry_run r)),
          (''order_count'', if routine then filled else PNone),
          (''fill_count'', if routine \<and> filled = PInt 0 then PInt 0 else PNone), (''routine'', PBool routine)])"

definition build_platform_execution_result :: "report \<Rightarrow> bool \<Rightarrow> bool \<Rightarrow> pydict" where
  "build_platform_execution_result p healthy uncertain =
     [(''platform'', PStr ''binance''), (''status'', rp_status p),
      (''total_equity_usdt'', dget (rp_fields p) ''total_equity_usdt''), (''trend_equity_usdt'', dget (rp_fields p) ''trend_equity_usdt''),
      (''external_cash_flow'', PNone),
      (''external_cash_flow_interval'', if rp_status p = PStr ''ok'' \<and> healthy \<and> \<not> uncertain
         then dget (rp_fields p) ''external_cash_flow_interval'' else PNone),
      (''degraded_mode_level'', dget (rp_fields p) ''degraded_mode_level''), (''error'', dget (rp_fields p) ''error'')]"

definition finish_cycle :: "cycle_setup \<Rightarrow> env \<Rightarrow> pydict option staged" where
  "finish_cycle cy env =
     bind (gets id) (\<lambda>s. case s of (w, l) \<Rightarrow>
     bind (liftE (settled_order_state (held_state w l))) (\<lambda>current.
     bind (if pure_daily_state_failure w l current \<or> (lo_healthy l \<and> rt_owner_held (rt w)) then on_world (release_owner env) else ret False) (\<lambda>uncertain.
     on_world
       (bind (upd_rp finalize_notification_delivery) (\<lambda>_.
        bind (attach_execution_receipt_from_report (cy_receipt cy) (cy_attach cy)) (\<lambda>_.
        bind (env_flag env DigestEnabled) (\<lambda>digest.
        bind (gets rt) (\<lambda>r.
        bind (whenM digest (upd_rp (\<lambda>p. p\<lparr>rp_summary := dset ''notification_digest'' (PDict (notification_digest r p)) (rp_summary p)\<rparr>))) (\<lambda>_.
        bind (gets rp) (\<lambda>p.
        ret (if rt_dry_run r then None else Some (build_platform_execution_result p (lo_healthy l) uncertain))))))))))))"

section \<open>The cycle\<close>

text \<open>The report before the \<open>try\<close> block.\<close>

definition open_cycle :: "cycle_setup \<Rightarrow> pydict \<Rightarrow> unit run" where
  "open_cycle cy base =
     bind (gets rt) (\<lambda>r.
     bind (raise_if (cy_research cy \<and> \<not> rt_dry_run r) (ValueError ''research cycle settings require dry_run=True'')) (\<lambda>_.
     bind (upd_rp (\<lambda>_. build_execution_report base r)) (\<lambda>_.
     bind (diagnose ''portfolio_stoploss'' (PDict [(''pre_trade'', PDict unevaluated_stoploss_observation), (''post_trade'', PDict unevaluated_stoploss_observation)])) (\<lambda>_.
     whenM (\<not> rt_permitted r) (set_report ''execution_blocked_reason'' (PStr ''runtime_target_disabled''))))))"

definition staged_cycle :: "cycle_setup \<Rightarrow> env \<Rightarrow> pydict option staged" where
  "staged_cycle cy env =
     attempt (handle (cycle_body cy env) (fail_cycle cy env))
       (\<lambda>e. bind (finish_cycle cy env) (\<lambda>_. throw e)) (\<lambda>_. finish_cycle cy env)"

definition execute_strategy_cycle :: "cycle_setup \<Rightarrow> env \<Rightarrow> pydict \<Rightarrow> pydict option run" where
  "execute_strategy_cycle cy env base =
     bind (open_cycle cy base) (\<lambda>_.
     (\<lambda>w. case staged_cycle cy env (w, initial_locals) of (r, (w', l)) \<Rightarrow> (r, w')))"

end
