(* ===== verification/Cycle_Steps.thy ===== *)
theory Cycle_Steps
  imports Cycle Execution_Safety
begin

text \<open>
  What a cycle does to the world, step by step: the locale \<open>step_law\<close> collects the effects a cycle is
  made of (reads, reports, shared dictionaries, state writes, notices, order calls), and every stage and
  the whole cycle keep any relation these effects keep. The theory of a property interprets the locale on
  the relation it is about.
\<close>

section \<open>The interface\<close>

text \<open>Calls that look something up, wait, or end a session; none changes what is stored or traded.\<close>

definition looks_only :: "call \<Rightarrow> bool" where
  "looks_only c = (case c of
     Client m kw \<Rightarrow> m \<in> {''get_asset_balance'', ''get_simple_earn_flexible_product_position'', ''get_account'', ''get_avg_price''}
       \<or> m = ''_request_margin_api'' \<and> dget kw ''method'' = PStr ''get''
   | WriteState d \<Rightarrow> False | BoundSave d i \<Rightarrow> False | ClaimOwner x \<Rightarrow> False | ReleaseOwner x \<Rightarrow> False | NewOwnerId \<Rightarrow> False
   | Notifier x \<Rightarrow> False | _ \<Rightarrow> True)"

lemma looks_only_calls [simp]:
  "looks_only LoadState" "looks_only BoundEnsureActive" "looks_only BoundInvalidate" "looks_only ClockNow" "looks_only (OrderIdentity x)"
  "looks_only RetryGuard" "looks_only Pause" "looks_only DigestEnabled" "looks_only UnifiedEnabled" "looks_only (FormatQty s q)"
  "looks_only ConnectClient" "looks_only (BtcSnapshot p)" "looks_only (DailyIndicators s)"
  "looks_only (Client ''get_asset_balance'' kw)" "looks_only (Client ''get_simple_earn_flexible_product_position'' kw)"
  "looks_only (Client ''get_account'' kw)" "looks_only (Client ''get_avg_price'' kw)"
  "looks_only (Client ''_request_margin_api'' ((''method'', PStr ''get'') # kw))"
  by (simp_all add: looks_only_def dget_def)

text \<open>The runtime changes neither its mode nor gains the ownership.\<close>

definition steady :: "runtime \<Rightarrow> runtime \<Rightarrow> bool" where
  "steady r r' = (rt_dry_run r' = rt_dry_run r \<and> rt_permitted r' = rt_permitted r \<and> (rt_owner_held r' \<longrightarrow> rt_owner_held r))"

locale step_law =
  fixes R :: "world \<Rightarrow> world \<Rightarrow> bool"
  assumes refl [keeps_intros]: "reflp R"
    and trans [keeps_intros]: "transp R"
    and looks [keeps_intros]: "looks_only c \<Longrightarrow> keeps R (invoke env c)"
    and reports [keeps_intros]: "keeps R (upd_rp g)"
    and stores [keeps_intros]: "keeps R (write_ref a d)" "keeps R (alloc d)"
    and settles [keeps_intros]: "(\<And>r. steady r (f r)) \<Longrightarrow> keeps R (upd_rt f)"
    and writes [keeps_intros]: "keeps R (runtime_set_trade_state env a reason interval)"
    and funding [keeps_intros]: "keeps R (reconcile_pending_funding_submission env digest)"
    and owner [keeps_intros]: "keeps R (acquire_runtime_state_owner env)" "keeps R (release_runtime_state_owner env)"
    and notices [keeps_intros]: "keeps R (legacy_runtime_notify env message urgent)"
    and orders [keeps_intros]: "is_order_effect t \<Longrightarrow> keeps R (runtime_call_client env m kw t n v)"

text \<open>A reader that was handed over keeps what its readings keep.\<close>

lemma keeps_after:
  assumes "transp R" and "keeps R f" and "returns f P" and "\<And>x w. P x w \<Longrightarrow> keeps R (g x)"
  shows "keeps R (bind f g)"
  unfolding keeps_def
proof
  fix s
  obtain r u where f: "f s = (r, u)" by (cases "f s")
  show "R s (snd (bind f g s))"
  proof (cases r)
    case (Inr x)
    then have "P x u" using returnsD [OF assms(3)] f by blast
    then have "R u (snd (g x u))" using assms(4) by (auto simp: keeps_def)
    with keepsD [OF assms(2) f] Inr f show ?thesis using assms(1) by (auto simp: bind_def elim: transpE)
  qed (use keepsD [OF assms(2) f] f in \<open>simp add: bind_def\<close>)
qed


text \<open>The stages keep beside their local variables what they keep of the world.\<close>

definition across :: "(world \<Rightarrow> world \<Rightarrow> bool) \<Rightarrow> world \<times> cycle_locals \<Rightarrow> world \<times> cycle_locals \<Rightarrow> bool" where
  "across R s s' = R (fst s) (fst s')"

lemma across_rel [keeps_intros]: "reflp R \<Longrightarrow> reflp (across R)" "transp R \<Longrightarrow> transp (across R)"
  by (auto simp: across_def reflp_def transp_def) 

lemma across_world: "keeps R m \<Longrightarrow> keeps (across R) (on_world m)"
  by (simp add: keeps_def across_def on_world_def)

lemma across_locals [keeps_intros]: "reflp R \<Longrightarrow> keeps (across R) (note_locals f)" "reflp R \<Longrightarrow> keeps (across R) (enter_stage name)"
  by (simp_all add: keeps_def across_def enter_stage_def note_locals_def update_def reflpD)

section \<open>Reading\<close>

context step_law
begin

lemma read_step [keeps_intros]: "keeps R (read_ref a)" "keeps R (modify_ref a h)" "keeps R (quiet env Pause)"
  unfolding read_ref_def modify_ref_def quiet_def by (intro keeps_intros; simp)+

lemma heap_step [keeps_intros, simp]: "R w (w\<lparr>heap := (heap w)(a := d)\<rparr>)"
  using stores(1) [of a d] by (simp add: keeps_def write_ref_def update_def)

lemma world_step [keeps_intros, simp]: "R w (w\<lparr>rp := p\<rparr>)"
  using reports [of "\<lambda>_. p"] by (simp add: keeps_def upd_rp_def update_def)

lemma report_step [keeps_intros]:
  "keeps R (set_report k x)" "keeps R (append_report k x)" "keeps R (diagnose k x)" "keeps R (record_gating_event k c s x)"
  "keeps R (append_report_error k c)" "keeps R (set_report_in k c x)"
  unfolding set_report_def append_report_def diagnose_def record_gating_event_def append_report_error_def set_report_in_def
  by (intro keeps_intros)+

lemma notice_step [keeps_intros]: "keeps R (send_notice env render n)" "keeps R (env_flag env DigestEnabled)"
  unfolding send_notice_def env_flag_def by (intro keeps_intros; simp)+

lemma balance_step [keeps_intros]: "keeps R (read_managed_balance env asset)" "keeps R (avg_price env symbol)"
  unfolding read_managed_balance_def avg_price_def by (intro keeps_intros; simp)+

lemma earn_step [keeps_intros]: "keeps R (collect_earn_checkpoint env digest names t expected)"
  unfolding collect_earn_checkpoint_def call_at_stage_def by (intro keeps_intros; simp)

lemma dividend_step [keeps_intros]: "keeps R (collect_bnb_dividend_quantity env s t)"
  unfolding collect_bnb_dividend_quantity_def by (intro keeps_intros; simp)

lemma require_step [keeps_intros]: "keeps R (require_runtime_state_owner env)"
  unfolding require_runtime_state_owner_def by (intro keeps_intros; simp add: steady_def)

lemma cash_step [keeps_intros]: "keeps R (reconcile_runtime_cash_effects env digest a)"
  unfolding reconcile_runtime_cash_effects_def prospective_observations_def read_observations_def compare_with_dividend_def
  by (intro keeps_intros; simp add: steady_def)

lemma flows_step [keeps_intros]: "keeps R (collect_spot_usdt_external_cash_flows env digest now cursor)"
  unfolding collect_spot_usdt_external_cash_flows_def external_cash_flow_rows_def by (intro keeps_intros; simp)

lemma attempts_step [keeps_intros]: "keeps R (connect_attempts env (send_notice env render) n)"
    "keeps R (snapshot_attempts env delays price k n)"
proof -
  show "keeps R (connect_attempts env (send_notice env render) n)"
    by (induction n) (auto simp: steady_def intro!: keeps_intros)
  show "keeps R (snapshot_attempts env delays price k n)"
    by (induction n arbitrary: k) (auto intro!: keeps_intros)
qed

lemma client_step [keeps_intros]: "keeps R (ensure_runtime_client env (send_notice env render) n)"
  unfolding ensure_runtime_client_def by (intro keeps_intros)

lemma loaded_step [keeps_intros]: "keeps R (load_cycle_state env said c resolve on_degraded)"
  unfolding load_cycle_state_def by (intro keeps_intros; simp add: steady_def)

lemma reader_step:
  "keeps R (balance_reader env digest universe)"
  "returns (balance_reader env digest universe) (\<lambda>r _. \<forall>asset. keeps R (snd r asset))"
proof -
  have total_read: "keeps R (get_total_balance env asset)" for asset
    unfolding get_total_balance_def by (intro keeps_intros)
  have lifted: "keeps R (liftE x)" for x :: "pyexc + pyfloat" by (intro keeps_intros)
  show "keeps R (balance_reader env digest universe)"
    unfolding balance_reader_def observe_earn_def by (intro keeps_intros; simp add: steady_def)
  show "returns (balance_reader env digest universe) (\<lambda>r _. \<forall>asset. keeps R (snd r asset))"
    unfolding balance_reader_def by (auto simp: returns_iff returned total_read lifted split: if_splits)
qed

lemma quote_step: "\<forall>a. keeps R (balance a) \<Longrightarrow> keeps R (quote_symbol env balance acc e)"
  unfolding quote_symbol_def by (intro keeps_intros) auto

lemma sources_step [keeps_intros]:
  "keeps R (resolve_runtime_btc_snapshot env ms price)" "keeps R (resolve_runtime_trend_indicators env ms names)"
  unfolding resolve_runtime_btc_snapshot_def resolve_runtime_trend_indicators_def by (intro keeps_intros; simp)+

lemma market_step [keeps_intros]: "keeps R (capture_market_snapshot env digest ms symbols universe)"
  unfolding capture_market_snapshot_def
  apply (rule keeps_after [OF trans reader_step])
  subgoal premises read for x w
    by (intro keeps_intros quote_step) (use read in auto)
  done

section \<open>Deciding and accounting\<close>

lemma evaluation_step [keeps_intros]: "keeps R (resolve_strategy_evaluation sr rk mk a b u fuel x y)"
  unfolding resolve_strategy_evaluation_def evaluate_strategy_def by (intro keeps_intros)

lemma plan_step [keeps_intros]: "keeps R (cycle_plan cy cv fuel u)"
  unfolding cycle_plan_def resolve_strategy_plan_def by (intro keeps_intros)

lemma decide_step [keeps_intros]: "keeps R (decide cy cv u fuel phase)"
  unfolding decide_def compute_cycle_allocation_def report_equity_def record_risk_diagnostics_def report_assessment_def
  by (intro keeps_intros)

lemma rebase_step [keeps_intros]:
  "keeps R (maybe_rebase_daily_state_for_balance_change env (collect_spot_usdt_external_cash_flows env digest) a v x current)"
proof -
  let ?collect = "collect_spot_usdt_external_cash_flows env digest"
  have forward: "keeps R (forward_earn_rebase env ?collect a v x current)"
    unfolding forward_earn_rebase_def forward_update_def by (intro keeps_intros; simp add: steady_def)
  have spot: "keeps R (spot_rebase env ?collect a current)"
    unfolding spot_rebase_def rebase_deposit_def rebase_quiet_def refuse_change_def blocked_flow_def by (intro keeps_intros)
  show ?thesis
    unfolding maybe_rebase_daily_state_for_balance_change_def by (intro keeps_intros forward spot)
qed

lemma reset_step [keeps_intros]: "keeps R (maybe_reset_daily_state env a today x y)"
  unfolding maybe_reset_daily_state_def by (intro keeps_intros)

lemma status_step [keeps_intros]: "keeps R (maybe_send_periodic_btc_status_report env render a now hours snapshot figures)"
  unfolding maybe_send_periodic_btc_status_report_def send_heartbeat_def by (intro keeps_intros)

section \<open>Trading\<close>

lemma order_step [keeps_intros]: "keeps R (place_order env b prefix side symbol q x prices u)"
  unfolding place_order_def order_payload_def next_order_id_def resolve_fill_def apply_fill_balances_def
  by (intro keeps_intros; simp add: steady_def order_effect_is_order)

lemma available_step [keeps_intros]: "keeps R (ensure_asset_available_runtime env asset x)" "keeps R (format_qty env symbol x)"
  unfolding ensure_asset_available_runtime_def format_qty_def by (intro keeps_intros; simp)+

lemma place_step [keeps_intros]: "keeps R (place_available env b asset required prefix side symbol q x prices u)"
  unfolding place_available_def by (intro keeps_intros)

lemma book_step [keeps_intros]: "keeps R (prepare_accounting_state a b symbol asset u)" "keeps R (book_trend_fill c a b symbol asset v f u d)"
  unfolding book_trend_fill_def record_trend_fill_def prepare_accounting_state_def by (intro keeps_intros; simp add: steady_def)+

lemma guarded_step [keeps_intros]:
  "keeps R submit \<Longrightarrow> (\<And>f u d. keeps R (settle f u d)) \<Longrightarrow> keeps R (guarded_order (send_notice env render) n u submit settle)"
  unfolding guarded_order_def order_failed_def by (intro keeps_intros)

lemma breaker_step [keeps_intros]:
  "keeps R (run_daily_circuit_breaker env (send_notice env render) c a b universe u prices pnl limit)"
  unfolding run_daily_circuit_breaker_def circuit_sell_def by (intro keeps_intros)

lemma rotation_step [keeps_intros]:
  assumes "\<And>v. keeps R (resolve v)"
  shows "keeps R (execute_trend_rotation env (send_notice env render) c a b resolve universe indicators btc prices u today allow_new)"
  unfolding execute_trend_rotation_def announce_plan_def execute_trend_sells_def execute_trend_buys_def sell_trend_def buy_trend_def
  by (intro keeps_intros assms)

lemma dca_step [keeps_intros]: "keeps R (execute_btc_dca_cycle env (send_notice env render) a b prices u pool dca_val snap base today)"
  unfolding execute_btc_dca_cycle_def btc_buy_gates_def btc_buy_def btc_trim_gates_def btc_trim_def btc_gate_def
    require_btc_strategy_attribution_def settle_btc_def
  by (intro keeps_intros)

lemma fuel_step [keeps_intros]: "keeps R (top_up_bnb_fuel env (send_notice env render) u fuel least spend)"
proof -
  have "is_order_effect ''order_buy''" by code_simp
  then show ?thesis
    unfolding top_up_bnb_fuel_def by (intro keeps_intros)
qed

section \<open>The cycle\<close>

lemma stage_rel [keeps_intros]: "reflp (across R)" "transp (across R)"
  by (rule across_rel, rule refl, rule across_rel, rule trans)

lemma stage_world [keeps_intros]: "keeps R m \<Longrightarrow> keeps (across R) (on_world m)"
  by (rule across_world)

lemma stage_locals [keeps_intros]: "keeps (across R) (note_locals f)" "keeps (across R) (enter_stage name)"
  by (rule across_locals, rule refl)+

lemma closing_kept [keeps_intros]: "keeps (across R) (closing_stage cy env cv u fuel pnl ratio)"
  unfolding closing_stage_def report_equity_def by (intro keeps_intros)

lemma trend_kept [keeps_intros]: "keeps (across R) (trend_stage cy env cv u fuel)"
  unfolding trend_stage_def btc_stage_def cycle_notify_def by (intro keeps_intros)

lemma breaker_kept [keeps_intros]: "keeps (across R) (breaker_stage cy env cv u fuel pnl)"
  unfolding breaker_stage_def fuel_stage_def cycle_notify_def by (intro keeps_intros)

lemma daily_kept [keeps_intros]: "keeps (across R) (daily_stage cy env cv v u fuel al)"
  unfolding daily_stage_def by (intro keeps_intros)

lemma market_kept [keeps_intros]: "keeps (across R) (market_stage cy env cs)"
  unfolding market_stage_def allocation_stage_def by (intro keeps_intros)

lemma adopt_step: "keeps R (upd_rt (\<lambda>r. r\<lparr>rt_trade_state := a\<rparr>))"
  by (rule settles) (simp add: steady_def)

lemma state_kept [keeps_intros]: "keeps (across R) (state_stage cy env cs)"
  unfolding state_stage_def report_pool_def by (intro keeps_intros adopt_step)

lemma body_kept [keeps_intros]: "keeps (across R) (cycle_body cy env)"
  unfolding cycle_body_def load_stage_def cycle_notify_def by (intro keeps_intros)

lemma failure_kept [keeps_intros]: "keeps (across R) (fail_cycle cy env e)"
  unfolding fail_cycle_def cycle_notify_def by (intro keeps_intros)

lemma finish_kept [keeps_intros]: "keeps (across R) (finish_cycle cy env)"
  unfolding finish_cycle_def release_owner_def attach_execution_receipt_from_report_def by (intro keeps_intros)

lemma cycle_kept: "keeps R (execute_strategy_cycle cy env base)"
proof -
  have opened: "keeps R (open_cycle cy base)"
    unfolding open_cycle_def by (intro keeps_intros)
  have staged: "keeps (across R) (staged_cycle cy env)"
    unfolding staged_cycle_def by (intro keeps_intros)
  have rest: "keeps R (\<lambda>w. case staged_cycle cy env (w, initial_locals) of (r, (w', l)) \<Rightarrow> (r, w'))"
    unfolding keeps_def
  proof
    fix w
    show "R w (snd (case staged_cycle cy env (w, initial_locals) of (r, (w', l)) \<Rightarrow> (r, w')))"
      using keepsD [OF staged prod.collapse [symmetric], of "(w, initial_locals)"] by (auto simp: across_def split: prod.split)
  qed
  show ?thesis
    unfolding execute_strategy_cycle_def by (rule keeps_bind [OF trans opened rest])
qed

end

end
