(* ===== verification/Cycle_Safety.thy ===== *)
theory Cycle_Safety
  imports Cycle_Steps Market_Safety Strategy_Safety
begin

text \<open>
  A whole cycle: every order request of a cycle is covered by the durable record of its own identity,
  a cycle that is not to execute only looks, and a cycle that failed keeps the ownership of the state and
  reports the failure. The first two are instances of \<open>step_law\<close>.
\<close>

section \<open>Order requests of a cycle\<close>

definition covered :: "world \<Rightarrow> world \<Rightarrow> bool" where
  "covered w w' = (\<exists>evs. trace w' = trace w @ evs \<and> announced_from (durable_record (trace w)) evs)"

lemma covered_rel [keeps_intros]: "reflp covered" "transp covered"
proof -
  have "covered w v" if "covered w u" "covered u v" for w u v
  proof -
    obtain xs ys where "trace u = trace w @ xs" "trace v = trace u @ ys" "announced_from (durable_record (trace w)) xs"
      "announced_from (durable_record (trace u)) ys"
      using \<open>covered w u\<close> \<open>covered u v\<close> by (auto simp: covered_def)
    then show ?thesis by (auto simp: covered_def announced_from_append durable_record_def intro!: exI [of _ "xs @ ys"])
  qed
  then show "transp covered" by (rule transpI)
qed (simp add: reflp_def covered_def)

lemma covered_sends: "keeps (covered_upto n) m \<Longrightarrow> keeps covered m"
  by (auto simp: keeps_def covered_def covered_upto_def)

lemma covered_silently: "keeps silent m \<Longrightarrow> keeps covered m"
  by (rule covered_sends) (rule sends_silent)

lemma covered_announced: "covered w w' \<Longrightarrow> announced (trace w) \<Longrightarrow> announced (trace w')"
  by (auto simp: covered_def announced_append)

lemma looks_only_no_order: "looks_only c \<Longrightarrow> \<not> order_request c"
  by (auto simp: looks_only_def order_request_def order_side_def split: call.splits)

interpretation order_law: step_law covered
proof unfold_locales
  show "looks_only c \<Longrightarrow> keeps covered (invoke env c)" for c env
    by (intro covered_silently silent_invoke looks_only_no_order)
  show "is_order_effect t \<Longrightarrow> keeps covered (runtime_call_client env m kw t n v)" for t env m kw n v
    by (intro covered_sends [OF sends_call])
  show "keeps covered (legacy_runtime_notify env message urgent)" for env message urgent
    unfolding legacy_runtime_notify_def env_flag_def add_notification_def
    by (intro covered_silently keeps_intros; simp)
  show "keeps covered (acquire_runtime_state_owner env)" "keeps covered (release_runtime_state_owner env)" for env
    unfolding acquire_runtime_state_owner_def release_runtime_state_owner_def
    by (rule covered_silently, intro keeps_intros; simp)+
qed (intro covered_rel covered_silently silent_upd silent_set_state silent_pending_funding)+

text \<open>
  C39. Orders of a whole cycle. Whatever the strategy decides and the outside answers, and wherever the
  cycle ends, every order request it sent is preceded by the durable record of its own identity and symbol:
  nothing is traded that the next cycle could not reconcile.
\<close>

theorem cycle_orders_announced:
  assumes "announced (trace w)" and "execute_strategy_cycle cy env base w = (result, w')"
  shows "announced (trace w')"
  using covered_announced [OF keepsD [OF order_law.cycle_kept assms(2)] assms(1)] .

section \<open>A cycle that is not to execute\<close>

definition suppressed_run :: "world \<Rightarrow> bool" where
  "suppressed_run w = ((rt_dry_run (rt w) \<or> \<not> rt_permitted (rt w)) \<and> \<not> rt_owner_held (rt w))"

definition only_looks :: "bool \<Rightarrow> event list \<Rightarrow> bool" where
  "only_looks dry_run evs = list_all (\<lambda>e. looks_only (fst e) \<or> \<not> dry_run \<and> (case fst e of Notifier m \<Rightarrow> True | _ \<Rightarrow> False)) evs"

definition idle :: "world \<Rightarrow> world \<Rightarrow> bool" where
  "idle w w' = (suppressed_run w \<longrightarrow> suppressed_run w' \<and> rt_dry_run (rt w') = rt_dry_run (rt w)
     \<and> (\<exists>evs. trace w' = trace w @ evs \<and> only_looks (rt_dry_run (rt w)) evs))"

lemma idle_rel: "reflp idle" "transp idle"
proof -
  have "idle w v" if "idle w u" "idle u v" for w u v
    using that by (fastforce simp: idle_def only_looks_def)
  then show "transp idle" by (rule transpI)
qed (simp add: reflp_def idle_def only_looks_def)

lemma idle_if_suppressed: "(\<And>w. suppressed_run w \<Longrightarrow> wp m (\<lambda>_. idle w) (\<lambda>_. idle w) w) \<Longrightarrow> keeps idle m"
proof (rule keepsI)
  fix w
  assume "\<And>w. suppressed_run w \<Longrightarrow> wp m (\<lambda>_. idle w) (\<lambda>_. idle w) w"
  then show "wp m (\<lambda>_. idle w) (\<lambda>_. idle w) w"
    by (cases "suppressed_run w") (auto simp: idle_def intro: wp_mono [OF wp_trivial])
qed

lemma idle_steps: "looks_only c \<Longrightarrow> keeps idle (invoke env c)" "keeps idle (upd_rp g)" "keeps idle (write_ref a d)" "keeps idle (alloc d)"
  "(\<And>r. steady r (f r)) \<Longrightarrow> keeps idle (upd_rt f)"
  by (auto simp: keeps_def idle_def only_looks_def suppressed_run_def steady_def invoke_def upd_rp_def upd_rt_def write_ref_def alloc_def update_def)

interpretation idle_law: step_law idle
proof unfold_locales
  note only = suppressed_run_def idle_def only_looks_def
  show "keeps idle (runtime_set_trade_state env a reason interval)" for env a reason interval
    by (rule idle_if_suppressed) (auto simp: runtime_set_trade_state_def record_side_effect_def eff_simps only Let_def)
  show "keeps idle (reconcile_pending_funding_submission env digest)" for env digest
    by (rule idle_if_suppressed) (auto simp: reconcile_pending_funding_submission_def eff_simps only)
  show "keeps idle (acquire_runtime_state_owner env)" "keeps idle (release_runtime_state_owner env)" for env
    by (rule idle_if_suppressed; auto simp: acquire_runtime_state_owner_def release_runtime_state_owner_def
        require_runtime_state_owner_def eff_simps only)+
  show "keeps idle (legacy_runtime_notify env message urgent)" for env message urgent
    by (rule idle_if_suppressed) (auto simp: legacy_runtime_notify_def env_flag_def add_notification_def record_side_effect_def eff_simps only
        Let_def split: sum.split prod.split)
  show "is_order_effect t \<Longrightarrow> keeps idle (runtime_call_client env m kw t n v)" for t env m kw n v
    by (rule idle_if_suppressed) (auto simp: runtime_call_client_def suppressed_call_def quiet_def record_side_effect_def eff_simps only
        split: sum.split)
qed (intro idle_rel idle_steps; assumption)+

text \<open>
  C14. A cycle that is not to execute only looks. In a dry run, or when standard execution is not permitted,
  a whole cycle, whatever the strategy decides and the outside answers, never claims or releases the state,
  never saves anything and never sends an order or another change to the broker: it only reads and
  waits, and a dry run does not even notify. The ownership it did not have it does not get.
\<close>

theorem suppressed_cycle_only_looks:
  assumes "rt_dry_run (rt w) \<or> \<not> rt_permitted (rt w)" and "\<not> rt_owner_held (rt w)"
    and "execute_strategy_cycle cy env base w = (result, w')"
  shows "(\<exists>evs. trace w' = trace w @ evs \<and> only_looks (rt_dry_run (rt w)) evs) \<and> \<not> rt_owner_held (rt w')"
  using keepsD [OF idle_law.cycle_kept assms(3)] assms(1,2) by (simp add: idle_def suppressed_run_def)

section \<open>A failed cycle\<close>

text \<open>Nothing of this releases the ownership, and a failure stays reported.\<close>

definition released :: "event list \<Rightarrow> bool" where
  "released evs = list_ex (\<lambda>e. case fst e of ReleaseOwner x \<Rightarrow> True | _ \<Rightarrow> False) evs"

definition stands :: "world \<Rightarrow> world \<Rightarrow> bool" where
  "stands w w' = (rt_owner_held (rt w') = rt_owner_held (rt w) \<and> (\<exists>evs. trace w' = trace w @ evs \<and> \<not> released evs)
     \<and> (rp_status (rp w) = PStr ''error'' \<longrightarrow> rp_status (rp w') = PStr ''error'') \<and> set (rp_errors (rp w)) \<subseteq> set (rp_errors (rp w')))"

lemma stands_rel [keeps_intros]: "reflp stands" "transp stands"
proof -
  have "stands w v" if "stands w u" "stands u v" for w u v
  proof -
    obtain xs ys where "trace u = trace w @ xs" "trace v = trace u @ ys" "\<not> released xs" "\<not> released ys"
      using \<open>stands w u\<close> \<open>stands u v\<close> by (auto simp: stands_def)
    then have "\<exists>evs. trace v = trace w @ evs \<and> \<not> released evs" by (simp add: released_def)
    with that show ?thesis by (auto simp: stands_def)
  qed
  then show "transp stands" by (rule transpI)
qed (simp add: reflp_def stands_def released_def)

lemma stands_invoke [keeps_intros]: "\<not> released [(c, Inr PNone)] \<Longrightarrow> keeps stands (invoke env c)"
  by (auto simp: keeps_def stands_def invoke_def released_def split: call.splits)

lemma stands_rt [keeps_intros]: "(\<And>r. rt_owner_held (f r) = rt_owner_held r) \<Longrightarrow> keeps stands (upd_rt f)"
  by (simp add: keeps_def stands_def upd_rt_def update_def released_def)

lemma stands_rp [keeps_intros]:
  "(\<And>p. (rp_status p = PStr ''error'' \<longrightarrow> rp_status (f p) = PStr ''error'') \<and> set (rp_errors p) \<subseteq> set (rp_errors (f p)))
    \<Longrightarrow> keeps stands (upd_rp f)"
  by (simp add: keeps_def stands_def upd_rp_def update_def released_def)

lemma stands_notice [keeps_intros]: "keeps stands (send_notice env render n)"
  unfolding send_notice_def legacy_runtime_notify_def env_flag_def add_notification_def record_side_effect_def
  by (intro keeps_intros; simp add: released_def)

lemma stands_diagnose [keeps_intros]: "keeps stands (diagnose k v)" "keeps stands (append_report_error x y)"
  unfolding diagnose_def set_report_def append_report_error_def by (intro keeps_intros; auto)+

text \<open>
  The kit's \<open>attach_execution_receipt\<close> adds the receipt to the report and nothing else that is read here.
\<close>

definition only_attaches :: "(report \<Rightarrow> pyval \<times> pyval \<Rightarrow> pyexc + report) \<Rightarrow> bool" where
  "only_attaches attach = (\<forall>p x p'. attach p x = Inr p' \<longrightarrow> rp_status p' = rp_status p \<and> rp_errors p' = rp_errors p)"

lemma stands_attach:
  assumes "only_attaches attach"
  shows "keeps stands (attach_execution_receipt_from_report resolve attach)"
proof (rule keepsI)
  fix w
  have "rp_status q = rp_status p \<and> rp_errors q = rp_errors p" if "attach p x = Inr q" for p x q
    using assms that unfolding only_attaches_def by blast
  then show "wp (attach_execution_receipt_from_report resolve attach) (\<lambda>_. stands w) (\<lambda>_. stands w) w"
    by (simp add: attach_execution_receipt_from_report_def eff_simps stands_def released_def split: sum.split)
qed

lemma wp_on_world [eff_simps]: "wp (on_world m) Q E s = wp m (\<lambda>a t. Q a (t, snd s)) (\<lambda>e t. E e (t, snd s)) (fst s)"
  by (auto simp: wp_def on_world_def split: prod.splits sum.splits)

lemma wp_note_locals [eff_simps]: "wp (note_locals f) Q E s = Q () (fst s, f (snd s))"
  by (simp add: note_locals_def wp_update)

text \<open>The \<open>except\<close> block: the failure is in the report, and the \<open>finally\<close> block sees an unhealthy state.\<close>

definition failure_entry :: pydict where
  "failure_entry = [(''stage'', PStr ''execute_cycle''), (''message'', PStr ''cycle_execution_failed'')]"

definition reported :: "world \<Rightarrow> world \<Rightarrow> bool" where
  "reported w w' = (rt_owner_held (rt w') = rt_owner_held (rt w) \<and> (\<exists>evs. trace w' = trace w @ evs \<and> \<not> released evs)
     \<and> rp_status (rp w') = PStr ''error'')"

lemma reported_stands: "reported w u \<Longrightarrow> stands u v \<Longrightarrow> reported w v"
proof -
  assume w: "reported w u" and v: "stands u v"
  obtain xs ys where "trace u = trace w @ xs" "trace v = trace u @ ys" "\<not> released xs" "\<not> released ys"
    using w v by (auto simp: stands_def reported_def)
  then have "\<exists>evs. trace v = trace w @ evs \<and> \<not> released evs" by (simp add: released_def)
  with w v show ?thesis by (simp add: stands_def reported_def)
qed

definition except_left :: "world \<times> cycle_locals \<Rightarrow> world \<times> cycle_locals \<Rightarrow> bool" where
  "except_left s t = (reported (fst s) (fst t) \<and> \<not> lo_healthy (snd t) \<and> lo_stage (snd t) = lo_stage (snd s))"

lemma failure_reported:
  "wp (fail_cycle cy env e) (\<lambda>_ t. except_left s t \<and> failure_entry \<in> set (rp_errors (rp (fst t)))) (\<lambda>_. except_left s) s"
proof -
  obtain w l where s: "s = (w, l)" by (cases s)
  have diagnosed: "keeps stands (diagnose k v)" for k v by (rule stands_diagnose)
  have entered: "wp (append_report_error ''cycle_execution_failed'' ''execute_cycle'')
      (\<lambda>_ v. stands u v \<and> failure_entry \<in> set (rp_errors (rp v))) E u" for u E
    by (auto simp: append_report_error_def eff_simps stands_def released_def failure_entry_def)
  let ?notify = "\<lambda>n. attempt (cycle_notify env cy n) (\<lambda>_. ret ()) (\<lambda>_. ret ())"
  have notice: "wp (?notify n) (\<lambda>_. stands v) (\<lambda>_. stands v) v" for n v
    unfolding cycle_notify_def by (intro keeps_wp) (intro keeps_intros)
  have closed: "stands u x \<Longrightarrow> stands x y \<Longrightarrow> stands u y" for u x y
    using stands_rel(2) by (blast dest: transpD)
  have logged: "wp (bind (append_report_error ''cycle_execution_failed'' ''execute_cycle'') (\<lambda>_. ?notify n))
      (\<lambda>_ v. stands u v \<and> failure_entry \<in> set (rp_errors (rp v))) (\<lambda>_. stands u) u" for u n
    unfolding wp_bind
  proof (rule wp_mono [OF entered])
    fix a v assume v: "stands u v \<and> failure_entry \<in> set (rp_errors (rp v))"
    show "wp (?notify n) (\<lambda>_ v. stands u v \<and> failure_entry \<in> set (rp_errors (rp v))) (\<lambda>_. stands u) v"
      by (rule wp_mono [OF notice]) (use v closed in \<open>auto simp: stands_def [of v]\<close>)
  qed
  have all: "wp (bind (diagnose k x) (\<lambda>_. bind (append_report_error ''cycle_execution_failed'' ''execute_cycle'') (\<lambda>_. ?notify n)))
      (\<lambda>_ v. stands u v \<and> failure_entry \<in> set (rp_errors (rp v))) (\<lambda>_. stands u) u" for u k x n
    unfolding wp_bind [of "diagnose k x"]
    by (rule wp_mono [OF keeps_wp [OF diagnosed]]) (auto intro!: wp_mono [OF logged] intro: closed)
  let ?u = "w\<lparr>rp := (rp w)\<lparr>rp_status := PStr ''error''\<rparr>\<rparr>"
  have left: "except_left s (v, l\<lparr>lo_healthy := False\<rparr>)" if "stands ?u v" for v
    using that by (simp add: except_left_def s reported_def stands_def)
  show ?thesis
    unfolding fail_cycle_def s wp_bind [of "note_locals _"] wp_bind [of "gets _"] wp_note_locals wp_gets wp_on_world wp_bind [of "upd_rp _"] wp_upd_rp
    by (rule wp_mono [OF all]) (use left s in auto)
qed

lemma finish_stands:
  assumes "only_attaches (cy_attach cy)" and "\<not> lo_healthy l" and "lo_stage l \<noteq> ''daily_state''"
  shows "wp (finish_cycle cy env)
      (\<lambda>r t. stands w (fst t) \<and> (\<forall>d. r = Some d \<longrightarrow> dget d ''status'' = rp_status (rp (fst t))
        \<and> (rp_status (rp (fst t)) \<noteq> PStr ''ok'' \<longrightarrow> dget d ''external_cash_flow_interval'' = PNone)))
      (\<lambda>_ t. stands w (fst t)) (w, l)"
proof -
  have pure: "\<not> pure_daily_state_failure w l current" for current
    using assms(3) by (simp add: pure_daily_state_failure_def)
  let ?tail = "bind (upd_rp finalize_notification_delivery) (\<lambda>_.
        bind (attach_execution_receipt_from_report (cy_receipt cy) (cy_attach cy)) (\<lambda>_.
        bind (env_flag env DigestEnabled) (\<lambda>digest.
        bind (gets rt) (\<lambda>r.
        bind (whenM digest (upd_rp (\<lambda>p. p\<lparr>rp_summary := dset ''notification_digest'' (PDict (notification_digest r p)) (rp_summary p)\<rparr>))) (\<lambda>_.
        bind (gets rp) (\<lambda>p.
        ret (if rt_dry_run r then None else Some (build_platform_execution_result p (lo_healthy l) False))))))))"
  have kept: "keeps stands ?tail"
    unfolding env_flag_def
    by (intro keeps_intros stands_attach assms(1)) (auto simp: released_def finalize_notification_delivery_def split: pyval.split)
  have recorded: "returns ?tail (\<lambda>r t. \<forall>d. r = Some d \<longrightarrow> dget d ''status'' = rp_status (rp t)
      \<and> (rp_status (rp t) \<noteq> PStr ''ok'' \<longrightarrow> dget d ''external_cash_flow_interval'' = PNone))"
    by (auto simp: returns_iff returned build_platform_execution_result_def dget_def split: if_splits)
  have tail: "wp ?tail (\<lambda>r t. stands w t \<and> (\<forall>d. r = Some d \<longrightarrow> dget d ''status'' = rp_status (rp t)
      \<and> (rp_status (rp t) \<noteq> PStr ''ok'' \<longrightarrow> dget d ''external_cash_flow_interval'' = PNone))) (\<lambda>_. stands w) w"
    by (rule wp_mono [OF wp_conj [OF keeps_wp [OF kept] recorded [unfolded returns_def, rule_format]]]) auto
  show ?thesis
    unfolding finish_cycle_def wp_bind [of "gets id"] wp_gets
    by (simp add: wp_bind [of "liftE _"] wp_liftE wp_bind [of "ret _"] wp_ret wp_on_world pure assms(2) tail stands_def [of w w] released_def
        split: sum.split)
qed

text \<open>
  C40. A failed cycle. When the cycle body raises in any stage but the daily accounting, the cycle ends with
  the report marked as an error, it does not release the ownership of the state (a later cycle cannot start on a
  state this one may have left half done), and a result handed to the recorder says error and claims no
  external cash flow interval; a cycle that returns lists the failure among the errors of the report.
\<close>

theorem failed_cycle_keeps_owner:
  assumes "only_attaches (cy_attach cy)" and "open_cycle cy base w = (Inr (), v)"
    and "cycle_body cy env (v, initial_locals) = (Inl e, (u, l))" and "lo_stage l \<noteq> ''daily_state''"
    and "execute_strategy_cycle cy env base w = (result, w')"
  shows "rp_status (rp w') = PStr ''error'' \<and> rt_owner_held (rt w') = rt_owner_held (rt u)
    \<and> (\<exists>evs. trace w' = trace u @ evs \<and> \<not> released evs)
    \<and> (\<forall>r. result = Inr r \<longrightarrow> failure_entry \<in> set (rp_errors (rp w'))
        \<and> (\<forall>d. r = Some d \<longrightarrow> dget d ''status'' = PStr ''error'' \<and> dget d ''external_cash_flow_interval'' = PNone))"
proof -
  let ?Q = "\<lambda>r t. reported u (fst t) \<and> failure_entry \<in> set (rp_errors (rp (fst t)))
      \<and> (\<forall>d. r = Some d \<longrightarrow> dget d ''status'' = PStr ''error'' \<and> dget d ''external_cash_flow_interval'' = PNone)"
  let ?E = "\<lambda>_ t. reported u (fst t)"
  have raised: "wp (cycle_body cy env) Q E (v, initial_locals) = E e (u, l)" for Q E
    by (simp add: wp_def assms(3))
  have left: "reported u x \<and> \<not> lo_healthy k \<and> lo_stage k \<noteq> ''daily_state''" if "except_left (u, l) (x, k)" for x k
    using that assms(4) by (simp add: except_left_def)
  have last: "wp (finish_cycle cy env) ?Q ?E t" if "except_left (u, l) t" "failure_entry \<in> set (rp_errors (rp (fst t)))" for t
  proof (cases t)
    case (Pair x k)
    with that left have x: "reported u x" "\<not> lo_healthy k" "lo_stage k \<noteq> ''daily_state''" by auto
    show ?thesis
      unfolding Pair
      by (rule wp_mono [OF finish_stands [OF assms(1) x(2,3)]])
        (use reported_stands [OF x(1)] that(2) Pair in \<open>auto simp: stands_def [of x] reported_def [of u]\<close>)
  qed
  have raising: "wp (finish_cycle cy env) ?E ?E t" if "except_left (u, l) t" for t
  proof (cases t)
    case (Pair x k)
    with that left have x: "reported u x" "\<not> lo_healthy k" "lo_stage k \<noteq> ''daily_state''" by auto
    show ?thesis
      unfolding Pair by (rule wp_mono [OF finish_stands [OF assms(1) x(2,3)]]) (use reported_stands [OF x(1)] in auto)
  qed
  have staged: "wp (staged_cycle cy env) ?Q ?E (v, initial_locals)"
    unfolding staged_cycle_def wp_attempt wp_handle raised wp_bind wp_throw
    by (rule wp_mono [OF failure_reported]) (use last raising in auto)
  obtain t l' where run: "staged_cycle cy env (v, initial_locals) = (result, (t, l'))" and t: "w' = t"
    using assms(2,5) by (auto simp: execute_strategy_cycle_def bind_def split: prod.splits)
  have "case result of Inl x \<Rightarrow> ?E x (t, l') | Inr r \<Rightarrow> ?Q r (t, l')"
    by (rule wp_result [OF staged run])
  then show ?thesis unfolding t by (auto simp: reported_def split: sum.splits)
qed

section \<open>Concrete runs\<close>

definition sample_setup :: cycle_setup where
  "sample_setup = \<lparr>cy_config = sample_state_config, cy_resolve = \<lambda>_. Inl TypeError, cy_on_degraded = False, cy_hours = 24, cy_research = False,
     cy_strategy = eager_strategy, cy_risk = sample_material,
     cy_contract = \<lambda>_. PNone, cy_source = sample_source, cy_digest = \<lambda>_. ''d'', cy_render = \<lambda>_. ''text'', cy_said = \<lambda>_. ''text'',
     cy_outside = \<lambda>_ _. ''unclassified_error'', cy_receipt = \<lambda>_. (PNone, PNone), cy_attach = \<lambda>p _. Inr p\<rparr>"

text \<open>The store gives the ownership and then fails to answer the load.\<close>

definition broken_env :: env where
  "broken_env tr c = (case c of
     NewOwnerId \<Rightarrow> Inr (PStr ''o2'')
   | ClaimOwner x \<Rightarrow> Inr (PBool True)
   | LoadState \<Rightarrow> Inl (ClientExc True None)
   | _ \<Rightarrow> Inr PNone)"

definition idle_world :: world where
  "idle_world = cycle_world\<lparr>rt := (rt cycle_world)\<lparr>rt_owner_held := False, rt_trade_state := None\<rparr>\<rparr>"

lemma cycle_orders_announced_witness:
  "announced (trace (snd (execute_strategy_cycle sample_setup broken_env [] idle_world)))"
  using cycle_orders_announced [OF _ prod.collapse [symmetric], of idle_world sample_setup broken_env "[]"]
  by (simp add: idle_world_def cycle_world_def sample_world_def announced_def)

lemma sample_open: "\<exists>v. open_cycle sample_setup [] idle_world = (Inr (), v) \<and> rt v = rt idle_world"
proof -
  have fields: "dget_or (rp_fields (build_execution_report [] r)) ''diagnostics'' (PDict []) = PDict []" for r
    by (simp add: build_execution_report_def dupdate_def dget_or_def dset_def dget_def)
  have "wp (open_cycle sample_setup []) (\<lambda>_ v. rt v = rt idle_world) (\<lambda>_ _. False) idle_world"
    by (simp add: open_cycle_def eff_simps diagnose_def set_report_def fields sample_setup_def)
  then show ?thesis by (auto simp: wp_def split: prod.splits sum.splits)
qed

lemma sample_body:
  assumes "rt v = rt idle_world"
  shows "\<exists>e u l. cycle_body sample_setup broken_env (v, initial_locals) = (Inl e, (u, l)) \<and> lo_stage l = ''state_load''"
  using assms
  by (simp add: cycle_body_def load_stage_def acquire_runtime_state_owner_def ensure_runtime_client_def load_cycle_state_def enter_stage_def
      note_locals_def on_world_def bind_def gets_def attempt_def ret_def invoke_def upd_rt_def update_def broken_env_def marks_of_def
      idle_world_def cycle_world_def sample_world_def sample_runtime_def)

lemma failed_cycle_keeps_owner_witness:
  "rp_status (rp (snd (execute_strategy_cycle sample_setup broken_env [] idle_world))) = PStr ''error''"
proof -
  obtain v where v: "open_cycle sample_setup [] idle_world = (Inr (), v)" "rt v = rt idle_world" using sample_open by blast
  obtain e u l where body: "cycle_body sample_setup broken_env (v, initial_locals) = (Inl e, (u, l))" "lo_stage l = ''state_load''"
    using sample_body [OF v(2)] by blast
  have "only_attaches (cy_attach sample_setup)" by (simp add: only_attaches_def sample_setup_def)
  from failed_cycle_keeps_owner [OF this v(1) body(1) _ prod.collapse [symmetric]] body(2) show ?thesis by simp
qed

definition dry_world :: world where
  "dry_world = idle_world\<lparr>rt := (rt idle_world)\<lparr>rt_dry_run := True\<rparr>\<rparr>"

lemma suppressed_cycle_only_looks_witness:
  "\<exists>evs. trace (snd (execute_strategy_cycle sample_setup broken_env [] dry_world)) = trace dry_world @ evs \<and> only_looks True evs"
  using suppressed_cycle_only_looks [OF _ _ prod.collapse [symmetric], of dry_world sample_setup broken_env "[]"]
  by (simp add: dry_world_def idle_world_def)

end
