(* ===== verification/Fill_Acceptance.thy ===== *)
theory Fill_Acceptance
  imports Fill_Accounting
begin

text \<open>
  Which answers of the broker are accepted as fills: the parser of \<open>application/execution_service.py\<close>
  folds over the lines with running sums and a dictionary of fees; the reference below says the same of
  the lines as a whole. Together with what a parsed fill contains this leaves nothing open about it.
\<close>

section \<open>The reference\<close>

definition priced_asset :: "pydict \<Rightarrow> string \<Rightarrow> bool" where
  "priced_asset prices a = (\<exists>x. required_number True (dget prices (a @ ''USDT'')) = Inr x)"

definition settled_lines :: "string \<Rightarrow> pydict \<Rightarrow> pyfloat \<Rightarrow> pyfloat \<Rightarrow> line list \<Rightarrow> bool" where
  "settled_lines symbol prices executed quote lines =
     (lines \<noteq> [] \<and> ends_with symbol ''USDT'' \<and> drop_last 4 symbol \<noteq> []
      \<and> \<not> differs (sum_f (map line_qty lines)) executed \<and> \<not> differs (sum_f (map line_quote lines)) quote
      \<and> (\<forall>a \<in> line_asset ` set lines - {drop_last 4 symbol, ''USDT''}. priced_asset prices a))"

definition evidenced :: "pyval \<Rightarrow> string \<Rightarrow> string \<Rightarrow> pydict \<Rightarrow> bool" where
  "evidenced response symbol side prices = (case response of
     PDict d \<Rightarrow> answers d symbol side \<and> is_list (dget d ''fills'')
       \<and> (\<exists>executed quote lines. required_number True (dget d ''executedQty'') = Inr executed
            \<and> required_number True (dget d ''cummulativeQuoteQty'') = Inr quote
            \<and> list_all2 reads_line (the_list (dget d ''fills'')) lines \<and> settled_lines symbol prices executed quote lines)
   | _ \<Rightarrow> False)"

section \<open>Folding over readable lines\<close>

lemma reads_line_adds: "reads_line v l \<Longrightarrow> \<exists>acc'. add_fill_line acc v = Inr acc'"
  by (auto simp: reads_line_def add_fill_line_def Let_def split: pyval.splits prod.splits)

lemma reads_line_unique: "reads_line v l \<Longrightarrow> reads_line v l' \<Longrightarrow> l = l'"
  by (auto simp: reads_line_def split: pyval.splits prod.splits)

lemma reads_lines_unique: "list_all2 reads_line vs ls \<Longrightarrow> list_all2 reads_line vs ls' \<Longrightarrow> ls = ls'"
proof (induction vs arbitrary: ls ls')
  case (Cons v vs)
  then show ?case by (auto simp: list_all2_Cons1 dest: reads_line_unique)
qed simp

lemma reads_lines_fold: "list_all2 reads_line vs ls \<Longrightarrow> \<exists>acc'. foldE add_fill_line acc vs = Inr acc'"
proof (induction vs arbitrary: acc ls)
  case (Cons v vs)
  then obtain l ls' where "reads_line v l" "list_all2 reads_line vs ls'" by (auto simp: list_all2_Cons1)
  with Cons.IH reads_line_adds [of v l acc] show ?case by fastforce
qed simp

lemma priced_fold: "\<forall>e \<in> set es. priced_asset prices (fst e) \<Longrightarrow> \<exists>r. foldE (third_fee prices) acc es = Inr r"
proof (induction es arbitrary: acc)
  case (Cons e es)
  then obtain x where "required_number True (dget prices (fst e @ ''USDT'')) = Inr x" by (auto simp: priced_asset_def)
  then show ?case using Cons by (auto simp: third_fee_def)
qed simp

lemma positive_div: "required_number True v = Inr x \<Longrightarrow> \<exists>y. f_div q x = Inr y"
  by (cases x; cases q) (auto simp: required_number_Inr f_div_def)

section \<open>Acceptance\<close>

lemma evidence_of:
  assumes "evidenced response symbol side prices"
  shows "\<exists>d executed quote lines. response = PDict d \<and> answers d symbol side \<and> is_list (dget d ''fills'')
    \<and> required_number True (dget d ''executedQty'') = Inr executed \<and> required_number True (dget d ''cummulativeQuoteQty'') = Inr quote
    \<and> list_all2 reads_line (the_list (dget d ''fills'')) lines \<and> settled_lines symbol prices executed quote lines"
proof (cases response)
  case (PDict d)
  then show ?thesis using assms by (simp add: evidenced_def del: required_number_Inr)
qed (use assms in \<open>simp_all add: evidenced_def\<close>)

lemma evidenced_accepted:
  assumes "evidenced response symbol side prices"
  shows "\<exists>f. parse_filled_order response symbol side prices = Inr f"
proof -
  obtain d executed quote lines where d: "response = PDict d" "answers d symbol side" "is_list (dget d ''fills'')"
      and nums: "required_number True (dget d ''executedQty'') = Inr executed"
        "required_number True (dget d ''cummulativeQuoteQty'') = Inr quote"
      and lines: "list_all2 reads_line (the_list (dget d ''fills'')) lines" and settled: "settled_lines symbol prices executed quote lines"
    using evidence_of [OF assms] by blast
  obtain parts where parts: "foldE add_fill_line \<lparr>fs_qty = Fin 0, fs_quote = Fin 0, fs_fees = []\<rparr> (the_list (dget d ''fills'')) = Inr parts"
    using reads_lines_fold [OF lines] by blast
  have sums: "sums_of lines parts"
    using fill_lines_sums [OF parts no_lines] reads_lines_unique [OF lines] by auto
  let ?base = "drop_last 4 symbol"
  let ?es = "AList.delete ''USDT'' (AList.delete ?base (fs_fees parts))"
  have "fst ` set (fs_fees parts) = line_asset ` set lines" using sums by (simp add: sums_of_def)
  then have "fst ` set ?es = line_asset ` set lines - {?base, ''USDT''}" by (auto simp: keys_delete)
  moreover have "\<forall>a \<in> line_asset ` set lines - {?base, ''USDT''}. priced_asset prices a"
    using settled unfolding settled_lines_def by blast
  ultimately have "\<forall>e \<in> set ?es. priced_asset prices (fst e)" by (metis imageI)
  then obtain thirds usdt where thirds: "foldE (third_fee prices) ([], Fin 0) ?es = Inr (thirds, usdt)"
    using priced_fold by (metis surj_pair)
  obtain average where average: "f_div quote executed = Inr average" using positive_div [OF nums(1)] by blast
  have rest: "\<not> differs (fs_qty parts) executed" "\<not> differs (fs_quote parts) quote" "ends_with symbol ''USDT''" "?base \<noteq> []"
    "the_list (dget d ''fills'') \<noteq> []"
    using settled sums lines by (auto simp: settled_lines_def sums_of_def)
  show ?thesis
    by (simp add: parse_filled_order_def d nums parts thirds average rest bindE_ensure Let_def)
qed


end
