(* ===== verification/Interval_Reader.thy ===== *)
theory Interval_Reader
  imports Interval_Receipt
begin

text \<open>
  \<open>application/interval_receipt_reader_candidate.py\<close>: a bounded batch of retained receipts is validated
  and put in order, and a preview is prepared from it only when its intervals span the cutover without a
  gap or an overlap. Tuples and lists of Python are lists of the model. The lemmas show what an accepted
  preview says of the batch.
\<close>

section \<open>One receipt\<close>

record material =
  mt_payload :: pydict
  mt_start :: pydt
  mt_finish :: pydt
  mt_id :: string
  mt_version :: string
  mt_text :: string
  mt_size :: int

abbreviation reader_blocked :: "string \<Rightarrow> pyexc" where
  "reader_blocked reason \<equiv> IntervalBlocked (''interval_reader_'' @ reason)"

definition receipt_fields :: "string list" where
  "receipt_fields = [''schema_version'', ''interval_id_sha256'', ''payload_sha256'', ''source'', ''interval'']"

definition source_fields :: "string list" where
  "source_fields = [''ledger_path'', ''ledger_before_version'', ''ledger_before_sha256'', ''ledger_after_sha256'', ''patch_sha256'']"

definition short_text :: "pyval \<Rightarrow> bool" where
  "short_text v = (case v of PStr s \<Rightarrow> length s \<le> 80 | _ \<Rightarrow> False)"

text \<open>\<open>len(s.encode('utf-8'))\<close> of a text of code points below 256.\<close>

definition utf8_length :: "string \<Rightarrow> int" where
  "utf8_length s = sum_list (map (\<lambda>c. if of_char c < (128::int) then 1 else 2) s)"

definition check_envelope :: "pydict \<Rightarrow> pyexc + pydict \<times> pydict" where
  "check_envelope receipt =
     (let interval = the_dict (dget receipt ''interval''); source = the_dict (dget receipt ''source'') in
      bindE (ensure (length receipt = 5 \<and> keys_are receipt receipt_fields \<and> dget receipt ''schema_version'' = PStr receipt_schema
          \<and> is_dict (dget receipt ''source'') \<and> is_dict (dget receipt ''interval'')) (reader_blocked ''receipt_invalid'')) (\<lambda>_.
      bindE (ensure (length interval = 7 \<and> keys_are interval interval_fields \<and> list_all (\<lambda>e. short_text (snd e)) interval)
        (reader_blocked ''receipt_invalid'')) (\<lambda>_.
      Inr (source, interval))))"

definition check_source :: "string \<Rightarrow> string \<Rightarrow> string \<Rightarrow> pydict \<Rightarrow> pydict \<Rightarrow> string \<Rightarrow> pyexc + string" where
  "check_source ledger_path scope path source payload logical_id =
     bindE (ensure (length source = 5 \<and> keys_are source source_fields) (reader_blocked ''receipt_invalid'')) (\<lambda>_.
     bindE (ensure (dget source ''ledger_path'' = PStr ledger_path \<and> dget payload ''account_scope_sha256'' = PStr scope
         \<and> path = receipt_suffix ledger_path logical_id) (reader_blocked ''binding_mismatch'')) (\<lambda>_.
     bindE (ensure (is_str (dget source ''ledger_before_version'') \<and> version_shape (the_str (dget source ''ledger_before_version''))
         \<and> list_all (\<lambda>k. is_hex64 (dget source k)) [''ledger_before_sha256'', ''ledger_after_sha256'', ''patch_sha256''])
       (reader_blocked ''receipt_invalid'')) (\<lambda>_.
     let version = the_str (dget source ''ledger_before_version'') in
     bindE (receipt_time (PStr (take 19 version @ ''Z''))) (\<lambda>_. Inr version))))"

definition read_receipt :: "string \<Rightarrow> string \<Rightarrow> pyval \<Rightarrow> pyexc + material" where
  "read_receipt ledger_path scope entry = (case entry of
     PList [PStr path, PDict receipt] \<Rightarrow>
       bindE (check_envelope receipt) (\<lambda>(source, interval).
       bindE (payload_material (PDict interval)) (\<lambda>(payload, start, finish, logical_id).
       bindE (material_digest (PDict payload)) (\<lambda>payload_digest.
       bindE (ensure (dget receipt ''interval_id_sha256'' = PStr logical_id \<and> dget receipt ''payload_sha256'' = PStr payload_digest)
         (reader_blocked ''receipt_invalid'')) (\<lambda>_.
       bindE (check_source ledger_path scope path source payload logical_id) (\<lambda>version.
       bindE (canonical_json (PDict receipt)) (\<lambda>serialized.
       Inr \<lparr>mt_payload = payload, mt_start = start, mt_finish = finish, mt_id = logical_id, mt_version = version, mt_text = serialized,
         mt_size = utf8_length path + int (length serialized)\<rparr>))))))
   | _ \<Rightarrow> Inl (reader_blocked ''receipt_invalid''))"

section \<open>The batch\<close>

text \<open>\<open>by_id\<close> in the order of insertion, \<open>by_end\<close> as instants.\<close>

record batch =
  ba_seen :: "(string \<times> material) list"
  ba_ends :: "(int \<times> int) list"
  ba_bytes :: int
  ba_duplicates :: int

definition existing_conflict :: pyexc where
  "existing_conflict = IntervalConflict ''interval_reader_existing_conflict''"

definition add_receipt :: "string \<Rightarrow> string \<Rightarrow> pydt \<Rightarrow> pydt \<Rightarrow> int \<Rightarrow> batch \<Rightarrow> pyval \<Rightarrow> pyexc + batch" where
  "add_receipt ledger_path scope start finish max_bytes b entry =
     bindE (read_receipt ledger_path scope entry) (\<lambda>m.
     let used = ba_bytes b + mt_size m in
     bindE (ensure (used \<le> max_bytes) (reader_blocked ''bytes_limit'')) (\<lambda>_.
     bindE (ensure (dt_utc start \<le> dt_utc (mt_start m) \<and> dt_utc (mt_finish m) \<le> dt_utc finish) (reader_blocked ''coverage_outside_cutover'')) (\<lambda>_.
     case map_of (ba_seen b) (mt_id m) of
       Some p \<Rightarrow> bindE (ensure (mt_text p = mt_text m) existing_conflict) (\<lambda>_.
         Inr (b\<lparr>ba_bytes := used, ba_duplicates := ba_duplicates b + 1\<rparr>))
     | None \<Rightarrow>
         bindE (ensure (map_of (ba_ends b) (dt_utc (mt_finish m)) \<in> {None, Some (dt_utc (mt_start m))}) existing_conflict) (\<lambda>_.
         Inr (b\<lparr>ba_bytes := used, ba_seen := ba_seen b @ [(mt_id m, m)],
           ba_ends := AList.update (dt_utc (mt_finish m)) (dt_utc (mt_start m)) (ba_ends b)\<rparr>)))))"

text \<open>Sorted by start and then by end; the sort is stable.\<close>

definition in_order :: "material list \<Rightarrow> material list" where
  "in_order ms = sort_key (\<lambda>m. dt_utc (mt_start m)) (sort_key (\<lambda>m. dt_utc (mt_finish m)) ms)"

fun chain :: "int \<Rightarrow> string option \<Rightarrow> material list \<Rightarrow> pyexc + int" where
  "chain cursor last_version [] = Inr cursor"
| "chain cursor last_version (m # ms) =
     bindE (ensure (cursor \<le> dt_utc (mt_start m)) (reader_blocked ''coverage_overlap'')) (\<lambda>_.
     bindE (ensure (dt_utc (mt_start m) = cursor) (reader_blocked ''coverage_gap'')) (\<lambda>_.
     bindE (ensure (\<forall>v. last_version = Some v \<longrightarrow> v < mt_version m) (reader_blocked ''source_order_invalid'')) (\<lambda>_.
     chain (dt_utc (mt_finish m)) (Some (mt_version m)) ms)))"

definition run_record :: "string \<Rightarrow> string \<Rightarrow> material \<Rightarrow> pyval" where
  "run_record profile stream m =
     PDict [(''strategy_profile'', PStr profile), (''domain'', PStr ''crypto''), (''record_kind'', PStr ''execution''),
       (''recorded_at'', PStr (iso_text (mt_finish m))), (''lifecycle_stream_id'', PStr stream),
       (''execution_result'', PDict [(''external_cash_flow_interval'', PDict (mt_payload m))])]"

section \<open>The preview\<close>

record preview =
  pv_records :: "string list"
  pv_ids :: "string list"
  pv_payloads :: "string list"
  pv_inputs :: int
  pv_duplicates :: int
  pv_bytes :: int

definition plain_within :: "int \<Rightarrow> pyval \<Rightarrow> bool" where
  "plain_within most v = (case v of PInt i \<Rightarrow> 1 \<le> i \<and> i \<le> most | _ \<Rightarrow> False)"

definition the_int :: "pyval \<Rightarrow> int" where
  "the_int v = (case v of PInt i \<Rightarrow> i | _ \<Rightarrow> 0)"

definition label_shape :: "pyval \<Rightarrow> bool" where
  "label_shape v = (case v of
     PStr s \<Rightarrow> 1 \<le> length s \<and> length s \<le> 100 \<and> list_all (\<lambda>c. is_upper_letter c \<or> is_lower_letter c \<or> is_digit c \<or> c = CHR ''_'' \<or> c = CHR ''-'') s
   | _ \<Rightarrow> False)"

definition ordered_batch :: "string \<Rightarrow> string \<Rightarrow> pydt \<Rightarrow> pydt \<Rightarrow> int \<Rightarrow> pyval list \<Rightarrow> pyexc + batch \<times> material list" where
  "ordered_batch ledger_path scope start finish max_bytes entries =
     bindE (foldE (add_receipt ledger_path scope start finish max_bytes) \<lparr>ba_seen = [], ba_ends = [], ba_bytes = 0, ba_duplicates = 0\<rparr> entries) (\<lambda>b.
     let ms = in_order (map snd (ba_seen b)) in
     bindE (chain (dt_utc start) None ms) (\<lambda>cursor.
     bindE (ensure (cursor = dt_utc finish) (reader_blocked ''coverage_gap'')) (\<lambda>_. Inr (b, ms))))"

definition prepare :: "pyval \<Rightarrow> pyval \<Rightarrow> pyval \<Rightarrow> pyval \<Rightarrow> pyval \<Rightarrow> pyval \<Rightarrow> pyval \<Rightarrow> pyval \<Rightarrow> pyval \<Rightarrow> pyexc + preview" where
  "prepare receipts ledger_path scope cutover_start cutover_end profile stream max_receipts max_bytes =
     bindE (ensure (plain_within 1000 max_receipts \<and> plain_within 1048576 max_bytes \<and> is_list receipts) (reader_blocked ''limits_invalid'')) (\<lambda>_.
     let entries = the_list receipts in
     bindE (ensure (int (length entries) \<le> the_int max_receipts) (reader_blocked ''count_limit'')) (\<lambda>_.
     bindE (validate_path ledger_path) (\<lambda>_.
     bindE (ensure (is_hex64 scope \<and> label_shape profile \<and> label_shape stream) (reader_blocked ''binding_invalid'')) (\<lambda>_.
     bindE (receipt_time cutover_start) (\<lambda>start.
     bindE (receipt_time cutover_end) (\<lambda>finish.
     bindE (ensure (dt_utc start < dt_utc finish) (reader_blocked ''cutover_invalid'')) (\<lambda>_.
     bindE (ordered_batch (the_str ledger_path) (the_str scope) start finish (the_int max_bytes) entries) (\<lambda>(b, ms).
     bindE (mapE (\<lambda>m. canonical_json (run_record (the_str profile) (the_str stream) m)) ms) (\<lambda>records.
     bindE (mapE (\<lambda>m. material_digest (PDict (mt_payload m))) ms) (\<lambda>payloads.
     Inr \<lparr>pv_records = records, pv_ids = map mt_id ms, pv_payloads = payloads, pv_inputs = int (length entries),
       pv_duplicates = ba_duplicates b, pv_bytes = ba_bytes b\<rparr>))))))))))"

text \<open>Only the fixed reasons of the reader leave it.\<close>

definition reader_reason :: "string \<Rightarrow> bool" where
  "reader_reason r = (starts_with r ''interval_reader_'' \<and> drop 16 r \<noteq> [] \<and> list_all (\<lambda>c. is_lower_letter c \<or> c = CHR ''_'') (drop 16 r))"

definition reader_error :: "pyexc \<Rightarrow> pyexc" where
  "reader_error e = (case e of
     IntervalConflict r \<Rightarrow> existing_conflict
   | IntervalBlocked r \<Rightarrow> IntervalBlocked (if reader_reason r then r else ''interval_reader_receipt_invalid'')
   | _ \<Rightarrow> reader_blocked ''material_invalid'')"

definition prepare_retained_interval_preview ::
    "pyval \<Rightarrow> pyval \<Rightarrow> pyval \<Rightarrow> pyval \<Rightarrow> pyval \<Rightarrow> pyval \<Rightarrow> pyval \<Rightarrow> pyval \<Rightarrow> pyval \<Rightarrow> pyexc + preview" where
  "prepare_retained_interval_preview receipts ledger_path scope cutover_start cutover_end profile stream max_receipts max_bytes =
     catchE (prepare receipts ledger_path scope cutover_start cutover_end profile stream max_receipts max_bytes) (\<lambda>e. Inl (reader_error e))"

text \<open>\<open>live_run_records\<close>: fresh copies of the records.\<close>

definition live_run_records :: "preview \<Rightarrow> pyexc + pyval list" where
  "live_run_records pv = mapE json_loads (pv_records pv)"

text \<open>A preview is never evidence of a delivery.\<close>

definition delivery_status :: "preview \<Rightarrow> string" where
  "delivery_status pv = ''blocked_archive_enumeration_and_durable_ack_unqualified''"

definition delivery_acknowledged :: "preview \<Rightarrow> bool" where
  "delivery_acknowledged pv = False"

section \<open>What an accepted batch is\<close>

definition entry_size :: "string \<Rightarrow> string \<Rightarrow> pyval \<Rightarrow> int" where
  "entry_size ledger_path scope e = (case read_receipt ledger_path scope e of Inr m \<Rightarrow> mt_size m | Inl x \<Rightarrow> 0)"

text \<open>Every receipt of the batch was read, and it is kept once or its text is that of the one kept.\<close>

definition collected :: "string \<Rightarrow> string \<Rightarrow> pyval list \<Rightarrow> batch \<Rightarrow> bool" where
  "collected ledger_path scope entries b =
     (distinct (map fst (ba_seen b)) \<and> map fst (ba_seen b) = map (mt_id \<circ> snd) (ba_seen b)
      \<and> (\<forall>m \<in> snd ` set (ba_seen b). \<exists>e \<in> set entries. read_receipt ledger_path scope e = Inr m)
      \<and> (\<forall>e \<in> set entries. \<exists>m kept. read_receipt ledger_path scope e = Inr m \<and> map_of (ba_seen b) (mt_id m) = Some kept \<and> mt_text kept = mt_text m)
      \<and> int (length entries) = int (length (ba_seen b)) + ba_duplicates b
      \<and> ba_bytes b = sum_list (map (entry_size ledger_path scope) entries))"

lemma add_receipt_collected:
  assumes "collected l s es b" and "add_receipt l s start finish n b e = Inr b'"
  shows "collected l s (es @ [e]) b'"
proof -
  obtain m where m: "read_receipt l s e = Inr m" using assms(2) by (auto simp: add_receipt_def bindE_Inr_iff)
  then have size: "entry_size l s e = mt_size m" by (simp add: entry_size_def)
  note c = assms(1) [unfolded collected_def]
  show ?thesis
  proof (cases "map_of (ba_seen b) (mt_id m)")
    case (Some p)
    then have "b' = b\<lparr>ba_bytes := ba_bytes b + mt_size m, ba_duplicates := ba_duplicates b + 1\<rparr>" "mt_text p = mt_text m"
      using assms(2) m by (auto simp: add_receipt_def bindE_Inr_iff ensure_Inr_iff Let_def)
    with c m size Some show ?thesis by (auto simp: collected_def)
  next
    case None
    then have b': "ba_seen b' = ba_seen b @ [(mt_id m, m)]" "ba_bytes b' = ba_bytes b + mt_size m" "ba_duplicates b' = ba_duplicates b"
      using assms(2) m by (auto simp: add_receipt_def bindE_Inr_iff ensure_Inr_iff Let_def)
    have fresh: "mt_id m \<notin> fst ` set (ba_seen b)" using None by (simp add: map_of_eq_None_iff)
    have kept: "\<exists>m kept. read_receipt l s e = Inr m \<and> map_of (ba_seen b @ [(mt_id m', m')]) (mt_id m) = Some kept \<and> mt_text kept = mt_text m"
      if "e \<in> set es" for e m'
      using c that by (fastforce simp: map_add_def)
    from c m size fresh kept show ?thesis
      unfolding collected_def b' by (auto simp: map_add_def None)
  qed
qed

lemma fold_collected:
  "foldE (add_receipt l s start finish n) b rest = Inr b' \<Longrightarrow> collected l s es b \<Longrightarrow> collected l s (es @ rest) b'"
proof (induction rest arbitrary: b es)
  case (Cons e rest)
  then obtain b1 where "add_receipt l s start finish n b e = Inr b1" "foldE (add_receipt l s start finish n) b1 rest = Inr b'"
    by (auto simp: bindE_Inr_iff)
  with Cons.IH [of b1 "es @ [e]"] add_receipt_collected [OF Cons.prems(2)] show ?case by simp
qed simp

lemma add_receipt_bytes: "add_receipt l s start finish n b e = Inr b' \<Longrightarrow> ba_bytes b' \<le> n"
  by (auto simp: add_receipt_def bindE_Inr_iff ensure_Inr_iff Let_def split: option.splits)

lemma fold_bytes: "foldE (add_receipt l s start finish n) b rest = Inr b' \<Longrightarrow> ba_bytes b \<le> n \<Longrightarrow> ba_bytes b' \<le> n"
  by (induction rest arbitrary: b) (auto simp: bindE_Inr_iff dest: add_receipt_bytes)

text \<open>Intervals that follow one another from \<open>s\<close> to \<open>f\<close>, each of a positive length.\<close>

fun spans :: "int \<Rightarrow> int \<Rightarrow> material list \<Rightarrow> bool" where
  "spans s f [] = (s = f)"
| "spans s f (m # ms) = (dt_utc (mt_start m) = s \<and> s < dt_utc (mt_finish m) \<and> spans (dt_utc (mt_finish m)) f ms)"

lemma read_receipt_positive: "read_receipt l s e = Inr m \<Longrightarrow> dt_utc (mt_start m) < dt_utc (mt_finish m)"
proof -
  assume "read_receipt l s e = Inr m"
  then obtain v payload logical_id where "payload_material v = Inr (payload, mt_start m, mt_finish m, logical_id)"
    by (auto simp: read_receipt_def bindE_Inr_iff split: pyval.splits list.splits)
  then show ?thesis by (cases v) (auto simp: payload_material_def bindE_Inr_iff ensure_Inr_iff)
qed

lemma chain_spans:
  "chain cursor last_version ms = Inr end_at \<Longrightarrow> \<forall>m \<in> set ms. dt_utc (mt_start m) < dt_utc (mt_finish m) \<Longrightarrow>
     spans cursor end_at ms \<and> sorted_wrt (<) (map mt_version ms) \<and> (\<forall>v m. last_version = Some v \<longrightarrow> m \<in> set ms \<longrightarrow> v < mt_version m)"
proof (induction ms arbitrary: cursor last_version)
  case (Cons m ms)
  then have m: "dt_utc (mt_start m) = cursor" "\<forall>v. last_version = Some v \<longrightarrow> v < mt_version m"
    and rest: "chain (dt_utc (mt_finish m)) (Some (mt_version m)) ms = Inr end_at"
    by (auto simp: bindE_Inr_iff ensure_Inr_iff)
  from Cons.IH [OF rest] Cons.prems(2) m show ?case by (auto intro: less_trans)
qed simp

lemma in_order_same [simp]: "set (in_order ms) = set ms" "length (in_order ms) = length ms"
  by (simp_all add: in_order_def)

end
