(* ===== verification/Reader_Safety.thy ===== *)
theory Reader_Safety
  imports Interval_Reader Interval_Plans "HOL-Library.Multiset"
begin

text \<open>
  The reader of receipts against their writer: an accepted preview is a partition of the cutover into the
  intervals of the batch, and the receipt of every plan the writer builds is one the reader accepts.
\<close>

section \<open>Accepted previews\<close>

lemma canonical_all: "mapE (\<lambda>x. canonical_json (g x)) xs = Inr ts \<Longrightarrow> ts = map (\<lambda>x. json_dumps (g x)) xs"
  by (induction xs arbitrary: ts) (auto simp: bindE_Inr_iff canonical_json_def split: if_splits)

lemma digest_all: "mapE (\<lambda>x. material_digest (g x)) xs = Inr ts \<Longrightarrow> ts = map (\<lambda>x. sha256 (json_dumps (g x))) xs"
  by (induction xs arbitrary: ts) (auto simp: bindE_Inr_iff material_digest_def canonical_json_def split: if_splits)

lemma in_order_distinct: "distinct (map mt_id ms) \<Longrightarrow> distinct (map mt_id (in_order ms))"
proof -
  assume d: "distinct (map mt_id ms)"
  have "mset (map mt_id (in_order ms)) = mset (map mt_id ms)" by (simp add: in_order_def)
  with d show ?thesis by (metis mset_eq_imp_distinct_iff)
qed

text \<open>
  C7. A preview partitions the cutover. What the reader accepts are intervals of positive length that follow
  one another from the start of the cutover to its end without a gap or an overlap, with strictly increasing
  ledger versions and pairwise different identities. Every one of them was read from a receipt of the batch,
  every receipt of the batch is one of them or an exact duplicate, and the counts and the bytes of the
  preview are those of the batch, within the limits given. The records carry the payloads, the digests
  theirs, both in the order of the intervals.
\<close>

theorem preview_partitions_cutover:
  assumes "prepare_retained_interval_preview receipts ledger_path scope cutover_start cutover_end profile stream max_receipts max_bytes = Inr pv"
  shows "\<exists>entries ms start finish. receipts = PList entries \<and> receipt_time cutover_start = Inr start \<and> receipt_time cutover_end = Inr finish
    \<and> spans (dt_utc start) (dt_utc finish) ms \<and> sorted_wrt (<) (map mt_version ms) \<and> distinct (map mt_id ms)
    \<and> (\<forall>m \<in> set ms. \<exists>e \<in> set entries. read_receipt (the_str ledger_path) (the_str scope) e = Inr m)
    \<and> (\<forall>e \<in> set entries. \<exists>m. \<exists>kept \<in> set ms. read_receipt (the_str ledger_path) (the_str scope) e = Inr m
          \<and> mt_id kept = mt_id m \<and> mt_text kept = mt_text m)
    \<and> pv_ids pv = map mt_id ms \<and> pv_payloads pv = map (\<lambda>m. sha256 (json_dumps (PDict (mt_payload m)))) ms
    \<and> pv_records pv = map (\<lambda>m. json_dumps (run_record (the_str profile) (the_str stream) m)) ms
    \<and> pv_inputs pv = int (length entries) \<and> pv_inputs pv \<le> the_int max_receipts \<and> pv_duplicates pv = pv_inputs pv - int (length ms)
    \<and> pv_bytes pv = sum_list (map (entry_size (the_str ledger_path) (the_str scope)) entries) \<and> pv_bytes pv \<le> the_int max_bytes"
proof -
  let ?l = "the_str ledger_path" and ?s = "the_str scope" and ?entries = "the_list receipts"
  let ?fresh = "\<lparr>ba_seen = [], ba_ends = [], ba_bytes = 0, ba_duplicates = 0\<rparr>"
  obtain start finish b ms where limits: "is_list receipts" "plain_within 1048576 max_bytes" "int (length ?entries) \<le> the_int max_receipts"
    and times: "receipt_time cutover_start = Inr start" "receipt_time cutover_end = Inr finish"
    and batch: "ordered_batch ?l ?s start finish (the_int max_bytes) ?entries = Inr (b, ms)"
    and records: "mapE (\<lambda>m. canonical_json (run_record (the_str profile) (the_str stream) m)) ms = Inr (pv_records pv)"
    and payloads: "mapE (\<lambda>m. material_digest (PDict (mt_payload m))) ms = Inr (pv_payloads pv)"
    and pv: "pv_ids pv = map mt_id ms" "pv_inputs pv = int (length ?entries)" "pv_duplicates pv = ba_duplicates b" "pv_bytes pv = ba_bytes b"
    using assms by (auto simp: prepare_retained_interval_preview_def catchE_Inr_iff prepare_def bindE_Inr_iff ensure_Inr_iff Let_def)
  have fold: "foldE (add_receipt ?l ?s start finish (the_int max_bytes)) ?fresh ?entries = Inr b"
    and ms: "ms = in_order (map snd (ba_seen b))" and chained: "chain (dt_utc start) None ms = Inr (dt_utc finish)"
    using batch by (auto simp: ordered_batch_def bindE_Inr_iff ensure_Inr_iff Let_def)
  have "collected ?l ?s [] ?fresh" by (simp add: collected_def)
  from fold_collected [OF fold this] have c: "collected ?l ?s ?entries b" by simp
  have read: "\<forall>m \<in> set ms. \<exists>e \<in> set ?entries. read_receipt ?l ?s e = Inr m"
    using c unfolding collected_def ms in_order_same set_map by blast
  then have positive: "\<forall>m \<in> set ms. dt_utc (mt_start m) < dt_utc (mt_finish m)" using read_receipt_positive by blast
  have kept: "\<forall>e \<in> set ?entries. \<exists>m. \<exists>kept \<in> set ms. read_receipt ?l ?s e = Inr m \<and> mt_id kept = mt_id m \<and> mt_text kept = mt_text m"
  proof
    fix e assume "e \<in> set ?entries"
    then obtain m k where k: "read_receipt ?l ?s e = Inr m" "map_of (ba_seen b) (mt_id m) = Some k" "mt_text k = mt_text m"
      using c unfolding collected_def by blast
    have "(mt_id m, k) \<in> set (ba_seen b)" using k(2) by (rule map_of_SomeD)
    moreover have "map fst (ba_seen b) = map (mt_id \<circ> snd) (ba_seen b)" using c by (simp add: collected_def)
    ultimately have "mt_id k = mt_id m" by (auto dest!: map_eq_conv [THEN iffD1])
    with k \<open>(mt_id m, k) \<in> set (ba_seen b)\<close> show "\<exists>m. \<exists>kept \<in> set ms. read_receipt ?l ?s e = Inr m \<and> mt_id kept = mt_id m \<and> mt_text kept = mt_text m"
      unfolding ms by force
  qed
  have "distinct (map fst (ba_seen b))" "map fst (ba_seen b) = map mt_id (map snd (ba_seen b))"
    using c unfolding collected_def by simp_all
  then have "distinct (map mt_id (map snd (ba_seen b)))" by (simp only:)
  then have identities: "distinct (map mt_id ms)" unfolding ms by (rule in_order_distinct)
  have seen: "int (length ?entries) = int (length (ba_seen b)) + ba_duplicates b" "ba_bytes b = sum_list (map (entry_size ?l ?s) ?entries)"
    using c unfolding collected_def by blast+
  have "length ms = length (ba_seen b)" unfolding ms by simp
  with seen(1) pv(2,3) have counts: "pv_duplicates pv = pv_inputs pv - int (length ms)" by linarith
  have "1 \<le> the_int max_bytes" using limits(2) by (auto simp: plain_within_def the_int_def split: pyval.splits)
  then have bytes: "ba_bytes b \<le> the_int max_bytes" using fold_bytes [OF fold] by simp
  have entries: "receipts = PList ?entries" using limits(1) by (cases receipts) simp_all
  have texts: "pv_records pv = map (\<lambda>m. json_dumps (run_record (the_str profile) (the_str stream) m)) ms"
    by (rule canonical_all [OF records])
  have digests: "pv_payloads pv = map (\<lambda>m. sha256 (json_dumps (PDict (mt_payload m)))) ms"
    by (rule digest_all [OF payloads])
  note laid = chain_spans [OF chained positive]
  have inputs: "pv_inputs pv \<le> the_int max_receipts" using limits(3) pv(2) by simp
  have size: "pv_bytes pv = sum_list (map (entry_size ?l ?s) ?entries)" "pv_bytes pv \<le> the_int max_bytes"
    using bytes seen(2) pv(4) by simp_all
  show ?thesis
    by (intro exI [of _ ?entries] exI [of _ ms] exI [of _ start] exI [of _ finish] conjI
      entries times laid [THEN conjunct1] laid [THEN conjunct2, THEN conjunct1] identities read kept pv(1,2) digests texts inputs counts size)
qed


section \<open>Receipts read back\<close>

declare sorted_keys.simps(2) [simp del]

lemma exact_length: "json_exact (PDict d) \<Longrightarrow> keys_are d ks \<Longrightarrow> distinct ks \<Longrightarrow> length d = length ks"
proof -
  assume "json_exact (PDict d)" "keys_are d ks" "distinct ks"
  then have "distinct (map fst d)" "distinct ks" "set (map fst d) = set ks" by (simp_all add: keys_are_iff)
  then show "length d = length ks" by (metis distinct_card length_map)
qed

lemma short_kept: "short_text v \<Longrightarrow> short_text (sorted_keys v)"
  by (cases v) (simp_all add: short_text_def)

lemma short_sorted: "list_all (\<lambda>e. short_text (snd e)) d \<Longrightarrow> list_all (\<lambda>e. short_text (snd e)) (sorted_dict d)"
  by (auto simp: list_all_iff sorted_dict_def intro: short_kept)

definition receipt_source :: "string \<Rightarrow> string \<Rightarrow> string \<Rightarrow> string \<Rightarrow> pydict \<Rightarrow> pydict" where
  "receipt_source path version before_digest after_digest patch =
     [(''ledger_path'', PStr path), (''ledger_before_version'', PStr version), (''ledger_before_sha256'', PStr before_digest),
      (''ledger_after_sha256'', PStr after_digest), (''patch_sha256'', PStr (sha256 (json_dumps (PDict patch))))]"

lemma plan_receipt_source:
  "plan_receipt path version b a logical_id patch payload =
     PDict [(''schema_version'', PStr receipt_schema), (''interval_id_sha256'', PStr logical_id),
       (''payload_sha256'', PStr (sha256 (json_dumps (PDict payload)))),
       (''source'', PDict (receipt_source path version b a patch)), (''interval'', PDict payload)]"
  by (simp only: plan_receipt_def receipt_source_def)

lemma plan_receipt_read:
  assumes pm: "payload_material (PDict payload) = Inr (payload, start, finish, logical_id)"
    and exact: "json_exact (PDict payload)" "json_exact (PDict patch)"
    and short: "list_all (\<lambda>e. short_text (snd e)) payload"
    and version: "version_shape version" "receipt_time (PStr (take 19 version @ ''Z'')) = Inr moment"
    and hex: "hex64 b" "hex64 a"
  shows "read_receipt path (the_str (dget payload ''account_scope_sha256''))
      (PList [PStr (receipt_suffix path logical_id), sorted_keys (plan_receipt path version b a logical_id patch payload)])
    = Inr \<lparr>mt_payload = sorted_dict payload, mt_start = start, mt_finish = finish, mt_id = logical_id, mt_version = version,
        mt_text = json_dumps (plan_receipt path version b a logical_id patch payload),
        mt_size = utf8_length (receipt_suffix path logical_id) + int (length (json_dumps (plan_receipt path version b a logical_id patch payload)))\<rparr>"
proof -
  let ?text = "json_dumps (plan_receipt path version b a logical_id patch payload)"
  let ?s = "receipt_source path version b a patch"
  define r where "r = the_dict (plan_receipt path version b a logical_id patch payload)"
  have r: "plan_receipt path version b a logical_id patch payload = PDict r" by (simp add: r_def plan_receipt_def)
  have exact_r: "json_exact (PDict r)" using receipt_material_exact(2) [OF pm exact, of path version b a] by (simp only: r)
  have got: "dget r ''schema_version'' = PStr receipt_schema" "dget r ''interval_id_sha256'' = PStr logical_id"
    "dget r ''payload_sha256'' = PStr (sha256 (json_dumps (PDict payload)))" "dget r ''source'' = PDict ?s" "dget r ''interval'' = PDict payload"
    by (simp_all add: r_def plan_receipt_source del: json_dumps.simps)
  have keys_r: "keys_are r receipt_fields" "length r = 5"
    by (auto simp: r_def plan_receipt_source keys_are_iff receipt_fields_def simp del: json_dumps.simps)
  note facts_r = sorted_facts [OF exact_r]
  have exact_s: "json_exact (PDict ?s)" by (simp add: receipt_source_def del: json_dumps.simps)
  note facts_s = sorted_facts [OF exact_s]
  have keys_s: "keys_are ?s source_fields" "length ?s = 5"
    by (auto simp: receipt_source_def keys_are_iff source_fields_def simp del: json_dumps.simps)
  note keys_p = payload_material_Inr(2) [OF pm]
  have "length payload = 7" using exact_length [OF exact(1) keys_p] by (simp add: interval_fields_def)
  then have envelope: "check_envelope (sorted_dict r) = Inr (sorted_dict ?s, sorted_dict payload)"
    using short_sorted [OF short] keys_p facts_r(3) sorted_facts(3) [OF exact(1)] keys_r
    by (simp add: check_envelope_def facts_r(1) got keys_sorted(2) sorted_keys_dict)
  have scope: "dget (sorted_dict payload) ''account_scope_sha256'' = PStr (the_str (dget payload ''account_scope_sha256''))"
    using payload_material_Inr(3) [OF pm, of "''account_scope_sha256''"] sorted_facts(1) [OF exact(1)] by (auto simp: interval_fields_def)
  have got_s: "dget (sorted_dict ?s) ''ledger_path'' = PStr path" "dget (sorted_dict ?s) ''ledger_before_version'' = PStr version"
    "dget (sorted_dict ?s) ''ledger_before_sha256'' = PStr b" "dget (sorted_dict ?s) ''ledger_after_sha256'' = PStr a"
    "dget (sorted_dict ?s) ''patch_sha256'' = PStr (sha256 (json_dumps (PDict patch)))"
    by (simp_all only: facts_s(1)) (simp_all add: receipt_source_def del: json_dumps.simps)
  have source: "check_source path (the_str (dget payload ''account_scope_sha256'')) (receipt_suffix path logical_id) (sorted_dict ?s) (sorted_dict payload) logical_id
      = Inr version"
    using keys_s facts_s(3) version hex by (simp add: check_source_def keys_sorted(2) got_s scope is_hex64_def Let_def)
  have digest: "material_digest (PDict (sorted_dict payload)) = Inr (sha256 (json_dumps (PDict payload)))"
    using digest_exact(2) [OF exact(1)] by (simp add: sorted_keys_dict)
  have texts: "canonical_json (PDict (sorted_dict r)) = Inr (json_dumps (PDict r))"
    using canonical_sorted [OF exact_r] by (simp add: sorted_keys_dict)
  show ?thesis
    by (simp add: read_receipt_def r sorted_keys_dict envelope payload_sorted [OF pm exact(1)] digest source texts facts_r(1) got
        del: json_dumps.simps)
qed


text \<open>The length of a text is bounded by those of its parts.\<close>

lemma length_json_str: "length (json_str s) \<le> 6 * length s + 2"
proof -
  have one: "length (json_char c) \<le> 6" for c by (simp add: json_char_def)
  have "length (concat (map json_char s)) \<le> 6 * length s"
  proof (induction s)
    case (Cons c s)
    with one [of c] show ?case by simp
  qed simp
  then show ?thesis by (simp add: json_str_def)
qed

lemma length_join: "length (join [c] xs) \<le> sum_list (map length xs) + length xs"
  by (induction "[c]" xs rule: join.induct) auto

lemma sum_sorted: "sum_list (map f (sort_key g xs)) = (sum_list (map f xs) :: nat)"
  by (metis mset_map mset_sort sum_mset_sum_list)

lemma sum_succ: "sum_list (map (\<lambda>p. f p + 1) d) = sum_list (map f d) + length d"
  by (induction d) simp_all

lemma utf8_length_le: "utf8_length s \<le> 2 * int (length s)"
  unfolding utf8_length_def by (induction s) auto

lemma length_dumps: "length (json_dumps (PDict d)) \<le> 2 + sum_list (map (\<lambda>p. 6 * length (fst p) + 4 + length (json_dumps (snd p))) d)"
proof -
  have member: "length (member_text p) + 1 \<le> 6 * length (fst p) + 4 + length (json_dumps (snd p))" for p
    using length_json_str [of "fst p"] by (simp add: member_text_def)
  have "sum_list (map length (map member_text (sort_key fst d))) + length d = sum_list (map (\<lambda>p. length (member_text p) + 1) d)"
    using sum_sorted [of "\<lambda>p. length (member_text p)" fst d] sum_succ [of "\<lambda>p. length (member_text p)" d]
    by (simp add: comp_def)
  also have "\<dots> \<le> sum_list (map (\<lambda>p. 6 * length (fst p) + 4 + length (json_dumps (snd p))) d)"
    using member by (intro sum_list_mono) simp
  finally show ?thesis
    using length_join [of "CHR '',''" "map member_text (sort_key fst d)"] by (simp add: dumps_dict del: json_dumps.simps)
qed

text \<open>The receipt of the sample day and what is read of it.\<close>

lemma sample_short: "list_all (\<lambda>e. short_text (snd e)) sample_interval" "dget sample_interval ''account_scope_sha256'' = PStr sample_scope"
  by (simp_all add: sample_interval_def short_text_def sample_scope_def sample_stamp_def receipt_basis_def)

text \<open>
  C17. The reader accepts what the writer built. The receipt of a plan built from an exact transition, with
  interval texts of at most 80 characters, is read back from the stored text under the path of the plan:
  payload, times, ledger version and canonical text of what the reader keeps are those of the plan.
\<close>

theorem built_receipt_read_back:
  assumes "build_interval_receipt_plan ledger_path (Stamp t nanos) previous next_state interval = Inr plan"
    and "json_exact previous" and "json_exact next_state" and "json_exact interval"
    and "dt_in_range (dt_local t)" and "1000 \<le> fst (dt_date t)"
    and "list_all (\<lambda>e. short_text (snd e)) (the_dict interval)"
  shows "\<exists>receipt m start finish logical_id. text_loads (pl_receipt plan) = Inr receipt
    \<and> read_receipt (the_str ledger_path) (the_str (dget (the_dict interval) ''account_scope_sha256'')) (PList [pl_receipt_path plan, receipt]) = Inr m
    \<and> payload_material interval = Inr (the_dict interval, start, finish, logical_id)
    \<and> mt_payload m = sorted_dict (the_dict interval) \<and> mt_start m = start \<and> mt_finish m = finish \<and> mt_id m = logical_id
    \<and> PStr (mt_version m) = pl_source_version plan \<and> PStr (mt_text m) = pl_receipt plan
    \<and> mt_size m = utf8_length (the_str (pl_receipt_path plan)) + int (length (the_str (pl_receipt plan)))"
proof -
  obtain path payload start finish logical_id old new version b a where p: "ledger_path = PStr path"
    "interval = PDict payload" "next_state = PDict new"
    "payload_material (PDict payload) = Inr (payload, start, finish, logical_id)"
    "check_transition (the_str (dget payload ''account_scope_sha256'')) start finish old new = Inr ()"
    "exact_version (Stamp t nanos) = Inr version" "hex64 b" "hex64 a"
    "plan = \<lparr>pl_ledger_path = PStr path, pl_receipt_path = PStr (receipt_suffix path logical_id),
      pl_source_version = PStr version, pl_before = PStr b, pl_after = PStr a,
      pl_payload = PStr (sha256 (json_dumps (PDict payload))), pl_patch = PStr (json_dumps (PDict (plan_patch new))),
      pl_receipt = PStr (json_dumps (plan_receipt path version b a logical_id (plan_patch new) payload))\<rparr>"
    using built_plan [OF assms(1-4)] by metis
  have exact: "json_exact (PDict payload)" "json_exact (PDict new)" using assms(3,4) p(2,3) by simp_all
  have "list_all (dhas new) patch_fields" using transition_facts [OF p(5)] by (simp add: transition_shape_def)
  note patch = plan_patch_facts(1) [OF exact(2) this]
  obtain moment where version: "version_shape version" "receipt_time (PStr (take 19 version @ ''Z'')) = Inr moment"
    using exact_version_text [OF p(6) assms(5,6)] by blast
  have short: "list_all (\<lambda>e. short_text (snd e)) payload" using assms(7) p(2) by simp
  let ?receipt = "plan_receipt path version b a logical_id (plan_patch new) payload"
  have loaded: "text_loads (PStr (json_dumps ?receipt)) = Inr (sorted_keys ?receipt)"
    by (rule loads_exact [OF receipt_material_exact(2) [OF p(4) exact(1) patch]])
  note accepted = plan_receipt_read [OF p(4) exact(1) patch short version p(7,8), of path]
  show ?thesis
    unfolding p(9) receipt_plan.simps p(1,2) the_str.simps the_dict.simps
    by (intro exI conjI, rule loaded, rule accepted, rule p(4)) simp_all
qed

theorem built_receipt_read_back_witness:
  "\<exists>plan receipt m. build_interval_receipt_plan (PStr ''strategy/LEDGER'') (Stamp (DT (738886 * us_per_day) (Some 0)) (PInt 0))
       (PDict (sample_ledger ''2024-01-01T00:00:00Z'')) (PDict (sample_ledger sample_stamp)) (PDict sample_interval) = Inr plan
     \<and> text_loads (pl_receipt plan) = Inr receipt
     \<and> read_receipt ''strategy/LEDGER'' sample_scope (PList [pl_receipt_path plan, receipt]) = Inr m
     \<and> mt_payload m = sorted_dict sample_interval"
proof -
  obtain plan where plan: "build_interval_receipt_plan (PStr ''strategy/LEDGER'') (Stamp (DT (738886 * us_per_day) (Some 0)) (PInt 0))
     (PDict (sample_ledger ''2024-01-01T00:00:00Z'')) (PDict (sample_ledger sample_stamp)) (PDict sample_interval) = Inr plan"
    using sample_plan by blast
  have "dt_in_range (dt_local (DT (738886 * us_per_day) (Some 0)))" "1000 \<le> fst (dt_date (DT (738886 * us_per_day) (Some 0)))"
    using sample_constants(3,4) by simp_all
  from built_receipt_read_back [OF plan sample_exact(1) sample_exact(1) sample_exact(2) this] sample_short
  have "\<exists>receipt m. text_loads (pl_receipt plan) = Inr receipt
      \<and> read_receipt ''strategy/LEDGER'' sample_scope (PList [pl_receipt_path plan, receipt]) = Inr m \<and> mt_payload m = sorted_dict sample_interval"
    unfolding the_dict.simps the_str.simps sample_short(2) by blast
  with plan show ?thesis by blast
qed


lemma sample_length:
  assumes "length logical_id = 64" and "hex64 h"
  shows "length (json_dumps (plan_receipt ''strategy/LEDGER'' ''2024-01-02T00:00:00.000000000Z'' h h logical_id [] sample_interval)) \<le> 100000"
proof -
  define f :: "string \<times> pyval \<Rightarrow> nat" where "f = (\<lambda>p. 6 * length (fst p) + 4 + length (json_dumps (snd p)))"
  have str: "length (json_dumps (PStr s)) \<le> 6 * length s + 2" for s using length_json_str by simp
  have sizes: "length h = 64" "length (sha256 s) = 64" for s using assms(2) sha256_hex64 by (auto simp: hex64_def)
  let ?s = "receipt_source ''strategy/LEDGER'' ''2024-01-02T00:00:00.000000000Z'' h h []"
  have leaf: "f p \<le> 6 * length (fst p) + 6 * length (the_str (snd p)) + 6" if "\<exists>s. snd p = PStr s" for p
    using that str by (auto simp: f_def simp del: json_dumps.simps)
  have "sum_list (map f sample_interval) \<le> 10000"
  proof -
    have "sum_list (map f sample_interval) \<le> sum_list (map (\<lambda>p. 6 * length (fst p) + 6 * length (the_str (snd p)) + 6) sample_interval)"
      by (intro sum_list_mono leaf) (auto simp: sample_interval_def)
    then show ?thesis by (simp add: sample_interval_def sample_scope_def sample_stamp_def receipt_basis_def)
  qed
  then have interval: "length (json_dumps (PDict sample_interval)) \<le> 10002" using length_dumps [of sample_interval] by (simp add: f_def)
  have "sum_list (map f ?s) \<le> sum_list (map (\<lambda>p. 6 * length (fst p) + 6 * length (the_str (snd p)) + 6) ?s)"
    by (intro sum_list_mono leaf) (auto simp: receipt_source_def simp del: json_dumps.simps)
  then have "sum_list (map f ?s) \<le> 10000" by (simp add: receipt_source_def sizes del: json_dumps.simps)
  then have source: "length (json_dumps (PDict ?s)) \<le> 10002" using length_dumps [of ?s] by (simp add: f_def)
  show ?thesis
    using length_dumps [of "the_dict (plan_receipt ''strategy/LEDGER'' ''2024-01-02T00:00:00.000000000Z'' h h logical_id [] sample_interval)"]
      str [of receipt_schema] str [of logical_id] str [of "sha256 (json_dumps (PDict sample_interval))"] interval source assms(1)
    by (simp add: plan_receipt_source sizes receipt_schema_def del: json_dumps.simps)
qed

lemma sample_read:
  "\<exists>entry m. read_receipt ''strategy/LEDGER'' sample_scope entry = Inr m
     \<and> mt_start m = DT (738885 * us_per_day) (Some 0) \<and> mt_finish m = DT (738886 * us_per_day) (Some 0)
     \<and> mt_payload m = sorted_dict sample_interval \<and> mt_size m \<le> 1048576"
proof -
  obtain logical_id where pm: "payload_material (PDict sample_interval)
     = Inr (sample_interval, DT (738885 * us_per_day) (Some 0), DT (738886 * us_per_day) (Some 0), logical_id)"
    using sample_payload by blast
  have id: "length logical_id = 64"
    using pm sha256_hex64 [unfolded hex64_def] by (auto simp: payload_material_def bindE_Inr_iff ensure_Inr_iff material_digest_def split: if_splits)
  define v where "v = ''2024-01-02T00:00:00.000000000Z''"
  define h where "h = sha256 []"
  have h: "hex64 h" by (simp add: h_def)
  have "version_shape v \<and> (case receipt_time (PStr (take 19 v @ ''Z'')) of Inr u \<Rightarrow> True | Inl e \<Rightarrow> False)"
    unfolding v_def by code_simp
  then obtain moment where version: "version_shape v" "receipt_time (PStr (take 19 v @ ''Z'')) = Inr moment" by (auto split: sum.splits)
  let ?path = "''strategy/LEDGER''"
  let ?text = "json_dumps (plan_receipt ?path v h h logical_id [] sample_interval)"
  have read: "read_receipt ?path sample_scope (PList [PStr (receipt_suffix ?path logical_id), sorted_keys (plan_receipt ?path v h h logical_id [] sample_interval)])
      = Inr \<lparr>mt_payload = sorted_dict sample_interval, mt_start = DT (738885 * us_per_day) (Some 0), mt_finish = DT (738886 * us_per_day) (Some 0),
          mt_id = logical_id, mt_version = v, mt_text = ?text, mt_size = utf8_length (receipt_suffix ?path logical_id) + int (length ?text)\<rparr>"
    using plan_receipt_read [OF pm sample_exact(2) _ sample_short(1) version h h, of "[]" ?path] by (simp add: sample_short(2) del: json_dumps.simps)
  have "utf8_length (receipt_suffix ?path logical_id) \<le> 2 * int (length (receipt_suffix ?path logical_id))"
    by (rule utf8_length_le)
  moreover have "length (receipt_suffix ?path logical_id) \<le> 200" using id by (simp add: receipt_suffix_def)
  moreover have "length ?text \<le> 100000" unfolding v_def by (rule sample_length [OF id h])
  ultimately have "utf8_length (receipt_suffix ?path logical_id) + int (length ?text) \<le> 1048576" by linarith
  with read show ?thesis by fastforce
qed


theorem preview_partitions_cutover_witness:
  "\<exists>entry pv ms. prepare_retained_interval_preview (PList [entry]) (PStr ''strategy/LEDGER'') (PStr sample_scope) (PStr ''2024-01-01T00:00:00Z'')
       (PStr sample_stamp) (PStr ''binance'') (PStr ''stream'') (PInt 1) (PInt 1048576) = Inr pv
     \<and> spans (738885 * us_per_day) (738886 * us_per_day) ms \<and> pv_ids pv = map mt_id ms \<and> pv_inputs pv = 1"
proof -
  obtain entry m where m: "read_receipt ''strategy/LEDGER'' sample_scope entry = Inr m" "mt_start m = DT (738885 * us_per_day) (Some 0)"
    "mt_finish m = DT (738886 * us_per_day) (Some 0)" "mt_payload m = sorted_dict sample_interval" "mt_size m \<le> 1048576"
    using sample_read by blast
  have plain: "json_plain (PDict (sorted_dict sample_interval))"
    using json_exact_plain [OF json_exact_sorted [OF sample_exact(2)]] by (simp only: sorted_keys_dict)
  have "\<exists>b. ordered_batch ''strategy/LEDGER'' sample_scope (DT (738885 * us_per_day) (Some 0)) (DT (738886 * us_per_day) (Some 0)) 1048576 [entry] = Inr (b, [m])"
    using m(2,3,5) by (simp add: ordered_batch_def add_receipt_def m(1) in_order_def us_per_day_def)
  then obtain b where batch: "ordered_batch ''strategy/LEDGER'' sample_scope (DT (738885 * us_per_day) (Some 0)) (DT (738886 * us_per_day) (Some 0)) 1048576 [entry]
      = Inr (b, [m])" by blast
  have labels: "label_shape (PStr ''binance'')" "label_shape (PStr ''stream'')" by code_simp+
  have order: "dt_utc (DT (738885 * us_per_day) (Some 0)) < dt_utc (DT (738886 * us_per_day) (Some 0))" by (simp add: us_per_day_def)
  have "\<exists>pv. prepare_retained_interval_preview (PList [entry]) (PStr ''strategy/LEDGER'') (PStr sample_scope) (PStr ''2024-01-01T00:00:00Z'')
       (PStr sample_stamp) (PStr ''binance'') (PStr ''stream'') (PInt 1) (PInt 1048576) = Inr pv"
    using plain sample_instants sample_constants(1,2)
    by (simp add: prepare_retained_interval_preview_def prepare_def labels batch plain_within_def the_int_def is_hex64_def order
        run_record_def canonical_json_def material_digest_def m(4) Let_def del: json_dumps.simps dt_utc.simps)
  then obtain pv where pv: "prepare_retained_interval_preview (PList [entry]) (PStr ''strategy/LEDGER'') (PStr sample_scope) (PStr ''2024-01-01T00:00:00Z'')
       (PStr sample_stamp) (PStr ''binance'') (PStr ''stream'') (PInt 1) (PInt 1048576) = Inr pv" by blast
  obtain entries ms start finish where *: "PList [entry] = PList entries" "receipt_time (PStr ''2024-01-01T00:00:00Z'') = Inr start"
    "receipt_time (PStr sample_stamp) = Inr finish" "spans (dt_utc start) (dt_utc finish) ms" "pv_ids pv = map mt_id ms"
    "pv_inputs pv = int (length entries)"
    using preview_partitions_cutover [OF pv] by (elim exE conjE) (rule that)
  have "start = DT (738885 * us_per_day) (Some 0)" "finish = DT (738886 * us_per_day) (Some 0)" "entries = [entry]"
    using *(1-3) sample_instants by simp_all
  with *(4-6) have "spans (738885 * us_per_day) (738886 * us_per_day) ms \<and> pv_ids pv = map mt_id ms \<and> pv_inputs pv = 1" by simp
  with pv show ?thesis by blast
qed

end
