(* ===== verification/Observation.thy ===== *)
theory Observation
  imports Interval_Receipt
begin

text \<open>
  \<open>application/reconciliation_observation.py\<close>: two observations of a broker and two of a ledger are compared
  with a reference, and the comparison is published only after the full report was handed to a sink. All
  inputs are values; the sink is a predicate that says whether it takes a report. \<open>Observation_Safety\<close> shows
  what a published match stands for.
\<close>

section \<open>Reading the inputs\<close>

definition parse_time :: "pyval \<Rightarrow> pyexc + pydt" where
  "parse_time v = (case v of
     PStr s \<Rightarrow> bindE (parse_stamp s) (\<lambda>t. if dt_aware t then to_utc t else Inl (ValueError ''timestamp_invalid''))
   | _ \<Rightarrow> Inl (ValueError ''timestamp_invalid''))"

definition observation_policy :: pyval where
  "observation_policy = PDict [(''purpose'', PStr ''observation_only''), (''no_order'', PBool True), (''execution_authority_granted'', PBool False)]"

definition config_fields :: "string list" where
  "config_fields = [''mode'', ''source_id'', ''environment'', ''expected_account_id'', ''strategy_profile'', ''scope_version'',
     ''max_age_seconds'', ''max_window_seconds'']"

definition identifier_char :: "char \<Rightarrow> bool" where
  "identifier_char c = (is_lower_letter c \<or> is_upper_letter c \<or> is_digit c \<or> c = CHR ''_'' \<or> c = CHR ''.'' \<or> c = CHR ''-'')"

definition labelled :: "string \<Rightarrow> pyval \<Rightarrow> bool" where
  "labelled prefix v = (case v of
     PStr s \<Rightarrow> starts_with s prefix \<and> 1 \<le> length s \<and> length s \<le> 80 \<and> list_all identifier_char s
   | _ \<Rightarrow> False)"

definition plain_between :: "int \<Rightarrow> int \<Rightarrow> pyval \<Rightarrow> bool" where
  "plain_between lo hi v = (case v of PInt i \<Rightarrow> lo \<le> i \<and> i \<le> hi | _ \<Rightarrow> False)"

definition plain_value :: "pyval \<Rightarrow> int" where
  "plain_value v = (case v of PInt i \<Rightarrow> i | _ \<Rightarrow> 0)"

definition validate_config :: "pyval \<Rightarrow> pyexc + pydict" where
  "validate_config v = (case v of
     PDict config \<Rightarrow>
       bindE (ensure (keys_are config config_fields \<and> dget config ''mode'' = PStr ''mock'' \<and> dget config ''environment'' = PStr ''synthetic''
           \<and> dget config ''source_id'' = PStr ''binance.reconciliation_observation.mock''
           \<and> labelled ''binance-paper-mock-'' (dget config ''expected_account_id'')
           \<and> labelled ''synthetic_'' (dget config ''strategy_profile'')
           \<and> labelled ''synthetic-'' (dget config ''scope_version'')
           \<and> plain_between 300 3600 (dget config ''max_age_seconds'')
           \<and> plain_between 1 300 (dget config ''max_window_seconds''))
         (ValueError ''mock_config_invalid'')) (\<lambda>_. Inr config)
   | _ \<Rightarrow> Inl (ValueError ''mock_config_invalid''))"

definition asset_shape :: "string \<Rightarrow> bool" where
  "asset_shape a = (1 \<le> length a \<and> length a \<le> 20 \<and> list_all (\<lambda>c. is_upper_letter c \<or> is_digit c) a)"

text \<open>The balances of a snapshot by value, its open orders and its executions, as the tuple compared later.\<close>

definition broker_balance :: "string \<times> pyval \<Rightarrow> pyexc + string \<times> pyval" where
  "broker_balance p = (case p of (asset, v) \<Rightarrow>
     bindE (ensure (asset_shape asset \<and> is_str v) (ValueError ''balances_invalid'')) (\<lambda>_.
     bindE (dec_parseE (the_str v)) (\<lambda>d.
     bindE (ensure (dec_finite d \<and> \<not> dec_negative d) (ValueError ''balances_invalid'')) (\<lambda>_.
     Inr (asset, PDec d)))))"

definition broker_values :: "pyval \<Rightarrow> pyexc + pyval" where
  "broker_values snapshot =
     bindE (vsub snapshot ''balances'') (\<lambda>balances.
     bindE (ensure (is_dict balances \<and> the_dict balances \<noteq> []) (ValueError ''balances_invalid'')) (\<lambda>_.
     bindE (mapE broker_balance (the_dict balances)) (\<lambda>normalized.
     bindE (vsub snapshot ''open_orders'') (\<lambda>orders.
     bindE (ensure (is_list orders) (ValueError ''history_invalid'')) (\<lambda>_.
     bindE (vsub snapshot ''executions'') (\<lambda>executions.
     bindE (ensure (is_list executions) (ValueError ''history_invalid'')) (\<lambda>_.
     Inr (PList [PDict normalized, orders, executions]))))))))"

section \<open>Observing\<close>

record sightings =
  sg_reasons :: "string list"
  sg_times :: "int list"
  sg_brokers :: "pyval list"
  sg_ledgers :: "(pyval \<times> pyval) list"

definition note_reason :: "string \<Rightarrow> sightings \<Rightarrow> sightings" where
  "note_reason r s = s\<lparr>sg_reasons := sg_reasons s @ [r]\<rparr>"

definition note_when :: "bool \<Rightarrow> string \<Rightarrow> sightings \<Rightarrow> sightings" where
  "note_when b r s = (if b then note_reason r s else s)"

definition observation_error :: "pyexc \<Rightarrow> bool" where
  "observation_error e = (e = KeyError \<or> is_value_error e \<or> e = TypeError \<or> e = InvalidOperation \<or> e = OverflowError)"

text \<open>An exception the loop catches becomes a reason; what was noted before it stays.\<close>

definition caught_as :: "string \<Rightarrow> sightings \<Rightarrow> pyexc + sightings \<Rightarrow> pyexc + sightings" where
  "caught_as r s m = (case m of Inr s' \<Rightarrow> Inr s' | Inl e \<Rightarrow> if observation_error e then Inr (note_reason r s) else Inl e)"

definition observe_snapshot :: "pydict \<Rightarrow> pydt \<Rightarrow> pydict \<Rightarrow> sightings \<Rightarrow> string \<Rightarrow> pyexc + sightings" where
  "observe_snapshot config now inputs s name =
     (let broker = starts_with name ''broker_''; incomplete = (if broker then ''broker_snapshot_incomplete'' else ''ledger_unavailable'')
      in case dget inputs name of
           PDict snapshot \<Rightarrow>
             (case bindE (dsub snapshot ''observed_at'') parse_time of
                Inl e \<Rightarrow> caught_as incomplete s (Inl e)
              | Inr moment \<Rightarrow>
                  let s1 = s\<lparr>sg_times := sg_times s @ [dt_utc moment]\<rparr>;
                      s2 = note_when (plain_value (dget config ''max_age_seconds'') * us_per_second < dt_utc now - dt_utc moment) ''input_stale'' s1;
                      s3 = note_when (300 * us_per_second < dt_utc moment - dt_utc now) ''input_future'' s2;
                      s4 = note_when (dget snapshot ''complete'' \<noteq> PBool True) incomplete s3
                  in if broker then
                       (let s5 = note_when (\<not> py_eq (dget snapshot ''account_id'') (dget config ''expected_account_id'')) ''account_identity_mismatch'' s4
                        in caught_as incomplete s5 (bindE (broker_values (PDict snapshot)) (\<lambda>b. Inr (s5\<lparr>sg_brokers := sg_brokers s5 @ [b]\<rparr>))))
                     else caught_as incomplete s4
                       (bindE (ensure (labelled ''synthetic-'' (dget snapshot ''version'') \<and> is_list (dget snapshot ''entries'')) (ValueError ''ledger_invalid'')) (\<lambda>_.
                        Inr (s4\<lparr>sg_ledgers := sg_ledgers s4 @ [(dget snapshot ''version'', dget snapshot ''entries'')]\<rparr>))))
         | _ \<Rightarrow> Inr (note_reason incomplete s))"

definition snapshot_names :: "string list" where
  "snapshot_names = [''broker_before'', ''broker_after'', ''ledger_before'', ''ledger_after'']"

definition brokers_differ :: "sightings \<Rightarrow> bool" where
  "brokers_differ s = (case sg_brokers s of [a, b] \<Rightarrow> \<not> py_eq a b | _ \<Rightarrow> False)"

definition ledgers_differ :: "sightings \<Rightarrow> bool" where
  "ledgers_differ s = (case sg_ledgers s of [(v, a), (w, b)] \<Rightarrow> \<not> (py_eq v w \<and> py_eq a b) | _ \<Rightarrow> False)"

definition window_exceeded :: "pydict \<Rightarrow> sightings \<Rightarrow> bool" where
  "window_exceeded config s = (sg_times s \<noteq> []
     \<and> plain_value (dget config ''max_window_seconds'') * us_per_second < Max (set (sg_times s)) - Min (set (sg_times s)))"

definition acquisition_order :: "pydict \<Rightarrow> sightings \<Rightarrow> string \<times> string \<Rightarrow> pyexc + sightings" where
  "acquisition_order inputs s pair =
     (case bindE (bindE (vsub (dget inputs (fst pair)) ''observed_at'') parse_time) (\<lambda>a.
           bindE (bindE (vsub (dget inputs (snd pair)) ''observed_at'') parse_time) (\<lambda>b. Inr (dt_utc b < dt_utc a))) of
        Inr late \<Rightarrow> Inr (note_when late ''acquisition_order_invalid'' s)
      | Inl e \<Rightarrow> if e \<noteq> InvalidOperation \<and> observation_error e then Inr s else Inl e)"

section \<open>The reference\<close>

text \<open>\<open>expected\<close> with the version of the reference, when it could be read.\<close>

definition read_reference :: "pydict \<Rightarrow> pyval \<Rightarrow> pyexc + pyval \<times> pyval \<times> pyval" where
  "read_reference config reference =
     bindE (vsub reference ''account_id'') (\<lambda>account.
     bindE (ensure (py_eq account (dget config ''expected_account_id'')) (ValueError ''reference_invalid'')) (\<lambda>_.
     bindE (vsub reference ''scope_version'') (\<lambda>scope.
     bindE (ensure (py_eq scope (dget config ''scope_version'')) (ValueError ''reference_invalid'')) (\<lambda>_.
     bindE (vsub reference ''version'') (\<lambda>version.
     bindE (ensure (labelled ''synthetic-'' version) (ValueError ''reference_invalid'')) (\<lambda>_.
     bindE (vsub reference ''ledger_entries'') (\<lambda>entries.
     bindE (ensure (is_list entries) (ValueError ''reference_invalid'')) (\<lambda>_.
     bindE (broker_values reference) (\<lambda>broker. Inr (broker, entries, version))))))))))"

definition reference_error :: "pyexc \<Rightarrow> bool" where
  "reference_error e = (e = KeyError \<or> is_value_error e \<or> e = TypeError \<or> e = InvalidOperation)"

definition observe_reference :: "pydict \<Rightarrow> pyval \<Rightarrow> sightings \<Rightarrow> pyexc + sightings \<times> (pyval \<times> pyval \<times> pyval) option" where
  "observe_reference config reference s =
     (if reference = PNone then Inr (note_reason ''reference_unavailable'' s, None)
      else (case read_reference config reference of
          Inr r \<Rightarrow> Inr (s, Some r)
        | Inl e \<Rightarrow> if reference_error e then Inr (note_reason ''reference_binding_invalid'' s, None) else Inl e))"

section \<open>Comparing and publishing\<close>

definition compare_reference :: "sightings \<Rightarrow> (pyval \<times> pyval \<times> pyval) option \<Rightarrow> bool" where
  "compare_reference s expected = (case (sg_brokers s, sg_ledgers s, expected) of
     (b # _, (_, entries) # _, Some (broker, ledger, _)) \<Rightarrow> py_eq b broker \<and> py_eq entries ledger
   | _ \<Rightarrow> False)"

definition reason_list :: "string list \<Rightarrow> pyval" where
  "reason_list rs = PList (map PStr rs)"

definition listed_reasons :: "string list \<Rightarrow> string \<Rightarrow> pyval" where
  "listed_reasons rs comparison = reason_list (if rs \<noteq> [] then rs else if comparison = ''mismatched'' then [''comparison_mismatch''] else [])"

definition mock_report :: "pydict \<Rightarrow> string list \<Rightarrow> string \<Rightarrow> pyval" where
  "mock_report inputs rs comparison = PDict [
     (''schema_version'', PStr ''qsl_reconciliation_observation_mock_report.v1''),
     (''report_id'', dget inputs ''report_id''), (''observation_id'', dget inputs ''observation_id''),
     (''mode'', PStr ''mock''), (''inputs'', PDict inputs), (''comparison_status'', PStr comparison),
     (''reason_codes'', listed_reasons rs comparison), (''policy'', observation_policy)]"

definition utc_iso :: "int \<Rightarrow> string" where
  "utc_iso u = iso_text (DT u (Some 0))"

definition mock_snapshot :: "pydict \<Rightarrow> pydict \<Rightarrow> string \<Rightarrow> int list \<Rightarrow> pyval \<Rightarrow> string list \<Rightarrow> bool \<Rightarrow> string \<Rightarrow> pyval \<Rightarrow> pyval" where
  "mock_snapshot config inputs timestamp moments version rs whole comparison report_id =
     (let status = (if whole then ''ready'' else if ''input_stale'' \<in> set rs then ''stale'' else ''unavailable'')
      in PDict [
        (''schema_version'', PStr ''qsl_reconciliation_observation_source_snapshot.v1''),
        (''source_id'', dget config ''source_id''), (''generated_at'', PStr timestamp), (''computed_at'', PStr timestamp),
        (''data_status'', PStr status),
        (''observations'', PList [PDict [
           (''observation_id'', dget inputs ''observation_id''), (''platform'', PStr ''binance''),
           (''strategy_profile'', dget config ''strategy_profile''), (''environment'', PStr ''synthetic''),
           (''scope_version'', dget config ''scope_version''), (''reference_version'', version),
           (''first_observed_at'', if moments = [] then PNone else PStr (utc_iso (Min (set moments)))),
           (''last_observed_at'', if moments = [] then PNone else PStr (utc_iso (Max (set moments)))),
           (''evidence_sample_count'', PInt (if whole then 1 else 0)),
           (''coverage'', PStr (if whole then ''complete'' else if moments \<noteq> [] then ''partial'' else ''none'')),
           (''comparison_status'', PStr comparison),
           (''reason_codes'', listed_reasons rs comparison),
           (''report_id'', report_id)]]),
        (''errors'', reason_list rs), (''policy'', observation_policy)])"

definition fixture_fields :: "string list" where
  "fixture_fields = [''observation_id'', ''report_id'', ''broker_before'', ''broker_after'', ''ledger_before'', ''ledger_after'', ''reference'']"

definition validate_fixture :: "pyval \<Rightarrow> pyexc + pydict" where
  "validate_fixture v = (case v of
     PDict fixture \<Rightarrow>
       bindE (ensure (keys_are fixture fixture_fields \<and> labelled ''fixture-observation-'' (dget fixture ''observation_id'')
           \<and> labelled ''fixture-report-'' (dget fixture ''report_id'')) (ValueError ''mock_fixture_invalid'')) (\<lambda>_. Inr fixture)
   | _ \<Rightarrow> Inl (ValueError ''mock_fixture_invalid''))"

text \<open>Everything before the report is persisted: what was seen and the reference.\<close>

definition observe :: "pydict \<Rightarrow> pydt \<Rightarrow> pydict \<Rightarrow> pyexc + sightings \<times> (pyval \<times> pyval \<times> pyval) option" where
  "observe config now inputs =
     bindE (foldE (observe_snapshot config now inputs) \<lparr>sg_reasons = [], sg_times = [], sg_brokers = [], sg_ledgers = []\<rparr> snapshot_names) (\<lambda>s.
     let s1 = note_when (brokers_differ s) ''broker_changed'' s;
         s2 = note_when (ledgers_differ s) ''ledger_changed'' s1;
         s3 = note_when (window_exceeded config s) ''acquisition_window_exceeded'' s2
     in bindE (foldE (acquisition_order inputs) s3 [(''broker_before'', ''broker_after''), (''ledger_before'', ''ledger_after'')]) (\<lambda>s4.
        observe_reference config (dget inputs ''reference'') s4))"

definition collect_mock_observation :: "pyval \<Rightarrow> pyval \<Rightarrow> (pyval \<Rightarrow> bool) \<Rightarrow> pydt \<Rightarrow> pyexc + pyval" where
  "collect_mock_observation config_value fixture persist_report now =
     bindE (validate_config config_value) (\<lambda>config.
     bindE (ensure (dt_aware now) (ValueError ''timestamp_invalid'')) (\<lambda>_.
     bindE (validate_fixture fixture) (\<lambda>inputs.
     bindE (observe config now inputs) (\<lambda>(s, expected).
     let rs = sort (remdups (sg_reasons s));
         comparison = (if rs \<noteq> [] then ''incomparable'' else if compare_reference s expected then ''matched'' else ''mismatched'');
         version = (case expected of Some (_, _, v) \<Rightarrow> v | None \<Rightarrow> PNone);
         kept = persist_report (mock_report inputs rs comparison)
     in bindE (to_utc now) (\<lambda>utc.
        Inr (if kept
             then mock_snapshot config inputs (iso_text utc) (sg_times s) version rs (rs = []) comparison (dget inputs ''report_id'')
             else mock_snapshot config inputs (iso_text utc) (sg_times s) version [''report_persistence_failed''] False ''incomparable'' PNone))))))"

end
