(* ===== verification/Forward_Report.thy ===== *)
theory Forward_Report
  imports Observation
begin

text \<open>
  \<open>application/forward_reconciliation.py\<close>: a report that compares the quantities of four wallets at two cutoffs
  with the native events between them. Every snapshot and every surface of events comes with a receipt, the
  pages it was read in; what is not proven complete is reported as a reason and never counted as zero.
  The input is a value; amounts are decimals in a context of 100 digits.
\<close>

section \<open>Fields\<close>

definition wallets :: "string list" where
  "wallets = [''spot'', ''funding'', ''flexible_earn'', ''locked_earn'']"

definition surfaces :: "string list" where
  "surfaces = [''fills'', ''deposits'', ''withdrawals'', ''rewards'', ''convert'', ''dust'', ''transfers'', ''flexible_lifecycle'', ''locked_lifecycle'']"

definition surface_by_kind :: "(string \<times> string) list" where
  "surface_by_kind = [(''fill'', ''fills''), (''deposit'', ''deposits''), (''withdrawal'', ''withdrawals''), (''reward'', ''rewards''),
     (''convert'', ''convert''), (''dust'', ''dust''), (''transfer'', ''transfers''),
     (''flexible_subscription'', ''flexible_lifecycle''), (''flexible_redemption'', ''flexible_lifecycle''),
     (''locked_subscription'', ''locked_lifecycle''), (''locked_redemption'', ''locked_lifecycle'')]"

definition program_start :: pydt where
  "program_start = DT (day_number 2026 11 3 * us_per_day) (Some 0)"

abbreviation require :: "bool \<Rightarrow> string \<Rightarrow> pyexc + unit" where
  "require b code \<equiv> ensure b (ValueError code)"

definition asset_of :: "pyval \<Rightarrow> pyexc + string" where
  "asset_of v = (case v of PStr a \<Rightarrow> bindE (require (asset_shape a) ''asset_invalid'') (\<lambda>_. Inr a) | _ \<Rightarrow> Inl (ValueError ''asset_invalid''))"

text \<open>\<open>(?:0|[1-9][0-9]{0,29})(?:\.[0-9]{1,30})?\<close>.\<close>

definition quantity_shape :: "string \<Rightarrow> bool" where
  "quantity_shape s =
     (let ip = takeWhile is_digit s; r = dropWhile is_digit s
      in 1 \<le> length ip \<and> length ip \<le> 30 \<and> (ip = ''0'' \<or> hd ip \<noteq> CHR ''0'')
         \<and> (r = [] \<or> (hd r = CHR ''.'' \<and> 1 \<le> length (tl r) \<and> length (tl r) \<le> 30 \<and> list_all is_digit (tl r))))"

definition quantity :: "pyval \<Rightarrow> pyexc + pydec" where
  "quantity v = (case v of
     PStr s \<Rightarrow> bindE (require (quantity_shape s) ''quantity_invalid'') (\<lambda>_. dec_parseE s)
   | _ \<Rightarrow> Inl (ValueError ''quantity_invalid''))"

text \<open>\<open>text.rstrip(c)\<close>.\<close>

definition strip_right :: "char \<Rightarrow> string \<Rightarrow> string" where
  "strip_right c s = rev (dropWhile (\<lambda>x. x = c) (rev s))"

definition quantity_text :: "pydec \<Rightarrow> string" where
  "quantity_text d =
     (if dec_is_zero d then ''0''
      else let s = dec_format_f d in if CHR ''.'' \<in> set s then strip_right (CHR ''.'') (strip_right (CHR ''0'') s) else s)"

definition marked_name :: "string \<Rightarrow> pyval \<Rightarrow> bool" where
  "marked_name prefix v = (case v of
     PStr s \<Rightarrow> starts_with s prefix \<and> 1 \<le> length (drop (length prefix) s) \<and> length (drop (length prefix) s) \<le> 64
       \<and> list_all identifier_char (drop (length prefix) s)
   | _ \<Rightarrow> False)"

definition opaque :: "pyval \<Rightarrow> bool" where
  "opaque v = (case v of PStr s \<Rightarrow> 0 < length s \<and> length s \<le> 128 \<and> strip s = s | _ \<Rightarrow> False)"

section \<open>Receipts\<close>

definition page_content_sha256 :: "pyval list \<Rightarrow> pyexc + string" where
  "page_content_sha256 rows = (if json_plain (PList rows) then Inr (sha256 (json_dumps (PList rows))) else Inl (ValueError ''Out of range float values are not JSON compliant''))"

text \<open>One page: where the previous one ended (in time and in rows) and where this one ends.\<close>

definition check_page :: "string \<Rightarrow> pyval \<Rightarrow> pydt \<Rightarrow> pyval list \<Rightarrow> int \<times> pydt \<times> nat \<Rightarrow> pyval \<Rightarrow> pyexc + int \<times> pydt \<times> nat" where
  "check_page binding revision finished rows st page = (case st of (number, last_end, consumed) \<Rightarrow>
     (case page of
        PDict d \<Rightarrow>
          bindE (require (dget d ''number'' = PInt number) ''page_order_invalid'') (\<lambda>_.
          let size = dget d ''size''; received = dget d ''count''; all = dget d ''total''; count = int (length rows) in
          bindE (require (plain_between 1 1000 size \<and> plain_between 0 (plain_value size) received \<and> plain_between 0 10000 all) ''page_count_invalid'') (\<lambda>_.
          bindE (require (dget d ''binding'' = PStr binding \<and> py_eq (dget d ''revision'') revision) ''page_binding_or_revision_changed'') (\<lambda>_.
          bindE (parse_time (dget d ''started_at'')) (\<lambda>start.
          bindE (parse_time (dget d ''finished_at'')) (\<lambda>stop.
          bindE (require (dt_utc last_end \<le> dt_utc start \<and> dt_utc start \<le> dt_utc stop \<and> dt_utc stop \<le> dt_utc finished) ''page_capture_invalid'') (\<lambda>_.
          bindE (require (plain_value all = count
              \<and> plain_value received = min (plain_value size) (max 0 (plain_value all - int consumed))) ''pages_incomplete'') (\<lambda>_.
          bindE (require (number = 1 \<or> int consumed < plain_value all) ''page_extra'') (\<lambda>_.
          bindE (page_content_sha256 (take (nat (plain_value received)) (drop consumed rows))) (\<lambda>content.
          bindE (require (dget d ''content_sha256'' = PStr content) ''page_content_changed'') (\<lambda>_.
          Inr (number + 1, stop, consumed + nat (plain_value received))))))))))))
      | _ \<Rightarrow> Inl (ValueError ''page_invalid'')))"

definition check_receipt :: "pyval \<Rightarrow> string \<Rightarrow> pydt \<Rightarrow> pyval list \<Rightarrow> pyexc + unit" where
  "check_receipt value binding cutoff rows = (case value of
     PDict receipt \<Rightarrow>
       bindE (require (dget receipt ''binding'' = PStr binding) ''receipt_binding_invalid'') (\<lambda>_.
       bindE (parse_time (dget receipt ''source_as_of'')) (\<lambda>as_of.
       bindE (require (dt_utc as_of = dt_utc cutoff) ''source_time_invalid'') (\<lambda>_.
       bindE (parse_time (dget receipt ''started_at'')) (\<lambda>started.
       bindE (parse_time (dget receipt ''finished_at'')) (\<lambda>finished.
       bindE (require (dt_utc started \<le> dt_utc finished \<and> dt_utc cutoff \<le> dt_utc finished) ''capture_time_invalid'') (\<lambda>_.
       bindE (require (opaque (dget receipt ''stable_revision'')) ''page_revision_missing'') (\<lambda>_.
       bindE (require (is_list (dget receipt ''pages'') \<and> 1 \<le> length (the_list (dget receipt ''pages''))
           \<and> length (the_list (dget receipt ''pages'')) \<le> 1000) ''pages_incomplete'') (\<lambda>_.
       bindE (foldE (check_page binding (dget receipt ''stable_revision'') finished rows) (1, started, 0) (the_list (dget receipt ''pages''))) (\<lambda>(_, _, consumed).
       require (consumed = length rows) ''pages_incomplete'')))))))))
   | _ \<Rightarrow> Inl (ValueError ''receipt_missing''))"

section \<open>Snapshots\<close>

definition snapshot_wallets :: "pyval \<Rightarrow> string \<Rightarrow> string \<Rightarrow> pydt \<Rightarrow> pyexc + pydict" where
  "snapshot_wallets value account binding cutoff = (case value of
     PDict d \<Rightarrow>
       bindE (require (dget d ''account_id'' = PStr account \<and> dget d ''binding'' = PStr binding) ''snapshot_binding_invalid'') (\<lambda>_.
       bindE (parse_time (dget d ''as_of'')) (\<lambda>as_of.
       bindE (require (dt_utc as_of = dt_utc cutoff) ''snapshot_cutoff_invalid'') (\<lambda>_.
       bindE (require (is_dict (dget d ''wallets'')) ''wallets_missing'') (\<lambda>_.
       Inr (the_dict (dget d ''wallets''))))))
   | _ \<Rightarrow> Inl (ValueError ''snapshot_missing''))"

text \<open>Balances are decimals by asset; the context of the report has 100 digits.\<close>

type_synonym holdings = "(string \<times> pydec) list"

definition held :: "holdings \<Rightarrow> string \<Rightarrow> pydec" where
  "held b a = (case map_of b a of Some d \<Rightarrow> d | None \<Rightarrow> dec_zero)"

text \<open>The amount of one row, and the product identities seen with it.\<close>

definition native_amount :: "string \<Rightarrow> holdings \<Rightarrow> string list \<Rightarrow> pydict \<Rightarrow> string \<Rightarrow> pyexc + pydec \<times> string list" where
  "native_amount wallet balances seen d asset =
     (if wallet = ''spot'' \<or> wallet = ''funding'' then
        bindE (require (map_of balances asset = None) ''native_asset_duplicate'') (\<lambda>_.
        bindE (mapE (\<lambda>k. quantity (dget d k))
           (if wallet = ''spot'' then [''free'', ''locked''] else [''free'', ''locked'', ''freeze'', ''withdrawing''])) (\<lambda>components.
        bindE (require (wallet = ''funding'' \<longrightarrow> dec_is_zero (last components)) ''funding_withdrawing_unproven'') (\<lambda>_.
        bindE (dec_sum 100 dec_zero components) (\<lambda>amount. Inr (amount, seen)))))
      else
        (let identity = dget d (if wallet = ''flexible_earn'' then ''productId'' else ''positionId'') in
         bindE (require (opaque identity \<and> the_str identity \<notin> set seen) ''native_product_invalid'') (\<lambda>_.
         bindE (require (dget d ''unsupported'' \<noteq> PBool True) ''native_product_unsupported'') (\<lambda>_.
         bindE (quantity (dget d (if wallet = ''flexible_earn'' then ''totalAmount'' else ''amount''))) (\<lambda>amount.
         Inr (amount, the_str identity # seen))))))"

definition native_row :: "string \<Rightarrow> holdings \<times> string list \<Rightarrow> pyval \<Rightarrow> pyexc + holdings \<times> string list" where
  "native_row wallet st row = (case st of (balances, seen) \<Rightarrow> (case row of
     PDict d \<Rightarrow>
       bindE (asset_of (dget d ''asset'')) (\<lambda>asset.
       bindE (native_amount wallet balances seen d asset) (\<lambda>(amount, seen').
       bindE (dec_add 100 (held balances asset) amount) (\<lambda>new. Inr (AList.update asset new balances, seen'))))
   | _ \<Rightarrow> Inl (ValueError ''native_row_invalid'')))"

definition native_balances :: "pyval \<Rightarrow> string \<Rightarrow> pyexc + holdings" where
  "native_balances rows wallet =
     bindE (require (is_list rows \<and> length (the_list rows) \<le> 10000) ''native_rows_invalid'') (\<lambda>_.
     bindE (foldE (native_row wallet) ([], []) (the_list rows)) (\<lambda>(balances, _). Inr balances))"

definition listed_balance :: "string \<times> pyval \<Rightarrow> pyexc + string \<times> pydec" where
  "listed_balance p = bindE (asset_of (PStr (fst p))) (\<lambda>a. bindE (quantity (snd p)) (\<lambda>q. Inr (a, q)))"

definition read_wallet :: "pyval \<Rightarrow> string \<Rightarrow> string \<Rightarrow> pydt \<Rightarrow> pyexc + holdings" where
  "read_wallet value wallet binding cutoff = (case value of
     PDict d \<Rightarrow>
       bindE (require (\<not> (dhas d ''native_rows'' \<and> dhas d ''balances'')) ''inventory_ambiguous'') (\<lambda>_.
       bindE (if dhas d ''native_rows'' then
                bindE (native_balances (dget d ''native_rows'') wallet) (\<lambda>b. Inr (b, the_list (dget d ''native_rows'')))
              else
                bindE (require (is_dict (dget d ''balances'') \<and> length (the_dict (dget d ''balances'')) \<le> 10000) ''balances_invalid'') (\<lambda>_.
                bindE (mapE listed_balance (the_dict (dget d ''balances''))) (\<lambda>b.
                Inr (b, map (\<lambda>p. PDict [(''asset'', PStr (fst p)), (''quantity'', snd p)]) (sort_key fst (the_dict (dget d ''balances''))))))) (\<lambda>(b, rows).
       bindE (check_receipt (dget d ''receipt'') binding cutoff rows) (\<lambda>_. Inr b)))
   | _ \<Rightarrow> Inl (ValueError ''wallet_inventory_missing''))"

section \<open>Events\<close>

text \<open>A native fill as an event; the mapping of its symbol to two assets comes from elsewhere.\<close>

definition utc_text :: "pydt \<Rightarrow> string" where
  "utc_text t = iso_text (DT (dt_utc t) None) @ ''Z''"

definition fill_time :: "int \<Rightarrow> pyexc + pydt" where
  "fill_time ms = dt_shift (DT (day_number 1970 1 1 * us_per_day) (Some 0)) (ms * 1000)"

definition project_spot_fill :: "pyval \<Rightarrow> pyval \<Rightarrow> pyval \<Rightarrow> pyexc + pydict" where
  "project_spot_fill row base_asset quote_asset = (case row of
     PDict d \<Rightarrow>
       bindE (require (opaque (dget d ''symbol'') \<and> is_plain_int (dget d ''id'') \<and> 0 \<le> plain_value (dget d ''id'')
           \<and> is_plain_int (dget d ''time'') \<and> is_bool (dget d ''isBuyer'')) ''fill_identity_invalid'') (\<lambda>_.
       bindE (asset_of base_asset) (\<lambda>base_name. bindE (asset_of quote_asset) (\<lambda>quote_name.
       bindE (require (base_name \<noteq> quote_name) ''fill_mapping_invalid'') (\<lambda>_.
       bindE (quantity (dget d ''qty'')) (\<lambda>base. bindE (quantity (dget d ''quoteQty'')) (\<lambda>quote. bindE (quantity (dget d ''commission'')) (\<lambda>fee.
       bindE (require (dec_less dec_zero base \<and> dec_less dec_zero quote) ''fill_quantity_invalid'') (\<lambda>_.
       bindE (fill_time (plain_value (dget d ''time''))) (\<lambda>moment.
       bindE (asset_of (dget d ''commissionAsset'')) (\<lambda>fee_asset.
       let buyer = truthy (dget d ''isBuyer'') in
       Inr [(''kind'', PStr ''fill''), (''id'', PStr (the_str (dget d ''symbol'') @ '':'' @ show_int (plain_value (dget d ''id'')))),
         (''at'', PStr (utc_text moment)), (''status'', PStr ''SUCCESS''), (''wallet'', PStr ''spot''),
         (''from_asset'', PStr (if buyer then quote_name else base_name)), (''from_quantity'', PStr (quantity_text (if buyer then quote else base))),
         (''to_asset'', PStr (if buyer then base_name else quote_name)), (''to_quantity'', PStr (quantity_text (if buyer then base else quote))),
         (''fee_asset'', PStr fee_asset), (''fee_quantity'', PStr (quantity_text fee)),
         (''fee_semantics'', PStr ''additional_debit'')]))))))))))
   | _ \<Rightarrow> Inl (ValueError ''fill_invalid''))"

record leg =
  lg_wallet :: string
  lg_asset :: string
  lg_quantity :: pydec

definition leg_of :: "pyval \<Rightarrow> pyval \<Rightarrow> pydec \<Rightarrow> pyexc + leg" where
  "leg_of wallet asset amount =
     bindE (require (is_str wallet \<and> the_str wallet \<in> set wallets) ''wallet_boundary_unsupported'') (\<lambda>_.
     bindE (asset_of asset) (\<lambda>a. Inr \<lparr>lg_wallet = the_str wallet, lg_asset = a, lg_quantity = amount\<rparr>))"

definition lifecycle_wallets :: "string \<Rightarrow> string \<times> string" where
  "lifecycle_wallets kind =
     (let earn = (if starts_with kind ''flexible'' then ''flexible_earn'' else ''locked_earn'')
      in if ends_with kind ''subscription'' then (''spot'', earn) else (earn, ''spot''))"

definition transfer_legs :: "pydict \<Rightarrow> string \<Rightarrow> pyexc + leg list" where
  "transfer_legs d kind =
     (let source = dget d ''source_wallet''; destination = dget d ''destination_wallet'' in
      bindE (require (\<not> py_eq source destination) ''transfer_wallets_invalid'') (\<lambda>_.
      bindE (require (kind \<noteq> ''transfer'' \<longrightarrow> source = PStr (fst (lifecycle_wallets kind)) \<and> destination = PStr (snd (lifecycle_wallets kind)))
        ''lifecycle_wallets_unsupported'') (\<lambda>_.
      bindE (quantity (dget d ''quantity'')) (\<lambda>amount. bindE (asset_of (dget d ''asset'')) (\<lambda>asset.
      bindE (require (dec_less dec_zero amount) ''event_quantity_invalid'') (\<lambda>_.
      bindE (dec_neg 100 amount) (\<lambda>minus.
      bindE (leg_of source (PStr asset) minus) (\<lambda>debit.
      bindE (leg_of destination (PStr asset) amount) (\<lambda>credit.
      bindE (quantity (dget d ''fee_quantity'')) (\<lambda>fee.
      bindE (require (dec_is_zero fee) ''transfer_fee_unsupported'') (\<lambda>_.
      Inr [debit, credit])))))))))))"

text \<open>A debit of an amount read from the event.\<close>

definition debit_leg :: "pydict \<Rightarrow> string \<Rightarrow> pydec \<Rightarrow> pyexc + leg" where
  "debit_leg d asset_key amount = bindE (dec_neg 100 amount) (\<lambda>minus. leg_of (dget d ''wallet'') (dget d asset_key) minus)"

definition exchange_legs :: "pydict \<Rightarrow> pyexc + leg list" where
  "exchange_legs d =
     bindE (require (\<not> py_eq (dget d ''from_asset'') (dget d ''to_asset'')) ''exchange_assets_invalid'') (\<lambda>_.
     bindE (quantity (dget d ''from_quantity'')) (\<lambda>outgoing. bindE (quantity (dget d ''to_quantity'')) (\<lambda>incoming.
     bindE (require (dec_less dec_zero outgoing \<and> dec_less dec_zero incoming) ''event_quantity_invalid'') (\<lambda>_.
     bindE (require (dget d ''fee_semantics'' = PStr ''additional_debit'') ''fee_semantics_unproven'') (\<lambda>_.
     bindE (debit_leg d ''from_asset'' outgoing) (\<lambda>debit.
     bindE (leg_of (dget d ''wallet'') (dget d ''to_asset'') incoming) (\<lambda>credit.
     bindE (bindE (quantity (dget d ''fee_quantity'')) (debit_leg d ''fee_asset'')) (\<lambda>fee.
     Inr [debit, credit, fee]))))))))"

definition flow_legs :: "pydict \<Rightarrow> string \<Rightarrow> pyexc + leg list" where
  "flow_legs d kind =
     bindE (quantity (dget d ''quantity'')) (\<lambda>amount.
     bindE (require (dec_less dec_zero amount) ''event_quantity_invalid'') (\<lambda>_.
     if kind = ''withdrawal'' then
       bindE (require (dget d ''fee_semantics'' = PStr ''additional_debit'') ''withdrawal_fee_semantics_unproven'') (\<lambda>_.
       bindE (debit_leg d ''asset'' amount) (\<lambda>debit.
       bindE (bindE (quantity (dget d ''fee_quantity'')) (debit_leg d ''fee_asset'')) (\<lambda>fee. Inr [debit, fee])))
     else bindE (leg_of (dget d ''wallet'') (dget d ''asset'') amount) (\<lambda>credit. Inr [credit])))"

definition transfer_kinds :: "string list" where
  "transfer_kinds = [''transfer'', ''flexible_subscription'', ''flexible_redemption'', ''locked_subscription'', ''locked_redemption'']"

definition legs_of :: "pydict \<Rightarrow> string \<Rightarrow> pyexc + leg list" where
  "legs_of d kind =
     bindE (require (dget d ''status'' = PStr ''SUCCESS'') ''event_status_unproven'') (\<lambda>_.
     if kind \<in> set transfer_kinds then transfer_legs d kind
     else if kind \<in> {''fill'', ''convert'', ''dust''} then exchange_legs d
     else flow_legs d kind)"

section \<open>Building the report\<close>

definition forward_error :: "pyexc \<Rightarrow> bool" where
  "forward_error e = (is_value_error e \<or> e = TypeError \<or> e = OverflowError)"

definition forward_window :: "pydict \<Rightarrow> pyexc + pydt \<times> pydt \<times> pydt" where
  "forward_window inputs =
     bindE (parse_time (dget inputs ''anchor_at'')) (\<lambda>anchor.
     bindE (parse_time (dget inputs ''previous_cutoff'')) (\<lambda>previous.
     bindE (parse_time (dget inputs ''cutoff'')) (\<lambda>cutoff.
     bindE (require (dt_utc program_start \<le> dt_utc anchor \<and> dt_utc anchor \<le> dt_utc previous \<and> dt_utc previous < dt_utc cutoff) ''forward_window_invalid'') (\<lambda>_.
     bindE (require (dt_utc cutoff - dt_utc previous \<le> 86400 * us_per_second) ''forward_window_too_wide'') (\<lambda>_.
     Inr (anchor, previous, cutoff))))))"

text \<open>One side of the comparison: the wallets that could be read, and the reasons for the others.\<close>

type_synonym side = "(string \<times> holdings) list"

definition read_side_wallet :: "string \<Rightarrow> pydict \<Rightarrow> string \<Rightarrow> pydt \<Rightarrow> string list \<times> side \<Rightarrow> string \<Rightarrow> pyexc + string list \<times> side" where
  "read_side_wallet name found binding cutoff st wallet = (case st of (reasons, side) \<Rightarrow>
     (case read_wallet (dget found wallet) wallet binding cutoff of
        Inr b \<Rightarrow> Inr (reasons, side @ [(wallet, b)])
      | Inl e \<Rightarrow> if forward_error e then Inr (reasons @ [name @ ''_'' @ wallet @ ''_unproven''], side) else Inl e))"

definition read_side :: "pydict \<Rightarrow> string \<Rightarrow> string \<Rightarrow> string \<Rightarrow> pydt \<Rightarrow> pyexc + string list \<times> side" where
  "read_side inputs account binding name cutoff =
     (case snapshot_wallets (dget inputs name) account binding cutoff of
        Inl e \<Rightarrow> if forward_error e then Inr ([name @ ''_snapshot_unproven''], []) else Inl e
      | Inr found \<Rightarrow> foldE (read_side_wallet name found binding cutoff) ([], []) wallets)"

record events_read =
  er_unproven :: bool
  er_rows :: "(string \<times> pyval) list"
  er_seen :: "(string \<times> string) list"
  er_legs :: "leg list"

definition read_event :: "pydt \<Rightarrow> pydt \<Rightarrow> events_read \<Rightarrow> pyval \<Rightarrow> pyexc + events_read" where
  "read_event previous cutoff st event = (case event of
     PDict d \<Rightarrow> (case dget d ''kind'' of
        PStr kind \<Rightarrow> (case map_of surface_by_kind kind of
           Some surface \<Rightarrow>
             let st1 = st\<lparr>er_rows := er_rows st @ [(surface, event)]\<rparr>; identity = dget d ''id'' in
             if \<not> opaque identity \<or> (surface, the_str identity) \<in> set (er_seen st) then Inr (st1\<lparr>er_unproven := True\<rparr>)
             else let st2 = st1\<lparr>er_seen := (surface, the_str identity) # er_seen st\<rparr> in
               (case bindE (parse_time (dget d ''at'')) (\<lambda>moment.
                       bindE (require (dt_utc previous < dt_utc moment \<and> dt_utc moment \<le> dt_utc cutoff) ''event_outside_window'') (\<lambda>_. legs_of d kind)) of
                  Inr ls \<Rightarrow> Inr (st2\<lparr>er_legs := er_legs st @ ls\<rparr>)
                | Inl e \<Rightarrow> if forward_error e then Inr (st2\<lparr>er_unproven := True\<rparr>) else Inl e)
         | None \<Rightarrow> Inr (st\<lparr>er_unproven := True\<rparr>))
      | _ \<Rightarrow> Inr (st\<lparr>er_unproven := True\<rparr>))
   | _ \<Rightarrow> Inr (st\<lparr>er_unproven := True\<rparr>))"

definition no_events :: events_read where
  "no_events = \<lparr>er_unproven = False, er_rows = [], er_seen = [], er_legs = []\<rparr>"

definition read_events :: "pydt \<Rightarrow> pydt \<Rightarrow> pyval \<Rightarrow> pyexc + string list \<times> events_read" where
  "read_events previous cutoff events =
     (if \<not> is_list events \<or> 10000 < length (the_list events) then Inr ([''events_missing_or_invalid''], no_events)
      else bindE (foldE (read_event previous cutoff) no_events (the_list events)) (\<lambda>er.
        Inr (if er_unproven er then [''native_event_unproven''] else [], er)))"

definition surface_rows :: "events_read \<Rightarrow> string \<Rightarrow> pyval list" where
  "surface_rows er surface = map snd (filter (\<lambda>p. fst p = surface) (er_rows er))"

definition check_coverage :: "pydict \<Rightarrow> string \<Rightarrow> pydt \<Rightarrow> pydt \<Rightarrow> events_read \<Rightarrow> string \<Rightarrow> pyexc + unit" where
  "check_coverage receipts binding previous cutoff er surface =
     bindE (check_receipt (dget receipts surface) binding cutoff (surface_rows er surface)) (\<lambda>_.
     let receipt = the_dict (dget receipts surface) in
     bindE (parse_time (dget receipt ''start_exclusive'')) (\<lambda>start.
     bindE (require (dt_utc start = dt_utc previous) ''event_coverage_window_invalid'') (\<lambda>_.
     bindE (parse_time (dget receipt ''end_inclusive'')) (\<lambda>stop.
     bindE (require (dt_utc stop = dt_utc cutoff) ''event_coverage_window_invalid'') (\<lambda>_.
     require (dget receipt ''universe'' = PStr ''all_assets'') ''event_universe_incomplete'')))))"

definition coverage_reason :: "pydict \<Rightarrow> string \<Rightarrow> pydt \<Rightarrow> pydt \<Rightarrow> events_read \<Rightarrow> string list \<Rightarrow> string \<Rightarrow> pyexc + string list" where
  "coverage_reason receipts binding previous cutoff er reasons surface =
     (case check_coverage receipts binding previous cutoff er surface of
        Inr _ \<Rightarrow> Inr reasons
      | Inl e \<Rightarrow> if forward_error e then Inr (reasons @ [surface @ ''_coverage_unproven'']) else Inl e)"

text \<open>The report: the quantities of a wallet are texts by asset, or nothing.\<close>

record wallet_row =
  wr_status :: string
  wr_opening :: pyval
  wr_closing :: pyval
  wr_movements :: pyval
  wr_residuals :: pyval

record forward_report =
  fr_schema :: string
  fr_environment :: string
  fr_status :: string
  fr_anchor :: pyval
  fr_previous :: pyval
  fr_cutoff :: pyval
  fr_wallets :: "(string \<times> wallet_row) list"
  fr_legs :: "pyval list"
  fr_combined :: pyval
  fr_reasons :: "string list"
  fr_inputs :: pydict

definition unread_row :: wallet_row where
  "unread_row = \<lparr>wr_status = ''UNRECONCILED'', wr_opening = PNone, wr_closing = PNone, wr_movements = PNone, wr_residuals = PNone\<rparr>"

definition blank_report :: "pydict \<Rightarrow> forward_report" where
  "blank_report inputs = \<lparr>fr_schema = ''binance_forward_observation.synthetic.v1'', fr_environment = ''synthetic'', fr_status = ''UNRECONCILED'',
     fr_anchor = PNone, fr_previous = PNone, fr_cutoff = PNone, fr_wallets = map (\<lambda>w. (w, unread_row)) wallets, fr_legs = [], fr_combined = PNone,
     fr_reasons = [], fr_inputs = inputs\<rparr>"

definition holding_texts :: "holdings \<Rightarrow> pyval" where
  "holding_texts b = PDict (map (\<lambda>p. (fst p, PStr (quantity_text (snd p)))) b)"

definition side_texts :: "side \<Rightarrow> string \<Rightarrow> pyval" where
  "side_texts side w = (case map_of side w of Some b \<Rightarrow> holding_texts b | None \<Rightarrow> PNone)"

definition asset_universe :: "side \<Rightarrow> side \<Rightarrow> leg list \<Rightarrow> string list" where
  "asset_universe opening closing ls =
     sort (remdups (concat (map (\<lambda>p. map fst (snd p)) (opening @ closing)) @ map lg_asset ls))"

text \<open>\<open>deltas[wallet][asset]\<close>, zero where nothing moved.\<close>

type_synonym deltas = "((string \<times> string) \<times> pydec) list"

definition delta_at :: "deltas \<Rightarrow> string \<Rightarrow> string \<Rightarrow> pydec" where
  "delta_at ds w a = (case map_of ds (w, a) of Some d \<Rightarrow> d | None \<Rightarrow> dec_zero)"

definition add_leg :: "deltas \<Rightarrow> leg \<Rightarrow> pyexc + deltas" where
  "add_leg ds l = bindE (dec_add 100 (delta_at ds (lg_wallet l) (lg_asset l)) (lg_quantity l)) (\<lambda>d.
     Inr (AList.update (lg_wallet l, lg_asset l) d ds))"

definition residual :: "holdings \<Rightarrow> holdings \<Rightarrow> deltas \<Rightarrow> string \<Rightarrow> string \<Rightarrow> pyexc + pydec" where
  "residual opening closing ds w a =
     bindE (dec_sub 100 (held closing a) (held opening a)) (\<lambda>d. dec_sub 100 d (delta_at ds w a))"

text \<open>A wallet compared: its reasons, its row and its residuals.\<close>

definition compare_wallet ::
    "side \<Rightarrow> side \<Rightarrow> deltas \<Rightarrow> string list \<Rightarrow> bool \<Rightarrow> string \<Rightarrow> pyexc + string list \<times> wallet_row \<times> (string \<times> pydec) list option" where
  "compare_wallet opening closing ds universe proven w =
     (let row = unread_row\<lparr>wr_opening := side_texts opening w, wr_closing := side_texts closing w\<rparr>
      in case (map_of opening w, map_of closing w) of
           (Some b0, Some b1) \<Rightarrow>
             if \<not> proven then Inr ([], row, None)
             else if \<not> (set universe \<subseteq> set (map fst b0) \<and> set universe \<subseteq> set (map fst b1)) then Inr ([w @ ''_asset_coverage_missing''], row, None)
             else bindE (mapE (residual b0 b1 ds w) universe) (\<lambda>rs.
               let residuals = zip universe rs;
                   row1 = row\<lparr>wr_movements := PDict (map (\<lambda>a. (a, PStr (quantity_text (delta_at ds w a)))) universe),
                     wr_residuals := holding_texts residuals\<rparr>
               in if list_all dec_is_zero rs then Inr ([], row1\<lparr>wr_status := ''MATCHED_SYNTHETIC''\<rparr>, Some residuals)
                  else Inr ([w @ ''_quantity_residual''], row1, Some residuals))
         | _ \<Rightarrow> Inr ([], row, None))"

definition side_sum :: "side \<Rightarrow> string \<Rightarrow> pyexc + pydec" where
  "side_sum side a = dec_sum 100 dec_zero (map (\<lambda>w. case map_of side w of Some b \<Rightarrow> held b a | None \<Rightarrow> dec_zero) wallets)"

text \<open>The residuals of a wallet are read back from their texts.\<close>

definition combined_asset :: "side \<Rightarrow> side \<Rightarrow> deltas \<Rightarrow> (string \<times> (string \<times> pydec) list) list \<Rightarrow> string \<Rightarrow> pyexc + string \<times> pyval" where
  "combined_asset opening closing ds residuals a =
     bindE (side_sum opening a) (\<lambda>o0. bindE (side_sum closing a) (\<lambda>c0.
     bindE (dec_sum 100 dec_zero (map (\<lambda>w. delta_at ds w a) wallets)) (\<lambda>m.
     bindE (mapE (\<lambda>p. dec_parseE (quantity_text (held (snd p) a))) residuals) (\<lambda>rs.
     bindE (dec_sum 100 dec_zero rs) (\<lambda>r.
     Inr (a, PDict [(''opening'', PStr (quantity_text o0)), (''closing'', PStr (quantity_text c0)),
       (''movement'', PStr (quantity_text m)), (''residual'', PStr (quantity_text r))]))))))"

definition combine :: "side \<Rightarrow> side \<Rightarrow> deltas \<Rightarrow> string list \<Rightarrow> (string \<times> (string \<times> pydec) list option) list \<Rightarrow> pyexc + pyval" where
  "combine opening closing ds universe residuals =
     (if list_all (\<lambda>p. snd p \<noteq> None) residuals
      then bindE (mapE (combined_asset opening closing ds (map (\<lambda>p. (fst p, the (snd p))) residuals)) universe) (\<lambda>cs. Inr (PDict cs))
      else Inr PNone)"

definition events_doubtful :: "string \<Rightarrow> bool" where
  "events_doubtful r = (r = ''native_event_unproven'' \<or> r = ''events_missing_or_invalid'' \<or> ends_with r ''_coverage_unproven'')"

definition leg_value :: "leg \<Rightarrow> pyval" where
  "leg_value l = PDict [(''wallet'', PStr (lg_wallet l)), (''asset'', PStr (lg_asset l)), (''quantity'', PStr (quantity_text (lg_quantity l)))]"

definition receipts_of :: "pydict \<Rightarrow> pydict" where
  "receipts_of inputs = the_dict (dget inputs ''event_receipts'')"

definition build_in_window :: "pydict \<Rightarrow> pydt \<Rightarrow> pydt \<Rightarrow> forward_report \<Rightarrow> pyexc + forward_report" where
  "build_in_window inputs previous cutoff report =
     (let account = the_str (dget inputs ''account_id''); binding = the_str (dget inputs ''binding'') in
      bindE (read_side inputs account binding ''opening'' previous) (\<lambda>(why0, opening).
      bindE (read_side inputs account binding ''closing'' cutoff) (\<lambda>(why1, closing).
      bindE (read_events previous cutoff (dget inputs ''events'')) (\<lambda>(why2, er).
      bindE (foldE (coverage_reason (receipts_of inputs) binding previous cutoff er) [] surfaces) (\<lambda>why3.
      let seen = why0 @ why1 @ why2 @ why3; proven = (\<not> list_ex events_doubtful seen);
          ls = er_legs er; universe = asset_universe opening closing ls
      in bindE (foldE add_leg [] ls) (\<lambda>ds.
         bindE (mapE (compare_wallet opening closing ds universe proven) wallets) (\<lambda>compared.
         bindE (combine opening closing ds universe (zip wallets (map (\<lambda>c. snd (snd c)) compared))) (\<lambda>combined.
         let reasons = sort (remdups (seen @ concat (map fst compared)))
         in Inr (report\<lparr>fr_wallets := zip wallets (map (\<lambda>c. fst (snd c)) compared), fr_legs := (if proven then map leg_value ls else []),
              fr_combined := combined, fr_reasons := reasons, fr_status := (if reasons = [] then ''MATCHED_SYNTHETIC'' else fr_status report)\<rparr>)))))))))"

definition build_report :: "pydict \<Rightarrow> pyexc + forward_report" where
  "build_report inputs =
     (case forward_window inputs of
        Inl e \<Rightarrow> if forward_error e then Inr ((blank_report inputs)\<lparr>fr_reasons := [''forward_window_invalid'']\<rparr>) else Inl e
      | Inr (anchor, previous, cutoff) \<Rightarrow>
          build_in_window inputs previous cutoff
            ((blank_report inputs)\<lparr>fr_anchor := PStr (utc_text anchor), fr_previous := PStr (utc_text previous), fr_cutoff := PStr (utc_text cutoff)\<rparr>))"

definition admitted :: "pydict \<Rightarrow> pyval \<Rightarrow> pyval \<Rightarrow> pyexc + bool" where
  "admitted fixture expected_account expected_binding =
     (if dget fixture ''environment'' = PStr ''synthetic'' then
        bindE (require (marked_name ''binance-paper-mock-'' (dget fixture ''account_id'') \<and> marked_name ''synthetic-'' (dget fixture ''binding''))
          ''forward_synthetic_input_required'') (\<lambda>_. Inr True)
      else
        bindE (require (dget fixture ''environment'' = PStr ''private_observation'') ''forward_synthetic_input_required'') (\<lambda>_.
        bindE (require (opaque expected_account \<and> opaque expected_binding \<and> py_eq (dget fixture ''account_id'') expected_account
            \<and> py_eq (dget fixture ''binding'') expected_binding) ''forward_private_binding_required'') (\<lambda>_. Inr False)))"

definition observed_status :: "string \<Rightarrow> string" where
  "observed_status s = (if s = ''MATCHED_SYNTHETIC'' then ''MATCHED_OBSERVATION'' else s)"

definition private_report :: "forward_report \<Rightarrow> forward_report" where
  "private_report r = r\<lparr>fr_environment := ''private_observation'', fr_schema := ''binance_forward_observation.v1'',
     fr_status := observed_status (fr_status r),
     fr_wallets := map (\<lambda>(w, row). (w, row\<lparr>wr_status := observed_status (wr_status row)\<rparr>)) (fr_wallets r)\<rparr>"

definition build_forward_report :: "pyval \<Rightarrow> pyval \<Rightarrow> pyval \<Rightarrow> pyexc + forward_report" where
  "build_forward_report fixture expected_account expected_binding = (case fixture of
     PDict inputs \<Rightarrow>
       bindE (admitted inputs expected_account expected_binding) (\<lambda>synthetic.
       bindE (build_report inputs) (\<lambda>r. Inr (if synthetic then r else private_report r)))
   | _ \<Rightarrow> Inl (ValueError ''forward_input_invalid''))"

text \<open>What is published of a report.\<close>

definition forward_envelope :: "forward_report \<Rightarrow> pydict" where
  "forward_envelope r = [
     (''schema_version'', PStr (fr_schema r)), (''environment'', PStr (fr_environment r)), (''status'', PStr (fr_status r)),
     (''runtime_status'', PStr ''NOT_PROVEN''), (''anchor_at'', fr_anchor r), (''previous_cutoff'', fr_previous r), (''cutoff'', fr_cutoff r),
     (''scope'', PStr ''spot+funding+flexible_earn+locked_earn''),
     (''uncovered_scopes'', PList [PStr ''margin'', PStr ''futures'', PStr ''options'', PStr ''portfolio_margin'']),
     (''policy'', observation_policy), (''halt_required'', PBool False), (''reason_codes'', reason_list (fr_reasons r))]"

end
