(* ===== verification/Quantity_Text.thy ===== *)
theory Quantity_Text
  imports Forward_Report Decimal_Text
begin

text \<open>
  The quantities of the forward report: what is read is a non-negative amount within the bounds the context of
  100 digits keeps exact, and what is printed reads back with the same value.
\<close>

section \<open>Reading\<close>

lemma representable_small: "num_digits c \<le> 1000 \<Longrightarrow> - 1000 \<le> e \<Longrightarrow> e \<le> 1000 \<Longrightarrow> dec_representable c e"
  by (simp add: dec_representable_def)

lemma quantity_parts:
  assumes "quantity_shape s"
  obtains ip fp where "s = ip @ (if fp = [] then [] else CHR ''.'' # fp)" and "Decimal_Text.digits ip" and "Decimal_Text.digits fp" and "ip \<noteq> []"
    and "length ip \<le> 30" and "length fp \<le> 30"
proof -
  let ?ip = "takeWhile is_digit s" and ?r = "dropWhile is_digit s"
  have s: "s = ?ip @ ?r" and ip: "Decimal_Text.digits ?ip" by (auto simp: Decimal_Text.digits_def list_all_iff dest: set_takeWhileD)
  have q: "1 \<le> length ?ip" "length ?ip \<le> 30"
    "?r = [] \<or> (hd ?r = CHR ''.'' \<and> 1 \<le> length (tl ?r) \<and> length (tl ?r) \<le> 30 \<and> list_all is_digit (tl ?r))"
    using assms by (simp_all add: quantity_shape_def Let_def)
  show thesis
  proof (cases ?r)
    case Nil
    then have "s = ?ip" using s by (metis append_Nil2)
    then show thesis using ip q(1,2) by (intro that [of ?ip "[]"]) auto
  next
    case (Cons c t)
    then have t: "c = CHR ''.''" "Decimal_Text.digits t" "t \<noteq> []" "length t \<le> 30" using q(3) by (auto simp: Decimal_Text.digits_def)
    then have "s = ?ip @ (if t = [] then [] else CHR ''.'' # t)" using s Cons by simp
    then show thesis using ip q(1,2) t by (intro that [of ?ip t]) auto
  qed
qed

lemma quantity_parse:
  assumes "quantity_shape s"
  shows "\<exists>d. dec_parseE s = Inr d \<and> bounded_dec 1 d \<and> 0 \<le> dec_val d \<and> (\<exists>c e. d = Dec False c e \<and> e \<le> 0)"
proof -
  obtain ip fp where p: "s = ip @ (if fp = [] then [] else CHR ''.'' # fp)" "Decimal_Text.digits ip" "Decimal_Text.digits fp" "ip \<noteq> []" "length ip \<le> 30" "length fp \<le> 30"
    using quantity_parts [OF assms] .
  let ?c = "nat_of_digits (ip @ fp)" and ?e = "- int (length fp)"
  have less: "?c < 10 ^ (length ip + length fp)"
    using nat_of_digits_less [of "ip @ fp"] p(2,3) by (auto simp: Decimal_Text.digits_def list_all_iff)
  then have "num_digits ?c \<le> length ip + length fp" using p(4) by (intro num_digits_le) auto
  then have "dec_representable ?c ?e" using p(5,6) by (intro representable_small) auto
  then have parsed: "dec_parseE s = Inr (Dec False ?c ?e)"
    using parse_signed_text [OF p(2-4), of 0 False] p(1) by (simp add: sign_text_def exponent_text_def)
  have "of_nat ?c \<le> (10 :: rat) ^ (length ip + length fp)"
    using less by (metis of_nat_le_iff of_nat_numeral of_nat_power less_imp_le)
  then have "dec_val (Dec False ?c ?e) \<le> 10 ^ length ip"
    by (simp add: signed_int_def ten_minus_nat power_add field_simps)
  also have "\<dots> \<le> (10 :: rat) ^ 30" using p(5) by (intro power_increasing) auto
  finally have "\<bar>dec_val (Dec False ?c ?e)\<bar> \<le> 10 ^ 30" by (simp add: signed_int_def abs_mult)
  moreover have "0 \<le> dec_val (Dec False ?c ?e)" using ten_pos [of ?e] by (simp add: signed_int_def less_imp_le)
  moreover have "- 30 \<le> ?e" using p(6) by simp
  ultimately show ?thesis using parsed unfolding bounded_dec_def by (intro exI [of _ "Dec False ?c ?e"]) auto
qed

lemma quantity_result:
  "(\<exists>m. quantity v = Inl (ValueError m)) \<or> (\<exists>d. quantity v = Inr d \<and> bounded_dec 1 d \<and> 0 \<le> dec_val d)"
  using quantity_parse by (cases v) (auto simp: quantity_def bindE_ensure)

lemma quantity_bounded: "quantity v = Inr d \<Longrightarrow> bounded_dec 1 d \<and> 0 \<le> dec_val d"
  using quantity_result [of v] by auto

section \<open>Sums\<close>

lemma bounded_mono: "bounded_dec n d \<Longrightarrow> n \<le> m \<Longrightarrow> bounded_dec m d"
proof -
  assume "bounded_dec n d" "n \<le> m"
  moreover have "of_nat n * (10 :: rat) ^ 30 \<le> of_nat m * 10 ^ 30" using \<open>n \<le> m\<close> by (intro mult_right_mono) auto
  ultimately show ?thesis by (auto simp: bounded_dec_def intro: order_trans)
qed

lemma bounded_neg:
  assumes "bounded_dec n d" and "n \<le> 1000000"
  obtains d' where "dec_neg 100 d = Inr d'" and "dec_val d' = - dec_val d" and "bounded_dec n d'"
proof -
  obtain s c e where d: "d = Dec s c e" "- 30 \<le> e" "\<bar>dec_val d\<bar> \<le> of_nat n * 10 ^ 30" using assms(1) by (auto simp: bounded_dec_def)
  have "of_nat n \<le> (of_nat 1000000 :: rat)" using assms(2) by (simp only: of_nat_le_iff)
  then have "of_nat n * 10 ^ 30 \<le> (1000000 :: rat) * 10 ^ 30" by (intro mult_right_mono) auto
  then have small: "\<bar>dec_val d\<bar> < 10 ^ 37" using d(3) by simp
  define t where "t = (if c = 0 then False else \<not> s)"
  have val: "dec_val (Dec t c e) = - dec_val d" by (simp add: t_def d(1) signed_int_def)
  have "\<bar>dec_val (Dec t c e)\<bar> < 10 ^ 37" unfolding val using small by (simp only: abs_minus_cancel)
  moreover have "- int 30 \<le> e" using d(2) by simp
  ultimately obtain e' where e': "dec_fix 100 (Dec t c e) = Inr (Dec t c e')" "dec_val (Dec t c e') = dec_val (Dec t c e)" "- int 30 \<le> e'"
    by (rule dec_fix_bounded [of t c e 37 30 100]) simp_all
  have "dec_neg 100 d = dec_fix 100 (Dec t c e)" by (simp add: dec_neg_def d(1) t_def)
  with e' val d(3) show thesis
    by (intro that [of "Dec t c e'"]) (auto simp: bounded_dec_def)
qed

lemma bounded_sum:
  assumes "\<forall>d \<in> set ds. bounded_dec k d" and "bounded_dec n z" and "n + k * length ds \<le> 1000000"
  shows "\<exists>d. dec_sum 100 z ds = Inr d \<and> dec_val d = dec_val z + sum_list (map dec_val ds) \<and> bounded_dec (n + k * length ds) d"
  using assms
proof (induction ds arbitrary: z n)
  case (Cons x ds)
  then have "bounded_dec k x" "n + k \<le> 1000000" by simp_all
  then obtain y where y: "dec_add 100 z x = Inr y" "dec_val y = dec_val z + dec_val x" "bounded_dec (n + k) y"
    using bounded_add Cons.prems(2) by metis
  have "(n + k) + k * length ds \<le> 1000000" using Cons.prems(3) by (simp add: add.assoc)
  from Cons.IH [OF _ y(3) this] Cons.prems(1)
  obtain d where "dec_sum 100 y ds = Inr d" "dec_val d = dec_val y + sum_list (map dec_val ds)" "bounded_dec ((n + k) + k * length ds) d"
    by auto
  with y show ?case by (simp add: dec_sum_def add.assoc)
qed (simp add: dec_sum_def)

section \<open>Printing\<close>

lemma strip_right_zeros:
  obtains n where "s = strip_right c s @ replicate n c" and "strip_right c s = [] \<or> last (strip_right c s) \<noteq> c"
proof -
  let ?t = "takeWhile (\<lambda>x. x = c) (rev s)" and ?d = "dropWhile (\<lambda>x. x = c) (rev s)"
  have "rev s = ?t @ ?d" by simp
  then have "s = rev ?d @ rev ?t" by (metis rev_append rev_rev_ident)
  moreover have "?t = replicate (length ?t) c" by (rule replicate_eqI [symmetric, THEN sym]) (auto dest: set_takeWhileD)
  ultimately have "s = rev ?d @ replicate (length ?t) c" by (metis rev_replicate)
  moreover have "rev ?d = [] \<or> last (rev ?d) \<noteq> c"
    using hd_dropWhile [of "\<lambda>x. x = c" "rev s"] by (auto simp: last_rev)
  ultimately show thesis using that by (simp add: strip_right_def)
qed

lemma strip_right_simps:
  "strip_right c (s @ replicate n c) = strip_right c s" "s \<noteq> [] \<Longrightarrow> last s \<noteq> c \<Longrightarrow> strip_right c s = s"
proof -
  have "dropWhile (\<lambda>x. x = c) (replicate n c @ rev s) = dropWhile (\<lambda>x. x = c) (rev s)" by (induction n) auto
  then show "strip_right c (s @ replicate n c) = strip_right c s" by (simp add: strip_right_def)
  show "s \<noteq> [] \<Longrightarrow> last s \<noteq> c \<Longrightarrow> strip_right c s = s"
    by (cases s rule: rev_cases) (auto simp: strip_right_def)
qed

text \<open>What is left of a positional text when the trailing zeros of its fraction are dropped.\<close>

lemma strip_fraction:
  assumes "Decimal_Text.digits ip" and "ip \<noteq> []" and "Decimal_Text.digits fp" and "fp \<noteq> []"
  obtains fp' n where "strip_right (CHR ''.'') (strip_right (CHR ''0'') (sg @ ip @ CHR ''.'' # fp)) = sg @ ip @ (if fp' = [] then [] else CHR ''.'' # fp')"
    and "fp = fp' @ zeros n"
proof -
  obtain n where n: "fp = strip_right (CHR ''0'') fp @ replicate n (CHR ''0'')"
    and last: "strip_right (CHR ''0'') fp = [] \<or> last (strip_right (CHR ''0'') fp) \<noteq> CHR ''0''"
    using strip_right_zeros .
  let ?f = "strip_right (CHR ''0'') fp"
  have zeros: "strip_right (CHR ''0'') (sg @ ip @ CHR ''.'' # fp) = sg @ ip @ CHR ''.'' # ?f"
    by (subst n, subst strip_right_simps(1) [of _ "sg @ ip @ CHR ''.'' # ?f", simplified append_assoc append_Cons])
      (rule strip_right_simps(2), simp, use last in \<open>cases "?f = []"; simp\<close>)
  have ip: "last ip \<noteq> CHR ''.''" using assms(1,2) by (cases ip rule: rev_cases) auto
  show thesis
  proof (cases "?f = []")
    case True
    have "strip_right (CHR ''.'') ((sg @ ip) @ replicate 1 (CHR ''.'')) = sg @ ip"
      unfolding strip_right_simps(1) using ip assms(2) by (intro strip_right_simps(2)) auto
    then show thesis using True zeros n by (intro that [of "[]" n]) (simp_all add: zeros_def)
  next
    case False
    have "Decimal_Text.digits ?f" using assms(3) n by (metis digits_simps(2))
    then have "last ?f \<noteq> CHR ''.''" using False by (cases ?f rule: rev_cases) auto
    then have "strip_right (CHR ''.'') (sg @ ip @ CHR ''.'' # ?f) = sg @ ip @ CHR ''.'' # ?f"
      using False by (intro strip_right_simps(2)) auto
    then show thesis using False zeros n by (intro that [of ?f n]) (simp_all add: zeros_def)
  qed
qed

lemma bounded_small: "bounded_dec n d \<Longrightarrow> n \<le> 1000000 \<Longrightarrow> \<bar>dec_val d\<bar> < 10 ^ 37"
proof -
  assume "bounded_dec n d" "n \<le> 1000000"
  have "of_nat n \<le> (of_nat 1000000 :: rat)" using \<open>n \<le> 1000000\<close> by (simp only: of_nat_le_iff)
  then have "of_nat n * 10 ^ 30 \<le> (1000000 :: rat) * 10 ^ 30" by (intro mult_right_mono) auto
  then show "\<bar>dec_val d\<bar> < 10 ^ 37" using \<open>bounded_dec n d\<close> by (auto simp: bounded_dec_def)
qed

lemma parse_text_value:
  assumes "Decimal_Text.digits ip" and "Decimal_Text.digits fp" and "ip \<noteq> []" and "length fp \<le> 30"
    and "of_int (signed_int s (nat_of_digits (ip @ fp))) * ten (- int (length fp)) = x" and "\<bar>x\<bar> < 10 ^ 37"
  shows "dec_parseE (sign_text s @ ip @ (if fp = [] then [] else CHR ''.'' # fp)) = Inr (Dec s (nat_of_digits (ip @ fp)) (- int (length fp)))"
proof -
  have "nat_of_digits (ip @ fp) < 10 ^ (37 + 30)"
    using coeff_bound [of s "nat_of_digits (ip @ fp)" "- int (length fp)" 37 30] assms(4-6) by simp
  then have "num_digits (nat_of_digits (ip @ fp)) \<le> 37 + 30" by (intro num_digits_le) auto
  then have "dec_representable (nat_of_digits (ip @ fp)) (0 - int (length fp))" using assms(4) by (intro representable_small) auto
  from parse_signed_text [OF assms(1-3) this, of s] show ?thesis by (simp add: exponent_text_def)
qed

lemma quantity_text_reads:
  assumes "bounded_dec n d" and "n \<le> 1000000"
  shows "\<exists>d'. dec_parseE (quantity_text d) = Inr d' \<and> dec_val d' = dec_val d \<and> bounded_dec n d'"
proof -
  obtain s c e where d: "d = Dec s c e" "- 30 \<le> e" "\<bar>dec_val d\<bar> \<le> of_nat n * 10 ^ 30" using assms(1) by (auto simp: bounded_dec_def)
  note small = bounded_small [OF assms]
  show ?thesis
  proof (cases "c = 0")
    case True
    have "dec_parseE ''0'' = Inr (Dec False 0 0)" by code_simp
    with True d(1) show ?thesis by (auto simp: quantity_text_def bounded_dec_def signed_int_def)
  next
    case False
    define ds where "ds = show_nat c"
    have ds: "Decimal_Text.digits ds" "ds \<noteq> []" "nat_of_digits ds = c" by (simp_all add: ds_def)
    obtain ip fp where p: "positional ds (e + int (length ds)) = ip @ (if fp = [] then [] else CHR ''.'' # fp)"
      "Decimal_Text.digits ip" "Decimal_Text.digits fp" "ip \<noteq> []"
      "nat_of_digits (ip @ fp) = c * 10 ^ nat e" "int (length fp) = max 0 (- e)"
    proof (rule positional_parts [OF ds(1,2), of "e + int (length ds)"])
      fix ip fp
      assume *: "positional ds (e + int (length ds)) = ip @ (if fp = [] then [] else CHR ''.'' # fp)" "Decimal_Text.digits ip"
        "Decimal_Text.digits fp" "ip \<noteq> []" "nat_of_digits (ip @ fp) = nat_of_digits ds * 10 ^ nat (e + int (length ds) - int (length ds))"
        "int (length fp) = max 0 (int (length ds) - (e + int (length ds)))"
      then show thesis using ds(3) by (intro that [of ip fp]) simp_all
    qed
    have format: "dec_format_f d = sign_text s @ ip @ (if fp = [] then [] else CHR ''.'' # fp)"
      using p(1) False by (simp add: dec_format_f_def d(1) Let_def ds_def)
    have value_all: "of_int (signed_int s (nat_of_digits (ip @ fp))) * ten (- int (length fp)) = dec_val d"
      using p(5,6) by (cases "0 \<le> e") (auto simp: d(1) signed_int_def ten_def)
    have no_point: "CHR ''.'' \<notin> set (sign_text s @ ip)"
      using p(2) by (auto simp: sign_text_def Decimal_Text.digits_def list_all_iff)
    have "\<exists>fp' k. quantity_text d = sign_text s @ ip @ (if fp' = [] then [] else CHR ''.'' # fp') \<and> fp = fp' @ zeros k"
    proof (cases "fp = []")
      case True
      then have "quantity_text d = sign_text s @ ip" using format no_point False by (simp add: quantity_text_def d(1) Let_def)
      with True show ?thesis by (intro exI [of _ "[]"] exI [of _ 0]) (simp add: zeros_def)
    next
      case nonempty: False
      then have "quantity_text d = strip_right (CHR ''.'') (strip_right (CHR ''0'') (sign_text s @ ip @ CHR ''.'' # fp))"
        using format False by (simp add: quantity_text_def d(1) Let_def)
      then show ?thesis using strip_fraction [OF p(2,4,3) nonempty, of "sign_text s"] by metis
    qed
    then obtain fp' k where f: "quantity_text d = sign_text s @ ip @ (if fp' = [] then [] else CHR ''.'' # fp')" "fp = fp' @ zeros k" by blast
    have "nat_of_digits (ip @ fp) = nat_of_digits (ip @ fp') * 10 ^ k"
      using nat_of_digits_append [of "ip @ fp'" "zeros k"] nat_of_digits_zeros [of k "[]"] f(2) by (simp add: length_zeros)
    moreover have "ten (- int (length fp)) * 10 ^ k = ten (- int (length fp'))"
      using f(2) ten_minus_nat [of "length fp' + k"] ten_minus_nat [of "length fp'"] by (simp add: length_zeros power_add)
    ultimately have val: "of_int (signed_int s (nat_of_digits (ip @ fp'))) * ten (- int (length fp')) = dec_val d"
      using value_all by (auto simp: signed_int_def ac_simps)
    have len: "length fp' \<le> 30" "Decimal_Text.digits fp'" using f(2) p(3,6) d(2) by (auto simp: length_zeros)
    from parse_text_value [OF p(2) len(2) p(4) len(1) val small] f(1) val d(3) len(1) show ?thesis
      by (auto simp: bounded_dec_def)
  qed
qed

end
