(* ===== verification/Forward_Conservation.thy ===== *)
theory Forward_Conservation
  imports Quantity_Text
begin

text \<open>
  What the inputs of a forward report are worth: receipts cover their rows page by page, no step raises
  anything the report does not catch, amounts stay within the bounds its context keeps exact, and the legs
  of the events add up exactly.
\<close>

section \<open>Receipts\<close>

text \<open>Pages captured one after another between two instants.\<close>

fun captured :: "int \<Rightarrow> int \<Rightarrow> pyval list \<Rightarrow> bool" where
  "captured s f [] = (s \<le> f)"
| "captured s f (p # ps) = (\<exists>a b. parse_time (dget (the_dict p) ''started_at'') = Inr a \<and> parse_time (dget (the_dict p) ''finished_at'') = Inr b
     \<and> s \<le> dt_utc a \<and> dt_utc a \<le> dt_utc b \<and> captured (dt_utc b) f ps)"

definition attests :: "string \<Rightarrow> pyval \<Rightarrow> nat \<Rightarrow> int \<Rightarrow> pyval \<Rightarrow> pyval list \<Rightarrow> bool" where
  "attests binding revision n number page part = (\<exists>d. page = PDict d \<and> dget d ''number'' = PInt number \<and> dget d ''binding'' = PStr binding
     \<and> py_eq (dget d ''revision'') revision \<and> dget d ''count'' = PInt (int (length part)) \<and> dget d ''total'' = PInt (int n)
     \<and> dget d ''content_sha256'' = PStr (sha256 (json_dumps (PList part))))"

lemma plain_between_value: "plain_between lo hi v \<Longrightarrow> v = PInt (plain_value v) \<and> lo \<le> plain_value v \<and> plain_value v \<le> hi"
  by (auto simp: plain_between_def plain_value_def split: pyval.splits)

lemma check_page_Inr:
  assumes "check_page binding revision finished rows (number, last_end, consumed) page = Inr (number', stop, consumed')"
    and "consumed \<le> length rows"
  obtains part start where "attests binding revision (length rows) number page part" and "part = take (length part) (drop consumed rows)"
    and "consumed' = consumed + length part" and "consumed' \<le> length rows" and "number' = number + 1"
    and "parse_time (dget (the_dict page) ''started_at'') = Inr start" and "parse_time (dget (the_dict page) ''finished_at'') = Inr stop"
    and "dt_utc last_end \<le> dt_utc start" and "dt_utc start \<le> dt_utc stop" and "dt_utc stop \<le> dt_utc finished"
proof -
  obtain d where page: "page = PDict d" using assms(1) by (cases page) (auto simp: check_page_def)
  let ?size = "dget d ''size''" and ?count = "dget d ''count''" and ?all = "dget d ''total''"
  obtain start content where c: "dget d ''number'' = PInt number"
    "plain_between 1 1000 ?size" "plain_between 0 (plain_value ?size) ?count" "plain_between 0 10000 ?all"
    "dget d ''binding'' = PStr binding" "py_eq (dget d ''revision'') revision"
    "parse_time (dget d ''started_at'') = Inr start" "parse_time (dget d ''finished_at'') = Inr stop"
    "dt_utc last_end \<le> dt_utc start" "dt_utc start \<le> dt_utc stop" "dt_utc stop \<le> dt_utc finished"
    "plain_value ?all = int (length rows)" "plain_value ?count = min (plain_value ?size) (max 0 (plain_value ?all - int consumed))"
    "page_content_sha256 (take (nat (plain_value ?count)) (drop consumed rows)) = Inr content"
    "dget d ''content_sha256'' = PStr content" "number + 1 = number'" "consumed + nat (plain_value ?count) = consumed'"
    using assms(1) unfolding check_page_def page prod.case pyval.case Let_def bindE_Inr_iff ensure_Inr_iff sum.inject prod.inject
    apply (elim exE conjE)
    apply hypsubst
    apply (rule that)
    apply (assumption | rule refl | (rule sym, assumption))+
    done
  let ?part = "take (nat (plain_value ?count)) (drop consumed rows)"
  note v = plain_between_value [OF c(3)] plain_between_value [OF c(4)]
  have len: "length ?part = nat (plain_value ?count)" using c(12,13) assms(2) by auto
  have content: "content = sha256 (json_dumps (PList ?part))"
    using c(14) by (auto simp: page_content_sha256_def split: if_splits)
  show thesis
  proof (rule that [of ?part start])
    show "attests binding revision (length rows) number page ?part"
      using c(1,5,6,12,15) v len content by (auto simp: attests_def page simp del: json_dumps.simps)
    show "?part = take (length ?part) (drop consumed rows)" by (simp only: len)
    show "consumed' = consumed + length ?part" by (simp only: c(17) [symmetric] len)
    show "consumed' \<le> length rows" using c(12,13) c(17) [symmetric] assms(2) by auto
    show "number' = number + 1" by (rule c(16) [symmetric])
    show "parse_time (dget (the_dict page) ''started_at'') = Inr start" "parse_time (dget (the_dict page) ''finished_at'') = Inr stop"
      using c(7,8) page by (simp_all only: the_dict.simps)
  qed (rule c(9) c(10) c(11))+
qed

lemma pages_cover:
  assumes "foldE (check_page binding revision finished rows) (number, last_end, consumed) pages = Inr (number', stop, consumed')"
    and "consumed \<le> length rows" and "dt_utc last_end \<le> dt_utc finished"
  shows "\<exists>parts. concat parts = take (consumed' - consumed) (drop consumed rows) \<and> consumed \<le> consumed' \<and> consumed' \<le> length rows
    \<and> length parts = length pages \<and> (\<forall>i < length pages. attests binding revision (length rows) (number + int i) (pages ! i) (parts ! i))
    \<and> captured (dt_utc last_end) (dt_utc finished) pages"
  using assms
proof (induction pages arbitrary: number last_end consumed)
  case (Cons page pages)
  obtain n1 e1 c1 where first: "check_page binding revision finished rows (number, last_end, consumed) page = Inr (n1, e1, c1)"
    and rest: "foldE (check_page binding revision finished rows) (n1, e1, c1) pages = Inr (number', stop, consumed')"
    using Cons.prems(1) by (auto simp: bindE_Inr_iff)
  obtain part start where p: "attests binding revision (length rows) number page part" "part = take (length part) (drop consumed rows)"
    "c1 = consumed + length part" "c1 \<le> length rows" "n1 = number + 1"
    "parse_time (dget (the_dict page) ''started_at'') = Inr start" "parse_time (dget (the_dict page) ''finished_at'') = Inr e1"
    "dt_utc last_end \<le> dt_utc start" "dt_utc start \<le> dt_utc e1" "dt_utc e1 \<le> dt_utc finished"
    using check_page_Inr [OF first Cons.prems(2)] .
  obtain parts where q: "concat parts = take (consumed' - c1) (drop c1 rows)" "c1 \<le> consumed'" "consumed' \<le> length rows"
    "length parts = length pages" "\<forall>i < length pages. attests binding revision (length rows) (n1 + int i) (pages ! i) (parts ! i)"
    "captured (dt_utc e1) (dt_utc finished) pages"
    using Cons.IH [OF rest p(4,10)] by blast
  have "consumed' - consumed = length part + (consumed' - c1)" "drop c1 rows = drop (length part) (drop consumed rows)"
    using p(3) q(2) by (simp_all add: add.commute)
  then have "concat (part # parts) = take (consumed' - consumed) (drop consumed rows)"
    using p(2) q(1) by (simp only: concat.simps take_add)
  moreover have "\<forall>i < length (page # pages). attests binding revision (length rows) (number + int i) ((page # pages) ! i) ((part # parts) ! i)"
    using p(1,5) q(5) by (auto simp: nth_Cons add.assoc split: nat.splits)
  ultimately show ?case
    using p(3,6-9) q(2-4,6) by (intro exI [of _ "part # parts"]) auto
qed simp

text \<open>
  C11: a receipt covers its rows. The pages of an accepted receipt, numbered from one, split the rows into
  consecutive parts that together are all of them; every page carries the digest and the size of its part,
  the total, the binding and the revision of the receipt, and the pages were captured one after another
  within the capture of the receipt, which ended no earlier than the cutoff.
\<close>

theorem receipt_pages_cover:
  assumes "check_receipt value binding cutoff rows = Inr ()"
  shows "\<exists>receipt pages parts started finished. value = PDict receipt \<and> dget receipt ''pages'' = PList pages \<and> pages \<noteq> []
    \<and> concat parts = rows \<and> length parts = length pages
    \<and> (\<forall>i < length pages. attests binding (dget receipt ''stable_revision'') (length rows) (1 + int i) (pages ! i) (parts ! i))
    \<and> parse_time (dget receipt ''started_at'') = Inr started \<and> parse_time (dget receipt ''finished_at'') = Inr finished
    \<and> dt_utc cutoff \<le> dt_utc finished \<and> captured (dt_utc started) (dt_utc finished) pages"
proof -
  obtain receipt where val: "value = PDict receipt" using assms by (cases "value") (auto simp: check_receipt_def)
  obtain started finished n1 e1 c1 where c: "parse_time (dget receipt ''started_at'') = Inr started" "parse_time (dget receipt ''finished_at'') = Inr finished"
    "dt_utc started \<le> dt_utc finished" "dt_utc cutoff \<le> dt_utc finished"
    "is_list (dget receipt ''pages'')" "1 \<le> length (the_list (dget receipt ''pages''))"
    "foldE (check_page binding (dget receipt ''stable_revision'') finished rows) (1, started, 0) (the_list (dget receipt ''pages'')) = Inr (n1, e1, c1)"
    "c1 = length rows"
    using assms by (auto simp: check_receipt_def val bindE_Inr_iff ensure_Inr_iff)
  obtain pages where pages: "dget receipt ''pages'' = PList pages" using c(5) by (cases "dget receipt ''pages''") auto
  obtain parts where "concat parts = rows" "length parts = length pages"
    "\<forall>i < length pages. attests binding (dget receipt ''stable_revision'') (length rows) (1 + int i) (pages ! i) (parts ! i)"
    "captured (dt_utc started) (dt_utc finished) pages"
    using pages_cover [OF c(7) _ c(3)] c(8) pages by auto
  with val pages c(1,2,4,6) show ?thesis by auto
qed

text \<open>A receipt of one page, captured at one instant.\<close>

definition sample_source :: string where "sample_source = ''synthetic-source-1''"

definition sample_receipt :: "string \<Rightarrow> string \<Rightarrow> pyval list \<Rightarrow> pyval" where
  "sample_receipt start moment rows = PDict [
     (''binding'', PStr sample_source), (''source_as_of'', PStr moment), (''started_at'', PStr moment), (''finished_at'', PStr moment),
     (''stable_revision'', PStr ''r1''), (''start_exclusive'', PStr start), (''end_inclusive'', PStr moment), (''universe'', PStr ''all_assets''),
     (''pages'', PList [PDict [(''number'', PInt 1), (''size'', PInt 100), (''count'', PInt (int (length rows))), (''total'', PInt (int (length rows))),
        (''binding'', PStr sample_source), (''revision'', PStr ''r1''), (''started_at'', PStr moment), (''finished_at'', PStr moment),
        (''content_sha256'', PStr (sha256 (json_dumps (PList rows))))]])]"

lemma sample_receipt_ok:
  assumes "parse_time (PStr moment) = Inr t" and "length rows \<le> 100" and "json_plain (PList rows)"
  shows "check_receipt (sample_receipt start moment rows) sample_source t rows = Inr ()"
proof -
  have "opaque (PStr ''r1'')" by code_simp
  with assms show ?thesis
    by (simp add: check_receipt_def sample_receipt_def check_page_def page_content_sha256_def plain_between_def plain_value_def Let_def
        del: json_dumps.simps)
qed

definition sample_noon :: "int \<Rightarrow> pydt" where
  "sample_noon d = DT (day_number 2026 11 d * us_per_day + 43200000000) (Some 0)"

lemma sample_noons:
  "parse_time (PStr ''2026-11-03T12:00:00Z'') = Inr (sample_noon 3)" "parse_time (PStr ''2026-11-04T12:00:00Z'') = Inr (sample_noon 4)"
  by code_simp+

theorem receipt_pages_cover_witness:
  "\<exists>pages parts. dget (the_dict (sample_receipt [] ''2026-11-03T12:00:00Z'' [PStr ''row''])) ''pages'' = PList pages \<and> pages \<noteq> []
     \<and> concat parts = [PStr ''row''] \<and> length parts = length pages"
proof -
  have "check_receipt (sample_receipt [] ''2026-11-03T12:00:00Z'' [PStr ''row'']) sample_source (sample_noon 3) [PStr ''row''] = Inr ()"
    using sample_noons(1) by (intro sample_receipt_ok) simp_all
  from receipt_pages_cover [OF this] show ?thesis by (elim exE conjE) auto
qed

section \<open>What can be raised\<close>

text \<open>A step raises only what the report catches.\<close>

definition guarded :: "pyexc + 'a \<Rightarrow> bool" where
  "guarded m = (\<forall>e. m = Inl e \<longrightarrow> forward_error e)"

named_theorems guards

lemma guarded_simps [simp]: "guarded (Inr x)" "guarded (Inl e) \<longleftrightarrow> forward_error e"
  by (simp_all add: guarded_def)

lemma guarded_bind: "guarded m \<Longrightarrow> (\<And>x. m = Inr x \<Longrightarrow> guarded (f x)) \<Longrightarrow> guarded (bindE m f)"
  by (cases m) (auto simp: guarded_def)

lemma forward_errors [simp]: "forward_error (ValueError c)" "forward_error TypeError" "forward_error OverflowError"
  by (simp_all add: forward_error_def)

lemma guarded_require [guards]: "guarded (require b c)"
  by (simp add: ensure_def)

lemma guarded_mapE: "(\<And>x. x \<in> set xs \<Longrightarrow> guarded (f x)) \<Longrightarrow> guarded (mapE f xs)"
  by (induction xs) (auto intro!: guarded_bind)

lemma guarded_foldE:
  assumes "P s" and "\<And>s x. P s \<Longrightarrow> x \<in> set xs \<Longrightarrow> guarded (f s x)" and "\<And>s x s'. P s \<Longrightarrow> x \<in> set xs \<Longrightarrow> f s x = Inr s' \<Longrightarrow> P s'"
  shows "guarded (foldE f s xs)"
  using assms
proof (induction xs arbitrary: s)
  case (Cons x xs)
  have "guarded (f s x)" using Cons.prems(1,2) by simp
  moreover have "guarded (foldE f s' xs)" if "f s x = Inr s'" for s'
  proof (rule Cons.IH)
    show "P s'" by (rule Cons.prems(3) [OF Cons.prems(1) _ that]) simp
  qed (rule Cons.prems(2,3); simp)+
  ultimately show ?case by (simp add: guarded_bind)
qed simp

lemma guarded_time [guards]: "guarded (parse_time v)"
proof (cases v)
  case (PStr s)
  have "guarded (parse_stamp s)" by (simp add: parse_stamp_def from_isoE_def split: option.split)
  moreover have "guarded (to_utc t)" for t by (simp add: to_utc_def)
  ultimately show ?thesis by (auto simp: parse_time_def PStr intro: guarded_bind)
qed (simp_all add: parse_time_def)

lemma guarded_quantity [guards]: "guarded (quantity v)"
  using quantity_result [of v] by auto

lemma guarded_asset [guards]: "guarded (asset_of v)"
  by (auto simp: asset_of_def intro!: guarded_bind guarded_require split: pyval.splits)

lemma guarded_digest [guards]: "guarded (page_content_sha256 rows)"
  by (simp add: page_content_sha256_def del: json_dumps.simps)

lemma guarded_page [guards]: "guarded (check_page binding revision finished rows st page)"
  by (cases st; cases page) (auto simp: check_page_def Let_def intro!: guarded_bind guards)

lemma guarded_receipt [guards]: "guarded (check_receipt value binding cutoff rows)"
  by (cases "value") (auto simp: check_receipt_def intro!: guarded_bind guarded_foldE [where P = "\<lambda>_. True"] guards)

lemma guarded_snapshot [guards]: "guarded (snapshot_wallets value account binding cutoff)"
  by (cases "value") (auto simp: snapshot_wallets_def intro!: guarded_bind guards)

lemma guarded_leg [guards]: "guarded (leg_of w a q)"
  by (auto simp: leg_of_def intro!: guarded_bind guards)

lemma guarded_neg: "quantity v = Inr d \<Longrightarrow> guarded (dec_neg 100 d)"
proof -
  assume "quantity v = Inr d"
  then have "bounded_dec 1 d" using quantity_bounded by blast
  then obtain d' where "dec_neg 100 d = Inr d'" by (rule bounded_neg) simp
  then show ?thesis by simp
qed

lemma guarded_debit: "quantity v = Inr q \<Longrightarrow> guarded (debit_leg d k q)"
  unfolding debit_leg_def by (intro guarded_bind guards guarded_neg)

lemma guarded_legs [guards]: "guarded (legs_of d kind)"
proof -
  have "guarded (transfer_legs d kind)"
    unfolding transfer_legs_def Let_def by (intro guarded_bind guards guarded_simps) (rule guarded_neg)
  moreover have "guarded (exchange_legs d)"
    unfolding exchange_legs_def by (intro guarded_bind guards guarded_simps) (rule guarded_debit, assumption)+
  moreover have "guarded (flow_legs d kind)"
  proof (cases "kind = ''withdrawal''")
    case True
    show ?thesis unfolding flow_legs_def True simp_thms if_True
      by (intro guarded_bind guards guarded_simps) (rule guarded_debit, assumption)+
  next
    case False
    show ?thesis unfolding flow_legs_def using False by (simp only: if_False) (intro guarded_bind guards guarded_simps)
  qed
  ultimately show ?thesis
    unfolding legs_of_def by (intro guarded_bind guards) simp
qed

section \<open>Holdings\<close>

lemma held_update [simp]: "held (AList.update a d b) a' = (if a' = a then d else held b a')"
  by (simp add: held_def update_conv')

lemma held_Nil [simp]: "held [] a = dec_zero"
  by (simp add: held_def)

lemma mapE_each: "mapE f xs = Inr ys \<Longrightarrow> y \<in> set ys \<Longrightarrow> \<exists>x \<in> set xs. f x = Inr y"
  by (induction xs arbitrary: ys) (auto simp: bindE_Inr_iff)

lemma native_amount_ok:
  "guarded (native_amount w b seen d asset) \<and> (\<forall>q seen'. native_amount w b seen d asset = Inr (q, seen') \<longrightarrow> bounded_dec 4 q)"
proof (cases "w = ''spot'' \<or> w = ''funding''")
  case True
  let ?keys = "if w = ''spot'' then [''free'', ''locked''] else [''free'', ''locked'', ''freeze'', ''withdrawing'']"
  have sum: "\<exists>q. dec_sum 100 dec_zero components = Inr q \<and> bounded_dec 4 q" if m: "mapE (\<lambda>k. quantity (dget d k)) ?keys = Inr components" for components
  proof -
    have "\<forall>q \<in> set components. bounded_dec 1 q" using mapE_each [OF m] quantity_bounded by blast
    moreover have "length components \<le> 4" using mapE_length [OF m] by (simp split: if_splits)
    ultimately obtain q where "dec_sum 100 dec_zero components = Inr q" "bounded_dec (0 + 1 * length components) q"
      using bounded_sum [of components 1 0 dec_zero] bounded_zero(1) [of 0] by auto
    with \<open>length components \<le> 4\<close> show ?thesis by (auto intro: bounded_mono)
  qed
  have "guarded (native_amount w b seen d asset)"
    unfolding native_amount_def if_P [OF True]
    by (intro guarded_bind guarded_mapE guards guarded_simps) (use sum in auto)
  moreover have "bounded_dec 4 q" if "native_amount w b seen d asset = Inr (q, seen')" for q seen'
    using that sum True by (auto simp: native_amount_def bindE_Inr_iff)
  ultimately show ?thesis by blast
next
  case False
  have "guarded (native_amount w b seen d asset)"
    unfolding native_amount_def if_not_P [OF False] Let_def by (intro guarded_bind guards guarded_simps)
  moreover have "bounded_dec 4 q" if "native_amount w b seen d asset = Inr (q, seen')" for q seen'
    using that False quantity_bounded bounded_mono [of 1 q 4] by (auto simp: native_amount_def bindE_Inr_iff Let_def)
  ultimately show ?thesis by blast
qed

lemma native_row_ok:
  assumes "\<forall>a. bounded_dec n (held b a)" and "n + 4 \<le> 1000000"
  shows "guarded (native_row w (b, seen) row) \<and> (\<forall>b' seen'. native_row w (b, seen) row = Inr (b', seen') \<longrightarrow> (\<forall>a. bounded_dec (n + 4) (held b' a)))"
proof (cases row)
  case (PDict d)
  have add: "\<exists>x. dec_add 100 (held b a) q = Inr x \<and> bounded_dec (n + 4) x" if "bounded_dec 4 q" for a q
    using bounded_add [of n "held b a" 4 q] assms that by metis
  have keep: "bounded_dec (n + 4) (held b a)" for a using assms(1) bounded_mono by (meson le_add1)
  have "guarded (native_row w (b, seen) row)"
    unfolding native_row_def PDict prod.case pyval.case
  proof (rule guarded_bind [OF guarded_asset], rule guarded_bind [OF native_amount_ok [THEN conjunct1]])
    fix asset st assume st: "native_amount w b seen d asset = Inr st"
    obtain q seen' where q: "st = (q, seen')" by (cases st)
    with st have "bounded_dec 4 q" using native_amount_ok by blast
    with add [of q asset] show "guarded (case st of (amount, seen') \<Rightarrow> bindE (dec_add 100 (held b asset) amount) (\<lambda>new. Inr (AList.update asset new b, seen')))"
      by (auto simp: q)
  qed
  moreover have "\<forall>a. bounded_dec (n + 4) (held b' a)" if r: "native_row w (b, seen) row = Inr (b', seen')" for b' seen'
  proof -
    obtain asset q where q: "native_amount w b seen d asset = Inr (q, seen')"
      and x: "bindE (dec_add 100 (held b asset) q) (\<lambda>new. Inr (AList.update asset new b, seen')) = Inr (b', seen')"
      using r by (auto simp: native_row_def PDict bindE_Inr_iff)
    then obtain x where "dec_add 100 (held b asset) q = Inr x" "bounded_dec (n + 4) x" "b' = AList.update asset x b"
      using add [of q asset] native_amount_ok by (auto simp: bindE_Inr_iff)
    then show ?thesis using keep by simp
  qed
  ultimately show ?thesis by blast
qed (simp_all add: native_row_def)

lemma native_rows_ok:
  assumes "\<forall>a. bounded_dec n (held b a)" and "n + 4 * length rows \<le> 1000000"
  shows "guarded (foldE (native_row w) (b, seen) rows)
    \<and> (\<forall>b' seen'. foldE (native_row w) (b, seen) rows = Inr (b', seen') \<longrightarrow> (\<forall>a. bounded_dec (n + 4 * length rows) (held b' a)))"
  using assms
proof (induction rows arbitrary: n b seen)
  case (Cons row rows)
  have n: "n + 4 \<le> 1000000" "(n + 4) + 4 * length rows \<le> 1000000" using Cons.prems(2) by simp_all
  note ok = native_row_ok [OF Cons.prems(1) n(1), of w seen row]
  have rest: "guarded (foldE (native_row w) st rows) \<and> (\<forall>b' seen'. foldE (native_row w) st rows = Inr (b', seen')
      \<longrightarrow> (\<forall>a. bounded_dec ((n + 4) + 4 * length rows) (held b' a)))" if "native_row w (b, seen) row = Inr st" for st
  proof -
    obtain b1 seen1 where st: "st = (b1, seen1)" by (cases st)
    with ok that have "\<forall>a. bounded_dec (n + 4) (held b1 a)" by blast
    then show ?thesis unfolding st using n(2) by (rule Cons.IH)
  qed
  have "guarded (foldE (native_row w) (b, seen) (row # rows))"
    unfolding foldE.simps using ok rest by (intro guarded_bind) auto
  moreover have "\<forall>a. bounded_dec (n + 4 * length (row # rows)) (held b' a)"
    if "foldE (native_row w) (b, seen) (row # rows) = Inr (b', seen')" for b' seen'
    using that rest by (auto simp: bindE_Inr_iff ac_simps)
  ultimately show ?case by blast
qed simp

text \<open>What is read of a wallet stays within the bounds of the context.\<close>

definition sound_holdings :: "holdings \<Rightarrow> bool" where
  "sound_holdings b = (\<forall>a. bounded_dec 40000 (held b a))"

lemma read_wallet_ok: "guarded (read_wallet v w binding cutoff) \<and> (\<forall>b. read_wallet v w binding cutoff = Inr b \<longrightarrow> sound_holdings b)"
proof (cases v)
  case (PDict d)
  have fold: "guarded (foldE (native_row w) ([], []) (the_list v))
      \<and> (\<forall>b' seen'. foldE (native_row w) ([], []) (the_list v) = Inr (b', seen') \<longrightarrow> sound_holdings b')" if "length (the_list v) \<le> 10000" for v
  proof -
    have "\<forall>a. bounded_dec 0 (held [] a)" using bounded_zero(1) by simp
    moreover have "0 + 4 * length (the_list v) \<le> 1000000" "0 + 4 * length (the_list v) \<le> 40000" using that by simp_all
    ultimately show ?thesis using native_rows_ok [of 0 "[]" "the_list v" w "[]"] bounded_mono unfolding sound_holdings_def by blast
  qed
  have native: "guarded (native_balances v w) \<and> (\<forall>b. native_balances v w = Inr b \<longrightarrow> sound_holdings b)" for v
  proof -
    have "guarded (native_balances v w)"
      unfolding native_balances_def
      by (rule guarded_bind [OF guarded_require], rule guarded_bind) (use fold [of v] in \<open>auto simp: ensure_Inr_iff\<close>)
    moreover have "sound_holdings b" if "native_balances v w = Inr b" for b
      using that fold [of v] by (auto simp: native_balances_def bindE_Inr_iff ensure_Inr_iff)
    ultimately show ?thesis by blast
  qed
  have listed: "sound_holdings b" if m: "mapE listed_balance ps = Inr b" for ps b
  proof -
    have "bounded_dec 1 (snd p)" if p: "p \<in> set b" for p
    proof -
      obtain x where "listed_balance x = Inr p" using mapE_each [OF m p] by blast
      then have "quantity (snd x) = Inr (snd p)" by (auto simp: listed_balance_def bindE_Inr_iff)
      then show ?thesis using quantity_bounded by blast
    qed
    then have "bounded_dec 1 (held b a)" for a
      using bounded_zero(1) by (auto simp: held_def dest: map_of_SomeD split: option.split)
    then show ?thesis using bounded_mono [of 1 _ 40000] by (auto simp: sound_holdings_def)
  qed
  have "guarded (listed_balance p)" for p unfolding listed_balance_def by (intro guarded_bind guards guarded_simps)
  then have "guarded (read_wallet v w binding cutoff)"
    unfolding read_wallet_def PDict pyval.case using native
    by (auto intro!: guarded_bind guards guarded_mapE)
  moreover have "sound_holdings b" if "read_wallet v w binding cutoff = Inr b" for b
    using that native listed by (auto simp: read_wallet_def PDict bindE_Inr_iff split: if_splits)
  ultimately show ?thesis by blast
qed (simp_all add: read_wallet_def)

section \<open>Movements\<close>

definition sound_legs :: "leg list \<Rightarrow> bool" where
  "sound_legs ls = (\<forall>l \<in> set ls. bounded_dec 1 (lg_quantity l) \<and> lg_wallet l \<in> set wallets)"

lemma sound_legs_simps [simp]:
  "sound_legs []" "sound_legs (ls @ ls') \<longleftrightarrow> sound_legs ls \<and> sound_legs ls'"
  "sound_legs (l # ls) \<longleftrightarrow> bounded_dec 1 (lg_quantity l) \<and> lg_wallet l \<in> set wallets \<and> sound_legs ls"
  by (auto simp: sound_legs_def)

lemma leg_of_Inr: "leg_of w a q = Inr l \<Longrightarrow> lg_quantity l = q \<and> lg_wallet l \<in> set wallets"
  by (auto simp: leg_of_def bindE_Inr_iff ensure_Inr_iff)

lemma neg_quantity: "quantity v = Inr q \<Longrightarrow> dec_neg 100 q = Inr m \<Longrightarrow> bounded_dec 1 m \<and> dec_val m = - dec_val q"
proof -
  assume q: "quantity v = Inr q" and m: "dec_neg 100 q = Inr m"
  have "bounded_dec 1 q" using quantity_bounded q by blast
  then obtain m' where "dec_neg 100 q = Inr m'" "dec_val m' = - dec_val q" "bounded_dec 1 m'" by (rule bounded_neg) simp
  with m show ?thesis by simp
qed

lemma debit_Inr: "quantity v = Inr q \<Longrightarrow> debit_leg d k q = Inr l \<Longrightarrow> bounded_dec 1 (lg_quantity l) \<and> lg_wallet l \<in> set wallets"
proof -
  assume q: "quantity v = Inr q" and l: "debit_leg d k q = Inr l"
  then obtain m where "dec_neg 100 q = Inr m" "leg_of (dget d ''wallet'') (dget d k) m = Inr l" by (auto simp: debit_leg_def bindE_Inr_iff)
  with neg_quantity [OF q] leg_of_Inr show ?thesis by metis
qed

lemma transfer_legs_Inr:
  assumes "transfer_legs d kind = Inr ls"
  obtains amount debit credit where "ls = [debit, credit]" and "bounded_dec 1 amount" and "bounded_dec 1 (lg_quantity debit)"
    and "lg_quantity credit = amount" and "dec_val (lg_quantity debit) = - dec_val amount" and "lg_asset debit = lg_asset credit"
    and "lg_wallet debit \<in> set wallets" and "lg_wallet credit \<in> set wallets"
proof -
  obtain amount asset minus debit credit where l: "quantity (dget d ''quantity'') = Inr amount" "dec_neg 100 amount = Inr minus"
    "leg_of (dget d ''source_wallet'') (PStr asset) minus = Inr debit" "leg_of (dget d ''destination_wallet'') (PStr asset) amount = Inr credit"
    "ls = [debit, credit]"
    using assms by (auto simp: transfer_legs_def bindE_Inr_iff Let_def)
  have "lg_asset debit = asset" "lg_asset credit = asset"
    using l(3,4) by (auto simp: leg_of_def asset_of_def bindE_Inr_iff ensure_Inr_iff)
  then show thesis
    using l(5) leg_of_Inr [OF l(3)] leg_of_Inr [OF l(4)] neg_quantity [OF l(1,2)] quantity_bounded [OF l(1)]
    by (intro that [of debit credit amount]) simp_all
qed

lemma legs_ok: "legs_of d kind = Inr ls \<Longrightarrow> length ls \<le> 3 \<and> sound_legs ls"
proof -
  have t: "length ls \<le> 3 \<and> sound_legs ls" if "transfer_legs d kind = Inr ls" for ls
    by (rule transfer_legs_Inr [OF that]) simp
  have x: "length ls \<le> 3 \<and> sound_legs ls" if e: "exchange_legs d = Inr ls" for ls
  proof -
    obtain q0 q1 q2 a b c where "quantity (dget d ''from_quantity'') = Inr q0" "quantity (dget d ''to_quantity'') = Inr q1"
      "quantity (dget d ''fee_quantity'') = Inr q2" "debit_leg d ''from_asset'' q0 = Inr a" "leg_of (dget d ''wallet'') (dget d ''to_asset'') q1 = Inr b"
      "debit_leg d ''fee_asset'' q2 = Inr c" "ls = [a, b, c]"
      using e by (auto simp: exchange_legs_def bindE_Inr_iff)
    then show ?thesis using debit_Inr leg_of_Inr quantity_bounded by simp
  qed
  have f: "length ls \<le> 3 \<and> sound_legs ls" if e: "flow_legs d kind = Inr ls" for ls
  proof (cases "kind = ''withdrawal''")
    case True
    then obtain q0 q2 a c where "quantity (dget d ''quantity'') = Inr q0" "quantity (dget d ''fee_quantity'') = Inr q2"
      "debit_leg d ''asset'' q0 = Inr a" "debit_leg d ''fee_asset'' q2 = Inr c" "ls = [a, c]"
      using e by (auto simp: flow_legs_def bindE_Inr_iff)
    then show ?thesis using debit_Inr by simp
  next
    case False
    then obtain q b where "quantity (dget d ''quantity'') = Inr q" "leg_of (dget d ''wallet'') (dget d ''asset'') q = Inr b" "ls = [b]"
      using e by (auto simp: flow_legs_def bindE_Inr_iff)
    then show ?thesis using leg_of_Inr quantity_bounded by simp
  qed
  assume "legs_of d kind = Inr ls"
  then show ?thesis using t x f by (auto simp: legs_of_def bindE_Inr_iff split: if_splits)
qed

text \<open>The net movement of an asset in a wallet.\<close>

definition movement :: "leg list \<Rightarrow> string \<Rightarrow> string \<Rightarrow> rat" where
  "movement ls w a = sum_list (map (\<lambda>l. if lg_wallet l = w \<and> lg_asset l = a then dec_val (lg_quantity l) else 0) ls)"

lemma movement_simps [simp]: "movement [] w a = 0"
  "movement (l # ls) w a = (if lg_wallet l = w \<and> lg_asset l = a then dec_val (lg_quantity l) else 0) + movement ls w a"
  by (simp_all add: movement_def)

lemma delta_update [simp]: "delta_at (AList.update (w, a) d ds) w' a' = (if w' = w \<and> a' = a then d else delta_at ds w' a')"
  by (simp add: delta_at_def update_conv')

lemma add_legs:
  assumes "sound_legs ls" and "\<forall>w a. bounded_dec n (delta_at ds w a)" and "n + length ls \<le> 1000000"
  shows "\<exists>ds'. foldE add_leg ds ls = Inr ds' \<and> (\<forall>w a. bounded_dec (n + length ls) (delta_at ds' w a)
    \<and> dec_val (delta_at ds' w a) = dec_val (delta_at ds w a) + movement ls w a)"
  using assms
proof (induction ls arbitrary: ds n)
  case (Cons l ls)
  have b: "bounded_dec n (delta_at ds (lg_wallet l) (lg_asset l))" "bounded_dec 1 (lg_quantity l)" "n + 1 \<le> 1000000"
    "(n + 1) + length ls \<le> 1000000" "sound_legs ls"
    using Cons.prems by auto
  obtain d where d: "dec_add 100 (delta_at ds (lg_wallet l) (lg_asset l)) (lg_quantity l) = Inr d"
    "dec_val d = dec_val (delta_at ds (lg_wallet l) (lg_asset l)) + dec_val (lg_quantity l)" "bounded_dec (n + 1) d"
    using b(1-3) by (rule bounded_add)
  let ?ds = "AList.update (lg_wallet l, lg_asset l) d ds"
  have "\<forall>w a. bounded_dec (n + 1) (delta_at ?ds w a)"
    using d(3) Cons.prems(2) bounded_mono [of n _ "n + 1"] by simp
  from Cons.IH [OF b(5) this b(4)] obtain ds' where "foldE add_leg ?ds ls = Inr ds'"
    "\<forall>w a. bounded_dec ((n + 1) + length ls) (delta_at ds' w a) \<and> dec_val (delta_at ds' w a) = dec_val (delta_at ?ds w a) + movement ls w a"
    by blast
  moreover have "add_leg ds l = Inr ?ds" using d(1) by (simp add: add_leg_def)
  moreover have "(n + 1) + length ls = n + length (l # ls)" by simp
  ultimately have "foldE add_leg ds (l # ls) = Inr ds'" "\<forall>w a. bounded_dec (n + length (l # ls)) (delta_at ds' w a)
      \<and> dec_val (delta_at ds' w a) = dec_val (delta_at ds w a) + movement (l # ls) w a"
    using d(2) by (auto simp del: length_Cons)
  then show ?case by blast
qed simp

end
