(* ===== verification/Forward_Safety.thy ===== *)
theory Forward_Safety
  imports Forward_Conservation
begin

text \<open>
  The whole report: it is produced for every admitted input, and when it gives no reason against itself
  every wallet balances, asset by asset, with the legs of events whose evidence is complete.
\<close>

section \<open>Events\<close>

definition event_legs :: "pyval \<Rightarrow> pyexc + leg list" where
  "event_legs e = legs_of (the_dict e) (the_str (dget (the_dict e) ''kind''))"

definition occurs :: "pydt \<Rightarrow> pydt \<Rightarrow> pyval \<Rightarrow> bool" where
  "occurs previous cutoff e = (\<exists>t. parse_time (dget (the_dict e) ''at'') = Inr t \<and> dt_utc previous < dt_utc t \<and> dt_utc t \<le> dt_utc cutoff)"

text \<open>One event: it is read into legs, or the batch is marked and its legs stay as they were.\<close>

lemma read_event_cases:
  obtains (read) st' ls surface where "read_event previous cutoff st e = Inr st'" and "event_legs e = Inr ls" and "occurs previous cutoff e"
      and "er_legs st' = er_legs st @ ls" and "er_rows st' = er_rows st @ [(surface, e)]" and "er_unproven st' = er_unproven st"
  | (refused) st' where "read_event previous cutoff st e = Inr st'" and "er_unproven st'" and "er_legs st' = er_legs st"
proof -
  consider (odd) "read_event previous cutoff st e = Inr (st\<lparr>er_unproven := True\<rparr>)"
    | (known) d kind surface where "e = PDict d" "dget d ''kind'' = PStr kind" "map_of surface_by_kind kind = Some surface"
    by (cases e; cases "dget (the_dict e) ''kind''"; cases "map_of surface_by_kind (the_str (dget (the_dict e) ''kind''))")
      (auto simp: read_event_def)
  then show thesis
  proof cases
    case odd
    then show thesis by (intro refused [of "st\<lparr>er_unproven := True\<rparr>"]) simp_all
  next
    case (known d kind surface)
    let ?read = "bindE (parse_time (dget d ''at'')) (\<lambda>moment.
        bindE (require (dt_utc previous < dt_utc moment \<and> dt_utc moment \<le> dt_utc cutoff) ''event_outside_window'') (\<lambda>_. legs_of d kind))"
    have g: "guarded ?read" by (intro guarded_bind guards)
    let ?fresh = "opaque (dget d ''id'') \<and> (surface, the_str (dget d ''id'')) \<notin> set (er_seen st)"
    show thesis
    proof (cases "?fresh \<and> (\<exists>ls. ?read = Inr ls)")
      case True
      then obtain ls where ls: "?read = Inr ls" by blast
      then obtain t where "parse_time (dget d ''at'') = Inr t" "dt_utc previous < dt_utc t" "dt_utc t \<le> dt_utc cutoff" "legs_of d kind = Inr ls"
        by (auto simp: bindE_Inr_iff ensure_Inr_iff)
      then have "event_legs e = Inr ls" "occurs previous cutoff e" by (simp_all add: event_legs_def occurs_def known)
      with True ls show thesis
        by (intro read [of "st\<lparr>er_rows := er_rows st @ [(surface, e)], er_seen := (surface, the_str (dget d ''id'')) # er_seen st, er_legs := er_legs st @ ls\<rparr>"])
          (simp_all add: read_event_def known Let_def)
    next
      case False
      with g have "\<exists>st'. read_event previous cutoff st e = Inr st' \<and> er_unproven st' \<and> er_legs st' = er_legs st"
        by (cases ?read) (auto simp: read_event_def known Let_def)
      then show thesis using refused by blast
    qed
  qed
qed

lemma read_events_fold:
  "\<exists>st'. foldE (read_event previous cutoff) st es = Inr st' \<and> (\<exists>ls. er_legs st' = er_legs st @ ls \<and> sound_legs ls \<and> length ls \<le> 3 * length es)
    \<and> (\<not> er_unproven st' \<longrightarrow> \<not> er_unproven st \<and> (\<forall>e \<in> set es. occurs previous cutoff e)
         \<and> (\<exists>lss. mapE event_legs es = Inr lss \<and> er_legs st' = er_legs st @ concat lss))"
proof (induction es arbitrary: st)
  case (Cons e es)
  show ?case
  proof (cases rule: read_event_cases [of previous cutoff st e])
    case (read st1 ls surface)
    have "length ls \<le> 3 \<and> sound_legs ls" using read(2) legs_ok by (simp add: event_legs_def)
    with read Cons.IH [of st1] show ?thesis by (fastforce simp: bindE_Inr_iff)
  next
    case (refused st1)
    with Cons.IH [of st1] show ?thesis by auto
  qed
qed simp

lemma read_events_ok:
  obtains why er where "read_events previous cutoff events = Inr (why, er)" and "sound_legs (er_legs er)" and "length (er_legs er) \<le> 30000"
    and "why = [] \<longrightarrow> is_list events \<and> (\<forall>e \<in> set (the_list events). occurs previous cutoff e)
      \<and> (\<exists>lss. mapE event_legs (the_list events) = Inr lss \<and> er_legs er = concat lss)"
proof (cases "\<not> is_list events \<or> 10000 < length (the_list events)")
  case True
  then show thesis by (intro that) (auto simp: read_events_def no_events_def)
next
  case False
  obtain er ls where er: "foldE (read_event previous cutoff) no_events (the_list events) = Inr er"
    "er_legs er = er_legs no_events @ ls" "sound_legs ls" "length ls \<le> 3 * length (the_list events)"
    "\<not> er_unproven er \<Longrightarrow> (\<forall>e \<in> set (the_list events). occurs previous cutoff e)
         \<and> (\<exists>lss. mapE event_legs (the_list events) = Inr lss \<and> er_legs er = er_legs no_events @ concat lss)"
    using read_events_fold [of previous cutoff no_events "the_list events"] by blast
  let ?why = "if er_unproven er then [''native_event_unproven''] else []"
  have "read_events previous cutoff events = Inr (?why, er)" using False er(1) by (auto simp: read_events_def)
  moreover have "sound_legs (er_legs er)" "length (er_legs er) \<le> 30000" using er(2-4) False by (simp_all add: no_events_def)
  ultimately show thesis using False er(5) by (intro that) (auto simp: no_events_def split: if_splits)
qed

section \<open>Sides\<close>

definition sound_side :: "side \<Rightarrow> bool" where
  "sound_side s = (\<forall>b \<in> snd ` set s. sound_holdings b)"

lemma sound_side_held: "sound_side s \<Longrightarrow> map_of s w = Some b \<Longrightarrow> bounded_dec 40000 (held b a)"
  by (force simp: sound_side_def sound_holdings_def dest: map_of_SomeD)

lemma read_side_wallet_cases:
  obtains (read) b where "read_side_wallet name found binding cutoff (why, s) w = Inr (why, s @ [(w, b)])"
      and "read_wallet (dget found w) w binding cutoff = Inr b" and "sound_holdings b"
  | (refused) "read_side_wallet name found binding cutoff (why, s) w = Inr (why @ [name @ ''_'' @ w @ ''_unproven''], s)"
  using read_wallet_ok [of "dget found w" w binding cutoff]
  by (cases "read_wallet (dget found w) w binding cutoff") (auto simp: read_side_wallet_def guarded_def)

lemma read_side_fold:
  "\<exists>why' s'. foldE (read_side_wallet name found binding cutoff) (why, s) ws = Inr (why', s') \<and> (sound_side s \<longrightarrow> sound_side s')
    \<and> (why' = [] \<longrightarrow> why = [] \<and> (\<exists>bs. s' = s @ zip ws bs \<and> length bs = length ws
         \<and> list_all2 (\<lambda>w b. read_wallet (dget found w) w binding cutoff = Inr b) ws bs))"
proof (induction ws arbitrary: why s)
  case (Cons w ws)
  show ?case
  proof (cases rule: read_side_wallet_cases [of name found binding cutoff why s w])
    case (read b)
    obtain why' s' where r: "foldE (read_side_wallet name found binding cutoff) (why, s @ [(w, b)]) ws = Inr (why', s')"
      "sound_side (s @ [(w, b)]) \<longrightarrow> sound_side s'"
      "why' = [] \<Longrightarrow> why = [] \<and> (\<exists>bs. s' = (s @ [(w, b)]) @ zip ws bs \<and> length bs = length ws
         \<and> list_all2 (\<lambda>w b. read_wallet (dget found w) w binding cutoff = Inr b) ws bs)"
      using Cons.IH [of why "s @ [(w, b)]"] by blast
    have "why = [] \<and> (\<exists>bs. s' = s @ zip (w # ws) bs \<and> length bs = length (w # ws)
         \<and> list_all2 (\<lambda>w b. read_wallet (dget found w) w binding cutoff = Inr b) (w # ws) bs)" if clean: "why' = []"
    proof -
      obtain bs where "why = []" "s' = (s @ [(w, b)]) @ zip ws bs" "length bs = length ws"
        "list_all2 (\<lambda>w b. read_wallet (dget found w) w binding cutoff = Inr b) ws bs"
        using r(3) [OF clean] by blast
      with read(2) show ?thesis by (intro conjI exI [of _ "b # bs"]) simp_all
    qed
    moreover have "sound_side s \<longrightarrow> sound_side s'" using r(2) read(3) by (auto simp: sound_side_def)
    ultimately show ?thesis using read(1) r(1) by simp
  next
    case refused
    obtain why' s' where r: "foldE (read_side_wallet name found binding cutoff) (why @ [name @ ''_'' @ w @ ''_unproven''], s) ws = Inr (why', s')"
      "sound_side s \<longrightarrow> sound_side s'" "why' \<noteq> []"
      using Cons.IH [of "why @ [name @ ''_'' @ w @ ''_unproven'']" s] by auto
    with refused show ?thesis by simp
  qed
qed simp

lemma read_side_ok:
  obtains why s where "read_side inputs account binding name cutoff = Inr (why, s)" and "sound_side s"
    and "why = [] \<longrightarrow> (\<exists>found. snapshot_wallets (dget inputs name) account binding cutoff = Inr found
      \<and> (\<forall>w \<in> set wallets. \<exists>b. map_of s w = Some b \<and> read_wallet (dget found w) w binding cutoff = Inr b))"
proof (cases "snapshot_wallets (dget inputs name) account binding cutoff")
  case (Inl e)
  then have "forward_error e" using guarded_snapshot [of "dget inputs name" account binding cutoff] by simp
  with Inl show thesis by (intro that) (auto simp: read_side_def sound_side_def)
next
  case (Inr found)
  obtain why s where r: "foldE (read_side_wallet name found binding cutoff) ([], []) wallets = Inr (why, s)" "sound_side [] \<longrightarrow> sound_side s"
    "why = [] \<Longrightarrow> \<exists>bs. s = [] @ zip wallets bs \<and> length bs = length wallets
         \<and> list_all2 (\<lambda>w b. read_wallet (dget found w) w binding cutoff = Inr b) wallets bs"
    using read_side_fold [of name found binding cutoff "[]" "[]" wallets] by blast
  show thesis
  proof (rule that)
    show "read_side inputs account binding name cutoff = Inr (why, s)" using Inr r(1) by (simp add: read_side_def)
    show "sound_side s" using r(2) by (simp add: sound_side_def)
    show "why = [] \<longrightarrow> (\<exists>found. snapshot_wallets (dget inputs name) account binding cutoff = Inr found
      \<and> (\<forall>w \<in> set wallets. \<exists>b. map_of s w = Some b \<and> read_wallet (dget found w) w binding cutoff = Inr b))"
    proof
      assume clean: "why = []"
      obtain bs where "s = zip wallets bs" "list_all2 (\<lambda>w b. read_wallet (dget found w) w binding cutoff = Inr b) wallets bs"
        using r(3) [OF clean] by auto
      then show "\<exists>found. snapshot_wallets (dget inputs name) account binding cutoff = Inr found
        \<and> (\<forall>w \<in> set wallets. \<exists>b. map_of s w = Some b \<and> read_wallet (dget found w) w binding cutoff = Inr b)" using Inr by (auto simp: wallets_def list_all2_Cons1)
    qed
  qed
qed

section \<open>Comparing\<close>

lemma mapE_total: "\<forall>x \<in> set xs. \<exists>y. f x = Inr y \<and> P x y \<Longrightarrow> \<exists>ys. mapE f xs = Inr ys \<and> list_all2 P xs ys"
  by (induction xs) fastforce+

lemma residual_ok:
  assumes "sound_holdings b0" and "sound_holdings b1" and "bounded_dec 30000 (delta_at ds w a)"
  shows "\<exists>d. residual b0 b1 ds w a = Inr d \<and> bounded_dec 110000 d
    \<and> dec_val d = dec_val (held b1 a) - dec_val (held b0 a) - dec_val (delta_at ds w a)"
proof -
  have b: "bounded_dec 40000 (held b1 a)" "bounded_dec 40000 (held b0 a)" using assms by (simp_all add: sound_holdings_def)
  obtain d where d: "dec_sub 100 (held b1 a) (held b0 a) = Inr d" "dec_val d = dec_val (held b1 a) - dec_val (held b0 a)"
    "bounded_dec (40000 + 40000) d"
    using b by (rule bounded_sub) simp
  obtain r where "dec_sub 100 d (delta_at ds w a) = Inr r" "dec_val r = dec_val d - dec_val (delta_at ds w a)" "bounded_dec ((40000 + 40000) + 30000) r"
    using d(3) assms(3) by (rule bounded_sub) simp
  with d show ?thesis by (simp add: residual_def)
qed

definition sound_deltas :: "deltas \<Rightarrow> bool" where
  "sound_deltas ds = (\<forall>w a. bounded_dec 30000 (delta_at ds w a))"

definition sound_residuals :: "holdings option \<Rightarrow> bool" where
  "sound_residuals rs = (\<forall>r. rs = Some r \<longrightarrow> (\<forall>a. bounded_dec 110000 (held r a)))"

text \<open>A wallet without a reason against it, where both sides and the events were read, balances.\<close>

definition balances :: "holdings \<Rightarrow> holdings \<Rightarrow> deltas \<Rightarrow> string \<Rightarrow> string list \<Rightarrow> bool" where
  "balances b0 b1 ds w universe = (set universe \<subseteq> set (map fst b0) \<and> set universe \<subseteq> set (map fst b1)
     \<and> (\<forall>a \<in> set universe. dec_val (held b1 a) = dec_val (held b0 a) + dec_val (delta_at ds w a)))"

lemma held_zip: "length xs = length ys \<Longrightarrow> held (zip xs ys) a \<in> insert dec_zero (set ys)"
  by (induction xs ys rule: list_induct2) (auto simp: held_def)

lemma zero_val: "bounded_dec n d \<Longrightarrow> dec_is_zero d \<Longrightarrow> dec_val d = 0"
  by (auto simp: bounded_dec_def signed_int_def)

lemma compare_wallet_ok:
  assumes "sound_side opening" and "sound_side closing" and "sound_deltas ds"
  shows "\<exists>why row rs. compare_wallet opening closing ds universe proven w = Inr (why, row, rs) \<and> sound_residuals rs
    \<and> (\<forall>b0 b1. why = [] \<longrightarrow> proven \<longrightarrow> map_of opening w = Some b0 \<longrightarrow> map_of closing w = Some b1 \<longrightarrow> balances b0 b1 ds w universe)"
proof (cases "\<exists>b0 b1. map_of opening w = Some b0 \<and> map_of closing w = Some b1 \<and> proven
    \<and> set universe \<subseteq> set (map fst b0) \<and> set universe \<subseteq> set (map fst b1)")
  case True
  then obtain b0 b1 where b: "map_of opening w = Some b0" "map_of closing w = Some b1" "proven"
    "set universe \<subseteq> set (map fst b0)" "set universe \<subseteq> set (map fst b1)" by blast
  have sound: "sound_holdings b0" "sound_holdings b1"
    using assms(1,2) b(1,2) by (auto simp: sound_side_def dest!: map_of_SomeD)
  let ?P = "\<lambda>a d. bounded_dec 110000 d \<and> dec_val d = dec_val (held b1 a) - dec_val (held b0 a) - dec_val (delta_at ds w a)"
  obtain rs where rs: "mapE (residual b0 b1 ds w) universe = Inr rs" "list_all2 ?P universe rs"
    using mapE_total [of universe "residual b0 b1 ds w" ?P] residual_ok [OF sound] assms(3) unfolding sound_deltas_def by blast
  have len: "length universe = length rs" using rs(2) by (rule list_all2_lengthD)
  have "\<forall>d \<in> set rs. bounded_dec 110000 d" using rs(2) by (auto simp: list_all2_conv_all_nth in_set_conv_nth)
  then have "bounded_dec 110000 (held (zip universe rs) a)" for a
    using held_zip [OF len, of a] bounded_zero(1) [of 110000] by auto
  then have s: "sound_residuals (Some (zip universe rs))" by (simp add: sound_residuals_def)
  have zero: "balances b0 b1 ds w universe" if z: "list_all dec_is_zero rs"
  proof -
    have "dec_val (held b1 a) = dec_val (held b0 a) + dec_val (delta_at ds w a)" if a: "a \<in> set universe" for a
    proof -
      obtain i where i: "i < length universe" "universe ! i = a" using a by (auto simp: in_set_conv_nth)
      then have "?P a (rs ! i)" "dec_is_zero (rs ! i)" using rs(2) z len by (auto simp: list_all2_conv_all_nth list_all_length)
      then show ?thesis using zero_val [of 110000 "rs ! i"] by linarith
    qed
    then show ?thesis using b(4,5) by (simp add: balances_def)
  qed
  show ?thesis
    using b rs(1) s zero by (cases "list_all dec_is_zero rs") (simp_all add: compare_wallet_def Let_def)
next
  case False
  show ?thesis
  proof (cases "(map_of opening w, map_of closing w)")
    case (Pair x y)
    with False show ?thesis
      by (cases x; cases y; cases proven) (auto simp: compare_wallet_def Let_def sound_residuals_def)
  qed
qed

lemma side_sum_ok: "sound_side s \<Longrightarrow> \<exists>d. side_sum s a = Inr d"
proof -
  assume s: "sound_side s"
  let ?ds = "map (\<lambda>w. case map_of s w of Some b \<Rightarrow> held b a | None \<Rightarrow> dec_zero) wallets"
  have "\<forall>d \<in> set ?ds. bounded_dec 40000 d"
    using sound_side_held [OF s] bounded_zero(1) [of 40000] by (auto split: option.split)
  moreover have "length ?ds = 4" by (simp add: wallets_def)
  ultimately show ?thesis using bounded_sum [of ?ds 40000 0 dec_zero] bounded_zero(1) [of 0] unfolding side_sum_def by auto
qed

lemma combined_asset_ok:
  assumes "sound_side opening" and "sound_side closing" and "sound_deltas ds"
    and "\<forall>p \<in> set residuals. \<forall>a. bounded_dec 110000 (held (snd p) a)" and "length residuals = 4"
  shows "\<exists>p. combined_asset opening closing ds residuals a = Inr p"
proof -
  obtain o0 c0 where sides: "side_sum opening a = Inr o0" "side_sum closing a = Inr c0" using side_sum_ok assms(1,2) by blast
  have "\<forall>d \<in> set (map (\<lambda>w. delta_at ds w a) wallets). bounded_dec 30000 d" using assms(3) by (auto simp: sound_deltas_def)
  moreover have "length wallets = 4" by (simp add: wallets_def)
  ultimately obtain m where m: "dec_sum 100 dec_zero (map (\<lambda>w. delta_at ds w a) wallets) = Inr m"
    using bounded_sum [of "map (\<lambda>w. delta_at ds w a) wallets" 30000 0 dec_zero] bounded_zero(1) [of 0] by auto
  have "\<forall>p \<in> set residuals. \<exists>d. dec_parseE (quantity_text (held (snd p) a)) = Inr d \<and> bounded_dec 110000 d"
    using quantity_text_reads [of 110000] assms(4) by fastforce
  from mapE_total [OF this] obtain rs where rs: "mapE (\<lambda>p. dec_parseE (quantity_text (held (snd p) a))) residuals = Inr rs"
    "list_all2 (\<lambda>p. bounded_dec 110000) residuals rs" by blast
  have "\<forall>d \<in> set rs. bounded_dec 110000 d" "length rs = 4"
    using rs(2) assms(5) by (auto simp: list_all2_conv_all_nth in_set_conv_nth)
  then obtain r where "dec_sum 100 dec_zero rs = Inr r" using bounded_sum [of rs 110000 0 dec_zero] bounded_zero(1) [of 0] by auto
  with sides m rs(1) show ?thesis by (simp add: combined_asset_def)
qed

lemma combine_ok:
  assumes "sound_side opening" and "sound_side closing" and "sound_deltas ds"
    and "\<forall>p \<in> set residuals. sound_residuals (snd p)" and "length residuals = 4"
  shows "\<exists>v. combine opening closing ds universe residuals = Inr v"
proof (cases "list_all (\<lambda>p. snd p \<noteq> None) residuals")
  case True
  let ?rs = "map (\<lambda>p. (fst p, the (snd p))) residuals"
  have "\<forall>p \<in> set ?rs. \<forall>a. bounded_dec 110000 (held (snd p) a)"
    using True assms(4) by (fastforce simp: sound_residuals_def list_all_iff)
  then have "\<forall>a \<in> set universe. \<exists>p. combined_asset opening closing ds ?rs a = Inr p \<and> True"
    using combined_asset_ok [OF assms(1-3), of ?rs] assms(5) by auto
  from mapE_total [OF this] True show ?thesis by (auto simp: combine_def)
qed (auto simp: combine_def)

section \<open>The report\<close>

lemma coverage_ok:
  "\<exists>why. foldE (coverage_reason receipts binding previous cutoff er) why0 ss = Inr why
    \<and> (why = [] \<longrightarrow> why0 = [] \<and> (\<forall>s \<in> set ss. check_coverage receipts binding previous cutoff er s = Inr ()))"
proof (induction ss arbitrary: why0)
  case (Cons s ss)
  have g: "guarded (check_coverage receipts binding previous cutoff er s)"
    unfolding check_coverage_def Let_def by (intro guarded_bind guards)
  show ?case
  proof (cases "check_coverage receipts binding previous cutoff er s")
    case (Inl e)
    with g have "coverage_reason receipts binding previous cutoff er why0 s = Inr (why0 @ [s @ ''_coverage_unproven''])"
      by (simp add: coverage_reason_def)
    with Cons.IH [of "why0 @ [s @ ''_coverage_unproven'']"] show ?thesis by auto
  next
    case (Inr u)
    then have "coverage_reason receipts binding previous cutoff er why0 s = Inr why0" by (simp add: coverage_reason_def)
    with Cons.IH [of why0] Inr show ?thesis by auto
  qed
qed simp

text \<open>The evidence a report without reasons rests on.\<close>

definition balanced_wallet :: "pydict \<Rightarrow> pydict \<Rightarrow> string \<Rightarrow> pydt \<Rightarrow> pydt \<Rightarrow> leg list \<Rightarrow> string \<Rightarrow> bool" where
  "balanced_wallet before_side after_side binding previous cutoff ls w = (\<exists>b0 b1.
     read_wallet (dget before_side w) w binding previous = Inr b0 \<and> read_wallet (dget after_side w) w binding cutoff = Inr b1
     \<and> (\<forall>a. dec_val (held b1 a) = dec_val (held b0 a) + movement ls w a))"

definition conserved :: "pydict \<Rightarrow> pydt \<Rightarrow> pydt \<Rightarrow> bool" where
  "conserved inputs previous cutoff = (\<exists>before_side after_side events lss er.
     let account = the_str (dget inputs ''account_id''); binding = the_str (dget inputs ''binding'') in
     snapshot_wallets (dget inputs ''opening'') account binding previous = Inr before_side
     \<and> snapshot_wallets (dget inputs ''closing'') account binding cutoff = Inr after_side
     \<and> dget inputs ''events'' = PList events \<and> mapE event_legs events = Inr lss \<and> (\<forall>e \<in> set events. occurs previous cutoff e)
     \<and> read_events previous cutoff (PList events) = Inr ([], er)
     \<and> (\<forall>s \<in> set surfaces. check_coverage (receipts_of inputs) binding previous cutoff er s = Inr ())
     \<and> (\<forall>w \<in> set wallets. balanced_wallet before_side after_side binding previous cutoff (concat lss) w))"

lemma movement_none: "a \<notin> lg_asset ` set ls \<Longrightarrow> movement ls w a = 0"
  by (induction ls) auto

lemma held_none: "a \<notin> set (map fst b) \<Longrightarrow> held b a = dec_zero"
  using map_of_eq_None_iff [of b a] by (simp add: held_def)

lemma universe_parts:
  "map_of opening w = Some b \<Longrightarrow> set (map fst b) \<subseteq> set (asset_universe opening closing ls)"
  "map_of closing w = Some b \<Longrightarrow> set (map fst b) \<subseteq> set (asset_universe opening closing ls)"
  "lg_asset ` set ls \<subseteq> set (asset_universe opening closing ls)"
  by (auto simp: asset_universe_def dest!: map_of_SomeD) (metis (no_types) fst_conv image_eqI snd_conv UnI1 UnI2)+

lemma balances_everywhere:
  assumes "balances b0 b1 ds w (asset_universe opening closing ls)" and "map_of opening w = Some b0" and "map_of closing w = Some b1"
    and "\<forall>a. dec_val (delta_at ds w a) = movement ls w a"
  shows "dec_val (held b1 a) = dec_val (held b0 a) + movement ls w a"
proof (cases "a \<in> set (asset_universe opening closing ls)")
  case True
  then show ?thesis using assms(1,4) by (simp add: balances_def)
next
  case False
  then have "a \<notin> set (map fst b0)" "a \<notin> set (map fst b1)" "a \<notin> lg_asset ` set ls"
    using universe_parts(1) [OF assms(2)] universe_parts(2) [OF assms(3)] universe_parts(3) by blast+
  then show ?thesis by (simp add: held_none movement_none)
qed

lemma build_in_window_ok:
  assumes "fr_status report = ''UNRECONCILED''"
  shows "\<exists>r. build_in_window inputs previous cutoff report = Inr r \<and> fr_environment r = fr_environment report
    \<and> fr_status r = (if fr_reasons r = [] then ''MATCHED_SYNTHETIC'' else ''UNRECONCILED'')
    \<and> (fr_reasons r = [] \<longrightarrow> conserved inputs previous cutoff)"
proof -
  let ?account = "the_str (dget inputs ''account_id'')" and ?binding = "the_str (dget inputs ''binding'')"
  obtain why0 o_side where side0: "read_side inputs ?account ?binding ''opening'' previous = Inr (why0, o_side)" "sound_side o_side"
    "why0 = [] \<longrightarrow> (\<exists>found. snapshot_wallets (dget inputs ''opening'') ?account ?binding previous = Inr found
      \<and> (\<forall>w \<in> set wallets. \<exists>b. map_of o_side w = Some b \<and> read_wallet (dget found w) w ?binding previous = Inr b))"
    using read_side_ok [where inputs = inputs and account = ?account and binding = ?binding and name = "''opening''" and cutoff = previous] .
  obtain why1 c_side where side1: "read_side inputs ?account ?binding ''closing'' cutoff = Inr (why1, c_side)" "sound_side c_side"
    "why1 = [] \<longrightarrow> (\<exists>found. snapshot_wallets (dget inputs ''closing'') ?account ?binding cutoff = Inr found
      \<and> (\<forall>w \<in> set wallets. \<exists>b. map_of c_side w = Some b \<and> read_wallet (dget found w) w ?binding cutoff = Inr b))"
    using read_side_ok [where inputs = inputs and account = ?account and binding = ?binding and name = "''closing''" and cutoff = cutoff] .
  obtain why2 er where events: "read_events previous cutoff (dget inputs ''events'') = Inr (why2, er)" "sound_legs (er_legs er)"
    "length (er_legs er) \<le> 30000"
    "why2 = [] \<longrightarrow> is_list (dget inputs ''events'') \<and> (\<forall>e \<in> set (the_list (dget inputs ''events'')). occurs previous cutoff e)
      \<and> (\<exists>lss. mapE event_legs (the_list (dget inputs ''events'')) = Inr lss \<and> er_legs er = concat lss)"
    using read_events_ok [where previous = previous and cutoff = cutoff and events = "dget inputs ''events''"] .
  obtain why3 where cover: "foldE (coverage_reason (receipts_of inputs) ?binding previous cutoff er) [] surfaces = Inr why3"
    "why3 = [] \<Longrightarrow> \<forall>s \<in> set surfaces. check_coverage (receipts_of inputs) ?binding previous cutoff er s = Inr ()"
    using coverage_ok [of "receipts_of inputs" ?binding previous cutoff er "[]" surfaces] by blast
  define seen where "seen = why0 @ why1 @ why2 @ why3"
  define proven where "proven = (\<not> list_ex events_doubtful seen)"
  define universe where "universe = asset_universe o_side c_side (er_legs er)"
  have "\<forall>w a. bounded_dec 0 (delta_at [] w a)" "\<forall>w a. dec_val (delta_at [] w a) = 0"
    using bounded_zero by (simp_all add: delta_at_def)
  then obtain ds where ds: "foldE add_leg [] (er_legs er) = Inr ds" "\<forall>w a. bounded_dec (length (er_legs er)) (delta_at ds w a)"
    "\<forall>w a. dec_val (delta_at ds w a) = movement (er_legs er) w a"
    using add_legs [OF events(2), of 0 "[]"] events(3) by auto
  have sound: "sound_deltas ds" using ds(2) events(3) bounded_mono unfolding sound_deltas_def by blast
  let ?P = "\<lambda>w c. sound_residuals (snd (snd c)) \<and> (\<forall>b0 b1. fst c = [] \<longrightarrow> proven \<longrightarrow> map_of o_side w = Some b0 \<longrightarrow> map_of c_side w = Some b1
      \<longrightarrow> balances b0 b1 ds w universe)"
  have "\<forall>w \<in> set wallets. \<exists>c. compare_wallet o_side c_side ds universe proven w = Inr c \<and> ?P w c"
    using compare_wallet_ok [OF side0(2) side1(2) sound, of universe proven] by fastforce
  from mapE_total [OF this] obtain compared where cs: "mapE (compare_wallet o_side c_side ds universe proven) wallets = Inr compared"
    "list_all2 ?P wallets compared" by blast
  have four: "length wallets = 4" "length compared = 4" using list_all2_lengthD [OF cs(2)] by (simp_all add: wallets_def)
  let ?residuals = "zip wallets (map (\<lambda>c. snd (snd c)) compared)"
  have "\<forall>p \<in> set ?residuals. sound_residuals (snd p)"
    using cs(2) by (auto simp: list_all2_conv_all_nth set_zip)
  then obtain combined where combined: "combine o_side c_side ds universe ?residuals = Inr combined"
    using combine_ok [OF side0(2) side1(2) sound, of ?residuals universe] four by auto
  define reasons where "reasons = sort (remdups (seen @ concat (map fst compared)))"
  define r where "r = report\<lparr>fr_wallets := zip wallets (map (\<lambda>c. fst (snd c)) compared), fr_legs := (if proven then map leg_value (er_legs er) else []),
    fr_combined := combined, fr_reasons := reasons, fr_status := (if reasons = [] then ''MATCHED_SYNTHETIC'' else fr_status report)\<rparr>"
  have built: "build_in_window inputs previous cutoff report = Inr r"
    unfolding build_in_window_def Let_def side0(1) side1(1) events(1) cover(1) bindE.simps prod.case seen_def [symmetric]
      proven_def [symmetric] universe_def [symmetric] ds(1) cs(1) combined reasons_def [symmetric] r_def [symmetric] by (rule refl)
  have conserved: "conserved inputs previous cutoff" if "reasons = []"
  proof -
    have "set reasons = {}" using that by simp
    then have clean: "seen = []" "\<forall>c \<in> set compared. fst c = []" by (auto simp: reasons_def)
    then have why: "why0 = []" "why1 = []" "why2 = []" "why3 = []" and proven by (simp_all add: seen_def proven_def)
    obtain found0 where f0: "snapshot_wallets (dget inputs ''opening'') ?account ?binding previous = Inr found0"
      "\<forall>w \<in> set wallets. \<exists>b. map_of o_side w = Some b \<and> read_wallet (dget found0 w) w ?binding previous = Inr b"
      using side0(3) [THEN mp, OF why(1)] by blast
    obtain found1 where f1: "snapshot_wallets (dget inputs ''closing'') ?account ?binding cutoff = Inr found1"
      "\<forall>w \<in> set wallets. \<exists>b. map_of c_side w = Some b \<and> read_wallet (dget found1 w) w ?binding cutoff = Inr b"
      using side1(3) [THEN mp, OF why(2)] by blast
    obtain es where es: "dget inputs ''events'' = PList es" using events(4) [THEN mp, OF why(3)] by (cases "dget inputs ''events''") auto
    obtain lss where lss: "\<forall>e \<in> set es. occurs previous cutoff e" "mapE event_legs es = Inr lss" "er_legs er = concat lss"
      using events(4) [THEN mp, OF why(3)] unfolding es the_list.simps by blast
    have "balanced_wallet found0 found1 ?binding previous cutoff (concat lss) w" if w: "w \<in> set wallets" for w
    proof -
      obtain i where i: "i < length wallets" "wallets ! i = w" using w by (auto simp: in_set_conv_nth)
      obtain b0 b1 where b: "map_of o_side w = Some b0" "read_wallet (dget found0 w) w ?binding previous = Inr b0"
        "map_of c_side w = Some b1" "read_wallet (dget found1 w) w ?binding cutoff = Inr b1"
        using f0(2) f1(2) w by blast
      have "?P w (compared ! i)" "compared ! i \<in> set compared" using cs(2) i four by (auto simp: list_all2_conv_all_nth)
      then have "balances b0 b1 ds w universe" using clean(2) \<open>proven\<close> b(1,3) by blast
      from balances_everywhere [OF this [unfolded universe_def] b(1,3)] ds(3) have "dec_val (held b1 a) = dec_val (held b0 a) + movement (concat lss) w a" for a
        by (simp only: lss(3) [symmetric] simp_thms)
      with b(2,4) show ?thesis unfolding balanced_wallet_def by blast
    qed
    with f0(1) f1(1) es lss(1,2) events(1) [unfolded why(3)] cover(2) [OF why(4)] show ?thesis
      unfolding conserved_def Let_def by metis
  qed
  have "fr_status r = (if fr_reasons r = [] then ''MATCHED_SYNTHETIC'' else ''UNRECONCILED'')" "fr_reasons r = reasons" "fr_environment r = fr_environment report"
    using assms by (simp_all add: r_def)
  with built conserved show ?thesis by auto
qed

lemma guarded_window [guards]: "guarded (forward_window inputs)"
  unfolding forward_window_def by (intro guarded_bind guards guarded_simps)

lemma build_report_ok:
  obtains r where "build_report inputs = Inr r" and "fr_environment r = ''synthetic''"
    and "fr_status r = (if fr_reasons r = [] then ''MATCHED_SYNTHETIC'' else ''UNRECONCILED'')"
    and "fr_reasons r = [] \<longrightarrow> (\<exists>anchor previous cutoff. forward_window inputs = Inr (anchor, previous, cutoff) \<and> conserved inputs previous cutoff)"
proof (cases "forward_window inputs")
  case (Inl e)
  then have "forward_error e" using guarded_window [of inputs] by simp
  with Inl show thesis
    by (intro that [of "(blank_report inputs)\<lparr>fr_reasons := [''forward_window_invalid'']\<rparr>"]) (simp_all add: build_report_def blank_report_def)
next
  case (Inr w)
  then obtain anchor previous cutoff where w: "forward_window inputs = Inr (anchor, previous, cutoff)" by (cases w) auto
  let ?report = "(blank_report inputs)\<lparr>fr_anchor := PStr (utc_text anchor), fr_previous := PStr (utc_text previous), fr_cutoff := PStr (utc_text cutoff)\<rparr>"
  have status: "fr_status ?report = ''UNRECONCILED''" "fr_environment ?report = ''synthetic''" by (simp_all add: blank_report_def)
  obtain r where r: "build_in_window inputs previous cutoff ?report = Inr r" "fr_environment r = ''synthetic''"
    "fr_status r = (if fr_reasons r = [] then ''MATCHED_SYNTHETIC'' else ''UNRECONCILED'')"
    "fr_reasons r = [] \<longrightarrow> conserved inputs previous cutoff"
    using build_in_window_ok [OF status(1), of inputs previous cutoff] unfolding status(2) by (elim exE conjE) (rule that)
  from w r(1) have "build_report inputs = Inr r" by (simp add: build_report_def)
  then show thesis using r(2,3) by (rule that) (use r(4) w in blast)
qed

lemma private_report_fields:
  "fr_reasons (private_report r) = fr_reasons r" "fr_status (private_report r) = observed_status (fr_status r)"
  "fr_environment (private_report r) = ''private_observation''"
  by (simp_all add: private_report_def)


text \<open>
  C21: a matched report conserves quantities. The two snapshots and the events it was built from were all
  read: every wallet of both snapshots under a complete receipt, every event inside the window and into its
  legs, every surface of events under a receipt for exactly this window and all assets. And for every
  wallet and every asset the closing quantity is exactly the opening one plus the sum of the legs.
\<close>

theorem matched_report_conserves:
  assumes "build_forward_report fixture expected_account expected_binding = Inr r"
    and "fr_status r = ''MATCHED_SYNTHETIC'' \<or> fr_status r = ''MATCHED_OBSERVATION''"
  shows "\<exists>inputs anchor previous cutoff. fixture = PDict inputs \<and> forward_window inputs = Inr (anchor, previous, cutoff)
    \<and> conserved inputs previous cutoff \<and> fr_reasons r = []"
proof -
  obtain inputs synthetic where f: "fixture = PDict inputs" "admitted inputs expected_account expected_binding = Inr synthetic"
    using assms(1) by (cases fixture) (auto simp: build_forward_report_def bindE_Inr_iff)
  obtain r0 where r0: "build_report inputs = Inr r0" "fr_status r0 = (if fr_reasons r0 = [] then ''MATCHED_SYNTHETIC'' else ''UNRECONCILED'')"
    "fr_reasons r0 = [] \<longrightarrow> (\<exists>anchor previous cutoff. forward_window inputs = Inr (anchor, previous, cutoff) \<and> conserved inputs previous cutoff)"
    by (rule build_report_ok)
  have "r = (if synthetic then r0 else private_report r0)" using assms(1) f r0(1) by (simp add: build_forward_report_def)
  then have clean: "fr_reasons r = fr_reasons r0" "fr_reasons r0 = []"
    using assms(2) r0(2) by (auto simp: private_report_fields observed_status_def split: if_splits)
  then have "fr_reasons r = []" by simp
  moreover obtain anchor previous cutoff where "forward_window inputs = Inr (anchor, previous, cutoff)" "conserved inputs previous cutoff"
    using r0(3) [THEN mp, OF clean(2)] by (elim exE conjE)
  ultimately show ?thesis using f(1) by (intro exI conjI)
qed

text \<open>A day with one transfer of one USDT from the spot wallet to the funding wallet.\<close>

definition day_start :: string where "day_start = ''2026-11-03T12:00:00Z''"

definition day_end :: string where "day_end = ''2026-11-04T12:00:00Z''"

definition sample_wallet :: "string \<Rightarrow> string \<Rightarrow> pyval" where
  "sample_wallet moment q = PDict [(''balances'', PDict [(''USDT'', PStr q)]),
     (''receipt'', sample_receipt day_start moment [PDict [(''asset'', PStr ''USDT''), (''quantity'', PStr q)]])]"

definition sample_snapshot :: "string \<Rightarrow> string \<Rightarrow> string \<Rightarrow> pyval" where
  "sample_snapshot moment spot funding = PDict [(''account_id'', PStr ''binance-paper-mock-001''), (''binding'', PStr sample_source), (''as_of'', PStr moment),
     (''wallets'', PDict [(''spot'', sample_wallet moment spot), (''funding'', sample_wallet moment funding),
        (''flexible_earn'', sample_wallet moment ''0''), (''locked_earn'', sample_wallet moment ''0'')])]"

definition sample_transfer :: pyval where
  "sample_transfer = PDict [(''id'', PStr ''t1''), (''kind'', PStr ''transfer''), (''at'', PStr day_end), (''status'', PStr ''SUCCESS''),
     (''asset'', PStr ''USDT''), (''quantity'', PStr ''1''), (''source_wallet'', PStr ''spot''), (''destination_wallet'', PStr ''funding''),
     (''fee_quantity'', PStr ''0'')]"

definition sample_day :: pydict where
  "sample_day = [(''environment'', PStr ''synthetic''), (''account_id'', PStr ''binance-paper-mock-001''), (''binding'', PStr sample_source),
     (''anchor_at'', PStr day_start), (''previous_cutoff'', PStr day_start), (''cutoff'', PStr day_end),
     (''opening'', sample_snapshot day_start ''1'' ''0''), (''closing'', sample_snapshot day_end ''0'' ''1''),
     (''events'', PList [sample_transfer]),
     (''event_receipts'', PDict (map (\<lambda>s. (s, sample_receipt day_start day_end (if s = ''transfers'' then [sample_transfer] else []))) surfaces))]"

definition sample_one :: pydec where "sample_one = Dec False 1 0"

lemma sample_quantities_read: "quantity (PStr ''1'') = Inr sample_one" "quantity (PStr ''0'') = Inr dec_zero" "asset_of (PStr ''USDT'') = Inr ''USDT''"
  unfolding sample_one_def by code_simp+

lemma sample_wallet_read:
  assumes "parse_time (PStr moment) = Inr t" and "quantity (PStr q) = Inr d"
  shows "read_wallet (sample_wallet moment q) w sample_source t = Inr [(''USDT'', d)]"
proof -
  have "check_receipt (sample_receipt day_start moment [PDict [(''asset'', PStr ''USDT''), (''quantity'', PStr q)]]) sample_source t
      [PDict [(''asset'', PStr ''USDT''), (''quantity'', PStr q)]] = Inr ()"
    using assms(1) by (intro sample_receipt_ok) simp_all
  with assms(2) sample_quantities_read(3) show ?thesis
    by (simp add: read_wallet_def sample_wallet_def listed_balance_def)
qed

lemma sample_side:
  assumes "parse_time (PStr moment) = Inr t" and "quantity (PStr spot) = Inr d0" and "quantity (PStr funding) = Inr d1"
    and "dget inputs name = sample_snapshot moment spot funding"
  shows "read_side inputs ''binance-paper-mock-001'' sample_source name t
    = Inr ([], [(''spot'', [(''USDT'', d0)]), (''funding'', [(''USDT'', d1)]), (''flexible_earn'', [(''USDT'', dec_zero)]), (''locked_earn'', [(''USDT'', dec_zero)])])"
  using assms(1,4) sample_wallet_read [OF assms(1,2)] sample_wallet_read [OF assms(1,3)] sample_wallet_read [OF assms(1) sample_quantities_read(2)]
  by (simp add: read_side_def snapshot_wallets_def sample_snapshot_def wallets_def read_side_wallet_def)

definition sample_legs :: "leg list" where
  "sample_legs = [\<lparr>lg_wallet = ''spot'', lg_asset = ''USDT'', lg_quantity = Dec True 1 0\<rparr>, \<lparr>lg_wallet = ''funding'', lg_asset = ''USDT'', lg_quantity = sample_one\<rparr>]"

lemma sample_events:
  "read_events (sample_noon 3) (sample_noon 4) (PList [sample_transfer])
     = Inr ([], \<lparr>er_unproven = False, er_rows = [(''transfers'', sample_transfer)], er_seen = [(''transfers'', ''t1'')], er_legs = sample_legs\<rparr>)"
proof -
  have legs: "legs_of (the_dict sample_transfer) ''transfer'' = Inr sample_legs"
    unfolding sample_one_def sample_transfer_def sample_legs_def day_end_def by code_simp
  have "dt_utc (sample_noon 3) < dt_utc (sample_noon 4)" "opaque (PStr ''t1'')" "map_of surface_by_kind ''transfer'' = Some ''transfers''" by code_simp+
  with legs sample_noons(2) show ?thesis
    by (simp add: read_events_def read_event_def no_events_def sample_transfer_def day_end_def Let_def)
qed

definition sample_read :: events_read where
  "sample_read = \<lparr>er_unproven = False, er_rows = [(''transfers'', sample_transfer)], er_seen = [(''transfers'', ''t1'')], er_legs = sample_legs\<rparr>"

lemma sample_coverage:
  "foldE (coverage_reason (receipts_of sample_day) sample_source (sample_noon 3) (sample_noon 4) sample_read) [] surfaces = Inr []"
proof -
  have one: "check_coverage (receipts_of sample_day) sample_source (sample_noon 3) (sample_noon 4) sample_read s = Inr ()" if s: "s \<in> set surfaces" for s
  proof -
    let ?rows = "if s = ''transfers'' then [sample_transfer] else []"
    have "dget (receipts_of sample_day) s = sample_receipt day_start day_end ?rows"
      using s by (auto simp: receipts_of_def sample_day_def surfaces_def)
    moreover have "surface_rows sample_read s = ?rows" by (simp add: surface_rows_def sample_read_def)
    moreover have "check_receipt (sample_receipt day_start day_end ?rows) sample_source (sample_noon 4) ?rows = Inr ()"
      using sample_noons(2) by (intro sample_receipt_ok) (simp_all add: day_end_def sample_transfer_def)
    moreover have "dget (the_dict (sample_receipt day_start day_end rows)) ''start_exclusive'' = PStr day_start"
      "dget (the_dict (sample_receipt day_start day_end rows)) ''end_inclusive'' = PStr day_end"
      "dget (the_dict (sample_receipt day_start day_end rows)) ''universe'' = PStr ''all_assets''" for rows
      by (simp_all add: sample_receipt_def del: json_dumps.simps)
    ultimately show ?thesis using sample_noons by (simp add: check_coverage_def Let_def day_start_def day_end_def)
  qed
  have "foldE (coverage_reason (receipts_of sample_day) sample_source (sample_noon 3) (sample_noon 4) sample_read) [] ss = Inr []"
    if "set ss \<subseteq> set surfaces" for ss
    using that one by (induction ss) (simp_all add: coverage_reason_def)
  then show ?thesis by blast
qed

definition sample_sides :: "side \<times> side" where
  "sample_sides = ([(''spot'', [(''USDT'', sample_one)]), (''funding'', [(''USDT'', dec_zero)]), (''flexible_earn'', [(''USDT'', dec_zero)]), (''locked_earn'', [(''USDT'', dec_zero)])],
     [(''spot'', [(''USDT'', dec_zero)]), (''funding'', [(''USDT'', sample_one)]), (''flexible_earn'', [(''USDT'', dec_zero)]), (''locked_earn'', [(''USDT'', dec_zero)])])"

lemma sample_compared:
  obtains ds cs where "foldE add_leg [] sample_legs = Inr ds"
    and "mapE (compare_wallet (fst sample_sides) (snd sample_sides) ds (asset_universe (fst sample_sides) (snd sample_sides) sample_legs) True) wallets = Inr cs"
    and "concat (map fst cs) = []"
proof -
  have "(case foldE add_leg [] sample_legs of Inl e \<Rightarrow> False | Inr ds \<Rightarrow>
     (case mapE (compare_wallet (fst sample_sides) (snd sample_sides) ds (asset_universe (fst sample_sides) (snd sample_sides) sample_legs) True) wallets of
        Inl e \<Rightarrow> False | Inr cs \<Rightarrow> concat (map fst cs) = []))"
    by code_simp
  then show thesis by (auto split: sum.splits intro: that)
qed

lemma sample_window:
  "forward_window sample_day = Inr (sample_noon 3, sample_noon 3, sample_noon 4)"
proof -
  have "dt_utc program_start \<le> dt_utc (sample_noon 3) \<and> dt_utc (sample_noon 3) < dt_utc (sample_noon 4)
      \<and> dt_utc (sample_noon 4) - dt_utc (sample_noon 3) \<le> 86400 * us_per_second" by code_simp
  with sample_noons show ?thesis by (simp add: forward_window_def sample_day_def day_start_def day_end_def)
qed

lemma sample_matched: "\<exists>r. build_forward_report (PDict sample_day) PNone PNone = Inr r \<and> fr_status r = ''MATCHED_SYNTHETIC''"
proof -
  let ?report = "(blank_report sample_day)\<lparr>fr_anchor := PStr (utc_text (sample_noon 3)), fr_previous := PStr (utc_text (sample_noon 3)),
    fr_cutoff := PStr (utc_text (sample_noon 4))\<rparr>"
  have status: "fr_status ?report = ''UNRECONCILED''" by (simp add: blank_report_def)
  obtain r where r: "build_in_window sample_day (sample_noon 3) (sample_noon 4) ?report = Inr r"
    "fr_status r = (if fr_reasons r = [] then ''MATCHED_SYNTHETIC'' else ''UNRECONCILED'')"
    using build_in_window_ok [OF status, of sample_day "sample_noon 3" "sample_noon 4"] by (elim exE conjE) (rule that)
  have side0: "read_side sample_day ''binance-paper-mock-001'' sample_source ''opening'' (sample_noon 3) = Inr ([], fst sample_sides)"
    using sample_side [OF sample_noons(1) sample_quantities_read(1,2), of sample_day "''opening''"]
    by (simp add: sample_day_def day_start_def sample_sides_def)
  have side1: "read_side sample_day ''binance-paper-mock-001'' sample_source ''closing'' (sample_noon 4) = Inr ([], snd sample_sides)"
    using sample_side [OF sample_noons(2) sample_quantities_read(2,1), of sample_day "''closing''"]
    by (simp add: sample_day_def day_end_def sample_sides_def)
  have events: "read_events (sample_noon 3) (sample_noon 4) (dget sample_day ''events'') = Inr ([], sample_read)" "er_legs sample_read = sample_legs"
    using sample_events by (simp_all add: sample_day_def sample_read_def)
  obtain ds cs where compared: "foldE add_leg [] sample_legs = Inr ds"
    "mapE (compare_wallet (fst sample_sides) (snd sample_sides) ds (asset_universe (fst sample_sides) (snd sample_sides) sample_legs) True) wallets = Inr cs"
    "concat (map fst cs) = []"
    by (rule sample_compared)
  have names: "the_str (dget sample_day ''account_id'') = ''binance-paper-mock-001''" "the_str (dget sample_day ''binding'') = sample_source"
    by (simp_all add: sample_day_def)
  have "fr_reasons r = []"
    using r(1) unfolding build_in_window_def names Let_def side0 side1 events sample_coverage bindE.simps prod.case
    by (simp add: compared events(2) bindE_Inr_iff) auto
  moreover have "build_report sample_day = build_in_window sample_day (sample_noon 3) (sample_noon 4) ?report"
    by (simp add: build_report_def sample_window)
  moreover have "admitted sample_day PNone PNone = Inr True"
  proof -
    have "marked_name ''binance-paper-mock-'' (PStr ''binance-paper-mock-001'')" "marked_name ''synthetic-'' (PStr sample_source)" by code_simp+
    then show ?thesis by (simp add: admitted_def sample_day_def)
  qed
  ultimately show ?thesis using r by (simp add: build_forward_report_def)
qed

theorem matched_report_conserves_witness:
  "\<exists>r. build_forward_report (PDict sample_day) PNone PNone = Inr r \<and> fr_reasons r = []
     \<and> conserved sample_day (sample_noon 3) (sample_noon 4)"
proof -
  obtain r where r: "build_forward_report (PDict sample_day) PNone PNone = Inr r" "fr_status r = ''MATCHED_SYNTHETIC''"
    using sample_matched by blast
  then obtain inputs anchor previous cutoff where f: "PDict sample_day = PDict inputs"
    "forward_window inputs = Inr (anchor, previous, cutoff)"
    "conserved inputs previous cutoff" "fr_reasons r = []"
    using matched_report_conserves [OF r(1)] by blast
  have same: "inputs = sample_day" using f(1) by simp
  have ends: "previous = sample_noon 3" "cutoff = sample_noon 4"
    using trans [OF f(2) [unfolded same, symmetric] sample_window] by simp_all
  show ?thesis using r(1) f(3,4) unfolding same ends by blast
qed

end
