(* ===== verification/Observation_Safety.thy ===== *)
theory Observation_Safety
  imports Observation
begin

text \<open>
  When an observation is published as matched: exactly when the four snapshots were complete, recent and
  taken in order within the window, the two of the broker and the two of the ledger agree with each other and
  with the reference, and the sink took the full report.
\<close>

section \<open>One snapshot\<close>

definition observed :: "pydict \<Rightarrow> pydt \<Rightarrow> pydict \<Rightarrow> string \<Rightarrow> pydict \<Rightarrow> pydt \<Rightarrow> bool" where
  "observed config now inputs name d t = (dget inputs name = PDict d \<and> bindE (dsub d ''observed_at'') parse_time = Inr t
     \<and> dt_utc now - dt_utc t \<le> plain_value (dget config ''max_age_seconds'') * us_per_second
     \<and> dt_utc t - dt_utc now \<le> 300 * us_per_second \<and> dget d ''complete'' = PBool True)"

definition broker_seen :: "pydict \<Rightarrow> pydt \<Rightarrow> pydict \<Rightarrow> string \<Rightarrow> pydt \<Rightarrow> pyval \<Rightarrow> bool" where
  "broker_seen config now inputs name t v = (\<exists>d. observed config now inputs name d t
     \<and> py_eq (dget d ''account_id'') (dget config ''expected_account_id'') \<and> broker_values (PDict d) = Inr v)"

definition ledger_seen :: "pydict \<Rightarrow> pydt \<Rightarrow> pydict \<Rightarrow> string \<Rightarrow> pydt \<Rightarrow> pyval \<times> pyval \<Rightarrow> bool" where
  "ledger_seen config now inputs name t l = (\<exists>d. observed config now inputs name d t
     \<and> labelled ''synthetic-'' (dget d ''version'') \<and> is_list (dget d ''entries'') \<and> l = (dget d ''version'', dget d ''entries''))"

text \<open>A reason once noted stays; a snapshot without one was seen as required.\<close>

definition noted :: "sightings \<Rightarrow> sightings \<Rightarrow> bool" where
  "noted s s' = (\<exists>more. sg_reasons s' = sg_reasons s @ more)"

lemma noted_refl [simp]: "noted s s"
  by (simp add: noted_def)

lemma noted_reason [simp]: "noted s (note_reason r s)" "sg_reasons (note_reason r s) = sg_reasons s @ [r]"
  by (simp_all add: noted_def note_reason_def)

lemma noted_trans [trans]: "noted a b \<Longrightarrow> noted b c \<Longrightarrow> noted a c"
  by (auto simp: noted_def)

lemma noted_clean: "noted a b \<Longrightarrow> sg_reasons b = [] \<Longrightarrow> sg_reasons a = []"
  by (auto simp: noted_def)

lemma note_when_clean: "sg_reasons (note_when b r s) = [] \<longleftrightarrow> \<not> b \<and> sg_reasons s = []"
  by (simp add: note_when_def note_reason_def)

lemma note_when_False: "note_when False r s = s"
  by (simp add: note_when_def)

lemma note_when_noted: "noted s (note_when b r s)"
  by (simp add: note_when_def)

lemma caught_as_clean:
  "caught_as r s m = Inr s' \<and> sg_reasons s' = [] \<longleftrightarrow> m = Inr s' \<and> sg_reasons s' = []"
  by (auto simp: caught_as_def note_reason_def split: sum.splits)

text \<open>What is noted about a snapshot that could be timed, before its content is read.\<close>

definition timed :: "pydict \<Rightarrow> pydt \<Rightarrow> pydict \<Rightarrow> string \<Rightarrow> sightings \<Rightarrow> pydt \<Rightarrow> sightings" where
  "timed config now d incomplete s t = note_when (dget d ''complete'' \<noteq> PBool True) incomplete
     (note_when (300 * us_per_second < dt_utc t - dt_utc now) ''input_future''
       (note_when (plain_value (dget config ''max_age_seconds'') * us_per_second < dt_utc now - dt_utc t) ''input_stale''
         (s\<lparr>sg_times := sg_times s @ [dt_utc t]\<rparr>)))"

lemma timed_clean:
  assumes "dget inputs name = PDict d" and "bindE (dsub d ''observed_at'') parse_time = Inr t"
  shows "sg_reasons (timed config now d incomplete s t) = [] \<longleftrightarrow> sg_reasons s = [] \<and> observed config now inputs name d t"
    and "observed config now inputs name d t \<Longrightarrow> timed config now d incomplete s t = s\<lparr>sg_times := sg_times s @ [dt_utc t]\<rparr>"
  using assms by (auto simp: timed_def observed_def note_when_clean not_less) (simp add: note_when_def)

lemma observed_same: "observed config now inputs name d t \<Longrightarrow> observed config now inputs name d' t' \<Longrightarrow> d' = d \<and> t' = t"
  by (simp add: observed_def)

lemma untimed_clean:
  assumes "\<nexists>d t. dget inputs name = PDict d \<and> bindE (dsub d ''observed_at'') parse_time = Inr t"
  shows "\<not> (observe_snapshot config now inputs s name = Inr s' \<and> sg_reasons s' = [])" and "\<not> observed config now inputs name d t"
  using assms by (auto simp: observe_snapshot_def observed_def caught_as_def Let_def note_reason_def split: pyval.splits sum.splits if_splits)

lemma broker_clean:
  assumes broker: "starts_with name ''broker_'' = True"
  shows "observe_snapshot config now inputs s name = Inr s' \<and> sg_reasons s' = []
    \<longleftrightarrow> sg_reasons s = [] \<and> (\<exists>t v. broker_seen config now inputs name t v
          \<and> s' = s\<lparr>sg_times := sg_times s @ [dt_utc t], sg_brokers := sg_brokers s @ [v]\<rparr>)"
proof (cases "\<exists>d t. dget inputs name = PDict d \<and> bindE (dsub d ''observed_at'') parse_time = Inr t")
  case True
  then obtain d t where d: "dget inputs name = PDict d" "bindE (dsub d ''observed_at'') parse_time = Inr t" by blast
  let ?same = "py_eq (dget d ''account_id'') (dget config ''expected_account_id'')"
  let ?s = "note_when (\<not> ?same) ''account_identity_mismatch'' (timed config now d ''broker_snapshot_incomplete'' s t)"
  have step: "observe_snapshot config now inputs s name = caught_as ''broker_snapshot_incomplete'' ?s
      (bindE (broker_values (PDict d)) (\<lambda>b. Inr (?s\<lparr>sg_brokers := sg_brokers ?s @ [b]\<rparr>)))"
    by (simp only: observe_snapshot_def timed_def Let_def d pyval.case sum.case broker if_True)
  have clean: "sg_reasons ?s = [] \<longleftrightarrow> sg_reasons s = [] \<and> observed config now inputs name d t \<and> ?same"
    by (auto simp: note_when_clean timed_clean [OF d])
  have seen: "broker_seen config now inputs name t' v \<longleftrightarrow> t' = t \<and> observed config now inputs name d t \<and> ?same \<and> broker_values (PDict d) = Inr v"
    for t' v using d by (auto simp: broker_seen_def observed_def)
  have "?s = s\<lparr>sg_times := sg_times s @ [dt_utc t]\<rparr>" if "observed config now inputs name d t" ?same
    using timed_clean(2) [OF d that(1)] that(2) by (simp add: note_when_def)
  then show ?thesis
    unfolding step caught_as_clean seen bindE_Inr_iff sum.inject using clean by fastforce
next
  case False
  then show ?thesis using untimed_clean [OF False] unfolding broker_seen_def by blast
qed

lemma ledger_clean:
  assumes ledger: "starts_with name ''broker_'' = False"
  shows "observe_snapshot config now inputs s name = Inr s' \<and> sg_reasons s' = []
    \<longleftrightarrow> sg_reasons s = [] \<and> (\<exists>t l. ledger_seen config now inputs name t l
          \<and> s' = s\<lparr>sg_times := sg_times s @ [dt_utc t], sg_ledgers := sg_ledgers s @ [l]\<rparr>)"
proof (cases "\<exists>d t. dget inputs name = PDict d \<and> bindE (dsub d ''observed_at'') parse_time = Inr t")
  case True
  then obtain d t where d: "dget inputs name = PDict d" "bindE (dsub d ''observed_at'') parse_time = Inr t" by blast
  let ?shape = "labelled ''synthetic-'' (dget d ''version'') \<and> is_list (dget d ''entries'')"
  let ?s = "timed config now d ''ledger_unavailable'' s t"
  have step: "observe_snapshot config now inputs s name = caught_as ''ledger_unavailable'' ?s
      (bindE (ensure ?shape (ValueError ''ledger_invalid'')) (\<lambda>_. Inr (?s\<lparr>sg_ledgers := sg_ledgers ?s @ [(dget d ''version'', dget d ''entries'')]\<rparr>)))"
    by (simp only: observe_snapshot_def timed_def Let_def d pyval.case sum.case ledger if_False)
  have seen: "ledger_seen config now inputs name t' l \<longleftrightarrow> t' = t \<and> observed config now inputs name d t \<and> ?shape \<and> l = (dget d ''version'', dget d ''entries'')"
    for t' l using d by (auto simp: ledger_seen_def observed_def)
  show ?thesis
    unfolding step caught_as_clean seen bindE_Inr_iff ensure_Inr_iff sum.inject
    using timed_clean [OF d, of config now "''ledger_unavailable''" s] by fastforce
next
  case False
  then show ?thesis using untimed_clean [OF False] unfolding ledger_seen_def by blast
qed

section \<open>The four snapshots\<close>

text \<open>What has been seen when no snapshot gave a reason.\<close>

definition all_seen :: "pydt list \<Rightarrow> pyval list \<Rightarrow> (pyval \<times> pyval) list \<Rightarrow> sightings" where
  "all_seen ts vs ls = \<lparr>sg_reasons = [], sg_times = map dt_utc ts, sg_brokers = vs, sg_ledgers = ls\<rparr>"

lemma all_seen_clean [simp]: "sg_reasons (all_seen ts vs ls) = []"
  by (simp add: all_seen_def)

lemma broker_seen_by:
  assumes "starts_with name ''broker_'' = True"
  shows "observe_snapshot config now inputs s name = Inr s' \<Longrightarrow> sg_reasons s' = [] \<Longrightarrow> sg_reasons s = []"
    and "observe_snapshot config now inputs (all_seen ts vs ls) name = Inr s' \<Longrightarrow> sg_reasons s' = []
      \<Longrightarrow> \<exists>t v. broker_seen config now inputs name t v \<and> s' = all_seen (ts @ [t]) (vs @ [v]) ls"
    and "broker_seen config now inputs name t v
      \<Longrightarrow> observe_snapshot config now inputs (all_seen ts vs ls) name = Inr (all_seen (ts @ [t]) (vs @ [v]) ls)"
proof -
  note clean = broker_clean [OF assms, of config now inputs]
  show "observe_snapshot config now inputs s name = Inr s' \<Longrightarrow> sg_reasons s' = [] \<Longrightarrow> sg_reasons s = []" using clean by blast
  have parts: "all_seen (ts @ [t]) (vs @ [v]) ls = all_seen ts vs ls
      \<lparr>sg_times := sg_times (all_seen ts vs ls) @ [dt_utc t], sg_brokers := sg_brokers (all_seen ts vs ls) @ [v]\<rparr>" for t v
    by (simp add: all_seen_def)
  show "observe_snapshot config now inputs (all_seen ts vs ls) name = Inr s' \<Longrightarrow> sg_reasons s' = []
      \<Longrightarrow> \<exists>t v. broker_seen config now inputs name t v \<and> s' = all_seen (ts @ [t]) (vs @ [v]) ls"
    using clean unfolding parts by blast
  assume "broker_seen config now inputs name t v"
  then have "observe_snapshot config now inputs (all_seen ts vs ls) name = Inr (all_seen (ts @ [t]) (vs @ [v]) ls)
      \<and> sg_reasons (all_seen (ts @ [t]) (vs @ [v]) ls) = []"
    unfolding clean using parts all_seen_clean by blast
  then show "observe_snapshot config now inputs (all_seen ts vs ls) name = Inr (all_seen (ts @ [t]) (vs @ [v]) ls)" ..
qed

lemma ledger_seen_by:
  assumes "starts_with name ''broker_'' = False"
  shows "observe_snapshot config now inputs s name = Inr s' \<Longrightarrow> sg_reasons s' = [] \<Longrightarrow> sg_reasons s = []"
    and "observe_snapshot config now inputs (all_seen ts vs ls) name = Inr s' \<Longrightarrow> sg_reasons s' = []
      \<Longrightarrow> \<exists>t l. ledger_seen config now inputs name t l \<and> s' = all_seen (ts @ [t]) vs (ls @ [l])"
    and "ledger_seen config now inputs name t l
      \<Longrightarrow> observe_snapshot config now inputs (all_seen ts vs ls) name = Inr (all_seen (ts @ [t]) vs (ls @ [l]))"
proof -
  note clean = ledger_clean [OF assms, of config now inputs]
  show "observe_snapshot config now inputs s name = Inr s' \<Longrightarrow> sg_reasons s' = [] \<Longrightarrow> sg_reasons s = []" using clean by blast
  have parts: "all_seen (ts @ [t]) vs (ls @ [l]) = all_seen ts vs ls
      \<lparr>sg_times := sg_times (all_seen ts vs ls) @ [dt_utc t], sg_ledgers := sg_ledgers (all_seen ts vs ls) @ [l]\<rparr>" for t l
    by (simp add: all_seen_def)
  show "observe_snapshot config now inputs (all_seen ts vs ls) name = Inr s' \<Longrightarrow> sg_reasons s' = []
      \<Longrightarrow> \<exists>t l. ledger_seen config now inputs name t l \<and> s' = all_seen (ts @ [t]) vs (ls @ [l])"
    using clean unfolding parts by blast
  assume "ledger_seen config now inputs name t l"
  then have "observe_snapshot config now inputs (all_seen ts vs ls) name = Inr (all_seen (ts @ [t]) vs (ls @ [l]))
      \<and> sg_reasons (all_seen (ts @ [t]) vs (ls @ [l])) = []"
    unfolding clean using parts all_seen_clean by blast
  then show "observe_snapshot config now inputs (all_seen ts vs ls) name = Inr (all_seen (ts @ [t]) vs (ls @ [l]))" ..
qed

text \<open>All four without a reason.\<close>

definition four_seen :: "pydict \<Rightarrow> pydt \<Rightarrow> pydict \<Rightarrow> pydt list \<Rightarrow> pyval list \<Rightarrow> (pyval \<times> pyval) list \<Rightarrow> bool" where
  "four_seen config now inputs ts vs ls = (\<exists>t0 t1 t2 t3 v0 v1 l2 l3. ts = [t0, t1, t2, t3] \<and> vs = [v0, v1] \<and> ls = [l2, l3]
     \<and> broker_seen config now inputs ''broker_before'' t0 v0 \<and> broker_seen config now inputs ''broker_after'' t1 v1
     \<and> ledger_seen config now inputs ''ledger_before'' t2 l2 \<and> ledger_seen config now inputs ''ledger_after'' t3 l3)"

lemma broker_names: "starts_with ''broker_before'' ''broker_'' = True" "starts_with ''broker_after'' ''broker_'' = True"
    "starts_with ''ledger_before'' ''broker_'' = False" "starts_with ''ledger_after'' ''broker_'' = False"
  by simp_all

lemma start_seen: "\<lparr>sg_reasons = [], sg_times = [], sg_brokers = [], sg_ledgers = []\<rparr> = all_seen [] [] []"
  by (simp add: all_seen_def)

lemma four_seen_fold:
  assumes "four_seen config now inputs ts vs ls"
  shows "foldE (observe_snapshot config now inputs) (all_seen [] [] []) snapshot_names = Inr (all_seen ts vs ls)"
  using assms broker_seen_by(3) [OF broker_names(1)] broker_seen_by(3) [OF broker_names(2)]
    ledger_seen_by(3) [OF broker_names(3)] ledger_seen_by(3) [OF broker_names(4)]
  unfolding four_seen_def by (auto simp: snapshot_names_def)

lemma snapshots_clean:
  assumes "foldE (observe_snapshot config now inputs) (all_seen [] [] []) snapshot_names = Inr s" and "sg_reasons s = []"
  obtains ts vs ls where "four_seen config now inputs ts vs ls" and "s = all_seen ts vs ls"
proof -
  obtain s1 s2 s3 where f: "observe_snapshot config now inputs (all_seen [] [] []) ''broker_before'' = Inr s1"
    "observe_snapshot config now inputs s1 ''broker_after'' = Inr s2" "observe_snapshot config now inputs s2 ''ledger_before'' = Inr s3"
    "observe_snapshot config now inputs s3 ''ledger_after'' = Inr s"
    using assms(1) by (auto simp: snapshot_names_def bindE_Inr_iff)
  have c3: "sg_reasons s3 = []" by (rule ledger_seen_by(1) [OF broker_names(4) f(4) assms(2)])
  have c2: "sg_reasons s2 = []" by (rule ledger_seen_by(1) [OF broker_names(3) f(3) c3])
  have c1: "sg_reasons s1 = []" by (rule broker_seen_by(1) [OF broker_names(2) f(2) c2])
  obtain t0 v0 where a0: "broker_seen config now inputs ''broker_before'' t0 v0" "s1 = all_seen [t0] [v0] []"
    using broker_seen_by(2) [OF broker_names(1) f(1) c1] by auto
  obtain t1 v1 where a1: "broker_seen config now inputs ''broker_after'' t1 v1" "s2 = all_seen [t0, t1] [v0, v1] []"
    using broker_seen_by(2) [OF broker_names(2) f(2) [unfolded a0(2)] c2] by auto
  obtain t2 l2 where a2: "ledger_seen config now inputs ''ledger_before'' t2 l2" "s3 = all_seen [t0, t1, t2] [v0, v1] [l2]"
    using ledger_seen_by(2) [OF broker_names(3) f(3) [unfolded a1(2)] c3] by force
  obtain t3 l3 where a3: "ledger_seen config now inputs ''ledger_after'' t3 l3" "s = all_seen [t0, t1, t2, t3] [v0, v1] [l2, l3]"
    using ledger_seen_by(2) [OF broker_names(4) f(4) [unfolded a2(2)] assms(2)] by force
  from a0(1) a1(1) a2(1) a3 show thesis by (intro that) (auto simp: four_seen_def)
qed

section \<open>The observation\<close>

lemma order_seen:
  assumes "dget inputs a = PDict d" and "bindE (dsub d ''observed_at'') parse_time = Inr t"
    and "dget inputs b = PDict e" and "bindE (dsub e ''observed_at'') parse_time = Inr u"
  shows "acquisition_order inputs s (a, b) = Inr (note_when (dt_utc u < dt_utc t) ''acquisition_order_invalid'' s)"
  using assms by (simp add: acquisition_order_def vsub_def)

lemma broker_seen_time:
  "broker_seen config now inputs name t v \<Longrightarrow> \<exists>d. dget inputs name = PDict d \<and> bindE (dsub d ''observed_at'') parse_time = Inr t"
  by (auto simp: broker_seen_def observed_def)

lemma ledger_seen_time:
  "ledger_seen config now inputs name t l \<Longrightarrow> \<exists>d. dget inputs name = PDict d \<and> bindE (dsub d ''observed_at'') parse_time = Inr t"
  by (auto simp: ledger_seen_def observed_def)

lemma four_seen_times:
  assumes "four_seen config now inputs [t0, t1, t2, t3] vs ls"
  shows "\<exists>d. dget inputs ''broker_before'' = PDict d \<and> bindE (dsub d ''observed_at'') parse_time = Inr t0"
    and "\<exists>d. dget inputs ''broker_after'' = PDict d \<and> bindE (dsub d ''observed_at'') parse_time = Inr t1"
    and "\<exists>d. dget inputs ''ledger_before'' = PDict d \<and> bindE (dsub d ''observed_at'') parse_time = Inr t2"
    and "\<exists>d. dget inputs ''ledger_after'' = PDict d \<and> bindE (dsub d ''observed_at'') parse_time = Inr t3"
proof -
  obtain v0 v1 l2 l3 where "broker_seen config now inputs ''broker_before'' t0 v0" "broker_seen config now inputs ''broker_after'' t1 v1"
    "ledger_seen config now inputs ''ledger_before'' t2 l2" "ledger_seen config now inputs ''ledger_after'' t3 l3"
    using assms unfolding four_seen_def by auto
  from broker_seen_time [OF this(1)] broker_seen_time [OF this(2)] ledger_seen_time [OF this(3)] ledger_seen_time [OF this(4)]
  show "\<exists>d. dget inputs ''broker_before'' = PDict d \<and> bindE (dsub d ''observed_at'') parse_time = Inr t0"
    "\<exists>d. dget inputs ''broker_after'' = PDict d \<and> bindE (dsub d ''observed_at'') parse_time = Inr t1"
    "\<exists>d. dget inputs ''ledger_before'' = PDict d \<and> bindE (dsub d ''observed_at'') parse_time = Inr t2"
    "\<exists>d. dget inputs ''ledger_after'' = PDict d \<and> bindE (dsub d ''observed_at'') parse_time = Inr t3" .
qed

lemma orders_seen:
  assumes "four_seen config now inputs [t0, t1, t2, t3] vs ls"
  shows "foldE (acquisition_order inputs) s [(''broker_before'', ''broker_after''), (''ledger_before'', ''ledger_after'')]
    = Inr (note_when (dt_utc t3 < dt_utc t2) ''acquisition_order_invalid'' (note_when (dt_utc t1 < dt_utc t0) ''acquisition_order_invalid'' s))"
proof -
  obtain d0 d1 d2 d3 where d: "dget inputs ''broker_before'' = PDict d0" "bindE (dsub d0 ''observed_at'') parse_time = Inr t0"
    "dget inputs ''broker_after'' = PDict d1" "bindE (dsub d1 ''observed_at'') parse_time = Inr t1"
    "dget inputs ''ledger_before'' = PDict d2" "bindE (dsub d2 ''observed_at'') parse_time = Inr t2"
    "dget inputs ''ledger_after'' = PDict d3" "bindE (dsub d3 ''observed_at'') parse_time = Inr t3"
    using four_seen_times [OF assms] by blast
  show ?thesis by (simp add: order_seen [OF d(1-4)] order_seen [OF d(5-8)])
qed

text \<open>The whole condition: what was seen agrees with itself, in time, and with the reference.\<close>

definition observation_agrees :: "pydict \<Rightarrow> pydt \<Rightarrow> pydict \<Rightarrow> sightings \<Rightarrow> pyval \<times> pyval \<times> pyval \<Rightarrow> bool" where
  "observation_agrees config now inputs s expected = (\<exists>t0 t1 t2 t3 v0 v1 l2 l3.
     four_seen config now inputs [t0, t1, t2, t3] [v0, v1] [l2, l3] \<and> s = all_seen [t0, t1, t2, t3] [v0, v1] [l2, l3]
     \<and> py_eq v0 v1 \<and> py_eq (fst l2) (fst l3) \<and> py_eq (snd l2) (snd l3)
     \<and> Max (set (sg_times s)) - Min (set (sg_times s)) \<le> plain_value (dget config ''max_window_seconds'') * us_per_second
     \<and> dt_utc t0 \<le> dt_utc t1 \<and> dt_utc t2 \<le> dt_utc t3
     \<and> dget inputs ''reference'' \<noteq> PNone \<and> read_reference config (dget inputs ''reference'') = Inr expected)"

lemma notes_clean:
  "sg_reasons (note_when a r1 (note_when b r2 (note_when c r3 (note_when d r4 (note_when e r5 s))))) = []
    \<longleftrightarrow> \<not> a \<and> \<not> b \<and> \<not> c \<and> \<not> d \<and> \<not> e \<and> sg_reasons s = []"
  by (auto simp: note_when_clean)

lemma note_when_parts [simp]: "sg_times (note_when b r s) = sg_times s"
  by (simp add: note_when_def note_reason_def)

lemma acquisition_noted: "acquisition_order inputs s p = Inr s' \<Longrightarrow> noted s s'"
  by (auto simp: acquisition_order_def note_when_noted split: sum.splits if_splits)

lemma reference_clean:
  "observe_reference config reference s = Inr (s', expected) \<and> sg_reasons s' = []
    \<longleftrightarrow> sg_reasons s = [] \<and> s' = s \<and> reference \<noteq> PNone \<and> (\<exists>r. expected = Some r \<and> read_reference config reference = Inr r)"
  by (auto simp: observe_reference_def split: sum.splits)

lemma all_seen_differ:
  "brokers_differ (all_seen ts [v0, v1] ls) \<longleftrightarrow> \<not> py_eq v0 v1"
  "ledgers_differ (all_seen ts vs [l2, l3]) \<longleftrightarrow> \<not> (py_eq (fst l2) (fst l3) \<and> py_eq (snd l2) (snd l3))"
  by (simp_all add: brokers_differ_def ledgers_differ_def all_seen_def case_prod_beta)

lemma all_seen_window:
  "\<not> window_exceeded config (all_seen [t0, t1, t2, t3] vs ls) \<longleftrightarrow>
    Max (set (sg_times (all_seen [t0, t1, t2, t3] vs ls))) - Min (set (sg_times (all_seen [t0, t1, t2, t3] vs ls)))
      \<le> plain_value (dget config ''max_window_seconds'') * us_per_second"
  by (simp only: window_exceeded_def not_less all_seen_def sightings.select_convs list.map list.distinct simp_thms de_Morgan_conj)

lemma observe_clean:
  "observe config now inputs = Inr (s, expected) \<and> sg_reasons s = []
    \<longleftrightarrow> (\<exists>r. expected = Some r \<and> observation_agrees config now inputs s r)"
proof -
  let ?notes = "\<lambda>s. note_when (window_exceeded config s) ''acquisition_window_exceeded''
    (note_when (ledgers_differ s) ''ledger_changed'' (note_when (brokers_differ s) ''broker_changed'' s))"
  have whole: "observe config now inputs = bindE (foldE (observe_snapshot config now inputs) (all_seen [] [] []) snapshot_names) (\<lambda>s.
      bindE (foldE (acquisition_order inputs) (?notes s) [(''broker_before'', ''broker_after''), (''ledger_before'', ''ledger_after'')]) (\<lambda>s4.
      observe_reference config (dget inputs ''reference'') s4))"
    unfolding observe_def Let_def start_seen ..
  show ?thesis
  proof
    assume l: "observe config now inputs = Inr (s, expected) \<and> sg_reasons s = []"
    then obtain s1 s4 where f: "foldE (observe_snapshot config now inputs) (all_seen [] [] []) snapshot_names = Inr s1"
      "foldE (acquisition_order inputs) (?notes s1) [(''broker_before'', ''broker_after''), (''ledger_before'', ''ledger_after'')] = Inr s4"
      "observe_reference config (dget inputs ''reference'') s4 = Inr (s, expected)"
      unfolding whole bindE_Inr_iff by (elim exE conjE) (rule that)
    obtain r where r: "sg_reasons s4 = []" "s = s4" "dget inputs ''reference'' \<noteq> PNone" "expected = Some r"
      "read_reference config (dget inputs ''reference'') = Inr r"
      using f(3) l reference_clean [of config "dget inputs ''reference''" s4 s expected] by blast
    have "noted (?notes s1) s4"
      using f(2) acquisition_noted noted_trans by (auto simp: bindE_Inr_iff) blast
    from noted_clean [OF this r(1)] have "sg_reasons s1 = []" by (simp only: note_when_clean)
    then obtain ts vs ls where seen: "four_seen config now inputs ts vs ls" "s1 = all_seen ts vs ls" by (rule snapshots_clean [OF f(1)])
    then obtain t0 t1 t2 t3 v0 v1 l2 l3 where p: "ts = [t0, t1, t2, t3]" "vs = [v0, v1]" "ls = [l2, l3]"
      unfolding four_seen_def by blast
    have s4: "s4 = note_when (dt_utc t3 < dt_utc t2) ''acquisition_order_invalid'' (note_when (dt_utc t1 < dt_utc t0) ''acquisition_order_invalid'' (?notes s1))"
      using f(2) orders_seen [OF seen(1) [unfolded p(1)]] by simp
    have no: "\<not> dt_utc t3 < dt_utc t2" "\<not> dt_utc t1 < dt_utc t0" "\<not> window_exceeded config s1" "\<not> ledgers_differ s1" "\<not> brokers_differ s1"
      using r(1) unfolding s4 notes_clean by simp_all
    then have s: "s = s1" by (simp add: r(2) s4 note_when_def)
    have "observation_agrees config now inputs s r"
      unfolding observation_agrees_def
    proof (intro exI conjI)
      show "four_seen config now inputs [t0, t1, t2, t3] [v0, v1] [l2, l3]" using seen(1) unfolding p .
      show "s = all_seen [t0, t1, t2, t3] [v0, v1] [l2, l3]" unfolding s seen(2) p ..
      show "py_eq v0 v1" "py_eq (fst l2) (fst l3)" "py_eq (snd l2) (snd l3)"
        using no(4,5) unfolding seen(2) p all_seen_differ by simp_all
      show "Max (set (sg_times s)) - Min (set (sg_times s)) \<le> plain_value (dget config ''max_window_seconds'') * us_per_second"
        using no(3) unfolding s seen(2) p all_seen_window .
      show "dt_utc t0 \<le> dt_utc t1" "dt_utc t2 \<le> dt_utc t3" using no(1,2) by simp_all
    qed (rule r)+
    with r(4) show "\<exists>r. expected = Some r \<and> observation_agrees config now inputs s r" by blast
  next
    assume "\<exists>r. expected = Some r \<and> observation_agrees config now inputs s r"
    then obtain r t0 t1 t2 t3 v0 v1 l2 l3 where g: "expected = Some r" "four_seen config now inputs [t0, t1, t2, t3] [v0, v1] [l2, l3]"
      "s = all_seen [t0, t1, t2, t3] [v0, v1] [l2, l3]" "py_eq v0 v1" "py_eq (fst l2) (fst l3)" "py_eq (snd l2) (snd l3)"
      "Max (set (sg_times s)) - Min (set (sg_times s)) \<le> plain_value (dget config ''max_window_seconds'') * us_per_second"
      "dt_utc t0 \<le> dt_utc t1" "dt_utc t2 \<le> dt_utc t3" "dget inputs ''reference'' \<noteq> PNone"
      "read_reference config (dget inputs ''reference'') = Inr r"
      unfolding observation_agrees_def by (elim exE conjE) (rule that)
    have "\<not> window_exceeded config s" "\<not> ledgers_differ s" "\<not> brokers_differ s"
      using g(4-7) unfolding g(3) all_seen_differ all_seen_window by simp_all
    then have quiet: "?notes s = s" by (simp add: note_when_def)
    have "observe config now inputs = observe_reference config (dget inputs ''reference'') s"
      unfolding whole four_seen_fold [OF g(2), folded g(3)] bindE.simps quiet orders_seen [OF g(2)]
      using g(8,9) by (simp add: note_when_def not_less)
    then show "observe config now inputs = Inr (s, expected) \<and> sg_reasons s = []"
      using g by (simp add: observe_reference_def)
  qed
qed

section \<open>What is published\<close>

definition published :: "pyval \<Rightarrow> string \<Rightarrow> pyval" where
  "published out k = dget (the_dict (hd (the_list (dget (the_dict out) ''observations'')))) k"

lemma published_snapshot:
  "published (mock_snapshot config inputs timestamp moments version rs whole comparison report_id) ''comparison_status'' = PStr comparison"
  by (simp add: published_def mock_snapshot_def Let_def dget_def)

lemma sorted_reasons: "sort (remdups rs) = [] \<longleftrightarrow> rs = []"
  by (metis remdups_eq_nil_iff set_empty set_sort)

text \<open>
  C16: an observation is published as matched exactly when it is earned. The collector returns an envelope
  whose comparison says matched if and only if the sink took the full report and the snapshots agree:
  all four complete, recent, in order and within the window, the account the configured one, the two of the
  broker equal by value, the two of the ledger equal, and both equal to a reference bound to this account
  and scope.
\<close>

theorem published_match_earned:
  assumes "collect_mock_observation (PDict config) (PDict inputs) persist now = Inr out"
  shows "published out ''comparison_status'' = PStr ''matched'' \<longleftrightarrow>
      persist (mock_report inputs [] ''matched'') \<and> (\<exists>s broker entries version. observation_agrees config now inputs s (broker, entries, version)
        \<and> py_eq (hd (sg_brokers s)) broker \<and> py_eq (snd (hd (sg_ledgers s))) entries)"
proof -
  obtain s expected utc where o: "observe config now inputs = Inr (s, expected)"
    and out: "out = (let rs = sort (remdups (sg_reasons s));
         comparison = (if rs \<noteq> [] then ''incomparable'' else if compare_reference s expected then ''matched'' else ''mismatched'');
         version = (case expected of Some (_, _, v) \<Rightarrow> v | None \<Rightarrow> PNone)
       in if persist (mock_report inputs rs comparison)
          then mock_snapshot config inputs (iso_text utc) (sg_times s) version rs (rs = []) comparison (dget inputs ''report_id'')
          else mock_snapshot config inputs (iso_text utc) (sg_times s) version [''report_persistence_failed''] False ''incomparable'' PNone)"
    using assms by (auto simp: collect_mock_observation_def validate_config_def validate_fixture_def bindE_Inr_iff Let_def)
  have kept: "published out ''comparison_status'' = PStr ''matched'' \<longleftrightarrow>
      sg_reasons s = [] \<and> compare_reference s expected \<and> persist (mock_report inputs [] ''matched'')"
    by (auto simp: out Let_def published_snapshot sorted_reasons)
  have agrees: "sg_reasons s = [] \<longleftrightarrow> (\<exists>r. expected = Some r \<and> observation_agrees config now inputs s r)"
    using observe_clean [of config now inputs s expected] o by blast
  have unique: "s' = s" if "observation_agrees config now inputs s' r" for s' r
    using observe_clean [of config now inputs s' "Some r"] that o by simp
  have compared: "compare_reference s (Some (broker, entries, version)) \<longleftrightarrow> py_eq (hd (sg_brokers s)) broker \<and> py_eq (snd (hd (sg_ledgers s))) entries"
    if "observation_agrees config now inputs s (broker, entries, version)" for broker entries version
    using that by (auto simp: observation_agrees_def compare_reference_def all_seen_def)
  show "published out ''comparison_status'' = PStr ''matched'' \<longleftrightarrow>
      persist (mock_report inputs [] ''matched'') \<and> (\<exists>s broker entries version. observation_agrees config now inputs s (broker, entries, version)
        \<and> py_eq (hd (sg_brokers s)) broker \<and> py_eq (snd (hd (sg_ledgers s))) entries)"
    unfolding kept agrees
  proof (intro iffI conjI; elim conjE exE)
    fix r assume "expected = Some r" "observation_agrees config now inputs s r" "compare_reference s expected"
    moreover obtain broker entries version where "r = (broker, entries, version)" by (cases r)
    ultimately show "\<exists>s broker entries version. observation_agrees config now inputs s (broker, entries, version)
        \<and> py_eq (hd (sg_brokers s)) broker \<and> py_eq (snd (hd (sg_ledgers s))) entries" using compared by blast
  next
    fix s' broker entries version
    assume a: "observation_agrees config now inputs s' (broker, entries, version)"
      and e: "py_eq (hd (sg_brokers s')) broker" "py_eq (snd (hd (sg_ledgers s'))) entries"
    have s': "s' = s" by (rule unique [OF a])
    have x: "expected = Some (broker, entries, version)"
      using observe_clean [of config now inputs s' "Some (broker, entries, version)"] a o by simp
    show "\<exists>r. expected = Some r \<and> observation_agrees config now inputs s r" using x a s' by blast
    show "compare_reference s expected" using compared [OF a [unfolded s']] e unfolding x s' by blast
  qed
qed

text \<open>A complete observation.\<close>

definition paper_time :: string where "paper_time = ''2026-11-03T12:00:00Z''"

definition paper_broker :: pydict where
  "paper_broker = [(''account_id'', PStr ''binance-paper-mock-1''), (''observed_at'', PStr paper_time), (''complete'', PBool True),
     (''balances'', PDict [(''BTC'', PStr ''1.50'')]), (''open_orders'', PList []), (''executions'', PList [])]"

definition paper_ledger :: pydict where
  "paper_ledger = [(''version'', PStr ''synthetic-1''), (''observed_at'', PStr paper_time), (''complete'', PBool True), (''entries'', PList [PStr ''entry''])]"

definition paper_reference :: pydict where
  "paper_reference = [(''account_id'', PStr ''binance-paper-mock-1''), (''scope_version'', PStr ''synthetic-1''), (''version'', PStr ''synthetic-1''),
     (''ledger_entries'', PList [PStr ''entry'']), (''balances'', PDict [(''BTC'', PStr ''1.5'')]), (''open_orders'', PList []), (''executions'', PList [])]"

definition paper_config :: pydict where
  "paper_config = [(''mode'', PStr ''mock''), (''source_id'', PStr ''binance.reconciliation_observation.mock''), (''environment'', PStr ''synthetic''),
     (''expected_account_id'', PStr ''binance-paper-mock-1''), (''strategy_profile'', PStr ''synthetic_1''), (''scope_version'', PStr ''synthetic-1''),
     (''max_age_seconds'', PInt 300), (''max_window_seconds'', PInt 1)]"

definition paper_fixture :: pydict where
  "paper_fixture = [(''observation_id'', PStr ''fixture-observation-1''), (''report_id'', PStr ''fixture-report-1''),
     (''broker_before'', PDict paper_broker), (''broker_after'', PDict paper_broker), (''ledger_before'', PDict paper_ledger),
     (''ledger_after'', PDict paper_ledger), (''reference'', PDict paper_reference)]"

definition paper_now :: pydt where "paper_now = DT (day_number 2026 11 3 * us_per_day + us_per_day div 2) (Some 0)"

definition paper_values :: "nat \<Rightarrow> int \<Rightarrow> pyval" where
  "paper_values c e = PList [PDict [(''BTC'', PDec (Dec False c e))], PList [], PList []]"

lemma paper_parts:
  "parse_time (PStr paper_time) = Inr paper_now"
  "broker_values (PDict paper_broker) = Inr (paper_values 150 (- 2))"
  "broker_values (PDict paper_reference) = Inr (paper_values 15 (- 1))"
  "py_eq (paper_values 150 (- 2)) (paper_values 150 (- 2))"
  "py_eq (paper_values 150 (- 2)) (paper_values 15 (- 1))"
  "to_utc paper_now = Inr paper_now"
  by code_simp+

lemma paper_admitted:
  "validate_config (PDict paper_config) = Inr paper_config" "validate_fixture (PDict paper_fixture) = Inr paper_fixture"
  by code_simp+

lemma paper_snapshot:
  "bindE (dsub paper_broker ''observed_at'') parse_time = Inr paper_now" "dget paper_broker ''complete'' = PBool True"
  "dget paper_broker ''account_id'' = PStr ''binance-paper-mock-1''" "dget paper_config ''expected_account_id'' = PStr ''binance-paper-mock-1''"
  "bindE (dsub paper_ledger ''observed_at'') parse_time = Inr paper_now" "dget paper_ledger ''complete'' = PBool True"
  "dget paper_ledger ''version'' = PStr ''synthetic-1''" "dget paper_ledger ''entries'' = PList [PStr ''entry'']"
  "dget paper_config ''scope_version'' = PStr ''synthetic-1''"
  "plain_value (dget paper_config ''max_age_seconds'') = 300" "plain_value (dget paper_config ''max_window_seconds'') = 1"
  "dget paper_reference ''account_id'' = PStr ''binance-paper-mock-1''"
  by (simp_all add: paper_broker_def paper_ledger_def paper_config_def paper_reference_def dget_def dsub_def paper_parts plain_value_def)

lemma paper_label: "labelled ''synthetic-'' (PStr ''synthetic-1'')"
  by code_simp

lemma paper_agrees:
  "observation_agrees paper_config paper_now paper_fixture
     (all_seen [paper_now, paper_now, paper_now, paper_now] [paper_values 150 (- 2), paper_values 150 (- 2)]
        [(PStr ''synthetic-1'', PList [PStr ''entry'']), (PStr ''synthetic-1'', PList [PStr ''entry''])])
     (paper_values 15 (- 1), PList [PStr ''entry''], PStr ''synthetic-1'')"
proof -
  have names: "dget paper_fixture ''broker_before'' = PDict paper_broker" "dget paper_fixture ''broker_after'' = PDict paper_broker"
    "dget paper_fixture ''ledger_before'' = PDict paper_ledger" "dget paper_fixture ''ledger_after'' = PDict paper_ledger"
    "dget paper_fixture ''reference'' = PDict paper_reference"
    by (simp_all add: paper_fixture_def dget_def)
  have brokers: "broker_seen paper_config paper_now paper_fixture n paper_now (paper_values 150 (- 2))"
    if "dget paper_fixture n = PDict paper_broker" for n
    using that by (simp add: broker_seen_def observed_def paper_snapshot paper_parts us_per_second_def)
  have ledgers: "ledger_seen paper_config paper_now paper_fixture n paper_now (PStr ''synthetic-1'', PList [PStr ''entry''])"
    if "dget paper_fixture n = PDict paper_ledger" for n
    using that by (simp add: ledger_seen_def observed_def paper_snapshot paper_label us_per_second_def)
  have reference: "read_reference paper_config (PDict paper_reference) = Inr (paper_values 15 (- 1), PList [PStr ''entry''], PStr ''synthetic-1'')"
    by (simp add: read_reference_def vsub_def paper_snapshot paper_parts) (simp add: paper_reference_def dsub_def paper_snapshot paper_label)
  have seen: "four_seen paper_config paper_now paper_fixture [paper_now, paper_now, paper_now, paper_now]
      [paper_values 150 (- 2), paper_values 150 (- 2)]
      [(PStr ''synthetic-1'', PList [PStr ''entry'']), (PStr ''synthetic-1'', PList [PStr ''entry''])]"
    unfolding four_seen_def by (intro exI conjI) (rule refl brokers ledgers names)+
  have same: "py_eq (PStr ''synthetic-1'') (PStr ''synthetic-1'')" "py_eq (PList [PStr ''entry'']) (PList [PStr ''entry''])" by code_simp+
  show ?thesis
    unfolding observation_agrees_def names reference fst_conv snd_conv
    by (intro exI conjI, rule seen, rule refl, rule paper_parts(4), (simp only: fst_conv snd_conv same)+)
      (simp_all add: paper_snapshot us_per_second_def all_seen_def)
qed

text \<open>It is published as matched, although the reference writes the balance with fewer digits.\<close>

lemma paper_published:
  "\<exists>out. collect_mock_observation (PDict paper_config) (PDict paper_fixture) (\<lambda>_. True) paper_now = Inr out"
proof -
  obtain s r where "observe paper_config paper_now paper_fixture = Inr (s, Some r)"
    using observe_clean paper_agrees by blast
  moreover have "dt_aware paper_now" by code_simp
  ultimately show ?thesis
    by (simp add: collect_mock_observation_def paper_admitted paper_parts Let_def case_prod_beta)
qed

theorem published_match_earned_witness:
  "\<exists>out. collect_mock_observation (PDict paper_config) (PDict paper_fixture) (\<lambda>_. True) paper_now = Inr out
     \<and> published out ''comparison_status'' = PStr ''matched''"
proof -
  obtain out where out: "collect_mock_observation (PDict paper_config) (PDict paper_fixture) (\<lambda>_. True) paper_now = Inr out"
    using paper_published by blast
  have "py_eq (PList [PStr ''entry'']) (PList [PStr ''entry''])" by code_simp
  then have "\<exists>s broker entries version. observation_agrees paper_config paper_now paper_fixture s (broker, entries, version)
        \<and> py_eq (hd (sg_brokers s)) broker \<and> py_eq (snd (hd (sg_ledgers s))) entries"
    using paper_agrees paper_parts(5)
    by (intro exI conjI) (assumption, simp_all only: all_seen_def sightings.select_convs list.sel snd_conv)
  with published_match_earned [OF out] out show ?thesis by blast
qed

end
